(* ===== verification/Prelude.thy ===== *)
theory Prelude
  imports Main "HOL-Library.Signed_Division" "HOL-Library.Sublist" "HOL-Library.Multiset"
begin

text \<open>
  Prelude of the development: the machine-level vocabulary the components share.

  \<^item> Go's fixed-width integers: \<open>wrap64\<close> is the value an \<open>int64\<close> expression has after
    wrap-around, \<open>go_div\<close> the division that truncates towards zero.
  \<^item> Instants are \<open>int\<close> nanoseconds since the Unix epoch, durations \<open>int64\<close> nanoseconds.
  \<^item> A database table is the list of its rows in insertion order; \<open>upd_where\<close> is
    \<open>UPDATE ... WHERE\<close>, \<open>select_one\<close> a statement that returns one of the matching rows
    when no \<open>ORDER BY\<close> says which.
  \<^item> Byte strings: the ASCII part of \<open>strings.TrimSpace\<close>, \<open>strings.ToLower\<close> and of the
    \<open>%d\<close> verb, with the lemmas used for the textual round trips.
  \<^item> \<open>rbind\<close> sequences operations that return an error or a value.
\<close>

named_theorems go_arith "evaluation of Go integer arithmetic inside its range"
named_theorems table_simps "selection from and update of tables"
named_theorems clock_defs "duration constants"

section \<open>Go integers\<close>

definition wrap64 :: "int \<Rightarrow> int" where
  "wrap64 x = (x + 2 ^ 63) mod 2 ^ 64 - 2 ^ 63"

definition int64_range :: "int \<Rightarrow> bool" where
  "int64_range x \<longleftrightarrow> - (2 ^ 63) \<le> x \<and> x < 2 ^ 63"

lemma wrap64_id [go_arith]: "int64_range x \<Longrightarrow> wrap64 x = x"
  by (simp add: wrap64_def int64_range_def)

lemma wrap64_in_range: "int64_range (wrap64 x)"
proof -
  have "0 \<le> (x + 2 ^ 63) mod 2 ^ 64" and "(x + 2 ^ 63) mod 2 ^ 64 < 2 ^ 64"
    by simp_all
  then show ?thesis
    by (simp add: wrap64_def int64_range_def)
qed

lemma int64_rangeI: "0 \<le> x \<Longrightarrow> x < 2 ^ 63 \<Longrightarrow> int64_range x"
  by (simp add: int64_range_def)

text \<open>Go's \<open>/\<close> on integers truncates towards zero.\<close>

definition go_div :: "int \<Rightarrow> int \<Rightarrow> int" where
  "go_div a b = a sdiv b"

lemma go_div_nonneg [go_arith]: "0 \<le> a \<Longrightarrow> 0 < b \<Longrightarrow> go_div a b = a div b"
  by (cases "a = 0") (simp_all add: go_div_def signed_divide_int_def)

section \<open>Time\<close>

definition second :: int where
  [clock_defs]: "second = 1000000000"

definition hour :: int where
  [clock_defs]: "hour = 3600 * second"

text \<open>\<open>time.Duration(days) * 24 * time.Hour\<close>, an \<open>int64\<close> number of nanoseconds.\<close>

definition days_dur :: "int \<Rightarrow> int" where
  "days_dur days = wrap64 (wrap64 (days * 24) * hour)"

definition day_ns :: int where
  [clock_defs]: "day_ns = 86400000000000"

definition max_days :: int where
  "max_days = 106751"

lemma days_dur_exact [go_arith]:
  assumes "0 \<le> d" and "d \<le> max_days"
  shows "days_dur d = d * day_ns"
proof -
  have a: "wrap64 (d * 24) = d * 24"
    using assms by (intro wrap64_id int64_rangeI) (simp_all add: max_days_def)
  have b: "wrap64 (d * 24 * hour) = d * 24 * hour"
    using assms by (intro wrap64_id int64_rangeI) (simp_all add: max_days_def hour_def second_def)
  show ?thesis
    unfolding days_dur_def a b by (simp add: hour_def second_def day_ns_def)
qed

lemma day_ns_pos [simp]: "0 < day_ns"
  by (simp add: day_ns_def)

lemma second_pos [simp]: "0 < second"
  by (simp add: second_def)

text \<open>\<open>t.UnixMilli()\<close>.\<close>

definition unix_milli :: "int \<Rightarrow> int" where
  "unix_milli t = t div 1000000"

section \<open>Results\<close>

fun rbind :: "'e + 'a \<Rightarrow> ('a \<Rightarrow> 'e + 'b) \<Rightarrow> 'e + 'b" where
  "rbind (Inl e) f = Inl e"
| "rbind (Inr x) f = f x"

lemma rbind_Inr_iff: "rbind m f = Inr y \<longleftrightarrow> (\<exists>x. m = Inr x \<and> f x = Inr y)"
  by (cases m) auto

lemma rbindE:
  assumes "rbind m f = Inr y"
  obtains x where "m = Inr x" and "f x = Inr y"
  using assms by (cases m) auto

section \<open>Tables\<close>

definition upd_where :: "('r \<Rightarrow> bool) \<Rightarrow> ('r \<Rightarrow> 'r) \<Rightarrow> 'r list \<Rightarrow> 'r list" where
  "upd_where P f rows = map (\<lambda>r. if P r then f r else r) rows"

lemma upd_where_Nil [table_simps]: "upd_where P f [] = []"
  by (simp add: upd_where_def)

lemma upd_where_Cons [table_simps]:
  "upd_where P f (r # rs) = (if P r then f r else r) # upd_where P f rs"
  by (simp add: upd_where_def)

lemma length_upd_where [simp]: "length (upd_where P f rows) = length rows"
  by (simp add: upd_where_def)

lemma set_upd_where: "set (upd_where P f rows) = (\<lambda>r. if P r then f r else r) ` set rows"
  by (simp add: upd_where_def)

lemma upd_where_all:
  "(\<And>r. P r \<Longrightarrow> Q (f r)) \<Longrightarrow> (\<And>r. \<not> P r \<Longrightarrow> Q r) \<Longrightarrow> \<forall>r \<in> set (upd_where P f rows). Q r"
  by (induction rows) (simp_all add: upd_where_def)

lemma map_upd_where [table_simps]:
  "(\<And>r. P r \<Longrightarrow> g (f r) = g r) \<Longrightarrow> map g (upd_where P f rows) = map g rows"
  by (induction rows) (auto simp: upd_where_def)

lemma filter_upd_where_keep:
  "(\<And>r. P r \<Longrightarrow> \<not> Q r \<and> \<not> Q (f r)) \<Longrightarrow> filter Q (upd_where P f rows) = filter Q rows"
  by (induction rows) (auto simp: upd_where_def)

lemma upd_where_id: "(\<And>r. r \<in> set rows \<Longrightarrow> \<not> P r) \<Longrightarrow> upd_where P f rows = rows"
  by (induction rows) (auto simp: upd_where_def)

lemma find_upd_where:
  "(\<And>r. P r \<Longrightarrow> Q (f r) = Q r) \<Longrightarrow>
   find Q (upd_where P f rows) = map_option (\<lambda>r. if P r then f r else r) (find Q rows)"
  by (induction rows) (auto simp: upd_where_def)

lemma find_upd_where_frame [table_simps]:
  "(\<And>r. P r \<Longrightarrow> \<not> Q r \<and> \<not> Q (f r)) \<Longrightarrow> find Q (upd_where P f rows) = find Q rows"
  by (induction rows) (auto simp: upd_where_def)

lemma find_SomeD: "find P xs = Some x \<Longrightarrow> x \<in> set xs \<and> P x"
  by (auto simp: find_Some_iff)

lemma find_append:
  "find P (xs @ ys) = (case find P xs of None \<Rightarrow> find P ys | Some x \<Rightarrow> Some x)"
  by (induction xs) auto

text \<open>
  A partial unique index (at most one row satisfying \<open>A\<close> per key \<open>g\<close>) survives an update that
  keeps the key and makes no row satisfy \<open>A\<close> that did not.
\<close>

lemma filter_upd_where_keys:
  assumes "\<And>r. r \<in> set rows \<Longrightarrow> P r \<Longrightarrow> g (f r) = g r"
    and "\<And>r. r \<in> set rows \<Longrightarrow> P r \<Longrightarrow> A (f r) \<Longrightarrow> A r"
  shows "subseq (map g (filter A (upd_where P f rows))) (map g (filter A rows))"
  using assms by (induction rows) (auto simp: table_simps)

lemma subseq_distinct: "subseq xs ys \<Longrightarrow> distinct ys \<Longrightarrow> distinct xs"
  by (induction rule: list_emb.induct) (auto dest: list_emb_set)

lemma distinct_filter_upd_where:
  assumes "distinct (map g (filter A rows))"
    and "\<And>r. r \<in> set rows \<Longrightarrow> P r \<Longrightarrow> g (f r) = g r"
    and "\<And>r. r \<in> set rows \<Longrightarrow> P r \<Longrightarrow> A (f r) \<Longrightarrow> A r"
  shows "distinct (map g (filter A (upd_where P f rows)))"
  using assms by (intro subseq_distinct [OF filter_upd_where_keys]) auto

text \<open>Updating the one row with a key changes a count by that row's contribution.\<close>

lemma length_filter_upd_one:
  assumes "distinct (map key rows)" and "find (\<lambda>r. key r = i) rows = Some r"
  shows "length (filter A (upd_where (\<lambda>r. key r = i) f rows)) + (if A r then 1 else 0)
       = length (filter A rows) + (if A (f r) then 1 else 0)"
  using assms
proof (induction rows)
  case Nil
  then show ?case by simp
next
  case (Cons x rows)
  show ?case
  proof (cases "key x = i")
    case True
    then have "upd_where (\<lambda>r. key r = i) f rows = rows"
      using Cons.prems by (intro upd_where_id) (auto, metis image_eqI)
    with True Cons.prems show ?thesis by (simp add: table_simps)
  next
    case False
    with Cons show ?thesis by (simp add: table_simps)
  qed
qed

text \<open>The row with a unique key, and an update of it, in place.\<close>

lemma find_key_split:
  assumes "distinct (map key rows)" and "find (\<lambda>r. key r = i) rows = Some r"
  obtains as bs where "rows = as @ r # bs" and "i \<notin> key ` set as" and "i \<notin> key ` set bs"
    and "\<And>f. upd_where (\<lambda>r. key r = i) f rows = as @ f r # bs"
proof -
  from assms(2) have r: "r \<in> set rows" "key r = i" by (auto dest: find_SomeD)
  then obtain as bs where s: "rows = as @ r # bs" by (auto dest: split_list)
  with assms(1) r(2) have n: "i \<notin> key ` set as" "i \<notin> key ` set bs" by auto
  moreover have "upd_where (\<lambda>r. key r = i) f rows = as @ f r # bs" for f
  proof -
    have "upd_where (\<lambda>r. key r = i) f as = as" "upd_where (\<lambda>r. key r = i) f bs = bs"
      using n by (auto intro!: upd_where_id)
    then show ?thesis using r(2) by (simp add: s upd_where_def)
  qed
  ultimately show thesis using s that by blast
qed

lemma distinct_filter_upd_one:
  assumes "distinct (map key rows)" and "find (\<lambda>r. key r = i) rows = Some r"
    and "distinct (map g (filter A rows))" and "g (f r) = g r"
    and "A (f r) \<Longrightarrow> A r \<or> (\<forall>s \<in> set rows. key s \<noteq> i \<and> A s \<longrightarrow> g s \<noteq> g r)"
  shows "distinct (map g (filter A (upd_where (\<lambda>r. key r = i) f rows)))"
proof -
  obtain as bs where s: "rows = as @ r # bs" "i \<notin> key ` set as" "i \<notin> key ` set bs"
    "\<And>f. upd_where (\<lambda>r. key r = i) f rows = as @ f r # bs"
    using assms(1,2) by (rule find_key_split) blast
  show ?thesis
    unfolding s(4)
  proof (cases "A (f r) \<and> \<not> A r")
    case True
    with assms(5) have "\<forall>s \<in> set as \<union> set bs. A s \<longrightarrow> g s \<noteq> g r"
      using s(1,2,3) by auto
    with True assms(3,4) s(1) show "distinct (map g (filter A (as @ f r # bs)))" by auto
  next
    case False
    with assms(3,4) s(1) show "distinct (map g (filter A (as @ f r # bs)))"
      by (auto split: if_splits)
  qed
qed

text \<open>
  A query for one row without an \<open>ORDER BY\<close>: the executor may hand back any of the matching
  rows. The choice is an argument.
\<close>

definition select_one :: "nat \<Rightarrow> 'r list \<Rightarrow> 'r option" where
  "select_one c rows = (if rows = [] then None else Some (rows ! (c mod length rows)))"

lemma select_one_None [simp]: "select_one c rows = None \<longleftrightarrow> rows = []"
  by (simp add: select_one_def)

lemma select_one_in: "select_one c rows = Some r \<Longrightarrow> r \<in> set rows"
  by (auto simp: select_one_def split: if_splits)

lemma select_one_single [simp]: "select_one c [r] = Some r"
  by (simp add: select_one_def)

lemma select_one_any: "r \<in> set rows \<Longrightarrow> \<exists>c. select_one c rows = Some r"
  by (metis in_set_conv_nth length_pos_if_in_set length_greater_0_conv mod_less select_one_def)

text \<open>\<open>SELECT SUM(...)\<close> over rows.\<close>

lemma sum_list_filter_snoc:
  "sum_list (map f (filter P (xs @ [x]))) =
   sum_list (map f (filter P xs)) + (if P x then f x else (0::int))"
  by simp

section \<open>Strings\<close>

text \<open>
  Strings are byte lists. \<open>is_space\<close> is the ASCII part of Go's \<open>unicode.IsSpace\<close>;
  \<open>ascii_lower\<close> the ASCII part of \<open>strings.ToLower\<close> and of SQL's \<open>LOWER\<close>.
\<close>

definition is_space :: "char \<Rightarrow> bool" where
  "is_space c \<longleftrightarrow> c \<in> {CHR 0x09, CHR 0x0A, CHR 0x0B, CHR 0x0C, CHR 0x0D, CHR '' ''}"

definition trim_space :: "string \<Rightarrow> string" where
  "trim_space s = rev (dropWhile is_space (rev (dropWhile is_space s)))"

definition ascii_lower :: "char \<Rightarrow> char" where
  "ascii_lower c = (if 65 \<le> (of_char c :: nat) \<and> (of_char c :: nat) \<le> 90
     then char_of ((of_char c :: nat) + 32) else c)"

definition to_lower :: "string \<Rightarrow> string" where
  "to_lower s = map ascii_lower s"

definition is_digit :: "char \<Rightarrow> bool" where
  "is_digit c \<longleftrightarrow> 48 \<le> (of_char c :: nat) \<and> (of_char c :: nat) \<le> 57"

definition digit_val :: "char \<Rightarrow> nat" where
  "digit_val c = of_char c - 48"

definition digit_char :: "nat \<Rightarrow> char" where
  "digit_char n = char_of (n + 48)"

lemma of_digit_char: "n < 10 \<Longrightarrow> (of_char (digit_char n) :: nat) = n + 48"
  by (simp add: digit_char_def)

lemma is_digit_digit_char [simp]: "n < 10 \<Longrightarrow> is_digit (digit_char n)"
  by (simp add: is_digit_def of_digit_char)

lemma digit_val_char [simp]: "n < 10 \<Longrightarrow> digit_val (digit_char n) = n"
  by (simp add: digit_val_def of_digit_char)

text \<open>The \<open>%d\<close> verb on a non-negative value, and the value of a digit string.\<close>

fun show_nat :: "nat \<Rightarrow> string" where
  "show_nat n = (if n < 10 then [digit_char n] else show_nat (n div 10) @ [digit_char (n mod 10)])"

declare show_nat.simps [simp del]

definition read_nat :: "string \<Rightarrow> nat" where
  "read_nat s = foldl (\<lambda>acc c. acc * 10 + digit_val c) 0 s"

definition show_int :: "int \<Rightarrow> string" where
  "show_int i = (if i < 0 then CHR ''-'' # show_nat (nat (- i)) else show_nat (nat i))"

lemma show_nat_digits: "\<forall>c \<in> set (show_nat n). is_digit c"
proof (induction n rule: show_nat.induct)
  case (1 n)
  show ?case
    by (cases "n < 10") (use 1 in \<open>auto simp: show_nat.simps [of n]\<close>)
qed

lemma show_nat_nonempty [simp]: "show_nat n \<noteq> []"
  by (simp add: show_nat.simps [of n])

lemma read_show_nat [simp]: "read_nat (show_nat n) = n"
proof (induction n rule: show_nat.induct)
  case (1 n)
  show ?case
  proof (cases "n < 10")
    case True
    then show ?thesis by (simp add: show_nat.simps [of n] read_nat_def)
  next
    case False
    then have "foldl (\<lambda>acc c. acc * 10 + digit_val c) 0 (show_nat (n div 10)) = n div 10"
      using 1 by (simp add: read_nat_def)
    with False show ?thesis
      by (simp add: show_nat.simps [of n] read_nat_def)
  qed
qed

section \<open>Locales\<close>

definition i18n_Default :: string where
  "i18n_Default = ''uz-Latn''"

definition i18n_Supported :: "string list" where
  "i18n_Supported = [''uz-Latn'', ''uz-Cyrl'', ''ru'', ''kaa'']"

end
