(* ===== verification/Billing_Store.thy ===== *)
theory Billing_Store
  imports Prelude
begin

text \<open>
  The billing tables and the SQL statements the billing code issues on them
  (\<open>internal/db/queries/billing.sql\<close>, \<open>auth.sql\<close>, \<open>referral.sql\<close> and
  \<open>referral_wallet.sql\<close>, compiled into \<open>internal/db/sqlc\<close>), with the unique indexes and
  CHECK constraints of the migrations that a statement can run into.

  A table is a list of rows in insertion order. A \<open>SELECT\<close> returns the row or \<open>None\<close> (pgx's
  \<open>ErrNoRows\<close>); an \<open>INSERT\<close> returns the new database or the constraint it violates. What the
  environment decides about a request is in the record \<open>env\<close>: which statements fail for
  infrastructure reasons, what the clocks read, and which row a query without \<open>ORDER BY\<close>
  yields. JSON audit columns (\<open>meta\<close>), surrogate keys that no statement reads back and the
  row locks of \<open>FOR UPDATE\<close> are not part of the rows; the locks are why a transaction is one
  atomic step.
\<close>

type_synonym uuid = nat

datatype sql_err = ErrNoRows | UniqueViolation | CheckViolation | DbFailure

datatype billing_err =
    Sql sql_err
  | ErrPromoNotFound | ErrPromoExpired | ErrPromoNotStarted
  | ErrPromoLimitReached | ErrPromoUserLimitReached
  | ErrReferralSelf | ErrReferralNotFound | ErrReferralAlreadyApplied
  | ErrReferralNotEligiblePaid | ErrReferralWindowClosed
  | ErrPayoutInsufficientBalance | ErrPayoutInvalidAmount | ErrPayoutInvalidCard
  | ErrPayoutInvalidNetwork | ErrReferralPayoutNotFound | ErrReferralPayoutNotPending
  | ErrProviderDisabled | ErrPaymentCannotVoid | ErrPaymentVoidReason
  | ErrBalanceNegative | ErrPercentRange | ErrEncryptPAN | ErrDecryptPAN
  | ErrManualNoCardAvailable | ErrManualNotFound | ErrManualWrongOwner | ErrManualAlreadyDone
  | ErrManualInvalidCard | ErrManualRejectPaid | ErrManualAmount | ErrConfirmSource
  | ErrUnknownProvider | ErrRequiresPool
  | ErrNotFound | ErrInvalidRequest | ErrDailyLimitReached | ErrAlreadyAnswered | ErrInvalidAnswer
  | ErrQuestionNotAssigned | ErrSessionFinished | ErrRequiresVIP | ErrVariantLocked | ErrMockNotEligible
  | ErrNothingDue | ErrInvalidRating | ErrMissingAnswerKey

text \<open>
  The environment of one request. \<open>flt site stmt\<close>: the statement \<open>stmt\<close> issued at \<open>site\<close>
  fails. \<open>clk site\<close>: what \<open>time.Now()\<close> reads there. \<open>tx_now\<close>: SQL's \<open>now()\<close>, the start of
  the transaction. \<open>pick site\<close>: the executor's choice among matching rows. \<open>new_id\<close>: the next
  value of \<open>gen_random_uuid()\<close>.
\<close>

record env =
  flt :: "string \<Rightarrow> string \<Rightarrow> bool"
  clk :: "string \<Rightarrow> int"
  tx_now :: int
  pick :: "string \<Rightarrow> nat"
  new_id :: uuid

definition stmt :: "env \<Rightarrow> string \<Rightarrow> string \<Rightarrow> (billing_err + 'a) \<Rightarrow> billing_err + 'a" where
  "stmt e site s m = (if flt e site s then Inl (Sql DbFailure) else m)"

lemma stmt_Inr_iff [simp]: "stmt e site s m = Inr x \<longleftrightarrow> \<not> flt e site s \<and> m = Inr x"
  by (simp add: stmt_def)

definition one_row :: "'a option \<Rightarrow> billing_err + 'a" where
  "one_row r = (case r of None \<Rightarrow> Inl (Sql ErrNoRows) | Some x \<Rightarrow> Inr x)"

lemma one_row_Inr_iff [simp]: "one_row r = Inr x \<longleftrightarrow> r = Some x"
  by (simp add: one_row_def split: option.splits)

text \<open>
  A database transaction: \<open>Begin\<close>, the body, \<open>Commit\<close>. Any error on the way runs the deferred
  \<open>Rollback\<close>, so the database is the one the transaction started from.
\<close>

definition run_tx ::
  "env \<Rightarrow> string \<Rightarrow> ('s \<Rightarrow> billing_err + ('a \<times> 's)) \<Rightarrow> 's \<Rightarrow> (billing_err + 'a) \<times> 's" where
  "run_tx e site body s =
     (if flt e site ''Begin'' then (Inl (Sql DbFailure), s)
      else case body s of
          Inl err \<Rightarrow> (Inl err, s)
        | Inr (x, s') \<Rightarrow> if flt e site ''Commit'' then (Inl (Sql DbFailure), s) else (Inr x, s'))"

lemma run_tx_error: "fst (run_tx e site body s) = Inl err \<Longrightarrow> snd (run_tx e site body s) = s"
  by (auto simp: run_tx_def split: if_splits sum.splits prod.splits)

lemma run_tx_failed: "run_tx e site body s = (Inl err, s') \<Longrightarrow> s' = s"
  using run_tx_error [of e site body s err] by simp

lemma run_tx_ok:
  "run_tx e site body s = (Inr x, s') \<longleftrightarrow>
     \<not> flt e site ''Begin'' \<and> \<not> flt e site ''Commit'' \<and> body s = Inr (x, s')"
  by (auto simp: run_tx_def split: if_splits sum.splits prod.splits)

section \<open>Rows\<close>

datatype pay_status = Created | Pending | Paid | Failed | Canceled | Refunded | Voided

record payment_row =
  p_id :: uuid
  p_profile :: uuid
  p_tariff :: uuid
  p_amount :: int
  p_provider :: string
  p_status :: pay_status
  p_provider_txn :: "string option"
  p_promo :: "uuid option"
  p_tariff_days :: int
  p_tariff_price :: int
  p_created_at :: int
  p_paid_at :: "int option"

record payme_row =
  pt_id :: string
  pt_payment :: uuid
  pt_amount_tiyin :: int
  pt_state :: int
  pt_reason :: "int option"
  pt_create_time :: int
  pt_perform_time :: int
  pt_cancel_time :: int

record click_row =
  ct_id :: uuid
  ct_trans_id :: string
  ct_paydoc_id :: "string option"
  ct_payment :: uuid
  ct_amount :: int
  ct_state :: int
  ct_reason :: "string option"

record entitlement_row =
  en_profile :: uuid
  en_source :: string
  en_starts :: int
  en_ends :: int
  en_note :: string
  en_created_by :: "uuid option"
  en_payment :: "uuid option"
  en_created_at :: int

datatype promo_kind = Percent | Fixed | Days

record promo_row =
  pc_id :: uuid
  pc_code :: string
  pc_kind :: promo_kind
  pc_value :: int
  pc_max_uses :: "int option"
  pc_per_user_limit :: int
  pc_valid_from :: "int option"
  pc_valid_to :: "int option"
  pc_active :: bool

record redemption_row =
  rd_promo :: uuid
  rd_profile :: uuid
  rd_payment :: "uuid option"

datatype referral_status = RefPending | RefRewarded

record referral_row =
  rf_referrer :: uuid
  rf_referee :: uuid
  rf_code :: string
  rf_status :: referral_status

record refcode_row =
  rc_user :: uuid
  rc_code :: string

datatype entry_type = Commission | PayoutHold | PayoutRejectRelease | Clawback | AdminAdjust

record ledger_row =
  lg_profile :: uuid
  lg_type :: entry_type
  lg_amount :: int
  lg_payment :: "uuid option"
  lg_payout :: "uuid option"

datatype payout_status = PoPending | PoPaid | PoRejected

record payout_row =
  po_id :: uuid
  po_profile :: uuid
  po_amount :: int
  po_card :: string
  po_network :: string
  po_status :: payout_status
  po_note :: string

record profile_row =
  pr_id :: uuid
  pr_created_at :: int
  pr_commission_percent :: int

record tariff_row =
  tf_id :: uuid
  tf_code :: string
  tf_days :: int
  tf_price :: int
  tf_active :: bool

record void_row =
  vd_payment :: uuid
  vd_previous :: pay_status
  vd_reason :: string

record billing_db =
  payments :: "payment_row list"
  payme_txs :: "payme_row list"
  click_txs :: "click_row list"
  entitlements :: "entitlement_row list"
  promo_codes :: "promo_row list"
  redemptions :: "redemption_row list"
  referrals :: "referral_row list"
  referral_codes :: "refcode_row list"
  ledger :: "ledger_row list"
  payouts :: "payout_row list"
  profiles :: "profile_row list"
  tariffs :: "tariff_row list"
  voids :: "void_row list"
  limit_configs :: "(string \<times> int) list"
  provider_status :: "(string \<times> bool) list"
  bool_flags :: "(string \<times> bool) list"

definition empty_db :: billing_db where
  "empty_db = \<lparr>payments = [], payme_txs = [], click_txs = [], entitlements = [], promo_codes = [],
     redemptions = [], referrals = [], referral_codes = [], ledger = [], payouts = [],
     profiles = [], tariffs = [], voids = [], limit_configs = [], provider_status = [],
     bool_flags = []\<rparr>"

section \<open>Payments\<close>

definition GetPaymentForPayme :: "billing_db \<Rightarrow> uuid \<Rightarrow> payment_row option" where
  "GetPaymentForPayme db i = find (\<lambda>p. p_id p = i) (payments db)"

definition CreatePayment ::
  "env \<Rightarrow> uuid \<Rightarrow> uuid \<Rightarrow> int \<Rightarrow> string \<Rightarrow> uuid option \<Rightarrow> int \<Rightarrow> int \<Rightarrow> billing_db
     \<Rightarrow> billing_err + (uuid \<times> billing_db)" where
  "CreatePayment e prof tariff amount prov promo days price db =
     (if amount < 0 \<or> prov \<notin> {''payme'', ''click'', ''sandbox'', ''manual''} \<or> days \<le> 0 \<or> price < 0
      then Inl (Sql CheckViolation)
      else if new_id e \<in> p_id ` set (payments db) then Inl (Sql UniqueViolation)
      else Inr (new_id e, db\<lparr>payments := payments db @
        [\<lparr>p_id = new_id e, p_profile = prof, p_tariff = tariff, p_amount = amount,
          p_provider = prov, p_status = Created, p_provider_txn = None, p_promo = promo,
          p_tariff_days = days, p_tariff_price = price, p_created_at = tx_now e,
          p_paid_at = None\<rparr>]\<rparr>))"

definition CountPaidPaymentsForProfile :: "billing_db \<Rightarrow> uuid \<Rightarrow> nat" where
  "CountPaidPaymentsForProfile db prof =
     length (filter (\<lambda>p. p_profile p = prof \<and> p_status p = Paid) (payments db))"

definition SetPaymentStatus :: "uuid \<Rightarrow> pay_status \<Rightarrow> billing_db \<Rightarrow> billing_db" where
  "SetPaymentStatus i st db = db\<lparr>payments :=
     upd_where (\<lambda>p. p_id p = i) (\<lambda>p. p\<lparr>p_status := st\<rparr>) (payments db)\<rparr>"

definition MarkPaymentPaid :: "env \<Rightarrow> uuid \<Rightarrow> billing_db \<Rightarrow> billing_db" where
  "MarkPaymentPaid e i db = db\<lparr>payments :=
     upd_where (\<lambda>p. p_id p = i) (\<lambda>p. p\<lparr>p_status := Paid, p_paid_at := Some (tx_now e)\<rparr>) (payments db)\<rparr>"

definition MarkPaymentPending :: "uuid \<Rightarrow> string option \<Rightarrow> billing_db \<Rightarrow> billing_db" where
  "MarkPaymentPending i txn db = db\<lparr>payments :=
     upd_where (\<lambda>p. p_id p = i) (\<lambda>p. p\<lparr>p_status := Pending, p_provider_txn := txn\<rparr>) (payments db)\<rparr>"

definition GetActiveTariffByCode :: "billing_db \<Rightarrow> string \<Rightarrow> tariff_row option" where
  "GetActiveTariffByCode db code = find (\<lambda>t. tf_code t = code \<and> tf_active t) (tariffs db)"

section \<open>Payme transactions\<close>

definition active_payme :: "payme_row \<Rightarrow> bool" where
  "active_payme t \<longleftrightarrow> pt_state t = 1 \<or> pt_state t = 2"

definition GetPaymeTransaction :: "billing_db \<Rightarrow> string \<Rightarrow> payme_row option" where
  "GetPaymeTransaction db i = find (\<lambda>t. pt_id t = i) (payme_txs db)"

definition GetPaymeTransactionForUpdate :: "billing_db \<Rightarrow> string \<Rightarrow> payme_row option" where
  "GetPaymeTransactionForUpdate db i = find (\<lambda>t. pt_id t = i) (payme_txs db)"

definition GetActivePaymeTxByPayment :: "env \<Rightarrow> billing_db \<Rightarrow> uuid \<Rightarrow> payme_row option" where
  "GetActivePaymeTxByPayment e db i =
     select_one (pick e ''GetActivePaymeTxByPayment'')
       (filter (\<lambda>t. pt_payment t = i \<and> active_payme t) (payme_txs db))"

text \<open>
  Unique: the primary key \<open>payme_id\<close>, and at most one row in state 1 or 2 per payment
  (\<open>payme_transaction_one_active_per_payment\<close>, migration 0013).
\<close>

definition CreatePaymeTransaction ::
  "string \<Rightarrow> uuid \<Rightarrow> int \<Rightarrow> int \<Rightarrow> billing_db \<Rightarrow> billing_err + billing_db" where
  "CreatePaymeTransaction i pay amount ctime db =
     (if i \<in> pt_id ` set (payme_txs db)
       \<or> (\<exists>t \<in> set (payme_txs db). pt_payment t = pay \<and> active_payme t)
      then Inl (Sql UniqueViolation)
      else Inr (db\<lparr>payme_txs := payme_txs db @
        [\<lparr>pt_id = i, pt_payment = pay, pt_amount_tiyin = amount, pt_state = 1, pt_reason = None,
          pt_create_time = ctime, pt_perform_time = 0, pt_cancel_time = 0\<rparr>]\<rparr>))"

definition PerformPaymeTransaction :: "string \<Rightarrow> int \<Rightarrow> billing_db \<Rightarrow> billing_db" where
  "PerformPaymeTransaction i ptime db = db\<lparr>payme_txs :=
     upd_where (\<lambda>t. pt_id t = i) (\<lambda>t. t\<lparr>pt_state := 2, pt_perform_time := ptime\<rparr>) (payme_txs db)\<rparr>"

definition CancelPaymeTransaction ::
  "string \<Rightarrow> int \<Rightarrow> int option \<Rightarrow> int \<Rightarrow> billing_db \<Rightarrow> billing_db" where
  "CancelPaymeTransaction i st reason ctime db = db\<lparr>payme_txs :=
     upd_where (\<lambda>t. pt_id t = i)
       (\<lambda>t. t\<lparr>pt_state := st, pt_reason := reason, pt_cancel_time := ctime\<rparr>) (payme_txs db)\<rparr>"

definition ListPaymeTransactionsByTime :: "billing_db \<Rightarrow> int \<Rightarrow> int \<Rightarrow> payme_row list" where
  "ListPaymeTransactionsByTime db lo hi =
     sort_key pt_create_time
       (filter (\<lambda>t. lo \<le> pt_create_time t \<and> pt_create_time t \<le> hi) (payme_txs db))"

section \<open>Click transactions\<close>

definition active_click :: "click_row \<Rightarrow> bool" where
  "active_click t \<longleftrightarrow> ct_state t = 0 \<or> ct_state t = 1"

definition GetClickTransactionByClickTransID :: "env \<Rightarrow> billing_db \<Rightarrow> string \<Rightarrow> click_row option" where
  "GetClickTransactionByClickTransID e db i =
     select_one (pick e ''GetClickTransactionByClickTransID'')
       (filter (\<lambda>t. ct_trans_id t = i) (click_txs db))"

definition GetClickTransactionByID :: "billing_db \<Rightarrow> uuid \<Rightarrow> click_row option" where
  "GetClickTransactionByID db i = find (\<lambda>t. ct_id t = i) (click_txs db)"

definition GetClickTransactionByIDForUpdate :: "billing_db \<Rightarrow> uuid \<Rightarrow> click_row option" where
  "GetClickTransactionByIDForUpdate db i = find (\<lambda>t. ct_id t = i) (click_txs db)"

definition GetActiveClickTxByPayment :: "env \<Rightarrow> billing_db \<Rightarrow> uuid \<Rightarrow> click_row option" where
  "GetActiveClickTxByPayment e db i =
     select_one (pick e ''GetActiveClickTxByPayment'')
       (filter (\<lambda>t. ct_payment t = i \<and> active_click t) (click_txs db))"

definition CreateClickTransaction ::
  "env \<Rightarrow> string \<Rightarrow> string option \<Rightarrow> uuid \<Rightarrow> int \<Rightarrow> billing_db \<Rightarrow> billing_err + (uuid \<times> billing_db)" where
  "CreateClickTransaction e i paydoc pay amount db =
     (if amount < 0 then Inl (Sql CheckViolation)
      else if new_id e \<in> ct_id ` set (click_txs db)
        \<or> (\<exists>t \<in> set (click_txs db). ct_payment t = pay \<and> active_click t)
      then Inl (Sql UniqueViolation)
      else Inr (new_id e, db\<lparr>click_txs := click_txs db @
        [\<lparr>ct_id = new_id e, ct_trans_id = i, ct_paydoc_id = paydoc, ct_payment = pay,
          ct_amount = amount, ct_state = 0, ct_reason = None\<rparr>]\<rparr>))"

definition ConfirmClickTransaction :: "uuid \<Rightarrow> billing_db \<Rightarrow> billing_err + billing_db" where
  "ConfirmClickTransaction i db =
     (if \<exists>t \<in> set (click_txs db). ct_id t = i \<and>
           (\<exists>u \<in> set (click_txs db). ct_id u \<noteq> i \<and> ct_payment u = ct_payment t \<and> active_click u)
      then Inl (Sql UniqueViolation)
      else Inr (db\<lparr>click_txs :=
        upd_where (\<lambda>t. ct_id t = i) (\<lambda>t. t\<lparr>ct_state := 1\<rparr>) (click_txs db)\<rparr>))"

definition RejectClickTransaction :: "uuid \<Rightarrow> string option \<Rightarrow> billing_db \<Rightarrow> billing_db" where
  "RejectClickTransaction i reason db = db\<lparr>click_txs :=
     upd_where (\<lambda>t. ct_id t = i) (\<lambda>t. t\<lparr>ct_state := -1, ct_reason := reason\<rparr>) (click_txs db)\<rparr>"

section \<open>Entitlements\<close>

definition LockProfileForGrant :: "billing_db \<Rightarrow> uuid \<Rightarrow> profile_row option" where
  "LockProfileForGrant db i = find (\<lambda>p. pr_id p = i) (profiles db)"

text \<open>\<open>ORDER BY ends_at DESC LIMIT 1\<close>: the greatest end after \<open>now()\<close>.\<close>

definition active_ends :: "int \<Rightarrow> billing_db \<Rightarrow> uuid \<Rightarrow> int list" where
  "active_ends now db prof =
     map en_ends (filter (\<lambda>r. en_profile r = prof \<and> now < en_ends r) (entitlements db))"

definition ActiveEntitlementEnd :: "int \<Rightarrow> billing_db \<Rightarrow> uuid \<Rightarrow> int option" where
  "ActiveEntitlementEnd now db prof =
     (case active_ends now db prof of [] \<Rightarrow> None | t # ts \<Rightarrow> Some (fold max ts t))"

definition InsertEntitlement :: "entitlement_row \<Rightarrow> billing_db \<Rightarrow> billing_err + billing_db" where
  "InsertEntitlement r db =
     (if en_ends r \<le> en_starts r then Inl (Sql CheckViolation)
      else Inr (db\<lparr>entitlements := entitlements db @ [r]\<rparr>))"

definition GetEntitlementByPaymentID :: "env \<Rightarrow> billing_db \<Rightarrow> uuid \<Rightarrow> entitlement_row option" where
  "GetEntitlementByPaymentID e db pay =
     select_one (pick e ''GetEntitlementByPaymentID'')
       (filter (\<lambda>r. en_payment r = Some pay) (entitlements db))"

definition ClampAllEntitlementsForPayment :: "uuid \<Rightarrow> int \<Rightarrow> string \<Rightarrow> billing_db \<Rightarrow> billing_db" where
  "ClampAllEntitlementsForPayment pay clamp_to sfx db = db\<lparr>entitlements :=
     upd_where (\<lambda>r. en_payment r = Some pay \<and> clamp_to < en_ends r)
       (\<lambda>r. r\<lparr>en_ends := (if clamp_to \<le> en_starts r then en_starts r + second else clamp_to),
              en_note := en_note r @ sfx\<rparr>)
       (entitlements db)\<rparr>"

section \<open>Promo codes\<close>

definition GetPromoCodeByCode :: "env \<Rightarrow> billing_db \<Rightarrow> string \<Rightarrow> promo_row option" where
  "GetPromoCodeByCode e db code =
     select_one (pick e ''GetPromoCodeByCode'')
       (filter (\<lambda>r. to_lower (pc_code r) = to_lower code \<and> pc_active r) (promo_codes db))"

definition GetPromoCodeByIDForUpdate :: "billing_db \<Rightarrow> uuid \<Rightarrow> promo_row option" where
  "GetPromoCodeByIDForUpdate db i = find (\<lambda>r. pc_id r = i) (promo_codes db)"

definition CountPromoRedemptions :: "billing_db \<Rightarrow> uuid \<Rightarrow> nat" where
  "CountPromoRedemptions db i = length (filter (\<lambda>r. rd_promo r = i) (redemptions db))"

definition CountUserPromoRedemptions :: "billing_db \<Rightarrow> uuid \<Rightarrow> uuid \<Rightarrow> nat" where
  "CountUserPromoRedemptions db i prof =
     length (filter (\<lambda>r. rd_promo r = i \<and> rd_profile r = prof) (redemptions db))"

text \<open>Unique: \<open>promo_redemption_one_per_payment\<close> (migration 0016).\<close>

definition CreatePromoRedemption ::
  "uuid \<Rightarrow> uuid \<Rightarrow> uuid option \<Rightarrow> billing_db \<Rightarrow> billing_err + billing_db" where
  "CreatePromoRedemption promo prof pay db =
     (if pay \<noteq> None \<and> \<lparr>rd_promo = promo, rd_profile = prof, rd_payment = pay\<rparr> \<in> set (redemptions db)
      then Inl (Sql UniqueViolation)
      else Inr (db\<lparr>redemptions := redemptions db @
        [\<lparr>rd_promo = promo, rd_profile = prof, rd_payment = pay\<rparr>]\<rparr>))"

section \<open>Referrals and the referral ledger\<close>

definition GetReferralCodeOwner :: "env \<Rightarrow> billing_db \<Rightarrow> string \<Rightarrow> refcode_row option" where
  "GetReferralCodeOwner e db code =
     select_one (pick e ''GetReferralCodeOwner'')
       (filter (\<lambda>r. to_lower (rc_code r) = to_lower code) (referral_codes db))"

text \<open>Unique: one referral per referee; CHECK: no self referral (migration 0015).\<close>

definition CreateReferral :: "uuid \<Rightarrow> uuid \<Rightarrow> string \<Rightarrow> billing_db \<Rightarrow> billing_err + billing_db" where
  "CreateReferral referrer referee code db =
     (if referrer = referee then Inl (Sql CheckViolation)
      else if referee \<in> rf_referee ` set (referrals db) then Inl (Sql UniqueViolation)
      else Inr (db\<lparr>referrals := referrals db @
        [\<lparr>rf_referrer = referrer, rf_referee = referee, rf_code = code, rf_status = RefPending\<rparr>]\<rparr>))"

definition ClaimPendingReferralForReferee ::
  "uuid \<Rightarrow> billing_db \<Rightarrow> billing_err + (referral_row \<times> billing_db)" where
  "ClaimPendingReferralForReferee referee db =
     (case find (\<lambda>r. rf_referee r = referee \<and> rf_status r = RefPending) (referrals db) of
        None \<Rightarrow> Inl (Sql ErrNoRows)
      | Some r \<Rightarrow> Inr (r\<lparr>rf_status := RefRewarded\<rparr>, db\<lparr>referrals :=
          upd_where (\<lambda>r. rf_referee r = referee \<and> rf_status r = RefPending)
            (\<lambda>r. r\<lparr>rf_status := RefRewarded\<rparr>) (referrals db)\<rparr>))"

definition GetReferralCommissionPercent :: "billing_db \<Rightarrow> uuid \<Rightarrow> int option" where
  "GetReferralCommissionPercent db i =
     map_option pr_commission_percent (find (\<lambda>p. pr_id p = i) (profiles db))"

text \<open>
  Unique: one commission and one clawback per payment, one hold per payout; CHECK: the amount
  is not zero (migration 0041).
\<close>

definition ledger_conflict :: "ledger_row \<Rightarrow> ledger_row \<Rightarrow> bool" where
  "ledger_conflict r s \<longleftrightarrow>
     lg_type r = lg_type s \<and>
     (lg_type r \<in> {Commission, Clawback} \<and> lg_payment r \<noteq> None \<and> lg_payment r = lg_payment s \<or>
      lg_type r = PayoutHold \<and> lg_payout r \<noteq> None \<and> lg_payout r = lg_payout s)"

definition InsertReferralLedger :: "ledger_row \<Rightarrow> billing_db \<Rightarrow> billing_err + billing_db" where
  "InsertReferralLedger r db =
     (if lg_amount r = 0 then Inl (Sql CheckViolation)
      else if \<exists>s \<in> set (ledger db). ledger_conflict r s then Inl (Sql UniqueViolation)
      else Inr (db\<lparr>ledger := ledger db @ [r]\<rparr>))"

definition GetReferralBalance :: "billing_db \<Rightarrow> uuid \<Rightarrow> int" where
  "GetReferralBalance db prof =
     sum_list (map lg_amount (filter (\<lambda>r. lg_profile r = prof) (ledger db)))"

definition GetReferralEarnedCommission :: "billing_db \<Rightarrow> uuid \<Rightarrow> int" where
  "GetReferralEarnedCommission db prof =
     sum_list (map lg_amount (filter (\<lambda>r. lg_profile r = prof \<and> lg_type r = Commission) (ledger db)))"

definition GetCommissionByPaymentID :: "billing_db \<Rightarrow> uuid \<Rightarrow> ledger_row option" where
  "GetCommissionByPaymentID db pay =
     find (\<lambda>r. lg_payment r = Some pay \<and> lg_type r = Commission) (ledger db)"

definition GetClawbackByPaymentID :: "billing_db \<Rightarrow> uuid \<Rightarrow> ledger_row option" where
  "GetClawbackByPaymentID db pay =
     find (\<lambda>r. lg_payment r = Some pay \<and> lg_type r = Clawback) (ledger db)"

definition CreateReferralPayout ::
  "env \<Rightarrow> uuid \<Rightarrow> int \<Rightarrow> string \<Rightarrow> string \<Rightarrow> billing_db \<Rightarrow> billing_err + (payout_row \<times> billing_db)" where
  "CreateReferralPayout e prof amount cardno network db =
     (if amount \<le> 0 \<or> network \<notin> {''uzcard'', ''humo''} then Inl (Sql CheckViolation)
      else if new_id e \<in> po_id ` set (payouts db) then Inl (Sql UniqueViolation)
      else let r = \<lparr>po_id = new_id e, po_profile = prof, po_amount = amount, po_card = cardno,
                    po_network = network, po_status = PoPending, po_note = ''''\<rparr>
           in Inr (r, db\<lparr>payouts := payouts db @ [r]\<rparr>))"

definition GetReferralPayoutForUpdate :: "billing_db \<Rightarrow> uuid \<Rightarrow> payout_row option" where
  "GetReferralPayoutForUpdate db i = find (\<lambda>r. po_id r = i) (payouts db)"

definition close_payout :: "payout_status \<Rightarrow> uuid \<Rightarrow> string \<Rightarrow> billing_db \<Rightarrow> billing_err + billing_db" where
  "close_payout st i note db =
     (if \<exists>r \<in> set (payouts db). po_id r = i \<and> po_status r = PoPending
      then Inr (db\<lparr>payouts := upd_where (\<lambda>r. po_id r = i \<and> po_status r = PoPending)
         (\<lambda>r. r\<lparr>po_status := st, po_note := (if note = '''' then po_note r else note)\<rparr>) (payouts db)\<rparr>)
      else Inl (Sql ErrNoRows))"

definition sql_MarkReferralPayoutPaid :: "uuid \<Rightarrow> string \<Rightarrow> billing_db \<Rightarrow> billing_err + billing_db" where
  "sql_MarkReferralPayoutPaid = close_payout PoPaid"

definition sql_MarkReferralPayoutRejected :: "uuid \<Rightarrow> string \<Rightarrow> billing_db \<Rightarrow> billing_err + billing_db" where
  "sql_MarkReferralPayoutRejected = close_payout PoRejected"

definition UpdateReferralCommissionPercent :: "uuid \<Rightarrow> int \<Rightarrow> billing_db \<Rightarrow> billing_err + billing_db" where
  "UpdateReferralCommissionPercent i percent db =
     (if i \<notin> pr_id ` set (profiles db) then Inl (Sql ErrNoRows)
      else if percent < 0 \<or> 100 < percent then Inl (Sql CheckViolation)
      else Inr (db\<lparr>profiles :=
        upd_where (\<lambda>p. pr_id p = i) (\<lambda>p. p\<lparr>pr_commission_percent := percent\<rparr>) (profiles db)\<rparr>))"

lemmas payment_stmts = GetPaymentForPayme_def SetPaymentStatus_def MarkPaymentPaid_def
  MarkPaymentPending_def
lemmas payme_stmts = GetPaymeTransaction_def GetPaymeTransactionForUpdate_def
  PerformPaymeTransaction_def CancelPaymeTransaction_def

end
