(* ===== verification/Promo.thy ===== *)
theory Promo
  imports Billing_Store
begin

text \<open>
  Promo codes and pro-rating (\<open>internal/billing/promo.go\<close> and the pure part of
  \<open>internal/billing/entitlement.go\<close>): when a code may be redeemed, what it takes off the
  price, how many days a payment is worth when its code is no longer redeemable, and the note
  that records the pro-rating and is parsed back for the learner.
\<close>

section \<open>Redeemability and discount\<close>

definition checkPromoRedeemable :: "env \<Rightarrow> promo_row \<Rightarrow> uuid \<Rightarrow> billing_db \<Rightarrow> billing_err + unit" where
  "checkPromoRedeemable e promo prof db =
     (if \<not> pc_active promo then Inl ErrPromoNotFound
      else let now = clk e ''checkPromoRedeemable'' in
      if (case pc_valid_from promo of None \<Rightarrow> False | Some f \<Rightarrow> now < f) then Inl ErrPromoNotStarted
      else if (case pc_valid_to promo of None \<Rightarrow> False | Some t \<Rightarrow> t < now) then Inl ErrPromoExpired
      else rbind (stmt e ''checkPromoRedeemable'' ''CountUserPromoRedemptions''
             (Inr (CountUserPromoRedemptions db (pc_id promo) prof))) (\<lambda>userCount.
        if pc_per_user_limit promo \<le> int userCount then Inl ErrPromoUserLimitReached
        else case pc_max_uses promo of
            None \<Rightarrow> Inr ()
          | Some m \<Rightarrow> rbind (stmt e ''checkPromoRedeemable'' ''CountPromoRedemptions''
               (Inr (CountPromoRedemptions db (pc_id promo)))) (\<lambda>count.
              if m \<le> int count then Inl ErrPromoLimitReached else Inr ())))"

record validate_result =
  vr_promo_id :: uuid
  vr_code :: string
  vr_kind :: promo_kind
  vr_value :: int
  vr_discount :: int
  vr_original :: int
  vr_final :: int
  vr_bonus_days :: int

definition promo_discount :: "promo_kind \<Rightarrow> int \<Rightarrow> int \<Rightarrow> int \<times> int" where
  "promo_discount kind val origAmount =
     (case kind of
        Percent \<Rightarrow> (let discount = go_div (wrap64 (origAmount * val)) 100
                    in (if origAmount < discount then origAmount else discount, 0))
      | Fixed \<Rightarrow> (if origAmount < val then origAmount else val, 0)
      | Days \<Rightarrow> (origAmount, val))"

definition evaluatePromo ::
  "env \<Rightarrow> promo_row \<Rightarrow> uuid \<Rightarrow> string \<Rightarrow> billing_db \<Rightarrow> billing_err + validate_result" where
  "evaluatePromo e promo prof tariffCode db =
     rbind (checkPromoRedeemable e promo prof db) (\<lambda>_.
     rbind (stmt e ''evaluatePromo'' ''GetActiveTariffByCode''
              (one_row (GetActiveTariffByCode db tariffCode))) (\<lambda>tariff.
     let origAmount = tf_price tariff;
         (discount, bonusDays) = promo_discount (pc_kind promo) (pc_value promo) origAmount;
         diff = wrap64 (origAmount - discount);
         finalAmount = (if diff < 0 then 0 else diff)
     in Inr \<lparr>vr_promo_id = pc_id promo, vr_code = pc_code promo, vr_kind = pc_kind promo,
             vr_value = pc_value promo, vr_discount = discount, vr_original = origAmount,
             vr_final = finalAmount, vr_bonus_days = bonusDays\<rparr>))"

definition validatePromoLocked ::
  "env \<Rightarrow> uuid \<Rightarrow> string \<Rightarrow> string \<Rightarrow> billing_db \<Rightarrow> billing_err + validate_result" where
  "validatePromoLocked e prof rawCode tariffCode db =
     (let code = trim_space rawCode in
      if code = '''' then Inl ErrPromoNotFound
      else if flt e ''validatePromoLocked'' ''GetPromoCodeByCodeForUpdate'' then Inl (Sql DbFailure)
      else case GetPromoCodeByCode e db code of
          None \<Rightarrow> Inl ErrPromoNotFound
        | Some promo \<Rightarrow> evaluatePromo e promo prof tariffCode db)"

definition ValidatePromo ::
  "env \<Rightarrow> uuid \<Rightarrow> string \<Rightarrow> string \<Rightarrow> billing_db \<Rightarrow> billing_err + validate_result" where
  "ValidatePromo e prof rawCode tariffCode db =
     (let code = trim_space rawCode in
      if code = '''' then Inl ErrPromoNotFound
      else if flt e ''ValidatePromo'' ''GetPromoCodeByCode'' then Inl (Sql DbFailure)
      else case GetPromoCodeByCode e db code of
          None \<Rightarrow> Inl ErrPromoNotFound
        | Some promo \<Rightarrow> evaluatePromo e promo prof tariffCode db)"

definition isPromoDomainError :: "billing_err \<Rightarrow> bool" where
  "isPromoDomainError err \<longleftrightarrow> err \<in> {ErrPromoNotFound, ErrPromoExpired, ErrPromoNotStarted,
     ErrPromoLimitReached, ErrPromoUserLimitReached}"

section \<open>Pro-rating\<close>

definition proRatedDays :: "int \<Rightarrow> int \<Rightarrow> int \<Rightarrow> int" where
  "proRatedDays paidUZS listPriceUZS tariffDays =
     (if listPriceUZS \<le> 0 \<or> listPriceUZS \<le> paidUZS then tariffDays
      else let days = go_div (wrap64 (tariffDays * paidUZS)) listPriceUZS
           in if days < 1 then 1 else days)"

definition promoProratedNotePrefix :: string where
  "promoProratedNotePrefix = ''promo_prorated|''"

definition promoCauseCode :: "billing_err \<Rightarrow> string" where
  "promoCauseCode err =
     (if err = ErrPromoLimitReached \<or> err = ErrPromoUserLimitReached then ''promo_limit_reached''
      else if err = ErrPromoExpired then ''promo_expired''
      else if err = ErrPromoNotStarted then ''promo_not_started''
      else if err = ErrPromoNotFound then ''promo_unavailable''
      else ''promo_unavailable'')"

definition formatPromoProratedNote :: "string \<Rightarrow> string \<Rightarrow> int \<Rightarrow> int \<Rightarrow> int \<Rightarrow> int \<Rightarrow> string" where
  "formatPromoProratedNote code cause granted tariffDays paid list =
     promoProratedNotePrefix @ ''code='' @ code @ ''|cause='' @ cause @ ''|granted='' @ show_int granted
       @ ''|tariff='' @ show_int tariffDays @ ''|paid='' @ show_int paid @ ''|list='' @ show_int list"

record proration_info =
  pi_granted :: int
  pi_tariff :: int
  pi_reason :: string

text \<open>
  \<open>splitNoteFields\<close>: \<open>cur\<close> is \<open>s[start:i]\<close>. \<open>cutField\<close> cuts at the first \<open>'='\<close>. \<open>scan_d\<close> is
  \<open>fmt.Sscanf(val, "%d", &x)\<close>: the scanned value, or \<open>None\<close> when the destination is left
  untouched.
\<close>

fun splitNoteFields_from :: "string \<Rightarrow> string \<Rightarrow> string list" where
  "splitNoteFields_from cur [] = (if cur = [] then [] else [cur])"
| "splitNoteFields_from cur (c # s) =
     (if c = CHR ''|'' then (if cur = [] then [] else [cur]) @ splitNoteFields_from [] s
      else splitNoteFields_from (cur @ [c]) s)"

definition splitNoteFields :: "string \<Rightarrow> string list" where
  "splitNoteFields s = splitNoteFields_from [] s"

fun cutField :: "string \<Rightarrow> (string \<times> string) option" where
  "cutField [] = None"
| "cutField (c # s) = (if c = CHR ''='' then Some ([], s)
     else map_option (\<lambda>(k, v). (c # k, v)) (cutField s))"

definition scan_d :: "string \<Rightarrow> int option" where
  "scan_d val =
     (let s = dropWhile (\<lambda>c. is_space c \<and> c \<noteq> CHR 0x0A) val;
          neg = (s \<noteq> [] \<and> hd s = CHR ''-'');
          body = (if s \<noteq> [] \<and> (hd s = CHR ''-'' \<or> hd s = CHR ''+'') then tl s else s);
          ds = takeWhile is_digit body;
          v = (if neg then - int (read_nat ds) else int (read_nat ds))
      in if ds = [] \<or> \<not> int64_range v then None else Some v)"

definition note_field :: "string \<Rightarrow> proration_info \<Rightarrow> proration_info" where
  "note_field part info =
     (case cutField part of
        None \<Rightarrow> info
      | Some (key, val) \<Rightarrow>
          if key = ''cause'' then info\<lparr>pi_reason := val\<rparr>
          else if key = ''granted'' then
            (case scan_d val of None \<Rightarrow> info | Some n \<Rightarrow> info\<lparr>pi_granted := n\<rparr>)
          else if key = ''tariff'' then
            (case scan_d val of None \<Rightarrow> info | Some n \<Rightarrow> info\<lparr>pi_tariff := n\<rparr>)
          else info)"

definition ParseProrationNote :: "string \<Rightarrow> proration_info option" where
  "ParseProrationNote note =
     (if note = [] \<or> length note < length promoProratedNotePrefix
         \<or> take (length promoProratedNotePrefix) note \<noteq> promoProratedNotePrefix then None
      else let info = fold note_field
                 (splitNoteFields (drop (length promoProratedNotePrefix) note))
                 \<lparr>pi_granted = 0, pi_tariff = 0, pi_reason = ''promo_unavailable''\<rparr>
           in if pi_granted info < 1 \<or> pi_tariff info < 1 then None else Some info)"

section \<open>Lemmas\<close>

lemma checkPromoRedeemable_ok_iff:
  "checkPromoRedeemable e promo prof db = Inr () \<longleftrightarrow>
     pc_active promo
     \<and> (\<forall>f. pc_valid_from promo = Some f \<longrightarrow> f \<le> clk e ''checkPromoRedeemable'')
     \<and> (\<forall>t. pc_valid_to promo = Some t \<longrightarrow> clk e ''checkPromoRedeemable'' \<le> t)
     \<and> \<not> flt e ''checkPromoRedeemable'' ''CountUserPromoRedemptions''
     \<and> int (CountUserPromoRedemptions db (pc_id promo) prof) < pc_per_user_limit promo
     \<and> (\<forall>m. pc_max_uses promo = Some m \<longrightarrow>
          \<not> flt e ''checkPromoRedeemable'' ''CountPromoRedemptions''
          \<and> int (CountPromoRedemptions db (pc_id promo)) < m)"
  by (auto simp: checkPromoRedeemable_def Let_def rbind_Inr_iff not_less not_le
      split: option.splits)

lemma promo_discount_bounds:
  assumes "0 \<le> orig" and "0 < v" and "orig * v < 2 ^ 63"
  shows "0 \<le> fst (promo_discount kind v orig)" and "fst (promo_discount kind v orig) \<le> orig"
proof -
  have "wrap64 (orig * v) = orig * v"
    using assms by (intro wrap64_id int64_rangeI) simp_all
  moreover have "0 \<le> orig * v"
    using assms by simp
  ultimately have d: "go_div (wrap64 (orig * v)) 100 = orig * v div 100"
    by (simp add: go_arith)
  have "0 \<le> orig * v div 100"
    using \<open>0 \<le> orig * v\<close> by (simp add: pos_imp_zdiv_nonneg_iff)
  with d assms show "0 \<le> fst (promo_discount kind v orig)" "fst (promo_discount kind v orig) \<le> orig"
    by (auto simp: promo_discount_def Let_def split: promo_kind.splits)
qed

lemma evaluatePromo_split:
  assumes "evaluatePromo e promo prof tc db = Inr r"
  obtains t where "GetActiveTariffByCode db tc = Some t" and "vr_original r = tf_price t"
    and "vr_discount r = fst (promo_discount (pc_kind promo) (pc_value promo) (tf_price t))"
    and "vr_bonus_days r = snd (promo_discount (pc_kind promo) (pc_value promo) (tf_price t))"
    and "vr_final r = (let d = wrap64 (tf_price t - vr_discount r) in if d < 0 then 0 else d)"
    and "vr_promo_id r = pc_id promo"
    and "checkPromoRedeemable e promo prof db = Inr ()"
  using assms
  by (auto simp: evaluatePromo_def rbind_Inr_iff Let_def case_prod_unfold)

lemma proRatedDays_cases:
  assumes "0 \<le> paid" and "0 < days" and "days * paid < 2 ^ 63"
  shows "proRatedDays paid lst days =
    (if lst \<le> 0 \<or> lst \<le> paid then days else max 1 (days * paid div lst))"
proof -
  have w: "wrap64 (days * paid) = days * paid"
    using assms by (intro wrap64_id int64_rangeI) simp_all
  have "0 \<le> days * paid"
    using assms by simp
  then show ?thesis
    by (auto simp: proRatedDays_def Let_def w go_arith)
qed

text \<open>Field splitting: a field that holds no separator comes back whole.\<close>

lemma splitNoteFields_from_field:
  "CHR ''|'' \<notin> set f \<Longrightarrow>
   splitNoteFields_from cur (f @ CHR ''|'' # s) =
     (if cur @ f = [] then [] else [cur @ f]) @ splitNoteFields_from [] s"
  by (induction f arbitrary: cur) auto

lemma splitNoteFields_from_last:
  "CHR ''|'' \<notin> set f \<Longrightarrow>
   splitNoteFields_from cur f = (if cur @ f = [] then [] else [cur @ f])"
  by (induction f arbitrary: cur) auto

lemma cutField_key:
  "CHR ''='' \<notin> set k \<Longrightarrow> cutField (k @ CHR ''='' # v) = Some (k, v)"
  by (induction k) auto

lemma show_int_no_sep: "CHR ''|'' \<notin> set (show_int i)"
proof -
  have "\<not> is_digit (CHR ''|'')" by (simp add: is_digit_def)
  then have "CHR ''|'' \<notin> set (show_nat n)" for n
    using show_nat_digits by blast
  then show ?thesis by (simp add: show_int_def)
qed

lemma scan_show_int:
  assumes "0 \<le> i" and "i < 2 ^ 63"
  shows "scan_d (show_int i) = Some i"
proof -
  let ?s = "show_nat (nat i)"
  have dig: "\<forall>c \<in> set ?s. is_digit c" by (rule show_nat_digits)
  then have h: "is_digit (hd ?s)" by (simp add: hd_in_set)
  then have nosp: "\<not> is_space (hd ?s)" and nosign: "hd ?s \<noteq> CHR ''-''" "hd ?s \<noteq> CHR ''+''"
    by (auto simp: is_digit_def is_space_def)
  have "dropWhile (\<lambda>c. is_space c \<and> c \<noteq> CHR 0x0A) ?s = ?s"
    using nosp by (cases ?s) auto
  moreover have "takeWhile is_digit ?s = ?s"
    using dig by (simp add: takeWhile_eq_all_conv)
  ultimately show ?thesis
    using assms nosign
    by (simp add: scan_d_def show_int_def int64_rangeI Let_def del: takeWhile_eq_all_conv)
qed

end
