(* ===== verification/Wallet.thy ===== *)
theory Wallet
  imports Billing_Store
begin

text \<open>
  The referral wallet: \<open>internal/billing/wallet.go\<close> (bonus days, commission, payout cards,
  payout requests, commission credit and clawback) and the ledger operations of the admin
  console in \<open>internal/admin/referral.go\<close>. The ledger is append-only and the balance of a
  profile is the sum of its entries.
\<close>

section \<open>Pure rules\<close>

definition BuyerReferralBonusDays :: "int \<Rightarrow> int" where
  "BuyerReferralBonusDays tariffDays =
     (if tariffDays = 7 then 3 else if tariffDays = 30 then 7 else if tariffDays = 75 then 10 else 0)"

definition CommissionUZS :: "int \<Rightarrow> int \<Rightarrow> int" where
  "CommissionUZS amountUzs percent =
     (if amountUzs \<le> 0 \<or> percent \<le> 0 then 0 else go_div (wrap64 (amountUzs * percent)) 100)"

definition NormalizeCardNumber :: "string \<Rightarrow> string" where
  "NormalizeCardNumber raw = filter is_digit raw"

definition MaskCardNumber :: "string \<Rightarrow> string" where
  "MaskCardNumber digits =
     (if length digits < 4 then ''****'' else ''**** **** **** '' @ drop (length digits - 4) digits)"

definition has_prefix :: "string \<Rightarrow> string \<Rightarrow> bool" where
  "has_prefix s p \<longleftrightarrow> take (length p) s = p"

definition DetectCardNetwork :: "string \<Rightarrow> string" where
  "DetectCardNetwork digits =
     (if length digits < 4 then ''''
      else let prefix2 = take 2 digits in
      if has_prefix digits ''9860'' \<or> prefix2 = ''98'' then ''humo''
      else if has_prefix digits ''8600'' \<or> prefix2 = ''86'' then ''uzcard''
      else '''')"

definition ValidatePayoutCard :: "string \<Rightarrow> string \<Rightarrow> billing_err + (string \<times> string)" where
  "ValidatePayoutCard cardNumber network =
     (let digits = NormalizeCardNumber cardNumber in
      if \<not> (length digits = 16 \<and> list_all is_digit digits) then Inl ErrPayoutInvalidCard
      else let net = to_lower (trim_space network) in
      if net \<noteq> ''uzcard'' \<and> net \<noteq> ''humo'' then Inl ErrPayoutInvalidNetwork
      else let detected = DetectCardNetwork digits in
      if detected \<noteq> '''' \<and> detected \<noteq> net then Inl ErrPayoutInvalidCard
      else Inr (digits, net))"

section \<open>Ledger operations of the billing service\<close>

record payout_result =
  pres_id :: uuid
  pres_amount :: int
  pres_card_masked :: string
  pres_network :: string
  pres_status :: payout_status

text \<open>
  \<open>encryptPAN\<close> stands for \<open>EncryptPAN\<close>, AES-GCM under a key derived from the deployment secret:
  \<open>None\<close> when sealing fails.
\<close>

definition RequestReferralPayout_tx ::
  "env \<Rightarrow> uuid \<Rightarrow> int \<Rightarrow> string \<Rightarrow> string \<Rightarrow> string \<Rightarrow> billing_db
     \<Rightarrow> billing_err + (payout_result \<times> billing_db)" where
  "RequestReferralPayout_tx e prof amountUzs digits cipher net db =
     rbind (stmt e ''RequestReferralPayout'' ''LockProfileForGrant''
              (one_row (LockProfileForGrant db prof))) (\<lambda>_.
     rbind (stmt e ''RequestReferralPayout'' ''GetReferralBalance''
              (Inr (GetReferralBalance db prof))) (\<lambda>bal.
     if bal < amountUzs then Inl ErrPayoutInsufficientBalance
     else rbind (stmt e ''RequestReferralPayout'' ''CreateReferralPayout''
              (CreateReferralPayout e prof amountUzs cipher net db)) (\<lambda>(payout, db1).
     rbind (stmt e ''RequestReferralPayout'' ''InsertReferralLedger''
              (InsertReferralLedger \<lparr>lg_profile = prof, lg_type = PayoutHold,
                 lg_amount = - amountUzs, lg_payment = None, lg_payout = Some (po_id payout)\<rparr> db1)) (\<lambda>db2.
     Inr (\<lparr>pres_id = po_id payout, pres_amount = po_amount payout,
            pres_card_masked = MaskCardNumber digits, pres_network = po_network payout,
            pres_status = po_status payout\<rparr>, db2)))))"

definition RequestReferralPayout ::
  "(string \<Rightarrow> string option) \<Rightarrow> env \<Rightarrow> uuid \<Rightarrow> int \<Rightarrow> string \<Rightarrow> string \<Rightarrow> billing_db
     \<Rightarrow> (billing_err + payout_result) \<times> billing_db" where
  "RequestReferralPayout encryptPAN e prof amountUzs cardNumber cardNetwork db =
     (if amountUzs \<le> 0 then (Inl ErrPayoutInvalidAmount, db)
      else case ValidatePayoutCard cardNumber cardNetwork of
          Inl err \<Rightarrow> (Inl err, db)
        | Inr (digits, net) \<Rightarrow>
            (case encryptPAN digits of
               None \<Rightarrow> (Inl ErrEncryptPAN, db)
             | Some cipher \<Rightarrow> run_tx e ''RequestReferralPayout''
                 (RequestReferralPayout_tx e prof amountUzs digits cipher net) db))"

text \<open>
  Both functions below swallow a unique violation of their insert and return nil, and both run inside a transaction of their
  callers. PostgreSQL has aborted that transaction: it takes no further statement and its commit fails. So the
  violation fails the caller after all, as any statement failure does; it is reported here as one.
\<close>

definition creditReferralCommission ::
  "env \<Rightarrow> uuid \<Rightarrow> uuid \<Rightarrow> int \<Rightarrow> int \<Rightarrow> billing_db \<Rightarrow> billing_err + billing_db" where
  "creditReferralCommission e referrer paymentID amountUzs percent db =
     (let commission = CommissionUZS amountUzs percent in
      if commission \<le> 0 then Inr db
      else case stmt e ''creditReferralCommission'' ''InsertReferralLedger''
              (InsertReferralLedger \<lparr>lg_profile = referrer, lg_type = Commission,
                 lg_amount = commission, lg_payment = Some paymentID, lg_payout = None\<rparr> db) of
          Inr db' \<Rightarrow> Inr db'
        | Inl err \<Rightarrow> Inl (if err = Sql UniqueViolation then Sql DbFailure else err))"

definition ClawbackReferralCommissionOnRefund :: "env \<Rightarrow> uuid \<Rightarrow> billing_db \<Rightarrow> billing_err + billing_db" where
  "ClawbackReferralCommissionOnRefund e paymentID db =
     (if flt e ''Clawback'' ''GetCommissionByPaymentID'' then Inl (Sql DbFailure)
      else case GetCommissionByPaymentID db paymentID of
          None \<Rightarrow> Inr db
        | Some comm \<Rightarrow>
            if flt e ''Clawback'' ''GetClawbackByPaymentID'' then Inl (Sql DbFailure)
            else if GetClawbackByPaymentID db paymentID \<noteq> None then Inr db
            else rbind (stmt e ''Clawback'' ''LockProfileForGrant''
                   (one_row (LockProfileForGrant db (lg_profile comm)))) (\<lambda>_.
            let claw = lg_amount comm in
            if claw \<le> 0 then Inr db
            else case stmt e ''Clawback'' ''InsertReferralLedger''
                 (InsertReferralLedger \<lparr>lg_profile = lg_profile comm, lg_type = Clawback,
                    lg_amount = - claw, lg_payment = Some paymentID, lg_payout = None\<rparr> db) of
                Inr db' \<Rightarrow> Inr db'
              | Inl err \<Rightarrow> Inl (if err = Sql UniqueViolation then Sql DbFailure else err)))"

section \<open>Ledger operations of the admin console\<close>

definition MarkReferralPayoutPaid ::
  "env \<Rightarrow> uuid \<Rightarrow> string \<Rightarrow> billing_db \<Rightarrow> (billing_err + unit) \<times> billing_db" where
  "MarkReferralPayoutPaid e payoutID note db = run_tx e ''MarkReferralPayoutPaid''
     (\<lambda>db. if flt e ''MarkReferralPayoutPaid'' ''GetReferralPayoutForUpdate'' then Inl (Sql DbFailure)
           else case GetReferralPayoutForUpdate db payoutID of
               None \<Rightarrow> Inl ErrReferralPayoutNotFound
             | Some payout \<Rightarrow>
                 if po_status payout \<noteq> PoPending then Inl ErrReferralPayoutNotPending
                 else rbind (stmt e ''MarkReferralPayoutPaid'' ''MarkReferralPayoutPaid''
                        (sql_MarkReferralPayoutPaid payoutID note db)) (\<lambda>db'. Inr ((), db'))) db"

definition RejectReferralPayout ::
  "env \<Rightarrow> uuid \<Rightarrow> string \<Rightarrow> billing_db \<Rightarrow> (billing_err + unit) \<times> billing_db" where
  "RejectReferralPayout e payoutID note db = run_tx e ''RejectReferralPayout''
     (\<lambda>db. if flt e ''RejectReferralPayout'' ''GetReferralPayoutForUpdate'' then Inl (Sql DbFailure)
           else case GetReferralPayoutForUpdate db payoutID of
               None \<Rightarrow> Inl ErrReferralPayoutNotFound
             | Some payout \<Rightarrow>
                 if po_status payout \<noteq> PoPending then Inl ErrReferralPayoutNotPending
                 else rbind (stmt e ''RejectReferralPayout'' ''MarkReferralPayoutRejected''
                        (sql_MarkReferralPayoutRejected payoutID note db)) (\<lambda>db1.
                 rbind (stmt e ''RejectReferralPayout'' ''InsertReferralLedger''
                        (InsertReferralLedger \<lparr>lg_profile = po_profile payout,
                           lg_type = PayoutRejectRelease, lg_amount = po_amount payout,
                           lg_payment = None, lg_payout = Some (po_id payout)\<rparr> db1)) (\<lambda>db2.
                 Inr ((), db2)))) db"

definition UpdateUserReferralCommissionPercent ::
  "env \<Rightarrow> uuid \<Rightarrow> int \<Rightarrow> billing_db \<Rightarrow> (billing_err + int) \<times> billing_db" where
  "UpdateUserReferralCommissionPercent e prof percent db =
     (if percent < 0 \<or> 100 < percent then (Inl ErrPercentRange, db)
      else case stmt e ''UpdateUserReferralCommissionPercent'' ''UpdateReferralCommissionPercent''
              (UpdateReferralCommissionPercent prof percent db) of
          Inr db' \<Rightarrow> (Inr percent, db')
        | Inl err \<Rightarrow> (Inl (if err = Sql ErrNoRows then ErrReferralPayoutNotFound else err), db))"

definition SetUserReferralBalance ::
  "env \<Rightarrow> uuid \<Rightarrow> int \<Rightarrow> billing_db \<Rightarrow> (billing_err + int) \<times> billing_db" where
  "SetUserReferralBalance e prof targetUzs db =
     (if targetUzs < 0 then (Inl ErrBalanceNegative, db)
      else run_tx e ''SetUserReferralBalance''
        (\<lambda>db. if flt e ''SetUserReferralBalance'' ''LockProfileForGrant'' then Inl (Sql DbFailure)
              else if LockProfileForGrant db prof = None then Inl ErrReferralPayoutNotFound
              else rbind (stmt e ''SetUserReferralBalance'' ''GetReferralBalance''
                     (Inr (GetReferralBalance db prof))) (\<lambda>current.
              let delta = wrap64 (targetUzs - current) in
              if delta = 0 then Inr (current, db)
              else rbind (stmt e ''SetUserReferralBalance'' ''InsertReferralLedger''
                     (InsertReferralLedger \<lparr>lg_profile = prof, lg_type = AdminAdjust,
                        lg_amount = delta, lg_payment = None, lg_payout = None\<rparr> db)) (\<lambda>db'.
              Inr (targetUzs, db')))) db)"

section \<open>The ledger as an account\<close>

text \<open>
  What the operations rely on of the ledger: posting an entry changes the balance of its profile
  by its amount, of no other profile, and never another way.
\<close>

locale account_ledger =
  fixes balance :: "'s \<Rightarrow> 'p \<Rightarrow> int"
    and post :: "'r \<Rightarrow> 's \<Rightarrow> 'e + 's"
    and owner :: "'r \<Rightarrow> 'p"
    and amount :: "'r \<Rightarrow> int"
  assumes post_balance:
    "post r s = Inr s' \<Longrightarrow> balance s' p = balance s p + (if owner r = p then amount r else 0)"
begin

fun post_all :: "'r list \<Rightarrow> 's \<Rightarrow> 'e + 's" where
  "post_all [] s = Inr s"
| "post_all (r # rs) s = rbind (post r s) (post_all rs)"

lemma post_all_balance:
  "post_all rs s = Inr s' \<Longrightarrow>
   balance s' p = balance s p + sum_list (map amount (filter (\<lambda>r. owner r = p) rs))"
proof (induction rs arbitrary: s)
  case Nil
  then show ?case by simp
next
  case (Cons r rs)
  from Cons.prems obtain t where t: "post r s = Inr t" and rest: "post_all rs t = Inr s'"
    by (auto elim: rbindE)
  show ?case
    using Cons.IH [OF rest] post_balance [OF t, of p] by simp
qed

lemma hold_and_release:
  assumes "owner h = p" and "owner l = p" and "amount l = - amount h"
    and "post h s = Inr s1" and "balance s2 p = balance s1 p" and "post l s2 = Inr s3"
  shows "balance s3 p = balance s p"
  using post_balance [OF assms(4), of p] post_balance [OF assms(6), of p] assms by simp

end

lemma InsertReferralLedger_eq:
  "InsertReferralLedger r db = Inr db' \<Longrightarrow> db' = db\<lparr>ledger := ledger db @ [r]\<rparr>"
  by (auto simp: InsertReferralLedger_def split: if_splits)

interpretation referral_ledger: account_ledger GetReferralBalance InsertReferralLedger
  lg_profile lg_amount
  by unfold_locales (auto dest!: InsertReferralLedger_eq simp: GetReferralBalance_def)

lemma GetReferralBalance_frame [simp]:
  "GetReferralBalance (db\<lparr>payouts := x\<rparr>) p = GetReferralBalance db p"
  "GetReferralBalance (db\<lparr>payments := y\<rparr>) p = GetReferralBalance db p"
  "GetReferralBalance (db\<lparr>entitlements := z\<rparr>) p = GetReferralBalance db p"
  by (simp_all add: GetReferralBalance_def)

end
