(* ===== verification/Entitlement.thy ===== *)
theory Entitlement
  imports Promo Wallet
begin

text \<open>
  Entitlements (\<open>internal/billing/entitlement.go\<close>) and the referral programme that hangs on them
  (\<open>internal/billing/referral.go\<close>): the VIP status, the stacking grant, what a completed payment
  grants and rewards, what a refund takes back, and how a referral code is attached. Each function
  runs inside its caller's transaction, so it returns an error or the changed database.
\<close>

section \<open>Status and grant\<close>

text \<open>
  \<open>station\<close> is the request's station, if it was authenticated as one, with the answer of the B2B
  licence check (\<open>StationVIPChecker\<close>): \<open>None\<close> when no checker is set or there is no station.
\<close>

definition Status ::
  "env \<Rightarrow> (billing_err + (bool \<times> int option)) option \<Rightarrow> uuid \<Rightarrow> billing_db
     \<Rightarrow> billing_err + (bool \<times> int option)" where
  "Status e station prof db =
     (if flt e ''Status'' ''ActiveEntitlementEnd'' then Inl (Sql DbFailure)
      else case ActiveEntitlementEnd (tx_now e) db prof of
          Some t \<Rightarrow> Inr (True, Some t)
        | None \<Rightarrow> (case station of None \<Rightarrow> Inr (False, None) | Some ans \<Rightarrow> ans))"

definition GrantDaysForPayment ::
  "env \<Rightarrow> string \<Rightarrow> uuid \<Rightarrow> int \<Rightarrow> string \<Rightarrow> string \<Rightarrow> uuid option \<Rightarrow> uuid option \<Rightarrow> billing_db
     \<Rightarrow> billing_err + (int \<times> billing_db)" where
  "GrantDaysForPayment e site prof days source note granted_by pay db =
     rbind (stmt e site ''LockProfileForGrant'' (one_row (LockProfileForGrant db prof))) (\<lambda>_.
     rbind (stmt e site ''ActiveEntitlementEnd'' (Inr (ActiveEntitlementEnd (tx_now e) db prof))) (\<lambda>ends.
     let now = clk e site;
         start = (case ends of Some t \<Rightarrow> (if now < t then t else now) | None \<Rightarrow> now);
         stop = start + days_dur days
     in rbind (stmt e site ''InsertEntitlement'' (InsertEntitlement
          \<lparr>en_profile = prof, en_source = source, en_starts = start, en_ends = stop, en_note = note,
            en_created_by = granted_by, en_payment = pay, en_created_at = tx_now e\<rparr> db)) (\<lambda>db'.
        Inr (stop, db'))))"

definition GrantDays ::
  "env \<Rightarrow> string \<Rightarrow> uuid \<Rightarrow> int \<Rightarrow> string \<Rightarrow> string \<Rightarrow> uuid option \<Rightarrow> billing_db
     \<Rightarrow> billing_err + (int \<times> billing_db)" where
  "GrantDays e site prof days source note granted_by db =
     GrantDaysForPayment e site prof days source note granted_by None db"

section \<open>Completed payments\<close>

definition processReferralRewardOnPayment ::
  "env \<Rightarrow> uuid \<Rightarrow> payment_row \<Rightarrow> billing_db \<Rightarrow> billing_err + billing_db" where
  "processReferralRewardOnPayment e referee payment db =
     (case stmt e ''reward'' ''ClaimPendingReferralForReferee''
             (ClaimPendingReferralForReferee referee db) of
        Inl err \<Rightarrow> if err = Sql ErrNoRows then Inr db else Inl err
      | Inr (claimed, db1) \<Rightarrow>
          let bonusDays = BuyerReferralBonusDays (p_tariff_days payment) in
          rbind (if 0 < bonusDays
                 then rbind (GrantDaysForPayment e ''bonus'' referee bonusDays ''referral_buyer''
                        (''Referral buyer bonus (+'' @ show_int bonusDays @ '' days)'') None
                        (Some (p_id payment)) db1) (\<lambda>(_, db2). Inr db2)
                 else Inr db1) (\<lambda>db2.
          rbind (stmt e ''reward'' ''GetReferralCommissionPercent''
                  (one_row (GetReferralCommissionPercent db2 (rf_referrer claimed)))) (\<lambda>percent.
          creditReferralCommission e (rf_referrer claimed) (p_id payment) (p_amount payment)
            percent db2)))"

text \<open>
  The promo block of \<open>ProcessPaymentGrant\<close>: the days and note of the grant, and the database with
  the redemption recorded when the code is still redeemable.
\<close>

definition promo_terms ::
  "env \<Rightarrow> payment_row \<Rightarrow> uuid \<Rightarrow> billing_db \<Rightarrow> billing_err + (int \<times> string \<times> billing_db)" where
  "promo_terms e payment promoID db =
     rbind (stmt e ''ProcessPaymentGrant'' ''GetPromoCodeByIDForUpdate''
              (one_row (GetPromoCodeByIDForUpdate db promoID))) (\<lambda>promo.
     case checkPromoRedeemable e promo (p_profile payment) db of
        Inl redeemErr \<Rightarrow>
          if \<not> isPromoDomainError redeemErr then Inl redeemErr
          else let days = proRatedDays (p_amount payment) (p_tariff_price payment) (p_tariff_days payment)
               in Inr (days, formatPromoProratedNote (pc_code promo) (promoCauseCode redeemErr) days
                         (p_tariff_days payment) (p_amount payment) (p_tariff_price payment), db)
      | Inr _ \<Rightarrow>
          rbind (stmt e ''ProcessPaymentGrant'' ''CreatePromoRedemption''
             (CreatePromoRedemption promoID (p_profile payment) (Some (p_id payment)) db)) (\<lambda>db1.
          Inr ((if pc_kind promo = Days then p_tariff_days payment + pc_value promo
                else p_tariff_days payment), '''', db1)))"

definition ProcessPaymentGrant :: "env \<Rightarrow> uuid \<Rightarrow> billing_db \<Rightarrow> billing_err + billing_db" where
  "ProcessPaymentGrant e paymentID db =
     rbind (stmt e ''ProcessPaymentGrant'' ''GetPaymentForPayme''
              (one_row (GetPaymentForPayme db paymentID))) (\<lambda>payment.
     rbind (case p_promo payment of
              None \<Rightarrow> Inr (p_tariff_days payment, '''', db)
            | Some promoID \<Rightarrow> promo_terms e payment promoID db) (\<lambda>(days, note, db1).
     rbind (GrantDaysForPayment e ''grant'' (p_profile payment) days ''purchase'' note None
              (Some (p_id payment)) db1) (\<lambda>(_, db2).
     processReferralRewardOnPayment e (p_profile payment) payment db2)))"

section \<open>Refunds\<close>

definition RevokeEntitlementForPayment :: "env \<Rightarrow> uuid \<Rightarrow> billing_db \<Rightarrow> billing_err + billing_db" where
  "RevokeEntitlementForPayment e paymentID db =
     (if flt e ''revoke'' ''GetEntitlementByPaymentID'' then Inl (Sql DbFailure)
      else case GetEntitlementByPaymentID e db paymentID of
          None \<Rightarrow> ClawbackReferralCommissionOnRefund e paymentID db
        | Some ent \<Rightarrow>
            rbind (stmt e ''revoke'' ''LockProfileForGrant''
                     (one_row (LockProfileForGrant db (en_profile ent)))) (\<lambda>_.
            let now = clk e ''revoke'';
                clampTo = (if \<not> en_starts ent < now then en_starts ent + second else now)
            in rbind (stmt e ''revoke'' ''ClampAllEntitlementsForPayment''
                  (Inr (ClampAllEntitlementsForPayment paymentID clampTo '' | refunded'' db))) (\<lambda>db1.
               ClawbackReferralCommissionOnRefund e paymentID db1)))"

section \<open>Referral codes\<close>

definition referralAttachWindowKey :: string where
  "referralAttachWindowKey = ''referral_attach_window_days''"

definition referralAttachWindowDefault :: int where
  "referralAttachWindowDefault = 30"

text \<open>
  \<open>open_tx\<close>: the queries are those of an open transaction, which PostgreSQL aborts at the first failing statement. The failure of
  \<open>GetLimitConfig\<close> is ignored by the code; in a transaction the insert after it is then refused.
\<close>

definition ApplyReferralCode :: "bool \<Rightarrow> env \<Rightarrow> uuid \<Rightarrow> string \<Rightarrow> billing_db \<Rightarrow> billing_err + billing_db" where
  "ApplyReferralCode open_tx e referee rawCode db =
     (let code = trim_space rawCode in
      if code = '''' then Inl ErrReferralNotFound
      else if flt e ''ApplyReferralCode'' ''GetReferralCodeOwner'' then Inl (Sql DbFailure)
      else case GetReferralCodeOwner e db code of
          None \<Rightarrow> Inl ErrReferralNotFound
        | Some owner \<Rightarrow>
            if rc_user owner = referee then Inl ErrReferralSelf
            else rbind (stmt e ''ApplyReferralCode'' ''CountPaidPaymentsForProfile''
                   (Inr (CountPaidPaymentsForProfile db referee))) (\<lambda>paidCount.
            if 0 < paidCount then Inl ErrReferralNotEligiblePaid
            else rbind (stmt e ''ApplyReferralCode'' ''GetProfileByID''
                   (one_row (find (\<lambda>p. pr_id p = referee) (profiles db)))) (\<lambda>profile.
            let windowDays =
                  (if flt e ''ApplyReferralCode'' ''GetLimitConfig'' then referralAttachWindowDefault
                   else case map_of (limit_configs db) referralAttachWindowKey of
                       Some v \<Rightarrow> v | None \<Rightarrow> referralAttachWindowDefault);
                deadline = pr_created_at profile + days_dur windowDays
            in if deadline < clk e ''ApplyReferralCode'' then Inl ErrReferralWindowClosed
               else if open_tx \<and> flt e ''ApplyReferralCode'' ''GetLimitConfig'' then Inl (Sql DbFailure)
               else case stmt e ''ApplyReferralCode'' ''CreateReferral''
                      (CreateReferral (rc_user owner) referee (rc_code owner) db) of
                   Inr db' \<Rightarrow> Inr db'
                 | Inl err \<Rightarrow> Inl (if err = Sql UniqueViolation then ErrReferralAlreadyApplied else err))))"

text \<open>
  Called on the transaction of a checkout. The result: whether the text was a referral code, and whether the transaction is
  aborted: the unique violation of a learner who already has a referral is swallowed, but no later statement is accepted.
\<close>

definition TryApplyReferralAtCheckout ::
  "env \<Rightarrow> uuid \<Rightarrow> string \<Rightarrow> billing_db \<Rightarrow> billing_err + (bool \<times> bool \<times> billing_db)" where
  "TryApplyReferralAtCheckout e referee rawCode db =
     (let code = trim_space rawCode in
      if code = '''' then Inr (False, False, db)
      else if flt e ''TryApplyReferralAtCheckout'' ''GetReferralCodeOwner'' then Inl (Sql DbFailure)
      else if GetReferralCodeOwner e db code = None then Inr (False, False, db)
      else case ApplyReferralCode True e referee code db of
          Inr db' \<Rightarrow> Inr (True, False, db')
        | Inl err \<Rightarrow> if err = ErrReferralAlreadyApplied then Inr (True, True, db) else Inl err)"

section \<open>Lemmas on the grant\<close>

text \<open>The latest end of a profile's entitlements, whether over or not.\<close>

lemma ActiveEntitlementEnd_None:
  "ActiveEntitlementEnd now db p = None \<longleftrightarrow>
     (\<forall>r \<in> set (entitlements db). en_profile r = p \<longrightarrow> en_ends r \<le> now)"
proof -
  have "ActiveEntitlementEnd now db p = None \<longleftrightarrow> active_ends now db p = []"
    by (simp add: ActiveEntitlementEnd_def split: list.splits)
  also have "\<dots> \<longleftrightarrow> (\<forall>r \<in> set (entitlements db). en_profile r = p \<longrightarrow> en_ends r \<le> now)"
    by (auto simp: active_ends_def filter_empty_conv)
  finally show ?thesis .
qed

lemma fold_max_eq: "fold max ts t = Max (insert t (set ts))" for t :: int
  by (simp flip: Max.set_eq_fold)

lemma ActiveEntitlementEnd_Some:
  assumes "ActiveEntitlementEnd now db p = Some t"
  shows "now < t"
    and "\<exists>r \<in> set (entitlements db). en_profile r = p \<and> en_ends r = t"
    and "r \<in> set (entitlements db) \<Longrightarrow> en_profile r = p \<Longrightarrow> en_ends r \<le> t"
proof -
  obtain x xs where xs: "active_ends now db p = x # xs"
    using assms by (auto simp: ActiveEntitlementEnd_def split: list.splits)
  then have t: "t = Max (set (active_ends now db p))"
    using assms by (simp add: ActiveEntitlementEnd_def fold_max_eq)
  have mem: "t \<in> set (active_ends now db p)"
    unfolding t using xs by (intro Max_in) simp_all
  then show "now < t" "\<exists>r \<in> set (entitlements db). en_profile r = p \<and> en_ends r = t"
    by (auto simp: active_ends_def)
  assume r: "r \<in> set (entitlements db)" "en_profile r = p"
  show "en_ends r \<le> t"
  proof (cases "now < en_ends r")
    case True
    with r have "en_ends r \<in> set (active_ends now db p)"
      by (auto simp: active_ends_def)
    then show ?thesis unfolding t by simp
  next
    case False
    with \<open>now < t\<close> show ?thesis by simp
  qed
qed

definition grant_start :: "env \<Rightarrow> string \<Rightarrow> uuid \<Rightarrow> billing_db \<Rightarrow> int" where
  "grant_start e site p db =
     (case ActiveEntitlementEnd (tx_now e) db p of
        Some t \<Rightarrow> max (clk e site) t | None \<Rightarrow> clk e site)"

text \<open>A successful grant appends exactly one row and touches nothing else.\<close>

lemma GrantDaysForPayment_ok:
  assumes "GrantDaysForPayment e site p days src note granted_by pay db = Inr (stop, db')"
  shows "stop = grant_start e site p db + days_dur days"
    and "0 < days_dur days"
    and "db' = db\<lparr>entitlements := entitlements db @
           [\<lparr>en_profile = p, en_source = src, en_starts = grant_start e site p db, en_ends = stop,
             en_note = note, en_created_by = granted_by, en_payment = pay,
             en_created_at = tx_now e\<rparr>]\<rparr>"
    and "p \<in> pr_id ` set (profiles db)"
proof -
  from assms obtain q where q: "LockProfileForGrant db p = Some q"
    by (auto simp: GrantDaysForPayment_def rbind_Inr_iff)
  then show "p \<in> pr_id ` set (profiles db)"
    by (auto simp: LockProfileForGrant_def dest: find_SomeD)
  have "(case ActiveEntitlementEnd (tx_now e) db p of
           Some t \<Rightarrow> (if clk e site < t then t else clk e site) | None \<Rightarrow> clk e site)
        = grant_start e site p db"
    by (auto simp: grant_start_def split: option.splits)
  with assms show "stop = grant_start e site p db + days_dur days" "0 < days_dur days"
    "db' = db\<lparr>entitlements := entitlements db @
       [\<lparr>en_profile = p, en_source = src, en_starts = grant_start e site p db, en_ends = stop,
         en_note = note, en_created_by = granted_by, en_payment = pay, en_created_at = tx_now e\<rparr>]\<rparr>"
    by (auto simp: GrantDaysForPayment_def rbind_Inr_iff Let_def InsertEntitlement_def split: if_splits)
qed

text \<open>The latest end of all entitlements of a profile, none being \<open>None\<close>.\<close>

lemma ActiveEntitlementEnd_snoc:
  assumes "en_profile r = p" and "now < en_ends r"
    and "\<And>s. s \<in> set (entitlements db) \<Longrightarrow> en_profile s = p \<Longrightarrow> en_ends s \<le> en_ends r"
  shows "ActiveEntitlementEnd now (db\<lparr>entitlements := entitlements db @ [r]\<rparr>) p = Some (en_ends r)"
proof -
  let ?db = "db\<lparr>entitlements := entitlements db @ [r]\<rparr>"
  have "ActiveEntitlementEnd now ?db p \<noteq> None"
    using assms(1,2) by (auto simp: ActiveEntitlementEnd_None)
  then obtain t where t: "ActiveEntitlementEnd now ?db p = Some t" by auto
  from ActiveEntitlementEnd_Some(2) [OF t] have "t \<le> en_ends r"
    using assms by auto
  moreover have "en_ends r \<le> t"
    by (rule ActiveEntitlementEnd_Some(3) [OF t]) (simp_all add: assms)
  ultimately show ?thesis using t by simp
qed

text \<open>A grant never starts before another entitlement of the profile that is still running ends.\<close>

lemma grant_start_after:
  assumes "tx_now e \<le> clk e site" and "r \<in> set (entitlements db)" and "en_profile r = p"
  shows "en_ends r \<le> grant_start e site p db"
proof (cases "ActiveEntitlementEnd (tx_now e) db p")
  case None
  then have "en_ends r \<le> tx_now e" using assms by (auto simp: ActiveEntitlementEnd_None)
  then show ?thesis using assms None by (simp add: grant_start_def)
next
  case (Some t)
  then have "en_ends r \<le> t" using assms by (intro ActiveEntitlementEnd_Some(3) [OF Some])
  then show ?thesis using Some by (simp add: grant_start_def)
qed

lemma grant_start_ge_clk: "clk e site \<le> grant_start e site p db"
  by (simp add: grant_start_def split: option.splits)

end
