(* ===== verification/Settlement.thy ===== *)
theory Settlement
  imports Entitlement
begin

text \<open>
  What the webhooks rely on of a completed payment. The first part states the effect of
  \<open>ProcessPaymentGrant\<close> and \<open>RevokeEntitlementForPayment\<close> on every table. The second part is the
  interface \<open>settlement\<close>: an endpoint that is delivered any number of times, with any faults, and
  must grant at most once; Payme, Click and the free checkout are its instances.
\<close>

section \<open>Frame\<close>

text \<open>The tables that neither a grant nor a revocation writes.\<close>

definition same_orders :: "billing_db \<Rightarrow> billing_db \<Rightarrow> bool" where
  "same_orders db db' \<longleftrightarrow> payments db' = payments db \<and> payme_txs db' = payme_txs db
     \<and> click_txs db' = click_txs db \<and> profiles db' = profiles db \<and> promo_codes db' = promo_codes db
     \<and> tariffs db' = tariffs db \<and> payouts db' = payouts db \<and> voids db' = voids db
     \<and> referral_codes db' = referral_codes db"

lemma same_orders_refl [simp]: "same_orders db db"
  by (simp add: same_orders_def)

lemma same_orders_trans: "same_orders a b \<Longrightarrow> same_orders b c \<Longrightarrow> same_orders a c"
  by (simp add: same_orders_def)

definition purchase_row :: "uuid \<Rightarrow> entitlement_row \<Rightarrow> bool" where
  "purchase_row pay r \<longleftrightarrow> en_payment r = Some pay \<and> en_source r = ''purchase''"

definition grant_count :: "billing_db \<Rightarrow> uuid \<Rightarrow> nat" where
  "grant_count db pay = length (filter (purchase_row pay) (entitlements db))"

section \<open>Effect of the grant\<close>

lemma creditReferralCommission_ok:
  assumes "creditReferralCommission e referrer pay amt pct db = Inr db'"
  shows "db' = db \<or>
    db' = db\<lparr>ledger := ledger db @ [\<lparr>lg_profile = referrer, lg_type = Commission,
            lg_amount = CommissionUZS amt pct, lg_payment = Some pay, lg_payout = None\<rparr>]\<rparr>"
  using assms
  by (auto simp: creditReferralCommission_def Let_def dest: InsertReferralLedger_eq
      split: if_splits sum.splits)

definition bonus_row :: "uuid \<Rightarrow> payment_row \<Rightarrow> entitlement_row \<Rightarrow> bool" where
  "bonus_row p pm r \<longleftrightarrow> en_profile r = p \<and> en_payment r = Some (p_id pm) \<and> en_source r = ''referral_buyer''
     \<and> en_starts r < en_ends r"

lemma processReferralRewardOnPayment_ok:
  assumes "processReferralRewardOnPayment e p pm db = Inr db'"
  obtains rows ls where "same_orders db db'"
    and "entitlements db' = entitlements db @ rows" and "list_all (bonus_row p pm) rows"
    and "ledger db' = ledger db @ ls"
    and "list_all (\<lambda>l. lg_type l = Commission \<and> lg_payment l = Some (p_id pm)) ls"
    and "redemptions db' = redemptions db"
proof (cases "stmt e ''reward'' ''ClaimPendingReferralForReferee'' (ClaimPendingReferralForReferee p db)")
  case (Inl err)
  with assms have "db' = db"
    by (auto simp: processReferralRewardOnPayment_def split: if_splits)
  then show thesis by (intro that [of "[]" "[]"]) simp_all
next
  case (Inr y)
  obtain claimed db1 where y: "y = (claimed, db1)" by (cases y)
  have claim: "ClaimPendingReferralForReferee p db = Inr (claimed, db1)"
    using Inr y by simp
  then have db1: "same_orders db db1" "entitlements db1 = entitlements db"
    "ledger db1 = ledger db" "redemptions db1 = redemptions db"
    by (auto simp: ClaimPendingReferralForReferee_def same_orders_def split: option.splits)
  let ?b = "BuyerReferralBonusDays (p_tariff_days pm)"
  obtain db2 pct where db2: "(if 0 < ?b then rbind (GrantDaysForPayment e ''bonus'' p ?b
        ''referral_buyer'' (''Referral buyer bonus (+'' @ show_int ?b @ '' days)'') None
        (Some (p_id pm)) db1) (\<lambda>(_, db2). Inr db2) else Inr db1) = Inr db2"
    and cred: "creditReferralCommission e (rf_referrer claimed) (p_id pm) (p_amount pm) pct db2 = Inr db'"
    using assms Inr y by (auto simp: processReferralRewardOnPayment_def Let_def rbind_Inr_iff)
  obtain rows where rows: "same_orders db1 db2" "entitlements db2 = entitlements db1 @ rows"
    "list_all (bonus_row p pm) rows" "ledger db2 = ledger db1" "redemptions db2 = redemptions db1"
  proof (cases "0 < ?b")
    case True
    with db2 obtain stop where g: "GrantDaysForPayment e ''bonus'' p ?b ''referral_buyer''
        (''Referral buyer bonus (+'' @ show_int ?b @ '' days)'') None (Some (p_id pm)) db1 = Inr (stop, db2)"
      by (auto simp: rbind_Inr_iff)
    note ok = GrantDaysForPayment_ok [OF g]
    let ?r = "\<lparr>en_profile = p, en_source = ''referral_buyer'', en_starts = grant_start e ''bonus'' p db1,
      en_ends = stop, en_note = ''Referral buyer bonus (+'' @ show_int ?b @ '' days)'',
      en_created_by = None, en_payment = Some (p_id pm), en_created_at = tx_now e\<rparr>"
    show thesis
      by (rule that [of "[?r]"])
        (use ok in \<open>simp_all add: same_orders_def bonus_row_def\<close>)
  next
    case False
    with db2 show thesis by (intro that [of "[]"]) simp_all
  qed
  from creditReferralCommission_ok [OF cred] show thesis
  proof
    assume "db' = db2"
    with db1 rows show thesis
      by (intro that [of rows "[]"]) (auto intro: same_orders_trans)
  next
    assume "db' = db2\<lparr>ledger := ledger db2 @ [\<lparr>lg_profile = rf_referrer claimed, lg_type = Commission,
       lg_amount = CommissionUZS (p_amount pm) pct, lg_payment = Some (p_id pm), lg_payout = None\<rparr>]\<rparr>"
    with db1 rows show thesis
      by (intro that [of rows "[\<lparr>lg_profile = rf_referrer claimed, lg_type = Commission,
        lg_amount = CommissionUZS (p_amount pm) pct, lg_payment = Some (p_id pm), lg_payout = None\<rparr>]"])
        (auto simp: same_orders_def)
  qed
qed

text \<open>The promo block decides days and note, and records at most the redemption.\<close>

lemma promo_terms_ok:
  assumes "promo_terms e pm promoID db = Inr (days, nt, db1)"
  shows "db1 = db \<or> db1 = db\<lparr>redemptions := redemptions db @
       [\<lparr>rd_promo = promoID, rd_profile = p_profile pm, rd_payment = Some (p_id pm)\<rparr>]\<rparr>"
proof -
  from assms obtain promo where "GetPromoCodeByIDForUpdate db promoID = Some promo"
    by (auto simp: promo_terms_def rbind_Inr_iff)
  with assms show ?thesis
    by (cases "checkPromoRedeemable e promo (p_profile pm) db")
      (auto simp: promo_terms_def rbind_Inr_iff Let_def CreatePromoRedemption_def split: if_splits)
qed

text \<open>The days and the note a payment is granted, before any table is written.\<close>

definition grant_terms ::
  "env \<Rightarrow> payment_row \<Rightarrow> billing_db \<Rightarrow> billing_err + (int \<times> string \<times> billing_db)" where
  "grant_terms e pm db = (case p_promo pm of
      None \<Rightarrow> Inr (p_tariff_days pm, '''', db)
    | Some promoID \<Rightarrow> promo_terms e pm promoID db)"

lemma grant_terms_ok:
  assumes "grant_terms e pm db = Inr (days, nt, db1)"
  shows "same_orders db db1" and "entitlements db1 = entitlements db" and "ledger db1 = ledger db"
    and "referrals db1 = referrals db" and "\<exists>rs. redemptions db1 = redemptions db @ rs \<and> length rs \<le> 1"
proof -
  have "db1 = db \<or> (\<exists>i. db1 = db\<lparr>redemptions := redemptions db @
       [\<lparr>rd_promo = i, rd_profile = p_profile pm, rd_payment = Some (p_id pm)\<rparr>]\<rparr>)"
    using assms by (auto simp: grant_terms_def split: option.splits dest!: promo_terms_ok)
  then show "same_orders db db1" "entitlements db1 = entitlements db" "ledger db1 = ledger db"
    "referrals db1 = referrals db" "\<exists>rs. redemptions db1 = redemptions db @ rs \<and> length rs \<le> 1"
    by (auto simp: same_orders_def)
qed

lemma ProcessPaymentGrant_cases:
  assumes "ProcessPaymentGrant e pay db = Inr db'"
  obtains pm days nt db1 stop db2 where
    "GetPaymentForPayme db pay = Some pm" and "p_id pm = pay"
    and "grant_terms e pm db = Inr (days, nt, db1)"
    and "GrantDaysForPayment e ''grant'' (p_profile pm) days ''purchase'' nt None (Some pay) db1 = Inr (stop, db2)"
    and "processReferralRewardOnPayment e (p_profile pm) pm db2 = Inr db'"
proof -
  have g: "p_id pm = pay" if "GetPaymentForPayme db pay = Some pm" for pm
    using that by (auto simp: GetPaymentForPayme_def dest: find_SomeD)
  from assms show thesis
    unfolding ProcessPaymentGrant_def
    by (auto simp: rbind_Inr_iff simp flip: grant_terms_def intro!: that dest: g)
qed

text \<open>
  A successful completion appends one \<open>purchase\<close> entitlement for the payment, then possibly the
  buyer's referral bonus, leaves the orders alone and only appends to the ledger.
\<close>

theorem ProcessPaymentGrant_effect:
  assumes "ProcessPaymentGrant e pay db = Inr db'"
  obtains pm days nt row rows ls where
    "GetPaymentForPayme db pay = Some pm" and "same_orders db db'"
    and "\<exists>db1. grant_terms e pm db = Inr (days, nt, db1)"
    and "row = \<lparr>en_profile = p_profile pm, en_source = ''purchase'',
          en_starts = grant_start e ''grant'' (p_profile pm) db,
          en_ends = grant_start e ''grant'' (p_profile pm) db + days_dur days,
          en_note = nt, en_created_by = None, en_payment = Some pay, en_created_at = tx_now e\<rparr>"
    and "0 < days_dur days"
    and "entitlements db' = entitlements db @ row # rows" and "list_all (bonus_row (p_profile pm) pm) rows"
    and "p_id pm = pay"
    and "ledger db' = ledger db @ ls"
    and "list_all (\<lambda>l. lg_type l = Commission \<and> lg_payment l = Some pay) ls"
    and "\<exists>rs. redemptions db' = redemptions db @ rs \<and> length rs \<le> 1"
proof -
  from assms obtain pm days nt db1 stop db2 where pm: "GetPaymentForPayme db pay = Some pm"
    and id: "p_id pm = pay" and t: "grant_terms e pm db = Inr (days, nt, db1)"
    and g: "GrantDaysForPayment e ''grant'' (p_profile pm) days ''purchase'' nt None (Some pay) db1 = Inr (stop, db2)"
    and r: "processReferralRewardOnPayment e (p_profile pm) pm db2 = Inr db'"
    by (rule ProcessPaymentGrant_cases)
  note t' = grant_terms_ok [OF t] and g' = GrantDaysForPayment_ok [OF g]
  have gs: "grant_start e ''grant'' (p_profile pm) db1 = grant_start e ''grant'' (p_profile pm) db"
    using t'(2) by (simp add: grant_start_def ActiveEntitlementEnd_def active_ends_def)
  from r obtain rows ls where "same_orders db2 db'" "entitlements db' = entitlements db2 @ rows"
    "list_all (bonus_row (p_profile pm) pm) rows" "ledger db' = ledger db2 @ ls"
    "list_all (\<lambda>l. lg_type l = Commission \<and> lg_payment l = Some (p_id pm)) ls"
    "redemptions db' = redemptions db2"
    by (rule processReferralRewardOnPayment_ok)
  with pm id t t' g' gs show thesis
    by (intro that [of pm days nt _ rows ls]) (auto simp: same_orders_def)
qed

corollary ProcessPaymentGrant_grants_once:
  assumes "ProcessPaymentGrant e pay db = Inr db'"
  shows "grant_count db' q = grant_count db q + (if q = pay then 1 else 0)"
    and "same_orders db db'"
proof -
  obtain pm days nt row rows ls where row: "entitlements db' = entitlements db @ row # rows"
    "list_all (bonus_row (p_profile pm) pm) rows" "p_id pm = pay"
    "en_source row = ''purchase''" "en_payment row = Some pay" and so: "same_orders db db'"
    using assms by (rule ProcessPaymentGrant_effect) auto
  have "filter (purchase_row x) rows = []" for x
    using row(2) by (auto simp: filter_empty_conv list_all_iff bonus_row_def purchase_row_def)
  then show "grant_count db' q = grant_count db q + (if q = pay then 1 else 0)"
    using row by (simp add: grant_count_def purchase_row_def)
  show "same_orders db db'" by (rule so)
qed

section \<open>Effect of a refund\<close>

lemma Clawback_ok:
  assumes "ClawbackReferralCommissionOnRefund e pay db = Inr db'"
  shows "db' = db \<or> (\<exists>comm. GetCommissionByPaymentID db pay = Some comm
      \<and> GetClawbackByPaymentID db pay = None \<and> 0 < lg_amount comm
      \<and> db' = db\<lparr>ledger := ledger db @ [\<lparr>lg_profile = lg_profile comm, lg_type = Clawback,
            lg_amount = - lg_amount comm, lg_payment = Some pay, lg_payout = None\<rparr>]\<rparr>)"
  using assms
  by (auto simp: ClawbackReferralCommissionOnRefund_def Let_def rbind_Inr_iff
      dest: InsertReferralLedger_eq split: if_splits option.splits sum.splits)

lemma Clamp_frame:
  "same_orders db (ClampAllEntitlementsForPayment pay t s db)"
  "grant_count (ClampAllEntitlementsForPayment pay t s db) q = grant_count db q"
  "ledger (ClampAllEntitlementsForPayment pay t s db) = ledger db"
proof -
  show "same_orders db (ClampAllEntitlementsForPayment pay t s db)"
    "ledger (ClampAllEntitlementsForPayment pay t s db) = ledger db"
    by (simp_all add: same_orders_def ClampAllEntitlementsForPayment_def)
  have "length (filter (purchase_row q) (upd_where P f rows)) = length (filter (purchase_row q) rows)"
    if "\<And>r. purchase_row q (f r) = purchase_row q r" for P f rows
    using that by (induction rows) (auto simp: table_simps)
  then show "grant_count (ClampAllEntitlementsForPayment pay t s db) q = grant_count db q"
    by (simp add: grant_count_def ClampAllEntitlementsForPayment_def purchase_row_def)
qed

lemma Clawback_frame:
  assumes "ClawbackReferralCommissionOnRefund e pay db = Inr db'"
  shows "same_orders db db'" and "grant_count db' q = grant_count db q"
    and "entitlements db' = entitlements db"
  using Clawback_ok [OF assms] by (auto simp: same_orders_def grant_count_def)

lemma RevokeEntitlementForPayment_frame:
  assumes "RevokeEntitlementForPayment e pay db = Inr db'"
  shows "same_orders db db'" and "grant_count db' q = grant_count db q"
proof -
  consider "ClawbackReferralCommissionOnRefund e pay db = Inr db'"
    | t where "ClawbackReferralCommissionOnRefund e pay
        (ClampAllEntitlementsForPayment pay t '' | refunded'' db) = Inr db'"
    using assms by (auto simp: RevokeEntitlementForPayment_def Let_def rbind_Inr_iff
        split: if_splits option.splits)
  then have "same_orders db db' \<and> grant_count db' q = grant_count db q"
  proof cases
    case 1
    then show ?thesis using Clawback_frame [OF 1] by simp
  next
    case (2 t)
    show ?thesis
      using Clawback_frame [OF 2] Clamp_frame [where pay = pay and t = t]
      by (auto intro: same_orders_trans)
  qed
  then show "same_orders db db'" "grant_count db' q = grant_count db q" by simp_all
qed

text \<open>A commission that was not taken back yet is taken back in full.\<close>

lemma Clawback_exact:
  assumes "ClawbackReferralCommissionOnRefund e pay db = Inr db'"
    and "GetCommissionByPaymentID db pay = Some c" and "GetClawbackByPaymentID db pay = None"
    and "0 < lg_amount c"
  shows "db' = db\<lparr>ledger := ledger db @ [\<lparr>lg_profile = lg_profile c, lg_type = Clawback,
            lg_amount = - lg_amount c, lg_payment = Some pay, lg_payout = None\<rparr>]\<rparr>"
proof -
  have "\<not> (\<exists>s \<in> set (ledger db). ledger_conflict \<lparr>lg_profile = lg_profile c, lg_type = Clawback,
      lg_amount = - lg_amount c, lg_payment = Some pay, lg_payout = None\<rparr> s)"
    using assms(3) by (auto simp: GetClawbackByPaymentID_def find_None_iff ledger_conflict_def)
  with assms show ?thesis
    by (auto simp: ClawbackReferralCommissionOnRefund_def Let_def rbind_Inr_iff InsertReferralLedger_def
        stmt_def split: if_splits)
qed

lemma RevokeEntitlementForPayment_cases:
  assumes "RevokeEntitlementForPayment e pay db = Inr db'"
    and "GetEntitlementByPaymentID e db pay = Some ent"
  obtains clampTo where "clampTo = (if en_starts ent < clk e ''revoke'' then clk e ''revoke'' else en_starts ent + second)"
    and "ClawbackReferralCommissionOnRefund e pay
      (ClampAllEntitlementsForPayment pay clampTo '' | refunded'' db) = Inr db'"
  using assms by (auto simp: RevokeEntitlementForPayment_def Let_def rbind_Inr_iff split: if_splits)

lemma Clamp_rows:
  assumes "r \<in> set (entitlements (ClampAllEntitlementsForPayment pay t s db))" and "en_payment r = Some pay"
  shows "en_ends r \<le> t \<or> en_ends r = en_starts r + second"
  using assms by (auto simp: ClampAllEntitlementsForPayment_def set_upd_where split: if_splits)

section \<open>Settling an endpoint at most once\<close>

text \<open>
  A settlement endpoint: once settled, a delivery changes nothing; a delivery that does not settle
  grants nothing; a delivery that settles grants exactly once.
\<close>

locale settlement =
  fixes settle :: "'e \<Rightarrow> 's \<Rightarrow> 'out \<times> 's"
    and settled :: "'s \<Rightarrow> bool"
    and grants :: "'s \<Rightarrow> nat"
  assumes settled_inert: "settled s \<Longrightarrow> snd (settle e s) = s"
    and settle_grants: "\<not> settled s \<Longrightarrow>
      grants (snd (settle e s)) = grants s + (if settled (snd (settle e s)) then 1 else 0)"
begin

fun deliver :: "'e list \<Rightarrow> 's \<Rightarrow> 's" where
  "deliver [] s = s"
| "deliver (e # es) s = deliver es (snd (settle e s))"

lemma deliver_settled: "settled s \<Longrightarrow> deliver es s = s"
  by (induction es) (simp_all add: settled_inert)

lemma deliver_grants:
  "\<not> settled s \<Longrightarrow> grants (deliver es s) = grants s + (if settled (deliver es s) then 1 else 0)"
proof (induction es arbitrary: s)
  case Nil
  then show ?case by simp
next
  case (Cons e es)
  show ?case
  proof (cases "settled (snd (settle e s))")
    case True
    then show ?thesis using Cons.prems by (simp add: deliver_settled settle_grants)
  next
    case False
    then show ?thesis using Cons by (simp add: settle_grants)
  qed
qed

lemma deliver_at_most_once: "grants (deliver es s) \<le> grants s + 1"
  by (cases "settled s") (simp_all add: deliver_settled deliver_grants)

end

end
