(* ===== verification/Payme.thy ===== *)
theory Payme
  imports Settlement
begin

text \<open>
  The Payme merchant webhook (\<open>internal/billing/payme\<close>): the JSON-RPC transport, the six methods and
  their error codes, over the tables of \<open>Billing_Store\<close>. \<open>parse_uuid\<close> and \<open>uuid_str\<close> stand for
  \<open>uuid.Parse\<close> and \<open>UUID.String\<close> of google/uuid; the JSON decoders are a record of functions.
  PerformTransaction and CancelTransaction run in one database transaction with the row locked, so
  each is one atomic step; CreateTransaction is not transactional and its statements take effect
  one by one.
\<close>

section \<open>Errors and parameters\<close>

datatype rpcError = errNotPost | errParse | errUnknownMethod | errAuth | errInternal
  | errAmount | errAccountNotFound | errTransactionState | errTransactionNotFound

fun rpc_code :: "rpcError \<Rightarrow> int" where
  "rpc_code errNotPost = -32300"
| "rpc_code errParse = -32700"
| "rpc_code errUnknownMethod = -32601"
| "rpc_code errAuth = -32504"
| "rpc_code errInternal = -32400"
| "rpc_code errAmount = -31001"
| "rpc_code errAccountNotFound = -31050"
| "rpc_code errTransactionState = -31008"
| "rpc_code errTransactionNotFound = -31003"

fun rpc_data :: "rpcError \<Rightarrow> string" where
  "rpc_data errAccountNotFound = ''order_id''"
| "rpc_data _ = ''''"

definition paymeTxTimeoutMs :: int where
  "paymeTxTimeoutMs = 12 * 60 * 60 * 1000"

definition cancelReasonTimeout :: int where
  "cancelReasonTimeout = 4"

record checkPerformParams =
  cpp_amount :: int
  cpp_order_id :: string

record createTransactionParams =
  ctp_id :: string
  ctp_time :: int
  ctp_amount :: int
  ctp_order_id :: string

record createTransactionResult =
  ctr_create_time :: int
  ctr_transaction :: string
  ctr_state :: int

record performTransactionResult =
  ptr_transaction :: string
  ptr_perform_time :: int
  ptr_state :: int

record cancelTransactionParams =
  xtp_id :: string
  xtp_reason :: int

record cancelTransactionResult =
  xtr_transaction :: string
  xtr_cancel_time :: int
  xtr_state :: int

record checkTransactionResult =
  ckr_create_time :: int
  ckr_perform_time :: int
  ckr_cancel_time :: int
  ckr_transaction :: string
  ckr_state :: int
  ckr_reason :: int

record statementEntry =
  se_id :: string
  se_time :: int
  se_amount :: int
  se_order_id :: string
  se_create_time :: int
  se_perform_time :: int
  se_cancel_time :: int
  se_transaction :: string
  se_state :: int
  se_reason :: int

section \<open>Methods\<close>

definition validateAccountAmount ::
  "(string \<Rightarrow> uuid option) \<Rightarrow> env \<Rightarrow> string \<Rightarrow> int \<Rightarrow> bool \<Rightarrow> billing_db \<Rightarrow> rpcError + payment_row" where
  "validateAccountAmount parse_uuid e orderID amountTiyin allowPending db =
     (case parse_uuid orderID of
        None \<Rightarrow> Inl errAccountNotFound
      | Some i \<Rightarrow>
          if flt e ''validateAccountAmount'' ''GetPaymentForPayme'' then Inl errInternal
          else case GetPaymentForPayme db i of
              None \<Rightarrow> Inl errAccountNotFound
            | Some payment \<Rightarrow>
                if \<not> (p_status payment = Created \<or> (allowPending \<and> p_status payment = Pending))
                then Inl errAccountNotFound
                else if amountTiyin \<noteq> wrap64 (p_amount payment * 100) then Inl errAmount
                else Inr payment)"

definition checkPerform ::
  "(string \<Rightarrow> uuid option) \<Rightarrow> env \<Rightarrow> checkPerformParams \<Rightarrow> billing_db \<Rightarrow> rpcError + bool" where
  "checkPerform parse_uuid e p db =
     (case validateAccountAmount parse_uuid e (cpp_order_id p) (cpp_amount p) False db of
        Inl err \<Rightarrow> Inl err
      | Inr _ \<Rightarrow> Inr True)"

definition createTransaction ::
  "(string \<Rightarrow> uuid option) \<Rightarrow> (uuid \<Rightarrow> string) \<Rightarrow> env \<Rightarrow> createTransactionParams \<Rightarrow> billing_db
     \<Rightarrow> (rpcError + createTransactionResult) \<times> billing_db" where
  "createTransaction parse_uuid uuid_str e p db =
     (if flt e ''createTransaction'' ''GetPaymeTransaction'' then (Inl errInternal, db)
      else case GetPaymeTransaction db (ctp_id p) of
          Some existing \<Rightarrow>
            (Inr \<lparr>ctr_create_time = pt_create_time existing,
                  ctr_transaction = uuid_str (pt_payment existing),
                  ctr_state = pt_state existing\<rparr>, db)
        | None \<Rightarrow>
            (case validateAccountAmount parse_uuid e (ctp_order_id p) (ctp_amount p) True db of
               Inl err \<Rightarrow> (Inl err, db)
             | Inr payment \<Rightarrow>
                 if flt e ''createTransaction'' ''GetActivePaymeTxByPayment'' then (Inl errInternal, db)
                 else if GetActivePaymeTxByPayment e db (p_id payment) \<noteq> None
                 then (Inl errTransactionState, db)
                 else let createTime = unix_milli (clk e ''createTransaction'') in
                   (case stmt e ''createTransaction'' ''CreatePaymeTransaction''
                       (CreatePaymeTransaction (ctp_id p) (p_id payment) (ctp_amount p) createTime db) of
                      Inl err \<Rightarrow>
                        (Inl (if err = Sql UniqueViolation then errTransactionState else errInternal), db)
                    | Inr db1 \<Rightarrow>
                        if flt e ''createTransaction'' ''SetPaymentStatus'' then (Inl errInternal, db1)
                        else (Inr \<lparr>ctr_create_time = createTime,
                                  ctr_transaction = uuid_str (p_id payment), ctr_state = 1\<rparr>,
                              SetPaymentStatus (p_id payment) Pending db1))))"

text \<open>
  PerformTransaction. The branches that return before \<open>Commit\<close> roll back; the timeout branch
  commits the cancellation and still answers with an error.
\<close>

definition performTransaction ::
  "(uuid \<Rightarrow> string) \<Rightarrow> string \<Rightarrow> env \<Rightarrow> billing_db
     \<Rightarrow> (rpcError + performTransactionResult) \<times> billing_db" where
  "performTransaction uuid_str pid e db =
     (if flt e ''perform'' ''Begin'' \<or> flt e ''perform'' ''GetPaymeTransactionForUpdate''
      then (Inl errInternal, db)
      else case GetPaymeTransactionForUpdate db pid of
          None \<Rightarrow> (Inl errTransactionNotFound, db)
        | Some existing \<Rightarrow>
            if pt_state existing = 2 then
              (if flt e ''perform'' ''Commit'' then (Inl errInternal, db)
               else (Inr \<lparr>ptr_transaction = uuid_str (pt_payment existing),
                         ptr_perform_time = pt_perform_time existing, ptr_state = 2\<rparr>, db))
            else if pt_state existing \<noteq> 1 then (Inl errTransactionState, db)
            else let now = unix_milli (clk e ''perform'') in
              if wrap64 (pt_create_time existing + paymeTxTimeoutMs) < now then
                (if flt e ''perform'' ''CancelPaymeTransaction'' \<or> flt e ''perform'' ''SetPaymentStatus''
                    \<or> flt e ''perform'' ''Commit'' then (Inl errInternal, db)
                 else (Inl errTransactionState,
                   SetPaymentStatus (pt_payment existing) Canceled
                     (CancelPaymeTransaction pid (-1) (Some cancelReasonTimeout) now db)))
              else if flt e ''perform'' ''PerformPaymeTransaction'' \<or> flt e ''perform'' ''MarkPaymentPaid''
              then (Inl errInternal, db)
              else (case ProcessPaymentGrant e (pt_payment existing)
                        (MarkPaymentPaid e (pt_payment existing) (PerformPaymeTransaction pid now db)) of
                      Inl _ \<Rightarrow> (Inl errInternal, db)
                    | Inr db' \<Rightarrow>
                        if flt e ''perform'' ''Commit'' then (Inl errInternal, db)
                        else (Inr \<lparr>ptr_transaction = uuid_str (pt_payment existing),
                                  ptr_perform_time = now, ptr_state = 2\<rparr>, db')))"

definition cancelTransaction ::
  "(uuid \<Rightarrow> string) \<Rightarrow> cancelTransactionParams \<Rightarrow> env \<Rightarrow> billing_db
     \<Rightarrow> (rpcError + cancelTransactionResult) \<times> billing_db" where
  "cancelTransaction uuid_str p e db =
     (if flt e ''cancel'' ''Begin'' \<or> flt e ''cancel'' ''GetPaymeTransactionForUpdate''
      then (Inl errInternal, db)
      else case GetPaymeTransactionForUpdate db (xtp_id p) of
          None \<Rightarrow> (Inl errTransactionNotFound, db)
        | Some existing \<Rightarrow>
            if pt_state existing = -1 \<or> pt_state existing = -2 then
              (if flt e ''cancel'' ''Commit'' then (Inl errInternal, db)
               else (Inr \<lparr>xtr_transaction = uuid_str (pt_payment existing),
                         xtr_cancel_time = pt_cancel_time existing,
                         xtr_state = pt_state existing\<rparr>, db))
            else if pt_state existing \<noteq> 1 \<and> pt_state existing \<noteq> 2 then (Inl errTransactionState, db)
            else let newState = (if pt_state existing = 1 then -1 else -2);
                     paymentStatus = (if pt_state existing = 1 then Canceled else Refunded);
                     now = unix_milli (clk e ''cancel'') in
              if flt e ''cancel'' ''CancelPaymeTransaction'' \<or> flt e ''cancel'' ''SetPaymentStatus''
              then (Inl errInternal, db)
              else let db1 = SetPaymentStatus (pt_payment existing) paymentStatus
                         (CancelPaymeTransaction (xtp_id p) newState (Some (xtp_reason p)) now db) in
              (case (if paymentStatus = Refunded
                     then RevokeEntitlementForPayment e (pt_payment existing) db1 else Inr db1) of
                 Inl _ \<Rightarrow> (Inl errInternal, db)
               | Inr db2 \<Rightarrow>
                   if flt e ''cancel'' ''Commit'' then (Inl errInternal, db)
                   else (Inr \<lparr>xtr_transaction = uuid_str (pt_payment existing),
                             xtr_cancel_time = now, xtr_state = newState\<rparr>, db2)))"

definition checkTransaction ::
  "(uuid \<Rightarrow> string) \<Rightarrow> env \<Rightarrow> string \<Rightarrow> billing_db \<Rightarrow> rpcError + checkTransactionResult" where
  "checkTransaction uuid_str e pid db =
     (if flt e ''checkTransaction'' ''GetPaymeTransaction'' then Inl errInternal
      else case GetPaymeTransaction db pid of
          None \<Rightarrow> Inl errTransactionNotFound
        | Some existing \<Rightarrow>
            Inr \<lparr>ckr_create_time = pt_create_time existing, ckr_perform_time = pt_perform_time existing,
                 ckr_cancel_time = pt_cancel_time existing,
                 ckr_transaction = uuid_str (pt_payment existing), ckr_state = pt_state existing,
                 ckr_reason = (case pt_reason existing of None \<Rightarrow> 0 | Some r \<Rightarrow> r)\<rparr>)"

definition statement_entry :: "(uuid \<Rightarrow> string) \<Rightarrow> payme_row \<Rightarrow> statementEntry" where
  "statement_entry uuid_str row =
     \<lparr>se_id = pt_id row, se_time = pt_create_time row, se_amount = pt_amount_tiyin row,
      se_order_id = uuid_str (pt_payment row), se_create_time = pt_create_time row,
      se_perform_time = pt_perform_time row, se_cancel_time = pt_cancel_time row,
      se_transaction = uuid_str (pt_payment row), se_state = pt_state row,
      se_reason = (case pt_reason row of None \<Rightarrow> 0 | Some r \<Rightarrow> r)\<rparr>"

definition getStatement ::
  "(uuid \<Rightarrow> string) \<Rightarrow> env \<Rightarrow> int \<Rightarrow> int \<Rightarrow> billing_db \<Rightarrow> rpcError + statementEntry list" where
  "getStatement uuid_str e lo hi db =
     (if flt e ''getStatement'' ''ListPaymeTransactionsByTime'' then Inl errInternal
      else Inr (map (statement_entry uuid_str) (ListPaymeTransactionsByTime db lo hi)))"

section \<open>Transport\<close>

record http_req =
  hq_method :: string
  hq_auth :: "(string \<times> string) option"
  hq_body :: string

text \<open>The JSON decoders of the transport: request envelope (id, method, params) and parameters.\<close>

record payme_codec =
  dec_request :: "string \<Rightarrow> (string \<times> string \<times> string) option"
  dec_checkPerform :: "string \<Rightarrow> checkPerformParams option"
  dec_create :: "string \<Rightarrow> createTransactionParams option"
  dec_perform :: "string \<Rightarrow> string option"
  dec_cancel :: "string \<Rightarrow> cancelTransactionParams option"
  dec_check :: "string \<Rightarrow> string option"
  dec_statement :: "string \<Rightarrow> (int \<times> int) option"

datatype payme_result =
    ResCheckPerform bool
  | ResCreate createTransactionResult
  | ResPerform performTransactionResult
  | ResCancel cancelTransactionResult
  | ResCheck checkTransactionResult
  | ResStatement "statementEntry list"

definition checkAuth :: "string \<Rightarrow> http_req \<Rightarrow> bool" where
  "checkAuth key r =
     (if key = '''' then False
      else case hq_auth r of
          None \<Rightarrow> False
        | Some (login, pass) \<Rightarrow> login = ''Paycom'' \<and> pass = key)"

definition lift_rpc :: "('a \<Rightarrow> payme_result) \<Rightarrow> rpcError + 'a \<Rightarrow> rpcError + payme_result" where
  "lift_rpc f r = (case r of Inl err \<Rightarrow> Inl err | Inr x \<Rightarrow> Inr (f x))"

definition dispatch ::
  "payme_codec \<Rightarrow> (string \<Rightarrow> uuid option) \<Rightarrow> (uuid \<Rightarrow> string) \<Rightarrow> env \<Rightarrow> string \<Rightarrow> string \<Rightarrow> billing_db
     \<Rightarrow> (rpcError + payme_result) \<times> billing_db" where
  "dispatch c parse_uuid uuid_str e meth params db =
     (if meth = ''CheckPerformTransaction'' then
        (case dec_checkPerform c params of None \<Rightarrow> (Inl errParse, db)
         | Some p \<Rightarrow> (lift_rpc ResCheckPerform (checkPerform parse_uuid e p db), db))
      else if meth = ''CreateTransaction'' then
        (case dec_create c params of None \<Rightarrow> (Inl errParse, db)
         | Some p \<Rightarrow> map_prod (lift_rpc ResCreate) id (createTransaction parse_uuid uuid_str e p db))
      else if meth = ''PerformTransaction'' then
        (case dec_perform c params of None \<Rightarrow> (Inl errParse, db)
         | Some p \<Rightarrow> map_prod (lift_rpc ResPerform) id (performTransaction uuid_str p e db))
      else if meth = ''CancelTransaction'' then
        (case dec_cancel c params of None \<Rightarrow> (Inl errParse, db)
         | Some p \<Rightarrow> map_prod (lift_rpc ResCancel) id (cancelTransaction uuid_str p e db))
      else if meth = ''CheckTransaction'' then
        (case dec_check c params of None \<Rightarrow> (Inl errParse, db)
         | Some p \<Rightarrow> (lift_rpc ResCheck (checkTransaction uuid_str e p db), db))
      else if meth = ''GetStatement'' then
        (case dec_statement c params of None \<Rightarrow> (Inl errParse, db)
         | Some (lo, hi) \<Rightarrow> (lift_rpc ResStatement (getStatement uuid_str e lo hi db), db))
      else (Inl errUnknownMethod, db))"

text \<open>The response: the echoed id (\<open>None\<close> is JSON null), the result or error, always HTTP 200.\<close>

definition ServeHTTP ::
  "payme_codec \<Rightarrow> (string \<Rightarrow> uuid option) \<Rightarrow> (uuid \<Rightarrow> string) \<Rightarrow> string \<Rightarrow> env \<Rightarrow> http_req \<Rightarrow> billing_db
     \<Rightarrow> (string option \<times> (rpcError + payme_result)) \<times> billing_db" where
  "ServeHTTP c parse_uuid uuid_str key e r db =
     (if hq_method r \<noteq> ''POST'' then ((None, Inl errNotPost), db)
      else if \<not> checkAuth key r then ((None, Inl errAuth), db)
      else case dec_request c (hq_body r) of
          None \<Rightarrow> ((None, Inl errParse), db)
        | Some (i, meth, params) \<Rightarrow>
            (case dispatch c parse_uuid uuid_str e meth params db of
               (res, db') \<Rightarrow> ((Some i, res), db')))"

end
