(* ===== verification/Payme_Correct.thy ===== *)
theory Payme_Correct
  imports Payme
begin

text \<open>
  Correctness of the Payme webhook. \<open>payme_write\<close> is the abstract machine of the transaction table:
  a transaction is created pending (1), is performed (2) or cancelled (-1), and a performed one can
  only be refunded (-2). Every method of the webhook is a step of it (a refinement), so its
  invariants hold in every state the webhook reaches, whatever faults, clocks and retries occur.
\<close>

section \<open>The abstract transaction machine\<close>

inductive payme_write :: "payme_row list \<Rightarrow> payme_row list \<Rightarrow> bool" where
  keep: "payme_write ts ts"
| create: "i \<notin> pt_id ` set ts \<Longrightarrow> \<forall>t \<in> set ts. pt_payment t = pay \<longrightarrow> \<not> active_payme t \<Longrightarrow>
    payme_write ts (ts @ [\<lparr>pt_id = i, pt_payment = pay, pt_amount_tiyin = amt, pt_state = 1,
      pt_reason = None, pt_create_time = ct, pt_perform_time = 0, pt_cancel_time = 0\<rparr>])"
| perform: "find (\<lambda>t. pt_id t = i) ts = Some t \<Longrightarrow> pt_state t = 1 \<Longrightarrow>
    payme_write ts (upd_where (\<lambda>t. pt_id t = i) (\<lambda>t. t\<lparr>pt_state := 2, pt_perform_time := now\<rparr>) ts)"
| cancel: "find (\<lambda>t. pt_id t = i) ts = Some t \<Longrightarrow>
    pt_state t = 1 \<and> st = -1 \<or> pt_state t = 2 \<and> st = -2 \<Longrightarrow>
    payme_write ts (upd_where (\<lambda>t. pt_id t = i)
      (\<lambda>t. t\<lparr>pt_state := st, pt_reason := rs, pt_cancel_time := now\<rparr>) ts)"

definition payme_inv :: "payme_row list \<Rightarrow> bool" where
  "payme_inv ts \<longleftrightarrow> distinct (map pt_id ts)
     \<and> distinct (map pt_payment (filter active_payme ts))
     \<and> (\<forall>t \<in> set ts. pt_state t \<in> {1, 2, -1, -2})"

definition payme_next :: "int \<Rightarrow> int \<Rightarrow> bool" where
  "payme_next a b \<longleftrightarrow> a = b \<or> a = 1 \<and> b = 2 \<or> a = 1 \<and> b = -1 \<or> a = 2 \<and> b = -2"

lemma distinct_ids_find:
  assumes "distinct (map pt_id ts)" and "find (\<lambda>t. pt_id t = i) ts = Some t"
    and "u \<in> set ts" and "pt_id u = i"
  shows "u = t"
  using assms by (auto dest!: find_SomeD simp: distinct_map inj_on_def)

text \<open>An update of one transaction that stays active or becomes inactive keeps the invariant.\<close>

lemma payme_inv_upd:
  assumes "payme_inv ts" and "find (\<lambda>t. pt_id t = i) ts = Some t"
    and "\<And>u. pt_id (f u) = pt_id u \<and> pt_payment (f u) = pt_payment u \<and> pt_state (f u) = st"
    and "st \<in> {1, 2, -1, -2}" and "st = 1 \<or> st = 2 \<Longrightarrow> active_payme t"
  shows "payme_inv (upd_where (\<lambda>t. pt_id t = i) f ts)"
proof -
  have d: "distinct (map pt_id ts)" using assms(1) by (simp add: payme_inv_def)
  have u: "u = t" if "u \<in> set ts" "pt_id u = i" for u
    using distinct_ids_find [OF d assms(2) that] .
  have act: "active_payme u" if "u \<in> set ts" "pt_id u = i" "active_payme (f u)" for u
    using u [OF that(1,2)] that(3) assms(3) [of u] assms(5) by (simp add: active_payme_def)
  have "map pt_id (upd_where (\<lambda>t. pt_id t = i) f ts) = map pt_id ts"
    using assms(3) by (intro map_upd_where) simp
  moreover have "distinct (map pt_payment (filter active_payme (upd_where (\<lambda>t. pt_id t = i) f ts)))"
    using assms(1,3) act by (intro distinct_filter_upd_where) (simp_all add: payme_inv_def)
  moreover have "\<forall>t \<in> set (upd_where (\<lambda>t. pt_id t = i) f ts). pt_state t \<in> {1, 2, -1, -2}"
    using assms(1,3,4) by (auto simp: payme_inv_def set_upd_where)
  ultimately show ?thesis
    using d unfolding payme_inv_def by (metis)
qed

lemma payme_write_inv: "payme_write ts ts' \<Longrightarrow> payme_inv ts \<Longrightarrow> payme_inv ts'"
proof (induction rule: payme_write.induct)
  case (keep ts)
  then show ?case .
next
  case (create i ts pay amt ct)
  then show ?case by (auto simp: payme_inv_def active_payme_def)
next
  case (perform i ts t now)
  then show ?case by (intro payme_inv_upd [where st = 2]) (auto simp: active_payme_def)
next
  case (cancel i ts t st now rs)
  then show ?case by (intro payme_inv_upd [where st = st]) (auto simp: active_payme_def)
qed

text \<open>A step moves every transaction along the lifecycle and keeps its identity, order and amount.\<close>

definition payme_moved :: "payme_row \<Rightarrow> payme_row \<Rightarrow> bool" where
  "payme_moved t t' \<longleftrightarrow> pt_id t' = pt_id t \<and> pt_payment t' = pt_payment t
     \<and> pt_amount_tiyin t' = pt_amount_tiyin t \<and> pt_create_time t' = pt_create_time t
     \<and> payme_next (pt_state t) (pt_state t')"

lemma payme_moved_refl [simp]: "payme_moved t t"
  by (simp add: payme_moved_def payme_next_def)

lemma payme_write_moves:
  assumes "payme_write ts ts'" and "payme_inv ts"
  obtains new where "length new \<le> 1" and "list_all2 payme_moved ts (take (length ts) ts')"
    and "ts' = take (length ts) ts' @ new" and "\<forall>t \<in> set new. pt_state t = 1"
proof -
  have d: "distinct (map pt_id ts)" using assms(2) by (simp add: payme_inv_def)
  have refl: "list_all2 payme_moved xs xs" for xs
    by (simp add: list_all2_same)
  have upd: "list_all2 payme_moved ts (upd_where (\<lambda>t. pt_id t = i) f ts)"
    if "find (\<lambda>t. pt_id t = i) ts = Some t" and "payme_moved t (f t)" for i f t
    using distinct_ids_find [OF d that(1)] that(2)
    by (auto simp: upd_where_def list_all2_map2 intro!: list.rel_refl_strong)
  from assms(1) show thesis
  proof cases
    case keep
    then show thesis using refl by (intro that [of "[]"]) auto
  next
    case (create i pay amt ct)
    then show thesis using refl
      by (intro that [of "[\<lparr>pt_id = i, pt_payment = pay, pt_amount_tiyin = amt, pt_state = 1,
        pt_reason = None, pt_create_time = ct, pt_perform_time = 0, pt_cancel_time = 0\<rparr>]"]) auto
  next
    case (perform i t now)
    then have "payme_moved t (t\<lparr>pt_state := 2, pt_perform_time := now\<rparr>)"
      by (simp add: payme_moved_def payme_next_def)
    from upd [where f = "\<lambda>t. t\<lparr>pt_state := 2, pt_perform_time := now\<rparr>", OF perform(2) this] show thesis
      using perform(1) by (intro that [of "[]"]) simp_all
  next
    case (cancel i t st now rs)
    then have "payme_moved t (t\<lparr>pt_state := st, pt_reason := rs, pt_cancel_time := now\<rparr>)"
      by (auto simp: payme_moved_def payme_next_def)
    from upd [where f = "\<lambda>t. t\<lparr>pt_state := st, pt_reason := rs, pt_cancel_time := now\<rparr>", OF cancel(2) this] show thesis
      using cancel(1) by (intro that [of "[]"]) simp_all
  qed
qed

section \<open>Every method refines the machine\<close>

lemma payme_frame [simp]:
  "payme_txs (SetPaymentStatus i st db) = payme_txs db"
  "payme_txs (MarkPaymentPaid e i db) = payme_txs db"
  "entitlements (SetPaymentStatus i st db) = entitlements db"
  "entitlements (MarkPaymentPaid e i db) = entitlements db"
  "entitlements (PerformPaymeTransaction pid t db) = entitlements db"
  "entitlements (CancelPaymeTransaction pid s r t db) = entitlements db"
  "payments (PerformPaymeTransaction pid t db) = payments db"
  "payments (CancelPaymeTransaction pid s r t db) = payments db"
  by (simp_all add: SetPaymentStatus_def MarkPaymentPaid_def PerformPaymeTransaction_def
      CancelPaymeTransaction_def)

text \<open>The outcomes of CreateTransaction: nothing, or the row inserted and the order parked.\<close>

lemma createTransaction_cases:
  obtains (same) "snd (createTransaction pu us e p db) = db"
  | (created) pm db1 where "GetPaymeTransaction db (ctp_id p) = None"
      and "validateAccountAmount pu e (ctp_order_id p) (ctp_amount p) True db = Inr pm"
      and "CreatePaymeTransaction (ctp_id p) (p_id pm) (ctp_amount p)
             (unix_milli (clk e ''createTransaction'')) db = Inr db1"
      and "createTransaction pu us e p db =
        (if flt e ''createTransaction'' ''SetPaymentStatus'' then (Inl errInternal, db1)
         else (Inr \<lparr>ctr_create_time = unix_milli (clk e ''createTransaction''),
                   ctr_transaction = us (p_id pm), ctr_state = 1\<rparr>,
               SetPaymentStatus (p_id pm) Pending db1))"
proof (cases "snd (createTransaction pu us e p db) = db")
  case True
  then show thesis by (rule same)
next
  case False
  then have f: "\<not> flt e ''createTransaction'' ''GetPaymeTransaction''"
    and n: "GetPaymeTransaction db (ctp_id p) = None"
    by (auto simp: createTransaction_def split: option.splits)
  from False f n obtain pm
    where v: "validateAccountAmount pu e (ctp_order_id p) (ctp_amount p) True db = Inr pm"
    by (cases "validateAccountAmount pu e (ctp_order_id p) (ctp_amount p) True db")
      (auto simp: createTransaction_def)
  from False f n v have g: "\<not> flt e ''createTransaction'' ''GetActivePaymeTxByPayment''"
    "GetActivePaymeTxByPayment e db (p_id pm) = None"
    by (auto simp: createTransaction_def split: if_splits)
  from False f n v g obtain db1 where
    "stmt e ''createTransaction'' ''CreatePaymeTransaction'' (CreatePaymeTransaction (ctp_id p)
       (p_id pm) (ctp_amount p) (unix_milli (clk e ''createTransaction'')) db) = Inr db1"
    by (auto simp: createTransaction_def Let_def split: sum.splits)
  with f n v g show thesis by (intro created [of pm db1]) (auto simp: createTransaction_def Let_def stmt_def split: if_splits)
qed

lemma createTransaction_refines:
  "payme_write (payme_txs db) (payme_txs (snd (createTransaction pu us e p db)))"
proof (cases rule: createTransaction_cases [of pu us e p db])
  case same
  then show ?thesis by (simp add: payme_write.keep)
next
  case (created pm db1)
  then show ?thesis
    by (auto simp: CreatePaymeTransaction_def split: if_splits intro!: payme_write.create)
qed

text \<open>The outcomes of PerformTransaction: nothing, the 12 hour timeout, or the grant.\<close>

lemma performTransaction_cases:
  obtains (same) "snd (performTransaction us pid e db) = db"
  | (timeout) t where "GetPaymeTransactionForUpdate db pid = Some t" and "pt_state t = 1"
      and "wrap64 (pt_create_time t + paymeTxTimeoutMs) < unix_milli (clk e ''perform'')"
      and "performTransaction us pid e db = (Inl errTransactionState,
        SetPaymentStatus (pt_payment t) Canceled (CancelPaymeTransaction pid (-1)
          (Some cancelReasonTimeout) (unix_milli (clk e ''perform'')) db))"
  | (grant) t db' where "GetPaymeTransactionForUpdate db pid = Some t" and "pt_state t = 1"
      and "unix_milli (clk e ''perform'') \<le> wrap64 (pt_create_time t + paymeTxTimeoutMs)"
      and "ProcessPaymentGrant e (pt_payment t) (MarkPaymentPaid e (pt_payment t)
        (PerformPaymeTransaction pid (unix_milli (clk e ''perform'')) db)) = Inr db'"
      and "performTransaction us pid e db =
        (Inr \<lparr>ptr_transaction = us (pt_payment t), ptr_perform_time = unix_milli (clk e ''perform''),
              ptr_state = 2\<rparr>, db')"
proof (cases "snd (performTransaction us pid e db) = db")
  case True
  then show thesis by (rule same)
next
  case False
  then have f: "\<not> (flt e ''perform'' ''Begin'' \<or> flt e ''perform'' ''GetPaymeTransactionForUpdate'')"
    by (auto simp: performTransaction_def)
  from False f obtain t where t: "GetPaymeTransactionForUpdate db pid = Some t"
    by (cases "GetPaymeTransactionForUpdate db pid") (simp_all add: performTransaction_def)
  from False f t have st: "pt_state t = 1"
    by (auto simp: performTransaction_def split: if_splits)
  show thesis
  proof (cases "wrap64 (pt_create_time t + paymeTxTimeoutMs) < unix_milli (clk e ''perform'')")
    case True
    with False f t st show thesis
      by (intro timeout [of t]) (simp_all add: performTransaction_def Let_def split: if_splits)
  next
    case inTime: False
    with False f t st obtain db' where
      "ProcessPaymentGrant e (pt_payment t) (MarkPaymentPaid e (pt_payment t)
        (PerformPaymeTransaction pid (unix_milli (clk e ''perform'')) db)) = Inr db'"
      by (auto simp: performTransaction_def Let_def split: if_splits sum.splits)
    with inTime False f t st show thesis
      by (intro grant [of t db']) (simp_all add: performTransaction_def Let_def split: if_splits)
  qed
qed

lemma performTransaction_refines:
  "payme_write (payme_txs db) (payme_txs (snd (performTransaction us pid e db)))"
proof (cases rule: performTransaction_cases [of us pid e db])
  case same
  then show ?thesis by (simp add: payme_write.keep)
next
  case (timeout t)
  then show ?thesis
    by (simp add: CancelPaymeTransaction_def GetPaymeTransactionForUpdate_def payme_write.cancel)
next
  case (grant t db')
  have "payme_txs db' = payme_txs (PerformPaymeTransaction pid (unix_milli (clk e ''perform'')) db)"
    using ProcessPaymentGrant_grants_once(2) [OF grant(4)] by (simp add: same_orders_def)
  then show ?thesis
    using grant by (simp add: PerformPaymeTransaction_def GetPaymeTransactionForUpdate_def payme_write.perform)
qed

lemma cancelTransaction_cases:
  obtains (same) "snd (cancelTransaction us p e db) = db"
      and "\<And>r. fst (cancelTransaction us p e db) = Inr r \<Longrightarrow>
        \<exists>t. GetPaymeTransactionForUpdate db (xtp_id p) = Some t \<and> (pt_state t = -1 \<or> pt_state t = -2)
          \<and> r = \<lparr>xtr_transaction = us (pt_payment t), xtr_cancel_time = pt_cancel_time t, xtr_state = pt_state t\<rparr>"
  | (canceled) t where "GetPaymeTransactionForUpdate db (xtp_id p) = Some t" and "pt_state t = 1"
      and "cancelTransaction us p e db =
        (Inr \<lparr>xtr_transaction = us (pt_payment t), xtr_cancel_time = unix_milli (clk e ''cancel''),
              xtr_state = -1\<rparr>,
         SetPaymentStatus (pt_payment t) Canceled (CancelPaymeTransaction (xtp_id p) (-1)
          (Some (xtp_reason p)) (unix_milli (clk e ''cancel'')) db))"
  | (refunded) t db' where "GetPaymeTransactionForUpdate db (xtp_id p) = Some t" and "pt_state t = 2"
      and "RevokeEntitlementForPayment e (pt_payment t) (SetPaymentStatus (pt_payment t) Refunded
        (CancelPaymeTransaction (xtp_id p) (-2) (Some (xtp_reason p))
          (unix_milli (clk e ''cancel'')) db)) = Inr db'"
      and "cancelTransaction us p e db =
        (Inr \<lparr>xtr_transaction = us (pt_payment t), xtr_cancel_time = unix_milli (clk e ''cancel''),
              xtr_state = -2\<rparr>, db')"
proof (cases "\<exists>t r. GetPaymeTransactionForUpdate db (xtp_id p) = Some t
    \<and> (pt_state t = 1 \<or> pt_state t = 2) \<and> fst (cancelTransaction us p e db) = Inr r")
  case False
  show thesis
  proof (cases "GetPaymeTransactionForUpdate db (xtp_id p)")
    case None
    then show thesis by (intro same) (auto simp: cancelTransaction_def split: if_splits)
  next
    case (Some t)
    show thesis
    proof (cases "pt_state t = 1 \<or> pt_state t = 2")
      case True
      then obtain err where "fst (cancelTransaction us p e db) = Inl err"
        using False Some by (cases "fst (cancelTransaction us p e db)") auto
      then show thesis using Some True
        by (intro same) (auto simp: cancelTransaction_def Let_def split: if_splits sum.splits)
    next
      case False
      then show thesis using Some by (intro same) (auto simp: cancelTransaction_def split: if_splits)
    qed
  qed
next
  case True
  then obtain t r where t: "GetPaymeTransactionForUpdate db (xtp_id p) = Some t"
    and st: "pt_state t = 1 \<or> pt_state t = 2" and r: "fst (cancelTransaction us p e db) = Inr r" by blast
  show thesis
  proof (cases "pt_state t = 1")
    case True
    with r t show thesis
      by (intro canceled [of t]) (simp_all add: cancelTransaction_def Let_def split: if_splits)
  next
    case two: False
    with r t st show thesis
      by (cases "RevokeEntitlementForPayment e (pt_payment t) (SetPaymentStatus (pt_payment t) Refunded
        (CancelPaymeTransaction (xtp_id p) (-2) (Some (xtp_reason p)) (unix_milli (clk e ''cancel'')) db))")
        (auto simp: cancelTransaction_def Let_def split: if_splits intro: refunded [of t])
  qed
qed

lemma cancelTransaction_refines:
  "payme_write (payme_txs db) (payme_txs (snd (cancelTransaction us p e db)))"
proof (cases rule: cancelTransaction_cases [of us p e db])
  case same
  then show ?thesis by (simp add: payme_write.keep)
next
  case (canceled t)
  then show ?thesis
    by (simp add: CancelPaymeTransaction_def GetPaymeTransactionForUpdate_def payme_write.cancel)
next
  case (refunded t db')
  have "payme_txs db' = payme_txs (CancelPaymeTransaction (xtp_id p) (-2) (Some (xtp_reason p))
          (unix_milli (clk e ''cancel'')) db)"
    using RevokeEntitlementForPayment_frame(1) [OF refunded(3)] by (simp add: same_orders_def)
  then show ?thesis
    using refunded by (simp add: CancelPaymeTransaction_def GetPaymeTransactionForUpdate_def payme_write.cancel)
qed

lemma dispatch_refines:
  "payme_write (payme_txs db) (payme_txs (snd (dispatch c pu us e meth params db)))"
  by (auto simp: dispatch_def createTransaction_refines performTransaction_refines
      cancelTransaction_refines payme_write.keep split: option.splits)

lemma ServeHTTP_refines:
  "payme_write (payme_txs db) (payme_txs (snd (ServeHTTP c pu us key e r db)))"
  using dispatch_refines [of db c pu us e]
  by (auto simp: ServeHTTP_def payme_write.keep split: option.splits prod.splits) (metis snd_conv)

section \<open>Grants are the performed transactions\<close>

text \<open>
  \<open>performed\<close>: the transactions of an order that were ever performed, refunded or not. The webhook
  keeps the difference between them and the purchase grants of the order constant.
\<close>

definition performed :: "uuid \<Rightarrow> payme_row \<Rightarrow> bool" where
  "performed q t \<longleftrightarrow> pt_payment t = q \<and> pt_state t \<in> {2, -2}"

definition performed_count :: "billing_db \<Rightarrow> uuid \<Rightarrow> nat" where
  "performed_count db q = length (filter (performed q) (payme_txs db))"

lemma performed_perform:
  assumes "payme_inv (payme_txs db)" and "GetPaymeTransactionForUpdate db pid = Some t" and "pt_state t = 1"
  shows "performed_count (PerformPaymeTransaction pid now db) q
       = performed_count db q + (if q = pt_payment t then 1 else 0)"
  using assms length_filter_upd_one [of pt_id "payme_txs db" pid t "performed q"
      "\<lambda>t. t\<lparr>pt_state := 2, pt_perform_time := now\<rparr>"]
  by (auto simp: payme_inv_def GetPaymeTransactionForUpdate_def PerformPaymeTransaction_def
      performed_count_def performed_def)

lemma performed_cancel:
  assumes "payme_inv (payme_txs db)" and "GetPaymeTransactionForUpdate db pid = Some t"
    and "pt_state t = 1 \<and> st = -1 \<or> pt_state t = 2 \<and> st = -2"
  shows "performed_count (CancelPaymeTransaction pid st rs now db) q = performed_count db q"
  using assms length_filter_upd_one [of pt_id "payme_txs db" pid t "performed q"
      "\<lambda>t. t\<lparr>pt_state := st, pt_reason := rs, pt_cancel_time := now\<rparr>"]
  by (auto simp: payme_inv_def GetPaymeTransactionForUpdate_def CancelPaymeTransaction_def
      performed_count_def performed_def split: if_splits)

lemma counts_frame [simp]:
  "performed_count (SetPaymentStatus i st db) q = performed_count db q"
  "performed_count (MarkPaymentPaid e i db) q = performed_count db q"
  "grant_count (SetPaymentStatus i st db) q = grant_count db q"
  "grant_count (MarkPaymentPaid e i db) q = grant_count db q"
  "grant_count (PerformPaymeTransaction pid t db) q = grant_count db q"
  "grant_count (CancelPaymeTransaction pid s r t db) q = grant_count db q"
  by (simp_all add: performed_count_def grant_count_def)

lemma performed_count_same_orders: "same_orders db db' \<Longrightarrow> performed_count db' q = performed_count db q"
  by (simp add: same_orders_def performed_count_def)

definition books :: "billing_db \<Rightarrow> billing_db \<Rightarrow> uuid \<Rightarrow> bool" where
  "books db db' q \<longleftrightarrow> grant_count db' q + performed_count db q = grant_count db q + performed_count db' q"

lemma books_refl [simp]: "books db db q"
  by (simp add: books_def)

lemma createTransaction_books: "books db (snd (createTransaction pu us e p db)) q"
proof (cases rule: createTransaction_cases [of pu us e p db])
  case same
  then show ?thesis by simp
next
  case (created pm db1)
  then show ?thesis
    by (auto simp: books_def CreatePaymeTransaction_def performed_count_def performed_def
        grant_count_def split: if_splits)
qed

lemma performTransaction_books:
  assumes "payme_inv (payme_txs db)"
  shows "books db (snd (performTransaction us pid e db)) q"
proof (cases rule: performTransaction_cases [of us pid e db])
  case same
  then show ?thesis by simp
next
  case (timeout t)
  then show ?thesis using performed_cancel [OF assms timeout(1)] by (simp add: books_def)
next
  case (grant t db')
  show ?thesis
    using grant(5) ProcessPaymentGrant_grants_once [OF grant(4)] performed_perform [OF assms grant(1,2)]
    by (simp add: books_def performed_count_same_orders)
qed

lemma cancelTransaction_books:
  assumes "payme_inv (payme_txs db)"
  shows "books db (snd (cancelTransaction us p e db)) q"
proof (cases rule: cancelTransaction_cases [of us p e db])
  case same
  then show ?thesis by simp
next
  case (canceled t)
  then show ?thesis using performed_cancel [OF assms canceled(1)] by (simp add: books_def)
next
  case (refunded t db')
  show ?thesis
    using refunded(2,4) RevokeEntitlementForPayment_frame [OF refunded(3)]
      performed_cancel [OF assms refunded(1)]
    by (simp add: books_def performed_count_same_orders)
qed

lemma dispatch_books:
  "payme_inv (payme_txs db) \<Longrightarrow> books db (snd (dispatch c pu us e meth params db)) q"
  by (auto simp: dispatch_def createTransaction_books performTransaction_books
      cancelTransaction_books split: option.splits)

lemma ServeHTTP_books:
  "payme_inv (payme_txs db) \<Longrightarrow> books db (snd (ServeHTTP c pu us key e r db)) q"
  using dispatch_books [of db c pu us e]
  by (auto simp: ServeHTTP_def split: option.splits prod.splits) (metis snd_conv)

section \<open>Reachable states\<close>

text \<open>
  The states the service reaches: from any database without Payme transactions, by webhook requests (any content, any
  faults, any clocks) and by anything the rest of the service does (Click, card transfers, admins, learners), which does not write
  the Payme table. \<open>g\<close> is the account of the others: how many purchases of each order they granted. The one operation that
  deletes purchases, an admin's deletion of an account, deletes the Payme transactions of its orders \<open>P\<close> too.
  A request is one step: Perform and Cancel are one database transaction under the lock of the transaction row, and Create
  writes the table in one INSERT, which the unique indexes guard whatever the reads before it saw.
\<close>

inductive payme_reach :: "billing_db \<Rightarrow> (uuid \<Rightarrow> nat) \<Rightarrow> bool" where
  start: "payme_txs db = [] \<Longrightarrow> payme_reach db (grant_count db)"
| webhook: "payme_reach db g \<Longrightarrow> payme_reach (snd (ServeHTTP c pu us key e r db)) g"
| other: "payme_reach db g \<Longrightarrow> payme_txs db' = payme_txs db \<Longrightarrow>
    (\<And>q. grant_count db' q = grant_count db q + k q) \<Longrightarrow> payme_reach db' (\<lambda>q. g q + k q)"
| erase: "payme_reach db g \<Longrightarrow> payme_txs db' = filter (\<lambda>t. pt_payment t \<notin> P) (payme_txs db) \<Longrightarrow>
    (\<And>q. grant_count db' q = (if q \<in> P then 0 else grant_count db q)) \<Longrightarrow> payme_reach db' (\<lambda>q. if q \<in> P then 0 else g q)"

end
