(* ===== verification/Fixtures.thy ===== *)
theory Fixtures
  imports Settlement
begin

text \<open>
  One small concrete world on which hypotheses of the properties are shown to be satisfiable: a
  learner (profile 1) referred by profile 2, a 30 day tariff, an order of it and a promo code.
\<close>

definition fx_t0 :: int where
  "fx_t0 = 1700000000000000000"

definition fx_env :: env where
  "fx_env = \<lparr>flt = (\<lambda>_ _. False), clk = (\<lambda>_. fx_t0), tx_now = fx_t0, pick = (\<lambda>_. 0), new_id = 100\<rparr>"

definition fx_order :: payment_row where
  "fx_order = \<lparr>p_id = 10, p_profile = 1, p_tariff = 5, p_amount = 50000, p_provider = ''payme'',
     p_status = Created, p_provider_txn = None, p_promo = None, p_tariff_days = 30,
     p_tariff_price = 50000, p_created_at = fx_t0, p_paid_at = None\<rparr>"

definition fx_promo :: promo_row where
  "fx_promo = \<lparr>pc_id = 7, pc_code = ''SPRING'', pc_kind = Percent, pc_value = 20, pc_max_uses = Some 1,
     pc_per_user_limit = 1, pc_valid_from = None, pc_valid_to = None, pc_active = True\<rparr>"

definition fx_db :: billing_db where
  "fx_db = empty_db\<lparr>payments := [fx_order],
     profiles := [\<lparr>pr_id = 1, pr_created_at = fx_t0, pr_commission_percent = 0\<rparr>,
                  \<lparr>pr_id = 2, pr_created_at = fx_t0, pr_commission_percent = 10\<rparr>],
     referrals := [\<lparr>rf_referrer = 2, rf_referee = 1, rf_code = ''ABC'', rf_status = RefPending\<rparr>],
     referral_codes := [\<lparr>rc_user = 2, rc_code = ''ABC''\<rparr>],
     tariffs := [\<lparr>tf_id = 5, tf_code = ''m1'', tf_days = 30, tf_price = 50000, tf_active = True\<rparr>],
     promo_codes := [fx_promo]\<rparr>"

text \<open>The learner has paid: the order is settled, ten minutes later nothing else happened.\<close>

definition fx_later :: env where
  "fx_later = fx_env\<lparr>clk := (\<lambda>_. fx_t0 + 600 * second), tx_now := fx_t0 + 600 * second\<rparr>"

end
