(* ===== verification/Payme_Properties.thy ===== *)
theory Payme_Properties
  imports Payme_Correct Fixtures
begin

text \<open>
  What the Payme webhook promises, stated over its handlers: exactly-once settlement under retries,
  atomic failure, the effect of each method, the answers on replay, and the transport's guards.
\<close>

section \<open>Fixtures\<close>

definition fx_create :: createTransactionParams where
  "fx_create = \<lparr>ctp_id = ''T1'', ctp_time = 0, ctp_amount = 5000000, ctp_order_id = ''10''\<rparr>"

definition fx_codec :: payme_codec where
  "fx_codec = \<lparr>dec_request = (\<lambda>b. Some (''1'', b, '''')), dec_checkPerform = (\<lambda>_. None),
     dec_create = (\<lambda>_. Some fx_create), dec_perform = (\<lambda>_. Some ''T1''), dec_cancel = (\<lambda>_. None),
     dec_check = (\<lambda>_. None), dec_statement = (\<lambda>_. None)\<rparr>"

definition fx_parse :: "string \<Rightarrow> uuid option" where
  "fx_parse s = Some (read_nat s)"

definition fx_req :: "string \<Rightarrow> http_req" where
  "fx_req meth = \<lparr>hq_method = ''POST'', hq_auth = Some (''Paycom'', ''k''), hq_body = meth\<rparr>"

definition fx_pending :: billing_db where
  "fx_pending = snd (createTransaction fx_parse show_nat fx_env fx_create fx_db)"

definition fx_paid :: billing_db where
  "fx_paid = snd (performTransaction show_nat ''T1'' fx_later fx_pending)"

lemma fx_paid_reach: "payme_reach fx_paid (\<lambda>_. 0)"
proof -
  have "grant_count fx_db = (\<lambda>_. 0)" by (simp add: fx_db_def empty_db_def grant_count_def fun_eq_iff)
  then have "payme_reach fx_db (\<lambda>_. 0)"
    using payme_reach.start [of fx_db] by (simp add: fx_db_def empty_db_def)
  then have a: "payme_reach (snd (ServeHTTP fx_codec fx_parse show_nat ''k'' fx_later (fx_req ''PerformTransaction'')
    (snd (ServeHTTP fx_codec fx_parse show_nat ''k'' fx_env (fx_req ''CreateTransaction'') fx_db)))) (\<lambda>_. 0)"
    by (intro payme_reach.webhook)
  have "snd (ServeHTTP fx_codec fx_parse show_nat ''k'' fx_env (fx_req ''CreateTransaction'') fx_db) = fx_pending"
    by (simp add: ServeHTTP_def fx_req_def checkAuth_def fx_codec_def dispatch_def fx_pending_def
        case_prod_unfold)
  moreover have "snd (ServeHTTP fx_codec fx_parse show_nat ''k'' fx_later (fx_req ''PerformTransaction'') fx_pending) = fx_paid"
    by (simp add: ServeHTTP_def fx_req_def checkAuth_def fx_codec_def dispatch_def fx_paid_def
        case_prod_unfold)
  ultimately show ?thesis using a by simp
qed

section \<open>Reachable states\<close>

text \<open>
  C2: in every reachable state a Payme transaction id is unique, an order has at most one transaction
  that is pending or performed, every transaction is in one of the four states of the protocol, and
  the purchases granted for an order are its performed Payme transactions and those the rest of the service granted
  it, \<open>g\<close>: a webhook request grants an order exactly when it performs a transaction of it.
\<close>

theorem payme_reach_invariant:
  assumes "payme_reach db g"
  shows "payme_inv (payme_txs db) \<and> grant_count db q = performed_count db q + g q"
  using assms
proof (induction arbitrary: q rule: payme_reach.induct)
  case (start db)
  then show ?case by (simp add: payme_inv_def performed_count_def)
next
  case (webhook db g c pu us key e r)
  then show ?case
    using payme_write_inv [OF ServeHTTP_refines] ServeHTTP_books [of db c pu us key e r q]
    by (simp add: books_def)
next
  case (other db g db' k)
  then show ?case by (simp add: performed_count_def)
next
  case (erase db g db' P)
  have swap: "filter active_payme (filter (\<lambda>x. pt_payment x \<notin> P) (payme_txs db)) =
     filter (\<lambda>x. pt_payment x \<notin> P) (filter active_payme (payme_txs db))"
    by (simp add: conj_commute)
  have "distinct (map pt_payment (filter (\<lambda>x. pt_payment x \<notin> P) (filter active_payme (payme_txs db))))"
    using erase.IH by (simp add: payme_inv_def distinct_map_filter del: filter_filter)
  then have "distinct (map pt_payment (filter active_payme (payme_txs db')))"
    by (simp only: erase.hyps(2) swap)
  moreover have "distinct (map pt_id (payme_txs db'))"
    using erase.IH by (simp add: payme_inv_def erase.hyps(2) distinct_map_filter)
  moreover have "\<forall>t\<in>set (payme_txs db'). pt_state t \<in> {1, 2, -1, -2}"
    using erase.IH by (simp add: payme_inv_def erase.hyps(2))
  ultimately have "payme_inv (payme_txs db')" unfolding payme_inv_def by blast
  moreover have "performed_count db' q = (if q \<in> P then 0 else performed_count db q)"
    by (auto simp: performed_count_def performed_def erase.hyps(2) filter_empty_conv intro!: arg_cong [where f = length] filter_cong)
  ultimately show ?case using erase.IH erase.hyps(3) by simp
qed

theorem payme_reach_invariant_witness:
  "payme_inv (payme_txs fx_paid) \<and> grant_count fx_paid 10 = 1"
proof -
  have "performed_count fx_paid 10 = 1" by code_simp
  then show ?thesis using payme_reach_invariant [OF fx_paid_reach, of 10] by simp
qed

section \<open>Exactly-once settlement\<close>

text \<open>
  PerformTransaction is a settlement endpoint: the transaction in state 2 is the settled mark, the
  purchase entitlements of its order are the grants.
\<close>

definition payme_settled :: "string \<Rightarrow> billing_db \<Rightarrow> bool" where
  "payme_settled pid db \<longleftrightarrow> (case GetPaymeTransaction db pid of None \<Rightarrow> False | Some t \<Rightarrow> pt_state t = 2)"

definition payme_grants :: "string \<Rightarrow> billing_db \<Rightarrow> nat" where
  "payme_grants pid db =
     (case GetPaymeTransaction db pid of None \<Rightarrow> 0 | Some t \<Rightarrow> grant_count db (pt_payment t))"

lemma find_perform:
  assumes "GetPaymeTransactionForUpdate db pid = Some t"
  shows "GetPaymeTransaction (PerformPaymeTransaction pid now db) pid = Some (t\<lparr>pt_state := 2, pt_perform_time := now\<rparr>)"
    and "GetPaymeTransaction (CancelPaymeTransaction pid st rs now db) pid =
       Some (t\<lparr>pt_state := st, pt_reason := rs, pt_cancel_time := now\<rparr>)"
  using assms by (auto simp: payme_stmts find_upd_where dest: find_SomeD)

lemma GetPaymeTransaction_frame [simp]:
  "GetPaymeTransaction (SetPaymentStatus i st db) pid = GetPaymeTransaction db pid"
  "GetPaymeTransaction (MarkPaymentPaid e i db) pid = GetPaymeTransaction db pid"
  by (simp_all add: GetPaymeTransaction_def)

lemma GetPaymeTransaction_same_orders:
  "same_orders db db' \<Longrightarrow> GetPaymeTransaction db' pid = GetPaymeTransaction db pid"
  by (simp add: same_orders_def GetPaymeTransaction_def)

lemma get_for_update: "GetPaymeTransactionForUpdate = GetPaymeTransaction"
  by (intro ext) (simp add: payme_stmts)

interpretation payme_perform: settlement "performTransaction us pid" "payme_settled pid" "payme_grants pid"
  for us pid
proof unfold_locales
  fix db e
  show "snd (performTransaction us pid e db) = db" if "payme_settled pid db"
    using that by (auto simp: payme_settled_def performTransaction_def get_for_update split: option.splits)
  show "payme_grants pid (snd (performTransaction us pid e db)) =
      payme_grants pid db + (if payme_settled pid (snd (performTransaction us pid e db)) then 1 else 0)"
    if "\<not> payme_settled pid db"
  proof (cases rule: performTransaction_cases [of us pid e db])
    case same
    then show ?thesis using that by simp
  next
    case (timeout t)
    then show ?thesis
      using find_perform(2) [OF timeout(1)]
      by (simp add: payme_grants_def payme_settled_def get_for_update)
  next
    case (grant t db')
    note once = ProcessPaymentGrant_grants_once [OF grant(4)]
    show ?thesis
      using grant(1,5) once(1) find_perform(1) [OF grant(1)] GetPaymeTransaction_same_orders [OF once(2), of pid]
      by (simp add: payme_grants_def payme_settled_def get_for_update)
  qed
qed

text \<open>Deliveries of the same PerformTransaction call, each with its own faults and clocks.\<close>

definition redeliver :: "(uuid \<Rightarrow> string) \<Rightarrow> string \<Rightarrow> env list \<Rightarrow> billing_db \<Rightarrow> billing_db" where
  "redeliver us pid es db = fold (\<lambda>e db. snd (performTransaction us pid e db)) es db"

lemma redeliver_eq: "redeliver us pid es db = payme_perform.deliver us pid es db"
  by (induction es arbitrary: db) (simp_all add: redeliver_def)

text \<open>
  C1: however often a PerformTransaction is delivered, and whichever of the deliveries fail half
  way, the purchase of a pending transaction is granted exactly once if the transaction ends up
  performed, and not at all otherwise.
\<close>

theorem performTransaction_exactly_once:
  assumes "GetPaymeTransaction db pid = Some t" and "pt_state t \<noteq> 2"
  shows "payme_grants pid (redeliver us pid es db) = grant_count db (pt_payment t)
    + (if payme_settled pid (redeliver us pid es db) then 1 else 0)"
  using assms payme_perform.deliver_grants [of pid db us es]
  by (simp add: redeliver_eq payme_settled_def payme_grants_def)

theorem performTransaction_exactly_once_witness:
  "payme_grants ''T1'' (redeliver show_nat ''T1''
     [fx_env\<lparr>flt := (\<lambda>s q. q = ''Commit'')\<rparr>, fx_later, fx_later, fx_env] fx_pending) = 1"
proof -
  have t: "GetPaymeTransaction fx_pending ''T1'' = Some \<lparr>pt_id = ''T1'', pt_payment = 10,
    pt_amount_tiyin = 5000000, pt_state = 1, pt_reason = None, pt_create_time = 1700000000000,
    pt_perform_time = 0, pt_cancel_time = 0\<rparr>" by code_simp
  have s: "payme_settled ''T1'' (redeliver show_nat ''T1''
     [fx_env\<lparr>flt := (\<lambda>s q. q = ''Commit'')\<rparr>, fx_later, fx_later, fx_env] fx_pending)"
    by code_simp
  have "grant_count fx_pending 10 = 0" by code_simp
  then show ?thesis using performTransaction_exactly_once [OF t] s by simp
qed

section \<open>Effect and failure of PerformTransaction\<close>

lemma payments_grant_frame:
  assumes "same_orders db db'"
  shows "GetPaymentForPayme db' i = GetPaymentForPayme db i"
  using assms by (simp add: same_orders_def GetPaymentForPayme_def)

lemma find_mark_paid:
  "GetPaymentForPayme db i = Some pm \<Longrightarrow>
   GetPaymentForPayme (MarkPaymentPaid e i db) i = Some (pm\<lparr>p_status := Paid, p_paid_at := Some (tx_now e)\<rparr>)"
  by (auto simp: payment_stmts find_upd_where dest: find_SomeD)

lemma grant_start_frame [simp]:
  "grant_start e site p (MarkPaymentPaid e' i db) = grant_start e site p db"
  "grant_start e site p (PerformPaymeTransaction pid t db) = grant_start e site p db"
  by (simp_all add: grant_start_def ActiveEntitlementEnd_def active_ends_def)

text \<open>
  C3: a PerformTransaction that succeeds on a pending transaction moves it to state 2 at the time it
  answers with, marks its order paid, and appends one purchase entitlement of the buyer that starts
  when everything the buyer already holds has ended; without a promo code it lasts the tariff's days
  snapshotted on the order.
\<close>

theorem performTransaction_effect:
  assumes ok: "performTransaction us pid e db = (Inr r, db')"
    and t: "GetPaymeTransaction db pid = Some t" "pt_state t = 1"
    and pm: "GetPaymentForPayme db (pt_payment t) = Some pm"
    and clock: "tx_now e \<le> clk e ''grant''"
  shows "GetPaymeTransaction db' pid = Some (t\<lparr>pt_state := 2, pt_perform_time := ptr_perform_time r\<rparr>)
    \<and> GetPaymentForPayme db' (pt_payment t) = Some (pm\<lparr>p_status := Paid, p_paid_at := Some (tx_now e)\<rparr>)
    \<and> (\<exists>row rows days. entitlements db' = entitlements db @ row # rows
         \<and> en_profile row = p_profile pm \<and> purchase_row (pt_payment t) row
         \<and> (\<forall>old \<in> set (entitlements db). en_profile old = p_profile pm \<longrightarrow> en_ends old \<le> en_starts row)
         \<and> clk e ''grant'' \<le> en_starts row \<and> en_ends row = en_starts row + days_dur days
         \<and> en_starts row < en_ends row \<and> (p_promo pm = None \<longrightarrow> days = p_tariff_days pm))"
proof (cases rule: performTransaction_cases [of us pid e db])
  case same
  then have "db' = db" using ok by simp
  with ok t have "ProcessPaymentGrant e (pt_payment t) (MarkPaymentPaid e (pt_payment t)
      (PerformPaymeTransaction pid (unix_milli (clk e ''perform'')) db)) = Inr db"
    by (auto simp: performTransaction_def get_for_update Let_def split: if_splits sum.splits)
  from ProcessPaymentGrant_grants_once(1) [OF this, of "pt_payment t"] show ?thesis by simp
next
  case (timeout u)
  then show ?thesis using ok by simp
next
  case (grant u db2)
  then have u: "u = t" and r: "db2 = db'" "ptr_perform_time r = unix_milli (clk e ''perform'')"
    using ok t by (auto simp: get_for_update)
  let ?pm = "pm\<lparr>p_status := Paid, p_paid_at := Some (tx_now e)\<rparr>"
  let ?m = "MarkPaymentPaid e (pt_payment t) (PerformPaymeTransaction pid (ptr_perform_time r) db)"
  have m: "ProcessPaymentGrant e (pt_payment t) ?m = Inr db'" using grant(4) u r by simp
  have pmm: "GetPaymentForPayme ?m (pt_payment t) = Some ?pm"
    using pm by (intro find_mark_paid) (simp add: GetPaymentForPayme_def)
  from m obtain qm days nt row rows ls where q: "GetPaymentForPayme ?m (pt_payment t) = Some qm"
    "same_orders ?m db'" "\<exists>db1. grant_terms e qm ?m = Inr (days, nt, db1)"
    "row = \<lparr>en_profile = p_profile qm, en_source = ''purchase'',
          en_starts = grant_start e ''grant'' (p_profile qm) ?m,
          en_ends = grant_start e ''grant'' (p_profile qm) ?m + days_dur days,
          en_note = nt, en_created_by = None, en_payment = Some (pt_payment t), en_created_at = tx_now e\<rparr>"
    "0 < days_dur days" "entitlements db' = entitlements ?m @ row # rows"
    by (rule ProcessPaymentGrant_effect)
  have qm: "qm = ?pm" using q(1) pmm by simp
  have days: "p_promo pm = None \<longrightarrow> days = p_tariff_days pm"
    using q(3) by (auto simp: qm grant_terms_def)
  have "GetPaymeTransaction db' pid = Some (t\<lparr>pt_state := 2, pt_perform_time := ptr_perform_time r\<rparr>)"
    using GetPaymeTransaction_same_orders [OF q(2)] find_perform(1) [of db pid t] t by (simp add: get_for_update)
  moreover have "GetPaymentForPayme db' (pt_payment t) = Some ?pm"
    using payments_grant_frame [OF q(2)] pmm by simp
  moreover have "en_ends old \<le> en_starts row"
    if "old \<in> set (entitlements db)" "en_profile old = p_profile pm" for old
    using grant_start_after [OF clock that(1,2)] by (simp add: q(4) qm)
  moreover have "clk e ''grant'' \<le> en_starts row"
    by (simp add: q(4) grant_start_ge_clk)
  ultimately show ?thesis
    using q(4,5,6) days
    by (intro conjI exI [of _ row] exI [of _ rows] exI [of _ days]) (auto simp: qm purchase_row_def)
qed

theorem performTransaction_effect_witness:
  "GetPaymentForPayme fx_paid 10 = Some (fx_order\<lparr>p_status := Paid, p_paid_at := Some (fx_t0 + 600 * second)\<rparr>)"
proof -
  have t: "GetPaymeTransaction fx_pending ''T1'' = Some \<lparr>pt_id = ''T1'', pt_payment = 10,
    pt_amount_tiyin = 5000000, pt_state = 1, pt_reason = None, pt_create_time = 1700000000000,
    pt_perform_time = 0, pt_cancel_time = 0\<rparr>" by code_simp
  have pm: "GetPaymentForPayme fx_pending 10 = Some (fx_order\<lparr>p_status := Pending\<rparr>)" by code_simp
  have "fst (performTransaction show_nat ''T1'' fx_later fx_pending) =
     Inr \<lparr>ptr_transaction = ''10'', ptr_perform_time = 1700000600000, ptr_state = 2\<rparr>" by code_simp
  then have ok: "performTransaction show_nat ''T1'' fx_later fx_pending =
     (Inr \<lparr>ptr_transaction = ''10'', ptr_perform_time = 1700000600000, ptr_state = 2\<rparr>, fx_paid)"
    by (simp add: fx_paid_def prod_eq_iff)
  show ?thesis
    using performTransaction_effect [OF ok t, of "fx_order\<lparr>p_status := Pending\<rparr>"] pm
    by (simp add: fx_later_def fx_order_def)
qed

text \<open>
  A PerformTransaction that answers with an error leaves the database as it was, except that a
  pending transaction older than twelve hours is cancelled with reason 4 together with its order.
\<close>

theorem performTransaction_failure_atomic:
  assumes "performTransaction us pid e db = (Inl err, db')"
  shows "db' = db \<or> (\<exists>t. GetPaymeTransaction db pid = Some t \<and> pt_state t = 1
    \<and> wrap64 (pt_create_time t + 43200000) < unix_milli (clk e ''perform'') \<and> rpc_code err = -31008
    \<and> db' = SetPaymentStatus (pt_payment t) Canceled
        (CancelPaymeTransaction pid (-1) (Some 4) (unix_milli (clk e ''perform'')) db))"
  using assms
  by (cases rule: performTransaction_cases [of us pid e db])
    (auto simp: get_for_update paymeTxTimeoutMs_def cancelReasonTimeout_def)

theorem performTransaction_failure_atomic_witness:
  "snd (performTransaction show_nat ''T1'' (fx_later\<lparr>flt := (\<lambda>s q. q = ''InsertEntitlement'')\<rparr>) fx_pending) = fx_pending"
proof -
  have f: "fst (performTransaction show_nat ''T1'' (fx_later\<lparr>flt := (\<lambda>s q. q = ''InsertEntitlement'')\<rparr>) fx_pending)
      = Inl errInternal" by code_simp
  then obtain db' where ok: "performTransaction show_nat ''T1'' (fx_later\<lparr>flt := (\<lambda>s q. q = ''InsertEntitlement'')\<rparr>) fx_pending
      = (Inl errInternal, db')" by (metis prod.collapse)
  then show ?thesis using performTransaction_failure_atomic [OF ok] by simp
qed

section \<open>Answers on replay\<close>

lemma CreatePaymeTransaction_found:
  assumes "CreatePaymeTransaction i pay amt ct db = Inr db1"
  shows "GetPaymeTransaction db1 i = Some \<lparr>pt_id = i, pt_payment = pay, pt_amount_tiyin = amt,
    pt_state = 1, pt_reason = None, pt_create_time = ct, pt_perform_time = 0, pt_cancel_time = 0\<rparr>"
proof -
  have "i \<notin> pt_id ` set (payme_txs db)" using assms by (auto simp: CreatePaymeTransaction_def split: if_splits)
  then have "find (\<lambda>t. pt_id t = i) (payme_txs db) = None" by (auto simp: find_None_iff)
  with assms show ?thesis
    by (auto simp: CreatePaymeTransaction_def GetPaymeTransaction_def find_append split: if_splits)
qed

lemma createTransaction_recorded:
  assumes "createTransaction pu us e p db = (Inr r, db1)"
  obtains row where "GetPaymeTransaction db1 (ctp_id p) = Some row"
    and "r = \<lparr>ctr_create_time = pt_create_time row, ctr_transaction = us (pt_payment row), ctr_state = pt_state row\<rparr>"
proof (cases "GetPaymeTransaction db (ctp_id p)")
  case (Some row)
  with assms show thesis by (intro that [of row]) (auto simp: createTransaction_def split: if_splits)
next
  case None
  with assms obtain pm where pm: "validateAccountAmount pu e (ctp_order_id p) (ctp_amount p) True db = Inr pm"
    by (auto simp: createTransaction_def split: if_splits sum.splits)
  with None assms obtain db2 where c: "CreatePaymeTransaction (ctp_id p) (p_id pm) (ctp_amount p)
      (unix_milli (clk e ''createTransaction'')) db = Inr db2"
    and r: "r = \<lparr>ctr_create_time = unix_milli (clk e ''createTransaction''),
      ctr_transaction = us (p_id pm), ctr_state = 1\<rparr>" "db1 = SetPaymentStatus (p_id pm) Pending db2"
    by (auto simp: createTransaction_def Let_def split: if_splits sum.splits)
  with CreatePaymeTransaction_found [OF c] show thesis by (intro that) auto
qed

text \<open>
  A CreateTransaction that succeeded is answered with the same creation time, order and state when
  Payme repeats it, whatever amount and account the repetition carries, and the repetition changes
  nothing.
\<close>

theorem createTransaction_replay:
  assumes "createTransaction pu us e p db = (Inr r, db1)"
    and "\<not> flt e2 ''createTransaction'' ''GetPaymeTransaction''" and "ctp_id p2 = ctp_id p"
  shows "createTransaction pu us e2 p2 db1 = (Inr r, db1)"
  by (rule createTransaction_recorded [OF assms(1)]) (use assms(2,3) in \<open>simp add: createTransaction_def\<close>)

theorem createTransaction_replay_witness:
  "createTransaction fx_parse show_nat fx_later (fx_create\<lparr>ctp_amount := 1\<rparr>) fx_pending
    = (Inr \<lparr>ctr_create_time = 1700000000000, ctr_transaction = ''10'', ctr_state = 1\<rparr>, fx_pending)"
proof -
  have "fst (createTransaction fx_parse show_nat fx_env fx_create fx_db)
      = Inr \<lparr>ctr_create_time = 1700000000000, ctr_transaction = ''10'', ctr_state = 1\<rparr>"
    by code_simp
  then have c: "createTransaction fx_parse show_nat fx_env fx_create fx_db
      = (Inr \<lparr>ctr_create_time = 1700000000000, ctr_transaction = ''10'', ctr_state = 1\<rparr>, fx_pending)"
    by (simp add: fx_pending_def prod_eq_iff)
  show ?thesis
    by (rule createTransaction_replay [OF c]) (simp_all add: fx_later_def fx_env_def)
qed

text \<open>
  A CancelTransaction that succeeded is answered with the same cancellation time and state when
  it is repeated with any reason, and the repetition changes nothing.
\<close>

theorem cancelTransaction_replay:
  assumes "cancelTransaction us p e db = (Inr r, db1)"
    and "\<not> flt e2 ''cancel'' ''Begin''" and "\<not> flt e2 ''cancel'' ''GetPaymeTransactionForUpdate''"
    and "\<not> flt e2 ''cancel'' ''Commit''" and "xtp_id p2 = xtp_id p"
  shows "cancelTransaction us p2 e2 db1 = (Inr r, db1)"
proof -
  obtain row where row: "GetPaymeTransaction db1 (xtp_id p) = Some row" "pt_state row = -1 \<or> pt_state row = -2"
    "r = \<lparr>xtr_transaction = us (pt_payment row), xtr_cancel_time = pt_cancel_time row, xtr_state = pt_state row\<rparr>"
  proof (cases rule: cancelTransaction_cases [of us p e db])
    case same
    with assms(1) show thesis by (auto simp: get_for_update intro: that)
  next
    case (canceled t)
    with assms(1) find_perform(2) [OF canceled(1)] show thesis by (intro that) auto
  next
    case (refunded t db')
    note fr = RevokeEntitlementForPayment_frame(1) [OF refunded(3)]
    from refunded assms(1) find_perform(2) [OF refunded(1)] GetPaymeTransaction_same_orders [OF fr, of "xtp_id p"]
    show thesis by (intro that) auto
  qed
  then show ?thesis using assms by (auto simp: cancelTransaction_def get_for_update)
qed

definition fx_cancel :: cancelTransactionParams where
  "fx_cancel = \<lparr>xtp_id = ''T1'', xtp_reason = 5\<rparr>"

definition fx_refunded :: billing_db where
  "fx_refunded = snd (cancelTransaction show_nat fx_cancel fx_later fx_paid)"

theorem cancelTransaction_replay_witness:
  "cancelTransaction show_nat (fx_cancel\<lparr>xtp_reason := 3\<rparr>) fx_env fx_refunded
    = (Inr \<lparr>xtr_transaction = ''10'', xtr_cancel_time = 1700000600000, xtr_state = -2\<rparr>, fx_refunded)"
proof -
  have "fst (cancelTransaction show_nat fx_cancel fx_later fx_paid)
      = Inr \<lparr>xtr_transaction = ''10'', xtr_cancel_time = 1700000600000, xtr_state = -2\<rparr>"
    by code_simp
  then have c: "cancelTransaction show_nat fx_cancel fx_later fx_paid
      = (Inr \<lparr>xtr_transaction = ''10'', xtr_cancel_time = 1700000600000, xtr_state = -2\<rparr>, fx_refunded)"
    by (simp add: fx_refunded_def prod_eq_iff)
  show ?thesis
    by (rule cancelTransaction_replay [OF c]) (simp_all add: fx_env_def)
qed

section \<open>The paid path\<close>

lemma reward_none:
  assumes "\<And>r. r \<in> set (referrals db) \<Longrightarrow> \<not> (rf_referee r = p \<and> rf_status r = RefPending)"
    and "\<not> flt e ''reward'' ''ClaimPendingReferralForReferee''"
  shows "processReferralRewardOnPayment e p pm db = Inr db"
proof -
  have "find (\<lambda>r. rf_referee r = p \<and> rf_status r = RefPending) (referrals db) = None"
    using assms(1) by (auto simp: find_None_iff)
  then show ?thesis
    using assms(2) by (simp add: processReferralRewardOnPayment_def stmt_def ClaimPendingReferralForReferee_def)
qed

lemma ProcessPaymentGrant_plain:
  assumes "flt e = (\<lambda>_ _. False)" and "GetPaymentForPayme db i = Some pm" and "p_promo pm = None"
    and "p_profile pm \<in> pr_id ` set (profiles db)" and "0 < days_dur (p_tariff_days pm)"
    and "\<And>r. r \<in> set (referrals db) \<Longrightarrow> \<not> (rf_referee r = p_profile pm \<and> rf_status r = RefPending)"
  shows "ProcessPaymentGrant e i db = Inr (db\<lparr>entitlements := entitlements db @
    [\<lparr>en_profile = p_profile pm, en_source = ''purchase'',
      en_starts = grant_start e ''grant'' (p_profile pm) db,
      en_ends = grant_start e ''grant'' (p_profile pm) db + days_dur (p_tariff_days pm),
      en_note = '''', en_created_by = None, en_payment = Some i, en_created_at = tx_now e\<rparr>]\<rparr>)"
proof -
  have i: "p_id pm = i" using assms(2) by (auto simp: GetPaymentForPayme_def dest: find_SomeD)
  obtain q where q: "LockProfileForGrant db (p_profile pm) = Some q"
    using assms(4) by (cases "LockProfileForGrant db (p_profile pm)")
      (auto simp: LockProfileForGrant_def find_None_iff)
  have s: "(case ActiveEntitlementEnd (tx_now e) db (p_profile pm) of
           Some t \<Rightarrow> (if clk e ''grant'' < t then t else clk e ''grant'') | None \<Rightarrow> clk e ''grant'')
        = grant_start e ''grant'' (p_profile pm) db"
    by (auto simp: grant_start_def split: option.splits)
  have "GrantDaysForPayment e ''grant'' (p_profile pm) (p_tariff_days pm) ''purchase'' '''' None (Some i) db =
    Inr (grant_start e ''grant'' (p_profile pm) db + days_dur (p_tariff_days pm), db\<lparr>entitlements := entitlements db @
    [\<lparr>en_profile = p_profile pm, en_source = ''purchase'',
      en_starts = grant_start e ''grant'' (p_profile pm) db,
      en_ends = grant_start e ''grant'' (p_profile pm) db + days_dur (p_tariff_days pm),
      en_note = '''', en_created_by = None, en_payment = Some i, en_created_at = tx_now e\<rparr>]\<rparr>)"
    using assms(1,5) q by (simp add: GrantDaysForPayment_def stmt_def one_row_def Let_def s InsertEntitlement_def)
  moreover have "processReferralRewardOnPayment e (p_profile pm) pm (db\<lparr>entitlements := X\<rparr>) = Inr (db\<lparr>entitlements := X\<rparr>)" for X
    by (rule reward_none) (use assms(1,6) in simp_all)
  ultimately show ?thesis
    using assms i by (simp add: ProcessPaymentGrant_def stmt_def one_row_def)
qed

text \<open>
  Without infrastructure faults, an order without promo code or pending referral that is open
  and has no active transaction can be paid: CreateTransaction with its amount and a fresh id, then
  PerformTransaction within twelve hours, both succeed, and afterwards the buyer has VIP until the
  end of what was held before plus the tariff's days.
\<close>

theorem payme_paid_path:
  assumes e1: "flt e1 = (\<lambda>_ _. False)" and e2: "flt e2 = (\<lambda>_ _. False)"
    and pm: "pu (ctp_order_id p) = Some i" "GetPaymentForPayme db i = Some pm"
      "p_status pm = Created \<or> p_status pm = Pending" "ctp_amount p = wrap64 (p_amount pm * 100)"
    and plain: "p_promo pm = None" "p_profile pm \<in> pr_id ` set (profiles db)" "0 < days_dur (p_tariff_days pm)"
      "\<forall>r \<in> set (referrals db). \<not> (rf_referee r = p_profile pm \<and> rf_status r = RefPending)"
    and fresh: "ctp_id p \<notin> pt_id ` set (payme_txs db)"
      "\<forall>t \<in> set (payme_txs db). pt_payment t = i \<longrightarrow> \<not> active_payme t"
    and intime: "unix_milli (clk e2 ''perform'') \<le> wrap64 (unix_milli (clk e1 ''createTransaction'') + 43200000)"
    and clock: "tx_now e2 \<le> clk e2 ''grant''"
  shows "\<exists>r1 db1 r2 db2. createTransaction pu us e1 p db = (Inr r1, db1)
    \<and> performTransaction us (ctp_id p) e2 db1 = (Inr r2, db2) \<and> ctr_state r1 = 1 \<and> ptr_state r2 = 2
    \<and> Status e2 None (p_profile pm) db2 =
        Inr (True, Some (grant_start e2 ''grant'' (p_profile pm) db + days_dur (p_tariff_days pm)))"
proof -
  have i: "p_id pm = i" using pm(2) by (auto simp: GetPaymentForPayme_def dest: find_SomeD)
  have v: "validateAccountAmount pu e1 (ctp_order_id p) (ctp_amount p) True db = Inr pm"
    using e1 pm by (auto simp: validateAccountAmount_def)
  have n: "GetPaymeTransaction db (ctp_id p) = None"
    using fresh(1) by (force simp: GetPaymeTransaction_def find_None_iff)
  have a: "GetActivePaymeTxByPayment e1 db i = None"
    using fresh(2) by (auto simp: GetActivePaymeTxByPayment_def filter_empty_conv)
  let ?ct = "unix_milli (clk e1 ''createTransaction'')" and ?now = "unix_milli (clk e2 ''perform'')"
  obtain dbc where c: "CreatePaymeTransaction (ctp_id p) i (ctp_amount p) ?ct db = Inr dbc"
    using fresh by (auto simp: CreatePaymeTransaction_def)
  have dbc: "payments dbc = payments db" "entitlements dbc = entitlements db" "profiles dbc = profiles db"
    "referrals dbc = referrals db"
    using c by (auto simp: CreatePaymeTransaction_def split: if_splits)
  let ?db1 = "SetPaymentStatus i Pending dbc"
  have create: "createTransaction pu us e1 p db =
      (Inr \<lparr>ctr_create_time = ?ct, ctr_transaction = us i, ctr_state = 1\<rparr>, ?db1)"
    using e1 n v a c i by (simp add: createTransaction_def stmt_def Let_def)
  note t = CreatePaymeTransaction_found [OF c]
  let ?m = "MarkPaymentPaid e2 i (PerformPaymeTransaction (ctp_id p) ?now ?db1)"
  have g1: "GetPaymentForPayme ?db1 i = Some (pm\<lparr>p_status := Pending\<rparr>)"
    using pm(2) dbc(1) by (auto simp: payment_stmts find_upd_where dest: find_SomeD)
  have g: "GetPaymentForPayme ?m i = Some (pm\<lparr>p_status := Paid, p_paid_at := Some (tx_now e2)\<rparr>)"
    using find_mark_paid [of "PerformPaymeTransaction (ctp_id p) ?now ?db1" i "pm\<lparr>p_status := Pending\<rparr>" e2] g1
    by (simp add: GetPaymentForPayme_def)
  have gs: "grant_start e2 ''grant'' q ?m = grant_start e2 ''grant'' q db" for q
    using dbc(2) by (simp add: grant_start_def ActiveEntitlementEnd_def active_ends_def SetPaymentStatus_def)
  let ?row = "\<lparr>en_profile = p_profile pm, en_source = ''purchase'',
      en_starts = grant_start e2 ''grant'' (p_profile pm) db,
      en_ends = grant_start e2 ''grant'' (p_profile pm) db + days_dur (p_tariff_days pm),
      en_note = '''', en_created_by = None, en_payment = Some i, en_created_at = tx_now e2\<rparr>"
  let ?db2 = "?m\<lparr>entitlements := entitlements ?m @ [?row]\<rparr>"
  have grant: "ProcessPaymentGrant e2 i ?m = Inr ?db2"
    using ProcessPaymentGrant_plain [OF e2 g] plain dbc gs
    by (simp add: SetPaymentStatus_def MarkPaymentPaid_def PerformPaymeTransaction_def)
  have perform: "performTransaction us (ctp_id p) e2 ?db1 =
      (Inr \<lparr>ptr_transaction = us i, ptr_perform_time = ?now, ptr_state = 2\<rparr>, ?db2)"
    using e2 t intime grant by (simp add: performTransaction_def get_for_update paymeTxTimeoutMs_def Let_def)
  have "tx_now e2 < grant_start e2 ''grant'' (p_profile pm) db + days_dur (p_tariff_days pm)"
    using grant_start_ge_clk [of e2 "''grant''" "p_profile pm" db] clock plain(3) by simp
  moreover have "en_ends s \<le> grant_start e2 ''grant'' (p_profile pm) db + days_dur (p_tariff_days pm)"
    if "s \<in> set (entitlements db)" "en_profile s = p_profile pm" for s
    using grant_start_after [OF clock that] plain(3) by simp
  ultimately have "ActiveEntitlementEnd (tx_now e2) ?db2 (p_profile pm) = Some (en_ends ?row)"
    using dbc(2) by (intro ActiveEntitlementEnd_snoc) simp_all
  then have "Status e2 None (p_profile pm) ?db2 =
        Inr (True, Some (grant_start e2 ''grant'' (p_profile pm) db + days_dur (p_tariff_days pm)))"
    using e2 by (simp add: Status_def)
  with create perform show ?thesis by (intro exI conjI) (assumption | simp)+
qed

definition fx_plain :: billing_db where
  "fx_plain = fx_db\<lparr>referrals := []\<rparr>"

theorem payme_paid_path_witness:
  "\<exists>r1 db1 r2 db2. createTransaction fx_parse show_nat fx_env fx_create fx_plain = (Inr r1, db1)
    \<and> performTransaction show_nat ''T1'' fx_later db1 = (Inr r2, db2) \<and> ctr_state r1 = 1 \<and> ptr_state r2 = 2
    \<and> Status fx_later None 1 db2 = Inr (True, Some (fx_t0 + 600 * second + 30 * day_ns))"
proof -
  have e: "flt fx_env = (\<lambda>_ _. False)" "flt fx_later = (\<lambda>_ _. False)" by (simp_all add: fx_env_def fx_later_def)
  have pm: "fx_parse (ctp_order_id fx_create) = Some 10" "GetPaymentForPayme fx_plain 10 = Some fx_order"
    "p_status fx_order = Created \<or> p_status fx_order = Pending"
    "ctp_amount fx_create = wrap64 (p_amount fx_order * 100)" by code_simp+
  have pl: "p_promo fx_order = None" "p_profile fx_order \<in> pr_id ` set (profiles fx_plain)"
    "0 < days_dur (p_tariff_days fx_order)"
    "\<forall>r \<in> set (referrals fx_plain). \<not> (rf_referee r = p_profile fx_order \<and> rf_status r = RefPending)"
    by code_simp+
  have fr: "ctp_id fx_create \<notin> pt_id ` set (payme_txs fx_plain)"
    "\<forall>t \<in> set (payme_txs fx_plain). pt_payment t = 10 \<longrightarrow> \<not> active_payme t" by code_simp+
  have it: "unix_milli (clk fx_later ''perform'') \<le> wrap64 (unix_milli (clk fx_env ''createTransaction'') + 43200000)"
    "tx_now fx_later \<le> clk fx_later ''grant''" by code_simp+
  have gs: "grant_start fx_later ''grant'' 1 fx_plain + days_dur (p_tariff_days fx_order)
      = fx_t0 + 600 * second + 30 * day_ns" "p_profile fx_order = 1" "ctp_id fx_create = ''T1''" by code_simp+
  show ?thesis using payme_paid_path [where pu = fx_parse and p = fx_create, OF e pm pl fr it, of show_nat] unfolding gs .
qed

section \<open>Refunds\<close>

text \<open>
  C4: a CancelTransaction that succeeds on a performed transaction moves it to state -2 and its order
  to refunded and takes back the order's referral commission in full. It reads one entitlement of the order, \<open>ent\<close>, and clamps
  the order's entitlements at a time that depends on it: now when \<open>ent\<close> has begun, else one second after it begins. What
  ends later ends then (or one second after its own start), what ends earlier stays as it is, and every other
  entitlement stays as it is. So the order's access ends now when \<open>ent\<close> has begun.
\<close>

theorem cancelTransaction_refund:
  assumes ok: "cancelTransaction us p e db = (Inr r, db')"
    and t: "GetPaymeTransaction db (xtp_id p) = Some t" "pt_state t = 2"
    and ent: "GetEntitlementByPaymentID e db (pt_payment t) = Some ent"
  shows "xtr_state r = -2
    \<and> GetPaymeTransaction db' (xtp_id p) = Some (t\<lparr>pt_state := -2, pt_reason := Some (xtp_reason p),
         pt_cancel_time := xtr_cancel_time r\<rparr>)
    \<and> map_option p_status (GetPaymentForPayme db' (pt_payment t))
        = map_option (\<lambda>_. Refunded) (GetPaymentForPayme db (pt_payment t))
    \<and> entitlements db' = map (\<lambda>row.
         let clamp = (if en_starts ent < clk e ''revoke'' then clk e ''revoke'' else en_starts ent + second) in
         if en_payment row = Some (pt_payment t) \<and> clamp < en_ends row
         then row\<lparr>en_ends := (if clamp \<le> en_starts row then en_starts row + second else clamp), en_note := en_note row @ '' | refunded''\<rparr>
         else row) (entitlements db)
    \<and> (en_starts ent < clk e ''revoke'' \<longrightarrow> (\<forall>row \<in> set (entitlements db'). en_payment row = Some (pt_payment t) \<longrightarrow>
         en_ends row \<le> clk e ''revoke'' \<or> en_ends row = en_starts row + second))
    \<and> (\<forall>c. GetCommissionByPaymentID db (pt_payment t) = Some c \<longrightarrow>
         GetClawbackByPaymentID db (pt_payment t) = None \<longrightarrow> 0 < lg_amount c \<longrightarrow>
         GetReferralBalance db' (lg_profile c) = GetReferralBalance db (lg_profile c) - lg_amount c)"
proof (cases rule: cancelTransaction_cases [of us p e db])
  case same
  then show ?thesis using ok t by (fastforce simp: get_for_update)
next
  case (canceled u)
  then show ?thesis using t by (simp add: get_for_update)
next
  case (refunded u db2)
  then have u: "u = t" and r: "db2 = db'" "xtr_state r = -2" "xtr_cancel_time r = unix_milli (clk e ''cancel'')"
    using ok t by (auto simp: get_for_update)
  let ?c = "CancelPaymeTransaction (xtp_id p) (-2) (Some (xtp_reason p)) (xtr_cancel_time r) db"
  let ?m = "SetPaymentStatus (pt_payment t) Refunded ?c"
  have rev: "RevokeEntitlementForPayment e (pt_payment t) ?m = Inr db'" using refunded(3) u r by simp
  have so: "same_orders ?m db'" using RevokeEntitlementForPayment_frame(1) [OF rev] .
  have tx: "GetPaymeTransaction db' (xtp_id p) = Some (t\<lparr>pt_state := -2, pt_reason := Some (xtp_reason p),
         pt_cancel_time := xtr_cancel_time r\<rparr>)"
    using GetPaymeTransaction_same_orders [OF so] find_perform(2) [of db "xtp_id p" t] t
    by (simp add: get_for_update)
  have st: "map_option p_status (GetPaymentForPayme db' (pt_payment t))
        = map_option (\<lambda>_. Refunded) (GetPaymentForPayme db (pt_payment t))"
    using payments_grant_frame [OF so]
    by (auto simp: payment_stmts find_upd_where option.map_comp comp_def intro!: option.map_cong0 dest: find_SomeD)
  have "GetEntitlementByPaymentID e ?m (pt_payment t) = Some ent"
    using ent by (simp add: GetEntitlementByPaymentID_def)
  with rev obtain clampTo where cl: "clampTo = (if en_starts ent < clk e ''revoke'' then clk e ''revoke'' else en_starts ent + second)"
    "ClawbackReferralCommissionOnRefund e (pt_payment t)
      (ClampAllEntitlementsForPayment (pt_payment t) clampTo '' | refunded'' ?m) = Inr db'"
    by (rule RevokeEntitlementForPayment_cases)
  have ends: "en_ends row \<le> clampTo \<or> en_ends row = en_starts row + second"
    if "row \<in> set (entitlements db')" "en_payment row = Some (pt_payment t)" for row
    using that Clawback_frame(3) [OF cl(2)] by (intro Clamp_rows [where pay = "pt_payment t"]) auto
  have rows: "en_starts ent < clk e ''revoke'' \<longrightarrow> (\<forall>row \<in> set (entitlements db'). en_payment row = Some (pt_payment t) \<longrightarrow>
         en_ends row \<le> clk e ''revoke'' \<or> en_ends row = en_starts row + second)"
    using cl(1) by (intro impI ballI) (metis ends)
  have clamped: "entitlements db' = map (\<lambda>row.
         let clamp = (if en_starts ent < clk e ''revoke'' then clk e ''revoke'' else en_starts ent + second) in
         if en_payment row = Some (pt_payment t) \<and> clamp < en_ends row
         then row\<lparr>en_ends := (if clamp \<le> en_starts row then en_starts row + second else clamp), en_note := en_note row @ '' | refunded''\<rparr>
         else row) (entitlements db)"
    using Clawback_frame(3) [OF cl(2)] unfolding cl(1) [symmetric] Let_def
    by (simp add: ClampAllEntitlementsForPayment_def upd_where_def SetPaymentStatus_def CancelPaymeTransaction_def)
  have "GetReferralBalance db' (lg_profile c) = GetReferralBalance db (lg_profile c) - lg_amount c"
    if "GetCommissionByPaymentID db (pt_payment t) = Some c"
      "GetClawbackByPaymentID db (pt_payment t) = None" "0 < lg_amount c" for c
    using Clawback_exact [OF cl(2), of c] that
    by (simp add: GetCommissionByPaymentID_def GetClawbackByPaymentID_def GetReferralBalance_def
        ClampAllEntitlementsForPayment_def SetPaymentStatus_def CancelPaymeTransaction_def)
  with r tx st rows clamped show ?thesis by blast
qed

theorem cancelTransaction_refund_witness:
  "GetReferralBalance fx_paid 2 = 5000 \<and> GetReferralBalance fx_refunded 2 = 0"
proof -
  have ok: "cancelTransaction show_nat fx_cancel fx_later fx_paid
      = (Inr \<lparr>xtr_transaction = ''10'', xtr_cancel_time = 1700000600000, xtr_state = -2\<rparr>, fx_refunded)"
  proof -
    have "fst (cancelTransaction show_nat fx_cancel fx_later fx_paid)
      = Inr \<lparr>xtr_transaction = ''10'', xtr_cancel_time = 1700000600000, xtr_state = -2\<rparr>" by code_simp
    then show ?thesis by (simp add: fx_refunded_def prod_eq_iff)
  qed
  have t: "GetPaymeTransaction fx_paid (xtp_id fx_cancel) = Some \<lparr>pt_id = ''T1'', pt_payment = 10,
    pt_amount_tiyin = 5000000, pt_state = 2, pt_reason = None, pt_create_time = 1700000000000,
    pt_perform_time = 1700000600000, pt_cancel_time = 0\<rparr>" by code_simp
  have e: "GetEntitlementByPaymentID fx_later fx_paid 10 = Some \<lparr>en_profile = 1, en_source = ''purchase'',
    en_starts = fx_t0 + 600 * second, en_ends = fx_t0 + 600 * second + 30 * day_ns, en_note = '''',
    en_created_by = None, en_payment = Some 10, en_created_at = fx_t0 + 600 * second\<rparr>" by code_simp
  have c: "GetCommissionByPaymentID fx_paid 10 = Some \<lparr>lg_profile = 2, lg_type = Commission,
    lg_amount = 5000, lg_payment = Some 10, lg_payout = None\<rparr>" by code_simp
  have n: "GetClawbackByPaymentID fx_paid 10 = None" by code_simp
  have b: "GetReferralBalance fx_paid 2 = 5000" by code_simp
  show ?thesis
    using cancelTransaction_refund [OF ok t] e c n b by simp
qed

section \<open>Queries\<close>

text \<open>
  CheckPerformTransaction allows a payment exactly when the account names an order that is still
  in status created and the amount is the order's amount in tiyin.
\<close>

theorem checkPerform_allows_iff:
  "checkPerform pu e p db = Inr True \<longleftrightarrow>
     (\<exists>i pm. pu (cpp_order_id p) = Some i \<and> \<not> flt e ''validateAccountAmount'' ''GetPaymentForPayme''
        \<and> GetPaymentForPayme db i = Some pm \<and> p_status pm = Created
        \<and> cpp_amount p = wrap64 (p_amount pm * 100))"
  by (auto simp: checkPerform_def validateAccountAmount_def split: option.splits sum.splits if_splits)

text \<open>
  GetStatement lists exactly the transactions created inside the closed interval, each once and
  with its recorded times and state, in the order of their creation times.
\<close>

theorem getStatement_exact:
  assumes "getStatement us e lo hi db = Inr es"
  shows "mset es = mset (map (statement_entry us)
      (filter (\<lambda>t. lo \<le> pt_create_time t \<and> pt_create_time t \<le> hi) (payme_txs db)))
    \<and> sorted (map se_create_time es)"
proof -
  have es: "es = map (statement_entry us) (ListPaymeTransactionsByTime db lo hi)"
    using assms by (simp add: getStatement_def split: if_splits)
  have "map se_create_time es = map pt_create_time (ListPaymeTransactionsByTime db lo hi)"
    by (simp add: es statement_entry_def)
  moreover have "sorted (map pt_create_time (ListPaymeTransactionsByTime db lo hi))"
    by (simp add: ListPaymeTransactionsByTime_def)
  moreover have "mset es = mset (map (statement_entry us)
      (filter (\<lambda>t. lo \<le> pt_create_time t \<and> pt_create_time t \<le> hi) (payme_txs db)))"
    by (simp add: es ListPaymeTransactionsByTime_def)
  ultimately show ?thesis by (simp only: simp_thms)
qed

theorem getStatement_exact_witness:
  "getStatement show_nat fx_env 0 2000000000000 fx_paid = Inr [\<lparr>se_id = ''T1'', se_time = 1700000000000,
     se_amount = 5000000, se_order_id = ''10'', se_create_time = 1700000000000,
     se_perform_time = 1700000600000, se_cancel_time = 0, se_transaction = ''10'', se_state = 2, se_reason = 0\<rparr>]
   \<and> sorted (map se_create_time [\<lparr>se_id = ''T1'', se_time = 1700000000000,
     se_amount = 5000000, se_order_id = ''10'', se_create_time = 1700000000000,
     se_perform_time = 1700000600000, se_cancel_time = 0, se_transaction = ''10'', se_state = 2, se_reason = 0\<rparr>])"
proof -
  have g: "getStatement show_nat fx_env 0 2000000000000 fx_paid = Inr [\<lparr>se_id = ''T1'', se_time = 1700000000000,
     se_amount = 5000000, se_order_id = ''10'', se_create_time = 1700000000000,
     se_perform_time = 1700000600000, se_cancel_time = 0, se_transaction = ''10'', se_state = 2, se_reason = 0\<rparr>]"
    by code_simp
  then show ?thesis using getStatement_exact [OF g] by simp
qed

section \<open>Transport\<close>

text \<open>
  A request without the merchant key (no or wrong Basic credentials, or no key configured)
  changes nothing and is answered with -32504, or -32300 when it is not a POST.
\<close>

theorem ServeHTTP_unauthorised:
  assumes "\<not> (key \<noteq> '''' \<and> hq_auth r = Some (''Paycom'', key))"
  shows "snd (ServeHTTP c pu us key e r db) = db \<and>
    (\<exists>err. fst (ServeHTTP c pu us key e r db) = (None, Inl err) \<and>
      rpc_code err = (if hq_method r = ''POST'' then -32504 else -32300))"
proof -
  have "\<not> checkAuth key r" using assms by (auto simp: checkAuth_def split: option.splits)
  then show ?thesis by (simp add: ServeHTTP_def)
qed

theorem ServeHTTP_unauthorised_witness:
  "snd (ServeHTTP fx_codec fx_parse show_nat ''other'' fx_later (fx_req ''PerformTransaction'') fx_pending) = fx_pending"
  using ServeHTTP_unauthorised [of "''other''" "fx_req ''PerformTransaction''" fx_codec fx_parse show_nat fx_later fx_pending]
  by (simp add: fx_req_def)

text \<open>
  C5: one webhook request adds at most one transaction, and moves the recorded ones only along
  1 to 2 (performed), 1 to -1 (cancelled) and 2 to -2 (refunded), never changing their id, order,
  amount or creation time.
\<close>

theorem ServeHTTP_lifecycle:
  assumes "payme_inv (payme_txs db)"
  shows "let ts = payme_txs db; ts' = payme_txs (snd (ServeHTTP c pu us key e r db)) in
    length ts \<le> length ts' \<and> length ts' \<le> length ts + 1
    \<and> list_all2 payme_moved ts (take (length ts) ts')
    \<and> (\<forall>t \<in> set (drop (length ts) ts'). pt_state t = 1)"
proof -
  obtain new where n: "length new \<le> 1"
    "list_all2 payme_moved (payme_txs db) (take (length (payme_txs db)) (payme_txs (snd (ServeHTTP c pu us key e r db))))"
    "payme_txs (snd (ServeHTTP c pu us key e r db)) =
       take (length (payme_txs db)) (payme_txs (snd (ServeHTTP c pu us key e r db))) @ new"
    "\<forall>t \<in> set new. pt_state t = 1"
    using ServeHTTP_refines assms by (rule payme_write_moves)
  from n(2) have l: "length (payme_txs db) \<le> length (payme_txs (snd (ServeHTTP c pu us key e r db)))"
    by (auto dest: list_all2_lengthD)
  have d: "drop (length (payme_txs db)) (payme_txs (snd (ServeHTTP c pu us key e r db))) = new"
    using n(3) append_eq_conv_conj by (metis append_take_drop_id same_append_eq)
  have "length (payme_txs (snd (ServeHTTP c pu us key e r db))) \<le> length (payme_txs db) + 1"
    using n(1) d by auto
  with n(2,4) l d show ?thesis by (simp add: Let_def)
qed

theorem ServeHTTP_lifecycle_witness:
  "list_all2 payme_moved (payme_txs fx_pending) (payme_txs fx_paid)"
proof -
  have i: "payme_inv (payme_txs fx_pending)" by code_simp
  have s: "snd (ServeHTTP fx_codec fx_parse show_nat ''k'' fx_later (fx_req ''PerformTransaction'') fx_pending) = fx_paid"
    by (simp add: ServeHTTP_def fx_req_def checkAuth_def fx_codec_def dispatch_def fx_paid_def case_prod_unfold)
  have l: "length (payme_txs fx_pending) = 1" "length (payme_txs fx_paid) = 1" by code_simp+
  show ?thesis
    using ServeHTTP_lifecycle [OF i, of fx_codec fx_parse show_nat "''k''" fx_later "fx_req ''PerformTransaction''"]
    by (simp add: s l Let_def)
qed

end
