(* ===== verification/Click.thy ===== *)
theory Click
  imports Complex_Main Settlement "HOL-Library.Log_Nat"
begin

text \<open>
  The Click webhook (\<open>internal/billing/click\<close>): request decoding, the signature, Prepare (action 0) and
  Complete (action 1). \<open>md5_hex\<close> stands for the hexadecimal MD5 digest of \<open>crypto/md5\<close>, \<open>parse_uuid\<close> and
  \<open>uuid_str\<close> for google/uuid, \<open>parse_float\<close> for the value \<open>strconv.ParseFloat(s, 64)\<close> returns (\<open>None\<close> on error).
  Prepare and the checks of Complete are separate statements; \<open>confirmAndGrant\<close> and \<open>rejectTransaction\<close> are transactions.
  Other requests may run between two statements: \<open>oth s\<close> is what they do to the database right after the statement \<open>s\<close>.
\<close>

section \<open>Floating point amounts\<close>

text \<open>
  The values of a \<open>float64\<close> and the operations the amount check uses: rounding to nearest, ties to
  even, with 53 bits of precision and the subnormal range.
\<close>

datatype float64 = Fin rat | PosInf | NegInf | NaN

definition ilog2 :: "rat \<Rightarrow> int" where
  "ilog2 x = (let (p, q) = quotient_of x; k = bitlen p - bitlen q in
     if x < 2 powi k then k - 1 else k)"

definition round_half_even :: "rat \<Rightarrow> int" where
  "round_half_even x = (let f = \<lfloor>x\<rfloor>; d = x - of_int f in
     if d < 1 / 2 then f else if 1 / 2 < d then f + 1 else if even f then f else f + 1)"

definition round64 :: "rat \<Rightarrow> float64" where
  "round64 x =
     (if x = 0 then Fin 0
      else let e = max (ilog2 \<bar>x\<bar> - 52) (- 1074);
               r = of_int (round_half_even (x / 2 powi e)) * 2 powi e in
      if 2 ^ 1024 \<le> r then PosInf else if r \<le> - (2 ^ 1024) then NegInf else Fin r)"

fun f64_sub :: "float64 \<Rightarrow> float64 \<Rightarrow> float64" where
  "f64_sub (Fin a) (Fin b) = round64 (a - b)"
| "f64_sub NaN _ = NaN"
| "f64_sub _ NaN = NaN"
| "f64_sub PosInf PosInf = NaN"
| "f64_sub NegInf NegInf = NaN"
| "f64_sub PosInf _ = PosInf"
| "f64_sub NegInf _ = NegInf"
| "f64_sub (Fin _) PosInf = NegInf"
| "f64_sub (Fin _) NegInf = PosInf"

fun f64_abs :: "float64 \<Rightarrow> float64" where
  "f64_abs (Fin a) = Fin \<bar>a\<bar>"
| "f64_abs NegInf = PosInf"
| "f64_abs x = x"

fun f64_gt :: "float64 \<Rightarrow> float64 \<Rightarrow> bool" where
  "f64_gt (Fin a) (Fin b) = (b < a)"
| "f64_gt NaN _ = False"
| "f64_gt _ NaN = False"
| "f64_gt PosInf PosInf = False"
| "f64_gt PosInf _ = True"
| "f64_gt (Fin _) NegInf = True"
| "f64_gt _ _ = False"

text \<open>\<open>float64(n)\<close> of an integer is exact up to 53 bits; \<open>0.01\<close> is the float nearest to one hundredth.\<close>

definition f64_of_int :: "int \<Rightarrow> float64" where
  "f64_of_int n = (if \<bar>n\<bar> \<le> 2 ^ 53 then Fin (of_int n) else round64 (of_int n))"

definition f64_001 :: float64 where
  "f64_001 = Fin (5764607523034235 / 576460752303423488)"

text \<open>\<open>perr != nil || math.Abs(amount-float64(want)) > 0.01\<close>.\<close>

definition amount_differs :: "(string \<Rightarrow> float64 option) \<Rightarrow> string \<Rightarrow> int \<Rightarrow> bool" where
  "amount_differs parse_float s want =
     (case parse_float s of
        None \<Rightarrow> True
      | Some amount \<Rightarrow> f64_gt (f64_abs (f64_sub amount (f64_of_int want))) f64_001)"

text \<open>
  The value \<open>strconv.Atoi\<close> returns beside its error: the number, 0 when the text is not one, the
  nearest bound when it is out of range.
\<close>

definition atoi_value :: "string \<Rightarrow> int" where
  "atoi_value s =
     (let neg = (s \<noteq> [] \<and> hd s = CHR ''-'');
          ds = (if s \<noteq> [] \<and> (hd s = CHR ''-'' \<or> hd s = CHR ''+'') then tl s else s)
      in if ds = [] \<or> \<not> list_all is_digit ds then 0
         else if neg then max (- int (read_nat ds)) (- (2 ^ 63))
         else min (int (read_nat ds)) (2 ^ 63 - 1))"

section \<open>Requests, responses and the signature\<close>

record clickRequest =
  cq_trans_id :: string
  cq_service_id :: string
  cq_paydoc_id :: string
  cq_merchant_trans_id :: string
  cq_amount :: string
  cq_action :: string
  cq_error :: string
  cq_error_note :: string
  cq_sign_time :: string
  cq_sign_string :: string
  cq_merchant_prepare_id :: string

record clickResponse =
  cs_trans_id :: string
  cs_merchant_trans_id :: string
  cs_merchant_prepare_id :: string
  cs_merchant_confirm_id :: string
  cs_error :: int
  cs_error_note :: string

definition errSuccess :: int where "errSuccess = 0"
definition errSignFailed :: int where "errSignFailed = -1"
definition click_errAmount :: int where "click_errAmount = -2"
definition errAction :: int where "errAction = -3"
definition errAlreadyPaid :: int where "errAlreadyPaid = -4"
definition click_errAccountNotFound :: int where "click_errAccountNotFound = -5"
definition click_errTransactionNotFound :: int where "click_errTransactionNotFound = -6"
definition errBadRequest :: int where "errBadRequest = -8"
definition errCancelled :: int where "errCancelled = -9"

lemmas click_codes = errSuccess_def errSignFailed_def click_errAmount_def errAction_def errAlreadyPaid_def
  click_errAccountNotFound_def click_errTransactionNotFound_def errBadRequest_def errCancelled_def

definition errorNotes :: "int \<Rightarrow> string" where
  "errorNotes code =
     (if code = errSuccess then ''Success''
      else if code = errSignFailed then ''SIGN CHECK FAILED!''
      else if code = click_errAmount then ''Incorrect parameter amount''
      else if code = errAction then ''Action not found''
      else if code = errAlreadyPaid then ''Already paid''
      else if code = click_errAccountNotFound then ''User does not exist''
      else if code = click_errTransactionNotFound then ''Transaction does not exist''
      else if code = errBadRequest then ''Error in request from click''
      else if code = errCancelled then ''Transaction cancelled''
      else '''')"

definition errorResponse :: "clickRequest \<Rightarrow> int \<Rightarrow> clickResponse" where
  "errorResponse req code = \<lparr>cs_trans_id = cq_trans_id req,
     cs_merchant_trans_id = cq_merchant_trans_id req, cs_merchant_prepare_id = '''',
     cs_merchant_confirm_id = '''', cs_error = code, cs_error_note = errorNotes code\<rparr>"

lemma cs_error_errorResponse [simp]: "cs_error (errorResponse req code) = code"
  by (simp add: errorResponse_def)

definition computeSign :: "(string \<Rightarrow> string) \<Rightarrow> clickRequest \<Rightarrow> string \<Rightarrow> string \<Rightarrow> string" where
  "computeSign md5_hex req serviceID secretKey =
     md5_hex (cq_trans_id req @ serviceID @ secretKey @ cq_merchant_trans_id req
       @ (if cq_action req = ''1'' then cq_merchant_prepare_id req else '''')
       @ cq_amount req @ cq_action req @ cq_sign_time req)"

definition validSign :: "(string \<Rightarrow> string) \<Rightarrow> clickRequest \<Rightarrow> string \<Rightarrow> string \<Rightarrow> bool" where
  "validSign md5_hex req serviceID secretKey =
     (if secretKey = '''' then False
      else computeSign md5_hex req serviceID secretKey = cq_sign_string req)"

definition requiredFieldsPresent :: "clickRequest \<Rightarrow> bool" where
  "requiredFieldsPresent req =
     (if cq_trans_id req = '''' \<or> cq_service_id req = '''' \<or> cq_merchant_trans_id req = ''''
         \<or> cq_amount req = '''' \<or> cq_action req = '''' \<or> cq_sign_time req = '''' \<or> cq_sign_string req = ''''
      then False
      else if cq_action req = ''1'' \<and> cq_merchant_prepare_id req = '''' then False
      else True)"

text \<open>
  The HTTP request: \<open>hc_form\<close> is the decoded form body (\<open>None\<close> when \<open>ParseForm\<close> fails), \<open>hc_json\<close>
  the decoded JSON body.
\<close>

record click_http =
  hc_method :: string
  hc_form :: "(string \<times> string) list option"
  hc_json :: "clickRequest option"

definition post_form_value :: "(string \<times> string) list \<Rightarrow> string \<Rightarrow> string" where
  "post_form_value form k = (case map_of form k of None \<Rightarrow> '''' | Some v \<Rightarrow> v)"

definition empty_click_request :: clickRequest where
  "empty_click_request = \<lparr>cq_trans_id = '''', cq_service_id = '''', cq_paydoc_id = '''',
     cq_merchant_trans_id = '''', cq_amount = '''', cq_action = '''', cq_error = '''', cq_error_note = '''',
     cq_sign_time = '''', cq_sign_string = '''', cq_merchant_prepare_id = ''''\<rparr>"

definition parseClickRequest :: "click_http \<Rightarrow> clickRequest \<times> bool" where
  "parseClickRequest r =
     (case hc_form r of
        Some (kv # kvs) \<Rightarrow> (let v = post_form_value (kv # kvs) in
          (\<lparr>cq_trans_id = v ''click_trans_id'', cq_service_id = v ''service_id'',
            cq_paydoc_id = v ''click_paydoc_id'', cq_merchant_trans_id = v ''merchant_trans_id'',
            cq_amount = v ''amount'', cq_action = v ''action'', cq_error = v ''error'',
            cq_error_note = v ''error_note'', cq_sign_time = v ''sign_time'',
            cq_sign_string = v ''sign_string'', cq_merchant_prepare_id = v ''merchant_prepare_id''\<rparr>, True))
      | _ \<Rightarrow> (case hc_json r of None \<Rightarrow> (empty_click_request, False) | Some q \<Rightarrow> (q, True)))"

section \<open>Prepare and Complete\<close>

text \<open>The libraries and settings a handler is built with.\<close>

record click_cfg =
  cc_parse_uuid :: "string \<Rightarrow> uuid option"
  cc_uuid_str :: "uuid \<Rightarrow> string"
  cc_parse_float :: "string \<Rightarrow> float64 option"
  cc_md5_hex :: "string \<Rightarrow> string"
  cc_service_id :: string
  cc_secret_key :: string

definition text_or_null :: "string \<Rightarrow> string option" where
  "text_or_null s = (if s = '''' then None else Some s)"

type_synonym interference = "string \<Rightarrow> billing_db \<Rightarrow> billing_db"

text \<open>Nobody else runs.\<close>

definition alone :: interference where
  "alone s db = db"

declare alone_def [simp]

definition prepare ::
  "click_cfg \<Rightarrow> interference \<Rightarrow> env \<Rightarrow> clickRequest \<Rightarrow> billing_db \<Rightarrow> clickResponse \<times> billing_db" where
  "prepare c oth e req db =
     (case cc_parse_uuid c (cq_merchant_trans_id req) of
        None \<Rightarrow> (errorResponse req click_errAccountNotFound, db)
      | Some paymentID \<Rightarrow>
     if flt e ''prepare'' ''GetPaymentForPayme'' then (errorResponse req click_errAccountNotFound, db)
     else case GetPaymentForPayme db paymentID of
        None \<Rightarrow> (errorResponse req click_errAccountNotFound, db)
      | Some payment \<Rightarrow>
     let db = oth ''prepare.GetPaymentForPayme'' db in
     if p_status payment = Paid then (errorResponse req errAlreadyPaid, db)
     else if p_status payment \<noteq> Created \<and> p_status payment \<noteq> Pending
     then (errorResponse req click_errAccountNotFound, db)
     else if amount_differs (cc_parse_float c) (cq_amount req) (p_amount payment)
     then (errorResponse req click_errAmount, db)
     else if atoi_value (cq_error req) < 0 then (errorResponse req errCancelled, db)
     else if flt e ''prepare'' ''GetClickTransactionByClickTransID'' then (errorResponse req errBadRequest, db)
     else case GetClickTransactionByClickTransID e db (cq_trans_id req) of
        Some existing \<Rightarrow>
          (\<lparr>cs_trans_id = cq_trans_id req, cs_merchant_trans_id = cq_merchant_trans_id req,
            cs_merchant_prepare_id = cc_uuid_str c (ct_id existing), cs_merchant_confirm_id = '''',
            cs_error = errSuccess, cs_error_note = errorNotes errSuccess\<rparr>, db)
      | None \<Rightarrow>
     let db = oth ''prepare.GetClickTransactionByClickTransID'' db in
     if flt e ''prepare'' ''GetActiveClickTxByPayment''
        \<or> GetActiveClickTxByPayment e db (p_id payment) \<noteq> None
     then (errorResponse req errBadRequest, db)
     else let db = oth ''prepare.GetActiveClickTxByPayment'' db in
     case stmt e ''prepare'' ''CreateClickTransaction'' (CreateClickTransaction e (cq_trans_id req)
             (text_or_null (cq_paydoc_id req)) (p_id payment) (p_amount payment) db) of
        Inl _ \<Rightarrow> (errorResponse req errBadRequest, db)
      | Inr (txID, db1) \<Rightarrow>
     let db1 = oth ''prepare.CreateClickTransaction'' db1 in
     if flt e ''prepare'' ''MarkPaymentPending'' then (errorResponse req errBadRequest, db1)
     else (\<lparr>cs_trans_id = cq_trans_id req, cs_merchant_trans_id = cq_merchant_trans_id req,
            cs_merchant_prepare_id = cc_uuid_str c txID, cs_merchant_confirm_id = '''',
            cs_error = errSuccess, cs_error_note = errorNotes errSuccess\<rparr>,
           MarkPaymentPending (p_id payment) (Some (cq_trans_id req)) db1))"

definition confirmAndGrant :: "uuid \<Rightarrow> uuid \<Rightarrow> env \<Rightarrow> billing_db \<Rightarrow> (billing_err + bool) \<times> billing_db" where
  "confirmAndGrant transactionID paymentID e db = run_tx e ''confirmAndGrant''
     (\<lambda>db. rbind (stmt e ''confirmAndGrant'' ''GetClickTransactionByIDForUpdate''
              (one_row (GetClickTransactionByIDForUpdate db transactionID))) (\<lambda>locked.
        if ct_state locked = 1 then Inr (True, db)
        else rbind (stmt e ''confirmAndGrant'' ''ConfirmClickTransaction''
              (ConfirmClickTransaction transactionID db)) (\<lambda>db1.
        rbind (stmt e ''confirmAndGrant'' ''MarkPaymentPaid''
              (Inr (MarkPaymentPaid e paymentID db1))) (\<lambda>db2.
        rbind (ProcessPaymentGrant e paymentID db2) (\<lambda>db3. Inr (False, db3)))))) db"

definition rejectTransaction ::
  "uuid \<Rightarrow> uuid \<Rightarrow> string \<Rightarrow> env \<Rightarrow> billing_db \<Rightarrow> (billing_err + unit) \<times> billing_db" where
  "rejectTransaction transactionID paymentID reason e db = run_tx e ''rejectTransaction''
     (\<lambda>db. rbind (stmt e ''rejectTransaction'' ''RejectClickTransaction''
              (Inr (RejectClickTransaction transactionID (text_or_null reason) db))) (\<lambda>db1.
        rbind (stmt e ''rejectTransaction'' ''SetPaymentStatus''
              (Inr (SetPaymentStatus paymentID Canceled db1))) (\<lambda>db2. Inr ((), db2)))) db"

definition complete ::
  "click_cfg \<Rightarrow> interference \<Rightarrow> env \<Rightarrow> clickRequest \<Rightarrow> billing_db \<Rightarrow> clickResponse \<times> billing_db" where
  "complete c oth e req db =
     (case cc_parse_uuid c (cq_merchant_prepare_id req) of
        None \<Rightarrow> (errorResponse req click_errTransactionNotFound, db)
      | Some transactionID \<Rightarrow>
     if flt e ''complete'' ''GetClickTransactionByID''
     then (errorResponse req click_errTransactionNotFound, db)
     else case GetClickTransactionByID db transactionID of
        None \<Rightarrow> (errorResponse req click_errTransactionNotFound, db)
      | Some tx \<Rightarrow>
     let db = oth ''complete.GetClickTransactionByID'' db in
     (case cc_parse_uuid c (cq_merchant_trans_id req) of
        None \<Rightarrow> (errorResponse req click_errAccountNotFound, db)
      | Some paymentID \<Rightarrow>
     if paymentID \<noteq> ct_payment tx then (errorResponse req click_errAccountNotFound, db)
     else if flt e ''complete'' ''GetPaymentForPayme'' then (errorResponse req click_errAccountNotFound, db)
     else case GetPaymentForPayme db paymentID of
        None \<Rightarrow> (errorResponse req click_errAccountNotFound, db)
      | Some payment \<Rightarrow>
     let db = oth ''complete.GetPaymentForPayme'' db in
     if p_status payment = Paid then (errorResponse req errAlreadyPaid, db)
     else if ct_state tx = -1 then (errorResponse req errCancelled, db)
     else if p_status payment \<noteq> Pending then (errorResponse req click_errAccountNotFound, db)
     else if amount_differs (cc_parse_float c) (cq_amount req) (ct_amount tx)
     then (errorResponse req click_errAmount, db)
     else if atoi_value (cq_error req) < 0 then
       (case rejectTransaction transactionID paymentID (cq_error_note req) e db of
          (Inl _, db1) \<Rightarrow> (errorResponse req errBadRequest, db1)
        | (Inr _, db1) \<Rightarrow> (errorResponse req errCancelled, db1))
     else
       (case confirmAndGrant transactionID paymentID e db of
          (Inl _, db1) \<Rightarrow> (errorResponse req errBadRequest, db1)
        | (Inr _, db1) \<Rightarrow>
           (\<lparr>cs_trans_id = cq_trans_id req, cs_merchant_trans_id = cq_merchant_trans_id req,
             cs_merchant_prepare_id = '''', cs_merchant_confirm_id = cc_uuid_str c transactionID,
             cs_error = errSuccess, cs_error_note = errorNotes errSuccess\<rparr>, db1))))"

text \<open>The transport: \<open>None\<close> is the 405 answer, every other answer is HTTP 200.\<close>

definition click_ServeHTTP ::
  "click_cfg \<Rightarrow> interference \<Rightarrow> env \<Rightarrow> click_http \<Rightarrow> billing_db \<Rightarrow> clickResponse option \<times> billing_db" where
  "click_ServeHTTP c oth e r db =
     (if hc_method r \<noteq> ''POST'' then (None, db)
      else let (req, ok) = parseClickRequest r in
      if \<not> ok \<or> \<not> requiredFieldsPresent req then (Some (errorResponse req errBadRequest), db)
      else if \<not> validSign (cc_md5_hex c) req (cc_service_id c) (cc_secret_key c)
      then (Some (errorResponse req errSignFailed), db)
      else if cq_action req = ''0'' then map_prod Some id (prepare c oth e req db)
      else if cq_action req = ''1'' then map_prod Some id (complete c oth e req db)
      else (Some (errorResponse req errAction), db))"

end
