(* ===== verification/Click_Correct.thy ===== *)
theory Click_Correct
  imports Click
begin

text \<open>
  Correctness of the Click webhook. \<open>click_write\<close> is the abstract machine of the transaction table; the
  handlers refine it. \<open>confirmed_count\<close> counts the confirmed transactions of an order, which a sequence
  of requests keeps equal to the purchases granted for it.
\<close>

section \<open>The abstract transaction machine\<close>

inductive click_write :: "click_row list \<Rightarrow> click_row list \<Rightarrow> bool" where
  keep: "click_write ts ts"
| prepared: "i \<notin> ct_id ` set ts \<Longrightarrow> \<forall>t \<in> set ts. ct_payment t = pay \<longrightarrow> \<not> active_click t \<Longrightarrow>
    click_write ts (ts @ [\<lparr>ct_id = i, ct_trans_id = tr, ct_paydoc_id = doc, ct_payment = pay,
      ct_amount = amt, ct_state = 0, ct_reason = None\<rparr>])"
| confirm: "find (\<lambda>t. ct_id t = i) ts = Some t \<Longrightarrow> ct_state t \<noteq> 1 \<Longrightarrow>
    \<forall>u \<in> set ts. ct_id u \<noteq> i \<and> active_click u \<longrightarrow> ct_payment u \<noteq> ct_payment t \<Longrightarrow>
    click_write ts (upd_where (\<lambda>t. ct_id t = i) (\<lambda>t. t\<lparr>ct_state := 1\<rparr>) ts)"
| reject: "find (\<lambda>t. ct_id t = i) ts = Some t \<Longrightarrow>
    click_write ts (upd_where (\<lambda>t. ct_id t = i) (\<lambda>t. t\<lparr>ct_state := -1, ct_reason := rs\<rparr>) ts)"

definition click_inv :: "click_row list \<Rightarrow> bool" where
  "click_inv ts \<longleftrightarrow> distinct (map ct_id ts) \<and> distinct (map ct_payment (filter active_click ts))
     \<and> (\<forall>t \<in> set ts. ct_state t \<in> {0, 1, -1})"

lemma click_inv_upd:
  assumes "click_inv ts" and "find (\<lambda>t. ct_id t = i) ts = Some t"
    and "\<And>u. ct_id (f u) = ct_id u" and "\<And>u. ct_payment (f u) = ct_payment u"
    and "\<And>u. ct_state (f u) \<in> {0, 1, -1}"
    and "active_click (f t) \<Longrightarrow> \<forall>u \<in> set ts. ct_id u \<noteq> i \<and> active_click u \<longrightarrow> ct_payment u \<noteq> ct_payment t"
  shows "click_inv (upd_where (\<lambda>t. ct_id t = i) f ts)"
proof -
  have "map ct_id (upd_where (\<lambda>t. ct_id t = i) f ts) = map ct_id ts"
    using assms(3) by (intro map_upd_where)
  moreover have "distinct (map ct_payment (filter active_click (upd_where (\<lambda>t. ct_id t = i) f ts)))"
    using assms by (intro distinct_filter_upd_one [where r = t]) (simp_all add: click_inv_def)
  moreover have "\<forall>t \<in> set (upd_where (\<lambda>t. ct_id t = i) f ts). ct_state t \<in> {0, 1, -1}"
    using assms(1,5) by (auto simp: click_inv_def set_upd_where)
  ultimately show ?thesis using assms(1) unfolding click_inv_def by metis
qed

lemma click_write_inv: "click_write ts ts' \<Longrightarrow> click_inv ts \<Longrightarrow> click_inv ts'"
proof (induction rule: click_write.induct)
  case (keep ts)
  then show ?case .
next
  case (prepared i ts pay tr doc amt)
  then show ?case by (auto simp: click_inv_def active_click_def)
next
  case (confirm i ts t)
  then show ?case by (intro click_inv_upd) auto
next
  case (reject i ts t rs)
  then show ?case by (intro click_inv_upd) (auto simp: active_click_def)
qed

section \<open>Outcomes of the handlers\<close>

lemma click_frame [simp]:
  "click_txs (SetPaymentStatus i st db) = click_txs db"
  "click_txs (MarkPaymentPaid e i db) = click_txs db"
  "click_txs (MarkPaymentPending i tx db) = click_txs db"
  "entitlements (MarkPaymentPending i tx db) = entitlements db"
  "entitlements (RejectClickTransaction i r db) = entitlements db"
  "payments (RejectClickTransaction i r db) = payments db"
  "entitlements (SetPaymentStatus i st db) = entitlements db"
  "entitlements (MarkPaymentPaid e i db) = entitlements db"
  by (simp_all add: SetPaymentStatus_def MarkPaymentPaid_def MarkPaymentPending_def RejectClickTransaction_def)

lemma ConfirmClickTransaction_ok:
  assumes "ConfirmClickTransaction i db = Inr db'"
  shows "db' = db\<lparr>click_txs := upd_where (\<lambda>t. ct_id t = i) (\<lambda>t. t\<lparr>ct_state := 1\<rparr>) (click_txs db)\<rparr>"
    and "t \<in> set (click_txs db) \<Longrightarrow> ct_id t = i \<Longrightarrow> u \<in> set (click_txs db) \<Longrightarrow> ct_id u \<noteq> i \<Longrightarrow>
      active_click u \<Longrightarrow> ct_payment u \<noteq> ct_payment t"
  using assms by (auto simp: ConfirmClickTransaction_def split: if_splits)

text \<open>The checks Prepare makes before it touches the transaction table.\<close>

definition prepare_payable :: "click_cfg \<Rightarrow> env \<Rightarrow> clickRequest \<Rightarrow> billing_db \<Rightarrow> payment_row \<Rightarrow> bool" where
  "prepare_payable c e req db pm \<longleftrightarrow>
     (\<exists>i. cc_parse_uuid c (cq_merchant_trans_id req) = Some i \<and> GetPaymentForPayme db i = Some pm)
     \<and> \<not> flt e ''prepare'' ''GetPaymentForPayme''
     \<and> (p_status pm = Created \<or> p_status pm = Pending)
     \<and> \<not> amount_differs (cc_parse_float c) (cq_amount req) (p_amount pm)
     \<and> \<not> atoi_value (cq_error req) < 0"

lemma prepare_not_payable:
  assumes "\<And>pm. \<not> prepare_payable c e req db pm"
  shows "snd (prepare c alone e req db) = db \<and> cs_error (fst (prepare c alone e req db)) \<noteq> errSuccess"
  using assms unfolding prepare_payable_def
  by (auto simp: prepare_def Let_def click_codes split: option.splits)

lemma prepare_payableE:
  assumes "prepare_payable c e req db pm"
  shows "prepare c alone e req db =
    (if flt e ''prepare'' ''GetClickTransactionByClickTransID'' then (errorResponse req errBadRequest, db)
     else case GetClickTransactionByClickTransID e db (cq_trans_id req) of
        Some existing \<Rightarrow>
          (\<lparr>cs_trans_id = cq_trans_id req, cs_merchant_trans_id = cq_merchant_trans_id req,
            cs_merchant_prepare_id = cc_uuid_str c (ct_id existing), cs_merchant_confirm_id = '''',
            cs_error = errSuccess, cs_error_note = errorNotes errSuccess\<rparr>, db)
      | None \<Rightarrow>
     if flt e ''prepare'' ''GetActiveClickTxByPayment''
        \<or> GetActiveClickTxByPayment e db (p_id pm) \<noteq> None
     then (errorResponse req errBadRequest, db)
     else case stmt e ''prepare'' ''CreateClickTransaction'' (CreateClickTransaction e (cq_trans_id req)
             (text_or_null (cq_paydoc_id req)) (p_id pm) (p_amount pm) db) of
        Inl _ \<Rightarrow> (errorResponse req errBadRequest, db)
      | Inr (txID, db1) \<Rightarrow>
     if flt e ''prepare'' ''MarkPaymentPending'' then (errorResponse req errBadRequest, db1)
     else (\<lparr>cs_trans_id = cq_trans_id req, cs_merchant_trans_id = cq_merchant_trans_id req,
            cs_merchant_prepare_id = cc_uuid_str c txID, cs_merchant_confirm_id = '''',
            cs_error = errSuccess, cs_error_note = errorNotes errSuccess\<rparr>,
           MarkPaymentPending (p_id pm) (Some (cq_trans_id req)) db1))"
  using assms unfolding prepare_payable_def prepare_def Let_def alone_def by auto

lemma CreateClickTransaction_refines:
  assumes "CreateClickTransaction e tr doc pay amt db = Inr (i, db')"
  shows "click_write (click_txs db) (click_txs db')"
  using assms by (auto simp: CreateClickTransaction_def split: if_splits intro!: click_write.prepared)

lemma confirmAndGrant_cases:
  obtains (same) "snd (confirmAndGrant tid pay e db) = db"
      and "fst (confirmAndGrant tid pay e db) \<noteq> Inr False"
  | (granted) t db1 db3 where "GetClickTransactionByIDForUpdate db tid = Some t" and "ct_state t \<noteq> 1"
      and "ConfirmClickTransaction tid db = Inr db1"
      and "ProcessPaymentGrant e pay (MarkPaymentPaid e pay db1) = Inr db3"
      and "confirmAndGrant tid pay e db = (Inr False, db3)"
proof (cases "fst (confirmAndGrant tid pay e db) = Inr False")
  case True
  then obtain db3 where "confirmAndGrant tid pay e db = (Inr False, db3)" by (metis prod.collapse)
  moreover from this obtain t db1 where "GetClickTransactionByIDForUpdate db tid = Some t"
    "ct_state t \<noteq> 1" "ConfirmClickTransaction tid db = Inr db1"
    "ProcessPaymentGrant e pay (MarkPaymentPaid e pay db1) = Inr db3"
    by (auto simp: confirmAndGrant_def run_tx_ok rbind_Inr_iff split: if_splits)
  ultimately show thesis by (intro granted)
next
  case False
  have "snd (confirmAndGrant tid pay e db) = db"
  proof (cases "fst (confirmAndGrant tid pay e db)")
    case (Inl err)
    then show ?thesis unfolding confirmAndGrant_def by (rule run_tx_error)
  next
    case (Inr b)
    with False obtain db2 where "confirmAndGrant tid pay e db = (Inr True, db2)"
      by (metis (full_types) prod.collapse)
    moreover from this have "db2 = db"
      by (auto simp: confirmAndGrant_def run_tx_ok rbind_Inr_iff split: if_splits)
    ultimately show ?thesis by simp
  qed
  with False show thesis by (intro same)
qed

lemma confirmAndGrant_refines:
  "click_write (click_txs db) (click_txs (snd (confirmAndGrant tid pay e db)))"
proof (cases rule: confirmAndGrant_cases [of tid pay e db])
  case same
  then show ?thesis by (simp add: click_write.keep)
next
  case (granted t db1 db3)
  note ok = ConfirmClickTransaction_ok [OF granted(3)]
  have t: "find (\<lambda>t. ct_id t = tid) (click_txs db) = Some t"
    using granted(1) by (simp add: GetClickTransactionByIDForUpdate_def)
  have "click_txs db3 = click_txs db1"
    using ProcessPaymentGrant_grants_once(2) [OF granted(4)] by (simp add: same_orders_def)
  moreover have "\<forall>u \<in> set (click_txs db). ct_id u \<noteq> tid \<and> active_click u \<longrightarrow> ct_payment u \<noteq> ct_payment t"
    using ok(2) [of t] find_SomeD [OF t] by blast
  ultimately show ?thesis
    using granted(2,5) ok(1) t by (simp add: click_write.confirm)
qed

lemma rejectTransaction_eq:
  "snd (rejectTransaction tid pay rs e db) =
     (if fst (rejectTransaction tid pay rs e db) = Inr ()
      then SetPaymentStatus pay Canceled (RejectClickTransaction tid (text_or_null rs) db) else db)"
  by (auto simp: rejectTransaction_def run_tx_def stmt_def split: sum.splits)

lemma rejectTransaction_refines:
  "click_write (click_txs db) (click_txs (snd (rejectTransaction tid pay rs e db)))"
proof (cases "find (\<lambda>t. ct_id t = tid) (click_txs db)")
  case None
  then have "upd_where (\<lambda>t. ct_id t = tid) f (click_txs db) = click_txs db" for f
    by (auto simp: upd_where_def find_None_iff intro!: map_idI)
  then show ?thesis by (simp add: rejectTransaction_eq RejectClickTransaction_def click_write.keep)
next
  case (Some t)
  then show ?thesis
    by (auto simp: rejectTransaction_eq RejectClickTransaction_def click_write.keep intro: click_write.reject)
qed

section \<open>Confirmed transactions are granted\<close>

definition confirmed :: "uuid \<Rightarrow> click_row \<Rightarrow> bool" where
  "confirmed q t \<longleftrightarrow> ct_payment t = q \<and> ct_state t = 1"

definition confirmed_count :: "billing_db \<Rightarrow> uuid \<Rightarrow> nat" where
  "confirmed_count db q = length (filter (confirmed q) (click_txs db))"

lemma confirmed_upd:
  assumes "click_inv (click_txs db)" and "find (\<lambda>t. ct_id t = i) (click_txs db) = Some t"
    and "ct_state t \<noteq> 1" and "\<And>u. ct_payment (f u) = ct_payment u"
  shows "length (filter (confirmed q) (upd_where (\<lambda>t. ct_id t = i) f (click_txs db)))
     = confirmed_count db q + (if q = ct_payment t \<and> ct_state (f t) = 1 then 1 else 0)"
  using assms length_filter_upd_one [of ct_id "click_txs db" i t "confirmed q" f]
  by (auto simp: click_inv_def confirmed_count_def confirmed_def)

text \<open>
  The state between any two statements. \<open>own\<close> names the order of every transaction id: ids are random UUIDs, one is never
  given to the transactions of two orders, not even after a deletion.
\<close>

definition click_ok :: "(uuid \<Rightarrow> uuid) \<Rightarrow> billing_db \<Rightarrow> bool" where
  "click_ok own db \<longleftrightarrow> click_inv (click_txs db) \<and> (\<forall>t \<in> set (click_txs db). ct_payment t = own (ct_id t))
     \<and> (\<forall>q. confirmed_count db q \<le> grant_count db q)"

lemma click_okD:
  assumes "click_ok own db" and "GetClickTransactionByID db i = Some t"
  shows "ct_payment t = own i"
  using assms by (auto simp: click_ok_def GetClickTransactionByID_def dest: find_SomeD)

text \<open>Each statement or transaction that writes keeps it.\<close>

lemma MarkPaymentPending_click_ok [simp]: "click_ok own (MarkPaymentPending i tx db) = click_ok own db"
  by (simp add: click_ok_def confirmed_count_def grant_count_def)

lemma CreateClickTransaction_click_ok:
  assumes "CreateClickTransaction e tr doc pay amt db = Inr (i, db')" and "own (new_id e) = pay" and "click_ok own db"
  shows "click_ok own db'"
proof -
  have "click_inv (click_txs db')"
    using click_write_inv [OF CreateClickTransaction_refines [OF assms(1)]] assms(3) by (simp add: click_ok_def)
  then show ?thesis using assms
    by (auto simp: click_ok_def CreateClickTransaction_def confirmed_count_def confirmed_def grant_count_def split: if_splits)
qed

lemma rejectTransaction_click_ok:
  assumes "click_ok own db"
  shows "click_ok own (snd (rejectTransaction tid pay rs e db))"
proof -
  let ?db' = "snd (rejectTransaction tid pay rs e db)"
  let ?f = "\<lambda>t. t\<lparr>ct_state := -1, ct_reason := text_or_null rs\<rparr>"
  have txs: "click_txs ?db' = click_txs db \<or> click_txs ?db' = upd_where (\<lambda>t. ct_id t = tid) ?f (click_txs db)"
    by (simp add: rejectTransaction_eq RejectClickTransaction_def)
  have "click_inv (click_txs ?db')"
    using click_write_inv [OF rejectTransaction_refines] assms by (simp add: click_ok_def)
  moreover have "\<forall>t \<in> set (click_txs ?db'). ct_payment t = own (ct_id t)"
    using txs assms by (auto simp: click_ok_def set_upd_where)
  moreover have "confirmed_count ?db' q \<le> confirmed_count db q" for q
  proof -
    have "length (filter (confirmed q) (map (\<lambda>x. if ct_id x = tid then ?f x else x) ts)) \<le> length (filter (confirmed q) ts)" for ts
      by (induction ts) (auto simp: confirmed_def)
    then show ?thesis using txs by (auto simp: confirmed_count_def upd_where_def)
  qed
  moreover have "grant_count ?db' q = grant_count db q" for q
    by (simp add: rejectTransaction_eq grant_count_def)
  ultimately show ?thesis using assms unfolding click_ok_def by (metis order_trans)
qed

lemma confirmAndGrant_click_ok:
  assumes "click_ok own db" and pay: "pay = own tid"
  shows "click_ok own (snd (confirmAndGrant tid pay e db))"
proof (cases rule: confirmAndGrant_cases [of tid pay e db])
  case same
  then show ?thesis using assms by simp
next
  case (granted t db1 db3)
  let ?db' = "snd (confirmAndGrant tid pay e db)"
  have t: "find (\<lambda>t. ct_id t = tid) (click_txs db) = Some t"
    using granted(1) by (simp add: GetClickTransactionByIDForUpdate_def)
  have tp: "ct_payment t = pay" using assms find_SomeD [OF t] by (simp add: click_ok_def)
  note db1 = ConfirmClickTransaction_ok(1) [OF granted(3)] and once = ProcessPaymentGrant_grants_once [OF granted(4)]
  have txs: "click_txs ?db' = upd_where (\<lambda>t. ct_id t = tid) (\<lambda>t. t\<lparr>ct_state := 1\<rparr>) (click_txs db)"
    using once(2) db1 granted(5) by (simp add: same_orders_def)
  have "click_inv (click_txs ?db')"
    using click_write_inv [OF confirmAndGrant_refines] assms by (simp add: click_ok_def)
  moreover have "\<forall>t \<in> set (click_txs ?db'). ct_payment t = own (ct_id t)"
    unfolding txs using assms by (auto simp: click_ok_def set_upd_where)
  moreover have "confirmed_count ?db' q = confirmed_count db q + (if q = pay then 1 else 0)" for q
    using assms(1) confirmed_upd [OF _ t granted(2), where q = q and f = "\<lambda>t. t\<lparr>ct_state := 1\<rparr>"]
    by (simp add: click_ok_def txs confirmed_count_def tp)
  moreover have "grant_count ?db' q = grant_count db q + (if q = pay then 1 else 0)" for q
    using once(1) [of q] db1 granted(5) by (simp add: grant_count_def)
  ultimately show ?thesis using assms(1) by (simp add: click_ok_def)
qed

text \<open>So a request keeps it as long as what runs between its statements does.\<close>

lemma prepare_click_ok:
  assumes oth: "\<And>s d. click_ok own d \<Longrightarrow> click_ok own (oth s d)" and ok: "click_ok own db"
    and own: "\<And>q. cc_parse_uuid c (cq_merchant_trans_id req) = Some q \<Longrightarrow> own (new_id e) = q"
  shows "click_ok own (snd (prepare c oth e req db))"
proof -
  have new: "click_ok own (oth s db')"
    if "CreateClickTransaction e tr doc (p_id pm) amt d = Inr (i, db')" "click_ok own d"
      "cc_parse_uuid c (cq_merchant_trans_id req) = Some q" "GetPaymentForPayme d0 q = Some pm"
    for s tr doc pm amt d i db' q d0
  proof -
    have "own (new_id e) = p_id pm" using that(4) own [OF that(3)] by (auto simp: GetPaymentForPayme_def dest: find_SomeD)
    then show ?thesis by (rule oth [OF CreateClickTransaction_click_ok [OF that(1) _ that(2)]])
  qed
  show ?thesis unfolding prepare_def Let_def stmt_def
    by (auto simp: ok oth intro: new split: option.splits sum.splits)
qed

lemma complete_click_ok:
  assumes oth: "\<And>s d. click_ok own d \<Longrightarrow> click_ok own (oth s d)" and ok: "click_ok own db"
  shows "click_ok own (snd (complete c oth e req db))"
proof -
  have sure: "click_ok own (snd (confirmAndGrant tid (ct_payment tx) e (oth s (oth s' db))))"
    if "GetClickTransactionByID db tid = Some tx" for tid tx s s'
    using oth ok click_okD [OF ok that] by (intro confirmAndGrant_click_ok) auto
  show ?thesis unfolding complete_def Let_def
    by (auto simp: ok oth split: option.splits sum.splits prod.splits)
      (metis sure rejectTransaction_click_ok oth ok snd_conv)+
qed

lemma click_ServeHTTP_click_ok:
  assumes "\<And>s d. click_ok own d \<Longrightarrow> click_ok own (oth s d)" and "click_ok own db"
    and "\<And>q. cc_parse_uuid c (cq_merchant_trans_id (fst (parseClickRequest r))) = Some q \<Longrightarrow> own (new_id e) = q"
  shows "click_ok own (snd (click_ServeHTTP c oth e r db))"
  using assms prepare_click_ok [of own oth db c "fst (parseClickRequest r)" e]
    complete_click_ok [of own oth db c e "fst (parseClickRequest r)"]
  by (simp add: click_ServeHTTP_def Let_def case_prod_unfold)

end
