(* ===== verification/Click_Properties.thy ===== *)
theory Click_Properties
  imports Click_Correct Fixtures
begin

text \<open>
  What the Click webhook promises: exactly-once settlement, the invariant of its reachable states,
  the signature as the only way in, dead orders staying dead, and the replay of Prepare.
\<close>

section \<open>Fixtures\<close>

definition fx_cfg :: click_cfg where
  "fx_cfg = \<lparr>cc_parse_uuid = (\<lambda>s. Some (read_nat s)), cc_uuid_str = show_nat,
     cc_parse_float = (\<lambda>s. if s = ''NaN'' then Some NaN else if s = ''50000'' then Some (Fin 50000) else None),
     cc_md5_hex = (\<lambda>s. s), cc_service_id = ''77'', cc_secret_key = ''k''\<rparr>"

definition fx_prepare :: clickRequest where
  "fx_prepare = \<lparr>cq_trans_id = ''900'', cq_service_id = ''77'', cq_paydoc_id = ''5'',
     cq_merchant_trans_id = ''10'', cq_amount = ''50000'', cq_action = ''0'', cq_error = ''0'',
     cq_error_note = '''', cq_sign_time = ''t'', cq_sign_string = ''90077k10500000t'',
     cq_merchant_prepare_id = ''''\<rparr>"

definition fx_complete :: clickRequest where
  "fx_complete = fx_prepare\<lparr>cq_action := ''1'', cq_merchant_prepare_id := ''100'',
     cq_sign_string := ''90077k10100500001t''\<rparr>"

definition fx_post :: "clickRequest \<Rightarrow> click_http" where
  "fx_post q = \<lparr>hc_method = ''POST'', hc_form = None, hc_json = Some q\<rparr>"

definition fx_prepared :: billing_db where
  "fx_prepared = snd (prepare fx_cfg alone fx_env fx_prepare fx_db)"

definition fx_click_paid :: billing_db where
  "fx_click_paid = snd (complete fx_cfg alone fx_later fx_complete fx_prepared)"

lemma fx_post_prepare: "snd (click_ServeHTTP fx_cfg alone fx_env (fx_post fx_prepare) fx_db) = fx_prepared"
proof -
  have "validSign (cc_md5_hex fx_cfg) fx_prepare (cc_service_id fx_cfg) (cc_secret_key fx_cfg)"
    "requiredFieldsPresent fx_prepare" by code_simp+
  then show ?thesis
    by (simp add: click_ServeHTTP_def fx_post_def parseClickRequest_def fx_prepared_def)
      (simp add: fx_prepare_def)
qed

lemma fx_post_complete: "snd (click_ServeHTTP fx_cfg alone fx_later (fx_post fx_complete) fx_prepared) = fx_click_paid"
proof -
  have "validSign (cc_md5_hex fx_cfg) fx_complete (cc_service_id fx_cfg) (cc_secret_key fx_cfg)"
    "requiredFieldsPresent fx_complete" by code_simp+
  then show ?thesis
    by (simp add: click_ServeHTTP_def fx_post_def parseClickRequest_def fx_click_paid_def)
      (simp add: fx_complete_def)
qed

section \<open>Reachable states\<close>

text \<open>
  \<open>click_run own db db'\<close>: the service can take the database from \<open>db\<close> to \<open>db'\<close>. A step is a webhook request (any
  content, any faults, any clock), between whose statements the service may do whatever it may do, further requests
  included, to any depth; or something else of the service, which does not write the transaction table and may grant
  orders but takes no purchase back, or is the deletion of accounts, which erases the transactions of their orders \<open>P\<close>.
  \<open>own\<close> is the order each transaction id belongs to: a new id is one that belongs to the order of the request.
\<close>

inductive click_run :: "(uuid \<Rightarrow> uuid) \<Rightarrow> billing_db \<Rightarrow> billing_db \<Rightarrow> bool" for own where
  stop: "click_run own db db"
| webhook: "click_run own db d \<Longrightarrow> (\<And>s d. click_run own d (oth s d)) \<Longrightarrow>
    (\<And>q. cc_parse_uuid c (cq_merchant_trans_id (fst (parseClickRequest r))) = Some q \<Longrightarrow> own (new_id e) = q) \<Longrightarrow>
    click_run own db (snd (click_ServeHTTP c oth e r d))"
| other: "click_run own db d \<Longrightarrow> click_txs d' = filter (\<lambda>t. ct_payment t \<notin> P) (click_txs d) \<Longrightarrow>
    (\<And>q. q \<notin> P \<Longrightarrow> grant_count d q \<le> grant_count d' q) \<Longrightarrow> click_run own db d'"

lemma other_click_ok:
  assumes "click_ok own d" and txs: "click_txs d' = filter (\<lambda>t. ct_payment t \<notin> P) (click_txs d)"
    and grants: "\<And>q. q \<notin> P \<Longrightarrow> grant_count d q \<le> grant_count d' q"
  shows "click_ok own d'"
proof -
  have swap: "filter active_click (click_txs d') = filter (\<lambda>t. ct_payment t \<notin> P) (filter active_click (click_txs d))"
    by (simp add: txs conj_commute)
  have "distinct (map ct_payment (filter (\<lambda>t. ct_payment t \<notin> P) (filter active_click (click_txs d))))"
    using assms(1) by (simp add: click_ok_def click_inv_def distinct_map_filter del: filter_filter)
  then have "distinct (map ct_payment (filter active_click (click_txs d')))" by (simp only: swap)
  moreover have "distinct (map ct_id (click_txs d'))"
    using assms(1) by (simp add: txs click_ok_def click_inv_def distinct_map_filter)
  ultimately have "click_inv (click_txs d')"
    using assms(1) by (simp add: click_ok_def click_inv_def txs)
  moreover have "confirmed_count d' q = (if q \<in> P then 0 else confirmed_count d q)" for q
    by (auto simp: confirmed_count_def confirmed_def txs filter_empty_conv intro!: arg_cong [where f = length] filter_cong)
  ultimately show ?thesis using assms(1) grants by (auto simp: click_ok_def txs intro: order_trans)
qed

lemma click_run_ok: "click_run own db db' \<Longrightarrow> click_ok own db \<Longrightarrow> click_ok own db'"
proof (induction rule: click_run.induct)
  case (stop db)
  then show ?case .
next
  case (webhook db d oth c r e)
  then show ?case by (intro click_ServeHTTP_click_ok) simp_all
next
  case (other db d d' P)
  then show ?case by (intro other_click_ok [where d = d and d' = d']) simp_all
qed

text \<open>
  C6: start without Click transactions and let webhook requests, overlapping between any two of their statements, and
  the rest of the service run: transaction ids stay unique, an order has at most one transaction that is waiting or
  confirmed, every state is 0, 1 or -1, and the order of every confirmed transaction has its purchase. (The converse
  fails, see \<open>reject_after_confirm\<close>: an overlapping decline un-confirms a transaction whose purchase stays.)
\<close>

theorem click_run_invariant:
  assumes "click_run own db db'" and "click_txs db = []"
  shows "click_inv (click_txs db') \<and> confirmed_count db' q \<le> grant_count db' q"
proof -
  have "click_ok own db" using assms(2) by (simp add: click_ok_def click_inv_def confirmed_count_def)
  then show ?thesis using click_run_ok [OF assms(1)] by (simp add: click_ok_def)
qed

text \<open>Two Completes of one transaction, the second inside the first, after its last check.\<close>

definition fx_twice :: interference where
  "fx_twice s d = (if s = ''complete.GetPaymentForPayme''
     then snd (click_ServeHTTP fx_cfg alone fx_later (fx_post fx_complete) d) else d)"

definition fx_raced :: billing_db where
  "fx_raced = snd (click_ServeHTTP fx_cfg fx_twice fx_later (fx_post fx_complete) fx_prepared)"

lemma fx_alone_run: "click_run (\<lambda>_. 10) d (snd (click_ServeHTTP fx_cfg alone fx_later (fx_post fx_complete) d))"
proof (rule click_run.webhook [OF click_run.stop])
  show "click_run (\<lambda>_. 10) d (alone s d)" for s d by (simp add: click_run.stop)
  have "cc_parse_uuid fx_cfg (cq_merchant_trans_id (fst (parseClickRequest (fx_post fx_complete)))) = Some 10"
    by code_simp
  then show "10 = q" if "cc_parse_uuid fx_cfg (cq_merchant_trans_id (fst (parseClickRequest (fx_post fx_complete)))) = Some q" for q
    using that by simp
qed

lemma fx_raced_run: "click_run (\<lambda>_. 10) fx_db fx_raced"
proof -
  have parse: "cc_parse_uuid fx_cfg (cq_merchant_trans_id (fst (parseClickRequest (fx_post fx_complete)))) = Some 10"
    "cc_parse_uuid fx_cfg (cq_merchant_trans_id (fst (parseClickRequest (fx_post fx_prepare)))) = Some 10"
    by code_simp+
  have "click_run (\<lambda>_. 10) fx_db (snd (click_ServeHTTP fx_cfg alone fx_env (fx_post fx_prepare) fx_db))"
    by (rule click_run.webhook [OF click_run.stop]) (simp_all add: click_run.stop parse)
  then have "click_run (\<lambda>_. 10) fx_db fx_prepared" by (simp only: fx_post_prepare)
  then show ?thesis unfolding fx_raced_def
    by (rule click_run.webhook) (simp_all add: fx_twice_def fx_alone_run click_run.stop parse)
qed

theorem click_run_invariant_witness:
  "confirmed_count fx_raced 10 = 1 \<and> 0 < grant_count fx_raced 10"
proof -
  have "confirmed_count fx_raced 10 = 1" by code_simp
  moreover have "click_txs fx_db = []" by (simp add: fx_db_def empty_db_def)
  ultimately show ?thesis using click_run_invariant [OF fx_raced_run, of 10] by simp
qed

section \<open>Exactly-once settlement\<close>

definition click_settled :: "uuid \<Rightarrow> billing_db \<Rightarrow> bool" where
  "click_settled tid db \<longleftrightarrow> (case GetClickTransactionByID db tid of None \<Rightarrow> False | Some t \<Rightarrow> ct_state t = 1)"

lemma click_get_for_update: "GetClickTransactionByIDForUpdate = GetClickTransactionByID"
  by (intro ext) (simp add: GetClickTransactionByIDForUpdate_def GetClickTransactionByID_def)

lemma confirmed_found:
  assumes "GetClickTransactionByID db tid = Some t" and "ConfirmClickTransaction tid db = Inr db1"
    and "same_orders (MarkPaymentPaid e pay db1) db3"
  shows "GetClickTransactionByID db3 tid = Some (t\<lparr>ct_state := 1\<rparr>)"
  using assms ConfirmClickTransaction_ok(1) [OF assms(2)]
  by (auto simp: GetClickTransactionByID_def same_orders_def find_upd_where dest: find_SomeD)

interpretation click_confirm: settlement "confirmAndGrant tid pay" "click_settled tid" "\<lambda>db. grant_count db pay"
  for tid pay
proof unfold_locales
  fix db e
  show "snd (confirmAndGrant tid pay e db) = db" if "click_settled tid db"
  proof (cases rule: confirmAndGrant_cases [of tid pay e db])
    case (granted t db1 db3)
    then show ?thesis using that by (simp add: click_settled_def click_get_for_update)
  qed
  show "grant_count (snd (confirmAndGrant tid pay e db)) pay =
      grant_count db pay + (if click_settled tid (snd (confirmAndGrant tid pay e db)) then 1 else 0)"
    if "\<not> click_settled tid db"
  proof (cases rule: confirmAndGrant_cases [of tid pay e db])
    case same
    then show ?thesis using that by simp
  next
    case (granted t db1 db3)
    note once = ProcessPaymentGrant_grants_once [OF granted(4)]
    have "click_settled tid db3"
      using confirmed_found [OF _ granted(3) once(2)] granted(1)
      by (simp add: click_settled_def click_get_for_update)
    moreover have "grant_count db1 pay = grant_count db pay"
      using ConfirmClickTransaction_ok(1) [OF granted(3)] by (simp add: grant_count_def)
    ultimately show ?thesis
      using granted(5) once(1) [of pay] by (simp add: grant_count_def)
  qed
qed

definition reconfirm :: "uuid \<Rightarrow> uuid \<Rightarrow> env list \<Rightarrow> billing_db \<Rightarrow> billing_db" where
  "reconfirm tid pay es db = fold (\<lambda>e db. snd (confirmAndGrant tid pay e db)) es db"

lemma reconfirm_eq: "reconfirm tid pay es db = click_confirm.deliver tid pay es db"
  by (induction es arbitrary: db) (simp_all add: reconfirm_def)

text \<open>
  C7: concurrent or repeated confirmations of one Click transaction, serialised by its row lock in
  any order and failing at any statement, grant its order exactly once when the transaction ends up
  confirmed and not at all otherwise.
\<close>

theorem confirmAndGrant_exactly_once:
  assumes "GetClickTransactionByID db tid = Some t" and "ct_state t \<noteq> 1"
  shows "grant_count (reconfirm tid pay es db) pay = grant_count db pay
    + (if click_settled tid (reconfirm tid pay es db) then 1 else 0)"
  using assms click_confirm.deliver_grants [of tid db pay es]
  by (simp add: reconfirm_eq click_settled_def)

theorem confirmAndGrant_exactly_once_witness:
  "grant_count (reconfirm 100 10 [fx_env\<lparr>flt := (\<lambda>s q. q = ''Commit'')\<rparr>, fx_later, fx_env] fx_prepared) 10 = 1"
proof -
  have t: "GetClickTransactionByID fx_prepared 100 = Some \<lparr>ct_id = 100, ct_trans_id = ''900'',
    ct_paydoc_id = Some ''5'', ct_payment = 10, ct_amount = 50000, ct_state = 0, ct_reason = None\<rparr>" by code_simp
  have s: "click_settled 100 (reconfirm 100 10 [fx_env\<lparr>flt := (\<lambda>s q. q = ''Commit'')\<rparr>, fx_later, fx_env] fx_prepared)"
    by code_simp
  have "grant_count fx_prepared 10 = 0" by code_simp
  then show ?thesis using confirmAndGrant_exactly_once [OF t, of 10] s by simp
qed

section \<open>Guards\<close>

text \<open>
  A request whose signature is not the MD5 of its fields under the merchant secret, or that
  arrives while no secret is configured, changes nothing and is answered with -1 or -8.
\<close>

theorem click_unsigned_inert:
  assumes "hc_method r = ''POST''"
    and "cc_secret_key c = '''' \<or> cq_sign_string (fst (parseClickRequest r)) \<noteq>
      computeSign (cc_md5_hex c) (fst (parseClickRequest r)) (cc_service_id c) (cc_secret_key c)"
  shows "snd (click_ServeHTTP c alone e r db) = db \<and>
    (\<exists>a. fst (click_ServeHTTP c alone e r db) = Some a \<and> (cs_error a = -1 \<or> cs_error a = -8))"
  using assms by (auto simp: click_ServeHTTP_def Let_def validSign_def click_codes split: prod.splits)

theorem click_unsigned_inert_witness:
  "snd (click_ServeHTTP fx_cfg alone fx_later (fx_post (fx_complete\<lparr>cq_amount := ''1''\<rparr>)) fx_prepared) = fx_prepared"
proof -
  have m: "hc_method (fx_post (fx_complete\<lparr>cq_amount := ''1''\<rparr>)) = ''POST''" by (simp add: fx_post_def)
  have "cq_sign_string (fst (parseClickRequest (fx_post (fx_complete\<lparr>cq_amount := ''1''\<rparr>)))) \<noteq>
      computeSign (cc_md5_hex fx_cfg) (fst (parseClickRequest (fx_post (fx_complete\<lparr>cq_amount := ''1''\<rparr>))))
        (cc_service_id fx_cfg) (cc_secret_key fx_cfg)" by code_simp
  with click_unsigned_inert [OF m, of fx_cfg] show ?thesis by simp
qed

text \<open>
  An order that failed or was cancelled, refunded or voided stays dead: neither Prepare nor
  Complete changes anything for it or reports success, whatever the request says.
\<close>

theorem click_dead_order:
  assumes "cc_parse_uuid c (cq_merchant_trans_id req) = Some i" and "GetPaymentForPayme db i = Some pm"
    and "p_status pm \<in> {Failed, Canceled, Refunded, Voided}"
  shows "prepare c alone e req db = (errorResponse req (-5), db) \<and>
    snd (complete c alone e req db) = db \<and> cs_error (fst (complete c alone e req db)) \<in> {-5, -6, -9}"
proof -
  have "snd (complete c alone e req db) = db \<and> cs_error (fst (complete c alone e req db)) \<in> {-5, -6, -9}"
    using assms by (auto simp: complete_def Let_def click_codes split: option.splits)
  moreover have "prepare c alone e req db = (errorResponse req (-5), db)"
    using assms by (auto simp: prepare_def Let_def click_codes)
  ultimately show ?thesis by simp
qed

theorem click_dead_order_witness:
  "snd (complete fx_cfg alone fx_later fx_complete (SetPaymentStatus 10 Voided fx_prepared)) = SetPaymentStatus 10 Voided fx_prepared"
proof -
  have p: "cc_parse_uuid fx_cfg (cq_merchant_trans_id fx_complete) = Some 10"
    "GetPaymentForPayme (SetPaymentStatus 10 Voided fx_prepared) 10 =
       Some (fx_order\<lparr>p_status := Voided, p_provider_txn := Some ''900''\<rparr>)" by code_simp+
  show ?thesis using click_dead_order [OF p, of fx_later] by simp
qed

lemma prepare_success:
  assumes "prepare c alone e req db = (a, db1)" and "cs_error a = 0"
    and "\<And>t u. t \<in> set (click_txs db) \<Longrightarrow> u \<in> set (click_txs db) \<Longrightarrow>
      ct_trans_id t = cq_trans_id req \<Longrightarrow> ct_trans_id u = cq_trans_id req \<Longrightarrow> t = u"
  obtains t where "\<forall>e2. GetClickTransactionByClickTransID e2 db1 (cq_trans_id req) = Some t"
    and "a = \<lparr>cs_trans_id = cq_trans_id req, cs_merchant_trans_id = cq_merchant_trans_id req,
            cs_merchant_prepare_id = cc_uuid_str c (ct_id t), cs_merchant_confirm_id = '''',
            cs_error = errSuccess, cs_error_note = errorNotes errSuccess\<rparr>"
proof -
  obtain pm where pm: "prepare_payable c e req db pm"
    using prepare_not_payable [of c e req db] assms(1,2) by (auto simp: click_codes)
  note eq = assms(1) [unfolded prepare_payableE [OF pm]]
  show thesis
  proof (cases "GetClickTransactionByClickTransID e db (cq_trans_id req)")
    case (Some t)
    have a: "a = \<lparr>cs_trans_id = cq_trans_id req, cs_merchant_trans_id = cq_merchant_trans_id req,
            cs_merchant_prepare_id = cc_uuid_str c (ct_id t), cs_merchant_confirm_id = '''',
            cs_error = errSuccess, cs_error_note = errorNotes errSuccess\<rparr>" "db1 = db"
      using eq Some assms(2) by (auto simp: click_codes split: if_splits)
    have t: "t \<in> set (click_txs db)" "ct_trans_id t = cq_trans_id req"
      using Some by (auto simp: GetClickTransactionByClickTransID_def dest: select_one_in)
    have "GetClickTransactionByClickTransID e2 db (cq_trans_id req) = Some t" for e2
    proof -
      obtain u where u: "GetClickTransactionByClickTransID e2 db (cq_trans_id req) = Some u"
        using t by (cases "GetClickTransactionByClickTransID e2 db (cq_trans_id req)")
          (auto simp: GetClickTransactionByClickTransID_def filter_empty_conv)
      moreover have "u = t"
        using u t by (intro assms(3)) (auto simp: GetClickTransactionByClickTransID_def dest: select_one_in)
      ultimately show ?thesis by simp
    qed
    with a show thesis by (intro that [of t]) simp_all
  next
    case None
    then have none: "filter (\<lambda>t. ct_trans_id t = cq_trans_id req) (click_txs db) = []"
      by (simp add: GetClickTransactionByClickTransID_def)
    obtain txID db2 where cr: "CreateClickTransaction e (cq_trans_id req) (text_or_null (cq_paydoc_id req))
        (p_id pm) (p_amount pm) db = Inr (txID, db2)"
      and a: "a = \<lparr>cs_trans_id = cq_trans_id req, cs_merchant_trans_id = cq_merchant_trans_id req,
            cs_merchant_prepare_id = cc_uuid_str c txID, cs_merchant_confirm_id = '''',
            cs_error = errSuccess, cs_error_note = errorNotes errSuccess\<rparr>"
        "db1 = MarkPaymentPending (p_id pm) (Some (cq_trans_id req)) db2"
      using eq None assms(2) by (auto simp: click_codes split: if_splits sum.splits)
    from cr obtain t where t: "click_txs db2 = click_txs db @ [t]" "ct_id t = txID" "ct_trans_id t = cq_trans_id req"
      by (auto simp: CreateClickTransaction_def split: if_splits)
    have "GetClickTransactionByClickTransID e2 db1 (cq_trans_id req) = Some t" for e2
      using none t by (simp add: a(2) GetClickTransactionByClickTransID_def)
    with a t show thesis by (intro that [of t]) simp_all
  qed
qed

text \<open>
  A Prepare that succeeded is answered with the same merchant_prepare_id when it is repeated
  while its order is still payable, and the repetition changes nothing.
\<close>

theorem prepare_replay:
  assumes ok: "prepare c alone e req db = (a, db1)" "cs_error a = 0"
    and uniq: "\<forall>t \<in> set (click_txs db). \<forall>u \<in> set (click_txs db).
      ct_trans_id t = cq_trans_id req \<and> ct_trans_id u = cq_trans_id req \<longrightarrow> t = u"
    and again: "prepare_payable c e2 req db1 pm"
      "\<not> flt e2 ''prepare'' ''GetClickTransactionByClickTransID''"
  shows "prepare c alone e2 req db1 = (a, db1)"
proof -
  from uniq have u: "\<And>t u. t \<in> set (click_txs db) \<Longrightarrow> u \<in> set (click_txs db) \<Longrightarrow>
      ct_trans_id t = cq_trans_id req \<Longrightarrow> ct_trans_id u = cq_trans_id req \<Longrightarrow> t = u" by blast
  obtain t where "\<forall>e2. GetClickTransactionByClickTransID e2 db1 (cq_trans_id req) = Some t"
    and "a = \<lparr>cs_trans_id = cq_trans_id req, cs_merchant_trans_id = cq_merchant_trans_id req,
            cs_merchant_prepare_id = cc_uuid_str c (ct_id t), cs_merchant_confirm_id = '''',
            cs_error = errSuccess, cs_error_note = errorNotes errSuccess\<rparr>"
    using ok u by (rule prepare_success)
  then show ?thesis using again(2) by (simp add: prepare_payableE [OF again(1)])
qed

theorem prepare_replay_witness:
  "prepare fx_cfg alone fx_later fx_prepare fx_prepared =
    (fst (prepare fx_cfg alone fx_env fx_prepare fx_db), fx_prepared)"
proof -
  have p: "prepare fx_cfg alone fx_env fx_prepare fx_db = (fst (prepare fx_cfg alone fx_env fx_prepare fx_db), fx_prepared)"
    by (simp add: fx_prepared_def)
  have s: "cs_error (fst (prepare fx_cfg alone fx_env fx_prepare fx_db)) = 0"
    "\<forall>t \<in> set (click_txs fx_db). \<forall>u \<in> set (click_txs fx_db).
      ct_trans_id t = cq_trans_id fx_prepare \<and> ct_trans_id u = cq_trans_id fx_prepare \<longrightarrow> t = u" by code_simp+
  have g: "cc_parse_uuid fx_cfg (cq_merchant_trans_id fx_prepare) = Some 10"
    "GetPaymentForPayme fx_prepared 10 = Some (fx_order\<lparr>p_status := Pending, p_provider_txn := Some ''900''\<rparr>)"
    "\<not> amount_differs (cc_parse_float fx_cfg) (cq_amount fx_prepare) (p_amount (fx_order\<lparr>p_status := Pending, p_provider_txn := Some ''900''\<rparr>))"
    "\<not> atoi_value (cq_error fx_prepare) < 0" by code_simp+
  have "prepare_payable fx_cfg fx_later fx_prepare fx_prepared (fx_order\<lparr>p_status := Pending, p_provider_txn := Some ''900''\<rparr>)"
    using g by (simp add: prepare_payable_def fx_later_def fx_env_def)
  then show ?thesis
    by (rule prepare_replay [OF p s]) (simp add: fx_later_def fx_env_def)
qed

section \<open>What the checks let through\<close>

text \<open>
  The amount check compares with \<open>>\<close>, and no comparison with NaN holds: a parser that reads "NaN", as
  \<open>strconv.ParseFloat\<close> does, makes every order amount acceptable.
\<close>

lemma amount_nan_accepted: "pf s = Some NaN \<Longrightarrow> \<not> amount_differs pf s want"
  by (simp add: amount_differs_def f64_abs.simps)

lemma prepare_accepts_nan:
  "cs_error (fst (prepare fx_cfg alone fx_env (fx_prepare\<lparr>cq_amount := ''NaN''\<rparr>) fx_db)) = 0"
  by code_simp

text \<open>
  \<open>rejectTransaction\<close> re-reads nothing under a lock: run after a concurrent Complete has confirmed the
  same transaction, it cancels an order whose purchase has been granted.
\<close>

lemma reject_after_confirm:
  "map ct_state (click_txs (snd (rejectTransaction 100 10 '''' fx_later fx_click_paid))) = [-1]
   \<and> map p_status (payments (snd (rejectTransaction 100 10 '''' fx_later fx_click_paid))) = [Canceled]
   \<and> grant_count (snd (rejectTransaction 100 10 '''' fx_later fx_click_paid)) 10 = 1"
  by code_simp

text \<open>
  The same by two overlapping webhook requests: a decline whose checks are done when a Complete of the same transaction
  runs.
\<close>

lemma decline_overtaken_by_complete:
  "map ct_state (click_txs (snd (complete fx_cfg fx_twice fx_later (fx_complete\<lparr>cq_error := ''-1''\<rparr>) fx_prepared))) = [-1]
   \<and> grant_count (snd (complete fx_cfg fx_twice fx_later (fx_complete\<lparr>cq_error := ''-1''\<rparr>) fx_prepared)) 10 = 1"
  by code_simp

end
