(* ===== verification/Promo_Properties.thy ===== *)
theory Promo_Properties
  imports Settlement Fixtures
begin

text \<open>
  What the promo code rules promise: prices stay inside the list price, pro-rating is proportional and
  never grants more than was paid for, the proration note survives its round trip, and the usage
  limits of a code hold after every completed payment.
\<close>

section \<open>Prices\<close>

text \<open>
  Validating a promo code against a tariff never prices it below zero or above the list price, and
  the discount shown and the amount charged add up to the list price.
\<close>

theorem evaluatePromo_amounts:
  assumes ev: "evaluatePromo e promo prof tc db = Inr r"
    and t: "GetActiveTariffByCode db tc = Some t" "0 \<le> tf_price t"
    and v: "0 < pc_value promo" "tf_price t * pc_value promo < 2 ^ 63"
  shows "vr_original r = tf_price t \<and> 0 \<le> vr_discount r \<and> 0 \<le> vr_final r
    \<and> vr_final r \<le> vr_original r \<and> vr_discount r + vr_final r = vr_original r
    \<and> (pc_kind promo = Days \<longrightarrow> vr_final r = 0 \<and> vr_bonus_days r = pc_value promo)"
proof -
  from ev obtain t' where t': "GetActiveTariffByCode db tc = Some t'" "vr_original r = tf_price t'"
    "vr_discount r = fst (promo_discount (pc_kind promo) (pc_value promo) (tf_price t'))"
    "vr_bonus_days r = snd (promo_discount (pc_kind promo) (pc_value promo) (tf_price t'))"
    "vr_final r = (let d = wrap64 (tf_price t' - vr_discount r) in if d < 0 then 0 else d)"
    by (rule evaluatePromo_split)
  have [simp]: "t' = t" using t t' by simp
  note b = promo_discount_bounds [OF t(2) v, of "pc_kind promo"]
  have "tf_price t \<le> tf_price t * pc_value promo" using t(2) v(1) by (simp add: mult_le_cancel_left1)
  then have "tf_price t < 2 ^ 63" using v(2) by linarith
  then have "wrap64 (tf_price t - vr_discount r) = tf_price t - vr_discount r"
    using b t'(3) by (intro wrap64_id int64_rangeI) simp_all
  with t' b show ?thesis by (auto simp: Let_def promo_discount_def split: promo_kind.splits)
qed

theorem evaluatePromo_amounts_witness:
  "\<exists>r. evaluatePromo fx_env fx_promo 1 ''m1'' fx_db = Inr r \<and> vr_final r = 40000 \<and> vr_discount r + vr_final r = vr_original r"
proof -
  have ev: "evaluatePromo fx_env fx_promo 1 ''m1'' fx_db = Inr \<lparr>vr_promo_id = 7, vr_code = ''SPRING'',
    vr_kind = Percent, vr_value = 20, vr_discount = 10000, vr_original = 50000, vr_final = 40000, vr_bonus_days = 0\<rparr>"
    by code_simp
  have t: "GetActiveTariffByCode fx_db ''m1'' = Some \<lparr>tf_id = 5, tf_code = ''m1'', tf_days = 30, tf_price = 50000, tf_active = True\<rparr>"
    by code_simp
  show ?thesis using evaluatePromo_amounts [OF ev t] ev by (simp add: fx_promo_def)
qed

section \<open>Pro-rating\<close>

text \<open>
  C9: a payment below the list price whose code is no longer redeemable is worth at least one day and
  at most the tariff's days, no more than its share of the price (or the one-day minimum), and less
  than one day short of that share; a payment of the full list price is worth the full term.
\<close>

theorem proRatedDays_fair:
  assumes "0 \<le> paid" and "0 < days" and "days * paid < 2 ^ 63" and "0 < lst"
  shows "1 \<le> proRatedDays paid lst days \<and> proRatedDays paid lst days \<le> days
    \<and> (lst \<le> paid \<longrightarrow> proRatedDays paid lst days = days)
    \<and> (paid < lst \<longrightarrow> (proRatedDays paid lst days * lst \<le> days * paid \<or> proRatedDays paid lst days = 1)
        \<and> days * paid < (proRatedDays paid lst days + 1) * lst)"
proof (cases "lst \<le> paid")
  case True
  then show ?thesis using assms by (simp add: proRatedDays_cases)
next
  case False
  let ?q = "days * paid div lst"
  have eq: "proRatedDays paid lst days = max 1 ?q" using False assms by (simp add: proRatedDays_cases)
  have "days * paid \<le> days * lst" using False assms by simp
  then have "?q \<le> days" using assms(4) by (metis zdiv_mono1 nonzero_mult_div_cancel_right less_irrefl)
  moreover have "?q * lst + days * paid mod lst = days * paid" by (rule div_mult_mod_eq)
  moreover have "0 \<le> days * paid mod lst" "days * paid mod lst < lst" using assms(4) by simp_all
  ultimately have b: "?q \<le> days" "?q * lst \<le> days * paid" "days * paid < ?q * lst + lst" by linarith+
  have "?q * lst \<le> max 1 ?q * lst" using assms(4) by (intro mult_right_mono) simp_all
  then have "days * paid < (max 1 ?q + 1) * lst" using b(3) by (simp add: distrib_right)
  with b False assms show ?thesis by (auto simp: eq max_def)
qed

theorem proRatedDays_fair_witness: "proRatedDays 40000 50000 30 = 24 \<and> 24 * 50000 \<le> (30 * 40000 :: int)"
proof -
  have "proRatedDays 40000 50000 30 = 24" by code_simp
  then show ?thesis using proRatedDays_fair [of 40000 30 50000] by simp
qed

section \<open>The proration note\<close>

lemma splitNoteFields_append:
  "splitNoteFields_from cur (s @ CHR ''|'' # t) = splitNoteFields_from cur s @ splitNoteFields_from [] t"
  by (induction s arbitrary: cur) auto

lemma note_field_key:
  "CHR ''='' \<notin> set k \<Longrightarrow> note_field (k @ CHR ''='' # v) info =
     (if k = ''cause'' then info\<lparr>pi_reason := v\<rparr>
      else if k = ''granted'' then (case scan_d v of None \<Rightarrow> info | Some n \<Rightarrow> info\<lparr>pi_granted := n\<rparr>)
      else if k = ''tariff'' then (case scan_d v of None \<Rightarrow> info | Some n \<Rightarrow> info\<lparr>pi_tariff := n\<rparr>)
      else info)"
  by (simp add: note_field_def cutField_key)

lemma promoCauseCode_no_sep: "CHR ''|'' \<notin> set (promoCauseCode err)"
  by (simp add: promoCauseCode_def)

text \<open>
  C10: the note recorded with a pro-rated grant is parsed back to the days granted, the days of the
  tariff and the reason, for every promo code, whatever characters it contains.
\<close>

theorem proration_note_roundtrip:
  assumes "1 \<le> granted" and "granted < 2 ^ 63" and "1 \<le> tariff" and "tariff < 2 ^ 63"
  shows "ParseProrationNote (formatPromoProratedNote code (promoCauseCode err) granted tariff paid lst)
    = Some \<lparr>pi_granted = granted, pi_tariff = tariff, pi_reason = promoCauseCode err\<rparr>"
proof -
  let ?c = "promoCauseCode err" and ?p = promoProratedNotePrefix
  let ?body = "''code='' @ code @ ''|cause='' @ ?c @ ''|granted='' @ show_int granted
       @ ''|tariff='' @ show_int tariff @ ''|paid='' @ show_int paid @ ''|list='' @ show_int lst"
  obtain pre where pre: "splitNoteFields ?body = pre @ [''cause='' @ ?c, ''granted='' @ show_int granted,
      ''tariff='' @ show_int tariff, ''paid='' @ show_int paid, ''list='' @ show_int lst]"
  proof -
    have "splitNoteFields ?body = splitNoteFields_from [] (''code='' @ code) @
      splitNoteFields_from [] ((''cause='' @ ?c) @ CHR ''|'' # (''granted='' @ show_int granted) @ CHR ''|'' #
        (''tariff='' @ show_int tariff) @ CHR ''|'' # (''paid='' @ show_int paid) @ CHR ''|'' # (''list='' @ show_int lst))"
      using splitNoteFields_append [of "[]" "''code='' @ code"] by (simp add: splitNoteFields_def)
    also have "splitNoteFields_from [] ((''cause='' @ ?c) @ CHR ''|'' # (''granted='' @ show_int granted) @ CHR ''|'' #
        (''tariff='' @ show_int tariff) @ CHR ''|'' # (''paid='' @ show_int paid) @ CHR ''|'' # (''list='' @ show_int lst))
      = [''cause='' @ ?c, ''granted='' @ show_int granted,
      ''tariff='' @ show_int tariff, ''paid='' @ show_int paid, ''list='' @ show_int lst]"
      using show_int_no_sep promoCauseCode_no_sep
      by (simp only: splitNoteFields_append splitNoteFields_from_last set_append Un_iff) (simp add: splitNoteFields_from_last show_int_no_sep promoCauseCode_no_sep)
    finally show thesis by (rule that)
  qed
  have keys: "note_field (''cause='' @ v) i = i\<lparr>pi_reason := v\<rparr>"
    "note_field (''paid='' @ v) i = i" "note_field (''list='' @ v) i = i" for v i
    using note_field_key [of "''cause''" v i] note_field_key [of "''paid''" v i] note_field_key [of "''list''" v i] by simp_all
  have nums: "note_field (''granted='' @ show_int n) i = i\<lparr>pi_granted := n\<rparr>"
    "note_field (''tariff='' @ show_int n) i = i\<lparr>pi_tariff := n\<rparr>" if "1 \<le> n" "n < 2 ^ 63" for n i
    using note_field_key [of "''granted''" "show_int n" i] note_field_key [of "''tariff''" "show_int n" i] scan_show_int [of n] that
    by simp_all
  obtain i0 where i0: "i0 = fold note_field pre \<lparr>pi_granted = 0, pi_tariff = 0, pi_reason = ''promo_unavailable''\<rparr>" by simp
  have "fold note_field (splitNoteFields ?body) \<lparr>pi_granted = 0, pi_tariff = 0, pi_reason = ''promo_unavailable''\<rparr>
      = i0\<lparr>pi_reason := ?c, pi_granted := granted, pi_tariff := tariff\<rparr>"
    unfolding pre i0 using assms by (simp add: keys nums del: append_Cons)
  then show ?thesis using assms
    by (simp add: ParseProrationNote_def formatPromoProratedNote_def Let_def promoProratedNotePrefix_def)
qed

theorem proration_note_roundtrip_witness:
  "ParseProrationNote (formatPromoProratedNote ''A|granted=9'' (promoCauseCode ErrPromoExpired) 24 30 40000 50000)
    = Some \<lparr>pi_granted = 24, pi_tariff = 30, pi_reason = ''promo_expired''\<rparr>"
  using proration_note_roundtrip [of 24 30 "''A|granted=9''" ErrPromoExpired 40000 50000] by (simp add: promoCauseCode_def)

section \<open>Usage limits\<close>

text \<open>The limits of every promo code: redemptions in total and per learner.\<close>

definition promo_limits :: "billing_db \<Rightarrow> bool" where
  "promo_limits db \<longleftrightarrow> distinct (map pc_id (promo_codes db)) \<and> (\<forall>p \<in> set (promo_codes db).
     (\<forall>m. pc_max_uses p = Some m \<longrightarrow> int (CountPromoRedemptions db (pc_id p)) \<le> m)
     \<and> (\<forall>prof. 0 < CountUserPromoRedemptions db (pc_id p) prof \<longrightarrow>
          int (CountUserPromoRedemptions db (pc_id p) prof) \<le> pc_per_user_limit p))"

lemma promo_limits_frame:
  "redemptions db' = redemptions db \<Longrightarrow> promo_codes db' = promo_codes db \<Longrightarrow> promo_limits db' = promo_limits db"
  by (simp add: promo_limits_def CountPromoRedemptions_def CountUserPromoRedemptions_def)

lemma redeem_within_limits:
  assumes "promo_limits db" and "promo \<in> set (promo_codes db)"
    and "checkPromoRedeemable e promo prof db = Inr ()"
    and "CreatePromoRedemption (pc_id promo) prof pay db = Inr db1"
  shows "promo_limits db1"
proof -
  have ok: "int (CountUserPromoRedemptions db (pc_id promo) prof) < pc_per_user_limit promo"
    "\<forall>m. pc_max_uses promo = Some m \<longrightarrow> int (CountPromoRedemptions db (pc_id promo)) < m"
    using assms(3) by (auto simp: checkPromoRedeemable_ok_iff)
  have db1: "promo_codes db1 = promo_codes db" "redemptions db1 = redemptions db @
      [\<lparr>rd_promo = pc_id promo, rd_profile = prof, rd_payment = pay\<rparr>]"
    using assms(4) by (auto simp: CreatePromoRedemption_def split: if_splits)
  have c: "CountPromoRedemptions db1 i = CountPromoRedemptions db i + (if i = pc_id promo then 1 else 0)"
    "CountUserPromoRedemptions db1 i u = CountUserPromoRedemptions db i u
       + (if i = pc_id promo \<and> u = prof then 1 else 0)" for i u
    by (simp_all add: CountPromoRedemptions_def CountUserPromoRedemptions_def db1(2))
  have same: "p = promo" if "p \<in> set (promo_codes db)" "pc_id p = pc_id promo" for p
    using assms(1,2) that by (auto simp: promo_limits_def distinct_map inj_on_def)
  have "(\<forall>m. pc_max_uses p = Some m \<longrightarrow> int (CountPromoRedemptions db1 (pc_id p)) \<le> m)
     \<and> (\<forall>u. 0 < CountUserPromoRedemptions db1 (pc_id p) u \<longrightarrow>
          int (CountUserPromoRedemptions db1 (pc_id p) u) \<le> pc_per_user_limit p)"
    if p: "p \<in> set (promo_codes db)" for p
  proof (cases "pc_id p = pc_id promo")
    case True
    then have "p = promo" using same p by simp
    then show ?thesis using ok p assms(1) by (auto simp: c promo_limits_def)
  next
    case False
    then show ?thesis using p assms(1) by (auto simp: c promo_limits_def)
  qed
  then show ?thesis using assms(1) by (simp add: promo_limits_def db1(1))
qed

lemma grant_terms_limits:
  assumes "grant_terms e pm db = Inr (days, nt, db1)" and "promo_limits db"
  shows "promo_limits db1"
proof (cases "p_promo pm")
  case None
  then show ?thesis using assms by (simp add: grant_terms_def)
next
  case (Some i)
  with assms(1) obtain promo where pr: "find (\<lambda>r. pc_id r = i) (promo_codes db) = Some promo"
    and t: "promo_terms e pm i db = Inr (days, nt, db1)"
    by (auto simp: grant_terms_def promo_terms_def rbind_Inr_iff GetPromoCodeByIDForUpdate_def)
  have m: "promo \<in> set (promo_codes db)" "pc_id promo = i" using find_SomeD [OF pr] by auto
  show ?thesis
  proof (cases "checkPromoRedeemable e promo (p_profile pm) db")
    case (Inl err)
    then show ?thesis using t pr assms(2)
      by (auto simp: promo_terms_def rbind_Inr_iff GetPromoCodeByIDForUpdate_def Let_def split: if_splits)
  next
    case (Inr u)
    then have "CreatePromoRedemption i (p_profile pm) (Some (p_id pm)) db = Inr db1"
      using t pr by (auto simp: promo_terms_def rbind_Inr_iff GetPromoCodeByIDForUpdate_def)
    then show ?thesis
      using redeem_within_limits [OF assms(2) m(1), of e "p_profile pm"] Inr m(2) by simp
  qed
qed

text \<open>
  C8: completing a payment never takes a promo code beyond its total number of uses or its limit per
  learner, however many discounted orders were started before; an order whose code is used up is
  granted pro rata instead.
\<close>

theorem ProcessPaymentGrant_promo_limits:
  assumes "ProcessPaymentGrant e pay db = Inr db'" and "promo_limits db"
  shows "promo_limits db'"
proof -
  from assms(1) obtain pm days nt db1 stop db2 where
    t: "grant_terms e pm db = Inr (days, nt, db1)"
    and g: "GrantDaysForPayment e ''grant'' (p_profile pm) days ''purchase'' nt None (Some pay) db1 = Inr (stop, db2)"
    and r: "processReferralRewardOnPayment e (p_profile pm) pm db2 = Inr db'"
    by (rule ProcessPaymentGrant_cases)
  have "redemptions db2 = redemptions db1" "promo_codes db2 = promo_codes db1"
    using GrantDaysForPayment_ok(3) [OF g] by simp_all
  moreover have "redemptions db' = redemptions db2" "promo_codes db' = promo_codes db2"
    using r by (auto elim!: processReferralRewardOnPayment_ok simp: same_orders_def)
  ultimately show ?thesis
    using grant_terms_limits [OF t assms(2)] promo_limits_frame [of db' db1] by simp
qed

text \<open>Two discounted orders of the same single-use code, the second one completed after the first.\<close>

definition fx_promo_db :: billing_db where
  "fx_promo_db = fx_db\<lparr>payments := [fx_order\<lparr>p_amount := 40, p_tariff_price := 50, p_promo := Some 7\<rparr>,
     fx_order\<lparr>p_id := 11, p_amount := 40, p_tariff_price := 50, p_promo := Some 7\<rparr>]\<rparr>"

theorem ProcessPaymentGrant_promo_limits_witness:
  "\<exists>db1 db2. ProcessPaymentGrant fx_env 10 fx_promo_db = Inr db1 \<and> ProcessPaymentGrant fx_env 11 db1 = Inr db2
     \<and> promo_limits db2 \<and> CountPromoRedemptions db2 7 = 1
     \<and> map (\<lambda>r. en_ends r - en_starts r) (entitlements db2) = [30 * day_ns, 7 * day_ns, 24 * day_ns]"
proof -
  define db1 where "db1 = projr (ProcessPaymentGrant fx_env 10 fx_promo_db)"
  define db2 where "db2 = projr (ProcessPaymentGrant fx_env 11 db1)"
  have "isl (ProcessPaymentGrant fx_env 10 fx_promo_db) = False" by code_simp
  then have a: "ProcessPaymentGrant fx_env 10 fx_promo_db = Inr db1"
    by (cases "ProcessPaymentGrant fx_env 10 fx_promo_db") (simp_all add: db1_def)
  have "isl (ProcessPaymentGrant fx_env 11 (projr (ProcessPaymentGrant fx_env 10 fx_promo_db))) = False" by code_simp
  then have b: "ProcessPaymentGrant fx_env 11 db1 = Inr db2"
    by (cases "ProcessPaymentGrant fx_env 11 db1") (simp_all add: db1_def db2_def)
  have "promo_limits fx_promo_db"
    by (auto simp: promo_limits_def fx_promo_db_def fx_db_def fx_promo_def empty_db_def
        CountPromoRedemptions_def CountUserPromoRedemptions_def)
  then have "promo_limits db2"
    using ProcessPaymentGrant_promo_limits [OF b ProcessPaymentGrant_promo_limits [OF a]] by simp
  moreover have "CountPromoRedemptions db2 7 = 1"
    "map (\<lambda>r. en_ends r - en_starts r) (entitlements db2) = [30 * day_ns, 7 * day_ns, 24 * day_ns]"
    unfolding db2_def db1_def by code_simp+
  ultimately show ?thesis using a b by (intro exI [of _ db1] exI [of _ db2] conjI)
qed

end
