(* ===== verification/Wallet_Properties.thy ===== *)
theory Wallet_Properties
  imports Settlement Fixtures
begin

text \<open>
  What the referral wallet promises: commissions inside the payment, payouts covered by the balance,
  holds and releases that cancel out, clawbacks that neutralise a commission once, and the accounting
  identity between the ledger and the payouts in every reachable state.
\<close>

section \<open>Commissions and cards\<close>

text \<open>
  The commission on a payment is the floor of its percentage, never negative and never more than
  the payment, for every percentage the profile table admits.
\<close>

theorem CommissionUZS_bounds:
  assumes "0 \<le> amount" and "0 \<le> percent" and "percent \<le> 100" and "amount < 2 ^ 56"
  shows "CommissionUZS amount percent = amount * percent div 100 \<and> 0 \<le> CommissionUZS amount percent
    \<and> CommissionUZS amount percent \<le> amount"
proof -
  have le: "amount * percent \<le> amount * 100" using assms by (intro mult_left_mono)
  have nn: "0 \<le> amount * percent" using assms by simp
  have "amount * percent < 2 ^ 63" using le assms(4) by simp
  then have "wrap64 (amount * percent) = amount * percent"
    using nn by (intro wrap64_id int64_rangeI)
  then have eq: "CommissionUZS amount percent = amount * percent div 100"
    using assms nn by (auto simp: CommissionUZS_def go_arith)
  have "amount * percent div 100 \<le> amount * 100 div 100" using le by (intro zdiv_mono1) simp_all
  moreover have "0 \<le> amount * percent div 100" using nn by (simp add: pos_imp_zdiv_nonneg_iff)
  ultimately show ?thesis by (simp add: eq)
qed

theorem CommissionUZS_bounds_witness: "CommissionUZS 49999 10 = 4999 \<and> CommissionUZS 49999 10 \<le> 49999"
  using CommissionUZS_bounds [of 49999 10] by simp

lemma has_prefix_take2: "has_prefix s [a, b, c, d] \<Longrightarrow> take 2 s = [a, b]"
  by (cases s; cases "tl s") (auto simp: has_prefix_def)

lemma DetectCardNetwork_eq:
  "length digits = 16 \<Longrightarrow> DetectCardNetwork digits =
     (if take 2 digits = ''98'' then ''humo'' else if take 2 digits = ''86'' then ''uzcard'' else '''')"
  by (auto simp: DetectCardNetwork_def Let_def dest: has_prefix_take2)

text \<open>
  A payout card is accepted only when it has sixteen digits after separators are dropped and its
  network is Uzcard or Humo and does not contradict the card's prefix, and what is shown of it later
  is its last four digits.
\<close>

theorem ValidatePayoutCard_accepts:
  assumes "ValidatePayoutCard card_no network = Inr (digits, net)"
  shows "digits = filter is_digit card_no \<and> length digits = 16 \<and> (net = ''uzcard'' \<or> net = ''humo'')
    \<and> (take 2 digits = ''98'' \<longrightarrow> net = ''humo'') \<and> (take 2 digits = ''86'' \<longrightarrow> net = ''uzcard'')
    \<and> MaskCardNumber digits = ''**** **** **** '' @ drop 12 digits"
proof -
  let ?d = "NormalizeCardNumber card_no" and ?n = "to_lower (trim_space network)"
  have c1: "length ?d = 16"
    using assms by (cases "length ?d = 16") (simp_all add: ValidatePayoutCard_def)
  have dig: "list_all is_digit ?d" by (simp add: NormalizeCardNumber_def list_all_iff)
  note eq = assms [unfolded ValidatePayoutCard_def Let_def, simplified c1 dig, simplified]
  have c2: "?n = ''uzcard'' \<or> ?n = ''humo''"
    using eq by (cases "?n \<noteq> ''uzcard'' \<and> ?n \<noteq> ''humo''") auto
  have c3: "DetectCardNetwork ?d = '''' \<or> DetectCardNetwork ?d = ?n"
    using eq c2 by (cases "DetectCardNetwork ?d \<noteq> '''' \<and> DetectCardNetwork ?d \<noteq> ?n") auto
  have d: "digits = ?d" "net = ?n" using eq c2 c3 by auto
  show ?thesis using c1 c2 c3 DetectCardNetwork_eq [OF c1]
    by (auto simp: d MaskCardNumber_def) (simp_all add: NormalizeCardNumber_def)
qed

theorem ValidatePayoutCard_accepts_witness:
  "ValidatePayoutCard ''9860 1234 5678 9012'' '' Humo '' = Inr (''9860123456789012'', ''humo'')
   \<and> MaskCardNumber ''9860123456789012'' = ''**** **** **** 9012''"
proof -
  have v: "ValidatePayoutCard ''9860 1234 5678 9012'' '' Humo '' = Inr (''9860123456789012'', ''humo'')" by code_simp
  have "MaskCardNumber ''9860123456789012'' = ''**** **** **** '' @ drop 12 ''9860123456789012''"
    using ValidatePayoutCard_accepts [OF v] by (elim conjE)
  with v show ?thesis by simp
qed

section \<open>Payouts\<close>

lemma RequestReferralPayout_success:
  assumes "RequestReferralPayout enc e prof amt cardno network db = (Inr r, db')"
  obtains payout cipher net where "0 < amt" and "amt \<le> GetReferralBalance db prof"
    and "new_id e \<notin> po_id ` set (payouts db)"
    and "payout = \<lparr>po_id = new_id e, po_profile = prof, po_amount = amt, po_card = cipher,
           po_network = net, po_status = PoPending, po_note = ''''\<rparr>"
    and "InsertReferralLedger \<lparr>lg_profile = prof, lg_type = PayoutHold, lg_amount = - amt,
           lg_payment = None, lg_payout = Some (new_id e)\<rparr> (db\<lparr>payouts := payouts db @ [payout]\<rparr>) = Inr db'"
    and "pres_id r = new_id e" and "pres_amount r = amt" and "pres_status r = PoPending"
proof -
  from assms have pos: "0 < amt" by (auto simp: RequestReferralPayout_def split: if_splits)
  from assms pos obtain digits net cipher where v: "ValidatePayoutCard cardno network = Inr (digits, net)"
    and c: "enc digits = Some cipher"
    and tx: "RequestReferralPayout_tx e prof amt digits cipher net db = Inr (r, db')"
    by (auto simp: RequestReferralPayout_def run_tx_ok split: if_splits sum.splits prod.splits option.splits)
  from tx pos show thesis
    by (intro that [of _ cipher net])
      (auto simp: RequestReferralPayout_tx_def rbind_Inr_iff CreateReferralPayout_def Let_def split: if_splits)
qed

text \<open>
  A payout request that succeeds is for a positive amount covered by the balance, takes exactly
  that amount from the requester's balance, leaves every other balance alone and never makes the
  requester's balance negative; one that fails changes nothing.
\<close>

theorem RequestReferralPayout_covered:
  "case RequestReferralPayout enc e prof amt cardno network db of
     (Inl _, db') \<Rightarrow> db' = db
   | (Inr r, db') \<Rightarrow> 0 < amt \<and> 0 \<le> GetReferralBalance db' prof
       \<and> (\<forall>q. GetReferralBalance db' q = GetReferralBalance db q - (if q = prof then amt else 0))"
proof (cases "RequestReferralPayout enc e prof amt cardno network db")
  case (Pair res db')
  show ?thesis
  proof (cases res)
    case (Inl err)
    then have "db' = db"
      using Pair by (auto simp: RequestReferralPayout_def dest: run_tx_failed
          split: if_splits sum.splits prod.splits option.splits)
    then show ?thesis using Pair Inl by simp
  next
    case (Inr r)
    with Pair have ok: "RequestReferralPayout enc e prof amt cardno network db = (Inr r, db')" by simp
    obtain payout where p: "0 < amt" "amt \<le> GetReferralBalance db prof"
      "InsertReferralLedger \<lparr>lg_profile = prof, lg_type = PayoutHold, lg_amount = - amt,
           lg_payment = None, lg_payout = Some (new_id e)\<rparr> (db\<lparr>payouts := payouts db @ [payout]\<rparr>) = Inr db'"
      using ok by (rule RequestReferralPayout_success) blast
    show ?thesis
      using referral_ledger.post_balance [OF p(3)] p(1,2) Pair Inr by auto
  qed
qed

lemma RejectReferralPayout_success:
  assumes "RejectReferralPayout e pid nt db = (Inr u, db')"
  obtains payout where "GetReferralPayoutForUpdate db pid = Some payout" and "po_status payout = PoPending"
    and "InsertReferralLedger \<lparr>lg_profile = po_profile payout, lg_type = PayoutRejectRelease,
           lg_amount = po_amount payout, lg_payment = None, lg_payout = Some (po_id payout)\<rparr>
         (db\<lparr>payouts := upd_where (\<lambda>r. po_id r = pid \<and> po_status r = PoPending)
         (\<lambda>r. r\<lparr>po_status := PoRejected, po_note := (if nt = '''' then po_note r else nt)\<rparr>) (payouts db)\<rparr>) = Inr db'"
  using assms unfolding RejectReferralPayout_def
  by (auto simp: run_tx_ok rbind_Inr_iff sql_MarkReferralPayoutRejected_def close_payout_def
      split: if_splits option.splits)

text \<open>
  Rejecting a payout gives its amount back: request and rejection leave the requester's balance
  as it was before the request, whatever happened to other profiles' ledgers in between.
\<close>

theorem payout_reject_restores:
  assumes req: "RequestReferralPayout enc e prof amt cardno network db = (Inr r, db1)"
    and mid: "GetReferralPayoutForUpdate db2 (pres_id r) = GetReferralPayoutForUpdate db1 (pres_id r)"
      "GetReferralBalance db2 prof = GetReferralBalance db1 prof"
    and rej: "RejectReferralPayout e2 (pres_id r) nt db2 = (Inr u, db3)"
  shows "GetReferralBalance db3 prof = GetReferralBalance db prof"
proof -
  obtain payout cipher net where p: "new_id e \<notin> po_id ` set (payouts db)"
      "payout = \<lparr>po_id = new_id e, po_profile = prof, po_amount = amt, po_card = cipher,
           po_network = net, po_status = PoPending, po_note = ''''\<rparr>"
      "InsertReferralLedger \<lparr>lg_profile = prof, lg_type = PayoutHold, lg_amount = - amt,
           lg_payment = None, lg_payout = Some (new_id e)\<rparr> (db\<lparr>payouts := payouts db @ [payout]\<rparr>) = Inr db1"
      "pres_id r = new_id e"
    using req by (rule RequestReferralPayout_success) blast
  have "find (\<lambda>r. po_id r = new_id e) (payouts db) = None" using p(1) by (force simp: find_None_iff)
  then have g: "GetReferralPayoutForUpdate db1 (pres_id r) = Some payout"
    using InsertReferralLedger_eq [OF p(3)] p(2,4) by (simp add: GetReferralPayoutForUpdate_def find_append)
  obtain payout' where q: "GetReferralPayoutForUpdate db2 (pres_id r) = Some payout'"
    "InsertReferralLedger \<lparr>lg_profile = po_profile payout', lg_type = PayoutRejectRelease,
           lg_amount = po_amount payout', lg_payment = None, lg_payout = Some (po_id payout')\<rparr>
         (db2\<lparr>payouts := upd_where (\<lambda>x. po_id x = pres_id r \<and> po_status x = PoPending)
         (\<lambda>x. x\<lparr>po_status := PoRejected, po_note := (if nt = '''' then po_note x else nt)\<rparr>) (payouts db2)\<rparr>) = Inr db3"
    using rej by (rule RejectReferralPayout_success) blast
  have "payout' = payout" using mid(1) g q(1) by simp
  with p q mid(2) show ?thesis
    using referral_ledger.post_balance [OF p(3), of prof] referral_ledger.post_balance [OF q(2), of prof] by simp
qed

definition fx_wallet :: billing_db where
  "fx_wallet = fx_db\<lparr>ledger := [\<lparr>lg_profile = 2, lg_type = Commission, lg_amount = 900,
     lg_payment = Some 10, lg_payout = None\<rparr>]\<rparr>"

definition fx_requested :: billing_db where
  "fx_requested = snd (RequestReferralPayout Some fx_env 2 700 ''9860123456789012'' ''humo'' fx_wallet)"

definition fx_rejected :: billing_db where
  "fx_rejected = snd (RejectReferralPayout fx_later 100 ''wrong card'' fx_requested)"

theorem payout_reject_restores_witness:
  "GetReferralBalance fx_requested 2 = 200 \<and> GetReferralBalance fx_rejected 2 = 900"
proof -
  have "fst (RequestReferralPayout Some fx_env 2 700 ''9860123456789012'' ''humo'' fx_wallet) =
    Inr \<lparr>pres_id = 100, pres_amount = 700, pres_card_masked = ''**** **** **** 9012'', pres_network = ''humo'',
      pres_status = PoPending\<rparr>" by code_simp
  then have a: "RequestReferralPayout Some fx_env 2 700 ''9860123456789012'' ''humo'' fx_wallet =
    (Inr \<lparr>pres_id = 100, pres_amount = 700, pres_card_masked = ''**** **** **** 9012'', pres_network = ''humo'',
      pres_status = PoPending\<rparr>, fx_requested)" by (simp add: fx_requested_def prod_eq_iff)
  have "fst (RejectReferralPayout fx_later 100 ''wrong card'' fx_requested) = Inr ()" by code_simp
  then have b: "RejectReferralPayout fx_later 100 ''wrong card'' fx_requested = (Inr (), fx_rejected)"
    by (simp add: fx_rejected_def prod_eq_iff)
  have c: "GetReferralBalance fx_requested 2 = 200" "GetReferralBalance fx_wallet 2 = 900" by code_simp+
  show ?thesis
    using payout_reject_restores [OF a, of fx_requested fx_later "''wrong card''" "()" fx_rejected] b c by simp
qed

section \<open>Clawbacks and corrections\<close>

text \<open>
  Taking back the commission of a refunded payment is idempotent, and after it the commission and
  its clawback sum to nothing: repeating the refund never debits the referrer twice.
\<close>

theorem Clawback_idempotent:
  assumes "ClawbackReferralCommissionOnRefund e pay db = Inr db1"
    and "GetCommissionByPaymentID db pay = Some c" and "0 < lg_amount c"
    and "GetClawbackByPaymentID db pay = None"
  shows "GetReferralBalance db1 (lg_profile c) = GetReferralBalance db (lg_profile c) - lg_amount c
    \<and> (\<exists>k. GetClawbackByPaymentID db1 pay = Some k \<and> lg_amount k = - lg_amount c \<and> lg_profile k = lg_profile c)
    \<and> (ClawbackReferralCommissionOnRefund e2 pay db1 = Inr db2 \<longrightarrow> db2 = db1)"
proof -
  let ?k = "\<lparr>lg_profile = lg_profile c, lg_type = Clawback, lg_amount = - lg_amount c, lg_payment = Some pay, lg_payout = None\<rparr>"
  have db1: "db1 = db\<lparr>ledger := ledger db @ [?k]\<rparr>"
    using Clawback_exact [OF assms(1,2,4,3)] .
  have k: "GetClawbackByPaymentID db1 pay = Some ?k"
    using assms(4) by (simp add: db1 GetClawbackByPaymentID_def find_append)
  moreover have "db2 = db1" if "ClawbackReferralCommissionOnRefund e2 pay db1 = Inr db2"
    using Clawback_ok [OF that] k by auto
  moreover have "GetReferralBalance db1 (lg_profile c) = GetReferralBalance db (lg_profile c) - lg_amount c"
    by (simp add: db1 GetReferralBalance_def)
  ultimately show ?thesis by simp
qed

theorem Clawback_idempotent_witness:
  "\<exists>db1. ClawbackReferralCommissionOnRefund fx_env 10 fx_wallet = Inr db1 \<and> GetReferralBalance db1 2 = 0"
proof -
  define db1 where "db1 = projr (ClawbackReferralCommissionOnRefund fx_env 10 fx_wallet)"
  have "isl (ClawbackReferralCommissionOnRefund fx_env 10 fx_wallet) = False" by code_simp
  then have a: "ClawbackReferralCommissionOnRefund fx_env 10 fx_wallet = Inr db1"
    by (cases "ClawbackReferralCommissionOnRefund fx_env 10 fx_wallet") (simp_all add: db1_def)
  have c: "GetCommissionByPaymentID fx_wallet 10 = Some \<lparr>lg_profile = 2, lg_type = Commission, lg_amount = 900,
     lg_payment = Some 10, lg_payout = None\<rparr>" "GetClawbackByPaymentID fx_wallet 10 = None"
     "GetReferralBalance fx_wallet 2 = 900" by code_simp+
  show ?thesis using Clawback_idempotent [OF a c(1)] c(2,3) a by simp
qed

text \<open>
  Setting a balance by the admin console ends at exactly the requested amount for that profile,
  changes no other balance, and refuses a negative target.
\<close>

theorem SetUserReferralBalance_target:
  assumes "SetUserReferralBalance e prof target db = (res, db')"
    and "int64_range (target - GetReferralBalance db prof)"
  shows "case res of Inl _ \<Rightarrow> db' = db
    | Inr b \<Rightarrow> b = target \<and> 0 \<le> target \<and> (\<forall>q. GetReferralBalance db' q = (if q = prof then target else GetReferralBalance db q))"
proof (cases res)
  case (Inl err)
  then show ?thesis using assms(1)
    by (auto simp: SetUserReferralBalance_def dest: run_tx_failed split: if_splits)
next
  case (Inr b)
  let ?d = "target - GetReferralBalance db prof"
  have w: "wrap64 ?d = ?d" using assms(2) by (rule wrap64_id)
  have t: "0 \<le> target" using assms(1) Inr by (auto simp: SetUserReferralBalance_def split: if_splits)
  consider (same) "?d = 0" "b = GetReferralBalance db prof" "db' = db"
    | (posted) "b = target" "InsertReferralLedger \<lparr>lg_profile = prof, lg_type = AdminAdjust,
        lg_amount = ?d, lg_payment = None, lg_payout = None\<rparr> db = Inr db'"
  proof (cases "wrap64 ?d = 0")
    case True
    with assms(1) Inr t have "b = GetReferralBalance db prof \<and> db' = db"
      by (auto simp: SetUserReferralBalance_def run_tx_ok rbind_Inr_iff split: if_splits)
    with True w show thesis by (intro same) simp_all
  next
    case False
    with assms(1) Inr t have "b = target \<and> InsertReferralLedger \<lparr>lg_profile = prof, lg_type = AdminAdjust,
        lg_amount = wrap64 ?d, lg_payment = None, lg_payout = None\<rparr> db = Inr db'"
      by (auto simp: SetUserReferralBalance_def run_tx_ok rbind_Inr_iff split: if_splits)
    with w show thesis by (intro posted) simp_all
  qed
  then show ?thesis
  proof cases
    case same
    then show ?thesis using Inr t by auto
  next
    case posted
    then show ?thesis using Inr t referral_ledger.post_balance [OF posted(2)] by auto
  qed
qed

theorem SetUserReferralBalance_target_witness:
  "GetReferralBalance (snd (SetUserReferralBalance fx_env 2 150 fx_wallet)) 2 = 150"
proof -
  have a: "fst (SetUserReferralBalance fx_env 2 150 fx_wallet) = Inr 150" by code_simp
  then have b: "SetUserReferralBalance fx_env 2 150 fx_wallet = (Inr 150, snd (SetUserReferralBalance fx_env 2 150 fx_wallet))"
    by (metis prod.collapse)
  have "int64_range (150 - GetReferralBalance fx_wallet 2)" by code_simp
  from SetUserReferralBalance_target [OF b this] show ?thesis by simp
qed

section \<open>The books balance\<close>

text \<open>
  \<open>earned\<close>: the entries of a profile that are not payout movements. \<open>outstanding\<close>: the payouts of a
  profile that were not rejected. The operations of the wallet as steps, in any order, with any
  arguments, faults and clocks.
\<close>

definition earned :: "billing_db \<Rightarrow> uuid \<Rightarrow> int" where
  "earned db p = sum_list (map lg_amount (filter (\<lambda>r. lg_profile r = p \<and>
     lg_type r \<noteq> PayoutHold \<and> lg_type r \<noteq> PayoutRejectRelease) (ledger db)))"

definition outstanding :: "billing_db \<Rightarrow> uuid \<Rightarrow> int" where
  "outstanding db p = sum_list (map po_amount (filter (\<lambda>r. po_profile r = p \<and> po_status r \<noteq> PoRejected) (payouts db)))"

definition wallet_ok :: "billing_db \<Rightarrow> bool" where
  "wallet_ok db \<longleftrightarrow> distinct (map po_id (payouts db))
     \<and> (\<forall>p. GetReferralBalance db p = earned db p - outstanding db p)"

inductive wallet_step :: "billing_db \<Rightarrow> billing_db \<Rightarrow> bool" where
  request: "wallet_step db (snd (RequestReferralPayout enc e p amt cardno network db))"
| reject: "wallet_step db (snd (RejectReferralPayout e i nt db))"
| paid: "wallet_step db (snd (MarkReferralPayoutPaid e i nt db))"
| adjust: "wallet_step db (snd (SetUserReferralBalance e p target db))"
| credit: "creditReferralCommission e p pay amt pct db = Inr db' \<Longrightarrow> wallet_step db db'"
| clawback: "ClawbackReferralCommissionOnRefund e pay db = Inr db' \<Longrightarrow> wallet_step db db'"

inductive wallet_reach :: "billing_db \<Rightarrow> bool" where
  start: "ledger db = [] \<Longrightarrow> payouts db = [] \<Longrightarrow> wallet_reach db"
| step: "wallet_reach db \<Longrightarrow> wallet_step db db' \<Longrightarrow> wallet_reach db'"

lemma wallet_ok_post:
  assumes "wallet_ok db" and "lg_type l \<noteq> PayoutHold" and "lg_type l \<noteq> PayoutRejectRelease"
  shows "wallet_ok (db\<lparr>ledger := ledger db @ [l]\<rparr>)"
  using assms by (auto simp: wallet_ok_def GetReferralBalance_def earned_def outstanding_def)

lemma outstanding_close:
  assumes "distinct (map po_id (payouts db))" and "GetReferralPayoutForUpdate db i = Some payout"
    and "po_status payout = PoPending"
  shows "sum_list (map po_amount (filter (\<lambda>r. po_profile r = p \<and> po_status r \<noteq> PoRejected)
       (upd_where (\<lambda>r. po_id r = i \<and> po_status r = PoPending)
         (\<lambda>r. r\<lparr>po_status := st, po_note := f r\<rparr>) (payouts db))))
     = outstanding db p - (if st = PoRejected \<and> po_profile payout = p then po_amount payout else 0)"
    and "map po_id (upd_where (\<lambda>r. po_id r = i \<and> po_status r = PoPending)
         (\<lambda>r. r\<lparr>po_status := st, po_note := f r\<rparr>) (payouts db)) = map po_id (payouts db)"
proof -
  have fnd: "find (\<lambda>r. po_id r = i) (payouts db) = Some payout"
    using assms(2) by (simp add: GetReferralPayoutForUpdate_def)
  obtain as bs where s: "payouts db = as @ payout # bs" "i \<notin> po_id ` set as" "i \<notin> po_id ` set bs"
    using assms(1) fnd by (rule find_key_split) blast
  have pid: "po_id payout = i" using find_SomeD [OF fnd] by simp
  have id: "upd_where (\<lambda>r. po_id r = i \<and> po_status r = PoPending) g xs = xs" if "i \<notin> po_id ` set xs" for g xs
    using that by (intro upd_where_id) auto
  have u: "upd_where (\<lambda>r. po_id r = i \<and> po_status r = PoPending) g (payouts db) = as @ g payout # bs" for g
    using id [OF s(2)] id [OF s(3)] pid assms(3) by (simp add: s(1) upd_where_def)
  show "sum_list (map po_amount (filter (\<lambda>r. po_profile r = p \<and> po_status r \<noteq> PoRejected)
       (upd_where (\<lambda>r. po_id r = i \<and> po_status r = PoPending)
         (\<lambda>r. r\<lparr>po_status := st, po_note := f r\<rparr>) (payouts db))))
     = outstanding db p - (if st = PoRejected \<and> po_profile payout = p then po_amount payout else 0)"
    unfolding u using assms(3) by (auto simp: outstanding_def s(1))
  show "map po_id (upd_where (\<lambda>r. po_id r = i \<and> po_status r = PoPending)
         (\<lambda>r. r\<lparr>po_status := st, po_note := f r\<rparr>) (payouts db)) = map po_id (payouts db)"
    by (rule map_upd_where) simp
qed

lemma request_wallet_ok:
  assumes "wallet_ok db"
  shows "wallet_ok (snd (RequestReferralPayout enc e prof amt cardno network db))"
proof (cases "RequestReferralPayout enc e prof amt cardno network db")
  case (Pair res db')
  show ?thesis
  proof (cases res)
    case (Inl err)
    then have "db' = db"
      using Pair by (auto simp: RequestReferralPayout_def dest: run_tx_failed
          split: if_splits sum.splits prod.splits option.splits)
    then show ?thesis using assms Pair by simp
  next
    case (Inr r)
    with Pair have ok: "RequestReferralPayout enc e prof amt cardno network db = (Inr r, db')" by simp
    obtain payout cipher net where p: "new_id e \<notin> po_id ` set (payouts db)"
      "payout = \<lparr>po_id = new_id e, po_profile = prof, po_amount = amt, po_card = cipher,
           po_network = net, po_status = PoPending, po_note = ''''\<rparr>"
      "InsertReferralLedger \<lparr>lg_profile = prof, lg_type = PayoutHold, lg_amount = - amt,
           lg_payment = None, lg_payout = Some (new_id e)\<rparr> (db\<lparr>payouts := payouts db @ [payout]\<rparr>) = Inr db'"
      using ok by (rule RequestReferralPayout_success) blast
    show ?thesis
      using assms p(1) Pair InsertReferralLedger_eq [OF p(3)]
      by (auto simp: wallet_ok_def GetReferralBalance_def earned_def outstanding_def p(2))
  qed
qed

lemma reject_wallet_ok:
  assumes "wallet_ok db"
  shows "wallet_ok (snd (RejectReferralPayout e i nt db))"
proof (cases "RejectReferralPayout e i nt db")
  case (Pair res db')
  show ?thesis
  proof (cases res)
    case (Inl err)
    then show ?thesis using assms Pair by (auto simp: RejectReferralPayout_def dest: run_tx_failed)
  next
    case (Inr u)
    with Pair have ok: "RejectReferralPayout e i nt db = (Inr u, db')" by simp
    obtain payout where q: "GetReferralPayoutForUpdate db i = Some payout" "po_status payout = PoPending"
      "InsertReferralLedger \<lparr>lg_profile = po_profile payout, lg_type = PayoutRejectRelease,
           lg_amount = po_amount payout, lg_payment = None, lg_payout = Some (po_id payout)\<rparr>
         (db\<lparr>payouts := upd_where (\<lambda>x. po_id x = i \<and> po_status x = PoPending)
         (\<lambda>x. x\<lparr>po_status := PoRejected, po_note := (if nt = '''' then po_note x else nt)\<rparr>) (payouts db)\<rparr>) = Inr db'"
      using ok by (rule RejectReferralPayout_success) blast
    have d: "distinct (map po_id (payouts db))" using assms by (simp add: wallet_ok_def)
    note cl = outstanding_close [OF d q(1,2), where st = PoRejected and f = "\<lambda>x. if nt = '''' then po_note x else nt"]
    note db' = InsertReferralLedger_eq [OF q(3)]
    have "outstanding db' x = outstanding db x - (if po_profile payout = x then po_amount payout else 0)" for x
      using cl(1) [of x] by (simp add: db' outstanding_def [where db = "db\<lparr>payouts := y, ledger := z\<rparr>" for y z])
    moreover have "earned db' x = earned db x"
      "GetReferralBalance db' x = GetReferralBalance db x + (if po_profile payout = x then po_amount payout else 0)" for x
      by (simp_all add: db' earned_def GetReferralBalance_def)
    moreover have "map po_id (payouts db') = map po_id (payouts db)" using cl(2) by (simp add: db')
    ultimately show ?thesis using assms Pair by (simp add: wallet_ok_def)
  qed
qed

lemma paid_wallet_ok:
  assumes "wallet_ok db"
  shows "wallet_ok (snd (MarkReferralPayoutPaid e i nt db))"
proof (cases "MarkReferralPayoutPaid e i nt db")
  case (Pair res db')
  show ?thesis
  proof (cases res)
    case (Inl err)
    then show ?thesis using assms Pair by (auto simp: MarkReferralPayoutPaid_def dest: run_tx_failed)
  next
    case (Inr u)
    with Pair obtain payout where q: "GetReferralPayoutForUpdate db i = Some payout" "po_status payout = PoPending"
      "db' = db\<lparr>payouts := upd_where (\<lambda>x. po_id x = i \<and> po_status x = PoPending)
         (\<lambda>x. x\<lparr>po_status := PoPaid, po_note := (if nt = '''' then po_note x else nt)\<rparr>) (payouts db)\<rparr>"
      by (auto simp: MarkReferralPayoutPaid_def run_tx_ok rbind_Inr_iff sql_MarkReferralPayoutPaid_def
          close_payout_def split: if_splits option.splits)
    have d: "distinct (map po_id (payouts db))" using assms by (simp add: wallet_ok_def)
    note cl = outstanding_close [OF d q(1,2), where st = PoPaid and f = "\<lambda>x. if nt = '''' then po_note x else nt"]
    have "outstanding db' x = outstanding db x" for x
      using cl(1) [of x] by (simp add: q(3) outstanding_def [where db = "db\<lparr>payouts := y\<rparr>" for y])
    moreover have "earned db' x = earned db x" "GetReferralBalance db' x = GetReferralBalance db x" for x
      by (simp_all add: q(3) earned_def GetReferralBalance_def)
    moreover have "map po_id (payouts db') = map po_id (payouts db)" using cl(2) by (simp add: q(3))
    ultimately show ?thesis using assms Pair by (simp add: wallet_ok_def)
  qed
qed

lemma adjust_wallet_ok:
  assumes "wallet_ok db"
  shows "wallet_ok (snd (SetUserReferralBalance e p target db))"
proof (cases "SetUserReferralBalance e p target db")
  case (Pair res db')
  have "db' = db \<or> (\<exists>a. db' = db\<lparr>ledger := ledger db @ [\<lparr>lg_profile = p, lg_type = AdminAdjust,
      lg_amount = a, lg_payment = None, lg_payout = None\<rparr>]\<rparr>)"
  proof (cases res)
    case (Inl err)
    then show ?thesis using Pair by (auto simp: SetUserReferralBalance_def dest: run_tx_failed split: if_splits)
  next
    case (Inr b)
    then show ?thesis using Pair
      by (auto simp: SetUserReferralBalance_def run_tx_ok rbind_Inr_iff Let_def
          dest: InsertReferralLedger_eq split: if_splits)
  qed
  then show ?thesis using assms Pair by (auto intro: wallet_ok_post)
qed

lemma wallet_step_ok: "wallet_step db db' \<Longrightarrow> wallet_ok db \<Longrightarrow> wallet_ok db'"
proof (induction rule: wallet_step.induct)
  case (credit e p pay amt pct db db')
  then show ?case by (auto dest!: creditReferralCommission_ok intro: wallet_ok_post)
next
  case (clawback e pay db db')
  then show ?case by (auto dest!: Clawback_ok intro: wallet_ok_post)
qed (simp_all add: request_wallet_ok reject_wallet_ok paid_wallet_ok adjust_wallet_ok)

text \<open>
  C11: in every state the wallet operations reach, the balance of a profile is what was earned,
  clawed back and adjusted minus the payouts that are pending or paid, and payout ids are unique.
\<close>

theorem wallet_books_balance:
  assumes "wallet_reach db"
  shows "GetReferralBalance db p = earned db p - outstanding db p \<and> distinct (map po_id (payouts db))"
proof -
  from assms have "wallet_ok db"
  proof (induction rule: wallet_reach.induct)
    case (start db)
    then show ?case by (simp add: wallet_ok_def GetReferralBalance_def earned_def outstanding_def)
  next
    case (step db db')
    then show ?case by (blast intro: wallet_step_ok)
  qed
  then show ?thesis by (simp add: wallet_ok_def)
qed

theorem wallet_books_balance_witness:
  "\<exists>db. wallet_reach db \<and> outstanding db 2 = 700 \<and> GetReferralBalance db 2 = 200"
proof -
  have "creditReferralCommission fx_env 2 10 9000 10 fx_db = Inr fx_wallet" by code_simp
  moreover have "wallet_reach fx_db" by (rule wallet_reach.start) (simp_all add: fx_db_def empty_db_def)
  ultimately have "wallet_reach fx_wallet" by (blast intro: wallet_reach.step wallet_step.credit)
  then have r: "wallet_reach fx_requested"
    unfolding fx_requested_def by (blast intro: wallet_reach.step wallet_step.request)
  have "outstanding fx_requested 2 = 700" "earned fx_requested 2 = 900" by code_simp+
  then show ?thesis using wallet_books_balance [OF r, of 2] r by auto
qed

end
