(* ===== verification/Grant_Properties.thy ===== *)
theory Grant_Properties
  imports Settlement Fixtures
begin

text \<open>
  What entitlements and the referral programme promise: grants stack without overlap and add up,
  a referral is attached at most once and rewarded at most once, and what a refund can miss.
\<close>

section \<open>Stacking\<close>

text \<open>
  A grant of d days to a profile starts at the later of now and the end of everything the profile
  holds, ends exactly d days later, overlaps none of its entitlements, and from then on the status
  shows VIP until its end.
\<close>

theorem GrantDaysForPayment_stacks:
  assumes g: "GrantDaysForPayment e site p days src nt by_admin pay db = Inr (stop, db')"
    and clock: "tx_now e \<le> clk e site" and d: "0 < days" "days \<le> max_days"
  shows "(\<forall>r \<in> set (entitlements db). en_profile r = p \<longrightarrow> en_ends r \<le> stop - days * day_ns)
    \<and> clk e site \<le> stop - days * day_ns
    \<and> (\<exists>row. entitlements db' = entitlements db @ [row] \<and> en_profile row = p
         \<and> en_starts row = stop - days * day_ns \<and> en_ends row = stop)
    \<and> (stop - days * day_ns = clk e site \<or> (\<exists>r \<in> set (entitlements db). en_profile r = p \<and> en_ends r = stop - days * day_ns))
    \<and> (flt e ''Status'' ''ActiveEntitlementEnd'' \<or> Status e None p db' = Inr (True, Some stop))"
proof -
  note ok = GrantDaysForPayment_ok [OF g]
  have dur: "days_dur days = days * day_ns" using d by (simp add: go_arith)
  have start: "grant_start e site p db = stop - days * day_ns" using ok(1) dur by simp
  have before: "en_ends r \<le> grant_start e site p db" if "r \<in> set (entitlements db)" "en_profile r = p" for r
    using clock that by (rule grant_start_after)
  have "grant_start e site p db = clk e site \<or> (\<exists>r \<in> set (entitlements db). en_profile r = p \<and> en_ends r = grant_start e site p db)"
    using ActiveEntitlementEnd_Some(2) [of "tx_now e" db p]
    by (auto simp: grant_start_def max_def split: option.splits)
  moreover have "ActiveEntitlementEnd (tx_now e) db' p = Some stop"
  proof -
    let ?row = "\<lparr>en_profile = p, en_source = src, en_starts = grant_start e site p db, en_ends = stop,
             en_note = nt, en_created_by = by_admin, en_payment = pay, en_created_at = tx_now e\<rparr>"
    have now: "tx_now e < stop" using ok(1,2) clock grant_start_ge_clk [of e site p db] by linarith
    have old: "en_ends s \<le> stop" if "s \<in> set (entitlements db)" "en_profile s = p" for s
      using before [OF that] ok(1,2) by linarith
    have "ActiveEntitlementEnd (tx_now e) (db\<lparr>entitlements := entitlements db @ [?row]\<rparr>) p = Some (en_ends ?row)"
      by (rule ActiveEntitlementEnd_snoc) (simp_all add: now old)
    then show ?thesis using ok(3) by simp
  qed
  ultimately show ?thesis
    using start before ok(3) grant_start_ge_clk [of e site p db] by (auto simp: Status_def)
qed

definition fx_granted :: billing_db where
  "fx_granted = fx_db\<lparr>entitlements := [\<lparr>en_profile = 1, en_source = ''gift'', en_starts = fx_t0,
     en_ends = fx_t0 + 2 * day_ns, en_note = '''', en_created_by = None, en_payment = None, en_created_at = fx_t0\<rparr>]\<rparr>"

theorem GrantDaysForPayment_stacks_witness:
  "\<exists>db'. GrantDaysForPayment fx_later ''grant'' 1 7 ''purchase'' '''' None None fx_granted = Inr (fx_t0 + 9 * day_ns, db')
     \<and> Status fx_later None 1 db' = Inr (True, Some (fx_t0 + 9 * day_ns))"
proof -
  define r where "r = GrantDaysForPayment fx_later ''grant'' 1 7 ''purchase'' '''' None None fx_granted"
  have "isl r = False" "fst (projr r) = fx_t0 + 9 * day_ns" unfolding r_def by code_simp+
  then obtain db' where g: "GrantDaysForPayment fx_later ''grant'' 1 7 ''purchase'' '''' None None fx_granted = Inr (fx_t0 + 9 * day_ns, db')"
    by (cases r) (auto simp: r_def)
  from GrantDaysForPayment_stacks [OF g] g show ?thesis by (simp add: fx_later_def fx_env_def max_days_def)
qed

section \<open>Referrals\<close>

text \<open>
  A referral code is attached only to a learner who is not its owner, has never paid and whose
  account is younger than the attach window, and only once: afterwards the learner has exactly that
  pending referral and every further code is refused.
\<close>

theorem ApplyReferralCode_once:
  assumes ok: "ApplyReferralCode open_tx e referee raw db = Inr db1"
  shows "\<exists>owner prof. GetReferralCodeOwner e db (trim_space raw) = Some owner \<and> rc_user owner \<noteq> referee
     \<and> CountPaidPaymentsForProfile db referee = 0
     \<and> prof \<in> set (profiles db) \<and> pr_id prof = referee
     \<and> db1 = db\<lparr>referrals := referrals db @ [\<lparr>rf_referrer = rc_user owner, rf_referee = referee,
            rf_code = rc_code owner, rf_status = RefPending\<rparr>]\<rparr>
     \<and> (\<forall>r \<in> set (referrals db). rf_referee r \<noteq> referee)
     \<and> (\<forall>e2 raw2 db2. ApplyReferralCode open_tx e2 referee raw2 db1 \<noteq> Inr db2)"
proof -
  have shape: "\<exists>owner prof. GetReferralCodeOwner e' d (trim_space raw') = Some owner \<and> rc_user owner \<noteq> referee
     \<and> CountPaidPaymentsForProfile d referee = 0 \<and> prof \<in> set (profiles d) \<and> pr_id prof = referee
     \<and> CreateReferral (rc_user owner) referee (rc_code owner) d = Inr d'"
    if "ApplyReferralCode open_tx e' referee raw' d = Inr d'" for e' raw' d d'
    using that
    by (fastforce simp: ApplyReferralCode_def Let_def rbind_Inr_iff dest: find_SomeD
        split: if_splits option.splits sum.splits)
  from shape [OF ok] obtain owner prof where o: "GetReferralCodeOwner e db (trim_space raw) = Some owner"
    "rc_user owner \<noteq> referee" "CountPaidPaymentsForProfile db referee = 0" "prof \<in> set (profiles db)"
    "pr_id prof = referee" "CreateReferral (rc_user owner) referee (rc_code owner) db = Inr db1" by blast
  have db1: "db1 = db\<lparr>referrals := referrals db @ [\<lparr>rf_referrer = rc_user owner, rf_referee = referee,
            rf_code = rc_code owner, rf_status = RefPending\<rparr>]\<rparr>" "\<forall>r \<in> set (referrals db). rf_referee r \<noteq> referee"
    using o(6) by (auto simp: CreateReferral_def split: if_splits)
  moreover have "ApplyReferralCode open_tx e2 referee raw2 db1 \<noteq> Inr db2" for e2 raw2 db2
  proof
    assume "ApplyReferralCode open_tx e2 referee raw2 db1 = Inr db2"
    from shape [OF this] show False by (auto simp: db1(1) CreateReferral_def split: if_splits)
  qed
  ultimately show ?thesis using o by blast
qed

theorem ApplyReferralCode_once_witness:
  "\<exists>db1. ApplyReferralCode False fx_env 1 '' abc '' (fx_db\<lparr>referrals := []\<rparr>) = Inr db1
     \<and> (\<forall>e2 raw2 db2. ApplyReferralCode False e2 1 raw2 db1 \<noteq> Inr db2)"
proof -
  define db1 where "db1 = projr (ApplyReferralCode False fx_env 1 '' abc '' (fx_db\<lparr>referrals := []\<rparr>))"
  have "isl (ApplyReferralCode False fx_env 1 '' abc '' (fx_db\<lparr>referrals := []\<rparr>)) = False" by code_simp
  then have a: "ApplyReferralCode False fx_env 1 '' abc '' (fx_db\<lparr>referrals := []\<rparr>) = Inr db1"
    by (cases "ApplyReferralCode False fx_env 1 '' abc '' (fx_db\<lparr>referrals := []\<rparr>)") (simp_all add: db1_def)
  from ApplyReferralCode_once [OF a] a show ?thesis by blast
qed

lemma reward_claims:
  assumes "processReferralRewardOnPayment e p pm db = Inr db'"
  shows "\<forall>r \<in> set (referrals db'). \<not> (rf_referee r = p \<and> rf_status r = RefPending)"
proof (cases "ClaimPendingReferralForReferee p db")
  case (Inl err)
  then have none: "find (\<lambda>r. rf_referee r = p \<and> rf_status r = RefPending) (referrals db) = None"
    by (auto simp: ClaimPendingReferralForReferee_def split: option.splits)
  have "db' = db"
  proof (cases "flt e ''reward'' ''ClaimPendingReferralForReferee''")
    case True
    then show ?thesis using assms by (simp add: processReferralRewardOnPayment_def stmt_def)
  next
    case False
    then show ?thesis using assms Inl by (cases "err = Sql ErrNoRows") (simp_all add: processReferralRewardOnPayment_def stmt_def)
  qed
  then show ?thesis using none by (simp add: find_None_iff)
next
  case (Inr y)
  obtain cl db1 where y: "y = (cl, db1)" by (cases y)
  have "referrals db1 = upd_where (\<lambda>r. rf_referee r = p \<and> rf_status r = RefPending)
      (\<lambda>r. r\<lparr>rf_status := RefRewarded\<rparr>) (referrals db)"
    using Inr y by (auto simp: ClaimPendingReferralForReferee_def split: option.splits)
  then have db1: "\<forall>r \<in> set (referrals db1). \<not> (rf_referee r = p \<and> rf_status r = RefPending)"
    by (simp only:) (rule upd_where_all; simp)
  have "\<not> flt e ''reward'' ''ClaimPendingReferralForReferee''"
    using assms by (cases "flt e ''reward'' ''ClaimPendingReferralForReferee''")
      (simp_all add: processReferralRewardOnPayment_def stmt_def)
  then have st: "stmt e ''reward'' ''ClaimPendingReferralForReferee'' (ClaimPendingReferralForReferee p db) = Inr (cl, db1)"
    using Inr y by simp
  let ?b = "BuyerReferralBonusDays (p_tariff_days pm)"
  obtain db2 pct where db2: "(if 0 < ?b then rbind (GrantDaysForPayment e ''bonus'' p ?b
        ''referral_buyer'' (''Referral buyer bonus (+'' @ show_int ?b @ '' days)'') None
        (Some (p_id pm)) db1) (\<lambda>(_, db2). Inr db2) else Inr db1) = Inr db2"
    and cred: "creditReferralCommission e (rf_referrer cl) (p_id pm) (p_amount pm) pct db2 = Inr db'"
    using assms unfolding processReferralRewardOnPayment_def st by (auto simp: Let_def rbind_Inr_iff)
  have "referrals db2 = referrals db1"
    using db2 by (auto simp: rbind_Inr_iff dest: GrantDaysForPayment_ok(3) split: if_splits)
  moreover have "referrals db' = referrals db2"
    using creditReferralCommission_ok [OF cred] by auto
  ultimately show ?thesis using db1 by simp
qed

lemma no_pending_no_reward:
  assumes "processReferralRewardOnPayment e p pm db = Inr db'"
    and "\<forall>r \<in> set (referrals db). \<not> (rf_referee r = p \<and> rf_status r = RefPending)"
  shows "db' = db"
proof -
  have "find (\<lambda>r. rf_referee r = p \<and> rf_status r = RefPending) (referrals db) = None"
    using assms(2) by (auto simp: find_None_iff)
  then show ?thesis using assms(1)
    by (auto simp: processReferralRewardOnPayment_def stmt_def ClaimPendingReferralForReferee_def split: if_splits)
qed

text \<open>
  C20: a referral pays out on the referee's first completed payment only: a later payment of the same
  learner grants its own days and neither bonus days nor a commission.
\<close>

theorem referral_rewarded_once:
  assumes "ProcessPaymentGrant e pay db = Inr db1" and "GetPaymentForPayme db pay = Some pm"
    and "ProcessPaymentGrant e2 pay2 db1 = Inr db2" and "GetPaymentForPayme db1 pay2 = Some pm2"
    and "p_profile pm2 = p_profile pm"
  shows "ledger db2 = ledger db1 \<and>
    (\<exists>row. entitlements db2 = entitlements db1 @ [row] \<and> purchase_row pay2 row)"
proof -
  from assms(1) obtain pm' days nt dba stop dbb where "GetPaymentForPayme db pay = Some pm'"
    and r1: "processReferralRewardOnPayment e (p_profile pm') pm' dbb = Inr db1"
    by (rule ProcessPaymentGrant_cases)
  then have none: "\<forall>r \<in> set (referrals db1). \<not> (rf_referee r = p_profile pm \<and> rf_status r = RefPending)"
    using assms(2) reward_claims [OF r1] by simp
  from assms(3) obtain qm days2 nt2 dbc stop2 dbd where q: "GetPaymentForPayme db1 pay2 = Some qm"
    and t: "grant_terms e2 qm db1 = Inr (days2, nt2, dbc)"
    and g: "GrantDaysForPayment e2 ''grant'' (p_profile qm) days2 ''purchase'' nt2 None (Some pay2) dbc = Inr (stop2, dbd)"
    and r2: "processReferralRewardOnPayment e2 (p_profile qm) qm dbd = Inr db2"
    by (rule ProcessPaymentGrant_cases)
  note tt = grant_terms_ok [OF t] and gg = GrantDaysForPayment_ok(3) [OF g]
  have "referrals dbd = referrals db1" using tt(4) gg by simp
  then have "db2 = dbd"
    using none q assms(4,5) by (intro no_pending_no_reward [OF r2]) simp
  then show ?thesis using tt(2,3) gg by (auto simp: purchase_row_def)
qed

definition fx_two_orders :: billing_db where
  "fx_two_orders = fx_db\<lparr>payments := [fx_order, fx_order\<lparr>p_id := 11\<rparr>]\<rparr>"

theorem referral_rewarded_once_witness:
  "\<exists>db1 db2. ProcessPaymentGrant fx_env 10 fx_two_orders = Inr db1 \<and> ProcessPaymentGrant fx_later 11 db1 = Inr db2
     \<and> GetReferralBalance db1 2 = 5000 \<and> GetReferralBalance db2 2 = 5000"
proof -
  define db1 where "db1 = projr (ProcessPaymentGrant fx_env 10 fx_two_orders)"
  define db2 where "db2 = projr (ProcessPaymentGrant fx_later 11 db1)"
  have "isl (ProcessPaymentGrant fx_env 10 fx_two_orders) = False" by code_simp
  then have a: "ProcessPaymentGrant fx_env 10 fx_two_orders = Inr db1"
    by (cases "ProcessPaymentGrant fx_env 10 fx_two_orders") (simp_all add: db1_def)
  have "isl (ProcessPaymentGrant fx_later 11 (projr (ProcessPaymentGrant fx_env 10 fx_two_orders))) = False" by code_simp
  then have b: "ProcessPaymentGrant fx_later 11 db1 = Inr db2"
    by (cases "ProcessPaymentGrant fx_later 11 db1") (simp_all add: db1_def db2_def)
  have c: "GetPaymentForPayme fx_two_orders 10 = Some fx_order"
    "GetPaymentForPayme db1 11 = Some (fx_order\<lparr>p_id := 11\<rparr>)" "GetReferralBalance db1 2 = 5000"
    unfolding db1_def by code_simp+
  have "ledger db2 = ledger db1" using referral_rewarded_once [OF a c(1) b c(2)] by simp
  then have "GetReferralBalance db2 2 = GetReferralBalance db1 2" by (simp add: GetReferralBalance_def)
  with a b c(3) show ?thesis by auto
qed

section \<open>What a refund can miss\<close>

text \<open>
  C21: a refund reads one entitlement of the order, without an order by, to find the time it cuts the order's entitlements
  at. If the row it reads has not begun, every other row of the order that ends by that row's start is left as it is:
  a row that is running at the time of the refund (the purchase, when the row read is the referral bonus stacked behind it)
  runs on to its end, and its owner keeps access.
\<close>

theorem refund_can_miss_purchase:
  assumes refund: "RevokeEntitlementForPayment e pay db = Inr db'"
    and picked: "GetEntitlementByPaymentID e db pay = Some picked" "\<not> en_starts picked < clk e ''revoke''"
    and row: "row \<in> set (entitlements db)" "en_payment row = Some pay" "en_ends row \<le> en_starts picked"
  shows "row \<in> set (entitlements db')
    \<and> (clk e ''revoke'' < en_ends row \<longrightarrow> ActiveEntitlementEnd (clk e ''revoke'') db' (en_profile row) \<noteq> None)"
proof -
  obtain db1 where db1: "db1 = ClampAllEntitlementsForPayment pay (en_starts picked + second) '' | refunded'' db"
    and claw: "ClawbackReferralCommissionOnRefund e pay db1 = Inr db'"
    using refund picked by (auto simp: RevokeEntitlementForPayment_def rbind_Inr_iff split: if_splits)
  have "\<not> en_starts picked + second < en_ends row" using row(3) by (simp add: second_def)
  then have "row \<in> set (entitlements db1)"
    using row(1) by (auto simp: db1 ClampAllEntitlementsForPayment_def set_upd_where)
  then have "row \<in> set (entitlements db')" using Clawback_ok [OF claw] by auto
  then show ?thesis by (auto simp: ActiveEntitlementEnd_None)
qed

text \<open>A referred learner's first purchase, refunded ten minutes after it was paid: the row read is the bonus.\<close>

definition fx_reads_bonus :: env where
  "fx_reads_bonus = fx_later\<lparr>pick := (\<lambda>_. 1)\<rparr>"

theorem refund_can_miss_purchase_witness:
  "\<exists>db'. RevokeEntitlementForPayment fx_reads_bonus 10 (projr (ProcessPaymentGrant fx_env 10 fx_db)) = Inr db'
     \<and> ActiveEntitlementEnd (fx_t0 + 600 * second) db' 1 \<noteq> None"
proof -
  let ?db = "projr (ProcessPaymentGrant fx_env 10 fx_db)"
  let ?row = "hd (entitlements ?db)"
  have "isl (RevokeEntitlementForPayment fx_reads_bonus 10 ?db) = False" by code_simp
  then obtain db' where r: "RevokeEntitlementForPayment fx_reads_bonus 10 ?db = Inr db'"
    by (cases "RevokeEntitlementForPayment fx_reads_bonus 10 ?db") simp_all
  have p: "GetEntitlementByPaymentID fx_reads_bonus ?db 10 = Some (entitlements ?db ! 1)"
    "\<not> en_starts (entitlements ?db ! 1) < clk fx_reads_bonus ''revoke''"
    "?row \<in> set (entitlements ?db)" "en_payment ?row = Some 10" "en_ends ?row \<le> en_starts (entitlements ?db ! 1)"
    by code_simp+
  have c: "clk fx_reads_bonus ''revoke'' < en_ends ?row" "en_profile ?row = 1"
    "clk fx_reads_bonus ''revoke'' = fx_t0 + 600 * second" by code_simp+
  show ?thesis using r refund_can_miss_purchase [OF r p] c by simp
qed

end
