(* ===== verification/Checkout.thy ===== *)
theory Checkout
  imports Settlement
begin

text \<open>
  Checkout (\<open>internal/billing/checkout.go\<close>, \<open>provider_status.go\<close> and \<open>internal/flags\<close>): the kill switches of
  the payment providers, the checkout URLs and \<open>StartCheckout\<close>, which prices an order, applies a referral
  or promo code and either creates the order or grants a free one at once. \<open>pool\<close> is whether the
  service was built with a connection pool, as the code distinguishes the two.
\<close>

section \<open>Feature flags and provider switches\<close>

definition KeyCheckoutPayme :: string where "KeyCheckoutPayme = ''checkout_payme''"
definition KeyCheckoutClick :: string where "KeyCheckoutClick = ''checkout_click''"
definition KeyCheckoutManual :: string where "KeyCheckoutManual = ''checkout_manual''"

text \<open>
  \<open>flags.Bool\<close>: \<open>bool_flags\<close> holds the rows of type boolean with a parsable value; every other row
  reads as the default.
\<close>

definition flags_Bool :: "env \<Rightarrow> string \<Rightarrow> bool \<Rightarrow> bool \<Rightarrow> billing_db \<Rightarrow> billing_err + bool" where
  "flags_Bool e key defaultVal pool db =
     (if \<not> pool then Inr defaultVal
      else stmt e ''flags.Bool'' key
        (Inr (case map_of (bool_flags db) key of None \<Rightarrow> defaultVal | Some v \<Rightarrow> v)))"

definition knownProviders :: "string list" where
  "knownProviders = [''payme'', ''click'', ''manual'']"

definition isKnownProvider :: "string \<Rightarrow> bool" where
  "isKnownProvider provider \<longleftrightarrow> list_ex (\<lambda>p. p = provider) knownProviders"

definition flagKeyForProvider :: "string \<Rightarrow> string option" where
  "flagKeyForProvider provider =
     (if provider = ''payme'' then Some KeyCheckoutPayme
      else if provider = ''click'' then Some KeyCheckoutClick
      else if provider = ''manual'' then Some KeyCheckoutManual
      else None)"

definition EnsureProviderEnabled :: "env \<Rightarrow> bool \<Rightarrow> string \<Rightarrow> billing_db \<Rightarrow> billing_err + unit" where
  "EnsureProviderEnabled e pool provider db =
     (if \<not> isKnownProvider provider then Inr ()
      else if \<not> pool then Inr ()
      else case flagKeyForProvider provider of
          None \<Rightarrow> Inr ()
        | Some flagKey \<Rightarrow>
            rbind (flags_Bool e flagKey True pool db) (\<lambda>flagOn.
            if \<not> flagOn then Inl ErrProviderDisabled
            else if flt e ''EnsureProviderEnabled'' ''payment_provider_status'' then Inr ()
            else case map_of (provider_status db) provider of
                None \<Rightarrow> Inr ()
              | Some enabled \<Rightarrow> if enabled then Inr () else Inl ErrProviderDisabled))"

text \<open>
  The rows of \<open>payment_provider_status\<close> for the known providers, ordered by provider, then the
  missing ones as enabled; the feature flags are and-ed onto them.
\<close>

definition ListProviderStatuses :: "env \<Rightarrow> bool \<Rightarrow> billing_db \<Rightarrow> billing_err + (string \<times> bool) list" where
  "ListProviderStatuses e pool db =
     (if \<not> pool then Inr [(''payme'', True), (''click'', True), (''manual'', True)]
      else rbind (stmt e ''ListProviderStatuses'' ''payment_provider_status''
             (Inr (filter (\<lambda>r. fst r \<in> set knownProviders) (provider_status db)))) (\<lambda>rows.
        let sorted = concat (map (\<lambda>p. filter (\<lambda>r. fst r = p) rows) [''click'', ''manual'', ''payme'']);
            out = sorted @ map (\<lambda>p. (p, True)) (filter (\<lambda>p. p \<notin> fst ` set sorted) knownProviders)
        in rbind (flags_Bool e KeyCheckoutPayme True pool db) (\<lambda>paymeFlag.
           rbind (flags_Bool e KeyCheckoutClick True pool db) (\<lambda>clickFlag.
           rbind (flags_Bool e KeyCheckoutManual True pool db) (\<lambda>manualFlag.
           Inr (map (\<lambda>(p, on). (p, on \<and> (p = ''payme'' \<longrightarrow> paymeFlag) \<and> (p = ''click'' \<longrightarrow> clickFlag)
                  \<and> (p = ''manual'' \<longrightarrow> manualFlag))) out))))))"

definition SetProviderEnabled ::
  "env \<Rightarrow> bool \<Rightarrow> string \<Rightarrow> bool \<Rightarrow> billing_db \<Rightarrow> (billing_err + (string \<times> bool)) \<times> billing_db" where
  "SetProviderEnabled e pool provider enabled db =
     (if \<not> isKnownProvider provider then (Inl ErrUnknownProvider, db)
      else if \<not> pool then (Inl ErrRequiresPool, db)
      else if flt e ''SetProviderEnabled'' ''payment_provider_status'' then (Inl (Sql DbFailure), db)
      else (Inr (provider, enabled), db\<lparr>provider_status :=
        (if provider \<in> fst ` set (provider_status db)
         then map (\<lambda>(p, on). (p, if p = provider then enabled else on)) (provider_status db)
         else provider_status db @ [(provider, enabled)])\<rparr>))"

section \<open>Checkout URLs\<close>

definition b64_char :: "nat \<Rightarrow> char" where
  "b64_char n = (''ABCDEFGHIJKLMNOPQRSTUVWXYZabcdefghijklmnopqrstuvwxyz0123456789+/'' ! n)"

text \<open>\<open>base64.StdEncoding.EncodeToString\<close> on bytes.\<close>

fun b64_encode :: "nat list \<Rightarrow> string" where
  "b64_encode [] = []"
| "b64_encode [a] = [b64_char (a div 4), b64_char (a mod 4 * 16), CHR ''='', CHR ''='']"
| "b64_encode [a, b] =
     [b64_char (a div 4), b64_char (a mod 4 * 16 + b div 16), b64_char (b mod 16 * 4), CHR ''='']"
| "b64_encode (a # b # c # r) =
     [b64_char (a div 4), b64_char (a mod 4 * 16 + b div 16), b64_char (b mod 16 * 4 + c div 64),
      b64_char (c mod 64)] @ b64_encode r"

definition join_semi :: "string list \<Rightarrow> string" where
  "join_semi parts = (case parts of [] \<Rightarrow> [] | p # ps \<Rightarrow> p @ concat (map (\<lambda>q. CHR '';'' # q) ps))"

definition BuildPaymeURL :: "string \<Rightarrow> string \<Rightarrow> string \<Rightarrow> int \<Rightarrow> string \<Rightarrow> string \<Rightarrow> string" where
  "BuildPaymeURL host merchantID orderID amountUZS locale returnURL =
     rev (dropWhile (\<lambda>c. c = CHR ''/'') (rev host)) @ ''/'' @
     b64_encode (map of_char (join_semi
       ([''m='' @ merchantID, ''ac.order_id='' @ orderID, ''a='' @ show_int (wrap64 (amountUZS * 100))]
        @ (if locale \<noteq> '''' then [''l='' @ locale] else [])
        @ (if returnURL \<noteq> '''' then [''c='' @ returnURL] else []))))"

text \<open>\<open>url.QueryEscape\<close> on a byte.\<close>

definition hex_digit :: "nat \<Rightarrow> char" where
  "hex_digit n = (''0123456789ABCDEF'' ! n)"

definition query_escape :: "string \<Rightarrow> string" where
  "query_escape s = concat (map (\<lambda>c. let n = (of_char c :: nat) in
     if c = CHR '' '' then ''+''
     else if is_digit c \<or> (65 \<le> n \<and> n \<le> 90) \<or> (97 \<le> n \<and> n \<le> 122) \<or> c \<in> {CHR ''-'', CHR ''_'', CHR ''.'', CHR ''~''}
     then [c] else [CHR ''%'', hex_digit (n div 16), hex_digit (n mod 16)]) s)"

definition query_pair :: "string \<times> string \<Rightarrow> string" where
  "query_pair kv = query_escape (fst kv) @ ''='' @ query_escape (snd kv)"

definition BuildClickURL :: "string \<Rightarrow> string \<Rightarrow> string \<Rightarrow> int \<Rightarrow> string \<Rightarrow> string" where
  "BuildClickURL serviceID merchantID orderID amountUZS returnURL =
     (let kvs = [(''amount'', show_int amountUZS), (''merchant_id'', merchantID)]
            @ (if returnURL \<noteq> '''' then [(''return_url'', returnURL)] else [])
            @ [(''service_id'', serviceID), (''transaction_param'', orderID)]
      in ''https://my.click.uz/services/pay?'' @
         (case map query_pair kvs of [] \<Rightarrow> [] | p # ps \<Rightarrow> p @ concat (map (\<lambda>q. CHR ''&'' # q) ps)))"

definition webCheckoutLocales :: "string list" where
  "webCheckoutLocales = [''uz-Latn'', ''uz-Cyrl'', ''ru'']"

definition publicBaseURL :: "string \<Rightarrow> string" where
  "publicBaseURL configured = (if configured \<noteq> '''' then configured else ''http://localhost:3000'')"

definition checkoutPendingReturnURL :: "string \<Rightarrow> string \<Rightarrow> string" where
  "checkoutPendingReturnURL base locale =
     (let loc = (if locale \<in> set webCheckoutLocales then locale else i18n_Default)
      in publicBaseURL base @ ''/'' @ loc @ ''/checkout/pending'')"

definition telegramBotUsername :: "string \<Rightarrow> bool" where
  "telegramBotUsername s \<longleftrightarrow> 5 \<le> length s \<and> length s \<le> 32 \<and>
     list_all (\<lambda>c. let n = (of_char c :: nat) in
       is_digit c \<or> (65 \<le> n \<and> n \<le> 90) \<or> (97 \<le> n \<and> n \<le> 122) \<or> c = CHR ''_'') s"

definition checkoutDoneReturnURL :: "string \<Rightarrow> string \<Rightarrow> string \<Rightarrow> string" where
  "checkoutDoneReturnURL base locale botName =
     (let loc = (if locale \<in> set webCheckoutLocales then locale else i18n_Default);
          u = publicBaseURL base @ ''/'' @ loc @ ''/checkout/done''
      in if telegramBotUsername botName then u @ ''/'' @ botName else u)"

section \<open>Starting a checkout\<close>

record CheckoutConfig =
  PaymeMerchantID :: string
  PaymeCheckoutHost :: string
  ClickServiceID :: string
  ClickMerchantID :: string

record CheckoutResult =
  cr_payment :: uuid
  cr_url :: string
  cr_free :: bool

text \<open>
  The price of an order: the amount, the promo code to attach and its bonus days, and whether the transaction is aborted. The
  statement that follows fails in an aborted transaction (\<open>in_aborted\<close>).
\<close>

definition in_aborted :: "bool \<Rightarrow> (billing_err + 'a) \<Rightarrow> billing_err + 'a" where
  "in_aborted aborted m = (if aborted then Inl (Sql DbFailure) else m)"

lemma in_aborted_Inr [simp]: "in_aborted a m = Inr x \<longleftrightarrow> \<not> a \<and> m = Inr x"
  by (simp add: in_aborted_def)

definition checkout_price ::
  "env \<Rightarrow> uuid \<Rightarrow> string \<Rightarrow> string \<Rightarrow> tariff_row \<Rightarrow> billing_db
     \<Rightarrow> billing_err + (int \<times> uuid option \<times> int \<times> bool \<times> billing_db)" where
  "checkout_price e prof tariffCode promoCode tariff db =
     (if promoCode = '''' then Inr (tf_price tariff, None, 0, False, db)
      else rbind (TryApplyReferralAtCheckout e prof promoCode db) (\<lambda>(wasReferral, aborted, db1).
        if wasReferral then Inr (tf_price tariff, None, 0, aborted, db1)
        else rbind (validatePromoLocked e prof promoCode tariffCode db1) (\<lambda>valRes.
          Inr (vr_final valRes, Some (vr_promo_id valRes), vr_bonus_days valRes, aborted, db1))))"

definition checkout_free ::
  "env \<Rightarrow> uuid \<Rightarrow> tariff_row \<Rightarrow> uuid \<Rightarrow> uuid option \<Rightarrow> int \<Rightarrow> billing_db \<Rightarrow> billing_err + billing_db" where
  "checkout_free e prof tariff paymentID promoID bonusDays db =
     rbind (stmt e ''StartCheckout'' ''MarkPaymentPaid'' (Inr (MarkPaymentPaid e paymentID db))) (\<lambda>db1.
     rbind (GrantDaysForPayment e ''checkout'' prof (tf_days tariff + bonusDays) ''promo''
              ''zero-amount promo checkout'' None (Some paymentID) db1) (\<lambda>(_, db2).
     case promoID of
        None \<Rightarrow> Inr db2
      | Some promo \<Rightarrow>
          (case stmt e ''StartCheckout'' ''CreatePromoRedemption''
                  (CreatePromoRedemption promo prof (Some paymentID) db2) of
             Inr db3 \<Rightarrow> Inr db3
           | Inl err \<Rightarrow> Inl (if err = Sql UniqueViolation then ErrPromoLimitReached else err))))"

definition StartCheckout_tx ::
  "env \<Rightarrow> bool \<Rightarrow> uuid \<Rightarrow> string \<Rightarrow> string \<Rightarrow> string \<Rightarrow> tariff_row \<Rightarrow> billing_db
     \<Rightarrow> billing_err + ((uuid \<times> int) \<times> billing_db)" where
  "StartCheckout_tx e pool prof tariffCode provider promoCode tariff db =
     rbind (checkout_price e prof tariffCode promoCode tariff db) (\<lambda>(amount, promoID, bonusDays, aborted, db1).
     rbind (if 0 < amount then EnsureProviderEnabled e pool provider db1 else Inr ()) (\<lambda>_.
     rbind (in_aborted aborted (stmt e ''StartCheckout'' ''CreatePayment'' (CreatePayment e prof (tf_id tariff) amount provider
              promoID (tf_days tariff) (tf_price tariff) db1))) (\<lambda>(paymentID, db2).
     if amount = 0
     then rbind (checkout_free e prof tariff paymentID promoID bonusDays db2) (\<lambda>db3.
            Inr ((paymentID, amount), db3))
     else Inr ((paymentID, amount), db2))))"

definition StartCheckout ::
  "(uuid \<Rightarrow> string) \<Rightarrow> env \<Rightarrow> uuid \<Rightarrow> string \<Rightarrow> string \<Rightarrow> CheckoutConfig \<Rightarrow> string \<Rightarrow> string \<Rightarrow> string \<Rightarrow> billing_db
     \<Rightarrow> (billing_err + CheckoutResult) \<times> billing_db" where
  "StartCheckout uuid_str e prof tariffCode provider cfg locale returnURL promoCode db =
     (if flt e ''StartCheckout'' ''GetActiveTariffByCode'' then (Inl (Sql DbFailure), db)
      else case GetActiveTariffByCode db tariffCode of
          None \<Rightarrow> (Inl (Sql ErrNoRows), db)
        | Some tariff \<Rightarrow>
            (case run_tx e ''StartCheckout'' (StartCheckout_tx e True prof tariffCode provider promoCode tariff) db of
               (Inl err, db') \<Rightarrow> (Inl err, db')
             | (Inr (paymentID, amount), db') \<Rightarrow>
                 (Inr (if amount = 0 then \<lparr>cr_payment = paymentID, cr_url = '''', cr_free = True\<rparr>
                       else \<lparr>cr_payment = paymentID,
                             cr_url = (if provider = ''click''
                               then BuildClickURL (ClickServiceID cfg) (ClickMerchantID cfg) (uuid_str paymentID) amount returnURL
                               else BuildPaymeURL (PaymeCheckoutHost cfg) (PaymeMerchantID cfg) (uuid_str paymentID) amount locale returnURL),
                             cr_free = False\<rparr>), db')))"

end
