(* ===== verification/Checkout_Properties.thy ===== *)
theory Checkout_Properties
  imports Checkout Promo_Properties
begin

text \<open>
  What a checkout promises: it fails without a trace, freezes the price and the days it sold, obeys the
  kill switches, grants only free orders, and keeps promo codes inside their limits.
\<close>

lemma TryApply_frame:
  assumes "TryApplyReferralAtCheckout e prof code db = Inr (b, ab, db')"
  shows "redemptions db' = redemptions db" and "promo_codes db' = promo_codes db"
    and "payments db' = payments db" and "entitlements db' = entitlements db" and "bool_flags db' = bool_flags db"
    and "provider_status db' = provider_status db"
proof -
  have a: "db1 = db \<or> (\<exists>r. db1 = db\<lparr>referrals := r\<rparr>)" if "ApplyReferralCode True e p c db = Inr db1" for p c db1
    using that by (auto simp: ApplyReferralCode_def Let_def rbind_Inr_iff CreateReferral_def
        split: if_splits option.splits sum.splits)
  have "db' = db \<or> (\<exists>r. db' = db\<lparr>referrals := r\<rparr>)"
    using assms a by (fastforce simp: TryApplyReferralAtCheckout_def Let_def split: if_splits sum.splits)
  then show "redemptions db' = redemptions db" "promo_codes db' = promo_codes db"
    "payments db' = payments db" "entitlements db' = entitlements db" "bool_flags db' = bool_flags db"
    "provider_status db' = provider_status db" by auto
qed

lemma TryApply_no_referral: "TryApplyReferralAtCheckout e prof code db = Inr (False, ab, db') \<Longrightarrow> db' = db"
  by (auto simp: TryApplyReferralAtCheckout_def Let_def split: if_splits sum.splits)

text \<open>A referral code leaves the transaction usable only for a learner without a referral.\<close>

lemma TryApply_fresh:
  assumes "TryApplyReferralAtCheckout e prof pc db = Inr (b, False, db1)"
    and "trim_space pc \<noteq> ''''" and "GetReferralCodeOwner e db (trim_space pc) \<noteq> None"
  shows "prof \<notin> rf_referee ` set (referrals db)"
proof -
  from assms obtain dbr where "ApplyReferralCode True e prof (trim_space pc) db = Inr dbr"
    by (auto simp: TryApplyReferralAtCheckout_def Let_def split: if_splits sum.splits)
  then show ?thesis
    by (auto simp: ApplyReferralCode_def Let_def rbind_Inr_iff CreateReferral_def split: if_splits option.splits sum.splits)
qed

lemma checkout_price_fresh:
  assumes "checkout_price e prof tc pc t db = Inr (amount, promoID, bonus, False, db1)"
    and "trim_space pc \<noteq> ''''" and "GetReferralCodeOwner e db (trim_space pc) \<noteq> None"
  shows "prof \<notin> rf_referee ` set (referrals db)"
proof -
  have "pc \<noteq> ''''" using assms(2) by (auto simp: trim_space_def)
  then obtain b dbt where "TryApplyReferralAtCheckout e prof pc db = Inr (b, False, dbt)"
    using assms(1) by (auto simp: checkout_price_def rbind_Inr_iff split: if_splits)
  then show ?thesis using assms(2,3) by (rule TryApply_fresh)
qed

lemma EnsureProviderEnabled_row:
  assumes "EnsureProviderEnabled e True provider db = Inr ()" and "isKnownProvider provider"
    and "\<not> flt e ''EnsureProviderEnabled'' ''payment_provider_status''"
  shows "map_of (provider_status db) provider \<noteq> Some False"
  using assms by (auto simp: EnsureProviderEnabled_def isKnownProvider_def knownProviders_def flagKeyForProvider_def rbind_Inr_iff
      split: if_splits option.splits)

text \<open>What \<open>checkout_price\<close> returns: the list price, or the price a redeemable promo code gives.\<close>

lemma checkout_price_cases:
  assumes "checkout_price e prof tc pc t db = Inr (amount, promoID, bonus, ab, db1)"
  obtains (list_price) "amount = tf_price t" and "promoID = None" and "bonus = 0"
      and "db1 = db \<or> (\<exists>b. TryApplyReferralAtCheckout e prof pc db = Inr (b, ab, db1))"
  | (promo) p r where "p \<in> set (promo_codes db)" and "checkPromoRedeemable e p prof db1 = Inr ()"
      and "evaluatePromo e p prof tc db1 = Inr r" and "amount = vr_final r" and "promoID = Some (pc_id p)"
      and "bonus = vr_bonus_days r" and "TryApplyReferralAtCheckout e prof pc db = Inr (False, ab, db1)"
proof (cases "pc = ''''")
  case True
  then show thesis using assms by (intro list_price) (auto simp: checkout_price_def)
next
  case False
  then obtain b a dbt where t: "TryApplyReferralAtCheckout e prof pc db = Inr (b, a, dbt)"
    using assms by (auto simp: checkout_price_def rbind_Inr_iff)
  show thesis
  proof (cases b)
    case True
    then show thesis using assms False t by (intro list_price) (auto simp: checkout_price_def)
  next
    case nb: False
    with assms False t obtain r where v: "validatePromoLocked e prof pc tc dbt = Inr r"
      and r: "amount = vr_final r" "promoID = Some (vr_promo_id r)" "bonus = vr_bonus_days r" "db1 = dbt" "ab = a"
      by (auto simp: checkout_price_def rbind_Inr_iff)
    from v obtain p where p: "GetPromoCodeByCode e dbt (trim_space pc) = Some p" "evaluatePromo e p prof tc dbt = Inr r"
      by (auto simp: validatePromoLocked_def Let_def split: if_splits option.splits)
    have "p \<in> set (promo_codes db)"
      using p(1) TryApply_frame(2) [OF t] by (auto simp: GetPromoCodeByCode_def dest: select_one_in)
    moreover have "checkPromoRedeemable e p prof dbt = Inr ()" "vr_promo_id r = pc_id p"
      using p(2) by (auto elim: evaluatePromo_split)
    ultimately show thesis using p r t nb by (intro promo) simp_all
  qed
qed

lemma CreatePayment_ok:
  assumes "CreatePayment e prof tariff amount prov promo days price db = Inr (pid, db')"
  obtains pm where "db' = db\<lparr>payments := payments db @ [pm]\<rparr>" and "p_id pm = pid" and "p_profile pm = prof"
    and "p_amount pm = amount" and "p_status pm = Created" and "p_promo pm = promo" and "p_tariff_days pm = days"
    and "p_tariff_price pm = price" and "p_provider pm = prov" and "pid \<notin> p_id ` set (payments db)" and "0 \<le> amount"
  using assms by (auto simp: CreatePayment_def split: if_splits)

lemma EnsureProviderEnabled_frame:
  assumes "bool_flags db1 = bool_flags db" and "provider_status db1 = provider_status db"
  shows "EnsureProviderEnabled e pool provider db1 = EnsureProviderEnabled e pool provider db"
proof -
  have "flags_Bool e k d pool db1 = flags_Bool e k d pool db" for k d
    using assms(1) by (simp add: flags_Bool_def)
  then show ?thesis unfolding EnsureProviderEnabled_def assms(2) by (simp only:)
qed

lemma checkout_free_ok:
  assumes "checkout_free e prof t pid promoID bonus db = Inr db'"
  obtains stop dbg where "GrantDaysForPayment e ''checkout'' prof (tf_days t + bonus) ''promo''
      ''zero-amount promo checkout'' None (Some pid) (MarkPaymentPaid e pid db) = Inr (stop, dbg)"
    and "promoID = None \<Longrightarrow> db' = dbg"
    and "\<And>i. promoID = Some i \<Longrightarrow> CreatePromoRedemption i prof (Some pid) dbg = Inr db'"
proof -
  from assms obtain stop dbg where g: "GrantDaysForPayment e ''checkout'' prof (tf_days t + bonus) ''promo''
      ''zero-amount promo checkout'' None (Some pid) (MarkPaymentPaid e pid db) = Inr (stop, dbg)"
    and k: "(case promoID of None \<Rightarrow> Inr dbg | Some promo \<Rightarrow> (case stmt e ''StartCheckout'' ''CreatePromoRedemption''
         (CreatePromoRedemption promo prof (Some pid) dbg) of Inr db3 \<Rightarrow> Inr db3
         | Inl err \<Rightarrow> Inl (if err = Sql UniqueViolation then ErrPromoLimitReached else err))) = Inr db'"
    by (auto simp: checkout_free_def rbind_Inr_iff)
  have a: "CreatePromoRedemption i prof (Some pid) dbg = Inr db'" if "promoID = Some i" for i
    using k that by (cases "CreatePromoRedemption i prof (Some pid) dbg") (auto simp: stmt_def split: if_splits)
  have b: "db' = dbg" if "promoID = None" using k that by simp
  show thesis by (rule that [OF g b a])
qed

lemma StartCheckout_failed:
  "StartCheckout us e prof tc provider cfg loc ret pc db = (Inl err, db') \<Longrightarrow> db' = db"
  by (cases "GetActiveTariffByCode db tc")
    (auto simp: StartCheckout_def dest: run_tx_failed split: if_splits prod.splits sum.splits)

lemma StartCheckout_success:
  assumes "StartCheckout us e prof tc provider cfg loc ret pc db = (Inr res, db')"
  obtains t amount promoID bonus db1 db2 pid where "GetActiveTariffByCode db tc = Some t"
    and "checkout_price e prof tc pc t db = Inr (amount, promoID, bonus, False, db1)"
    and "0 < amount \<Longrightarrow> EnsureProviderEnabled e True provider db1 = Inr ()"
    and "CreatePayment e prof (tf_id t) amount provider promoID (tf_days t) (tf_price t) db1 = Inr (pid, db2)"
    and "cr_payment res = pid" and "cr_free res \<longleftrightarrow> amount = 0"
    and "(if amount = 0 then checkout_free e prof t pid promoID bonus db2 else Inr db2) = Inr db'"
proof -
  have f: "\<not> flt e ''StartCheckout'' ''GetActiveTariffByCode''" using assms by (auto simp: StartCheckout_def)
  obtain t where t: "GetActiveTariffByCode db tc = Some t"
    using assms f by (cases "GetActiveTariffByCode db tc") (auto simp: StartCheckout_def)
  obtain out dbo where run: "run_tx e ''StartCheckout'' (StartCheckout_tx e True prof tc provider pc t) db = (out, dbo)"
    by (cases "run_tx e ''StartCheckout'' (StartCheckout_tx e True prof tc provider pc t) db")
  obtain pid amount where out: "out = Inr (pid, amount)"
    using assms f t run by (cases out) (auto simp: StartCheckout_def)
  have res: "cr_payment res = pid" "cr_free res \<longleftrightarrow> amount = 0" and dbo: "dbo = db'"
    using assms f t run out by (auto simp: StartCheckout_def split: if_splits)
  have "StartCheckout_tx e True prof tc provider pc t db = Inr ((pid, amount), db')"
    using run out dbo by (simp add: run_tx_ok)
  then obtain a promoID bonus db1 p2 db2 where
    "checkout_price e prof tc pc t db = Inr (a, promoID, bonus, False, db1)"
    "(if 0 < a then EnsureProviderEnabled e True provider db1 else Inr ()) = Inr ()"
    "CreatePayment e prof (tf_id t) a provider promoID (tf_days t) (tf_price t) db1 = Inr (p2, db2)"
    "(if a = 0 then rbind (checkout_free e prof t p2 promoID bonus db2) (\<lambda>db3. Inr ((p2, a), db3))
      else Inr ((p2, a), db2)) = Inr ((pid, amount), db')"
    by (auto simp: StartCheckout_tx_def rbind_Inr_iff [where m = "checkout_price a b c d e f" for a b c d e f]
        rbind_Inr_iff [where m = "in_aborted a b" for a b] rbind_Inr_iff [where m = "if a then b else c" for a b c])
  then show thesis
    by (intro that [OF t, of amount promoID bonus db1 pid db2])
      (auto simp: res rbind_Inr_iff split: if_splits)
qed

text \<open>
  C22: a checkout that fails leaves no trace. One that succeeds appends exactly one order for the buyer
  with the tariff's days and price frozen on it, at the list price or at the price of a promo code
  that is redeemable now; unless the order is free it is unpaid, grants nothing, and its provider passed the
  kill switch: it is not switched off, as far as the query for it could be answered. A referral code in the
  promo field only goes through for a learner who has no referral yet: for any other the refused insert aborts
  the transaction and the checkout fails, although the code means to ignore it.
\<close>

theorem StartCheckout_order:
  "case StartCheckout us e prof tc provider cfg loc ret pc db of
     (Inl _, db') \<Rightarrow> db' = db
   | (Inr res, db') \<Rightarrow> (\<exists>t pm. GetActiveTariffByCode db tc = Some t
       \<and> GetPaymentForPayme db' (cr_payment res) = Some pm \<and> p_profile pm = prof
       \<and> p_tariff_days pm = tf_days t \<and> p_tariff_price pm = tf_price t
       \<and> (p_promo pm = None \<longrightarrow> p_amount pm = tf_price t) \<and> 0 \<le> p_amount pm
       \<and> (\<forall>i. p_promo pm = Some i \<longrightarrow> (\<exists>p r. p \<in> set (promo_codes db) \<and> pc_id p = i
            \<and> checkPromoRedeemable e p prof db = Inr () \<and> evaluatePromo e p prof tc db = Inr r \<and> p_amount pm = vr_final r))
       \<and> (\<forall>q. q \<noteq> cr_payment res \<longrightarrow> GetPaymentForPayme db' q = GetPaymentForPayme db q)
       \<and> (trim_space pc \<noteq> '''' \<and> GetReferralCodeOwner e db (trim_space pc) \<noteq> None \<longrightarrow> prof \<notin> rf_referee ` set (referrals db))
       \<and> (cr_free res \<longrightarrow> p_amount pm = 0 \<and> p_status pm = Paid)
       \<and> (\<not> cr_free res \<longrightarrow> p_status pm = Created \<and> entitlements db' = entitlements db
            \<and> redemptions db' = redemptions db \<and> EnsureProviderEnabled e True provider db = Inr ()
            \<and> (isKnownProvider provider \<and> \<not> flt e ''EnsureProviderEnabled'' ''payment_provider_status''
                 \<longrightarrow> map_of (provider_status db) provider \<noteq> Some False)))"
proof (cases "StartCheckout us e prof tc provider cfg loc ret pc db")
  case (Pair out db')
  show ?thesis
  proof (cases out)
    case (Inl err)
    have "db' = db" using Pair Inl by (simp add: StartCheckout_failed)
    then show ?thesis using Pair Inl by simp
  next
    case (Inr res)
    with Pair have "StartCheckout us e prof tc provider cfg loc ret pc db = (Inr res, db')" by simp
    then obtain t amount promoID bonus db1 db2 pid where t: "GetActiveTariffByCode db tc = Some t"
      and cp: "checkout_price e prof tc pc t db = Inr (amount, promoID, bonus, False, db1)"
      and en: "0 < amount \<Longrightarrow> EnsureProviderEnabled e True provider db1 = Inr ()"
      and cr: "CreatePayment e prof (tf_id t) amount provider promoID (tf_days t) (tf_price t) db1 = Inr (pid, db2)"
      and res: "cr_payment res = pid" "cr_free res \<longleftrightarrow> amount = 0"
      and fin: "(if amount = 0 then checkout_free e prof t pid promoID bonus db2 else Inr db2) = Inr db'"
      by (rule StartCheckout_success) blast
    have fr: "payments db1 = payments db" "entitlements db1 = entitlements db" "redemptions db1 = redemptions db"
      "bool_flags db1 = bool_flags db" "provider_status db1 = provider_status db"
      and price: "promoID = None \<Longrightarrow> amount = tf_price t"
      and promo: "\<forall>i. promoID = Some i \<longrightarrow> (\<exists>p r. p \<in> set (promo_codes db) \<and> pc_id p = i
            \<and> checkPromoRedeemable e p prof db = Inr () \<and> evaluatePromo e p prof tc db = Inr r \<and> amount = vr_final r)"
      using cp by (auto elim!: checkout_price_cases dest: TryApply_frame TryApply_no_referral)
    from cr obtain pm where pm: "db2 = db1\<lparr>payments := payments db1 @ [pm]\<rparr>" "p_id pm = pid" "p_profile pm = prof"
      "p_amount pm = amount" "p_status pm = Created" "p_promo pm = promoID" "p_tariff_days pm = tf_days t"
      "p_tariff_price pm = tf_price t" "pid \<notin> p_id ` set (payments db1)" "0 \<le> amount"
      by (rule CreatePayment_ok) blast
    have ref: "trim_space pc \<noteq> '''' \<and> GetReferralCodeOwner e db (trim_space pc) \<noteq> None \<longrightarrow> prof \<notin> rf_referee ` set (referrals db)"
      using checkout_price_fresh [OF cp] by blast
    have none: "find (\<lambda>p. p_id p = pid) (payments db) = None" using pm(9) fr(1) by (force simp: find_None_iff)
    show ?thesis
    proof (cases "amount = 0")
      case True
      have pay: "payments db' = upd_where (\<lambda>p. p_id p = pid) (\<lambda>p. p\<lparr>p_status := Paid, p_paid_at := Some (tx_now e)\<rparr>)
          (payments db @ [pm])"
      proof -
        from fin True have "checkout_free e prof t pid promoID bonus db2 = Inr db'" by simp
        then obtain stop dbg where g: "GrantDaysForPayment e ''checkout'' prof (tf_days t + bonus) ''promo''
            ''zero-amount promo checkout'' None (Some pid) (MarkPaymentPaid e pid db2) = Inr (stop, dbg)"
          and k: "promoID = None \<Longrightarrow> db' = dbg" "\<And>i. promoID = Some i \<Longrightarrow> CreatePromoRedemption i prof (Some pid) dbg = Inr db'"
          by (rule checkout_free_ok) blast
        have "payments db' = payments dbg"
          using k by (cases promoID) (auto simp: CreatePromoRedemption_def split: if_splits)
        then show ?thesis using GrantDaysForPayment_ok(3) [OF g] fr(1) pm(1) by (simp add: MarkPaymentPaid_def)
      qed
      have "GetPaymentForPayme db' pid = Some (pm\<lparr>p_status := Paid, p_paid_at := Some (tx_now e)\<rparr>)"
        using none pm(2) by (simp add: GetPaymentForPayme_def pay find_upd_where find_append)
      moreover have "GetPaymentForPayme db' q = GetPaymentForPayme db q" if "q \<noteq> pid" for q
        using that pm(2) by (auto simp: GetPaymentForPayme_def pay find_upd_where find_append split: option.splits dest: find_SomeD)
      ultimately show ?thesis using Pair Inr t res True pm price promo ref by auto
    next
      case False
      then have db': "db' = db2" "0 < amount" using fin pm(10) by auto
      have "GetPaymentForPayme db' pid = Some pm"
        using none pm(1,2) fr(1) by (simp add: GetPaymentForPayme_def db' find_append)
      moreover have "GetPaymentForPayme db' q = GetPaymentForPayme db q" if "q \<noteq> pid" for q
        using that pm(1,2) fr(1) by (auto simp: GetPaymentForPayme_def db' find_append split: option.splits)
      moreover have "EnsureProviderEnabled e True provider db = Inr ()"
        using en [OF db'(2)] EnsureProviderEnabled_frame [OF fr(4,5)] by simp
      ultimately show ?thesis using Pair Inr t res False pm price promo db' fr ref EnsureProviderEnabled_row by auto
    qed
  qed
qed

text \<open>
  A checkout never takes a promo code beyond its limits: a free order redeems the code only when a
  use is left, in the same transaction, and a priced order redeems nothing yet.
\<close>

theorem StartCheckout_promo_limits:
  assumes "promo_limits db"
  shows "promo_limits (snd (StartCheckout us e prof tc provider cfg loc ret pc db))"
proof (cases "StartCheckout us e prof tc provider cfg loc ret pc db")
  case (Pair out db')
  show ?thesis
  proof (cases out)
    case (Inl err)
    have "db' = db" using Pair Inl by (simp add: StartCheckout_failed)
    then show ?thesis using Pair assms by simp
  next
    case (Inr res)
    with Pair have "StartCheckout us e prof tc provider cfg loc ret pc db = (Inr res, db')" by simp
    then obtain t amount promoID bonus db1 db2 pid where
      cp: "checkout_price e prof tc pc t db = Inr (amount, promoID, bonus, False, db1)"
      and cr: "CreatePayment e prof (tf_id t) amount provider promoID (tf_days t) (tf_price t) db1 = Inr (pid, db2)"
      and fin: "(if amount = 0 then checkout_free e prof t pid promoID bonus db2 else Inr db2) = Inr db'"
      by (rule StartCheckout_success) blast
    have fr: "redemptions db1 = redemptions db" "promo_codes db1 = promo_codes db"
      using cp by (auto elim!: checkout_price_cases dest: TryApply_frame)
    have fr2: "redemptions db2 = redemptions db" "promo_codes db2 = promo_codes db"
      using cr fr by (auto elim!: CreatePayment_ok)
    show ?thesis
    proof (cases "amount = 0")
      case False
      then show ?thesis using fin fr2 assms Pair promo_limits_frame [of db' db] by simp
    next
      case True
      with fin have "checkout_free e prof t pid promoID bonus db2 = Inr db'" by simp
      then obtain stop dbg where g: "GrantDaysForPayment e ''checkout'' prof (tf_days t + bonus) ''promo''
            ''zero-amount promo checkout'' None (Some pid) (MarkPaymentPaid e pid db2) = Inr (stop, dbg)"
        and k: "promoID = None \<Longrightarrow> db' = dbg" "\<And>i. promoID = Some i \<Longrightarrow> CreatePromoRedemption i prof (Some pid) dbg = Inr db'"
        by (rule checkout_free_ok) blast
      have frg: "redemptions dbg = redemptions db" "promo_codes dbg = promo_codes db"
        using GrantDaysForPayment_ok(3) [OF g] fr2 by (simp_all add: MarkPaymentPaid_def)
      then have lim: "promo_limits dbg" using assms promo_limits_frame [of dbg db] by simp
      show ?thesis
      proof (cases promoID)
        case None
        then show ?thesis using k(1) lim Pair by simp
      next
        case (Some i)
        with cp obtain p where p: "p \<in> set (promo_codes db)" "checkPromoRedeemable e p prof db1 = Inr ()" "i = pc_id p"
          by (auto elim!: checkout_price_cases)
        have "checkPromoRedeemable e p prof dbg = Inr ()"
          using p(2) fr frg by (simp add: checkPromoRedeemable_ok_iff CountUserPromoRedemptions_def CountPromoRedemptions_def)
        moreover have "CreatePromoRedemption (pc_id p) prof (Some pid) dbg = Inr db'"
          using k(2) Some p(3) by simp
        ultimately show ?thesis
          using redeem_within_limits [OF lim, of p] p(1) frg(2) Pair by simp
      qed
    qed
  qed
qed

definition fx_checkout_cfg :: CheckoutConfig where
  "fx_checkout_cfg = \<lparr>PaymeMerchantID = ''m'', PaymeCheckoutHost = ''https://checkout.paycom.uz/'',
     ClickServiceID = ''77'', ClickMerchantID = ''5''\<rparr>"

definition fx_free_db :: billing_db where
  "fx_free_db = fx_db\<lparr>promo_codes := [fx_promo\<lparr>pc_kind := Days, pc_value := 3\<rparr>]\<rparr>"

definition fx_free :: billing_db where
  "fx_free = snd (StartCheckout show_nat fx_env 1 ''m1'' ''payme'' fx_checkout_cfg ''ru'' '''' ''spring'' fx_free_db)"

definition fx_cheap_db :: billing_db where
  "fx_cheap_db = fx_db\<lparr>tariffs := [\<lparr>tf_id = 5, tf_code = ''m1'', tf_days = 30, tf_price = 5, tf_active = True\<rparr>]\<rparr>"

theorem StartCheckout_order_witness:
  "\<exists>res db' pm. StartCheckout show_nat fx_env 1 ''m1'' ''payme'' fx_checkout_cfg ''ru'' '''' ''spring'' fx_cheap_db = (Inr res, db')
     \<and> GetPaymentForPayme db' (cr_payment res) = Some pm \<and> p_promo pm = Some 7 \<and> p_amount pm = 4
     \<and> (\<exists>p r. p \<in> set (promo_codes fx_cheap_db) \<and> pc_id p = 7 \<and> checkPromoRedeemable fx_env p 1 fx_cheap_db = Inr ()
           \<and> evaluatePromo fx_env p 1 ''m1'' fx_cheap_db = Inr r \<and> vr_final r = 4)"
proof -
  let ?run = "StartCheckout show_nat fx_env 1 ''m1'' ''payme'' fx_checkout_cfg ''ru'' '''' ''spring'' fx_cheap_db"
  have ok: "(case fst ?run of Inl _ \<Rightarrow> False | Inr res \<Rightarrow> \<not> cr_free res
      \<and> map_option (\<lambda>p. (p_promo p, p_amount p)) (GetPaymentForPayme (snd ?run) (cr_payment res)) = Some (Some 7, 4))"
    by code_simp
  then obtain res db' where run: "?run = (Inr res, db')" by (cases ?run; cases "fst ?run") auto
  with ok have got: "\<exists>pm. GetPaymentForPayme db' (cr_payment res) = Some pm \<and> p_promo pm = Some 7 \<and> p_amount pm = 4"
    by auto
  from StartCheckout_order [where us = show_nat and e = fx_env and prof = 1 and tc = "''m1''" and provider = "''payme''"
      and cfg = fx_checkout_cfg and loc = "''ru''" and ret = "''''" and pc = "''spring''" and db = fx_cheap_db]
  obtain pm where pm: "GetPaymentForPayme db' (cr_payment res) = Some pm"
    and pr: "\<forall>i. p_promo pm = Some i \<longrightarrow> (\<exists>p r. p \<in> set (promo_codes fx_cheap_db) \<and> pc_id p = i
            \<and> checkPromoRedeemable fx_env p 1 fx_cheap_db = Inr () \<and> evaluatePromo fx_env p 1 ''m1'' fx_cheap_db = Inr r \<and> p_amount pm = vr_final r)"
    unfolding run by (simp, blast)
  from got pm have "p_promo pm = Some 7" "p_amount pm = 4" by simp_all
  with pr obtain p r where "p \<in> set (promo_codes fx_cheap_db)" "pc_id p = 7"
    "checkPromoRedeemable fx_env p 1 fx_cheap_db = Inr ()" "evaluatePromo fx_env p 1 ''m1'' fx_cheap_db = Inr r" "vr_final r = 4"
    by auto
  with run pm \<open>p_promo pm = Some 7\<close> \<open>p_amount pm = 4\<close> show ?thesis by blast
qed

theorem StartCheckout_promo_limits_witness:
  "promo_limits fx_free \<and> CountPromoRedemptions fx_free 7 = 1 \<and> map en_source (entitlements fx_free) = [''promo'']"
proof -
  have "promo_limits fx_free_db"
    by (auto simp: promo_limits_def fx_free_db_def fx_db_def fx_promo_def empty_db_def
        CountPromoRedemptions_def CountUserPromoRedemptions_def)
  then have "promo_limits fx_free" unfolding fx_free_def by (rule StartCheckout_promo_limits)
  moreover have "CountPromoRedemptions fx_free 7 = 1" "map en_source (entitlements fx_free) = [''promo'']" by code_simp+
  ultimately show ?thesis by simp
qed

end
