(* ===== verification/Manual_Pay.thy ===== *)
theory Manual_Pay
  imports Checkout
begin

text \<open>
  Manual card transfers (\<open>internal/billing/manual_pay.go\<close>, \<open>expire_manual.go\<close>, \<open>queries/manual_pay.sql\<close>) and
  the voiding of orders by an admin (\<open>internal/admin/payments.go\<close>): a checkout assigns one of a pool of
  cards and a sum that is unique among the sums awaited on it; a bank push naming card and sum
  confirms the order. \<open>decryptPAN\<close> stands for \<open>DecryptPAN\<close> (AES-GCM), \<open>fingerprint\<close> for
  \<open>humoPushFingerprint\<close> (SHA-256) and \<open>parse_push\<close> for \<open>ParseHumoCardBotPush\<close> (regular expressions).
\<close>

section \<open>Tables\<close>

datatype manual_state = AwaitingTransfer | Claimed | AwaitingReview | Consumed | Rejected

record card_row =
  mc_id :: uuid
  mc_network :: string
  mc_pan :: string
  mc_last4 :: string
  mc_holder :: string
  mc_sort :: int
  mc_enabled :: bool
  mc_created_at :: int

record assignment_row =
  ma_payment :: uuid
  ma_card :: uuid
  ma_amount :: int
  ma_assigned_at :: int
  ma_hold_until :: int
  ma_released_at :: "int option"
  ma_state :: manual_state
  ma_claimed_at :: "int option"
  ma_confirmed_by :: "string option"
  ma_note :: "string option"

datatype event_status = Matched | Unmatched | Ignored

record event_row =
  ev_id :: uuid
  ev_fingerprint :: string
  ev_msg :: "int option"
  ev_raw :: string
  ev_amount :: "int option"
  ev_last4 :: "string option"
  ev_transfer_at :: "int option"
  ev_balance :: "int option"
  ev_status :: event_status
  ev_payment :: "uuid option"
  ev_parse_ok :: bool

record manual_db =
  md_billing :: billing_db
  md_cards :: "card_row list"
  md_assignments :: "assignment_row list"
  md_events :: "event_row list"

definition ManualHoldDuration :: int where
  "ManualHoldDuration = 10 * 60 * second"

definition ManualUnpaidTTL :: int where
  "ManualUnpaidTTL = 4 * hour"

definition manualAmountSlots :: int where
  "manualAmountSlots = 100"

definition is_open_state :: "manual_state \<Rightarrow> bool" where
  "is_open_state s \<longleftrightarrow> s = AwaitingTransfer \<or> s = Claimed \<or> s = AwaitingReview"

definition is_open_status :: "pay_status \<Rightarrow> bool" where
  "is_open_status s \<longleftrightarrow> s = Created \<or> s = Pending"

section \<open>Statements\<close>

definition on_billing :: "(billing_db \<Rightarrow> billing_db) \<Rightarrow> manual_db \<Rightarrow> manual_db" where
  "on_billing f m = m\<lparr>md_billing := f (md_billing m)\<rparr>"

definition SetPaymentPending :: "uuid \<Rightarrow> billing_db \<Rightarrow> billing_db" where
  "SetPaymentPending i db = db\<lparr>payments :=
     upd_where (\<lambda>p. p_id p = i \<and> p_status p = Created) (\<lambda>p. p\<lparr>p_status := Pending\<rparr>) (payments db)\<rparr>"

definition SetPaymentCanceled :: "uuid \<Rightarrow> billing_db \<Rightarrow> billing_db" where
  "SetPaymentCanceled i db = db\<lparr>payments :=
     upd_where (\<lambda>p. p_id p = i \<and> is_open_status (p_status p)) (\<lambda>p. p\<lparr>p_status := Canceled\<rparr>) (payments db)\<rparr>"

definition MarkPaymentPaidIfOpen :: "env \<Rightarrow> uuid \<Rightarrow> billing_db \<Rightarrow> nat \<times> billing_db" where
  "MarkPaymentPaidIfOpen e i db =
     (length (filter (\<lambda>p. p_id p = i \<and> is_open_status (p_status p)) (payments db)),
      db\<lparr>payments := upd_where (\<lambda>p. p_id p = i \<and> is_open_status (p_status p))
        (\<lambda>p. p\<lparr>p_status := Paid, p_paid_at := Some (tx_now e)\<rparr>) (payments db)\<rparr>)"

definition ReleaseExpiredManualHolds :: "env \<Rightarrow> manual_db \<Rightarrow> manual_db" where
  "ReleaseExpiredManualHolds e m = m\<lparr>md_assignments :=
     upd_where (\<lambda>a. ma_released_at a = None \<and> ma_hold_until a \<le> tx_now e
         \<and> (ma_state a = AwaitingTransfer \<or> ma_state a = Claimed))
       (\<lambda>a. a\<lparr>ma_released_at := Some (tx_now e), ma_state := AwaitingReview\<rparr>) (md_assignments m)\<rparr>"

definition coalesce :: "'a option \<Rightarrow> 'a \<Rightarrow> 'a option" where
  "coalesce x d = (case x of None \<Rightarrow> Some d | Some v \<Rightarrow> Some v)"

definition stale_manual :: "env \<Rightarrow> payment_row \<Rightarrow> bool" where
  "stale_manual e p \<longleftrightarrow> p_provider p = ''manual'' \<and> is_open_status (p_status p) \<and> p_paid_at p = None
     \<and> p_created_at p < tx_now e - ManualUnpaidTTL"

definition ExpireStaleManualPayments :: "env \<Rightarrow> manual_db \<Rightarrow> manual_db" where
  "ExpireStaleManualPayments e m =
     (let expired = map p_id (filter (stale_manual e) (payments (md_billing m))) in
      m\<lparr>md_billing := (md_billing m)\<lparr>payments :=
           upd_where (stale_manual e) (\<lambda>p. p\<lparr>p_status := Canceled\<rparr>) (payments (md_billing m))\<rparr>,
        md_assignments := upd_where (\<lambda>a. ma_payment a \<in> set expired \<and> is_open_state (ma_state a))
          (\<lambda>a. a\<lparr>ma_state := Rejected, ma_confirmed_by := Some ''system'',
                 ma_released_at := coalesce (ma_released_at a) (tx_now e),
                 ma_note := (case ma_note a of
                    Some n \<Rightarrow> (if trim_space n = '''' then Some ''auto-expired: unpaid after 4 hours'' else Some (trim_space n))
                  | None \<Rightarrow> Some ''auto-expired: unpaid after 4 hours'')\<rparr>) (md_assignments m)\<rparr>)"

text \<open>
  \<open>ORDER BY sort_order, created_at FOR UPDATE SKIP LOCKED LIMIT 1\<close>: the environment says which card
  rows another transaction has locked.
\<close>

definition LockFreeManualPayCard :: "env \<Rightarrow> manual_db \<Rightarrow> card_row option" where
  "LockFreeManualPayCard e m =
     (case sort_key mc_sort (sort_key mc_created_at (filter (\<lambda>c. mc_enabled c
         \<and> \<not> (\<exists>a \<in> set (md_assignments m). ma_card a = mc_id c \<and> ma_released_at a = None)
         \<and> \<not> flt e ''skip locked'' (show_nat (mc_id c))) (md_cards m))) of
        [] \<Rightarrow> None | c # _ \<Rightarrow> Some c)"

definition InsertManualPayAssignment ::
  "uuid \<Rightarrow> uuid \<Rightarrow> int \<Rightarrow> int \<Rightarrow> int \<Rightarrow> manual_db \<Rightarrow> billing_err + (assignment_row \<times> manual_db)" where
  "InsertManualPayAssignment pay cid amount assignedAt holdUntil m =
     (if amount \<le> 0 then Inl (Sql CheckViolation)
      else if pay \<in> ma_payment ` set (md_assignments m) then Inl (Sql UniqueViolation)
      else let a = \<lparr>ma_payment = pay, ma_card = cid, ma_amount = amount, ma_assigned_at = assignedAt,
                    ma_hold_until = holdUntil, ma_released_at = None, ma_state = AwaitingTransfer,
                    ma_claimed_at = None, ma_confirmed_by = None, ma_note = None\<rparr>
           in Inr (a, m\<lparr>md_assignments := md_assignments m @ [a]\<rparr>))"

definition GetManualPayAssignmentByPayment :: "manual_db \<Rightarrow> uuid \<Rightarrow> (assignment_row \<times> card_row) option" where
  "GetManualPayAssignmentByPayment m pay =
     (case find (\<lambda>a. ma_payment a = pay) (md_assignments m) of
        None \<Rightarrow> None
      | Some a \<Rightarrow> map_option (\<lambda>c. (a, c)) (find (\<lambda>c. mc_id c = ma_card a) (md_cards m)))"

definition GetManualPayAssignmentByPaymentForUpdate :: "manual_db \<Rightarrow> uuid \<Rightarrow> assignment_row option" where
  "GetManualPayAssignmentByPaymentForUpdate m pay = find (\<lambda>a. ma_payment a = pay) (md_assignments m)"

definition ClaimManualPayAssignment :: "env \<Rightarrow> uuid \<Rightarrow> manual_db \<Rightarrow> manual_db" where
  "ClaimManualPayAssignment e pay m = m\<lparr>md_assignments :=
     upd_where (\<lambda>a. ma_payment a = pay \<and> is_open_state (ma_state a))
       (\<lambda>a. a\<lparr>ma_state := (if ma_state a = AwaitingTransfer then Claimed else ma_state a),
              ma_claimed_at := coalesce (ma_claimed_at a) (tx_now e)\<rparr>) (md_assignments m)\<rparr>"

definition MarkManualPayAssignmentConsumed :: "env \<Rightarrow> uuid \<Rightarrow> string \<Rightarrow> manual_db \<Rightarrow> manual_db" where
  "MarkManualPayAssignmentConsumed e pay source m = m\<lparr>md_assignments :=
     upd_where (\<lambda>a. ma_payment a = pay)
       (\<lambda>a. a\<lparr>ma_state := Consumed, ma_confirmed_by := Some source,
              ma_released_at := coalesce (ma_released_at a) (tx_now e)\<rparr>) (md_assignments m)\<rparr>"

definition RejectManualPayAssignment :: "env \<Rightarrow> uuid \<Rightarrow> string option \<Rightarrow> manual_db \<Rightarrow> manual_db" where
  "RejectManualPayAssignment e pay nt m = m\<lparr>md_assignments :=
     upd_where (\<lambda>a. ma_payment a = pay \<and> is_open_state (ma_state a))
       (\<lambda>a. a\<lparr>ma_state := Rejected, ma_confirmed_by := Some ''admin'',
              ma_released_at := coalesce (ma_released_at a) (tx_now e), ma_note := nt\<rparr>) (md_assignments m)\<rparr>"

text \<open>The predicate shared by the two matching statements: the assignment can still be paid.\<close>

definition matchable :: "int \<Rightarrow> manual_db \<Rightarrow> assignment_row \<Rightarrow> bool" where
  "matchable now m a \<longleftrightarrow> is_open_state (ma_state a) \<and>
     (\<exists>p \<in> set (payments (md_billing m)). p_id p = ma_payment a \<and> is_open_status (p_status p)
        \<and> now - ManualUnpaidTTL \<le> p_created_at p)"

definition ListOpenManualAmountsForCard :: "env \<Rightarrow> uuid \<Rightarrow> manual_db \<Rightarrow> int list" where
  "ListOpenManualAmountsForCard e cid m =
     map ma_amount (filter (\<lambda>a. ma_card a = cid \<and> matchable (tx_now e) m a) (md_assignments m))"

definition FindManualPayMatchCandidate :: "env \<Rightarrow> string \<Rightarrow> int \<Rightarrow> int \<Rightarrow> manual_db \<Rightarrow> assignment_row option" where
  "FindManualPayMatchCandidate e last4 amount transferAt m =
     (case rev (sort_key ma_assigned_at (filter (\<lambda>a. ma_amount a = amount
          \<and> (\<exists>c \<in> set (md_cards m). mc_id c = ma_card a \<and> mc_last4 c = last4)
          \<and> matchable (tx_now e) m a
          \<and> ma_assigned_at a - 90 * second \<le> transferAt \<and> transferAt \<le> ma_assigned_at a + ManualUnpaidTTL)
        (md_assignments m))) of
        [] \<Rightarrow> None | a # _ \<Rightarrow> Some a)"

definition GetManualPayEventByFingerprint :: "manual_db \<Rightarrow> string \<Rightarrow> event_row option" where
  "GetManualPayEventByFingerprint m fp = find (\<lambda>v. ev_fingerprint v = fp) (md_events m)"

definition InsertManualPayEvent :: "event_row \<Rightarrow> manual_db \<Rightarrow> billing_err + manual_db" where
  "InsertManualPayEvent v m =
     (if ev_fingerprint v \<in> ev_fingerprint ` set (md_events m) then Inl (Sql UniqueViolation)
      else Inr (m\<lparr>md_events := md_events m @ [v]\<rparr>))"

definition MarkManualPayEventMatched :: "uuid \<Rightarrow> uuid \<Rightarrow> manual_db \<Rightarrow> manual_db" where
  "MarkManualPayEventMatched i pay m = m\<lparr>md_events :=
     upd_where (\<lambda>v. ev_id v = i) (\<lambda>v. v\<lparr>ev_status := Matched, ev_payment := Some pay\<rparr>) (md_events m)\<rparr>"

section \<open>Checkout\<close>

text \<open>The loop over the offsets: the first sum from \<open>base\<close> that is not taken.\<close>

fun first_free_amount :: "int list \<Rightarrow> int \<Rightarrow> nat \<Rightarrow> nat \<Rightarrow> int option" where
  "first_free_amount taken base offset 0 = None"
| "first_free_amount taken base offset (Suc left) =
     (let candidate = wrap64 (base + int offset) in
      if candidate \<notin> set taken then Some candidate
      else first_free_amount taken base (Suc offset) left)"

definition uniqueManualAmount :: "env \<Rightarrow> uuid \<Rightarrow> int \<Rightarrow> manual_db \<Rightarrow> billing_err + int" where
  "uniqueManualAmount e cid base m =
     rbind (stmt e ''uniqueManualAmount'' ''ListOpenManualAmountsForCard''
              (Inr (ListOpenManualAmountsForCard e cid m))) (\<lambda>taken.
     case first_free_amount taken base 0 (nat manualAmountSlots) of
        Some amount \<Rightarrow> Inr amount
      | None \<Rightarrow> Inl ErrManualNoCardAvailable)"

record ManualCheckoutInfo =
  mi_payment :: uuid
  mi_amount :: int
  mi_pan_full :: string
  mi_last4 :: string
  mi_holder :: string
  mi_network :: string
  mi_hold_until :: int
  mi_state :: manual_state

definition StartManualCheckout_tx ::
  "(string \<Rightarrow> string option) \<Rightarrow> env \<Rightarrow> uuid \<Rightarrow> string \<Rightarrow> string \<Rightarrow> tariff_row \<Rightarrow> manual_db
     \<Rightarrow> billing_err + (ManualCheckoutInfo \<times> manual_db)" where
  "StartManualCheckout_tx decryptPAN e prof tariffCode promoCode tariff m =
     rbind (checkout_price e prof tariffCode promoCode tariff (md_billing m)) (\<lambda>(base, promoID, _, aborted, b1).
     if base \<le> 0 then Inl ErrManualAmount
     else rbind (in_aborted aborted (stmt e ''StartManualCheckout'' ''ReleaseExpiredManualHolds''
              (Inr (ReleaseExpiredManualHolds e (m\<lparr>md_billing := b1\<rparr>))))) (\<lambda>m1.
     rbind (stmt e ''StartManualCheckout'' ''ExpireStaleManualPayments''
              (Inr (ExpireStaleManualPayments e m1))) (\<lambda>m2.
     if flt e ''StartManualCheckout'' ''LockFreeManualPayCard'' then Inl (Sql DbFailure)
     else case LockFreeManualPayCard e m2 of
        None \<Rightarrow> Inl ErrManualNoCardAvailable
      | Some crd \<Rightarrow>
     (case decryptPAN (mc_pan crd) of
        None \<Rightarrow> Inl ErrDecryptPAN
      | Some panFull \<Rightarrow>
     rbind (uniqueManualAmount e (mc_id crd) base m2) (\<lambda>amount.
     rbind (stmt e ''StartManualCheckout'' ''CreatePayment'' (CreatePayment e prof (tf_id tariff) amount
              ''manual'' promoID (tf_days tariff) (tf_price tariff) (md_billing m2))) (\<lambda>(paymentID, b3).
     rbind (stmt e ''StartManualCheckout'' ''SetPaymentPending''
              (Inr (m2\<lparr>md_billing := SetPaymentPending paymentID b3\<rparr>))) (\<lambda>m3.
     let now = clk e ''StartManualCheckout'' in
     rbind (stmt e ''StartManualCheckout'' ''InsertManualPayAssignment''
              (InsertManualPayAssignment paymentID (mc_id crd) amount now (now + ManualHoldDuration) m3)) (\<lambda>(asg, m4).
     Inr (\<lparr>mi_payment = paymentID, mi_amount = amount, mi_pan_full = panFull, mi_last4 = mc_last4 crd,
            mi_holder = mc_holder crd, mi_network = mc_network crd, mi_hold_until = ma_hold_until asg,
            mi_state = ma_state asg\<rparr>, m4)))))))))"

definition StartManualCheckout ::
  "(string \<Rightarrow> string option) \<Rightarrow> env \<Rightarrow> uuid \<Rightarrow> string \<Rightarrow> string \<Rightarrow> manual_db
     \<Rightarrow> (billing_err + ManualCheckoutInfo) \<times> manual_db" where
  "StartManualCheckout decryptPAN e prof tariffCode promoCode m =
     (case EnsureProviderEnabled e True ''manual'' (md_billing m) of
        Inl err \<Rightarrow> (Inl err, m)
      | Inr _ \<Rightarrow>
          if flt e ''StartManualCheckout'' ''GetActiveTariffByCode'' then (Inl (Sql DbFailure), m)
          else case GetActiveTariffByCode (md_billing m) tariffCode of
              None \<Rightarrow> (Inl (Sql ErrNoRows), m)
            | Some tariff \<Rightarrow> run_tx e ''StartManualCheckout''
                (StartManualCheckout_tx decryptPAN e prof tariffCode promoCode tariff) m)"

section \<open>Status, claim, confirmation and rejection\<close>

record ManualPaymentStatus =
  ms_payment :: uuid
  ms_payment_status :: pay_status
  ms_state :: manual_state
  ms_amount :: int
  ms_pan_full :: string
  ms_last4 :: string
  ms_hold_until :: int
  ms_released_at :: "int option"
  ms_claimed_at :: "int option"
  ms_confirmed_by :: string

definition GetManualPaymentStatus ::
  "(string \<Rightarrow> string option) \<Rightarrow> env \<Rightarrow> uuid \<Rightarrow> uuid \<Rightarrow> manual_db
     \<Rightarrow> (billing_err + ManualPaymentStatus) \<times> manual_db" where
  "GetManualPaymentStatus decryptPAN e prof paymentID m0 =
     (let m = (if flt e ''GetManualPaymentStatus'' ''ReleaseExpiredManualHolds'' then m0
               else ReleaseExpiredManualHolds e m0) in
      if flt e ''GetManualPaymentStatus'' ''GetManualPayAssignmentByPayment'' then (Inl (Sql DbFailure), m)
      else case GetManualPayAssignmentByPayment m paymentID of
          None \<Rightarrow> (Inl ErrManualNotFound, m)
        | Some (a, c) \<Rightarrow>
            (case stmt e ''GetManualPaymentStatus'' ''GetPaymentForPayme''
                    (one_row (GetPaymentForPayme (md_billing m) paymentID)) of
               Inl err \<Rightarrow> (Inl err, m)
             | Inr pay \<Rightarrow>
                 if p_profile pay \<noteq> prof then (Inl ErrManualWrongOwner, m)
                 else case decryptPAN (mc_pan c) of
                     None \<Rightarrow> (Inl ErrDecryptPAN, m)
                   | Some pan \<Rightarrow>
                       (Inr \<lparr>ms_payment = paymentID, ms_payment_status = p_status pay, ms_state = ma_state a,
                             ms_amount = ma_amount a, ms_pan_full = pan, ms_last4 = mc_last4 c,
                             ms_hold_until = ma_hold_until a, ms_released_at = ma_released_at a,
                             ms_claimed_at = ma_claimed_at a,
                             ms_confirmed_by = (case ma_confirmed_by a of None \<Rightarrow> '''' | Some s \<Rightarrow> s)\<rparr>, m)))"

definition ClaimManualPayment_tx :: "env \<Rightarrow> uuid \<Rightarrow> uuid \<Rightarrow> manual_db \<Rightarrow> billing_err + (unit \<times> manual_db)" where
  "ClaimManualPayment_tx e prof paymentID m0 =
     (let m = (if flt e ''ClaimManualPayment'' ''ReleaseExpiredManualHolds'' then m0
               else ReleaseExpiredManualHolds e m0) in
      if flt e ''ClaimManualPayment'' ''GetPaymentForPayme'' then Inl ErrManualNotFound
      else case GetPaymentForPayme (md_billing m) paymentID of
          None \<Rightarrow> Inl ErrManualNotFound
        | Some pay \<Rightarrow>
            if p_profile pay \<noteq> prof then Inl ErrManualWrongOwner
            else if p_status pay = Paid \<or> p_status pay = Canceled \<or> p_status pay = Refunded
            then Inl ErrManualAlreadyDone
            else if flt e ''ClaimManualPayment'' ''GetManualPayAssignmentByPaymentForUpdate'' then Inl ErrManualNotFound
            else case GetManualPayAssignmentByPaymentForUpdate m paymentID of
                None \<Rightarrow> Inl ErrManualNotFound
              | Some asg \<Rightarrow>
                  if ma_state asg = Consumed \<or> ma_state asg = Rejected then Inl ErrManualAlreadyDone
                  else stmt e ''ClaimManualPayment'' ''ClaimManualPayAssignment''
                         (Inr ((), ClaimManualPayAssignment e paymentID m)))"

definition ClaimManualPayment ::
  "(string \<Rightarrow> string option) \<Rightarrow> env \<Rightarrow> uuid \<Rightarrow> uuid \<Rightarrow> manual_db
     \<Rightarrow> (billing_err + ManualPaymentStatus) \<times> manual_db" where
  "ClaimManualPayment decryptPAN e prof paymentID m =
     (case run_tx e ''ClaimManualPayment'' (ClaimManualPayment_tx e prof paymentID) m of
        (Inl err, m') \<Rightarrow> (Inl err, m')
      | (Inr _, m') \<Rightarrow> GetManualPaymentStatus decryptPAN e prof paymentID m')"

definition ConfirmManualPayment_tx :: "env \<Rightarrow> uuid \<Rightarrow> string \<Rightarrow> manual_db \<Rightarrow> billing_err + (bool \<times> manual_db)" where
  "ConfirmManualPayment_tx e paymentID source m =
     (if flt e ''ConfirmManualPayment'' ''GetManualPayAssignmentByPaymentForUpdate'' then Inl ErrManualNotFound
      else case GetManualPayAssignmentByPaymentForUpdate m paymentID of
          None \<Rightarrow> Inl ErrManualNotFound
        | Some asg \<Rightarrow>
      if flt e ''ConfirmManualPayment'' ''GetPaymentForPayme'' then Inl ErrManualNotFound
      else case GetPaymentForPayme (md_billing m) paymentID of
          None \<Rightarrow> Inl ErrManualNotFound
        | Some pay \<Rightarrow>
      if p_status pay = Paid \<or> ma_state asg = Consumed then Inr (True, m)
      else if ma_state asg = Rejected \<or> p_status pay = Canceled \<or> p_status pay = Refunded
      then Inl ErrManualAlreadyDone
      else if flt e ''ConfirmManualPayment'' ''MarkPaymentPaidIfOpen'' then Inl (Sql DbFailure)
      else let (n, b1) = MarkPaymentPaidIfOpen e paymentID (md_billing m) in
      if n = 0 then
        rbind (stmt e ''ConfirmManualPayment'' ''GetPaymentForPayme2''
                 (one_row (GetPaymentForPayme b1 paymentID))) (\<lambda>paid.
        if p_status paid = Paid then Inr (True, m\<lparr>md_billing := b1\<rparr>) else Inl ErrManualAlreadyDone)
      else rbind (ProcessPaymentGrant e paymentID b1) (\<lambda>b2.
        stmt e ''ConfirmManualPayment'' ''MarkManualPayAssignmentConsumed''
          (Inr (False, MarkManualPayAssignmentConsumed e paymentID source (m\<lparr>md_billing := b2\<rparr>)))))"

definition ConfirmManualPayment ::
  "uuid \<Rightarrow> string \<Rightarrow> env \<Rightarrow> manual_db \<Rightarrow> (billing_err + bool) \<times> manual_db" where
  "ConfirmManualPayment paymentID source e m =
     (if source \<noteq> ''bot'' \<and> source \<noteq> ''admin'' then (Inl ErrConfirmSource, m)
      else run_tx e ''ConfirmManualPayment'' (ConfirmManualPayment_tx e paymentID source) m)"

definition RejectManualPayment :: "env \<Rightarrow> uuid \<Rightarrow> string \<Rightarrow> manual_db \<Rightarrow> (billing_err + unit) \<times> manual_db" where
  "RejectManualPayment e paymentID nt m = run_tx e ''RejectManualPayment''
     (\<lambda>m. if flt e ''RejectManualPayment'' ''GetManualPayAssignmentByPaymentForUpdate'' then Inl ErrManualNotFound
          else case GetManualPayAssignmentByPaymentForUpdate m paymentID of
              None \<Rightarrow> Inl ErrManualNotFound
            | Some asg \<Rightarrow>
          if flt e ''RejectManualPayment'' ''GetPaymentForPayme'' then Inl ErrManualNotFound
          else case GetPaymentForPayme (md_billing m) paymentID of
              None \<Rightarrow> Inl ErrManualNotFound
            | Some pay \<Rightarrow>
          if p_status pay = Paid \<or> ma_state asg = Consumed then Inl ErrManualRejectPaid
          else rbind (stmt e ''RejectManualPayment'' ''RejectManualPayAssignment''
                 (Inr (RejectManualPayAssignment e paymentID (if nt = '''' then None else Some nt) m))) (\<lambda>m1.
          stmt e ''RejectManualPayment'' ''SetPaymentCanceled''
            (Inr ((), on_billing (SetPaymentCanceled paymentID) m1)))) m"

section \<open>Bank pushes\<close>

record ParsedHumoPush =
  hp_amount :: int
  hp_last4 :: string
  hp_transfer_at :: int
  hp_balance :: "int option"

datatype push_result =
    Duplicate uuid event_status "uuid option"
  | ParseFailed uuid
  | NoMatch uuid
  | MatchSkipped uuid uuid
  | PushMatched uuid uuid bool

text \<open>After the event is stored: sweep, look for the order the transfer pays, confirm it.\<close>

definition match_push ::
  "env \<Rightarrow> uuid \<Rightarrow> ParsedHumoPush \<Rightarrow> manual_db \<Rightarrow> (billing_err + push_result) \<times> manual_db" where
  "match_push e evID push m1 =
     (let m2 = (if flt e ''IngestHumoPush'' ''ReleaseExpiredManualHolds'' then m1 else ReleaseExpiredManualHolds e m1) in
      if flt e ''IngestHumoPush'' ''ExpireStaleManualPayments'' then (Inl (Sql DbFailure), m2)
      else let m3 = ExpireStaleManualPayments e m2 in
      if flt e ''IngestHumoPush'' ''FindManualPayMatchCandidate'' then (Inl (Sql DbFailure), m3)
      else case FindManualPayMatchCandidate e (hp_last4 push) (hp_amount push) (hp_transfer_at push) m3 of
         None \<Rightarrow> (Inr (NoMatch evID), m3)
       | Some cand \<Rightarrow>
      (case ConfirmManualPayment (ma_payment cand) ''bot'' e m3 of
         (Inl err, m4) \<Rightarrow>
           (if err = ErrManualAlreadyDone then (Inr (MatchSkipped evID (ma_payment cand)), m4) else (Inl err, m4))
       | (Inr already, m4) \<Rightarrow>
           (Inr (PushMatched evID (ma_payment cand) already),
            if flt e ''IngestHumoPush'' ''MarkManualPayEventMatched'' then m4
            else MarkManualPayEventMatched evID (ma_payment cand) m4)))"

definition push_event :: "env \<Rightarrow> string \<Rightarrow> int \<Rightarrow> string \<Rightarrow> ParsedHumoPush option \<Rightarrow> event_row" where
  "push_event e fp msgID rawText parsed =
     \<lparr>ev_id = new_id e, ev_fingerprint = fp, ev_msg = (if msgID \<noteq> 0 then Some msgID else None),
      ev_raw = rawText, ev_amount = map_option hp_amount parsed, ev_last4 = map_option hp_last4 parsed,
      ev_transfer_at = map_option hp_transfer_at parsed, ev_balance = Option.bind parsed hp_balance,
      ev_status = Unmatched, ev_payment = None, ev_parse_ok = parsed \<noteq> None\<rparr>"

definition IngestHumoPush ::
  "(int \<Rightarrow> string \<Rightarrow> string) \<Rightarrow> (string \<Rightarrow> ParsedHumoPush option) \<Rightarrow> env \<Rightarrow> string \<Rightarrow> int \<Rightarrow> manual_db
     \<Rightarrow> (billing_err + push_result) \<times> manual_db" where
  "IngestHumoPush fingerprint parse_push e rawText msgID m =
     (let fp = fingerprint msgID rawText in
      if flt e ''IngestHumoPush'' ''GetManualPayEventByFingerprint'' then (Inl (Sql DbFailure), m)
      else case GetManualPayEventByFingerprint m fp of
          Some existing \<Rightarrow> (Inr (Duplicate (ev_id existing) (ev_status existing) (ev_payment existing)), m)
        | None \<Rightarrow>
      let parsed = parse_push rawText; ev = push_event e fp msgID rawText parsed in
      (case stmt e ''IngestHumoPush'' ''InsertManualPayEvent'' (InsertManualPayEvent ev m) of
         Inl err \<Rightarrow>
           (if err = Sql UniqueViolation then
              (case stmt e ''IngestHumoPush'' ''GetManualPayEventByFingerprint2''
                      (one_row (GetManualPayEventByFingerprint m fp)) of
                 Inl gerr \<Rightarrow> (Inl gerr, m)
               | Inr existing \<Rightarrow> (Inr (Duplicate (ev_id existing) (ev_status existing) (ev_payment existing)), m))
            else (Inl err, m))
       | Inr m1 \<Rightarrow>
           (case parsed of
              None \<Rightarrow> (Inr (ParseFailed (ev_id ev)), m1)
            | Some push \<Rightarrow> match_push e (ev_id ev) push m1)))"

section \<open>Voiding an order\<close>

definition VoidPayment :: "env \<Rightarrow> uuid \<Rightarrow> string \<Rightarrow> manual_db \<Rightarrow> (billing_err + unit) \<times> manual_db" where
  "VoidPayment e i rawReason m =
     (let reason = trim_space rawReason in
      if length reason < 10 \<or> 500 < length reason then (Inl ErrPaymentVoidReason, m)
      else run_tx e ''VoidPayment''
        (\<lambda>m. rbind (stmt e ''VoidPayment'' ''payment'' (one_row (find (\<lambda>p. p_id p = i) (payments (md_billing m))))) (\<lambda>pm.
           let status = p_status pm; provider = p_provider pm;
               voidable = (status = Failed \<or> status = Canceled \<or> (provider = ''manual'' \<and> is_open_status status)) in
           if \<not> voidable \<and> status \<noteq> Voided then Inl ErrPaymentCannotVoid
           else if status = Voided then Inr ((), m)
           else rbind (stmt e ''VoidPayment'' ''payment_void''
                  (if i \<in> vd_payment ` set (voids (md_billing m)) then Inl (Sql UniqueViolation)
                   else Inr (on_billing (\<lambda>b. b\<lparr>voids := voids b @ [\<lparr>vd_payment = i, vd_previous = status, vd_reason = reason\<rparr>]\<rparr>) m))) (\<lambda>m1.
           rbind (stmt e ''VoidPayment'' ''UPDATE payment'' (Inr (on_billing (SetPaymentStatus i Voided) m1))) (\<lambda>m2.
           rbind (if provider = ''manual'' then
                    rbind (stmt e ''VoidPayment'' ''manual_pay_assignment'' (Inr (m2\<lparr>md_assignments :=
                       upd_where (\<lambda>a. ma_payment a = i \<and> ma_state a \<noteq> Consumed)
                         (\<lambda>a. a\<lparr>ma_state := Rejected, ma_released_at := coalesce (ma_released_at a) (tx_now e),
                                ma_confirmed_by := Some ''admin'', ma_note := Some reason\<rparr>) (md_assignments m2)\<rparr>))) (\<lambda>m3.
                    stmt e ''VoidPayment'' ''manual_pay_event'' (Inr (m3\<lparr>md_events :=
                       upd_where (\<lambda>v. ev_payment v = Some i)
                         (\<lambda>v. v\<lparr>ev_payment := None, ev_status := (if ev_status v = Matched then Unmatched else ev_status v)\<rparr>)
                         (md_events m3)\<rparr>)))
                  else Inr m2) (\<lambda>m4.
           stmt e ''VoidPayment'' ''admin_audit_log'' (Inr ((), m4))))))) m)"

section \<open>Card numbers\<close>

definition NormalizeCardPAN :: "string \<Rightarrow> billing_err + (string \<times> string)" where
  "NormalizeCardPAN pan =
     (let digits = filter is_digit pan in
      if length digits < 16 \<or> 19 < length digits then Inl ErrManualInvalidCard
      else Inr (digits, drop (length digits - 4) digits))"

fun format_card_from :: "nat \<Rightarrow> string \<Rightarrow> string" where
  "format_card_from i [] = []"
| "format_card_from i (r # rs) =
     (if 0 < i \<and> i mod 4 = 0 then [CHR '' '', r] else [r]) @ format_card_from (Suc i) rs"

definition FormatCardDisplay :: "string \<Rightarrow> string" where
  "FormatCardDisplay pan = format_card_from 0 pan"

end
