(* ===== verification/Manual_Properties.thy ===== *)
theory Manual_Properties
  imports Manual_Pay Checkout_Properties
begin

text \<open>
  What manual card transfers promise: a transfer is credited exactly once, a bank push can only mean
  one order because open orders on one card ask for different sums, and an order that is paid stays paid
  whatever is claimed, rejected, expired or voided afterwards.
\<close>

section \<open>Exactly-once confirmation\<close>

lemma ConfirmManualPayment_cases:
  obtains (same) "snd (ConfirmManualPayment pay src e m) = m"
  | (granted) asg p b2 where "GetManualPayAssignmentByPaymentForUpdate m pay = Some asg"
      and "GetPaymentForPayme (md_billing m) pay = Some p" and "p_status p \<noteq> Paid" and "ma_state asg \<noteq> Consumed"
      and "ProcessPaymentGrant e pay (snd (MarkPaymentPaidIfOpen e pay (md_billing m))) = Inr b2"
      and "ConfirmManualPayment pay src e m = (Inr False, MarkManualPayAssignmentConsumed e pay src (m\<lparr>md_billing := b2\<rparr>))"
proof (cases "fst (ConfirmManualPayment pay src e m)")
  case (Inl err)
  then have "snd (ConfirmManualPayment pay src e m) = m"
    using run_tx_error [of e "''ConfirmManualPayment''" "ConfirmManualPayment_tx e pay src" m]
    by (auto simp: ConfirmManualPayment_def split: if_splits)
  then show thesis by (rule same)
next
  case (Inr already)
  then obtain m' where "ConfirmManualPayment pay src e m = (Inr already, m')"
    by (metis prod.collapse)
  then have run: "ConfirmManualPayment_tx e pay src m = Inr (already, m')"
    and res: "ConfirmManualPayment pay src e m = (Inr already, m')"
    by (auto simp: ConfirmManualPayment_def run_tx_ok split: if_splits)
  then obtain asg p where asg: "GetManualPayAssignmentByPaymentForUpdate m pay = Some asg"
    and p: "GetPaymentForPayme (md_billing m) pay = Some p"
    by (auto simp: ConfirmManualPayment_tx_def split: if_splits option.splits)
  show thesis
  proof (cases "p_status p = Paid \<or> ma_state asg = Consumed")
    case True
    with run asg p have "m' = m" by (auto simp: ConfirmManualPayment_tx_def split: if_splits)
    then show thesis using res by (intro same) simp
  next
    case False
    let ?mp = "MarkPaymentPaidIfOpen e pay (md_billing m)"
    show thesis
    proof (cases "fst ?mp = 0")
      case True
      then have "upd_where (\<lambda>p. p_id p = pay \<and> is_open_status (p_status p)) f (payments (md_billing m)) = payments (md_billing m)" for f
        by (intro upd_where_id) (auto simp: MarkPaymentPaidIfOpen_def filter_empty_conv)
      then have "snd ?mp = md_billing m" by (simp add: MarkPaymentPaidIfOpen_def)
      with True False run asg p have "m' = m"
        by (auto simp: ConfirmManualPayment_tx_def rbind_Inr_iff split_beta split: if_splits)
      then show thesis using res by (intro same) simp
    next
      case nz: False
      with False run asg p obtain b2 where "ProcessPaymentGrant e pay (snd ?mp) = Inr b2"
        "already = False" "m' = MarkManualPayAssignmentConsumed e pay src (m\<lparr>md_billing := b2\<rparr>)"
        by (auto simp: ConfirmManualPayment_tx_def rbind_Inr_iff split_beta split: if_splits)
      then show thesis using False asg p res by (intro granted) auto
    qed
  qed
qed

definition manual_settled :: "uuid \<Rightarrow> manual_db \<Rightarrow> bool" where
  "manual_settled pay m \<longleftrightarrow>
     (case GetPaymentForPayme (md_billing m) pay of None \<Rightarrow> False | Some p \<Rightarrow> p_status p = Paid)
   \<or> (case GetManualPayAssignmentByPaymentForUpdate m pay of None \<Rightarrow> False | Some a \<Rightarrow> ma_state a = Consumed)"

interpretation manual_confirm: settlement "\<lambda>(src, e). ConfirmManualPayment pay src e" "manual_settled pay"
    "\<lambda>m. grant_count (md_billing m) pay" for pay
proof unfold_locales
  fix m :: manual_db and ev :: "string \<times> env"
  obtain src e where ev: "ev = (src, e)" by (cases ev)
  show "snd ((case ev of (src, e) \<Rightarrow> ConfirmManualPayment pay src e) m) = m" if "manual_settled pay m"
    unfolding ev prod.case
  proof (cases rule: ConfirmManualPayment_cases [of pay src e m])
    case (granted asg p b2)
    then show "snd (ConfirmManualPayment pay src e m) = m" using that by (simp add: manual_settled_def)
  qed
  show "grant_count (md_billing (snd ((case ev of (src, e) \<Rightarrow> ConfirmManualPayment pay src e) m))) pay =
      grant_count (md_billing m) pay
      + (if manual_settled pay (snd ((case ev of (src, e) \<Rightarrow> ConfirmManualPayment pay src e) m)) then 1 else 0)"
    if "\<not> manual_settled pay m"
    unfolding ev prod.case
  proof (cases rule: ConfirmManualPayment_cases [of pay src e m])
    case same
    then show "grant_count (md_billing (snd (ConfirmManualPayment pay src e m))) pay = grant_count (md_billing m) pay
      + (if manual_settled pay (snd (ConfirmManualPayment pay src e m)) then 1 else 0)" using that by simp
  next
    case (granted asg p b2)
    have "manual_settled pay (MarkManualPayAssignmentConsumed e pay src (m\<lparr>md_billing := b2\<rparr>))"
      using granted(1) by (auto simp: manual_settled_def GetManualPayAssignmentByPaymentForUpdate_def
          MarkManualPayAssignmentConsumed_def find_upd_where dest: find_SomeD)
    moreover have "grant_count b2 pay = grant_count (md_billing m) pay + 1"
      using ProcessPaymentGrant_grants_once(1) [OF granted(5), of pay]
      by (simp add: MarkPaymentPaidIfOpen_def grant_count_def)
    ultimately show "grant_count (md_billing (snd (ConfirmManualPayment pay src e m))) pay = grant_count (md_billing m) pay
      + (if manual_settled pay (snd (ConfirmManualPayment pay src e m)) then 1 else 0)"
      by (simp add: granted(6) MarkManualPayAssignmentConsumed_def)
  qed
qed

definition confirm_all :: "uuid \<Rightarrow> (string \<times> env) list \<Rightarrow> manual_db \<Rightarrow> manual_db" where
  "confirm_all pay evs m = fold (\<lambda>(src, e) m. snd (ConfirmManualPayment pay src e m)) evs m"

lemma confirm_all_eq: "confirm_all pay evs m = manual_confirm.deliver pay evs m"
  by (induction evs arbitrary: m) (auto simp: confirm_all_def split: prod.splits)

text \<open>
  C23: however often the bank bot and the admins confirm a manual order, in any order and with any of the
  attempts failing at any statement, the purchase is granted exactly once if the order ends up paid
  or its assignment consumed, and not at all otherwise.
\<close>

theorem ConfirmManualPayment_exactly_once:
  assumes "\<not> manual_settled pay m"
  shows "grant_count (md_billing (confirm_all pay evs m)) pay = grant_count (md_billing m) pay
    + (if manual_settled pay (confirm_all pay evs m) then 1 else 0)"
  using assms manual_confirm.deliver_grants [of pay m evs] by (simp add: confirm_all_eq)

definition fx_card :: card_row where
  "fx_card = \<lparr>mc_id = 50, mc_network = ''humo'', mc_pan = ''9860000000001234'', mc_last4 = ''1234'', mc_holder = ''A B'',
     mc_sort = 1, mc_enabled = True, mc_created_at = fx_t0\<rparr>"

definition fx_manual :: manual_db where
  "fx_manual = \<lparr>md_billing = fx_db, md_cards = [fx_card], md_assignments = [], md_events = []\<rparr>"

definition fx_manual_order :: manual_db where
  "fx_manual_order = snd (StartManualCheckout Some fx_env 1 ''m1'' '''' fx_manual)"

theorem ConfirmManualPayment_exactly_once_witness:
  "grant_count (md_billing (confirm_all 100 [(''bot'', fx_env\<lparr>flt := (\<lambda>s q. q = ''Commit'')\<rparr>), (''admin'', fx_later),
     (''bot'', fx_later)] fx_manual_order)) 100 = 1"
proof -
  let ?evs = "[(''bot'', fx_env\<lparr>flt := (\<lambda>s q. q = ''Commit'')\<rparr>), (''admin'', fx_later), (''bot'', fx_later)]"
  have "\<not> manual_settled 100 fx_manual_order" "manual_settled 100 (confirm_all 100 ?evs fx_manual_order)"
    "grant_count (md_billing fx_manual_order) 100 = 0" by code_simp+
  then show ?thesis using ConfirmManualPayment_exactly_once [of 100 fx_manual_order ?evs] by simp
qed

section \<open>Quiet steps\<close>

text \<open>
  A quiet step opens nothing: no assignment is added or changes order, card or sum, no closed assignment
  and no closed order opens again, and what is paid stays paid.
\<close>

definition quiet :: "manual_db \<Rightarrow> manual_db \<Rightarrow> bool" where
  "quiet m m' \<longleftrightarrow> map ma_payment (md_assignments m') = map ma_payment (md_assignments m)
     \<and> md_cards m' = md_cards m
     \<and> (distinct (map p_id (payments (md_billing m))) \<longrightarrow> distinct (map p_id (payments (md_billing m'))))
     \<and> (\<forall>a' \<in> set (md_assignments m'). \<exists>a \<in> set (md_assignments m). ma_payment a = ma_payment a' \<and> ma_card a = ma_card a'
          \<and> ma_amount a = ma_amount a' \<and> (is_open_state (ma_state a') \<longrightarrow> is_open_state (ma_state a)))
     \<and> p_id ` set (payments (md_billing m)) \<subseteq> p_id ` set (payments (md_billing m'))
     \<and> (\<forall>p' \<in> set (payments (md_billing m')). is_open_status (p_status p') \<longrightarrow> p_id p' \<in> ma_payment ` set (md_assignments m)
          \<longrightarrow> (\<exists>p \<in> set (payments (md_billing m)). p_id p = p_id p' \<and> p_created_at p = p_created_at p' \<and> is_open_status (p_status p)))
     \<and> (\<forall>p \<in> set (payments (md_billing m)). p_status p = Paid \<longrightarrow> p \<in> set (payments (md_billing m')))"

lemma quiet_refl [simp]: "quiet m m"
  by (auto simp: quiet_def)

lemma quiet_trans [trans]:
  assumes "quiet a b" and "quiet b c"
  shows "quiet a c"
proof -
  have asg: "ma_payment ` set (md_assignments b) = ma_payment ` set (md_assignments a)"
    using assms(1) by (metis quiet_def list.set_map)
  show ?thesis
    unfolding quiet_def
  proof (intro conjI ballI impI)
    fix z assume z: "z \<in> set (md_assignments c)"
    obtain y where y: "y \<in> set (md_assignments b)" "ma_payment y = ma_payment z" "ma_card y = ma_card z" "ma_amount y = ma_amount z"
      "is_open_state (ma_state z) \<longrightarrow> is_open_state (ma_state y)" using assms(2) z unfolding quiet_def by blast
    obtain x where "x \<in> set (md_assignments a)" "ma_payment x = ma_payment y" "ma_card x = ma_card y" "ma_amount x = ma_amount y"
      "is_open_state (ma_state y) \<longrightarrow> is_open_state (ma_state x)" using assms(1) y(1) unfolding quiet_def by blast
    with y show "\<exists>x \<in> set (md_assignments a). ma_payment x = ma_payment z \<and> ma_card x = ma_card z
          \<and> ma_amount x = ma_amount z \<and> (is_open_state (ma_state z) \<longrightarrow> is_open_state (ma_state x))" by auto
  next
    fix r assume r: "r \<in> set (payments (md_billing c))" "is_open_status (p_status r)" "p_id r \<in> ma_payment ` set (md_assignments a)"
    obtain q where q: "q \<in> set (payments (md_billing b))" "p_id q = p_id r" "p_created_at q = p_created_at r" "is_open_status (p_status q)"
      using assms(2) r asg unfolding quiet_def by metis
    obtain p where "p \<in> set (payments (md_billing a))" "p_id p = p_id q" "p_created_at p = p_created_at q" "is_open_status (p_status p)"
      using assms(1) q r(3) unfolding quiet_def by metis
    with q show "\<exists>p \<in> set (payments (md_billing a)). p_id p = p_id r \<and> p_created_at p = p_created_at r \<and> is_open_status (p_status p)"
      by auto
  next
    show "p_id ` set (payments (md_billing a)) \<subseteq> p_id ` set (payments (md_billing c))"
      using assms unfolding quiet_def by (metis (no_types) subset_trans)
  qed (use assms in \<open>simp_all add: quiet_def\<close>)
qed

lemma quiet_assignments:
  assumes "\<And>a. ma_payment (f a) = ma_payment a \<and> ma_card (f a) = ma_card a \<and> ma_amount (f a) = ma_amount a"
    and "\<And>a. P a \<Longrightarrow> is_open_state (ma_state (f a)) \<Longrightarrow> is_open_state (ma_state a)"
    and "m' = m\<lparr>md_assignments := upd_where P f (md_assignments m)\<rparr>"
  shows "quiet m m'"
proof -
  have "map ma_payment (upd_where P f (md_assignments m)) = map ma_payment (md_assignments m)"
    using assms(1) by (intro map_upd_where) simp
  moreover have "\<exists>a \<in> set (md_assignments m). ma_payment a = ma_payment a' \<and> ma_card a = ma_card a'
          \<and> ma_amount a = ma_amount a' \<and> (is_open_state (ma_state a') \<longrightarrow> is_open_state (ma_state a))"
    if "a' \<in> set (upd_where P f (md_assignments m))" for a'
    using that assms(1,2) by (auto simp: set_upd_where)
  ultimately show ?thesis by (auto simp: quiet_def assms(3))
qed

lemma quiet_payments:
  assumes "\<And>p. p_id (f p) = p_id p \<and> p_created_at (f p) = p_created_at p"
    and "\<And>p. P p \<Longrightarrow> is_open_status (p_status (f p)) \<Longrightarrow> is_open_status (p_status p)"
    and "\<And>p. P p \<Longrightarrow> p_status p \<noteq> Paid"
    and "payments b = upd_where P f (payments (md_billing m))"
  shows "quiet m (m\<lparr>md_billing := b\<rparr>)"
proof -
  let ?ps = "payments (md_billing m)"
  have ids: "map p_id (upd_where P f ?ps) = map p_id ?ps" using assms(1) by (intro map_upd_where) simp
  then have "p_id ` set (upd_where P f ?ps) = p_id ` set ?ps" by (metis list.set_map)
  moreover have "\<exists>p \<in> set ?ps. p_id p = p_id p' \<and> p_created_at p = p_created_at p' \<and> is_open_status (p_status p)"
    if "p' \<in> set (upd_where P f ?ps)" "is_open_status (p_status p')" for p'
    using that assms(1,2) by (auto simp: set_upd_where split: if_splits)
  moreover have "p \<in> set (upd_where P f ?ps)" if "p \<in> set ?ps" "p_status p = Paid" for p
    using that assms(3) by (force simp: set_upd_where image_iff)
  ultimately show ?thesis by (auto simp: quiet_def assms(4) ids)
qed

lemma quiet_events: "quiet m (m\<lparr>md_events := evs\<rparr>)"
  by (auto simp: quiet_def)

lemma quiet_same_payments: "payments b = payments (md_billing m) \<Longrightarrow> quiet m (m\<lparr>md_billing := b\<rparr>)"
  by (auto simp: quiet_def)

lemma quiet_release: "quiet m (ReleaseExpiredManualHolds e m)"
  by (rule quiet_assignments [OF _ _ ReleaseExpiredManualHolds_def]) (auto simp: is_open_state_def)

lemma quiet_expire: "quiet m (ExpireStaleManualPayments e m)"
proof -
  let ?b = "(md_billing m)\<lparr>payments := upd_where (stale_manual e) (\<lambda>p. p\<lparr>p_status := Canceled\<rparr>) (payments (md_billing m))\<rparr>"
  have "quiet m (m\<lparr>md_billing := ?b\<rparr>)"
    by (rule quiet_payments [where P = "stale_manual e" and f = "\<lambda>p. p\<lparr>p_status := Canceled\<rparr>"])
      (auto simp: stale_manual_def is_open_status_def)
  also have "quiet (m\<lparr>md_billing := ?b\<rparr>) (ExpireStaleManualPayments e m)"
    by (rule quiet_assignments) (auto simp: ExpireStaleManualPayments_def Let_def is_open_state_def)
  finally show ?thesis .
qed

lemma quiet_claim: "quiet m (ClaimManualPayAssignment e pay m)"
  by (rule quiet_assignments [OF _ _ ClaimManualPayAssignment_def]) auto

lemma quiet_consumed: "quiet m (MarkManualPayAssignmentConsumed e pay src m)"
  by (rule quiet_assignments [OF _ _ MarkManualPayAssignmentConsumed_def]) (auto simp: is_open_state_def)

lemma quiet_reject: "quiet m (RejectManualPayAssignment e pay nt m)"
  by (rule quiet_assignments [OF _ _ RejectManualPayAssignment_def]) (auto simp: is_open_state_def)

lemma quiet_cancel: "quiet m (on_billing (SetPaymentCanceled pay) m)"
  unfolding on_billing_def SetPaymentCanceled_def
  by (rule quiet_payments [where P = "\<lambda>p. p_id p = pay \<and> is_open_status (p_status p)" and f = "\<lambda>p. p\<lparr>p_status := Canceled\<rparr>"])
    (auto simp: is_open_status_def)

lemma quiet_confirm: "quiet m (snd (ConfirmManualPayment pay src e m))"
proof (cases rule: ConfirmManualPayment_cases [of pay src e m])
  case (granted asg p b2)
  have "payments b2 = upd_where (\<lambda>p. p_id p = pay \<and> is_open_status (p_status p))
      (\<lambda>p. p\<lparr>p_status := Paid, p_paid_at := Some (tx_now e)\<rparr>) (payments (md_billing m))"
    using ProcessPaymentGrant_grants_once(2) [OF granted(5)] by (simp add: same_orders_def MarkPaymentPaidIfOpen_def)
  then have "quiet m (m\<lparr>md_billing := b2\<rparr>)"
    by (rule quiet_payments [rotated 3]) (auto simp: is_open_status_def)
  also note quiet_consumed
  finally show ?thesis by (simp add: granted(6))
qed simp

lemma quiet_status: "quiet m (snd (GetManualPaymentStatus dec e prof pay m))"
proof -
  define m1 where "m1 = (if flt e ''GetManualPaymentStatus'' ''ReleaseExpiredManualHolds'' then m else ReleaseExpiredManualHolds e m)"
  have "snd (GetManualPaymentStatus dec e prof pay m) = m1"
    unfolding GetManualPaymentStatus_def Let_def m1_def [symmetric] by (simp split: option.split sum.split prod.split)
  then show ?thesis by (simp add: m1_def quiet_release)
qed

lemma quiet_run_tx:
  assumes "\<And>x s'. body m = Inr (x, s') \<Longrightarrow> quiet m s'"
  shows "quiet m (snd (run_tx e site body m))"
  using assms by (auto simp: run_tx_def split: sum.splits prod.splits)

lemma quiet_claim_payment: "quiet m (snd (ClaimManualPayment dec e prof pay m))"
proof -
  let ?run = "run_tx e ''ClaimManualPayment'' (ClaimManualPayment_tx e prof pay) m"
  have "quiet m (snd ?run)"
  proof (rule quiet_run_tx)
    fix x m' assume "ClaimManualPayment_tx e prof pay m = Inr (x, m')"
    then have "m' \<in> {ClaimManualPayAssignment e pay m, ClaimManualPayAssignment e pay (ReleaseExpiredManualHolds e m)}"
      by (auto simp: ClaimManualPayment_tx_def Let_def split: if_splits option.splits)
    then show "quiet m m'" by (auto intro: quiet_claim quiet_trans [OF quiet_release])
  qed
  then show ?thesis
    by (auto simp: ClaimManualPayment_def split: prod.splits sum.splits intro: quiet_trans [OF _ quiet_status])
qed

lemma quiet_reject_payment: "quiet m (snd (RejectManualPayment e pay nt m))"
  unfolding RejectManualPayment_def
  by (rule quiet_run_tx)
    (auto simp: rbind_Inr_iff split: if_splits option.splits intro: quiet_trans [OF quiet_reject quiet_cancel])

lemma quiet_match_push: "quiet m (snd (match_push e i push m))"
proof -
  define m2 where "m2 = (if flt e ''IngestHumoPush'' ''ReleaseExpiredManualHolds'' then m else ReleaseExpiredManualHolds e m)"
  define m3 where "m3 = ExpireStaleManualPayments e m2"
  have q2: "quiet m m2" by (simp add: m2_def quiet_release)
  have q3: "quiet m m3" unfolding m3_def by (rule quiet_trans [OF q2 quiet_expire])
  have q4: "quiet m m4" if "ConfirmManualPayment pay ''bot'' e m3 = (r, m4)" for pay r m4
    using that quiet_confirm [of m3 pay "''bot''" e] quiet_trans [OF q3] by simp
  have q5: "quiet m (MarkManualPayEventMatched i pay' m4)" if "ConfirmManualPayment pay ''bot'' e m3 = (r, m4)" for pay pay' r m4
    unfolding MarkManualPayEventMatched_def by (rule quiet_trans [OF q4 [OF that] quiet_events])
  show ?thesis
    unfolding match_push_def Let_def m2_def [symmetric] m3_def [symmetric]
    by (auto simp: q2 q3 split: option.split sum.split prod.split intro: q4 q5)
qed

lemma quiet_ingest: "quiet m (snd (IngestHumoPush fp parse e raw msg m))"
proof -
  have ins: "quiet m m1" if "InsertManualPayEvent v m = Inr m1" for v m1
    using that by (auto simp: InsertManualPayEvent_def quiet_events split: if_splits)
  have "quiet m (snd (match_push e i push m1))" if "InsertManualPayEvent v m = Inr m1" for v m1 i push
    by (rule quiet_trans [OF ins [OF that] quiet_match_push])
  with ins show ?thesis
    unfolding IngestHumoPush_def Let_def
    by (auto split: option.split sum.split)
qed

lemma quiet_void:
  assumes "distinct (map p_id (payments (md_billing m)))"
  shows "quiet m (snd (VoidPayment e i rawReason m))"
proof -
  define voided where "voided st m2 = on_billing (SetPaymentStatus i Voided)
      (on_billing (\<lambda>b. b\<lparr>voids := voids b @ [\<lparr>vd_payment = i, vd_previous = st, vd_reason = trim_space rawReason\<rparr>]\<rparr>) m2)"
    for st m2
  have v: "quiet m (voided st m)" if pm: "find (\<lambda>p. p_id p = i) (payments (md_billing m)) = Some pm" and np: "p_status pm \<noteq> Paid" for pm st
  proof -
    have one: "p = pm" if "p \<in> set (payments (md_billing m))" "p_id p = i" for p
      using that find_SomeD [OF pm] inj_onD [of p_id "set (payments (md_billing m))" p pm] assms by (simp add: distinct_map)
    have "(p_id p = i) = (p = pm)" if "p \<in> set (payments (md_billing m))" for p
      using one [OF that] find_SomeD [OF pm] by blast
    then have "payments (md_billing (voided st m)) = upd_where (\<lambda>p. p = pm) (\<lambda>p. p\<lparr>p_status := Voided\<rparr>) (payments (md_billing m))"
      unfolding upd_where_def voided_def on_billing_def SetPaymentStatus_def by simp
    then have "quiet m (m\<lparr>md_billing := md_billing (voided st m)\<rparr>)"
      by (rule quiet_payments [rotated 3]) (auto simp: np is_open_status_def)
    then show ?thesis by (simp add: voided_def on_billing_def)
  qed
  have asg: "quiet m2 (m2\<lparr>md_assignments := upd_where (\<lambda>a. ma_payment a = i \<and> ma_state a \<noteq> Consumed)
      (\<lambda>a. a\<lparr>ma_state := Rejected, ma_released_at := coalesce (ma_released_at a) (tx_now e),
             ma_confirmed_by := Some ''admin'', ma_note := Some (trim_space rawReason)\<rparr>) (md_assignments m2)\<rparr>)" for m2
    by (rule quiet_assignments [OF _ _ refl]) (auto simp: is_open_state_def)
  show ?thesis
    unfolding VoidPayment_def Let_def
    by (auto intro!: quiet_run_tx)
      (auto simp: rbind_Inr_iff is_open_status_def simp flip: voided_def split: if_splits
        intro: v quiet_trans [OF v asg] quiet_trans [OF quiet_trans [OF v asg] quiet_events])
qed

section \<open>Open orders on one card ask for different sums\<close>

definition sums_differ :: "int \<Rightarrow> manual_db \<Rightarrow> bool" where
  "sums_differ t m \<longleftrightarrow> (\<forall>a \<in> set (md_assignments m). \<forall>b \<in> set (md_assignments m). matchable t m a \<and> matchable t m b
     \<and> ma_card a = ma_card b \<and> ma_amount a = ma_amount b \<longrightarrow> ma_payment a = ma_payment b)"

lemma sums_differD:
  "sums_differ t m \<Longrightarrow> a \<in> set (md_assignments m) \<Longrightarrow> b \<in> set (md_assignments m) \<Longrightarrow> matchable t m a \<Longrightarrow> matchable t m b
     \<Longrightarrow> ma_card a = ma_card b \<Longrightarrow> ma_amount a = ma_amount b \<Longrightarrow> ma_payment a = ma_payment b"
  unfolding sums_differ_def by blast

definition manual_inv :: "int \<Rightarrow> manual_db \<Rightarrow> bool" where
  "manual_inv t m \<longleftrightarrow> distinct (map p_id (payments (md_billing m))) \<and> distinct (map ma_payment (md_assignments m))
     \<and> ma_payment ` set (md_assignments m) \<subseteq> p_id ` set (payments (md_billing m))
     \<and> sums_differ t m"

text \<open>An assignment that can be paid after a quiet step could be paid before, under the same sum.\<close>

lemma quiet_matchable:
  assumes "quiet m m'" and "t \<le> t'" and "a' \<in> set (md_assignments m')" and "matchable t' m' a'"
  obtains a where "a \<in> set (md_assignments m)" and "matchable t m a" and "ma_payment a = ma_payment a'"
    and "ma_card a = ma_card a'" and "ma_amount a = ma_amount a'"
proof -
  from assms(1,3) obtain a where a: "a \<in> set (md_assignments m)" "ma_payment a = ma_payment a'" "ma_card a = ma_card a'"
    "ma_amount a = ma_amount a'" "is_open_state (ma_state a') \<longrightarrow> is_open_state (ma_state a)"
    unfolding quiet_def by blast
  from assms(4) obtain p' where p': "p' \<in> set (payments (md_billing m'))" "p_id p' = ma_payment a'"
    "is_open_status (p_status p')" "t' - ManualUnpaidTTL \<le> p_created_at p'" and st: "is_open_state (ma_state a')"
    by (auto simp: matchable_def)
  have "p_id p' \<in> ma_payment ` set (md_assignments m)" using a(1,2) p'(2) by (metis imageI)
  then obtain p where "p \<in> set (payments (md_billing m))" "p_id p = p_id p'" "p_created_at p = p_created_at p'"
    "is_open_status (p_status p)" using assms(1) p' unfolding quiet_def by blast
  then have "matchable t m a" using a p' st assms(2) by (auto simp: matchable_def)
  then show thesis using a by (intro that)
qed

lemma quiet_inv:
  assumes "manual_inv t m" and "quiet m m'" and "t \<le> t'"
  shows "manual_inv t' m'"
  unfolding manual_inv_def sums_differ_def
proof (intro conjI ballI impI)
  show "distinct (map p_id (payments (md_billing m')))" "distinct (map ma_payment (md_assignments m'))"
    using assms by (simp_all add: manual_inv_def quiet_def)
  have "ma_payment ` set (md_assignments m') = ma_payment ` set (md_assignments m)"
    using assms(2) by (metis quiet_def list.set_map)
  moreover have "p_id ` set (payments (md_billing m)) \<subseteq> p_id ` set (payments (md_billing m'))"
    using assms(2) by (simp add: quiet_def)
  ultimately show "ma_payment ` set (md_assignments m') \<subseteq> p_id ` set (payments (md_billing m'))"
    using assms(1) by (metis manual_inv_def subset_trans)
  fix a' b' assume ab: "a' \<in> set (md_assignments m')" "b' \<in> set (md_assignments m')"
    "matchable t' m' a' \<and> matchable t' m' b' \<and> ma_card a' = ma_card b' \<and> ma_amount a' = ma_amount b'"
  obtain a where a: "a \<in> set (md_assignments m)" "matchable t m a" "ma_payment a = ma_payment a'" "ma_card a = ma_card a'"
    "ma_amount a = ma_amount a'" by (rule quiet_matchable [OF assms(2,3) ab(1)]) (use ab(3) in auto)
  obtain b where b: "b \<in> set (md_assignments m)" "matchable t m b" "ma_payment b = ma_payment b'" "ma_card b = ma_card b'"
    "ma_amount b = ma_amount b'" by (rule quiet_matchable [OF assms(2,3) ab(2)]) (use ab(3) in auto)
  have "ma_card a = ma_card b" "ma_amount a = ma_amount b" using a(4,5) b(4,5) ab(3) by simp_all
  moreover have "sums_differ t m" using assms(1) by (simp add: manual_inv_def)
  ultimately have "ma_payment a = ma_payment b" using a(1,2) b(1,2) sums_differD by blast
  then show "ma_payment a' = ma_payment b'" using a(3) b(3) by simp
qed

lemma first_free_amount_free:
  "first_free_amount taken base offset left = Some amount \<Longrightarrow> amount \<notin> set taken"
  by (induction taken base offset left rule: first_free_amount.induct) (auto simp: Let_def split: if_splits)

text \<open>A new order whose sum is not asked for on its card keeps the invariant.\<close>

lemma manual_inv_insert:
  assumes inv: "manual_inv t m" and new: "p_id pm \<notin> p_id ` set (payments (md_billing m))"
    and asg: "ma_payment asg = p_id pm" and free: "ma_amount asg \<notin> set (ListOpenManualAmountsForCard e (ma_card asg) m)"
    and t: "tx_now e = t"
    and m': "payments (md_billing m') = payments (md_billing m) @ [pm]" "md_assignments m' = md_assignments m @ [asg]"
  shows "manual_inv t m'"
proof -
  have fresh: "p_id pm \<notin> ma_payment ` set (md_assignments m)" using inv new by (auto simp: manual_inv_def)
  have old: "matchable t m a" if "a \<in> set (md_assignments m)" "matchable t m' a" for a
    using that fresh by (auto simp: matchable_def m')
  have other: "ma_amount a \<noteq> ma_amount asg" if "a \<in> set (md_assignments m)" "matchable t m' a" "ma_card a = ma_card asg" for a
  proof
    assume "ma_amount a = ma_amount asg"
    moreover have "ma_amount a \<in> set (ListOpenManualAmountsForCard e (ma_card asg) m)"
      using old [OF that(1,2)] that by (simp add: ListOpenManualAmountsForCard_def t)
    ultimately show False using free by simp
  qed
  show ?thesis
    unfolding manual_inv_def sums_differ_def
  proof (intro conjI ballI impI)
    fix a b assume ab: "a \<in> set (md_assignments m')" "b \<in> set (md_assignments m')"
      "matchable t m' a \<and> matchable t m' b \<and> ma_card a = ma_card b \<and> ma_amount a = ma_amount b"
    show "ma_payment a = ma_payment b"
    proof (cases "a = asg \<or> b = asg")
      case True
      then show ?thesis using ab other [of a] other [of b] by (auto simp: m')
    next
      case False
      then have "a \<in> set (md_assignments m)" "b \<in> set (md_assignments m)" using ab by (auto simp: m')
      moreover have "sums_differ t m" using inv by (simp add: manual_inv_def)
      ultimately show ?thesis using ab old [of a] old [of b] sums_differD by blast
    qed
  qed (use inv fresh new asg in \<open>auto simp: manual_inv_def m'\<close>)
qed

lemma checkout_price_payments:
  assumes "checkout_price e prof tc pc tariff b = Inr (amount, promo, bonus, ab, b1)"
  shows "payments b1 = payments b"
  using assms by (auto elim!: checkout_price_cases dest: TryApply_frame)

lemma StartManualCheckout_cases:
  obtains (same) "snd (StartManualCheckout dec e prof tc pc m) = m"
  | (order) info m2 m4 pm asg where "StartManualCheckout dec e prof tc pc m = (Inr info, m4)"
      and "quiet m m2" and "p_id pm \<notin> p_id ` set (payments (md_billing m2))"
      and "ma_payment asg = p_id pm" and "ma_amount asg \<notin> set (ListOpenManualAmountsForCard e (ma_card asg) m2)"
      and "payments (md_billing m4) = payments (md_billing m2) @ [pm]" and "md_assignments m4 = md_assignments m2 @ [asg]"
      and "md_cards m4 = md_cards m2" and "mi_payment info = p_id pm" and "mi_amount info = ma_amount asg"
      and "p_amount pm = ma_amount asg"
proof (cases "fst (StartManualCheckout dec e prof tc pc m)")
  case (Inl err)
  then have "snd (StartManualCheckout dec e prof tc pc m) = m"
    by (auto simp: StartManualCheckout_def run_tx_error split: sum.splits option.splits if_splits)
  then show thesis by (rule same)
next
  case (Inr info)
  then obtain m4 where s: "StartManualCheckout dec e prof tc pc m = (Inr info, m4)" by (metis prod.collapse)
  then obtain tariff where run: "StartManualCheckout_tx dec e prof tc pc tariff m = Inr (info, m4)"
    by (auto simp: StartManualCheckout_def run_tx_ok split: sum.splits option.splits if_splits)
  then obtain base promo bonus ab b1 where cp: "checkout_price e prof tc pc tariff (md_billing m) = Inr (base, promo, bonus, ab, b1)"
    by (auto simp: StartManualCheckout_tx_def rbind_Inr_iff)
  define m2 where "m2 = ExpireStaleManualPayments e (ReleaseExpiredManualHolds e (m\<lparr>md_billing := b1\<rparr>))"
  have q: "quiet m m2"
    unfolding m2_def using checkout_price_payments [OF cp]
    by (intro quiet_trans [OF quiet_trans [OF quiet_same_payments quiet_release] quiet_expire])
  from run cp obtain crd :: card_row and amount pid b3 asg where
    am: "uniqueManualAmount e (mc_id crd) base m2 = Inr amount"
    and pay: "CreatePayment e prof (tf_id tariff) amount ''manual'' promo (tf_days tariff) (tf_price tariff) (md_billing m2) = Inr (pid, b3)"
    and ins: "InsertManualPayAssignment pid (mc_id crd) amount (clk e ''StartManualCheckout'')
        (clk e ''StartManualCheckout'' + ManualHoldDuration) (m2\<lparr>md_billing := SetPaymentPending pid b3\<rparr>) = Inr (asg, m4)"
    and info: "mi_payment info = pid" "mi_amount info = amount"
    by (auto simp: StartManualCheckout_tx_def rbind_Inr_iff m2_def Let_def split: if_splits option.splits)
  have free: "amount \<notin> set (ListOpenManualAmountsForCard e (mc_id crd) m2)"
    using am by (auto simp: uniqueManualAmount_def rbind_Inr_iff dest: first_free_amount_free split: option.splits)
  from pay obtain pm where pm: "b3 = (md_billing m2)\<lparr>payments := payments (md_billing m2) @ [pm]\<rparr>" "p_id pm = pid"
    "p_amount pm = amount" "p_status pm = Created" "pid \<notin> p_id ` set (payments (md_billing m2))"
    by (rule CreatePayment_ok) blast
  have ps: "payments (SetPaymentPending pid b3) = payments (md_billing m2) @ [pm\<lparr>p_status := Pending\<rparr>]"
  proof -
    have "upd_where (\<lambda>p. p_id p = pid \<and> p_status p = Created) f (payments (md_billing m2)) = payments (md_billing m2)" for f
      using pm(5) by (intro upd_where_id) auto
    then show ?thesis using pm by (simp add: SetPaymentPending_def upd_where_def)
  qed
  show thesis
  proof (rule order [OF s q, of "pm\<lparr>p_status := Pending\<rparr>" asg])
    show "p_id (pm\<lparr>p_status := Pending\<rparr>) \<notin> p_id ` set (payments (md_billing m2))" using pm by simp
  qed (use ins info free ps pm in \<open>auto simp: InsertManualPayAssignment_def Let_def split: if_splits\<close>)
qed

lemma StartManualCheckout_inv:
  assumes "manual_inv t m" and "t \<le> tx_now e"
  shows "manual_inv (tx_now e) (snd (StartManualCheckout dec e prof tc pc m))"
proof (cases rule: StartManualCheckout_cases [of dec e prof tc pc m])
  case same
  then show ?thesis using quiet_inv [OF assms(1) quiet_refl assms(2)] by simp
next
  case (order info m2 m4 pm asg)
  have "manual_inv (tx_now e) m2" by (rule quiet_inv [OF assms(1) order(2) assms(2)])
  then have "manual_inv (tx_now e) m4"
    by (rule manual_inv_insert [OF _ order(3,4,5) refl order(6,7)])
  then show ?thesis by (simp add: order(1))
qed

section \<open>Reachable states\<close>

lemma distinct_singleton: "distinct xs \<Longrightarrow> set xs = {x} \<Longrightarrow> xs = [x]"
  by (cases xs; cases "tl xs") auto

text \<open>
  One request at a time, with the database clock never going back: every operation on manual orders, and
  whatever the rest of the backend does to the billing tables as long as it opens no order that was
  closed and unpays none.
\<close>

inductive manual_step :: "env \<Rightarrow> manual_db \<Rightarrow> manual_db \<Rightarrow> bool" where
  checkout: "manual_step e m (snd (StartManualCheckout dec e prof tc pc m))"
| status: "manual_step e m (snd (GetManualPaymentStatus dec e prof pay m))"
| claim: "manual_step e m (snd (ClaimManualPayment dec e prof pay m))"
| confirm: "manual_step e m (snd (ConfirmManualPayment pay src e m))"
| reject: "manual_step e m (snd (RejectManualPayment e pay nt m))"
| push: "manual_step e m (snd (IngestHumoPush fp parse e raw msg m))"
| expire: "manual_step e m (ExpireStaleManualPayments e m)"
| void: "manual_step e m (snd (VoidPayment e pay reason m))"
| elsewhere: "quiet m (m\<lparr>md_billing := b\<rparr>) \<Longrightarrow> manual_step e m (m\<lparr>md_billing := b\<rparr>)"

inductive manual_reach :: "int \<Rightarrow> manual_db \<Rightarrow> bool" where
  start: "md_assignments m = [] \<Longrightarrow> distinct (map p_id (payments (md_billing m))) \<Longrightarrow>
    distinct (map mc_id (md_cards m)) \<Longrightarrow> distinct (map mc_last4 (md_cards m)) \<Longrightarrow> manual_reach t m"
| step: "manual_reach t m \<Longrightarrow> manual_step e m m' \<Longrightarrow> t \<le> tx_now e \<Longrightarrow> manual_reach (tx_now e) m'"

inductive_cases manual_stepE: "manual_step e m m'"

lemmas manual_quiet = quiet_status quiet_claim_payment quiet_confirm quiet_reject_payment quiet_ingest quiet_expire

lemma manual_step_cases:
  assumes "manual_step e m m'" and "distinct (map p_id (payments (md_billing m)))"
  obtains (quiet) "quiet m m'" | (checkout) dec prof tc pc where "m' = snd (StartManualCheckout dec e prof tc pc m)"
  using assms by (auto elim!: manual_stepE intro: manual_quiet quiet_void)

lemma manual_reach_inv:
  assumes "manual_reach t m"
  shows "manual_inv t m" and "distinct (map mc_id (md_cards m))" and "distinct (map mc_last4 (md_cards m))"
proof -
  from assms have "manual_inv t m \<and> distinct (map mc_id (md_cards m)) \<and> distinct (map mc_last4 (md_cards m))"
  proof (induction rule: manual_reach.induct)
    case (start m t)
    then show ?case by (simp add: manual_inv_def sums_differ_def)
  next
    case (step t m e m')
    then have "distinct (map p_id (payments (md_billing m)))" by (simp add: manual_inv_def)
    with step.hyps(2) show ?case
    proof (cases rule: manual_step_cases)
      case quiet
      then show ?thesis using step quiet_inv [of t m m' "tx_now e"] by (simp add: quiet_def)
    next
      case (checkout dec prof tc pc)
      have "md_cards m' = md_cards m"
        unfolding checkout by (cases rule: StartManualCheckout_cases [of dec e prof tc pc m]) (simp_all add: quiet_def)
      then show ?thesis using step StartManualCheckout_inv [of t m e] by (simp add: checkout)
    qed
  qed
  then show "manual_inv t m" "distinct (map mc_id (md_cards m))" "distinct (map mc_last4 (md_cards m))" by simp_all
qed

lemma manual_inv_unique:
  assumes "manual_inv t m" and "a \<in> set (md_assignments m)" and "b \<in> set (md_assignments m)"
    and "matchable t m a" and "matchable t m b" and "ma_card a = ma_card b" and "ma_amount a = ma_amount b"
  shows "a = b"
proof -
  from assms(1) have d: "distinct (map ma_payment (md_assignments m))" "sums_differ t m" by (simp_all add: manual_inv_def)
  have "ma_payment a = ma_payment b" using d(2) assms(2-) by (rule sums_differD)
  with assms(2,3) d(1) show ?thesis by (simp add: distinct_map inj_on_def)
qed

text \<open>
  In every reachable state a bank push can only mean one order: if the card number and the sum of
  a push fit an assignment that can still be paid within its time window, then the matching query finds
  an assignment, and every assignment that fits is the one it finds.
\<close>

theorem push_match_unambiguous:
  assumes "manual_reach t m" and "t \<le> tx_now e"
    and "b \<in> set (md_assignments m)" and "ma_amount b = amount" and "matchable (tx_now e) m b"
    and "c \<in> set (md_cards m)" and "mc_id c = ma_card b" and "mc_last4 c = last4"
    and "ma_assigned_at b - 90 * second \<le> at" and "at \<le> ma_assigned_at b + ManualUnpaidTTL"
  shows "FindManualPayMatchCandidate e last4 amount at m = Some b"
proof -
  note cards = manual_reach_inv(2,3) [OF assms(1)]
  have inv: "manual_inv (tx_now e) m" by (rule quiet_inv [OF manual_reach_inv(1) [OF assms(1)] quiet_refl assms(2)])
  define fits where "fits = (\<lambda>a. ma_amount a = amount \<and> (\<exists>c \<in> set (md_cards m). mc_id c = ma_card a \<and> mc_last4 c = last4)
     \<and> matchable (tx_now e) m a \<and> ma_assigned_at a - 90 * second \<le> at \<and> at \<le> ma_assigned_at a + ManualUnpaidTTL)"
  have only: "a = b" if a: "a \<in> set (md_assignments m)" "fits a" for a
  proof -
    obtain d where d: "d \<in> set (md_cards m)" "mc_id d = ma_card a" "mc_last4 d = last4" using a(2) unfolding fits_def by blast
    have "d = c" using d(1,3) assms(6,8) cards(2) by (simp add: distinct_map inj_on_def)
    then have "ma_card a = ma_card b" using d assms(7) by simp
    moreover have "matchable (tx_now e) m a" "ma_amount a = ma_amount b" using a(2) assms(4) by (simp_all add: fits_def)
    ultimately show ?thesis using manual_inv_unique [OF inv a(1) assms(3) _ assms(5)] by simp
  qed
  have "fits b" using assms unfolding fits_def by blast
  have s: "set (filter fits (md_assignments m)) = {b}"
  proof (intro equalityI subsetI)
    fix x assume "x \<in> set (filter fits (md_assignments m))"
    then have "x \<in> set (md_assignments m)" "fits x" by simp_all
    then have "x = b" by (rule only)
    then show "x \<in> {b}" by simp
  qed (use \<open>fits b\<close> assms(3) in simp)
  have "distinct (filter fits (md_assignments m))"
    using inv by (simp add: manual_inv_def distinct_map)
  then have "filter fits (md_assignments m) = [b]" using s by (rule distinct_singleton)
  then show ?thesis by (simp add: FindManualPayMatchCandidate_def fits_def)
qed

text \<open>
  An order that is paid stays exactly as it is through every manual operation and the void of an
  admin, whichever statements fail: it is not cancelled, rejected, expired or voided.
\<close>

theorem manual_paid_is_final:
  assumes "manual_reach t m" and "manual_step e m m'"
    and "p \<in> set (payments (md_billing m))" and "p_status p = Paid"
  shows "p \<in> set (payments (md_billing m'))"
proof -
  have "distinct (map p_id (payments (md_billing m)))" using manual_reach_inv(1) [OF assms(1)] by (simp add: manual_inv_def)
  with assms(2) show ?thesis
  proof (cases rule: manual_step_cases)
    case quiet
    then show ?thesis using assms(3,4) by (simp add: quiet_def)
  next
    case (checkout dec prof tc pc)
    show ?thesis
      unfolding checkout
    proof (cases rule: StartManualCheckout_cases [of dec e prof tc pc m])
      case same
      then show "p \<in> set (payments (md_billing (snd (StartManualCheckout dec e prof tc pc m))))" using assms(3) by simp
    next
      case (order info m2 m4 pm asg)
      then show "p \<in> set (payments (md_billing (snd (StartManualCheckout dec e prof tc pc m))))"
        using assms(3,4) by (simp add: quiet_def)
    qed
  qed
qed

lemma fx_manual_reach: "manual_reach fx_t0 fx_manual"
  by (rule manual_reach.start) (simp_all add: fx_manual_def fx_db_def empty_db_def)

lemma fx_manual_order_reach: "manual_reach fx_t0 fx_manual_order"
proof -
  have "manual_step fx_env fx_manual fx_manual_order" unfolding fx_manual_order_def by (rule manual_step.checkout)
  then show ?thesis using manual_reach.step [OF fx_manual_reach, of fx_env] by (simp add: fx_env_def)
qed

theorem push_match_unambiguous_witness:
  "map_option ma_payment (FindManualPayMatchCandidate fx_later ''1234'' 50000 (fx_t0 + 60 * second) fx_manual_order) = Some 100"
proof -
  define b where "b = hd (md_assignments fx_manual_order)"
  have b: "b \<in> set (md_assignments fx_manual_order)" "ma_amount b = 50000" "matchable (tx_now fx_later) fx_manual_order b"
    "mc_id fx_card = ma_card b" "ma_assigned_at b - 90 * second \<le> fx_t0 + 60 * second"
    "fx_t0 + 60 * second \<le> ma_assigned_at b + ManualUnpaidTTL" "ma_payment b = 100"
    unfolding b_def by code_simp+
  have c: "fx_card \<in> set (md_cards fx_manual_order)" "mc_last4 fx_card = ''1234''" "fx_t0 \<le> tx_now fx_later" by code_simp+
  show ?thesis
    using push_match_unambiguous [OF fx_manual_order_reach c(3) b(1,2,3) c(1) b(4) c(2) b(5,6)] b(7) by simp
qed

theorem manual_paid_is_final_witness:
  "\<exists>p m'. manual_step fx_later (snd (ConfirmManualPayment 100 ''bot'' fx_env fx_manual_order)) m' \<and> p_id p = 100
     \<and> p_status p = Paid \<and> p \<in> set (payments (md_billing m'))"
proof -
  let ?m = "snd (ConfirmManualPayment 100 ''bot'' fx_env fx_manual_order)"
  have r: "manual_reach (tx_now fx_env) ?m"
    by (rule manual_reach.step [OF fx_manual_order_reach manual_step.confirm]) (simp add: fx_env_def)
  have "list_ex (\<lambda>p. p_id p = 100 \<and> p_status p = Paid) (payments (md_billing ?m))" by code_simp
  then obtain p where p: "p \<in> set (payments (md_billing ?m))" "p_id p = 100" "p_status p = Paid" by (auto simp: list_ex_iff)
  have s: "manual_step fx_later ?m (snd (VoidPayment fx_later 100 ''customer asked for it'' ?m))" by (rule manual_step.void)
  show ?thesis using manual_paid_is_final [OF r s p(1,3)] s p(2,3) by blast
qed

end
