(* ===== verification/Study_Store.thy ===== *)
theory Study_Store
  imports Entitlement Complex_Main
begin

text \<open>
  The tables of the learning side (content, exam sessions, answers, ticket progress, practice cursors,
  spaced-repetition memory, streaks, certificates) and the SQL statements the session, learning and
  progress services issue on them (\<open>queries/session.sql\<close>, \<open>learning.sql\<close>, \<open>progress.sql\<close>,
  \<open>grand_mock_certificate.sql\<close>, \<open>content_read.sql\<close>), with the primary keys and unique indexes a statement can
  run into. The billing tables are a component of the same database, since VIP status is read from them.

  The random draws start at a random uuid and wrap around; the environment's \<open>pick\<close> is that uuid.
  The two floating-point columns of the memory row are opaque numbers here.
\<close>

section \<open>Rows\<close>

datatype session_status = InProgress | Passed | SFailed | Abandoned

record variant_row =
  bv_id :: uuid
  bv_number :: int

record question_row =
  q_id :: uuid
  q_category :: uuid
  q_valid :: bool
  q_has_image :: bool
  q_ext_id :: string
  q_correct :: "uuid option"

record answer_row =
  an_id :: uuid
  an_question :: uuid
  an_correct :: bool

record variant_question_row =
  vq_variant :: uuid
  vq_question :: uuid
  vq_position :: int

record session_row =
  es_id :: uuid
  es_profile :: uuid
  es_mode :: string
  es_variant :: "uuid option"
  es_category :: "uuid option"
  es_sign :: "uuid option"
  es_locale :: string
  es_time_limit :: "int option"
  es_errors_allowed :: "int option"
  es_started :: int
  es_finished :: "int option"
  es_status :: session_status
  es_score :: "int option"
  es_total :: int
  es_stopped :: "string option"
  es_readiness :: "int option"
  es_ordered_from :: "int option"

record session_question_row =
  sq_session :: uuid
  sq_question :: uuid
  sq_position :: int

record session_answer_row =
  sa_session :: uuid
  sa_question :: uuid
  sa_answer :: uuid
  sa_correct :: bool
  sa_position :: int
  sa_at :: int

record progress_row =
  vp_profile :: uuid
  vp_variant :: uuid
  vp_best :: int
  vp_attempts :: int
  vp_completed :: "int option"

record cursor_row =
  pk_profile :: uuid
  pk_category :: uuid
  pk_next :: int

record memory_row =
  qm_profile :: uuid
  qm_question :: uuid
  qm_stability :: rat
  qm_difficulty :: rat
  qm_due :: int
  qm_last :: int
  qm_reps :: int
  qm_lapses :: int
  qm_state :: int

record mastery_row =
  cm_profile :: uuid
  cm_category :: uuid
  cm_seen :: int
  cm_correct :: int

record streak_row =
  sk_profile :: uuid
  sk_current :: int
  sk_best :: int
  sk_last :: "int option"
  sk_goal :: int
  sk_today :: int

record certificate_row =
  ce_session :: uuid
  ce_profile :: uuid
  ce_code :: string
  ce_score :: int
  ce_total :: int
  ce_created :: int

record learner_row =
  ln_id :: uuid
  ln_bypass :: bool
  ln_ceiling :: int

record limit_row =
  lc_key :: string
  lc_free :: int
  lc_vip :: int

record study_db =
  billing :: billing_db
  learners :: "learner_row list"
  limits :: "limit_row list"
  variants :: "variant_row list"
  questions :: "question_row list"
  answers :: "answer_row list"
  variant_questions :: "variant_question_row list"
  question_signs :: "(uuid \<times> uuid) list"
  explained :: "(uuid \<times> string) list"
  sessions :: "session_row list"
  session_questions :: "session_question_row list"
  session_answers :: "session_answer_row list"
  variant_progress :: "progress_row list"
  cursors :: "cursor_row list"
  memory :: "memory_row list"
  mastery :: "mastery_row list"
  streaks :: "streak_row list"
  saved_questions :: "(uuid \<times> uuid \<times> int) list"
  certificates :: "certificate_row list"

definition wrap32 :: "int \<Rightarrow> int" where
  "wrap32 x = (x + 2 ^ 31) mod 2 ^ 32 - 2 ^ 31"

lemma wrap32_id [go_arith]: "- (2 ^ 31) \<le> x \<Longrightarrow> x < 2 ^ 31 \<Longrightarrow> wrap32 x = x"
  by (simp add: wrap32_def)

text \<open>\<open>LIMIT n\<close>: a negative limit is an error of the statement.\<close>

definition limit_rows :: "int \<Rightarrow> 'a list \<Rightarrow> billing_err + 'a list" where
  "limit_rows n rows = (if n < 0 then Inl (Sql DbFailure) else Inr (take (nat n) rows))"

definition upsert :: "('r \<Rightarrow> bool) \<Rightarrow> ('r \<Rightarrow> 'r) \<Rightarrow> 'r \<Rightarrow> 'r list \<Rightarrow> 'r list" where
  "upsert P f r rows = (if list_ex P rows then upd_where P f rows else rows @ [r])"

section \<open>Content\<close>

definition GetLimitConfig :: "study_db \<Rightarrow> string \<Rightarrow> limit_row option" where
  "GetLimitConfig d key = find (\<lambda>l. lc_key l = key) (limits d)"

definition GetVariantByID :: "study_db \<Rightarrow> uuid \<Rightarrow> variant_row option" where
  "GetVariantByID d i = find (\<lambda>v. bv_id v = i) (variants d)"

definition GetVariantByNumber :: "study_db \<Rightarrow> int \<Rightarrow> variant_row option" where
  "GetVariantByNumber d n = find (\<lambda>v. bv_number v = n) (variants d)"

definition ListVariants :: "study_db \<Rightarrow> (variant_row \<times> nat) list" where
  "ListVariants d = map (\<lambda>v. (v, length (filter (\<lambda>x. vq_variant x = bv_id v) (variant_questions d))))
     (sort_key bv_number (variants d))"

definition valid_question :: "study_db \<Rightarrow> uuid \<Rightarrow> bool" where
  "valid_question d i \<longleftrightarrow> list_ex (\<lambda>q. q_id q = i \<and> q_valid q) (questions d)"

definition ListVariantQuestionIDsOrdered :: "study_db \<Rightarrow> uuid \<Rightarrow> uuid list" where
  "ListVariantQuestionIDsOrdered d i =
     map vq_question (sort_key vq_position
       (filter (\<lambda>x. vq_variant x = i \<and> valid_question d (vq_question x)) (variant_questions d)))"

text \<open>
  The draw of \<open>n\<close> ids: those at or after the pivot in order, then those before it, cut to \<open>n\<close> at every
  stage as the statement does.
\<close>

definition pivot_draw :: "uuid \<Rightarrow> nat \<Rightarrow> uuid list \<Rightarrow> uuid list" where
  "pivot_draw pivot n ids =
     (let forward = take n (sort (filter (\<lambda>i. pivot \<le> i) ids));
          wrapped = take n (sort (filter (\<lambda>i. i < pivot) ids))
      in take n (forward @ wrapped))"

definition draw_where :: "env \<Rightarrow> string \<Rightarrow> int \<Rightarrow> (question_row \<Rightarrow> bool) \<Rightarrow> study_db \<Rightarrow> billing_err + uuid list" where
  "draw_where e site n P d =
     (if n < 0 then Inl (Sql DbFailure)
      else Inr (pivot_draw (pick e site) (nat n) (map q_id (filter (\<lambda>q. q_valid q \<and> P q) (questions d)))))"

definition RandomQuestionIDs :: "env \<Rightarrow> int \<Rightarrow> study_db \<Rightarrow> billing_err + uuid list" where
  "RandomQuestionIDs e n d = draw_where e ''RandomQuestionIDs'' n (\<lambda>_. True) d"

definition RandomQuestionIDsByCategory :: "env \<Rightarrow> uuid \<Rightarrow> int \<Rightarrow> study_db \<Rightarrow> billing_err + uuid list" where
  "RandomQuestionIDsByCategory e cat n d = draw_where e ''RandomQuestionIDsByCategory'' n (\<lambda>q. q_category q = cat) d"

definition RandomQuestionIDsBySign :: "env \<Rightarrow> uuid \<Rightarrow> int \<Rightarrow> study_db \<Rightarrow> billing_err + uuid list" where
  "RandomQuestionIDsBySign e sign n d =
     (if n < 0 then Inl (Sql DbFailure)
      else Inr (pivot_draw (pick e ''RandomQuestionIDsBySign'') (nat n)
        (map fst (filter (\<lambda>(q, s). s = sign \<and> valid_question d q) (question_signs d)))))"

definition RandomQuestionIDsByVariantRange :: "env \<Rightarrow> int \<Rightarrow> int \<Rightarrow> int \<Rightarrow> study_db \<Rightarrow> billing_err + uuid list" where
  "RandomQuestionIDsByVariantRange e lo hi n d = draw_where e ''RandomQuestionIDsByVariantRange'' n
     (\<lambda>q. list_ex (\<lambda>x. vq_question x = q_id q
        \<and> list_ex (\<lambda>v. bv_id v = vq_variant x \<and> lo \<le> bv_number v \<and> bv_number v \<le> hi) (variants d)) (variant_questions d)) d"

definition RandomQuestionIDsByImagePresence :: "env \<Rightarrow> bool \<Rightarrow> int \<Rightarrow> study_db \<Rightarrow> billing_err + uuid list" where
  "RandomQuestionIDsByImagePresence e has n d = draw_where e ''RandomQuestionIDsByImagePresence'' n (\<lambda>q. q_has_image q = has) d"

definition CountValidQuestions :: "study_db \<Rightarrow> int" where
  "CountValidQuestions d = int (length (filter q_valid (questions d)))"

definition CountValidQuestionsInCategory :: "study_db \<Rightarrow> uuid \<Rightarrow> int" where
  "CountValidQuestionsInCategory d cat = int (length (filter (\<lambda>q. q_category q = cat \<and> q_valid q) (questions d)))"

text \<open>
  Source order: the number made of the digits of \<open>source_ext_id\<close> (no digits last), then the text itself, then
  the id; an insertion sort by that order.
\<close>

definition ext_number :: "string \<Rightarrow> nat option" where
  "ext_number s = (let ds = filter is_digit s in if ds = [] then None else Some (read_nat ds))"

fun string_le :: "string \<Rightarrow> string \<Rightarrow> bool" where
  "string_le [] t = True"
| "string_le (c # s) [] = False"
| "string_le (c # s) (k # t) =
     (if (of_char c :: nat) < of_char k then True else if (of_char k :: nat) < of_char c then False else string_le s t)"

definition source_before :: "question_row \<Rightarrow> question_row \<Rightarrow> bool" where
  "source_before a b =
     (case (ext_number (q_ext_id a), ext_number (q_ext_id b)) of
        (Some m, Some n) \<Rightarrow>
          if m \<noteq> n then m < n
          else if q_ext_id a \<noteq> q_ext_id b then string_le (q_ext_id a) (q_ext_id b) else q_id a \<le> q_id b
      | (Some m, None) \<Rightarrow> True
      | (None, Some n) \<Rightarrow> False
      | (None, None) \<Rightarrow>
          if q_ext_id a \<noteq> q_ext_id b then string_le (q_ext_id a) (q_ext_id b) else q_id a \<le> q_id b)"

fun insert_source :: "question_row \<Rightarrow> question_row list \<Rightarrow> question_row list" where
  "insert_source q [] = [q]"
| "insert_source q (r # rs) = (if source_before q r then q # r # rs else r # insert_source q rs)"

definition source_order :: "question_row list \<Rightarrow> question_row list" where
  "source_order qs = foldr insert_source qs []"

definition OrderedQuestionIDsByCategory :: "uuid \<Rightarrow> int \<Rightarrow> int \<Rightarrow> study_db \<Rightarrow> billing_err + uuid list" where
  "OrderedQuestionIDsByCategory cat skip n d =
     (if skip < 0 then Inl (Sql DbFailure)
      else limit_rows n (drop (nat skip)
        (map q_id (source_order (filter (\<lambda>q. q_valid q \<and> q_category q = cat) (questions d))))))"

definition GetAnswerForScoring :: "study_db \<Rightarrow> uuid \<Rightarrow> uuid \<Rightarrow> answer_row option" where
  "GetAnswerForScoring d i q = find (\<lambda>a. an_id a = i \<and> an_question a = q) (answers d)"

definition GetCorrectAnswerID :: "env \<Rightarrow> study_db \<Rightarrow> uuid \<Rightarrow> uuid option" where
  "GetCorrectAnswerID e d q =
     map_option an_id (select_one (pick e ''GetCorrectAnswerID'') (filter (\<lambda>a. an_question a = q \<and> an_correct a) (answers d)))"

definition ListCorrectAnswerIDsForQuestions :: "study_db \<Rightarrow> uuid list \<Rightarrow> (uuid \<times> uuid) list" where
  "ListCorrectAnswerIDsForQuestions d qs =
     map (\<lambda>a. (an_question a, an_id a)) (filter (\<lambda>a. an_question a \<in> set qs \<and> an_correct a) (answers d))"

definition GetVerifiedExplanation :: "study_db \<Rightarrow> uuid \<Rightarrow> string \<Rightarrow> bool" where
  "GetVerifiedExplanation d q loc \<longleftrightarrow> (q, loc) \<in> set (explained d) \<or> (q, ''uz-Latn'') \<in> set (explained d)"

section \<open>Sessions\<close>

definition GetExamSession :: "study_db \<Rightarrow> uuid \<Rightarrow> session_row option" where
  "GetExamSession d i = find (\<lambda>s. es_id s = i) (sessions d)"

definition GetExamSessionForUpdate :: "study_db \<Rightarrow> uuid \<Rightarrow> session_row option" where
  "GetExamSessionForUpdate d i = find (\<lambda>s. es_id s = i) (sessions d)"

definition session_modes :: "string list" where
  "session_modes = [''variant'', ''exam'', ''practice'', ''mistakes'', ''grand_mock'', ''review'', ''placement'']"

definition assigned :: "uuid \<Rightarrow> uuid list \<Rightarrow> session_question_row list" where
  "assigned sid ids = map (\<lambda>(i, q). \<lparr>sq_session = sid, sq_question = q, sq_position = int i + 1\<rparr>) (enumerate 0 ids)"

definition CreateExamSession :: "env \<Rightarrow> session_row \<Rightarrow> uuid list \<Rightarrow> study_db \<Rightarrow> billing_err + (session_row \<times> study_db)" where
  "CreateExamSession e r ids d =
     (if es_mode r \<notin> set session_modes then Inl (Sql CheckViolation)
      else if new_id e \<in> es_id ` set (sessions d) \<or> \<not> distinct ids then Inl (Sql UniqueViolation)
      else let s = r\<lparr>es_id := new_id e, es_started := tx_now e, es_finished := None, es_status := InProgress,
                     es_score := None, es_total := int (length ids), es_stopped := None, es_readiness := None\<rparr>
           in Inr (s, d\<lparr>sessions := sessions d @ [s],
                        session_questions := session_questions d @ assigned (new_id e) ids\<rparr>))"

definition GetSessionQuestion :: "study_db \<Rightarrow> uuid \<Rightarrow> uuid \<Rightarrow> session_question_row option" where
  "GetSessionQuestion d s q = find (\<lambda>r. sq_session r = s \<and> sq_question r = q) (session_questions d)"

definition GetSessionAnswer :: "study_db \<Rightarrow> uuid \<Rightarrow> uuid \<Rightarrow> session_answer_row option" where
  "GetSessionAnswer d s q = find (\<lambda>r. sa_session r = s \<and> sa_question r = q) (session_answers d)"

definition InsertSessionAnswer :: "env \<Rightarrow> uuid \<Rightarrow> uuid \<Rightarrow> uuid \<Rightarrow> bool \<Rightarrow> int \<Rightarrow> study_db \<Rightarrow> billing_err + study_db" where
  "InsertSessionAnswer e s q a ok pos d =
     (if GetSessionAnswer d s q \<noteq> None then Inl (Sql UniqueViolation)
      else if GetSessionQuestion d s q = None then Inl (Sql CheckViolation)
      else Inr (d\<lparr>session_answers := session_answers d @ [\<lparr>sa_session = s, sa_question = q, sa_answer = a,
             sa_correct = ok, sa_position = pos, sa_at = tx_now e\<rparr>]\<rparr>))"

definition CountSessionAnswers :: "study_db \<Rightarrow> uuid \<Rightarrow> int \<times> int" where
  "CountSessionAnswers d s =
     (int (length (filter (\<lambda>r. sa_session r = s) (session_answers d))),
      int (length (filter (\<lambda>r. sa_session r = s \<and> sa_correct r) (session_answers d))))"

definition CountPracticeAnswersToday :: "study_db \<Rightarrow> uuid \<Rightarrow> int \<Rightarrow> int" where
  "CountPracticeAnswersToday d prof since = int (length (filter (\<lambda>r. since \<le> sa_at r
     \<and> list_ex (\<lambda>s. es_id s = sa_session r \<and> es_profile s = prof \<and> es_mode s = ''practice'') (sessions d)) (session_answers d)))"

definition FinishExamSession ::
  "env \<Rightarrow> uuid \<Rightarrow> session_status \<Rightarrow> int \<Rightarrow> string option \<Rightarrow> int option \<Rightarrow> study_db \<Rightarrow> study_db" where
  "FinishExamSession e i st score reason readiness d = d\<lparr>sessions :=
     upd_where (\<lambda>s. es_id s = i)
       (\<lambda>s. s\<lparr>es_finished := Some (tx_now e), es_status := st, es_score := Some score, es_stopped := reason,
              es_readiness := (case readiness of None \<Rightarrow> es_readiness s | Some r \<Rightarrow> Some r)\<rparr>) (sessions d)\<rparr>"

definition ListMySessions_rows :: "study_db \<Rightarrow> uuid \<Rightarrow> int \<Rightarrow> session_row list" where
  "ListMySessions_rows d prof n = take (nat n) (rev (sort_key es_started (filter (\<lambda>s. es_profile s = prof) (sessions d))))"

record session_item =
  si_question :: uuid
  si_position :: int
  si_user_answer :: "uuid option"
  si_is_correct :: "bool option"
  si_key :: "uuid option"

definition ListSessionQuestionsWithAnswers :: "study_db \<Rightarrow> uuid \<Rightarrow> session_item list" where
  "ListSessionQuestionsWithAnswers d s =
     concat (map (\<lambda>r. case find (\<lambda>q. q_id q = sq_question r) (questions d) of
          None \<Rightarrow> []
        | Some q \<Rightarrow> (let a = GetSessionAnswer d s (sq_question r) in
            [\<lparr>si_question = sq_question r, si_position = sq_position r, si_user_answer = map_option sa_answer a,
              si_is_correct = map_option sa_correct a, si_key = q_correct q\<rparr>]))
       (sort_key sq_position (filter (\<lambda>r. sq_session r = s) (session_questions d))))"

section \<open>Ticket progress, cursors, certificates\<close>

definition GetProfileByID :: "study_db \<Rightarrow> uuid \<Rightarrow> learner_row option" where
  "GetProfileByID d i = find (\<lambda>p. ln_id p = i) (learners d)"

definition GetVariantProgress :: "study_db \<Rightarrow> uuid \<Rightarrow> uuid \<Rightarrow> progress_row option" where
  "GetVariantProgress d p v = find (\<lambda>r. vp_profile r = p \<and> vp_variant r = v) (variant_progress d)"

definition ListVariantProgressForProfile :: "study_db \<Rightarrow> uuid \<Rightarrow> progress_row list" where
  "ListVariantProgressForProfile d p = filter (\<lambda>r. vp_profile r = p) (variant_progress d)"

definition UpsertVariantProgress :: "uuid \<Rightarrow> uuid \<Rightarrow> int \<Rightarrow> int option \<Rightarrow> study_db \<Rightarrow> study_db" where
  "UpsertVariantProgress p v best completed d = d\<lparr>variant_progress :=
     upsert (\<lambda>r. vp_profile r = p \<and> vp_variant r = v)
       (\<lambda>r. r\<lparr>vp_best := max (vp_best r) best, vp_attempts := vp_attempts r + 1,
              vp_completed := (case vp_completed r of None \<Rightarrow> completed | Some t \<Rightarrow> Some t)\<rparr>)
       \<lparr>vp_profile = p, vp_variant = v, vp_best = best, vp_attempts = 1, vp_completed = completed\<rparr>
       (variant_progress d)\<rparr>"

definition DeleteVariantProgressForProfile :: "uuid \<Rightarrow> study_db \<Rightarrow> int \<times> study_db" where
  "DeleteVariantProgressForProfile p d =
     (int (length (ListVariantProgressForProfile d p)),
      d\<lparr>variant_progress := filter (\<lambda>r. vp_profile r \<noteq> p) (variant_progress d)\<rparr>)"

definition RaiseVariantUnlockCeiling :: "uuid \<Rightarrow> int \<Rightarrow> study_db \<Rightarrow> study_db" where
  "RaiseVariantUnlockCeiling p c d = d\<lparr>learners :=
     upd_where (\<lambda>l. ln_id l = p) (\<lambda>l. l\<lparr>ln_ceiling := max (ln_ceiling l) c\<rparr>) (learners d)\<rparr>"

definition GetPracticeCursor :: "study_db \<Rightarrow> uuid \<Rightarrow> uuid \<Rightarrow> int option" where
  "GetPracticeCursor d p c = map_option pk_next (find (\<lambda>r. pk_profile r = p \<and> pk_category r = c) (cursors d))"

definition ResetPracticeCursor :: "uuid \<Rightarrow> uuid \<Rightarrow> study_db \<Rightarrow> study_db" where
  "ResetPracticeCursor p c d = d\<lparr>cursors := filter (\<lambda>r. \<not> (pk_profile r = p \<and> pk_category r = c)) (cursors d)\<rparr>"

text \<open>
  The contiguous run from position 1: \<open>position - row_number\<close> is 0 exactly on it, since the positions
  are distinct and at least 1.
\<close>

definition answered_prefix :: "study_db \<Rightarrow> uuid \<Rightarrow> int" where
  "answered_prefix d s =
     (let ps = sort (map sa_position (filter (\<lambda>r. sa_session r = s) (session_answers d)));
          runs = map snd (filter (\<lambda>(i, p). p - (int i + 1) = 0) (enumerate 0 ps))
      in fold max runs 0)"

definition AdvancePracticeCursor :: "uuid \<Rightarrow> uuid \<Rightarrow> uuid \<Rightarrow> int \<Rightarrow> study_db \<Rightarrow> study_db" where
  "AdvancePracticeCursor p c s orderedFrom d =
     (let here = (case GetPracticeCursor d p c of None \<Rightarrow> 0 | Some n \<Rightarrow> n);
          target = orderedFrom + answered_prefix d s
      in if orderedFrom \<le> here then d\<lparr>cursors :=
           upsert (\<lambda>r. pk_profile r = p \<and> pk_category r = c) (\<lambda>r. r\<lparr>pk_next := max (pk_next r) target\<rparr>)
             \<lparr>pk_profile = p, pk_category = c, pk_next = target\<rparr> (cursors d)\<rparr>
         else d)"

definition GetGrandMockCertificateBySession :: "study_db \<Rightarrow> uuid \<Rightarrow> certificate_row option" where
  "GetGrandMockCertificateBySession d s = find (\<lambda>c. ce_session c = s) (certificates d)"

definition GetGrandMockCertificateByShareCode :: "study_db \<Rightarrow> string \<Rightarrow> certificate_row option" where
  "GetGrandMockCertificateByShareCode d code = find (\<lambda>c. ce_code c = code) (certificates d)"

definition InsertGrandMockCertificate ::
  "env \<Rightarrow> uuid \<Rightarrow> uuid \<Rightarrow> string \<Rightarrow> int \<Rightarrow> int \<Rightarrow> study_db \<Rightarrow> billing_err + (certificate_row \<times> study_db)" where
  "InsertGrandMockCertificate e s p code score tot d =
     (if score < 0 \<or> tot \<le> 0 then Inl (Sql CheckViolation)
      else case GetGrandMockCertificateBySession d s of
          Some c \<Rightarrow> Inr (c, d)
        | None \<Rightarrow>
            if code \<in> ce_code ` set (certificates d) then Inl (Sql UniqueViolation)
            else let c = \<lparr>ce_session = s, ce_profile = p, ce_code = code, ce_score = score, ce_total = tot,
                          ce_created = tx_now e\<rparr>
                 in Inr (c, d\<lparr>certificates := certificates d @ [c]\<rparr>))"

section \<open>Memory, mastery, streaks, bookmarks\<close>

definition GetQuestionMemory :: "study_db \<Rightarrow> uuid \<Rightarrow> uuid \<Rightarrow> memory_row option" where
  "GetQuestionMemory d p q = find (\<lambda>r. qm_profile r = p \<and> qm_question r = q) (memory d)"

definition UpsertQuestionMemory :: "memory_row \<Rightarrow> study_db \<Rightarrow> study_db" where
  "UpsertQuestionMemory m d = d\<lparr>memory :=
     upsert (\<lambda>r. qm_profile r = qm_profile m \<and> qm_question r = qm_question m) (\<lambda>_. m) m (memory d)\<rparr>"

definition GetQuestionCategoryID :: "study_db \<Rightarrow> uuid \<Rightarrow> uuid option" where
  "GetQuestionCategoryID d q = map_option q_category (find (\<lambda>r. q_id r = q) (questions d))"

definition GetCategoryMastery :: "study_db \<Rightarrow> uuid \<Rightarrow> uuid \<Rightarrow> mastery_row option" where
  "GetCategoryMastery d p c = find (\<lambda>r. cm_profile r = p \<and> cm_category r = c) (mastery d)"

definition UpsertCategoryMastery :: "uuid \<Rightarrow> uuid \<Rightarrow> int \<Rightarrow> int \<Rightarrow> study_db \<Rightarrow> study_db" where
  "UpsertCategoryMastery p c seen correct d =
     (let m = \<lparr>cm_profile = p, cm_category = c, cm_seen = seen, cm_correct = correct\<rparr>
      in d\<lparr>mastery := upsert (\<lambda>r. cm_profile r = p \<and> cm_category r = c) (\<lambda>_. m) m (mastery d)\<rparr>)"

definition due_rows :: "env \<Rightarrow> study_db \<Rightarrow> uuid \<Rightarrow> memory_row list" where
  "due_rows e d p = sort_key qm_due (filter (\<lambda>r. qm_profile r = p \<and> qm_due r \<le> tx_now e
     \<and> valid_question d (qm_question r)) (memory d))"

definition ListDueQuestions :: "env \<Rightarrow> uuid \<Rightarrow> int \<Rightarrow> study_db \<Rightarrow> billing_err + (uuid \<times> uuid) list" where
  "ListDueQuestions e p n d = limit_rows n (map (\<lambda>r. (qm_question r,
     case GetQuestionCategoryID d (qm_question r) of None \<Rightarrow> 0 | Some c \<Rightarrow> c)) (due_rows e d p))"

definition ListMistakeBankQuestionIDs :: "env \<Rightarrow> uuid \<Rightarrow> int \<Rightarrow> study_db \<Rightarrow> billing_err + uuid list" where
  "ListMistakeBankQuestionIDs e p n d =
     limit_rows n (map qm_question (filter (\<lambda>r. 0 < qm_lapses r) (due_rows e d p)))"

definition CountStudiedQuestions :: "study_db \<Rightarrow> uuid \<Rightarrow> int" where
  "CountStudiedQuestions d p = int (length (filter (\<lambda>r. qm_profile r = p) (memory d)))"

definition GetStreak_row :: "study_db \<Rightarrow> uuid \<Rightarrow> streak_row option" where
  "GetStreak_row d p = find (\<lambda>r. sk_profile r = p) (streaks d)"

definition UpsertStreak :: "streak_row \<Rightarrow> study_db \<Rightarrow> study_db" where
  "UpsertStreak s d = d\<lparr>streaks := upsert (\<lambda>r. sk_profile r = sk_profile s) (\<lambda>_. s) s (streaks d)\<rparr>"

definition sql_SaveQuestion :: "env \<Rightarrow> uuid \<Rightarrow> uuid \<Rightarrow> study_db \<Rightarrow> study_db" where
  "sql_SaveQuestion e p q d =
     (if list_ex (\<lambda>(a, b, _). a = p \<and> b = q) (saved_questions d) then d
      else d\<lparr>saved_questions := saved_questions d @ [(p, q, tx_now e)]\<rparr>)"

definition sql_UnsaveQuestion :: "uuid \<Rightarrow> uuid \<Rightarrow> study_db \<Rightarrow> study_db" where
  "sql_UnsaveQuestion p q d = d\<lparr>saved_questions := filter (\<lambda>(a, b, _). \<not> (a = p \<and> b = q)) (saved_questions d)\<rparr>"

definition ListSavedQuestions :: "study_db \<Rightarrow> uuid \<Rightarrow> (uuid \<times> int) list" where
  "ListSavedQuestions d p = map snd (rev (sort_key (\<lambda>x. snd (snd x))
     (filter (\<lambda>(a, b, _). a = p \<and> valid_question d b) (saved_questions d))))"

end
