(* ===== verification/Learning.thy ===== *)
theory Learning
  imports Study_Store
begin

text \<open>
  Spaced repetition and streaks: \<open>internal/learning/service.go\<close> (recording a review, the due queue) with the
  state machine of \<open>fsrs.go\<close>, and \<open>internal/progress\<close> (streaks, daily goal, bookmarks).

  The FSRS weights are applied in \<open>float64\<close> arithmetic with \<open>math.Exp\<close> and \<open>math.Pow\<close>; that kernel is the
  argument \<open>fsrs\<close>: from the stored card (\<open>None\<close> for a new one), the rating and the time it gives the new
  stability and difficulty and the interval in whole days. Everything else of \<open>Review\<close> is written out.
\<close>

section \<open>Ratings and reviews\<close>

definition Again :: int where "Again = 1"
definition Hard :: int where "Hard = 2"
definition Good :: int where "Good = 3"
definition Easy :: int where "Easy = 4"

lemmas rating_defs = Again_def Hard_def Good_def Easy_def

definition validRating :: "int \<Rightarrow> bool" where
  "validRating r \<longleftrightarrow> r = Again \<or> r = Hard \<or> r = Good \<or> r = Easy"

type_synonym fsrs_kernel = "memory_row option \<Rightarrow> int \<Rightarrow> int \<Rightarrow> rat \<times> rat \<times> int"

definition Review :: "fsrs_kernel \<Rightarrow> uuid \<Rightarrow> uuid \<Rightarrow> memory_row option \<Rightarrow> int \<Rightarrow> int \<Rightarrow> memory_row" where
  "Review fsrs prof q c rating now =
     (let (stability, difficulty, days) = fsrs c rating now;
          reps = (case c of None \<Rightarrow> 0 | Some m \<Rightarrow> qm_reps m);
          lapses = (case c of None \<Rightarrow> 0 | Some m \<Rightarrow> qm_lapses m)
      in \<lparr>qm_profile = prof, qm_question = q, qm_stability = stability, qm_difficulty = difficulty,
          qm_due = now + wrap64 (wrap64 (days * 24) * hour), qm_last = now, qm_reps = wrap32 (reps + 1),
          qm_lapses = wrap32 (if rating = Again then lapses + 1 else lapses),
          qm_state = (if rating = Again then 0 else 1)\<rparr>)"

definition RecordReview :: "env \<Rightarrow> fsrs_kernel \<Rightarrow> uuid \<Rightarrow> uuid \<Rightarrow> int \<Rightarrow> study_db \<Rightarrow> billing_err + (memory_row \<times> study_db)" where
  "RecordReview e fsrs prof q rating d =
     (if \<not> validRating rating then Inl ErrInvalidRating
      else if flt e ''RecordReview'' ''GetQuestionMemory'' then Inl (Sql DbFailure)
      else let updated = Review fsrs prof q (GetQuestionMemory d prof q) rating (clk e ''RecordReview'') in
        rbind (stmt e ''RecordReview'' ''UpsertQuestionMemory'' (Inr (UpsertQuestionMemory updated d))) (\<lambda>d1.
        rbind (stmt e ''RecordReview'' ''GetQuestionCategoryID'' (one_row (GetQuestionCategoryID d1 q))) (\<lambda>cat.
        if flt e ''RecordReview'' ''GetCategoryMastery'' then Inl (Sql DbFailure)
        else let (seen, correct) = (case GetCategoryMastery d1 prof cat of
                   None \<Rightarrow> (0, 0) | Some m \<Rightarrow> (cm_seen m, cm_correct m));
                 seen' = wrap32 (seen + 1);
                 correct' = (if rating \<noteq> Again then wrap32 (correct + 1) else correct)
             in rbind (stmt e ''RecordReview'' ''UpsertCategoryMastery''
                   (Inr (UpsertCategoryMastery prof cat seen' correct' d1))) (\<lambda>d2. Inr (updated, d2)))))"

section \<open>The due queue\<close>

definition defaultNextDueLimit :: int where "defaultNextDueLimit = 20"
definition MaxNextDueLimit :: int where "MaxNextDueLimit = 100"

text \<open>The rows grouped by category, the categories in order of first appearance.\<close>

fun add_to_group :: "uuid \<Rightarrow> uuid \<Rightarrow> (uuid \<times> uuid list) list \<Rightarrow> (uuid \<times> uuid list) list" where
  "add_to_group c q [] = [(c, [q])]"
| "add_to_group c q ((k, qs) # gs) = (if k = c then (k, qs @ [q]) # gs else (k, qs) # add_to_group c q gs)"

definition due_groups :: "(uuid \<times> uuid) list \<Rightarrow> (uuid \<times> uuid list) list" where
  "due_groups rows = fold (\<lambda>(q, c) gs. add_to_group c q gs) rows []"

text \<open>One round: the head of every group that has one, until the limit is reached.\<close>

fun due_round :: "nat \<Rightarrow> (uuid \<times> uuid list) list \<Rightarrow> uuid list \<Rightarrow> uuid list \<times> (uuid \<times> uuid list) list \<times> bool" where
  "due_round limit [] result = (result, [], False)"
| "due_round limit ((c, pending) # gs) result =
     (if limit \<le> length result then (result, (c, pending) # gs, False)
      else case pending of
          [] \<Rightarrow> (let (r, gs', prog) = due_round limit gs result in (r, (c, []) # gs', prog))
        | q # qs \<Rightarrow> (let (r, gs', _) = due_round limit gs (result @ [q]) in (r, (c, qs) # gs', True)))"

definition pending_count :: "(uuid \<times> uuid list) list \<Rightarrow> nat" where
  "pending_count gs = sum_list (map (length \<circ> snd) gs)"

lemma due_round_pending:
  "due_round limit gs result = (r, gs', prog) \<Longrightarrow>
     pending_count gs' \<le> pending_count gs \<and> (prog \<longrightarrow> pending_count gs' < pending_count gs)"
  by (induction limit gs result arbitrary: r gs' prog rule: due_round.induct)
    (fastforce simp: pending_count_def split: if_splits list.splits prod.splits)+

function due_loop :: "nat \<Rightarrow> (uuid \<times> uuid list) list \<Rightarrow> uuid list \<Rightarrow> uuid list" where
  "due_loop limit gs result =
     (if length result < limit
      then let (r, gs', prog) = due_round limit gs result in if prog then due_loop limit gs' r else r
      else result)"
  by pat_completeness auto
termination
  by (relation "measure (\<lambda>(limit, gs, result). pending_count gs)") (auto dest: due_round_pending [OF sym])

declare due_loop.simps [simp del]

definition NextDue :: "env \<Rightarrow> uuid \<Rightarrow> int \<Rightarrow> study_db \<Rightarrow> billing_err + uuid list" where
  "NextDue e prof limit0 d =
     (let limit1 = (if limit0 \<le> 0 then defaultNextDueLimit else limit0);
          limit = min limit1 MaxNextDueLimit
      in rbind (stmt e ''NextDue'' ''ListDueQuestions'' (ListDueQuestions e prof (wrap32 (limit * 3)) d)) (\<lambda>rows.
         Inr (due_loop (nat limit) (due_groups rows) [])))"

section \<open>Streaks\<close>

text \<open>
  Days are counted from the epoch: \<open>sameDay\<close> compares year and day of the year of UTC dates, and
  \<open>today\<close> is already truncated to a day.
\<close>

record StreakState =
  ss_current :: int
  ss_best :: int
  ss_today :: int
  ss_last :: "int option"

definition sameDay :: "int \<Rightarrow> int \<Rightarrow> bool" where
  "sameDay a b \<longleftrightarrow> a = b"

definition BumpStreak :: "StreakState \<Rightarrow> int \<Rightarrow> StreakState" where
  "BumpStreak s today =
     (case ss_last s of
        None \<Rightarrow> \<lparr>ss_current = 1, ss_best = (if ss_best s < 1 then 1 else ss_best s), ss_today = 1, ss_last = Some today\<rparr>
      | Some l \<Rightarrow>
          if sameDay l today then s\<lparr>ss_today := ss_today s + 1\<rparr>
          else if sameDay l (today - 1) then
            s\<lparr>ss_current := ss_current s + 1,
              ss_best := (if ss_best s < ss_current s + 1 then ss_current s + 1 else ss_best s),
              ss_today := 1, ss_last := Some today\<rparr>
          else \<lparr>ss_current = 1, ss_best = (if ss_best s < 1 then 1 else ss_best s), ss_today = 1, ss_last = Some today\<rparr>)"

definition dailyGoalDefaultConfigKey :: string where
  "dailyGoalDefaultConfigKey = ''daily_goal_default''"

text \<open>\<open>station\<close>: the answer of the B2B licence check, see \<open>Status\<close>; \<open>has_billing\<close>: \<open>Billing.Q\<close> is set.\<close>

definition dailyGoalFor ::
  "env \<Rightarrow> bool \<Rightarrow> (billing_err + (bool \<times> int option)) option \<Rightarrow> uuid \<Rightarrow> study_db \<Rightarrow> billing_err + int" where
  "dailyGoalFor e has_billing station prof d =
     rbind (stmt e ''dailyGoalFor'' ''GetLimitConfig'' (one_row (GetLimitConfig d dailyGoalDefaultConfigKey))) (\<lambda>cfg.
     if \<not> has_billing then Inr (lc_free cfg)
     else rbind (Status e station prof (billing d)) (\<lambda>(active, _).
       Inr (if active then lc_vip cfg else lc_free cfg)))"

definition streakStateFromRow :: "streak_row option \<Rightarrow> StreakState" where
  "streakStateFromRow r = (case r of
      None \<Rightarrow> \<lparr>ss_current = 0, ss_best = 0, ss_today = 0, ss_last = None\<rparr>
    | Some s \<Rightarrow> \<lparr>ss_current = sk_current s, ss_best = sk_best s, ss_today = sk_today s, ss_last = sk_last s\<rparr>)"

definition todayUTC :: "env \<Rightarrow> int" where
  "todayUTC e = clk e ''todayUTC'' div day_ns"

definition GetStreak ::
  "env \<Rightarrow> bool \<Rightarrow> (billing_err + (bool \<times> int option)) option \<Rightarrow> uuid \<Rightarrow> study_db \<Rightarrow> billing_err + streak_row" where
  "GetStreak e has_billing station prof d =
     rbind (dailyGoalFor e has_billing station prof d) (\<lambda>goal.
     if flt e ''GetStreak'' ''GetStreak'' then Inl (Sql DbFailure)
     else Inr (case GetStreak_row d prof of
         None \<Rightarrow> \<lparr>sk_profile = prof, sk_current = 0, sk_best = 0, sk_last = None, sk_goal = goal, sk_today = 0\<rparr>
       | Some r \<Rightarrow> r\<lparr>sk_goal := goal\<rparr>))"

definition RecordActivity ::
  "env \<Rightarrow> bool \<Rightarrow> (billing_err + (bool \<times> int option)) option \<Rightarrow> uuid \<Rightarrow> study_db \<Rightarrow> billing_err + study_db" where
  "RecordActivity e has_billing station prof d =
     (if flt e ''RecordActivity'' ''GetStreak'' then Inl (Sql DbFailure)
      else rbind (dailyGoalFor e has_billing station prof d) (\<lambda>goal.
        let updated = BumpStreak (streakStateFromRow (GetStreak_row d prof)) (todayUTC e)
        in stmt e ''RecordActivity'' ''UpsertStreak'' (Inr (UpsertStreak
             \<lparr>sk_profile = prof, sk_current = wrap32 (ss_current updated), sk_best = wrap32 (ss_best updated),
              sk_last = ss_last updated, sk_goal = goal, sk_today = wrap32 (ss_today updated)\<rparr> d))))"

section \<open>Bookmarks\<close>

definition SaveQuestion :: "env \<Rightarrow> uuid \<Rightarrow> uuid \<Rightarrow> study_db \<Rightarrow> (billing_err + unit) \<times> study_db" where
  "SaveQuestion e prof q d =
     (if flt e ''SaveQuestion'' ''SaveQuestion'' then (Inl (Sql DbFailure), d) else (Inr (), sql_SaveQuestion e prof q d))"

definition UnsaveQuestion :: "env \<Rightarrow> uuid \<Rightarrow> uuid \<Rightarrow> study_db \<Rightarrow> (billing_err + unit) \<times> study_db" where
  "UnsaveQuestion e prof q d =
     (if flt e ''UnsaveQuestion'' ''UnsaveQuestion'' then (Inl (Sql DbFailure), d) else (Inr (), sql_UnsaveQuestion prof q d))"

definition ListSaved :: "env \<Rightarrow> uuid \<Rightarrow> study_db \<Rightarrow> billing_err + (uuid \<times> int) list" where
  "ListSaved e prof d = stmt e ''ListSaved'' ''ListSavedQuestions'' (Inr (ListSavedQuestions d prof))"

end
