(* ===== verification/Learning_Properties.thy ===== *)
theory Learning_Properties
  imports Learning
begin

text \<open>
  What the learning services promise: the due queue ends with exactly as many distinct questions as are due
  and asked for, and the streak counters measure runs of consecutive days.
\<close>

section \<open>The due queue\<close>

abbreviation pending :: "(uuid \<times> uuid list) list \<Rightarrow> uuid list" where
  "pending gs \<equiv> concat (map snd gs)"

lemma pending_count_length: "pending_count gs = length (pending gs)"
  by (simp add: pending_count_def length_concat o_def)

lemma mset_add_to_group: "mset (pending (add_to_group c q gs)) = add_mset q (mset (pending gs))"
  by (induction c q gs rule: add_to_group.induct) auto

lemma mset_due_groups: "mset (pending (due_groups rows)) = mset (map fst rows)"
proof -
  have "mset (pending (fold (\<lambda>(q, c) gs. add_to_group c q gs) rows gs)) = mset (pending gs) + mset (map fst rows)" for gs
    by (induction rows arbitrary: gs) (auto simp: mset_add_to_group split: prod.splits)
  from this [of "[]"] show ?thesis by (simp add: due_groups_def)
qed

text \<open>A round takes questions out of the groups and appends them, stopping at the limit.\<close>

lemma due_round_split:
  assumes "due_round limit gs result = (r, gs', prog)" and "length result \<le> limit"
  obtains taken where "r = result @ taken" and "mset (pending gs) = mset taken + mset (pending gs')"
    and "length r \<le> limit" and "\<not> prog \<Longrightarrow> taken = [] \<and> (length result = limit \<or> pending gs = [])"
proof -
  have "\<exists>taken. r = result @ taken \<and> mset (pending gs) = mset taken + mset (pending gs') \<and> length r \<le> limit
      \<and> (\<not> prog \<longrightarrow> taken = [] \<and> (length result = limit \<or> pending gs = []))"
    using assms
  proof (induction limit gs result arbitrary: r gs' prog rule: due_round.induct)
    case (1 limit result)
    then show ?case by simp
  next
    case (2 limit c pend gs result)
    show ?case
    proof (cases "limit \<le> length result")
      case True
      with "2.prems" show ?thesis by auto
    next
      case False
      show ?thesis
      proof (cases pend)
        case Nil
        obtain r1 g1 p1 where rec: "due_round limit gs result = (r1, g1, p1)" by (cases "due_round limit gs result")
        with "2.prems" False Nil "2.IH"(1) [OF False Nil rec] show ?thesis by auto
      next
        case (Cons q qs)
        obtain r1 g1 p1 where rec: "due_round limit gs (result @ [q]) = (r1, g1, p1)" by (cases "due_round limit gs (result @ [q])")
        have len: "length (result @ [q]) \<le> limit" using False by simp
        obtain taken where "r1 = (result @ [q]) @ taken" "mset (pending gs) = mset taken + mset (pending g1)" "length r1 \<le> limit"
          using "2.IH"(2) [OF False Cons rec len] by blast
        with "2.prems" False Cons rec show ?thesis by (intro exI [of _ "q # taken"]) auto
      qed
    qed
  qed
  then show thesis using that by blast
qed

lemma due_loop_split:
  "length result \<le> limit \<Longrightarrow> \<exists>taken rest. due_loop limit gs result = result @ taken \<and> mset (pending gs) = mset taken + rest
     \<and> length (due_loop limit gs result) = min limit (length result + length (pending gs))"
proof (induction limit gs result rule: due_loop.induct)
  case (1 limit gs result)
  show ?case
  proof (cases "length result < limit")
    case False
    with "1.prems" show ?thesis
      by (intro exI [of _ "[]"] exI [of _ "mset (pending gs)"]) (simp add: due_loop.simps [of limit gs result])
  next
    case True
    obtain r gs' prog where rd: "due_round limit gs result = (r, gs', prog)" by (cases "due_round limit gs result")
    obtain taken where t: "r = result @ taken" "mset (pending gs) = mset taken + mset (pending gs')" "length r \<le> limit"
      "\<not> prog \<Longrightarrow> taken = [] \<and> (length result = limit \<or> pending gs = [])"
      using due_round_split [OF rd "1.prems"] by blast
    have len: "length (pending gs) = length taken + length (pending gs')"
      using t(2) by (metis size_mset size_union)
    show ?thesis
    proof (cases prog)
      case False
      have e: "taken = []" "length (pending gs) = 0" using t(4) [OF False] True by auto
      have "due_loop limit gs result = result" using False True rd t(1) e(1) by (simp add: due_loop.simps [of limit gs result])
      then show ?thesis using True e(2) by (intro exI [of _ "[]"] exI [of _ "mset (pending gs)"]) (simp only: append_Nil2 mset.simps add_0 add_0_right; simp)
    next
      case p: True
      have "\<exists>taken' rest. due_loop limit gs' r = r @ taken' \<and> mset (pending gs') = mset taken' + rest
         \<and> length (due_loop limit gs' r) = min limit (length r + length (pending gs'))"
        by (rule "1.IH" [OF True rd [symmetric] refl refl p t(3)])
      then obtain taken' rest where "due_loop limit gs' r = r @ taken'" "mset (pending gs') = mset taken' + rest"
        "length (due_loop limit gs' r) = min limit (length r + length (pending gs'))" by blast
      with True p rd t(1,2) len show ?thesis
        by (intro exI [of _ "taken @ taken'"] exI [of _ rest]) (simp add: due_loop.simps [of limit gs result])
    qed
  qed
qed

lemma distinct_sub_mset:
  assumes "mset xs \<subseteq># mset ys" and "distinct ys"
  shows "distinct xs"
proof -
  obtain zs where "mset zs = mset ys - mset xs" using ex_mset by blast
  then have "mset (xs @ zs) = mset ys" using assms(1) by simp
  then have "distinct (xs @ zs)" using assms(2) mset_eq_imp_distinct_iff by blast
  then show ?thesis by simp
qed

definition due_limit :: "int \<Rightarrow> nat" where
  "due_limit n = nat (min (if n \<le> 0 then defaultNextDueLimit else n) MaxNextDueLimit)"

text \<open>
  C31: the due queue is computed in finitely many rounds and returns exactly as many questions as are due
  and asked for (20 when nothing is asked for, never more than 100), each of them due and none twice.
\<close>

theorem NextDue_complete:
  assumes "\<not> flt e ''NextDue'' ''ListDueQuestions''"
    and "distinct (map (\<lambda>m. (qm_profile m, qm_question m)) (memory d))"
  shows "\<exists>ids. NextDue e prof n d = Inr ids \<and> distinct ids \<and> set ids \<subseteq> qm_question ` set (due_rows e d prof)
    \<and> length ids = min (due_limit n) (length (due_rows e d prof))"
proof -
  define lim where "lim = min (if n \<le> 0 then defaultNextDueLimit else n) MaxNextDueLimit"
  have lim: "0 \<le> lim" "lim \<le> 100" "due_limit n = nat lim"
    by (auto simp: lim_def due_limit_def defaultNextDueLimit_def MaxNextDueLimit_def)
  define rows where "rows = take (nat (lim * 3)) (map (\<lambda>r. (qm_question r,
     case GetQuestionCategoryID d (qm_question r) of None \<Rightarrow> 0 | Some c \<Rightarrow> c)) (due_rows e d prof))"
  have w: "wrap32 (lim * 3) = lim * 3" using lim by (intro wrap32_id) auto
  have nd: "NextDue e prof n d = Inr (due_loop (nat lim) (due_groups rows) [])"
    using assms(1) lim w
    by (simp add: NextDue_def lim_def [symmetric] stmt_def ListDueQuestions_def limit_rows_def rows_def Let_def)
  obtain taken rest where loop: "due_loop (nat lim) (due_groups rows) [] = taken" "mset (pending (due_groups rows)) = mset taken + rest"
    "length (due_loop (nat lim) (due_groups rows) []) = min (nat lim) (length (pending (due_groups rows)))"
    using due_loop_split [of "[]" "nat lim" "due_groups rows"] by auto
  have qs: "map fst rows = take (nat (lim * 3)) (map qm_question (due_rows e d prof))"
    by (simp add: rows_def take_map o_def)
  have pend: "mset (pending (due_groups rows)) = mset (map fst rows)" by (rule mset_due_groups)
  then have len: "length (pending (due_groups rows)) = min (nat (lim * 3)) (length (due_rows e d prof))"
  proof -
    have "length (pending (due_groups rows)) = length (map fst rows)" using pend by (metis size_mset)
    then show ?thesis by (simp add: qs min.commute)
  qed
  have one: "distinct (map qm_question (due_rows e d prof))"
  proof -
    have "distinct (map (\<lambda>m. (qm_profile m, qm_question m)) (due_rows e d prof))"
      using assms(2) by (simp add: due_rows_def distinct_map inj_on_def)
    then show ?thesis by (auto simp: distinct_map inj_on_def due_rows_def)
  qed
  have sub: "mset taken \<subseteq># mset (map fst rows)" using loop(2) pend by (metis mset_subset_eq_add_left)
  have "distinct (map fst rows)" using one by (simp add: qs)
  with sub have "distinct taken" by (rule distinct_sub_mset)
  moreover have "set taken \<subseteq> qm_question ` set (due_rows e d prof)"
  proof -
    have "set taken \<subseteq> set (map fst rows)" using sub by (metis mset_subset_eqD set_mset_mset subsetI)
    also have "\<dots> \<subseteq> qm_question ` set (due_rows e d prof)" by (metis qs set_take_subset list.set_map)
    finally show ?thesis .
  qed
  moreover have "length taken = min (due_limit n) (length (due_rows e d prof))"
  proof -
    have "nat lim \<le> nat (lim * 3)" using lim(1) by simp
    then show ?thesis using loop(1,3) len lim(3) by (auto simp: min_def)
  qed
  ultimately show ?thesis using nd loop(1) by blast
qed

definition fx_memory :: "uuid \<Rightarrow> int \<Rightarrow> memory_row" where
  "fx_memory q due = \<lparr>qm_profile = 1, qm_question = q, qm_stability = 1, qm_difficulty = 5, qm_due = due, qm_last = 0,
     qm_reps = 1, qm_lapses = 1, qm_state = 0\<rparr>"

definition fx_question :: "uuid \<Rightarrow> uuid \<Rightarrow> question_row" where
  "fx_question i cat = \<lparr>q_id = i, q_category = cat, q_valid = True, q_has_image = False, q_ext_id = show_nat i, q_correct = Some (i * 10)\<rparr>"

definition fx_answers :: "uuid \<Rightarrow> answer_row list" where
  "fx_answers q = [\<lparr>an_id = q * 10, an_question = q, an_correct = True\<rparr>, \<lparr>an_id = q * 10 + 1, an_question = q, an_correct = False\<rparr>]"

definition fx_study :: study_db where
  "fx_study = \<lparr>billing = empty_db, learners = [\<lparr>ln_id = 1, ln_bypass = False, ln_ceiling = 0\<rparr>],
     limits = [\<lparr>lc_key = ''daily_goal_default'', lc_free = 10, lc_vip = 20\<rparr>,
               \<lparr>lc_key = ''unlock_threshold_correct'', lc_free = 10, lc_vip = 10\<rparr>,
               \<lparr>lc_key = ''daily_practice_questions'', lc_free = 20, lc_vip = -1\<rparr>],
     variants = [\<lparr>bv_id = 201, bv_number = 1\<rparr>, \<lparr>bv_id = 202, bv_number = 2\<rparr>, \<lparr>bv_id = 203, bv_number = 3\<rparr>],
     questions = map (\<lambda>i. fx_question i (if i < 6 then 31 else 32)) [1 ..< 11], answers = concat (map fx_answers [1 ..< 11]),
     variant_questions = [\<lparr>vq_variant = 201, vq_question = 1, vq_position = 1\<rparr>, \<lparr>vq_variant = 201, vq_question = 2, vq_position = 2\<rparr>,
                          \<lparr>vq_variant = 202, vq_question = 3, vq_position = 1\<rparr>],
     question_signs = [], explained = [], sessions = [], session_questions = [], session_answers = [], variant_progress = [],
     cursors = [], memory = [fx_memory 1 50, fx_memory 2 40, fx_memory 7 45], mastery = [], streaks = [], saved_questions = [],
     certificates = []\<rparr>"

definition fx_study_env :: env where
  "fx_study_env = \<lparr>flt = (\<lambda>_ _. False), clk = (\<lambda>_. 100), tx_now = 100, pick = (\<lambda>_. 4), new_id = 900\<rparr>"

theorem NextDue_complete_witness: "NextDue fx_study_env 1 0 fx_study = Inr [2, 7, 1]"
proof -
  have "\<not> flt fx_study_env ''NextDue'' ''ListDueQuestions''"
    "distinct (map (\<lambda>m. (qm_profile m, qm_question m)) (memory fx_study))" by code_simp+
  from NextDue_complete [OF this, of 1 0] obtain ids where "NextDue fx_study_env 1 0 fx_study = Inr ids" "distinct ids" by blast
  moreover have "NextDue fx_study_env 1 0 fx_study = Inr [2, 7, 1]" by code_simp
  ultimately show ?thesis by simp
qed

section \<open>Streaks\<close>

definition streak_start :: StreakState where
  "streak_start = \<lparr>ss_current = 0, ss_best = 0, ss_today = 0, ss_last = None\<rparr>"

definition bump_days :: "int list \<Rightarrow> StreakState" where
  "bump_days days = foldl BumpStreak streak_start days"

text \<open>What the counters should be for the days on which something was answered.\<close>

definition streak_spec :: "int list \<Rightarrow> StreakState \<Rightarrow> bool" where
  "streak_spec days s \<longleftrightarrow> ss_last s = Some (last days) \<and> ss_today s = int (count_list days (last days))
     \<and> 0 < ss_current s \<and> {last days - ss_current s <.. last days} \<subseteq> set days \<and> last days - ss_current s \<notin> set days
     \<and> (\<forall>a k. {a ..< a + k} \<subseteq> set days \<longrightarrow> k \<le> ss_best s) \<and> (\<exists>a. {a ..< a + ss_best s} \<subseteq> set days)"

lemma streak_first: "streak_spec [t] (BumpStreak streak_start t)"
proof -
  have "k \<le> 1" if "{a ..< a + k} \<subseteq> {t}" for a k :: int
  proof (rule ccontr)
    assume "\<not> k \<le> 1"
    then have "a \<in> {a ..< a + k}" "a + 1 \<in> {a ..< a + k}" by auto
    with that have "a = t" "a + 1 = t" by blast+
    then show False by simp
  qed
  moreover have "{t ..< t + 1} \<subseteq> {t}" by auto
  ultimately show ?thesis by (auto simp: streak_spec_def BumpStreak_def streak_start_def intro: exI [of _ t])
qed

lemma streak_next:
  assumes spec: "streak_spec days s" and "days \<noteq> []" and mx: "\<forall>u \<in> set days. u \<le> last days" and t: "last days \<le> t"
  shows "streak_spec (days @ [t]) (BumpStreak s t)"
proof -
  let ?l = "last days"
  from spec have l: "ss_last s = Some ?l" and td: "ss_today s = int (count_list days ?l)" and cur: "0 < ss_current s"
    "{?l - ss_current s <.. ?l} \<subseteq> set days" "?l - ss_current s \<notin> set days"
    and best: "\<And>a k. {a ..< a + k} \<subseteq> set days \<Longrightarrow> k \<le> ss_best s" and ex: "\<exists>a. {a ..< a + ss_best s} \<subseteq> set days"
    by (auto simp: streak_spec_def)
  have ll: "?l \<in> set days" using assms(2) by simp
  moreover have "{?l ..< ?l + 1} = {?l}" by auto
  ultimately have b1: "1 \<le> ss_best s" using best [of ?l 1] by auto
  text \<open>A run that uses the new day ends with it.\<close>
  have run: "k \<le> (if t = ?l + 1 then ss_current s + 1 else 1) \<or> k \<le> ss_best s" if sub: "{a ..< a + k} \<subseteq> insert t (set days)" "?l < t" for a k
  proof (cases "t \<in> {a ..< a + k}")
    case False
    then show ?thesis using best [of a k] sub(1) by blast
  next
    case True
    have mem: "x \<in> insert t (set days)" if "a \<le> x" "x < a + k" for x
      using subsetD [OF sub(1), of x] that by simp
    have top: "\<not> t + 1 < a + k"
    proof
      assume "t + 1 < a + k"
      then have "t + 1 \<in> insert t (set days)" using True mem [of "t + 1"] by simp
      then show False using mx sub(2) by auto
    qed
    have below: "a + k = t + 1" using top True by auto
    show ?thesis
    proof (cases "t = ?l + 1")
      case True
      have "\<not> a \<le> ?l - ss_current s"
      proof
        assume "a \<le> ?l - ss_current s"
        then have "?l - ss_current s \<in> insert t (set days)" 
          using below True cur(1) by (intro mem) linarith+
        then show False using cur True by auto
      qed
      then show ?thesis using True below by simp
    next
      case False
      have "\<not> a \<le> t - 1"
      proof
        assume "a \<le> t - 1"
        then have "t - 1 \<in> insert t (set days)" using below by (intro mem) linarith+
        then show False using mx False sub(2) by force
      qed
      then show ?thesis using False below by simp
    qed
  qed
  consider "t = ?l" | "t = ?l + 1" | "?l + 1 < t" using t by linarith
  then show ?thesis
  proof cases
    case 1
    then have "insert t (set days) = set days" using ll by auto
    then show ?thesis using 1 l td cur best ex by (auto simp: streak_spec_def BumpStreak_def sameDay_def)
  next
    case 2
    let ?b = "if ss_best s < ss_current s + 1 then ss_current s + 1 else ss_best s"
    have nt: "t \<notin> set days" using mx 2 by force
    have up: "{t - (ss_current s + 1) <.. t} \<subseteq> insert t (set days)" using 2 cur(2) by force
    have "{t - ss_current s ..< t + 1} \<subseteq> insert t (set days)"
    proof
      fix x assume "x \<in> {t - ss_current s ..< t + 1}"
      then have "x = t \<or> x \<in> {?l - ss_current s <.. ?l}" using 2 by auto
      then show "x \<in> insert t (set days)" using cur(2) by blast
    qed
    then have more: "{t - ss_current s ..< t - ss_current s + (ss_current s + 1)} \<subseteq> insert t (set days)" by (simp add: algebra_simps)
    have ex2: "\<exists>a. {a ..< a + ?b} \<subseteq> insert t (set days)"
    proof (cases "ss_best s < ss_current s + 1")
      case True
      then show ?thesis using more by (intro exI [of _ "t - ss_current s"]) simp
    next
      case False
      then show ?thesis using ex by auto
    qed
    have "BumpStreak s t = s\<lparr>ss_current := ss_current s + 1, ss_best := ?b, ss_today := 1, ss_last := Some t\<rparr>"
      using 2 l by (simp add: BumpStreak_def sameDay_def)
    moreover have "count_list days t = 0" using nt by (simp add: count_list_0_iff)
    moreover have "k \<le> ?b" if "{a ..< a + k} \<subseteq> insert t (set days)" for a k
      using run [OF that] 2 by (auto split: if_splits)
    moreover have "t - (ss_current s + 1) \<notin> insert t (set days)" using 2 cur by auto
    ultimately show ?thesis using cur(1) up ex2 by (simp add: streak_spec_def)
  next
    case 3
    have nt: "t \<notin> set days" "t - 1 \<notin> set days" using mx 3 by force+
    have "count_list days t = 0" using nt by (simp add: count_list_0_iff)
    moreover have "{t - 1 <.. t} \<subseteq> insert t (set days)" by auto
    moreover have "BumpStreak s t = \<lparr>ss_current = 1, ss_best = ss_best s, ss_today = 1, ss_last = Some t\<rparr>"
      using 3 l b1 by (simp add: BumpStreak_def sameDay_def)
    moreover have "k \<le> ss_best s" if "{a ..< a + k} \<subseteq> insert t (set days)" for a k
      using run [OF that] 3 b1 by auto
    moreover have "\<exists>a. {a ..< a + ss_best s} \<subseteq> insert t (set days)" using ex by auto
    ultimately show ?thesis using nt(2) by (simp add: streak_spec_def)
  qed
qed

lemma sorted_last: "sorted xs \<Longrightarrow> x \<in> set xs \<Longrightarrow> x \<le> last xs" for x :: int
  by (induction xs) auto

text \<open>
  C32: for the days on which a learner was active, in the order they came, the streak counters are what
  they claim to be: \<open>today_done\<close> counts the activities of the last day, \<open>current\<close> is the length of the run of
  consecutive days that ends there, and \<open>best\<close> the length of the longest such run.
\<close>

theorem BumpStreak_counts_runs:
  assumes "sorted days" and "days \<noteq> []"
  shows "streak_spec days (bump_days days)"
  using assms
proof (induction days rule: rev_induct)
  case Nil
  then show ?case by simp
next
  case (snoc t days)
  show ?case
  proof (cases "days = []")
    case True
    then show ?thesis by (simp add: bump_days_def streak_first)
  next
    case False
    have s: "sorted days" "\<forall>u \<in> set days. u \<le> t" using snoc.prems(1) by (auto simp: sorted_append)
    have "\<forall>u \<in> set days. u \<le> last days" using s(1) sorted_last by blast
    then show ?thesis
      using streak_next [OF snoc.IH [OF s(1) False] False] s(2) False by (simp add: bump_days_def)
  qed
qed

theorem BumpStreak_counts_runs_witness:
  "ss_current (bump_days [3, 4, 5, 9, 9, 10]) = 2 \<and> ss_best (bump_days [3, 4, 5, 9, 9, 10]) = 3
   \<and> 10 - ss_current (bump_days [3, 4, 5, 9, 9, 10]) \<notin> set [3, 4, 5, 9, 9, 10]"
proof -
  have "sorted [3, 4, 5, 9, 9, 10 :: int]" "[3, 4, 5, 9, 9, 10 :: int] \<noteq> []" by simp_all
  note spec = BumpStreak_counts_runs [OF this]
  have "ss_current (bump_days [3, 4, 5, 9, 9, 10]) = 2" "ss_best (bump_days [3, 4, 5, 9, 9, 10]) = 3" by code_simp+
  with spec show ?thesis by (simp add: streak_spec_def)
qed

end
