(* ===== verification/Session.thy ===== *)
theory Session
  imports Learning
begin

text \<open>
  The exam engine (\<open>internal/session\<close>): the rules of the exam varieties (\<open>rules.go\<close>), starting a session in each
  of its modes, answering, finishing, resuming, the ticket grid with its unlock rules and reset, ordered
  practice (\<open>ordered_practice.go\<close>), the memorize view and the expiry sweep (\<open>expire.go\<close>).

  \<open>session_cfg\<close> holds what the service gets from outside the database: the B2B licence answer for the
  request's station, the FSRS kernel, the readiness percentage of \<open>learning.Stats\<close> (\<open>float64\<close>), and the random
  share code of a certificate. The Redis leaderboard, written after the commit and never read back
  here, is left out.
\<close>

section \<open>Rules\<close>

definition ExamQuestionCount :: int where "ExamQuestionCount = 20"
definition ExamTimeLimitSec :: int where "ExamTimeLimitSec = 25 * 60"
definition ExamErrorsAllowed :: int where "ExamErrorsAllowed = 2"
definition ExamRestoreQuestionCount :: int where "ExamRestoreQuestionCount = 50"
definition ExamRestoreTimeLimitSec :: int where "ExamRestoreTimeLimitSec = 50 * 60"
definition ExamRestoreErrorsAllowed :: int where "ExamRestoreErrorsAllowed = 4"
definition PlacementQuestionCount :: int where "PlacementQuestionCount = 10"
definition PlacementTimeLimitSec :: int where "PlacementTimeLimitSec = 12 * 60"
definition PlacementErrorsAllowed :: int where "PlacementErrorsAllowed = 1"

lemmas exam_consts = ExamQuestionCount_def ExamTimeLimitSec_def ExamErrorsAllowed_def ExamRestoreQuestionCount_def
  ExamRestoreTimeLimitSec_def ExamRestoreErrorsAllowed_def PlacementQuestionCount_def PlacementTimeLimitSec_def
  PlacementErrorsAllowed_def

definition IsExamLike :: "string \<Rightarrow> bool" where
  "IsExamLike mode \<longleftrightarrow> mode = ''exam'' \<or> mode = ''grand_mock'' \<or> mode = ''placement''"

record ExamConfig =
  ec_questions :: int
  ec_time_limit :: int
  ec_errors :: int

definition ExamConfigFor :: "int \<Rightarrow> ExamConfig option" where
  "ExamConfigFor cnt =
     (if cnt = 0 \<or> cnt = ExamQuestionCount then
        Some \<lparr>ec_questions = ExamQuestionCount, ec_time_limit = ExamTimeLimitSec, ec_errors = ExamErrorsAllowed\<rparr>
      else if cnt = ExamRestoreQuestionCount then
        Some \<lparr>ec_questions = ExamRestoreQuestionCount, ec_time_limit = ExamRestoreTimeLimitSec,
              ec_errors = ExamRestoreErrorsAllowed\<rparr>
      else None)"

definition IsVariantUnlocked :: "int \<Rightarrow> bool \<Rightarrow> bool \<Rightarrow> bool" where
  "IsVariantUnlocked number isVIP prevCompleted = (if number \<le> 1 then True else isVIP \<and> prevCompleted)"

definition VariantPrevGateSatisfied :: "int \<Rightarrow> bool \<Rightarrow> int \<Rightarrow> bool" where
  "VariantPrevGateSatisfied number bypass ceil \<longleftrightarrow> bypass \<or> number \<le> ceil"

definition LockReasonVIPRequired :: string where "LockReasonVIPRequired = ''vip_required''"
definition LockReasonPrevRequired :: string where "LockReasonPrevRequired = ''prev_required''"

definition VariantLockReason :: "int \<Rightarrow> bool \<Rightarrow> bool \<Rightarrow> string" where
  "VariantLockReason number isVIP unlocked =
     (if unlocked \<or> number \<le> 1 then '''' else if \<not> isVIP then LockReasonVIPRequired else LockReasonPrevRequired)"

record ExamOutcome =
  eo_status :: session_status
  eo_reason :: string

definition EvaluateExam :: "int \<Rightarrow> int \<Rightarrow> int \<Rightarrow> int \<Rightarrow> bool \<Rightarrow> bool \<Rightarrow> ExamOutcome" where
  "EvaluateExam correct wrong tot errorsAllowed timedOut tooManyErrors =
     (if tooManyErrors then \<lparr>eo_status = SFailed, eo_reason = ''too_many_errors''\<rparr>
      else let reason = (if timedOut then ''time_up'' else ''completed'')
           in if tot - errorsAllowed \<le> correct \<and> wrong \<le> errorsAllowed
              then \<lparr>eo_status = Passed, eo_reason = reason\<rparr> else \<lparr>eo_status = SFailed, eo_reason = reason\<rparr>)"

definition EvaluatePlacement :: "int \<Rightarrow> int \<Rightarrow> int \<Rightarrow> bool \<Rightarrow> bool \<Rightarrow> ExamOutcome" where
  "EvaluatePlacement correct wrong tot timedOut tooManyErrors =
     (if tooManyErrors then \<lparr>eo_status = SFailed, eo_reason = ''too_many_errors''\<rparr>
      else if timedOut then \<lparr>eo_status = SFailed, eo_reason = ''time_up''\<rparr>
      else let completed = (tot \<le> correct + wrong \<and> 0 < tot)
           in if completed \<and> wrong \<le> PlacementErrorsAllowed
              then \<lparr>eo_status = Passed, eo_reason = ''completed''\<rparr> else \<lparr>eo_status = SFailed, eo_reason = ''completed''\<rparr>)"

definition ShouldStopForErrors :: "int \<Rightarrow> int \<Rightarrow> bool" where
  "ShouldStopForErrors wrongSoFar errorsAllowed \<longleftrightarrow> errorsAllowed < wrongSoFar"

definition ShouldStopExam :: "int \<Rightarrow> bool" where
  "ShouldStopExam wrongSoFar = ShouldStopForErrors wrongSoFar ExamErrorsAllowed"

definition FSRSRatingForCorrect :: "int option \<Rightarrow> int \<Rightarrow> int" where
  "FSRSRatingForCorrect explicit latencyMs =
     (case explicit of
        Some r \<Rightarrow> if r = Hard \<or> r = Good \<or> r = Easy then r else if r = Again then Hard else Good
      | None \<Rightarrow>
          if 0 < latencyMs then (if latencyMs < 4000 then Easy else if 25000 \<le> latencyMs then Hard else Good)
          else Good)"

definition requiredStudiedQuestions :: "int \<Rightarrow> int \<Rightarrow> int" where
  "requiredStudiedQuestions bankSize pct =
     (if bankSize \<le> 0 \<or> pct \<le> 0 then 0 else go_div (wrap64 (wrap64 (bankSize * pct) + 99)) 100)"

section \<open>Service\<close>

record session_cfg =
  sc_station :: "(billing_err + (bool \<times> int option)) option"
  sc_has_billing :: bool
  sc_fsrs :: fsrs_kernel
  sc_readiness :: "study_db \<Rightarrow> uuid \<Rightarrow> billing_err + int"
  sc_share_code :: string

definition vip :: "env \<Rightarrow> session_cfg \<Rightarrow> uuid \<Rightarrow> study_db \<Rightarrow> billing_err + bool" where
  "vip e c prof d = rbind (Status e (sc_station c) prof (billing d)) (\<lambda>(active, _). Inr active)"

record StartRequest =
  sr_mode :: string
  sr_variant :: uuid
  sr_category :: uuid
  sr_sign :: uuid
  sr_has_image :: "bool option"
  sr_from :: int
  sr_to :: int
  sr_locale :: string
  sr_count :: int
  sr_ordered :: bool

definition nil_uuid :: uuid where "nil_uuid = 0"

record SessionView =
  sv_id :: uuid
  sv_mode :: string
  sv_questions :: "uuid list"
  sv_time_limit :: "int option"
  sv_errors :: "int option"
  sv_total :: int
  sv_started :: int
  sv_number :: "int option"

text \<open>What the switch on the mode decides.\<close>

record draw =
  dr_ids :: "uuid list"
  dr_time_limit :: "int option"
  dr_errors :: "int option"
  dr_variant :: "uuid option"
  dr_number :: "int option"
  dr_category :: "uuid option"
  dr_sign :: "uuid option"
  dr_from :: "int option"

definition plain_draw :: "uuid list \<Rightarrow> draw" where
  "plain_draw ids = \<lparr>dr_ids = ids, dr_time_limit = None, dr_errors = None, dr_variant = None, dr_number = None,
     dr_category = None, dr_sign = None, dr_from = None\<rparr>"

definition variantUnlockOverrides :: "env \<Rightarrow> uuid \<Rightarrow> study_db \<Rightarrow> billing_err + (bool \<times> int)" where
  "variantUnlockOverrides e prof d =
     (if flt e ''variantUnlockOverrides'' ''GetProfileByID'' then Inl (Sql DbFailure)
      else case GetProfileByID d prof of
          None \<Rightarrow> Inr (False, 0)
        | Some p \<Rightarrow> Inr (ln_bypass p, ln_ceiling p))"

definition variant_gate :: "env \<Rightarrow> session_cfg \<Rightarrow> uuid \<Rightarrow> variant_row \<Rightarrow> study_db \<Rightarrow> billing_err + unit" where
  "variant_gate e c prof v d =
     (if bv_number v \<le> 1 then Inr ()
      else rbind (vip e c prof d) (\<lambda>active.
        if \<not> active then Inl ErrRequiresVIP
        else rbind (variantUnlockOverrides e prof d) (\<lambda>(bypass, ceil).
          if VariantPrevGateSatisfied (bv_number v) bypass ceil then Inr ()
          else rbind (stmt e ''StartSession'' ''GetVariantByNumber'' (one_row (GetVariantByNumber d (bv_number v - 1)))) (\<lambda>prev.
            if flt e ''StartSession'' ''GetVariantProgress'' then Inl (Sql DbFailure)
            else case GetVariantProgress d prof (bv_id prev) of
                None \<Rightarrow> Inl ErrVariantLocked
              | Some p \<Rightarrow> if vp_completed p = None then Inl ErrVariantLocked else Inr ()))))"

definition start_variant :: "env \<Rightarrow> session_cfg \<Rightarrow> uuid \<Rightarrow> StartRequest \<Rightarrow> study_db \<Rightarrow> billing_err + draw" where
  "start_variant e c prof r d =
     (if sr_variant r = nil_uuid then Inl ErrInvalidRequest
      else rbind (stmt e ''StartSession'' ''GetVariantByID'' (one_row (GetVariantByID d (sr_variant r)))) (\<lambda>v.
        rbind (variant_gate e c prof v d) (\<lambda>_.
        rbind (stmt e ''StartSession'' ''ListVariantQuestionIDsOrdered'' (Inr (ListVariantQuestionIDsOrdered d (sr_variant r)))) (\<lambda>ids.
        Inr ((plain_draw ids)\<lparr>dr_variant := Some (sr_variant r), dr_number := Some (bv_number v)\<rparr>)))))"

definition random_exam :: "env \<Rightarrow> int \<Rightarrow> int \<Rightarrow> int \<Rightarrow> study_db \<Rightarrow> billing_err + draw" where
  "random_exam e n limit errs d =
     rbind (stmt e ''StartSession'' ''RandomQuestionIDs'' (RandomQuestionIDs e n d)) (\<lambda>ids.
     if int (length ids) < n then Inl ErrInvalidRequest
     else Inr ((plain_draw ids)\<lparr>dr_time_limit := Some limit, dr_errors := Some errs\<rparr>))"

definition start_exam :: "env \<Rightarrow> session_cfg \<Rightarrow> uuid \<Rightarrow> StartRequest \<Rightarrow> study_db \<Rightarrow> billing_err + draw" where
  "start_exam e c prof r d =
     (case ExamConfigFor (sr_count r) of
        None \<Rightarrow> Inl ErrInvalidRequest
      | Some cfg \<Rightarrow> rbind (vip e c prof d) (\<lambda>active.
          if \<not> active then Inl ErrRequiresVIP
          else random_exam e (ec_questions cfg) (ec_time_limit cfg) (ec_errors cfg) d))"

section \<open>Grand mock eligibility\<close>

datatype mock_reason = MockOk | MockReasonVIPRequired | MockReasonTooFewStudied | MockReasonMasteryTooLow

record MockEligibilityResult =
  me_eligible :: bool
  me_mastery :: int
  me_min_mastery :: int
  me_studied :: int
  me_min_studied :: int
  me_vip :: bool
  me_reason :: mock_reason

definition mockThresholdPctConfigKey :: string where "mockThresholdPctConfigKey = ''grand_mock_threshold_pct''"
definition mockMinStudiedPctConfigKey :: string where "mockMinStudiedPctConfigKey = ''grand_mock_min_studied_pct''"

definition MockEligibility :: "env \<Rightarrow> session_cfg \<Rightarrow> uuid \<Rightarrow> study_db \<Rightarrow> billing_err + MockEligibilityResult" where
  "MockEligibility e c prof d =
     rbind (vip e c prof d) (\<lambda>active.
     rbind (stmt e ''MockEligibility'' ''GetLimitConfig'' (one_row (GetLimitConfig d mockThresholdPctConfigKey))) (\<lambda>thresholdCfg.
     rbind (stmt e ''MockEligibility'' ''GetLimitConfig2'' (one_row (GetLimitConfig d mockMinStudiedPctConfigKey))) (\<lambda>minStudiedCfg.
     rbind (sc_readiness c d prof) (\<lambda>readiness.
     rbind (stmt e ''MockEligibility'' ''CountStudiedQuestions'' (Inr (CountStudiedQuestions d prof))) (\<lambda>studied.
     rbind (stmt e ''MockEligibility'' ''CountValidQuestions'' (Inr (CountValidQuestions d))) (\<lambda>bankSize.
     let need = requiredStudiedQuestions bankSize (lc_vip minStudiedCfg);
         reason = (if \<not> active then MockReasonVIPRequired
                   else if studied < need then MockReasonTooFewStudied
                   else if readiness < lc_vip thresholdCfg then MockReasonMasteryTooLow else MockOk)
     in Inr \<lparr>me_eligible = (reason = MockOk), me_mastery = readiness, me_min_mastery = lc_vip thresholdCfg,
             me_studied = studied, me_min_studied = need, me_vip = active, me_reason = reason\<rparr>))))))"

definition start_grand_mock :: "env \<Rightarrow> session_cfg \<Rightarrow> uuid \<Rightarrow> study_db \<Rightarrow> billing_err + draw" where
  "start_grand_mock e c prof d =
     rbind (MockEligibility e c prof d) (\<lambda>elig.
     if \<not> me_eligible elig then
       (if me_reason elig = MockReasonVIPRequired then Inl ErrRequiresVIP else Inl ErrMockNotEligible)
     else random_exam e ExamQuestionCount ExamTimeLimitSec ExamErrorsAllowed d)"

section \<open>Practice allowance\<close>

record Allowance =
  al_unlimited :: bool
  al_limit :: int
  al_used :: int
  al_remaining :: int

definition practice_limit :: "env \<Rightarrow> session_cfg \<Rightarrow> string \<Rightarrow> uuid \<Rightarrow> study_db \<Rightarrow> billing_err + int" where
  "practice_limit e c site prof d =
     rbind (vip e c prof d) (\<lambda>active.
     rbind (stmt e site ''GetLimitConfig'' (one_row (GetLimitConfig d ''daily_practice_questions''))) (\<lambda>cfg.
     Inr (if active then lc_vip cfg else lc_free cfg)))"

definition practiceAnswersToday :: "env \<Rightarrow> uuid \<Rightarrow> study_db \<Rightarrow> billing_err + int" where
  "practiceAnswersToday e prof d =
     stmt e ''practiceAnswersToday'' ''CountPracticeAnswersToday''
       (Inr (CountPracticeAnswersToday d prof (clk e ''practiceAnswersToday'' div day_ns * day_ns)))"

definition PracticeAllowance :: "env \<Rightarrow> session_cfg \<Rightarrow> uuid \<Rightarrow> study_db \<Rightarrow> billing_err + Allowance" where
  "PracticeAllowance e c prof d =
     rbind (practice_limit e c ''PracticeAllowance'' prof d) (\<lambda>limit.
     if limit = -1 then Inr \<lparr>al_unlimited = True, al_limit = 0, al_used = 0, al_remaining = 0\<rparr>
     else rbind (practiceAnswersToday e prof d) (\<lambda>used.
       Inr \<lparr>al_unlimited = False, al_limit = limit, al_used = used,
            al_remaining = (if limit - used < 0 then 0 else limit - used)\<rparr>))"

definition clampToDailyAllowance :: "env \<Rightarrow> session_cfg \<Rightarrow> uuid \<Rightarrow> int \<Rightarrow> study_db \<Rightarrow> billing_err + int" where
  "clampToDailyAllowance e c prof requested d =
     rbind (practice_limit e c ''clampToDailyAllowance'' prof d) (\<lambda>limit.
     if limit = -1 then (if requested \<le> 0 then Inr 10 else Inr requested)
     else rbind (practiceAnswersToday e prof d) (\<lambda>used.
       let remaining = (if limit - used < 0 then 0 else limit - used) in
       if remaining = 0 then Inl ErrDailyLimitReached
       else Inr (if requested \<le> 0 \<or> remaining < requested then remaining else requested)))"

section \<open>Ordered practice\<close>

definition orderedCategoryDraw ::
  "env \<Rightarrow> uuid \<Rightarrow> uuid \<Rightarrow> int \<Rightarrow> study_db \<Rightarrow> (billing_err + (uuid list \<times> int)) \<times> study_db" where
  "orderedCategoryDraw e prof cat cnt d =
     (if flt e ''orderedCategoryDraw'' ''CountValidQuestionsInCategory'' then (Inl (Sql DbFailure), d)
      else let tot = CountValidQuestionsInCategory d cat in
      if tot = 0 then (Inl ErrInvalidRequest, d)
      else if flt e ''orderedCategoryDraw'' ''GetPracticeCursor'' then (Inl (Sql DbFailure), d)
      else let from = (case GetPracticeCursor d prof cat of None \<Rightarrow> 0 | Some n \<Rightarrow> n) in
      if tot \<le> from \<and> flt e ''orderedCategoryDraw'' ''ResetPracticeCursor'' then (Inl (Sql DbFailure), d)
      else let d1 = (if tot \<le> from then ResetPracticeCursor prof cat d else d);
               start = (if tot \<le> from then 0 else from)
           in (rbind (stmt e ''orderedCategoryDraw'' ''OrderedQuestionIDsByCategory''
                  (OrderedQuestionIDsByCategory cat start (wrap32 cnt) d1)) (\<lambda>ids. Inr (ids, start)), d1))"

definition advanceOrderedCursor :: "env \<Rightarrow> uuid \<Rightarrow> session_row \<Rightarrow> study_db \<Rightarrow> billing_err + study_db" where
  "advanceOrderedCursor e prof row d =
     (case (es_ordered_from row, es_category row) of
        (Some from, Some cat) \<Rightarrow> stmt e ''advanceOrderedCursor'' ''AdvancePracticeCursor''
          (Inr (AdvancePracticeCursor prof cat (es_id row) from d))
      | _ \<Rightarrow> Inr d)"

definition ResetPracticeProgress :: "env \<Rightarrow> uuid \<Rightarrow> uuid \<Rightarrow> study_db \<Rightarrow> (billing_err + unit) \<times> study_db" where
  "ResetPracticeProgress e prof cat d =
     (if flt e ''ResetPracticeProgress'' ''ResetPracticeCursor'' then (Inl (Sql DbFailure), d)
      else (Inr (), ResetPracticeCursor prof cat d))"

definition start_practice ::
  "env \<Rightarrow> session_cfg \<Rightarrow> uuid \<Rightarrow> StartRequest \<Rightarrow> study_db \<Rightarrow> (billing_err + draw) \<times> study_db" where
  "start_practice e c prof r d =
     (let hasRange = (0 < sr_from r \<or> 0 < sr_to r);
          selectors = (if sr_category r \<noteq> nil_uuid then 1 else 0) + (if sr_sign r \<noteq> nil_uuid then 1 else 0)
            + (if sr_has_image r \<noteq> None then 1 else 0) + (if hasRange then 1 else (0::nat))
      in if hasRange \<and> (sr_from r \<le> 0 \<or> sr_to r \<le> 0 \<or> sr_to r < sr_from r) then (Inl ErrInvalidRequest, d)
         else if selectors \<noteq> 1 then (Inl ErrInvalidRequest, d)
         else case clampToDailyAllowance e c prof (sr_count r) d of
             Inl err \<Rightarrow> (Inl err, d)
           | Inr cnt \<Rightarrow>
               if sr_category r \<noteq> nil_uuid \<and> sr_ordered r then
                 (case orderedCategoryDraw e prof (sr_category r) cnt d of (res, d1) \<Rightarrow>
                   (rbind res (\<lambda>(ids, from). Inr ((plain_draw ids)\<lparr>dr_category := Some (sr_category r), dr_from := Some from\<rparr>)), d1))
               else if sr_category r \<noteq> nil_uuid then
                 (rbind (stmt e ''StartSession'' ''RandomQuestionIDsByCategory''
                    (RandomQuestionIDsByCategory e (sr_category r) (wrap32 cnt) d)) (\<lambda>ids.
                  Inr ((plain_draw ids)\<lparr>dr_category := Some (sr_category r)\<rparr>)), d)
               else if sr_sign r \<noteq> nil_uuid then
                 (rbind (stmt e ''StartSession'' ''RandomQuestionIDsBySign''
                    (RandomQuestionIDsBySign e (sr_sign r) (wrap32 cnt) d)) (\<lambda>ids.
                  Inr ((plain_draw ids)\<lparr>dr_sign := Some (sr_sign r)\<rparr>)), d)
               else if hasRange then
                 (rbind (stmt e ''StartSession'' ''RandomQuestionIDsByVariantRange''
                    (RandomQuestionIDsByVariantRange e (wrap32 (sr_from r)) (wrap32 (sr_to r)) (wrap32 cnt) d)) (\<lambda>ids.
                  Inr (plain_draw ids)), d)
               else
                 (rbind (stmt e ''StartSession'' ''RandomQuestionIDsByImagePresence''
                    (RandomQuestionIDsByImagePresence e (sr_has_image r = Some True) (wrap32 cnt) d)) (\<lambda>ids.
                  Inr (plain_draw ids)), d))"

definition start_mistakes :: "env \<Rightarrow> session_cfg \<Rightarrow> uuid \<Rightarrow> StartRequest \<Rightarrow> study_db \<Rightarrow> billing_err + draw" where
  "start_mistakes e c prof r d =
     rbind (vip e c prof d) (\<lambda>active.
     if \<not> active then Inl ErrRequiresVIP
     else let cnt = (if sr_count r \<le> 0 then 10 else sr_count r) in
       rbind (stmt e ''StartSession'' ''ListMistakeBankQuestionIDs''
         (ListMistakeBankQuestionIDs e prof (wrap32 cnt) d)) (\<lambda>ids. Inr (plain_draw ids)))"

definition start_review :: "env \<Rightarrow> uuid \<Rightarrow> StartRequest \<Rightarrow> study_db \<Rightarrow> billing_err + draw" where
  "start_review e prof r d =
     rbind (NextDue e prof (if sr_count r \<le> 0 then 20 else sr_count r) d) (\<lambda>ids.
     if ids = [] then Inl ErrNothingDue else Inr (plain_draw ids))"

section \<open>Starting a session\<close>

definition select_draw ::
  "env \<Rightarrow> session_cfg \<Rightarrow> uuid \<Rightarrow> StartRequest \<Rightarrow> study_db \<Rightarrow> (billing_err + draw) \<times> study_db" where
  "select_draw e c prof r d =
     (if sr_mode r = ''variant'' then (start_variant e c prof r d, d)
      else if sr_mode r = ''exam'' then (start_exam e c prof r d, d)
      else if sr_mode r = ''grand_mock'' then (start_grand_mock e c prof d, d)
      else if sr_mode r = ''placement'' then
        (random_exam e PlacementQuestionCount PlacementTimeLimitSec PlacementErrorsAllowed d, d)
      else if sr_mode r = ''practice'' then start_practice e c prof r d
      else if sr_mode r = ''mistakes'' then (start_mistakes e c prof r d, d)
      else if sr_mode r = ''review'' then (start_review e prof r d, d)
      else (Inl ErrInvalidRequest, d))"

definition new_session :: "uuid \<Rightarrow> string \<Rightarrow> string \<Rightarrow> draw \<Rightarrow> session_row" where
  "new_session prof mode loc w = \<lparr>es_id = 0, es_profile = prof, es_mode = mode, es_variant = dr_variant w,
     es_category = dr_category w, es_sign = dr_sign w, es_locale = loc, es_time_limit = dr_time_limit w,
     es_errors_allowed = dr_errors w, es_started = 0, es_finished = None, es_status = InProgress, es_score = None,
     es_total = 0, es_stopped = None, es_readiness = None, es_ordered_from = dr_from w\<rparr>"

definition StartSession ::
  "env \<Rightarrow> session_cfg \<Rightarrow> uuid \<Rightarrow> StartRequest \<Rightarrow> study_db \<Rightarrow> (billing_err + SessionView) \<times> study_db" where
  "StartSession e c prof r d =
     (if sr_locale r \<noteq> '''' \<and> sr_locale r \<notin> set i18n_Supported then (Inl ErrInvalidRequest, d)
      else let loc = (if sr_locale r = '''' then i18n_Default else sr_locale r) in
      case select_draw e c prof r d of
        (Inl err, d1) \<Rightarrow> (Inl err, d1)
      | (Inr w, d1) \<Rightarrow>
          (case stmt e ''StartSession'' ''CreateExamSession''
                  (CreateExamSession e (new_session prof (sr_mode r) loc w) (dr_ids w) d1) of
             Inl err \<Rightarrow> (Inl err, d1)
           | Inr (row, d2) \<Rightarrow>
               (Inr \<lparr>sv_id = es_id row, sv_mode = es_mode row, sv_questions = dr_ids w, sv_time_limit = dr_time_limit w,
                     sv_errors = dr_errors w, sv_total = es_total row, sv_started = es_started row,
                     sv_number = dr_number w\<rparr>, d2)))"

end
