(* ===== verification/Session_Run.thy ===== *)
theory Session_Run
  imports Session
begin

text \<open>
  Running a session: \<open>SubmitAnswer\<close>, \<open>FinishSession\<close> and their shared \<open>finishInternal\<close>, the reads that decide how
  much of the answer key is disclosed, the ticket grid and its reset, the certificate, the history list
  and the expiry sweep (\<open>internal/session/service.go\<close>, \<open>expire.go\<close>, \<open>memorize.go\<close>).
\<close>

section \<open>Finishing\<close>

definition unlockThresholdConfigKey :: string where
  "unlockThresholdConfigKey = ''unlock_threshold_correct''"

record FinishResult =
  fr_status :: session_status
  fr_reason :: string
  fr_score :: int
  fr_total :: int
  fr_certificate :: string

definition errors_allowed :: "session_row \<Rightarrow> int" where
  "errors_allowed row = (case es_errors_allowed row of None \<Rightarrow> ExamErrorsAllowed | Some n \<Rightarrow> n)"

text \<open>The verdict: status and stop reason of a session with so many answers.\<close>

definition session_verdict :: "session_row \<Rightarrow> int \<Rightarrow> int \<Rightarrow> bool \<Rightarrow> bool \<Rightarrow> session_status \<times> string" where
  "session_verdict row totalAnswered correctCount tooManyErrors timedOut =
     (if es_mode row = ''exam'' \<or> es_mode row = ''grand_mock'' then
        (let o1 = EvaluateExam correctCount (totalAnswered - correctCount) (es_total row) (errors_allowed row) timedOut tooManyErrors
         in (eo_status o1, eo_reason o1))
      else if es_mode row = ''placement'' then
        (let o2 = EvaluatePlacement correctCount (totalAnswered - correctCount) (es_total row) timedOut tooManyErrors
         in (eo_status o2, eo_reason o2))
      else if totalAnswered < es_total row then (Abandoned, '''') else (Passed, ''completed''))"

definition finish_variant :: "env \<Rightarrow> session_row \<Rightarrow> int \<Rightarrow> study_db \<Rightarrow> billing_err + study_db" where
  "finish_variant e row correctCount d =
     (if es_mode row \<noteq> ''variant'' then Inr d
      else rbind (stmt e ''finishInternal'' ''GetLimitConfig'' (one_row (GetLimitConfig d unlockThresholdConfigKey))) (\<lambda>cfg.
        let required = (if 0 < es_total row \<and> es_total row < lc_free cfg then es_total row else lc_free cfg);
            completedAt = (if required \<le> correctCount then Some (clk e ''finishInternal'') else None)
        in stmt e ''finishInternal'' ''UpsertVariantProgress'' (Inr (UpsertVariantProgress (es_profile row)
             (case es_variant row of None \<Rightarrow> nil_uuid | Some v \<Rightarrow> v) correctCount completedAt d))))"

definition finish_certificate ::
  "env \<Rightarrow> session_cfg \<Rightarrow> session_row \<Rightarrow> session_status \<Rightarrow> int \<Rightarrow> study_db \<Rightarrow> billing_err + (string \<times> study_db)" where
  "finish_certificate e c row st correctCount d =
     (if es_mode row = ''grand_mock'' \<and> st = Passed then
        if flt e ''finishInternal'' ''rand'' then Inl (Sql DbFailure)
        else rbind (stmt e ''finishInternal'' ''InsertGrandMockCertificate''
               (InsertGrandMockCertificate e (es_id row) (es_profile row) (sc_share_code c) correctCount (es_total row) d))
             (\<lambda>(cert, d'). Inr (ce_code cert, d'))
      else Inr ('''', d))"

definition finishInternal ::
  "env \<Rightarrow> session_cfg \<Rightarrow> session_row \<Rightarrow> bool \<Rightarrow> bool \<Rightarrow> study_db \<Rightarrow> billing_err + (FinishResult \<times> study_db)" where
  "finishInternal e c row tooManyErrors timedOut d =
     (if es_status row \<noteq> InProgress then
        Inr (\<lparr>fr_status = es_status row, fr_reason = (case es_stopped row of None \<Rightarrow> '''' | Some s \<Rightarrow> s),
              fr_score = (case es_score row of None \<Rightarrow> 0 | Some n \<Rightarrow> n), fr_total = es_total row,
              fr_certificate =
                (if es_mode row = ''grand_mock'' \<and> es_status row = Passed \<and> \<not> flt e ''finishInternal'' ''GetGrandMockCertificateBySession''
                 then case GetGrandMockCertificateBySession d (es_id row) of None \<Rightarrow> '''' | Some cert \<Rightarrow> ce_code cert
                 else '''')\<rparr>, d)
      else rbind (stmt e ''finishInternal'' ''CountSessionAnswers'' (Inr (CountSessionAnswers d (es_id row)))) (\<lambda>(totalAnswered, correctCount).
        let (st, reason) = session_verdict row totalAnswered correctCount tooManyErrors timedOut in
        rbind (if IsExamLike (es_mode row) then rbind (sc_readiness c d (es_profile row)) (\<lambda>n. Inr (Some (wrap32 n))) else Inr None) (\<lambda>readiness.
        rbind (stmt e ''finishInternal'' ''FinishExamSession'' (Inr (FinishExamSession e (es_id row) st correctCount
                 (if reason = '''' then None else Some reason) readiness d))) (\<lambda>d1.
        rbind (finish_variant e row correctCount d1) (\<lambda>d2.
        rbind (finish_certificate e c row st correctCount d2) (\<lambda>(code, d3).
        Inr (\<lparr>fr_status = st, fr_reason = reason, fr_score = correctCount, fr_total = es_total row,
              fr_certificate = code\<rparr>, d3)))))))"

definition past_deadline :: "env \<Rightarrow> session_row \<Rightarrow> bool" where
  "past_deadline e row \<longleftrightarrow> (case es_time_limit row of
      None \<Rightarrow> False | Some n \<Rightarrow> es_started row + n * second \<le> clk e ''session.now'')"

definition FinishSession ::
  "env \<Rightarrow> session_cfg \<Rightarrow> uuid \<Rightarrow> uuid \<Rightarrow> study_db \<Rightarrow> (billing_err + FinishResult) \<times> study_db" where
  "FinishSession e c prof sid d = run_tx e ''FinishSession''
     (\<lambda>d. if flt e ''FinishSession'' ''GetExamSessionForUpdate'' then Inl (Sql DbFailure)
          else case GetExamSessionForUpdate d sid of
              None \<Rightarrow> Inl ErrNotFound
            | Some row \<Rightarrow>
                if es_profile row \<noteq> prof then Inl ErrNotFound
                else finishInternal e c row False (IsExamLike (es_mode row) \<and> past_deadline e row) d) d"

section \<open>Answering\<close>

record SubmitAnswerOpts =
  so_rating :: "int option"
  so_latency :: "int option"
  so_skip_fsrs :: bool

record AnswerResult =
  ar_recorded :: bool
  ar_correct :: "bool option"
  ar_key :: "uuid option"
  ar_explained :: bool
  ar_stopped :: bool
  ar_reason :: string

definition answer_rating :: "session_row \<Rightarrow> bool \<Rightarrow> SubmitAnswerOpts \<Rightarrow> int" where
  "answer_rating row correct opts =
     (if \<not> correct then Again
      else if IsExamLike (es_mode row) then Good
      else FSRSRatingForCorrect (so_rating opts) (case so_latency opts of None \<Rightarrow> 0 | Some n \<Rightarrow> n))"

definition grade_record ::
  "env \<Rightarrow> session_cfg \<Rightarrow> uuid \<Rightarrow> uuid \<Rightarrow> session_row \<Rightarrow> bool \<Rightarrow> SubmitAnswerOpts \<Rightarrow> study_db \<Rightarrow> billing_err + study_db" where
  "grade_record e c prof q row correct opts d =
     rbind (if so_skip_fsrs opts then Inr d
            else rbind (RecordReview e (sc_fsrs c) prof q (answer_rating row correct opts) d) (\<lambda>(_, d1). Inr d1)) (\<lambda>d1.
     RecordActivity e (sc_has_billing c) (sc_station c) prof d1)"

definition answer_key :: "env \<Rightarrow> uuid \<Rightarrow> uuid \<Rightarrow> bool \<Rightarrow> study_db \<Rightarrow> billing_err + uuid" where
  "answer_key e q answerID correct d =
     (if correct then Inr answerID
      else stmt e ''SubmitAnswer'' ''GetCorrectAnswerID'' (one_row (GetCorrectAnswerID e d q)))"

definition answer_outcome ::
  "env \<Rightarrow> session_cfg \<Rightarrow> session_row \<Rightarrow> uuid \<Rightarrow> uuid \<Rightarrow> bool \<Rightarrow> bool \<Rightarrow> study_db \<Rightarrow> billing_err + (AnswerResult \<times> study_db)" where
  "answer_outcome e c row q answerID correct explanation d =
     rbind (answer_key e q answerID correct d) (\<lambda>key.
     let result = \<lparr>ar_recorded = True, ar_correct = Some correct, ar_key = Some key, ar_explained = explanation,
                   ar_stopped = False, ar_reason = ''''\<rparr> in
     if IsExamLike (es_mode row) then
       rbind (stmt e ''SubmitAnswer'' ''CountSessionAnswers'' (Inr (CountSessionAnswers d (es_id row)))) (\<lambda>(answered, right).
       if ShouldStopForErrors (answered - right) (errors_allowed row) then
         rbind (finishInternal e c row True False d) (\<lambda>(_, d1).
         Inr (result\<lparr>ar_stopped := True, ar_reason := ''too_many_errors''\<rparr>, d1))
       else Inr (result, d))
     else Inr (result, d))"

definition SubmitAnswer_tx ::
  "env \<Rightarrow> session_cfg \<Rightarrow> uuid \<Rightarrow> uuid \<Rightarrow> uuid \<Rightarrow> uuid \<Rightarrow> SubmitAnswerOpts \<Rightarrow> study_db \<Rightarrow> billing_err + (AnswerResult \<times> study_db)" where
  "SubmitAnswer_tx e c prof sid q answerID opts d =
     (if flt e ''SubmitAnswer'' ''GetExamSessionForUpdate'' then Inl (Sql DbFailure)
      else case GetExamSessionForUpdate d sid of
          None \<Rightarrow> Inl ErrNotFound
        | Some row \<Rightarrow>
      if es_profile row \<noteq> prof then Inl ErrNotFound
      else if es_status row \<noteq> InProgress then Inl ErrSessionFinished
      else if IsExamLike (es_mode row) \<and> past_deadline e row then
        rbind (finishInternal e c row False True d) (\<lambda>(fin, d1).
        Inr (\<lparr>ar_recorded = False, ar_correct = None, ar_key = None, ar_explained = False, ar_stopped = True,
              ar_reason = fr_reason fin\<rparr>, d1))
      else if flt e ''SubmitAnswer'' ''GetSessionQuestion'' then Inl (Sql DbFailure)
      else case GetSessionQuestion d sid q of
          None \<Rightarrow> Inl ErrQuestionNotAssigned
        | Some asg \<Rightarrow>
      if flt e ''SubmitAnswer'' ''GetSessionAnswer'' then Inl (Sql DbFailure)
      else if GetSessionAnswer d sid q \<noteq> None then Inl ErrAlreadyAnswered
      else if flt e ''SubmitAnswer'' ''GetAnswerForScoring'' then Inl (Sql DbFailure)
      else case GetAnswerForScoring d answerID q of
          None \<Rightarrow> Inl ErrInvalidAnswer
        | Some ans \<Rightarrow>
      if \<not> IsExamLike (es_mode row) \<and> flt e ''SubmitAnswer'' ''GetVerifiedExplanation'' then Inl (Sql DbFailure)
      else let explanation = (\<not> IsExamLike (es_mode row) \<and> GetVerifiedExplanation d q (es_locale row)) in
      rbind (stmt e ''SubmitAnswer'' ''InsertSessionAnswer''
               (InsertSessionAnswer e sid q answerID (an_correct ans) (sq_position asg) d)) (\<lambda>d1.
      rbind (advanceOrderedCursor e prof row d1) (\<lambda>d2.
      rbind (grade_record e c prof q row (an_correct ans) opts d2) (\<lambda>d3.
      answer_outcome e c row q answerID (an_correct ans) explanation d3))))"

definition SubmitAnswer ::
  "env \<Rightarrow> session_cfg \<Rightarrow> uuid \<Rightarrow> uuid \<Rightarrow> uuid \<Rightarrow> uuid \<Rightarrow> SubmitAnswerOpts \<Rightarrow> study_db \<Rightarrow> (billing_err + AnswerResult) \<times> study_db" where
  "SubmitAnswer e c prof sid q answerID opts d =
     run_tx e ''SubmitAnswer'' (SubmitAnswer_tx e c prof sid q answerID opts) d"

section \<open>Reading a session\<close>

record SessionQuestionAccess =
  qa_position :: int
  qa_answered :: bool
  qa_user_answer :: "uuid option"
  qa_correct :: "bool option"
  qa_key :: "uuid option"
  qa_explanation :: bool

definition GetSessionQuestionAccess ::
  "env \<Rightarrow> uuid \<Rightarrow> uuid \<Rightarrow> uuid \<Rightarrow> study_db \<Rightarrow> billing_err + SessionQuestionAccess" where
  "GetSessionQuestionAccess e prof sid q d =
     (if flt e ''GetSessionQuestionAccess'' ''GetExamSession'' then Inl (Sql DbFailure)
      else case GetExamSession d sid of
          None \<Rightarrow> Inl ErrNotFound
        | Some row \<Rightarrow>
      if es_profile row \<noteq> prof then Inl ErrNotFound
      else if flt e ''GetSessionQuestionAccess'' ''GetSessionQuestion'' then Inl (Sql DbFailure)
      else case GetSessionQuestion d sid q of
          None \<Rightarrow> Inl ErrNotFound
        | Some asg \<Rightarrow>
      if flt e ''GetSessionQuestionAccess'' ''GetSessionAnswer'' then Inl (Sql DbFailure)
      else let answer = GetSessionAnswer d sid q;
               answered = (answer \<noteq> None);
               finished = (es_status row \<noteq> InProgress);
               access = \<lparr>qa_position = sq_position asg, qa_answered = answered, qa_user_answer = map_option sa_answer answer,
                         qa_correct = None, qa_key = None,
                         qa_explanation = (if IsExamLike (es_mode row) then finished else answered)\<rparr>
           in if \<not> (answered \<or> finished) then Inr access
              else rbind (stmt e ''GetSessionQuestionAccess'' ''GetCorrectAnswerID'' (one_row (GetCorrectAnswerID e d q))) (\<lambda>key.
                Inr (access\<lparr>qa_key := Some key, qa_correct := map_option sa_correct answer\<rparr>)))"

definition access_item :: "session_row \<Rightarrow> session_item \<Rightarrow> billing_err + (uuid \<times> SessionQuestionAccess)" where
  "access_item row a =
     (let answered = (si_user_answer a \<noteq> None);
          finished = (es_status row \<noteq> InProgress);
          item = \<lparr>qa_position = si_position a, qa_answered = answered, qa_user_answer = si_user_answer a,
                  qa_correct = None, qa_key = None,
                  qa_explanation = (if IsExamLike (es_mode row) then finished else answered)\<rparr>
      in if \<not> (answered \<or> finished) then Inr (si_question a, item)
         else case si_key a of
             None \<Rightarrow> Inl ErrMissingAnswerKey
           | Some key \<Rightarrow> Inr (si_question a, item\<lparr>qa_key := Some key,
               qa_correct := (if answered then si_is_correct a else None)\<rparr>))"

fun collect_results :: "('e + 'a) list \<Rightarrow> 'e + 'a list" where
  "collect_results [] = Inr []"
| "collect_results (r # rs) = rbind r (\<lambda>x. rbind (collect_results rs) (\<lambda>xs. Inr (x # xs)))"

definition ListSessionQuestionAccesses ::
  "env \<Rightarrow> uuid \<Rightarrow> uuid \<Rightarrow> study_db \<Rightarrow> billing_err + (uuid \<times> SessionQuestionAccess) list" where
  "ListSessionQuestionAccesses e prof sid d =
     (if flt e ''ListSessionQuestionAccesses'' ''GetExamSession'' then Inl (Sql DbFailure)
      else case GetExamSession d sid of
          None \<Rightarrow> Inl ErrNotFound
        | Some row \<Rightarrow>
      if es_profile row \<noteq> prof then Inl ErrNotFound
      else rbind (stmt e ''ListSessionQuestionAccesses'' ''ListSessionQuestionsWithAnswers''
             (Inr (ListSessionQuestionsWithAnswers d sid))) (\<lambda>rows.
        collect_results (map (access_item row) rows)))"

record AnsweredQuestion =
  aq_question :: uuid
  aq_position :: int
  aq_answered :: bool
  aq_user_answer :: "uuid option"
  aq_correct :: "bool option"
  aq_key :: "uuid option"

definition answered_question :: "session_row \<Rightarrow> session_item \<Rightarrow> AnsweredQuestion" where
  "answered_question row a =
     (let answered = (si_user_answer a \<noteq> None) in
      \<lparr>aq_question = si_question a, aq_position = si_position a, aq_answered = answered,
       aq_user_answer = si_user_answer a, aq_correct = (if answered then si_is_correct a else None),
       aq_key = (if answered \<or> es_status row \<noteq> InProgress then si_key a else None)\<rparr>)"

record SessionDetail =
  sd_view :: SessionView
  sd_status :: session_status
  sd_reason :: string
  sd_score :: "int option"
  sd_finished :: "int option"
  sd_answers :: "AnsweredQuestion list"
  sd_certificate :: string

definition GetSession :: "env \<Rightarrow> uuid \<Rightarrow> uuid \<Rightarrow> study_db \<Rightarrow> billing_err + SessionDetail" where
  "GetSession e prof sid d =
     (if flt e ''GetSession'' ''GetExamSession'' then Inl (Sql DbFailure)
      else case GetExamSession d sid of
          None \<Rightarrow> Inl ErrNotFound
        | Some row \<Rightarrow>
      if es_profile row \<noteq> prof then Inl ErrNotFound
      else rbind (stmt e ''GetSession'' ''ListSessionQuestionsWithAnswers'' (Inr (ListSessionQuestionsWithAnswers d sid))) (\<lambda>rows.
      rbind (case es_variant row of
               None \<Rightarrow> Inr None
             | Some v \<Rightarrow> if flt e ''GetSession'' ''GetVariantByID'' then Inl (Sql DbFailure)
                         else Inr (map_option bv_number (GetVariantByID d v))) (\<lambda>number.
      Inr \<lparr>sd_view = \<lparr>sv_id = es_id row, sv_mode = es_mode row, sv_questions = map si_question rows,
             sv_time_limit = es_time_limit row, sv_errors = es_errors_allowed row, sv_total = es_total row,
             sv_started = es_started row, sv_number = number\<rparr>,
           sd_status = es_status row, sd_reason = (case es_stopped row of None \<Rightarrow> '''' | Some s \<Rightarrow> s),
           sd_score = es_score row, sd_finished = es_finished row, sd_answers = map (answered_question row) rows,
           sd_certificate =
             (if es_mode row = ''grand_mock'' \<and> es_status row = Passed \<and> \<not> flt e ''GetSession'' ''GetGrandMockCertificateBySession''
              then case GetGrandMockCertificateBySession d (es_id row) of None \<Rightarrow> '''' | Some cert \<Rightarrow> ce_code cert
              else '''')\<rparr>)))"

definition GetPublicCertificate :: "env \<Rightarrow> string \<Rightarrow> study_db \<Rightarrow> billing_err + certificate_row" where
  "GetPublicCertificate e raw d =
     (let shareCode = trim_space (to_lower raw) in
      if shareCode = '''' then Inl ErrNotFound
      else if flt e ''GetPublicCertificate'' ''GetGrandMockCertificateByShareCode'' then Inl (Sql DbFailure)
      else case GetGrandMockCertificateByShareCode d shareCode of None \<Rightarrow> Inl ErrNotFound | Some cert \<Rightarrow> Inr cert)"

definition defaultMySessionsLimit :: int where "defaultMySessionsLimit = 20"
definition maxMySessionsLimit :: int where "maxMySessionsLimit = 100"

definition clampMySessionsLimit :: "int \<Rightarrow> int" where
  "clampMySessionsLimit limit =
     (if limit \<le> 0 then defaultMySessionsLimit else if maxMySessionsLimit < limit then maxMySessionsLimit else wrap32 limit)"

definition ListMySessions :: "env \<Rightarrow> uuid \<Rightarrow> int \<Rightarrow> study_db \<Rightarrow> billing_err + session_row list" where
  "ListMySessions e prof limit d =
     stmt e ''ListMySessions'' ''ListMySessions'' (Inr (ListMySessions_rows d prof (clampMySessionsLimit limit)))"

section \<open>The ticket grid\<close>

record VariantStatus =
  vs_number :: int
  vs_questions :: nat
  vs_unlocked :: bool
  vs_reason :: string
  vs_best :: int
  vs_attempts :: int
  vs_completed :: "int option"

fun variant_walk ::
  "bool \<Rightarrow> bool \<Rightarrow> int \<Rightarrow> (uuid \<Rightarrow> progress_row option) \<Rightarrow> bool \<Rightarrow> (variant_row \<times> nat) list \<Rightarrow> VariantStatus list" where
  "variant_walk active bypass ceil progress prevCompleted [] = []"
| "variant_walk active bypass ceil progress prevCompleted ((v, n) # vs) =
     (let gatePrev = (prevCompleted \<or> VariantPrevGateSatisfied (bv_number v) bypass ceil);
          unlocked = IsVariantUnlocked (bv_number v) active gatePrev;
          p = progress (bv_id v);
          completed = (case p of None \<Rightarrow> False | Some r \<Rightarrow> vp_completed r \<noteq> None)
      in \<lparr>vs_number = bv_number v, vs_questions = n, vs_unlocked = unlocked,
          vs_reason = VariantLockReason (bv_number v) active unlocked,
          vs_best = (case p of None \<Rightarrow> 0 | Some r \<Rightarrow> vp_best r),
          vs_attempts = (case p of None \<Rightarrow> 0 | Some r \<Rightarrow> vp_attempts r),
          vs_completed = Option.bind p vp_completed\<rparr>
         # variant_walk active bypass ceil progress completed vs)"

text \<open>The map built from the progress rows: a later row for the same ticket would win.\<close>

definition progress_map :: "progress_row list \<Rightarrow> uuid \<Rightarrow> progress_row option" where
  "progress_map rows v = map_of (rev (map (\<lambda>r. (vp_variant r, r)) rows)) v"

definition ListVariantStatuses ::
  "env \<Rightarrow> session_cfg \<Rightarrow> uuid \<Rightarrow> study_db \<Rightarrow> billing_err + VariantStatus list" where
  "ListVariantStatuses e c prof d =
     rbind (stmt e ''ListVariantStatuses'' ''ListVariants'' (Inr (ListVariants d))) (\<lambda>vs.
     rbind (stmt e ''ListVariantStatuses'' ''ListVariantProgressForProfile'' (Inr (ListVariantProgressForProfile d prof))) (\<lambda>rows.
     rbind (vip e c prof d) (\<lambda>active.
     rbind (variantUnlockOverrides e prof d) (\<lambda>(bypass, ceil).
     Inr (variant_walk active bypass ceil (progress_map rows) True vs)))))"

fun chain_ceiling :: "(uuid \<Rightarrow> bool) \<Rightarrow> int \<Rightarrow> variant_row list \<Rightarrow> int" where
  "chain_ceiling completed ceil [] = ceil"
| "chain_ceiling completed ceil (v # vs) =
     (if \<not> completed (bv_id v) then bv_number v else chain_ceiling completed (bv_number v) vs)"

definition ResetVariantProgress_tx :: "env \<Rightarrow> uuid \<Rightarrow> study_db \<Rightarrow> billing_err + ((int \<times> int) \<times> study_db)" where
  "ResetVariantProgress_tx e prof d =
     rbind (stmt e ''ResetVariantProgress'' ''ListVariants'' (Inr (ListVariants d))) (\<lambda>vs.
     rbind (stmt e ''ResetVariantProgress'' ''ListVariantProgressForProfile'' (Inr (ListVariantProgressForProfile d prof))) (\<lambda>rows.
     let completed = (\<lambda>i. list_ex (\<lambda>r. vp_variant r = i \<and> vp_completed r \<noteq> None) rows);
         ceil = chain_ceiling completed 0 (map fst vs)
     in rbind (stmt e ''ResetVariantProgress'' ''RaiseVariantUnlockCeiling'' (Inr (RaiseVariantUnlockCeiling prof (wrap32 ceil) d))) (\<lambda>d1.
        if flt e ''ResetVariantProgress'' ''DeleteVariantProgressForProfile'' then Inl (Sql DbFailure)
        else let (cleared, d2) = DeleteVariantProgressForProfile prof d1 in
        if flt e ''ResetVariantProgress'' ''GetProfileByID'' then Inl (Sql DbFailure)
        else case GetProfileByID d2 prof of
            None \<Rightarrow> Inl ErrNotFound
          | Some p \<Rightarrow> Inr ((cleared, ln_ceiling p), d2))))"

definition ResetVariantProgress :: "env \<Rightarrow> uuid \<Rightarrow> study_db \<Rightarrow> (billing_err + (int \<times> int)) \<times> study_db" where
  "ResetVariantProgress e prof d = run_tx e ''ResetVariantProgress'' (ResetVariantProgress_tx e prof) d"

section \<open>The expiry sweep\<close>

definition ExpiryGrace :: int where "ExpiryGrace = 15 * 60 * second"
definition expirySweepLimit :: int where "expirySweepLimit = 200"

definition listExpiredTimedSessions :: "int \<Rightarrow> int \<Rightarrow> study_db \<Rightarrow> uuid list" where
  "listExpiredTimedSessions cutoff limit d =
     take (nat limit) (map es_id (sort_key es_started (filter (\<lambda>s. es_status s = InProgress
        \<and> (case es_time_limit s of None \<Rightarrow> False | Some n \<Rightarrow> es_started s + n * second < cutoff)) (sessions d))))"

definition expireOne :: "env \<Rightarrow> session_cfg \<Rightarrow> uuid \<Rightarrow> study_db \<Rightarrow> (billing_err + bool) \<times> study_db" where
  "expireOne e c sid d = run_tx e ''expireOne''
     (\<lambda>d. if flt e ''expireOne'' ''GetExamSessionForUpdate'' then Inl (Sql DbFailure)
          else case GetExamSessionForUpdate d sid of
              None \<Rightarrow> Inr (False, d)
            | Some row \<Rightarrow>
                if es_status row \<noteq> InProgress \<or> es_time_limit row = None then Inr (False, d)
                else if \<not> past_deadline e row then Inr (False, d)
                else rbind (finishInternal e c row False True d) (\<lambda>(_, d1). Inr (True, d1))) d"

text \<open>
  One session after the other, a failing one not stopping the rest: how many were finished, the first
  error, and the database. \<open>es\<close> are the environments of the transactions.
\<close>

fun expire_all ::
  "(uuid \<Rightarrow> env) \<Rightarrow> session_cfg \<Rightarrow> uuid list \<Rightarrow> int \<Rightarrow> billing_err option \<Rightarrow> study_db \<Rightarrow> (int \<times> billing_err option) \<times> study_db" where
  "expire_all es c [] finished firstErr d = ((finished, firstErr), d)"
| "expire_all es c (sid # ids) finished firstErr d =
     (case expireOne (es sid) c sid d of
        (Inl err, d1) \<Rightarrow> expire_all es c ids finished (case firstErr of None \<Rightarrow> Some err | Some x \<Rightarrow> Some x) d1
      | (Inr done1, d1) \<Rightarrow> expire_all es c ids (if done1 then finished + 1 else finished) firstErr d1)"

definition ExpireTimedOutSessions ::
  "env \<Rightarrow> (uuid \<Rightarrow> env) \<Rightarrow> session_cfg \<Rightarrow> int \<Rightarrow> int \<Rightarrow> study_db \<Rightarrow> (int \<times> billing_err option) \<times> study_db" where
  "ExpireTimedOutSessions e es c grace0 limit0 d =
     (let limit = (if limit0 \<le> 0 then expirySweepLimit else limit0);
          grace = (if grace0 < 0 then 0 else grace0);
          cutoff = clk e ''session.now'' - grace
      in if flt e ''ExpireTimedOutSessions'' ''listExpiredTimedSessions'' then ((0, Some (Sql DbFailure)), d)
         else expire_all es c (listExpiredTimedSessions cutoff limit d) 0 None d)"

section \<open>The memorize view\<close>

definition CategoryMemorize :: "env \<Rightarrow> uuid \<Rightarrow> study_db \<Rightarrow> billing_err + (uuid \<times> int \<times> uuid) list" where
  "CategoryMemorize e cat d =
     rbind (stmt e ''CategoryMemorize'' ''CountValidQuestionsInCategory'' (Inr (CountValidQuestionsInCategory d cat))) (\<lambda>tot.
     if tot = 0 then Inr []
     else rbind (stmt e ''CategoryMemorize'' ''OrderedQuestionIDsByCategory'' (OrderedQuestionIDsByCategory cat 0 tot d)) (\<lambda>ids.
       rbind (stmt e ''CategoryMemorize'' ''ListCorrectAnswerIDsForQuestions'' (Inr (ListCorrectAnswerIDsForQuestions d ids))) (\<lambda>rows.
       collect_results (map (\<lambda>(i, q). case map_of (rev rows) q of
            None \<Rightarrow> Inl ErrMissingAnswerKey
          | Some key \<Rightarrow> Inr (q, int i + 1, key)) (enumerate 0 ids)))))"

end
