(* ===== verification/Session_Properties.thy ===== *)
theory Session_Properties
  imports Session_Run Learning_Properties
begin

text \<open>
  What the exam engine promises: the score of a session is the number of its right answers, a passed exam was
  passed under its own rules, no answer counts after the deadline or after the end, finishing is
  idempotent, and finished sessions never change.
\<close>

section \<open>Frame\<close>

text \<open>The tables an answer is scored from.\<close>

definition same_core :: "study_db \<Rightarrow> study_db \<Rightarrow> bool" where
  "same_core d d' \<longleftrightarrow> sessions d' = sessions d \<and> session_questions d' = session_questions d \<and> session_answers d' = session_answers d"

lemma same_core_refl [simp]: "same_core d d"
  by (simp add: same_core_def)

lemma same_core_trans: "same_core a b \<Longrightarrow> same_core b c \<Longrightarrow> same_core a c"
  by (simp add: same_core_def)

lemma RecordReview_core: "RecordReview e f prof q r d = Inr (m, d') \<Longrightarrow> same_core d d'"
  by (auto simp: RecordReview_def Let_def rbind_Inr_iff same_core_def UpsertQuestionMemory_def UpsertCategoryMastery_def
      split: if_splits prod.splits)

lemma RecordActivity_core: "RecordActivity e hb st prof d = Inr d' \<Longrightarrow> same_core d d'"
  by (auto simp: RecordActivity_def Let_def rbind_Inr_iff same_core_def UpsertStreak_def split: if_splits)

lemma advanceOrderedCursor_core: "advanceOrderedCursor e prof row d = Inr d' \<Longrightarrow> same_core d d'"
  by (auto simp: advanceOrderedCursor_def same_core_def AdvancePracticeCursor_def Let_def split: option.splits if_splits)

lemma grade_record_core:
  assumes "grade_record e c prof q row ok opts d = Inr d'"
  shows "same_core d d'"
proof -
  obtain d1 where "(if so_skip_fsrs opts then Inr d
      else rbind (RecordReview e (sc_fsrs c) prof q (answer_rating row ok opts) d) (\<lambda>(_, d1). Inr d1)) = Inr d1"
    and a: "RecordActivity e (sc_has_billing c) (sc_station c) prof d1 = Inr d'"
    using assms by (auto simp: grade_record_def rbind_Inr_iff)
  then have "same_core d d1" by (auto simp: rbind_Inr_iff split: if_splits dest: RecordReview_core)
  then show ?thesis using RecordActivity_core [OF a] by (rule same_core_trans)
qed

lemma finish_variant_cases:
  assumes "finish_variant e row k d = Inr d'"
  shows "d' = d \<or> (\<exists>v t. d' = UpsertVariantProgress (es_profile row) v k t d)"
  using assms unfolding finish_variant_def Let_def by (auto simp: rbind_Inr_iff split del: if_split split: if_splits(2))

lemma finish_variant_core: "finish_variant e row k d = Inr d' \<Longrightarrow> same_core d d'"
  by (drule finish_variant_cases) (auto simp: same_core_def UpsertVariantProgress_def)

lemma InsertGrandMockCertificate_ok:
  assumes "InsertGrandMockCertificate e s p code k n d = Inr (cert, d')"
  shows "same_core d d'" and "GetGrandMockCertificateBySession d' s = Some cert"
proof -
  have "same_core d d' \<and> GetGrandMockCertificateBySession d' s = Some cert"
  proof (cases "GetGrandMockCertificateBySession d s")
    case None
    then have "d' = d\<lparr>certificates := certificates d @ [cert]\<rparr> \<and> ce_session cert = s"
      using assms by (simp add: InsertGrandMockCertificate_def Let_def split: if_splits) auto
    then show ?thesis using None
      by (auto simp: same_core_def GetGrandMockCertificateBySession_def find_append)
  next
    case (Some c)
    then show ?thesis using assms by (simp add: InsertGrandMockCertificate_def split: if_splits)
  qed
  then show "same_core d d'" "GetGrandMockCertificateBySession d' s = Some cert" by simp_all
qed

lemma finish_certificate_cases:
  assumes "finish_certificate e c row st k d = Inr (code, d')"
  obtains (none) "\<not> (es_mode row = ''grand_mock'' \<and> st = Passed)" and "code = ''''" and "d' = d"
  | (issued) cert where "es_mode row = ''grand_mock''" and "st = Passed" and "code = ce_code cert"
      and "InsertGrandMockCertificate e (es_id row) (es_profile row) (sc_share_code c) k (es_total row) d = Inr (cert, d')"
  using assms by (auto simp: finish_certificate_def rbind_Inr_iff split: if_splits)

lemma finish_certificate_core: "finish_certificate e c row st k d = Inr (code, d') \<Longrightarrow> same_core d d'"
  by (auto elim!: finish_certificate_cases dest: InsertGrandMockCertificate_ok)

section \<open>Finishing\<close>

lemma finishInternal_cases:
  assumes "finishInternal e c row tooMany timedOut d = Inr (res, d')"
  obtains (finished) "es_status row \<noteq> InProgress" and "d' = d"
  | (now) n k st reason rd where "es_status row = InProgress" and "CountSessionAnswers d (es_id row) = (n, k)"
      and "session_verdict row n k tooMany timedOut = (st, reason)"
      and "same_core (FinishExamSession e (es_id row) st k (if reason = '''' then None else Some reason) rd d) d'"
      and "fr_status res = st" and "fr_reason res = reason" and "fr_score res = k" and "fr_total res = es_total row"
proof (cases "es_status row = InProgress")
  case False
  then show thesis using assms by (intro finished) (auto simp: finishInternal_def)
next
  case True
  obtain n k where nk: "CountSessionAnswers d (es_id row) = (n, k)" by (cases "CountSessionAnswers d (es_id row)")
  obtain st reason where v: "session_verdict row n k tooMany timedOut = (st, reason)" by (cases "session_verdict row n k tooMany timedOut")
  from assms True nk v obtain rd d1 d2 code where
    d1: "d1 = FinishExamSession e (es_id row) st k (if reason = '''' then None else Some reason) rd d"
    and d2: "finish_variant e row k d1 = Inr d2" and d3: "finish_certificate e c row st k d2 = Inr (code, d')"
    and res: "fr_status res = st" "fr_reason res = reason" "fr_score res = k" "fr_total res = es_total row"
    by (auto simp: finishInternal_def rbind_Inr_iff)
  have "same_core d1 d'" using same_core_trans [OF finish_variant_core [OF d2] finish_certificate_core [OF d3]] .
  then show thesis using True nk v d1 res by (intro now) simp_all
qed

section \<open>Answering\<close>

lemma answer_outcome_cases:
  assumes "answer_outcome e c row q a ok ex d = Inr (res, d')"
  obtains (going_on) "d' = d" and "\<not> ar_stopped res" and "ar_recorded res"
      and "IsExamLike (es_mode row) \<Longrightarrow> fst (CountSessionAnswers d (es_id row)) - snd (CountSessionAnswers d (es_id row)) \<le> errors_allowed row"
  | (stopped) fin where "IsExamLike (es_mode row)" and "finishInternal e c row True False d = Inr (fin, d')"
      and "ar_stopped res" and "ar_recorded res" and "ar_reason res = ''too_many_errors''"
proof -
  let ?n = "fst (CountSessionAnswers d (es_id row))" and ?k = "snd (CountSessionAnswers d (es_id row))"
  show thesis
  proof (cases "IsExamLike (es_mode row) \<and> ShouldStopForErrors (?n - ?k) (errors_allowed row)")
    case True
    then obtain fin where "finishInternal e c row True False d = Inr (fin, d')" "ar_stopped res" "ar_recorded res"
      "ar_reason res = ''too_many_errors''"
      using assms by (auto simp: answer_outcome_def Let_def rbind_Inr_iff split_beta)
    then show thesis using True by (intro stopped) simp_all
  next
    case False
    then show thesis using assms
      by (intro going_on) (auto simp: answer_outcome_def Let_def rbind_Inr_iff split_beta ShouldStopForErrors_def split: if_splits)
  qed
qed

definition new_answer :: "env \<Rightarrow> uuid \<Rightarrow> uuid \<Rightarrow> uuid \<Rightarrow> bool \<Rightarrow> int \<Rightarrow> session_answer_row" where
  "new_answer e sid q a ok pos = \<lparr>sa_session = sid, sa_question = q, sa_answer = a, sa_correct = ok, sa_position = pos, sa_at = tx_now e\<rparr>"

lemma SubmitAnswer_cases:
  obtains (same) "snd (SubmitAnswer e c prof sid q a opts d) = d" and "isl (fst (SubmitAnswer e c prof sid q a opts d))"
  | (late) row fin d' res where "GetExamSession d sid = Some row" and "es_profile row = prof" and "es_status row = InProgress"
      and "IsExamLike (es_mode row)" and "past_deadline e row" and "finishInternal e c row False True d = Inr (fin, d')"
      and "SubmitAnswer e c prof sid q a opts d = (Inr res, d')" and "\<not> ar_recorded res" and "ar_stopped res"
      and "ar_reason res = fr_reason fin"
  | (recorded) row asg ans d1 d3 d' res where "GetExamSession d sid = Some row" and "es_profile row = prof"
      and "es_status row = InProgress" and "\<not> (IsExamLike (es_mode row) \<and> past_deadline e row)"
      and "GetSessionQuestion d sid q = Some asg" and "GetSessionAnswer d sid q = None"
      and "GetAnswerForScoring d a q = Some ans"
      and "d1 = d\<lparr>session_answers := session_answers d @ [new_answer e sid q a (an_correct ans) (sq_position asg)]\<rparr>"
      and "same_core d1 d3" and "\<exists>ex. answer_outcome e c row q a (an_correct ans) ex d3 = Inr (res, d')"
      and "SubmitAnswer e c prof sid q a opts d = (Inr res, d')"
proof (cases "fst (SubmitAnswer e c prof sid q a opts d)")
  case (Inl err)
  then have "snd (SubmitAnswer e c prof sid q a opts d) = d" by (auto simp: SubmitAnswer_def run_tx_error)
  then show thesis using Inl by (intro same) simp_all
next
  case (Inr res)
  then obtain d' where s: "SubmitAnswer e c prof sid q a opts d = (Inr res, d')" by (metis prod.collapse)
  then have tx: "SubmitAnswer_tx e c prof sid q a opts d = Inr (res, d')" by (simp add: SubmitAnswer_def run_tx_ok)
  then obtain row where row: "GetExamSession d sid = Some row" "es_profile row = prof" "es_status row = InProgress"
    by (auto simp: SubmitAnswer_tx_def GetExamSessionForUpdate_def GetExamSession_def split: if_splits option.splits)
  have nofault: "\<not> flt e ''SubmitAnswer'' ''GetExamSessionForUpdate''" using tx by (auto simp: SubmitAnswer_tx_def)
  have upd: "GetExamSessionForUpdate d sid = Some row" using row(1) by (simp add: GetExamSessionForUpdate_def GetExamSession_def)
  show thesis
  proof (cases "IsExamLike (es_mode row) \<and> past_deadline e row")
    case True
    then obtain fin where "finishInternal e c row False True d = Inr (fin, d')" "\<not> ar_recorded res" "ar_stopped res" "ar_reason res = fr_reason fin"
      using tx nofault upd row by (auto simp: SubmitAnswer_tx_def rbind_Inr_iff)
    then show thesis using row True s by (intro late) simp_all
  next
    case False
    obtain asg where asg: "GetSessionQuestion d sid q = Some asg"
      using tx nofault upd row False by (auto simp: SubmitAnswer_tx_def split: if_splits option.splits)
    obtain ans where ans: "GetAnswerForScoring d a q = Some ans" "GetSessionAnswer d sid q = None"
      using tx nofault upd row False asg by (auto simp: SubmitAnswer_tx_def split: if_splits option.splits)
    define d1 where "d1 = d\<lparr>session_answers := session_answers d @ [new_answer e sid q a (an_correct ans) (sq_position asg)]\<rparr>"
    have ins: "InsertSessionAnswer e sid q a (an_correct ans) (sq_position asg) d = Inr d1"
      using asg ans by (simp add: InsertSessionAnswer_def d1_def new_answer_def)
    obtain d2 d3 ex where "advanceOrderedCursor e prof row d1 = Inr d2" "grade_record e c prof q row (an_correct ans) opts d2 = Inr d3"
      "answer_outcome e c row q a (an_correct ans) ex d3 = Inr (res, d')"
      using tx nofault upd row False asg ans ins by (auto simp: SubmitAnswer_tx_def Let_def rbind_Inr_iff split: if_splits)
    then show thesis using row False asg ans s d1_def
      by (intro recorded) (auto intro: same_core_trans [OF advanceOrderedCursor_core grade_record_core])
  qed
qed

section \<open>Scores and verdicts\<close>

definition n_answers :: "session_answer_row list \<Rightarrow> uuid \<Rightarrow> int" where
  "n_answers rows s = int (length (filter (\<lambda>r. sa_session r = s) rows))"

definition n_right :: "session_answer_row list \<Rightarrow> uuid \<Rightarrow> int" where
  "n_right rows s = int (length (filter (\<lambda>r. sa_session r = s \<and> sa_correct r) rows))"

lemma CountSessionAnswers_eq: "CountSessionAnswers d s = (n_answers (session_answers d) s, n_right (session_answers d) s)"
  by (simp add: CountSessionAnswers_def n_answers_def n_right_def)

lemma counts_other:
  "sa_session r \<noteq> s \<Longrightarrow> n_answers (rows @ [r]) s = n_answers rows s"
  "sa_session r \<noteq> s \<Longrightarrow> n_right (rows @ [r]) s = n_right rows s"
  by (simp_all add: n_answers_def n_right_def)

text \<open>The rules a finished or running session obeys.\<close>

definition session_ok :: "session_answer_row list \<Rightarrow> session_row \<Rightarrow> bool" where
  "session_ok rows s \<longleftrightarrow>
     (let n = n_answers rows (es_id s); k = n_right rows (es_id s) in
      (es_status s = InProgress \<longrightarrow> es_score s = None \<and> (IsExamLike (es_mode s) \<longrightarrow> n - k \<le> errors_allowed s))
      \<and> (es_status s \<noteq> InProgress \<longrightarrow> es_score s = Some k)
      \<and> (es_mode s \<in> {''exam'', ''grand_mock''} \<longrightarrow> es_status s = Passed \<longrightarrow> es_total s - errors_allowed s \<le> k \<and> n - k \<le> errors_allowed s)
      \<and> (es_mode s = ''placement'' \<longrightarrow> es_status s = Passed \<longrightarrow> es_total s \<le> n \<and> n - k \<le> 1)
      \<and> (\<not> IsExamLike (es_mode s) \<longrightarrow> es_status s = Passed \<longrightarrow> es_total s \<le> n))"

definition session_inv :: "study_db \<Rightarrow> bool" where
  "session_inv d \<longleftrightarrow> distinct (map es_id (sessions d)) \<and> (\<forall>s \<in> set (sessions d). session_ok (session_answers d) s)
     \<and> distinct (map (\<lambda>r. (sa_session r, sa_question r)) (session_answers d))
     \<and> (\<forall>r \<in> set (session_answers d). GetSessionQuestion d (sa_session r) (sa_question r) \<noteq> None)
     \<and> sq_session ` set (session_questions d) \<subseteq> es_id ` set (sessions d)"

lemma session_inv_core: "session_inv d \<Longrightarrow> same_core d d' \<Longrightarrow> session_inv d'"
  by (simp add: session_inv_def same_core_def GetSessionQuestion_def)

lemma session_inv_known:
  assumes "session_inv d" and "r \<in> set (session_answers d)"
  shows "sa_session r \<in> es_id ` set (sessions d)"
proof -
  obtain x where "GetSessionQuestion d (sa_session r) (sa_question r) = Some x" using assms by (auto simp: session_inv_def)
  then have "x \<in> set (session_questions d)" "sq_session x = sa_session r" by (auto simp: GetSessionQuestion_def dest: find_SomeD)
  then show ?thesis using assms(1) by (force simp: session_inv_def)
qed

lemma verdict_ok:
  assumes "session_verdict row n k tooMany timedOut = (st, reason)"
  shows "st \<noteq> InProgress"
    and "es_mode row \<in> {''exam'', ''grand_mock''} \<Longrightarrow> st = Passed \<Longrightarrow> es_total row - errors_allowed row \<le> k \<and> n - k \<le> errors_allowed row"
    and "es_mode row = ''placement'' \<Longrightarrow> st = Passed \<Longrightarrow> es_total row \<le> n \<and> n - k \<le> 1"
    and "\<not> IsExamLike (es_mode row) \<Longrightarrow> st = Passed \<Longrightarrow> es_total row \<le> n"
  using assms by (auto simp: session_verdict_def EvaluateExam_def EvaluatePlacement_def PlacementErrorsAllowed_def
      IsExamLike_def Let_def split: if_splits)

text \<open>The invariant with the rules of one session suspended, as they are between an answer and the stop.\<close>

definition session_inv_but :: "uuid \<Rightarrow> study_db \<Rightarrow> bool" where
  "session_inv_but i d \<longleftrightarrow> distinct (map es_id (sessions d)) \<and> (\<forall>s \<in> set (sessions d). es_id s \<noteq> i \<longrightarrow> session_ok (session_answers d) s)
     \<and> distinct (map (\<lambda>r. (sa_session r, sa_question r)) (session_answers d))
     \<and> (\<forall>r \<in> set (session_answers d). GetSessionQuestion d (sa_session r) (sa_question r) \<noteq> None)
     \<and> sq_session ` set (session_questions d) \<subseteq> es_id ` set (sessions d)"

lemma session_inv_but: "session_inv d \<Longrightarrow> session_inv_but i d"
  by (simp add: session_inv_def session_inv_but_def)

lemma finishInternal_inv:
  assumes f: "finishInternal e c row tooMany timedOut d = Inr (res, d')" and p: "es_status row = InProgress"
    and row: "GetExamSession d (es_id row) = Some row" and inv: "session_inv_but (es_id row) d"
  shows "session_inv d'"
  using f
proof (cases rule: finishInternal_cases)
  case finished
  then show ?thesis using p by simp
next
  case (now n k st reason rd)
  let ?i = "es_id row" and ?A = "session_answers d"
  define upd where "upd = (\<lambda>s :: session_row. s\<lparr>es_finished := Some (tx_now e), es_status := st, es_score := Some k,
      es_stopped := (if reason = '''' then None else Some reason),
      es_readiness := (case rd of None \<Rightarrow> es_readiness s | Some r \<Rightarrow> Some r)\<rparr>)"
  have ss: "sessions d' = upd_where (\<lambda>s. es_id s = ?i) upd (sessions d)" and qs: "session_questions d' = session_questions d"
    and as: "session_answers d' = ?A"
    using now(4) by (simp_all add: same_core_def FinishExamSession_def upd_def)
  have nk: "n = n_answers ?A ?i" "k = n_right ?A ?i" using now(2) by (simp_all add: CountSessionAnswers_eq)
  have ids: "map es_id (sessions d') = map es_id (sessions d)"
    unfolding ss by (rule map_upd_where) (simp add: upd_def)
  have "session_ok ?A s" if s: "s \<in> set (sessions d')" for s
  proof (cases "es_id s = ?i")
    case False
    then have "s \<in> set (sessions d)" using that unfolding ss by (auto simp: set_upd_where upd_def split: if_splits)
    then show ?thesis using inv False by (simp add: session_inv_but_def)
  next
    case True
    then obtain s0 where s0: "s0 \<in> set (sessions d)" "es_id s0 = ?i" "s = upd s0"
      using s unfolding ss by (auto simp: set_upd_where upd_def split: if_splits)
    have "row \<in> set (sessions d)" using row by (auto simp: GetExamSession_def dest: find_SomeD)
    then have "s0 = row" using s0(1,2) inv by (simp add: session_inv_but_def distinct_map inj_on_def)
    then have "es_id s = ?i" "es_status s = st" "es_score s = Some k" "es_mode s = es_mode row" "es_total s = es_total row"
      "errors_allowed s = errors_allowed row" using s0(3) by (simp_all add: upd_def errors_allowed_def)
    with verdict_ok [OF now(3)] nk show ?thesis by (simp add: session_ok_def Let_def)
  qed
  moreover have "es_id ` set (sessions d') = es_id ` set (sessions d)" using ids by (metis list.set_map)
  ultimately show ?thesis using inv ids by (simp add: session_inv_def session_inv_but_def as qs GetSessionQuestion_def)
qed

lemma FinishSession_cases:
  obtains (same) "snd (FinishSession e c prof sid d) = d"
  | (now) row timedOut res d' where "GetExamSession d sid = Some row" and "es_profile row = prof" and "es_status row = InProgress"
      and "timedOut \<longleftrightarrow> IsExamLike (es_mode row) \<and> past_deadline e row"
      and "finishInternal e c row False timedOut d = Inr (res, d')" and "FinishSession e c prof sid d = (Inr res, d')"
proof (cases "fst (FinishSession e c prof sid d)")
  case (Inl err)
  then have "snd (FinishSession e c prof sid d) = d" by (auto simp: FinishSession_def run_tx_error)
  then show thesis by (rule same)
next
  case (Inr res)
  then obtain d' where s: "FinishSession e c prof sid d = (Inr res, d')" by (metis prod.collapse)
  then obtain row where row: "GetExamSession d sid = Some row" "es_profile row = prof"
    and f: "finishInternal e c row False (IsExamLike (es_mode row) \<and> past_deadline e row) d = Inr (res, d')"
    by (auto simp: FinishSession_def run_tx_ok GetExamSessionForUpdate_def GetExamSession_def split: if_splits option.splits)
  show thesis
  proof (cases "es_status row = InProgress")
    case True
    then show thesis using row f s by (intro now) simp_all
  next
    case False
    then have "d' = d" using f by (auto simp: finishInternal_def)
    then show thesis using s by (intro same) simp
  qed
qed

lemma expireOne_cases:
  obtains (same) "snd (expireOne e c sid d) = d"
  | (now) row res d' where "GetExamSession d sid = Some row" and "es_status row = InProgress" and "past_deadline e row"
      and "finishInternal e c row False True d = Inr (res, d')" and "expireOne e c sid d = (Inr True, d')"
proof (cases "fst (expireOne e c sid d)")
  case (Inl err)
  then have "snd (expireOne e c sid d) = d" by (auto simp: expireOne_def run_tx_error)
  then show thesis by (rule same)
next
  case (Inr b)
  then obtain d' where s: "expireOne e c sid d = (Inr b, d')" by (metis prod.collapse)
  show thesis
  proof (cases b)
    case False
    then have "d' = d" using s
      by (auto simp: expireOne_def run_tx_ok rbind_Inr_iff split: if_splits option.splits)
    then show thesis using s by (intro same) simp
  next
    case True
    then obtain row res where "GetExamSession d sid = Some row" "es_status row = InProgress" "past_deadline e row"
      "finishInternal e c row False True d = Inr (res, d')"
      using s by (auto simp: expireOne_def run_tx_ok rbind_Inr_iff GetExamSessionForUpdate_def GetExamSession_def split: if_splits option.splits)
    then show thesis using s True by (intro now) simp_all
  qed
qed

lemma GetExamSession_id: "GetExamSession d sid = Some row \<Longrightarrow> es_id row = sid \<and> row \<in> set (sessions d)"
  by (auto simp: GetExamSession_def dest: find_SomeD)

lemma FinishSession_inv: "session_inv d \<Longrightarrow> session_inv (snd (FinishSession e c prof sid d))"
  by (cases rule: FinishSession_cases [of e c prof sid d])
    (auto dest: GetExamSession_id intro: finishInternal_inv session_inv_but)

lemma expireOne_inv: "session_inv d \<Longrightarrow> session_inv (snd (expireOne e c sid d))"
  by (cases rule: expireOne_cases [of e c sid d])
    (auto dest: GetExamSession_id intro: finishInternal_inv session_inv_but)

lemma expire_all_inv: "session_inv d \<Longrightarrow> session_inv (snd (expire_all es c ids n err d))"
proof (induction ids arbitrary: n err d)
  case Nil
  then show ?case by simp
next
  case (Cons sid ids)
  then show ?case using expireOne_inv [of d "es sid" c sid]
    by (auto split: prod.splits sum.splits)
qed

lemma same_core_counts: "same_core d d' \<Longrightarrow> CountSessionAnswers d' s = CountSessionAnswers d s"
  by (simp add: same_core_def CountSessionAnswers_def)

lemma insert_answer_inv:
  assumes inv: "session_inv d" and q: "GetSessionQuestion d sid q = Some asg" and fresh: "GetSessionAnswer d sid q = None"
  shows "session_inv_but sid (d\<lparr>session_answers := session_answers d @ [new_answer e sid q a ok pos]\<rparr>)"
proof -
  have "(sid, q) \<notin> (\<lambda>r. (sa_session r, sa_question r)) ` set (session_answers d)"
    using fresh by (auto simp: GetSessionAnswer_def find_None_iff)
  moreover have "session_ok (session_answers d @ [new_answer e sid q a ok pos]) s" if "s \<in> set (sessions d)" "es_id s \<noteq> sid" for s
    using that inv counts_other [of "new_answer e sid q a ok pos" "es_id s" "session_answers d"]
    by (auto simp: session_inv_def session_ok_def new_answer_def)
  ultimately show ?thesis using inv q
    by (auto simp: session_inv_def session_inv_but_def new_answer_def GetSessionQuestion_def)
qed

lemma session_inv_restore:
  assumes "session_inv_but sid d" and "GetExamSession d sid = Some row" and "session_ok (session_answers d) row"
  shows "session_inv d"
proof -
  have row: "row \<in> set (sessions d)" "es_id row = sid" using GetExamSession_id [OF assms(2)] by simp_all
  have "s = row" if "s \<in> set (sessions d)" "es_id s = sid" for s
    using that row assms(1) by (simp add: session_inv_but_def distinct_map inj_on_def)
  then show ?thesis using assms(1,3) by (auto simp: session_inv_def session_inv_but_def)
qed

lemma SubmitAnswer_inv:
  assumes inv: "session_inv d"
  shows "session_inv (snd (SubmitAnswer e c prof sid q a opts d))"
proof (cases rule: SubmitAnswer_cases [of e c prof sid q a opts d])
  case same
  then show ?thesis using inv by simp
next
  case (late row fin d' res)
  then show ?thesis using GetExamSession_id [OF late(1)] inv by (auto intro: finishInternal_inv session_inv_but)
next
  case (recorded row asg ans d1 d3 d' res)
  have row: "es_id row = sid" "row \<in> set (sessions d)" using GetExamSession_id [OF recorded(1)] by simp_all
  have but: "session_inv_but sid d3"
    using insert_answer_inv [OF inv recorded(5,6)] recorded(8,9) by (simp add: session_inv_but_def same_core_def GetSessionQuestion_def)
  have r3: "GetExamSession d3 sid = Some row" using recorded(1,8,9) by (simp add: GetExamSession_def same_core_def)
  obtain ex where "answer_outcome e c row q a (an_correct ans) ex d3 = Inr (res, d')" using recorded(10) by blast
  then have "session_inv d'"
  proof (cases rule: answer_outcome_cases)
    case going_on
    have "es_score row = None" using inv row recorded(3) by (auto simp: session_inv_def session_ok_def Let_def)
    then have "session_ok (session_answers d3) row"
      using going_on(4) recorded(3) by (simp add: session_ok_def Let_def CountSessionAnswers_eq)
    then show ?thesis using session_inv_restore [OF but r3] going_on(1) by simp
  next
    case (stopped fin)
    show ?thesis by (rule finishInternal_inv [OF stopped(2) recorded(3)]) (use r3 but row in simp_all)
  qed
  then show ?thesis by (simp add: recorded(11))
qed

section \<open>Starting\<close>

lemma select_draw_core: "select_draw e c prof r d = (x, d') \<Longrightarrow> same_core d d'"
  by (auto simp: select_draw_def start_practice_def orderedCategoryDraw_def ResetPracticeCursor_def same_core_def Let_def
      split: if_splits sum.splits prod.splits)

lemma random_exam_ok:
  "random_exam e n t errs d = Inr w \<Longrightarrow> dr_errors w = Some errs \<and> dr_time_limit w = Some t \<and> n \<le> int (length (dr_ids w))"
  by (auto simp: random_exam_def rbind_Inr_iff plain_draw_def split: if_splits)

lemma select_draw_errors:
  assumes "select_draw e c prof r d = (Inr w, d')"
  shows "case dr_errors w of None \<Rightarrow> True | Some n \<Rightarrow> 0 \<le> n"
proof -
  have "case dr_errors w of None \<Rightarrow> True | Some n \<Rightarrow> 0 \<le> n" if "start_exam e c prof r d = Inr w"
    using that by (auto simp: start_exam_def ExamConfigFor_def exam_consts rbind_Inr_iff split: if_splits dest: random_exam_ok)
  moreover have "case dr_errors w of None \<Rightarrow> True | Some n \<Rightarrow> 0 \<le> n" if "start_grand_mock e c prof d = Inr w"
    using that by (auto simp: start_grand_mock_def exam_consts rbind_Inr_iff split: if_splits dest: random_exam_ok)
  moreover have "dr_errors w = None" if "start_practice e c prof r d = (Inr w, d')"
    using that by (auto simp: start_practice_def Let_def plain_draw_def rbind_Inr_iff split: if_splits sum.splits prod.splits)
  moreover have "dr_errors w = None" if "start_variant e c prof r d = Inr w \<or> start_mistakes e c prof r d = Inr w \<or> start_review e prof r d = Inr w"
    using that by (auto simp: start_variant_def start_mistakes_def start_review_def Let_def plain_draw_def rbind_Inr_iff split: if_splits)
  ultimately show ?thesis
    using assms by (auto simp: select_draw_def exam_consts split: if_splits option.splits dest: random_exam_ok)
qed

lemma CreateExamSession_ok:
  assumes "CreateExamSession e r ids d = Inr (s, d')"
  shows "s = r\<lparr>es_id := new_id e, es_started := tx_now e, es_finished := None, es_status := InProgress,
       es_score := None, es_total := int (length ids), es_stopped := None, es_readiness := None\<rparr>"
    and "d' = d\<lparr>sessions := sessions d @ [s], session_questions := session_questions d @ assigned (new_id e) ids\<rparr>"
    and "new_id e \<notin> es_id ` set (sessions d)" and "distinct ids"
  using assms by (auto simp: CreateExamSession_def Let_def split: if_splits)

lemma CreateExamSession_inv:
  assumes inv: "session_inv d" and c: "CreateExamSession e r ids d = Inr (s, d')" and e: "0 \<le> errors_allowed r"
  shows "session_inv d'"
proof -
  note ok = CreateExamSession_ok [OF c]
  have "sa_session x \<noteq> new_id e" if "x \<in> set (session_answers d)" for x
    using session_inv_known [OF inv that] ok(3) by metis
  then have "n_answers (session_answers d) (new_id e) = 0" "n_right (session_answers d) (new_id e) = 0"
    by (auto simp: n_answers_def n_right_def filter_empty_conv)
  then have "session_ok (session_answers d) s" using e by (simp add: session_ok_def ok(1) errors_allowed_def)
  moreover have "sq_session ` set (assigned (new_id e) ids) \<subseteq> {new_id e}" by (auto simp: assigned_def)
  ultimately show ?thesis
    using inv ok(1,3) unfolding ok(2)
    by (auto simp: session_inv_def GetSessionQuestion_def find_append split: option.splits)
qed

lemma stmt_Inr: "stmt e site op x = Inr y \<Longrightarrow> x = Inr y"
  by (simp add: stmt_def split: if_splits)

lemma StartSession_cases:
  obtains (refused) err where "fst (StartSession e c prof r d) = Inl err" and "same_core d (snd (StartSession e c prof r d))"
  | (started) w d1 loc row view d2 where "select_draw e c prof r d = (Inr w, d1)"
      and "CreateExamSession e (new_session prof (sr_mode r) loc w) (dr_ids w) d1 = Inr (row, d2)"
      and "StartSession e c prof r d = (Inr view, d2)" and "sv_id view = es_id row" and "sv_questions view = dr_ids w"
proof (cases "sr_locale r \<noteq> '''' \<and> sr_locale r \<notin> set i18n_Supported")
  case True
  then show thesis by (intro refused) (auto simp: StartSession_def)
next
  case ok: False
  define loc where "loc = (if sr_locale r = '''' then i18n_Default else sr_locale r)"
  obtain x d1 where sel: "select_draw e c prof r d = (x, d1)" by (cases "select_draw e c prof r d")
  note core = select_draw_core [OF sel]
  show thesis
  proof (cases x)
    case (Inl err)
    then show thesis using ok sel core by (intro refused [of err]) (auto simp: StartSession_def Let_def)
  next
    case w: (Inr w)
    define cr where "cr = CreateExamSession e (new_session prof (sr_mode r) loc w) (dr_ids w) d1"
    show thesis
    proof (cases "stmt e ''StartSession'' ''CreateExamSession'' cr")
      case (Inl err)
      then show thesis using ok sel w core by (intro refused [of err]) (auto simp: StartSession_def Let_def cr_def loc_def)
    next
      case (Inr p)
      obtain row d2 where p: "p = (row, d2)" by (cases p)
      have cr: "cr = Inr (row, d2)" using stmt_Inr [OF Inr] p by simp
      obtain view where "StartSession e c prof r d = (Inr view, d2)" "sv_id view = es_id row" "sv_questions view = dr_ids w"
        using ok sel w Inr p by (auto simp: StartSession_def Let_def cr_def loc_def stmt_def split: if_splits)
      then show thesis using sel w cr by (intro started [of w d1 loc row d2 view]) (simp_all add: cr_def)
    qed
  qed
qed

lemma StartSession_inv:
  assumes inv: "session_inv d"
  shows "session_inv (snd (StartSession e c prof r d))"
proof (cases rule: StartSession_cases [of e c prof r d])
  case (refused err)
  then show ?thesis using inv session_inv_core by blast
next
  case (started w d1 loc row view d2)
  have "0 \<le> errors_allowed (new_session prof (sr_mode r) loc w)"
    using select_draw_errors [OF started(1)] by (auto simp: errors_allowed_def new_session_def exam_consts split: option.splits)
  then have "session_inv d2"
    using CreateExamSession_inv [OF _ started(2)] session_inv_core [OF inv select_draw_core [OF started(1)]] by blast
  then show ?thesis by (simp add: started(3))
qed

section \<open>The life of the session tables\<close>

text \<open>
  The operations that write the learner's tables, in any order, each with its own environment (clock,
  fresh ids, faults), and the billing side changing underneath.
\<close>

inductive session_step :: "study_db \<Rightarrow> study_db \<Rightarrow> bool" where
  start: "session_step d (snd (StartSession e c prof r d))"
| answer: "session_step d (snd (SubmitAnswer e c prof sid q a opts d))"
| finish: "session_step d (snd (FinishSession e c prof sid d))"
| sweep: "session_step d (snd (ExpireTimedOutSessions e es c grace limit d))"
| reset_variants: "session_step d (snd (ResetVariantProgress e prof d))"
| reset_practice: "session_step d (snd (ResetPracticeProgress e prof cat d))"
| bill: "session_step d (d\<lparr>billing := b\<rparr>)"

inductive session_run :: "study_db \<Rightarrow> study_db \<Rightarrow> bool" where
  here: "session_run d d"
| more: "session_run d d' \<Longrightarrow> session_step d' d'' \<Longrightarrow> session_run d d''"

lemma ResetVariantProgress_tx_core: "ResetVariantProgress_tx e prof d = Inr (x, d') \<Longrightarrow> same_core d d'"
  by (auto simp: ResetVariantProgress_tx_def rbind_Inr_iff Let_def same_core_def RaiseVariantUnlockCeiling_def
      DeleteVariantProgressForProfile_def split: if_splits prod.splits option.splits)

lemma ResetVariantProgress_core: "same_core d (snd (ResetVariantProgress e prof d))"
  by (auto simp: ResetVariantProgress_def run_tx_def dest: ResetVariantProgress_tx_core split: sum.splits prod.splits)

lemma ResetPracticeProgress_core: "same_core d (snd (ResetPracticeProgress e prof cat d))"
  by (simp add: ResetPracticeProgress_def ResetPracticeCursor_def same_core_def)

lemma ExpireTimedOutSessions_inv: "session_inv d \<Longrightarrow> session_inv (snd (ExpireTimedOutSessions e es c g l d))"
  by (simp add: ExpireTimedOutSessions_def Let_def expire_all_inv)

lemma session_step_inv: "session_step d d' \<Longrightarrow> session_inv d \<Longrightarrow> session_inv d'"
proof (induction rule: session_step.induct)
  case (reset_variants d e prof)
  then show ?case using ResetVariantProgress_core session_inv_core by blast
next
  case (reset_practice d e prof cat)
  then show ?case using ResetPracticeProgress_core session_inv_core by blast
next
  case (bill d b)
  then show ?case by (rule session_inv_core) (simp add: same_core_def)
qed (simp_all add: StartSession_inv SubmitAnswer_inv FinishSession_inv ExpireTimedOutSessions_inv)

lemma session_run_inv: "session_run d d' \<Longrightarrow> session_inv d \<Longrightarrow> session_inv d'"
  by (induction rule: session_run.induct) (auto intro: session_step_inv)

definition no_sessions :: "study_db \<Rightarrow> bool" where
  "no_sessions d \<longleftrightarrow> sessions d = [] \<and> session_questions d = [] \<and> session_answers d = []"

lemma no_sessions_inv: "no_sessions d \<Longrightarrow> session_inv d"
  by (simp add: no_sessions_def session_inv_def)

section \<open>A finished session never changes\<close>

definition final_kept :: "study_db \<Rightarrow> study_db \<Rightarrow> bool" where
  "final_kept d d' \<longleftrightarrow> (\<forall>s \<in> set (sessions d). es_status s \<noteq> InProgress \<longrightarrow> s \<in> set (sessions d')
     \<and> filter (\<lambda>r. sa_session r = es_id s) (session_answers d') = filter (\<lambda>r. sa_session r = es_id s) (session_answers d))"

lemma final_kept_core: "same_core d d' \<Longrightarrow> final_kept d d'"
  by (simp add: final_kept_def same_core_def)

lemma final_kept_trans:
  assumes "final_kept a b" and "final_kept b c"
  shows "final_kept a c"
  using assms by (simp add: final_kept_def)

lemma finishInternal_final:
  assumes f: "finishInternal e c row tooMany timedOut d = Inr (res, d')" and row: "GetExamSession d (es_id row) = Some row"
    and p: "es_status row = InProgress" and dist: "distinct (map es_id (sessions d))"
  shows "final_kept d d'"
  using f
proof (cases rule: finishInternal_cases)
  case finished
  then show ?thesis using p by simp
next
  case (now n k st reason rd)
  have "row \<in> set (sessions d)" using GetExamSession_id [OF row] by simp
  then have "es_id s \<noteq> es_id row" if "s \<in> set (sessions d)" "es_status s \<noteq> InProgress" for s
    using that p dist by (auto simp: distinct_map inj_on_def)
  then show ?thesis using now(4) by (auto simp: final_kept_def same_core_def FinishExamSession_def set_upd_where)
qed

lemma inv_distinct: "session_inv d \<Longrightarrow> distinct (map es_id (sessions d))"
  by (simp add: session_inv_def)

lemma FinishSession_final: "session_inv d \<Longrightarrow> final_kept d (snd (FinishSession e c prof sid d))"
  by (cases rule: FinishSession_cases [of e c prof sid d])
    (auto dest: GetExamSession_id inv_distinct intro: finishInternal_final final_kept_core)

lemma expireOne_final: "session_inv d \<Longrightarrow> final_kept d (snd (expireOne e c sid d))"
  by (cases rule: expireOne_cases [of e c sid d])
    (auto dest: GetExamSession_id inv_distinct intro: finishInternal_final final_kept_core)

lemma expire_all_final: "session_inv d \<Longrightarrow> final_kept d (snd (expire_all es c ids n err d))"
proof (induction ids arbitrary: n err d)
  case Nil
  then show ?case by (simp add: final_kept_core)
next
  case (Cons sid ids)
  show ?case
    using expireOne_inv [OF Cons.prems, of "es sid" c sid] expireOne_final [OF Cons.prems, of "es sid" c sid] Cons.IH
    by (auto split: sum.splits prod.splits intro: final_kept_trans)
qed

lemma SubmitAnswer_final:
  assumes inv: "session_inv d"
  shows "final_kept d (snd (SubmitAnswer e c prof sid q a opts d))"
proof (cases rule: SubmitAnswer_cases [of e c prof sid q a opts d])
  case same
  then show ?thesis by (simp add: final_kept_core)
next
  case (late row fin d' res)
  then show ?thesis using GetExamSession_id [OF late(1)] inv_distinct [OF inv] by (auto intro: finishInternal_final)
next
  case (recorded row asg ans d1 d3 d' res)
  have row: "es_id row = sid" "row \<in> set (sessions d)" using GetExamSession_id [OF recorded(1)] by simp_all
  have "es_id s \<noteq> sid" if "s \<in> set (sessions d)" "es_status s \<noteq> InProgress" for s
    using that row recorded(3) inv_distinct [OF inv] by (auto simp: distinct_map inj_on_def)
  then have k: "final_kept d d3" using recorded(8,9) by (auto simp: final_kept_def same_core_def new_answer_def)
  have r3: "GetExamSession d3 sid = Some row" using recorded(1,8,9) by (simp add: GetExamSession_def same_core_def)
  have dist: "distinct (map es_id (sessions d3))" using inv_distinct [OF inv] recorded(8,9) by (simp add: same_core_def)
  obtain ex where "answer_outcome e c row q a (an_correct ans) ex d3 = Inr (res, d')" using recorded(10) by blast
  then have "final_kept d3 d'"
  proof (cases rule: answer_outcome_cases)
    case going_on
    then show ?thesis by (simp add: final_kept_core)
  next
    case (stopped fin)
    show ?thesis by (rule finishInternal_final [OF stopped(2) _ recorded(3) dist]) (use r3 row in simp)
  qed
  then show ?thesis using final_kept_trans [OF k] by (simp add: recorded(11))
qed

lemma StartSession_final: "final_kept d (snd (StartSession e c prof r d))"
proof (cases rule: StartSession_cases [of e c prof r d])
  case (refused err)
  then show ?thesis by (simp add: final_kept_core)
next
  case (started w d1 loc row view d2)
  then show ?thesis using CreateExamSession_ok(2) [OF started(2)] select_draw_core [OF started(1)]
    by (simp add: final_kept_def same_core_def)
qed

lemma session_step_final: "session_step d d' \<Longrightarrow> session_inv d \<Longrightarrow> final_kept d d'"
proof (induction rule: session_step.induct)
  case (bill d b)
  show ?case by (rule final_kept_core) (simp add: same_core_def)
qed (simp_all add: StartSession_final SubmitAnswer_final FinishSession_final expire_all_final ExpireTimedOutSessions_def
    Let_def final_kept_core ResetVariantProgress_core ResetPracticeProgress_core)

lemma session_run_final: "session_run d d' \<Longrightarrow> session_inv d \<Longrightarrow> final_kept d d'"
  by (induction rule: session_run.induct)
    (auto simp: final_kept_core intro: final_kept_trans session_step_final session_run_inv)

section \<open>Finishing twice\<close>

lemma same_core_GetExamSession: "same_core d d' \<Longrightarrow> GetExamSession d' i = GetExamSession d i"
  by (simp add: same_core_def GetExamSession_def)

lemma GetExamSession_finished:
  assumes "GetExamSession d i = Some row"
  shows "GetExamSession (FinishExamSession e i st k reason rd d) i
         = Some (row\<lparr>es_finished := Some (tx_now e), es_status := st, es_score := Some k, es_stopped := reason,
              es_readiness := (case rd of None \<Rightarrow> es_readiness row | Some r \<Rightarrow> Some r)\<rparr>)"
  using assms GetExamSession_id [OF assms] by (simp add: GetExamSession_def FinishExamSession_def find_upd_where)

lemma finishInternal_stored:
  assumes f: "finishInternal e c row tooMany timedOut d = Inr (res, d')" and p: "es_status row = InProgress"
    and row: "GetExamSession d (es_id row) = Some row"
  shows "\<exists>row'. GetExamSession d' (es_id row) = Some row' \<and> es_profile row' = es_profile row \<and> es_id row' = es_id row
     \<and> es_mode row' = es_mode row \<and> es_status row' = fr_status res \<and> fr_status res \<noteq> InProgress
     \<and> (case es_stopped row' of None \<Rightarrow> '''' | Some s \<Rightarrow> s) = fr_reason res
     \<and> es_score row' = Some (fr_score res) \<and> es_total row' = fr_total res"
  using f
proof (cases rule: finishInternal_cases)
  case finished
  then show ?thesis using p by simp
next
  case (now n k st reason rd)
  note same_core_GetExamSession [OF now(4)] GetExamSession_finished [OF row]
  then show ?thesis using verdict_ok(1) [OF now(3)] now(5-8) by simp
qed

lemma finishInternal_certificate:
  assumes f: "finishInternal e c row tooMany timedOut d = Inr (res, d')" and p: "es_status row = InProgress"
  shows "fr_certificate res = (if es_mode row = ''grand_mock'' \<and> fr_status res = Passed
     then case GetGrandMockCertificateBySession d' (es_id row) of None \<Rightarrow> '''' | Some cert \<Rightarrow> ce_code cert else '''')"
proof -
  from f p obtain k d2 where "finish_certificate e c row (fr_status res) k d2 = Inr (fr_certificate res, d')"
    by (auto simp: finishInternal_def rbind_Inr_iff split: prod.splits)
  then show ?thesis by (cases rule: finish_certificate_cases) (auto dest: InsertGrandMockCertificate_ok)
qed

definition quiet :: "env \<Rightarrow> bool" where
  "quiet e \<longleftrightarrow> (\<forall>site op. \<not> flt e site op)"

lemma FinishSession_row:
  assumes "FinishSession e c prof sid d = (Inr res, d')"
  obtains row where "GetExamSession d sid = Some row" and "es_profile row = prof"
    and "finishInternal e c row False (IsExamLike (es_mode row) \<and> past_deadline e row) d = Inr (res, d')"
  using assms by (auto simp: FinishSession_def GetExamSessionForUpdate_def GetExamSession_def run_tx_ok split: if_splits option.splits)

lemma FinishSession_finished:
  assumes "GetExamSession d sid = Some row" and "es_profile row = prof" and "es_status row \<noteq> InProgress" and "quiet e"
  shows "FinishSession e c prof sid d = (Inr \<lparr>fr_status = es_status row, fr_reason = (case es_stopped row of None \<Rightarrow> '''' | Some s \<Rightarrow> s),
     fr_score = (case es_score row of None \<Rightarrow> 0 | Some n \<Rightarrow> n), fr_total = es_total row,
     fr_certificate = (if es_mode row = ''grand_mock'' \<and> es_status row = Passed
       then case GetGrandMockCertificateBySession d (es_id row) of None \<Rightarrow> '''' | Some cert \<Rightarrow> ce_code cert else '''')\<rparr>, d)"
  using assms by (simp add: FinishSession_def GetExamSessionForUpdate_def GetExamSession_def run_tx_def finishInternal_def quiet_def)

text \<open>
  C25: Finishing a session is idempotent. Whatever the first \<open>FinishSession\<close> returned (status, stop reason, score,
  total and the share code of a grand-mock certificate), a second one, at any later time and with any
  configuration, returns the very same result and changes nothing.
\<close>

theorem FinishSession_idempotent:
  assumes first: "FinishSession e c prof sid d = (Inr res, d')" and q: "quiet e" "quiet e'"
  shows "FinishSession e' c' prof sid d' = (Inr res, d')"
  using first
proof (cases rule: FinishSession_row)
  case (1 row)
  have i: "es_id row = sid" using GetExamSession_id [OF 1(1)] by simp
  show ?thesis
  proof (cases "es_status row = InProgress")
    case False
    then have "FinishSession e' c' prof sid d = FinishSession e c prof sid d" and "d' = d"
      using FinishSession_finished [OF 1(1,2) False] q 1(3) by (simp_all add: finishInternal_def)
    then show ?thesis using first by simp
  next
    case True
    obtain row' where r': "GetExamSession d' sid = Some row'" "es_profile row' = prof" "es_id row' = sid" "es_mode row' = es_mode row"
      "es_status row' = fr_status res" "fr_status res \<noteq> InProgress"
      "(case es_stopped row' of None \<Rightarrow> '''' | Some s \<Rightarrow> s) = fr_reason res"
      "es_score row' = Some (fr_score res)" "es_total row' = fr_total res"
      using finishInternal_stored [OF 1(3) True] 1(1,2) i by auto
    have "res = \<lparr>fr_status = fr_status res, fr_reason = fr_reason res, fr_score = fr_score res, fr_total = fr_total res,
      fr_certificate = fr_certificate res\<rparr>" by simp
    then show ?thesis
      using FinishSession_finished [OF r'(1,2) _ q(2), of c'] r' finishInternal_certificate [OF 1(3) True] i by simp
  qed
qed

text \<open>
  The fixture: a learner answers the two questions of the first ticket, one right and one wrong, and
  finishes.
\<close>

definition fx_cfg :: session_cfg where
  "fx_cfg = \<lparr>sc_station = None, sc_has_billing = False, sc_fsrs = (\<lambda>_ _ _. (1, 5, 1)), sc_readiness = (\<lambda>_ _. Inr 50), sc_share_code = ''abc''\<rparr>"

definition fx_start :: StartRequest where
  "fx_start = \<lparr>sr_mode = ''variant'', sr_variant = 201, sr_category = 0, sr_sign = 0, sr_has_image = None, sr_from = 0, sr_to = 0,
     sr_locale = '''', sr_count = 0, sr_ordered = False\<rparr>"

definition fx_opts :: SubmitAnswerOpts where
  "fx_opts = \<lparr>so_rating = None, so_latency = None, so_skip_fsrs = False\<rparr>"

definition fx_started :: study_db where
  "fx_started = snd (StartSession fx_study_env fx_cfg 1 fx_start fx_study)"

definition fx_answered :: study_db where
  "fx_answered = snd (SubmitAnswer fx_study_env fx_cfg 1 900 2 21 fx_opts (snd (SubmitAnswer fx_study_env fx_cfg 1 900 1 10 fx_opts fx_started)))"

definition fx_finished :: study_db where
  "fx_finished = snd (FinishSession fx_study_env fx_cfg 1 900 fx_answered)"

definition fx_result :: FinishResult where
  "fx_result = \<lparr>fr_status = Passed, fr_reason = ''completed'', fr_score = 1, fr_total = 2, fr_certificate = ''''\<rparr>"

lemma fx_quiet: "quiet fx_study_env"
  by (simp add: quiet_def fx_study_env_def)

lemma fx_finish: "FinishSession fx_study_env fx_cfg 1 900 fx_answered = (Inr fx_result, fx_finished)"
proof -
  have "fst (FinishSession fx_study_env fx_cfg 1 900 fx_answered) = Inr fx_result" by code_simp
  then show ?thesis by (simp add: fx_finished_def prod_eq_iff)
qed

theorem FinishSession_idempotent_witness:
  "FinishSession (fx_study_env\<lparr>clk := \<lambda>_. 5000\<rparr>) fx_cfg 1 900 fx_finished = (Inr fx_result, fx_finished)"
  by (rule FinishSession_idempotent [OF fx_finish fx_quiet]) (simp add: quiet_def fx_study_env_def)

text \<open>
  C24: The exam record is sound. From empty session tables, after any sequence of starts, answers, finishes,
  expiry sweeps, resets and billing changes, every session satisfies: while it runs it has no score, and
  an exam has not yet exceeded its permitted errors; once finished its score is the number of its correct
  answers; a passed exam or grand mock has at least \<open>total - errors_allowed\<close> correct and at most
  \<open>errors_allowed\<close> wrong answers; a passed placement was answered in full with at most one error; any other
  passed session was answered in full. No question of a session is answered twice, and only questions
  assigned to the session are answered.
\<close>

theorem session_record_sound:
  assumes "no_sessions d0" and "session_run d0 d" and "s \<in> set (sessions d)"
  defines "n \<equiv> n_answers (session_answers d) (es_id s)" and "k \<equiv> n_right (session_answers d) (es_id s)"
  shows "(if es_status s = InProgress then es_score s = None \<and> (IsExamLike (es_mode s) \<longrightarrow> n - k \<le> errors_allowed s)
          else es_score s = Some k)
     \<and> (es_status s = Passed \<longrightarrow>
          (if es_mode s = ''exam'' \<or> es_mode s = ''grand_mock'' then es_total s - errors_allowed s \<le> k \<and> n - k \<le> errors_allowed s
           else if es_mode s = ''placement'' then es_total s \<le> n \<and> n - k \<le> 1 else es_total s \<le> n))
     \<and> distinct (map (\<lambda>r. (sa_session r, sa_question r)) (session_answers d))
     \<and> (\<forall>r \<in> set (session_answers d). \<exists>x \<in> set (session_questions d). sq_session x = sa_session r \<and> sq_question x = sa_question r)"
proof -
  have inv: "session_inv d" using session_run_inv [OF assms(2) no_sessions_inv [OF assms(1)]] .
  then have ok: "session_ok (session_answers d) s" using assms(3) by (simp add: session_inv_def)
  have "\<exists>x \<in> set (session_questions d). sq_session x = sa_session r \<and> sq_question x = sa_question r"
    if "r \<in> set (session_answers d)" for r
    using inv that by (auto simp: session_inv_def GetSessionQuestion_def dest!: find_SomeD)
  then show ?thesis using inv ok by (auto simp: session_ok_def Let_def session_inv_def n_def k_def IsExamLike_def)
qed

lemma fx_run: "session_run fx_study fx_finished"
  unfolding fx_finished_def fx_answered_def fx_started_def
  by (intro more [OF _ session_step.finish] more [OF _ session_step.answer] more [OF _ session_step.start] here)

lemma fx_no_sessions: "no_sessions fx_study"
  by (simp add: no_sessions_def fx_study_def)

theorem session_record_sound_witness:
  "\<exists>s. sessions fx_finished = [s] \<and> es_status s = Passed \<and> es_score s = Some 1 \<and> n_right (session_answers fx_finished) (es_id s) = 1"
proof -
  have "map (\<lambda>s. (es_status s, es_score s)) (sessions fx_finished) = [(Passed, Some 1)]" by code_simp
  then obtain s where s: "sessions fx_finished = [s]" "es_status s = Passed" "es_score s = Some 1" by auto
  have "es_score s = Some (n_right (session_answers fx_finished) (es_id s))"
    using session_record_sound [OF fx_no_sessions fx_run, of s] s(1,2) by simp
  then show ?thesis using s by simp
qed

text \<open>
  C25: A finished session is final. Once a session has left \<open>in_progress\<close>, no later sequence of operations
  changes its row (status, score, stop reason, time) or adds, removes or alters one of its answers.
\<close>

theorem finished_session_is_final:
  assumes "no_sessions d0" and "session_run d0 d" and "session_run d d'" and "s \<in> set (sessions d)" and "es_status s \<noteq> InProgress"
  shows "s \<in> set (sessions d')
    \<and> filter (\<lambda>r. sa_session r = es_id s) (session_answers d') = filter (\<lambda>r. sa_session r = es_id s) (session_answers d)"
  using session_run_final [OF assms(3) session_run_inv [OF assms(2) no_sessions_inv [OF assms(1)]]] assms(4,5)
  by (simp add: final_kept_def)

definition fx_after :: study_db where
  "fx_after = snd (SubmitAnswer fx_study_env fx_cfg 1 900 2 20 fx_opts fx_finished)"

theorem finished_session_is_final_witness:
  "map es_status (sessions fx_finished) = [Passed] \<and> set (sessions fx_finished) \<subseteq> set (sessions fx_after)"
proof -
  have st: "map es_status (sessions fx_finished) = [Passed]" by code_simp
  have "session_run fx_finished fx_after" unfolding fx_after_def by (intro more [OF _ session_step.answer] here)
  from finished_session_is_final [OF fx_no_sessions fx_run this] st show ?thesis by (cases "sessions fx_finished") auto
qed

section \<open>Answers after the deadline\<close>

lemma late_verdict:
  assumes "IsExamLike (es_mode row)"
  shows "session_verdict row n k False True
     = (if es_mode row \<noteq> ''placement'' \<and> es_total row - errors_allowed row \<le> k \<and> n - k \<le> errors_allowed row then Passed else SFailed, ''time_up'')"
  using assms by (auto simp: session_verdict_def IsExamLike_def EvaluateExam_def EvaluatePlacement_def Let_def)

lemma SubmitAnswer_late:
  assumes "GetExamSession d sid = Some row" and "es_profile row = prof" and "es_status row = InProgress"
    and "IsExamLike (es_mode row)" and "past_deadline e row" and "SubmitAnswer e c prof sid q a opts d = (Inr res, d')"
  obtains fin where "finishInternal e c row False True d = Inr (fin, d')"
    and "res = \<lparr>ar_recorded = False, ar_correct = None, ar_key = None, ar_explained = False, ar_stopped = True, ar_reason = fr_reason fin\<rparr>"
proof -
  have "SubmitAnswer_tx e c prof sid q a opts d = Inr (res, d')" using assms(6) by (simp add: SubmitAnswer_def run_tx_ok)
  then show thesis using assms(1-5) that
    by (auto simp: SubmitAnswer_tx_def GetExamSessionForUpdate_def GetExamSession_def rbind_Inr_iff split: if_splits)
qed

text \<open>
  C26: The server's clock is the exam's clock. An answer sent to a running exam, grand mock or placement after
  its time limit is never recorded and discloses neither the answer key nor whether it was right; the
  request either fails and changes nothing, or it closes the session as \<open>time_up\<close> on the answers recorded in
  time: passed exactly when an exam's or grand mock's threshold was already met, and always failed for a
  placement.
\<close>

theorem SubmitAnswer_after_deadline:
  assumes row: "GetExamSession d sid = Some row" "es_profile row = prof" "es_status row = InProgress"
    and late: "IsExamLike (es_mode row)" "past_deadline e row"
    and out: "SubmitAnswer e c prof sid q a opts d = (out, d')"
  defines "n \<equiv> n_answers (session_answers d) sid" and "k \<equiv> n_right (session_answers d) sid"
  shows "session_answers d' = session_answers d \<and> (case out of
       Inl err \<Rightarrow> d' = d
     | Inr res \<Rightarrow> \<not> ar_recorded res \<and> ar_correct res = None \<and> ar_key res = None \<and> ar_stopped res \<and> ar_reason res = ''time_up''
         \<and> (\<exists>row'. GetExamSession d' sid = Some row' \<and> es_score row' = Some k
             \<and> es_status row' = (if es_mode row \<noteq> ''placement'' \<and> es_total row - errors_allowed row \<le> k \<and> n - k \<le> errors_allowed row
                 then Passed else SFailed)))"
proof (cases out)
  case (Inl err)
  then have "d' = d" using out by (auto simp: SubmitAnswer_def dest: run_tx_failed)
  then show ?thesis using Inl by simp
next
  case (Inr res)
  obtain fin where fin: "finishInternal e c row False True d = Inr (fin, d')" and
    res: "res = \<lparr>ar_recorded = False, ar_correct = None, ar_key = None, ar_explained = False, ar_stopped = True, ar_reason = fr_reason fin\<rparr>"
    using SubmitAnswer_late [OF row late] out Inr by blast
  have i: "es_id row = sid" using GetExamSession_id [OF row(1)] by simp
  note stored = finishInternal_stored [OF fin row(3)]
  from fin show ?thesis
  proof (cases rule: finishInternal_cases)
    case finished
    then show ?thesis using row by simp
  next
    case (now n' k' st reason rd)
    have nk: "n' = n" "k' = k" using now(2) i by (simp_all add: CountSessionAnswers_eq n_def k_def)
    have "session_answers d' = session_answers d" using now(4) by (simp add: same_core_def FinishExamSession_def)
    then show ?thesis using stored now(3,5-8) late_verdict [OF late(1), of n k] row(1) i Inr res by (auto simp: nk)
  qed
qed

definition fx_placement :: study_db where
  "fx_placement = snd (StartSession fx_study_env fx_cfg 1 (fx_start\<lparr>sr_mode := ''placement''\<rparr>) fx_study)"

definition fx_late_env :: env where
  "fx_late_env = fx_study_env\<lparr>clk := \<lambda>_. 100 + 720 * second\<rparr>"

theorem SubmitAnswer_after_deadline_witness:
  "fst (SubmitAnswer fx_late_env fx_cfg 1 900 4 40 fx_opts fx_placement)
     = Inr \<lparr>ar_recorded = False, ar_correct = None, ar_key = None, ar_explained = False, ar_stopped = True, ar_reason = ''time_up''\<rparr>
   \<and> session_answers (snd (SubmitAnswer fx_late_env fx_cfg 1 900 4 40 fx_opts fx_placement)) = session_answers fx_placement"
proof -
  have "(case GetExamSession fx_placement 900 of None \<Rightarrow> False | Some row \<Rightarrow> es_profile row = 1 \<and> es_status row = InProgress
      \<and> IsExamLike (es_mode row) \<and> past_deadline fx_late_env row)" by code_simp
  then obtain row where "GetExamSession fx_placement 900 = Some row" "es_profile row = 1" "es_status row = InProgress"
    "IsExamLike (es_mode row)" "past_deadline fx_late_env row" by (auto split: option.splits)
  from SubmitAnswer_after_deadline [OF this surjective_pairing, of fx_cfg 4 40 fx_opts]
  have "session_answers (snd (SubmitAnswer fx_late_env fx_cfg 1 900 4 40 fx_opts fx_placement)) = session_answers fx_placement" by blast
  moreover have "fst (SubmitAnswer fx_late_env fx_cfg 1 900 4 40 fx_opts fx_placement)
     = Inr \<lparr>ar_recorded = False, ar_correct = None, ar_key = None, ar_explained = False, ar_stopped = True, ar_reason = ''time_up''\<rparr>"
    by code_simp
  ultimately show ?thesis by simp
qed

end
