(* ===== verification/Variant_Properties.thy ===== *)
theory Variant_Properties
  imports Session_Properties
begin

text \<open>
  The ticket grid: that the locks the grid shows are the locks \<open>StartSession\<close> enforces, and exactly when
  \<open>ResetVariantProgress\<close> leaves the set of open tickets as it was.
\<close>

section \<open>The ticket table\<close>

definition tickets :: "study_db \<Rightarrow> variant_row list" where
  "tickets d = sort_key bv_number (variants d)"

definition ticket_table :: "study_db \<Rightarrow> bool" where
  "ticket_table d \<longleftrightarrow> map bv_number (tickets d) = map (\<lambda>i. int i + 1) [0 ..< length (variants d)] \<and> distinct (map bv_id (variants d))
     \<and> distinct (map (\<lambda>r. (vp_profile r, vp_variant r)) (variant_progress d))"

definition ticket_done :: "study_db \<Rightarrow> uuid \<Rightarrow> variant_row \<Rightarrow> bool" where
  "ticket_done d prof v \<longleftrightarrow> (case GetVariantProgress d prof (bv_id v) of None \<Rightarrow> False | Some r \<Rightarrow> vp_completed r \<noteq> None)"

lemma length_tickets [simp]: "length (tickets d) = length (variants d)"
  by (simp add: tickets_def)

lemma set_tickets [simp]: "set (tickets d) = set (variants d)"
  by (simp add: tickets_def)

lemma ticket_number:
  assumes "ticket_table d" and "i < length (variants d)"
  shows "bv_number (tickets d ! i) = int i + 1"
proof -
  have "map bv_number (tickets d) ! i = map (\<lambda>i. int i + 1) [0 ..< length (variants d)] ! i"
    using assms(1) by (simp add: ticket_table_def)
  then show ?thesis using assms(2) by simp
qed

lemma ticket_at:
  assumes "ticket_table d" and "v \<in> set (variants d)"
  obtains i where "i < length (variants d)" and "tickets d ! i = v" and "bv_number v = int i + 1"
proof -
  obtain i where "i < length (variants d)" "tickets d ! i = v"
    using assms(2) by (metis in_set_conv_nth length_tickets set_tickets)
  then show thesis using ticket_number [OF assms(1)] that by metis
qed

lemma GetVariantByNumber_ticket:
  assumes t: "ticket_table d" and i: "i < length (variants d)"
  shows "GetVariantByNumber d (int i + 1) = Some (tickets d ! i)"
proof -
  have "tickets d ! i \<in> set (variants d)" using i by (metis length_tickets nth_mem set_tickets)
  then obtain w where w: "GetVariantByNumber d (int i + 1) = Some w"
    using ticket_number [OF t i] by (cases "GetVariantByNumber d (int i + 1)") (auto simp: GetVariantByNumber_def find_None_iff)
  then have "w \<in> set (variants d)" "bv_number w = int i + 1" by (auto simp: GetVariantByNumber_def dest: find_SomeD)
  then obtain j where "j < length (variants d)" "tickets d ! j = w" "int j = int i" using ticket_at [OF t] by (metis add_right_cancel)
  then show ?thesis using w by simp
qed

lemma progress_map_eq:
  assumes "ticket_table d"
  shows "progress_map (ListVariantProgressForProfile d prof) i = GetVariantProgress d prof i"
proof -
  define rows where "rows = ListVariantProgressForProfile d prof"
  have rows: "set rows = {r \<in> set (variant_progress d). vp_profile r = prof}" by (auto simp: rows_def ListVariantProgressForProfile_def)
  have inj: "inj_on (\<lambda>r. (vp_profile r, vp_variant r)) (set (variant_progress d))" using assms by (simp add: ticket_table_def distinct_map)
  have "distinct (map vp_variant rows)"
    using assms by (auto simp: rows_def ListVariantProgressForProfile_def ticket_table_def distinct_map inj_on_def)
  then have dist: "distinct (map fst (rev (map (\<lambda>r. (vp_variant r, r)) rows)))" by (simp add: comp_def rev_map [symmetric])
  show ?thesis
  proof (cases "GetVariantProgress d prof i")
    case None
    then have "i \<notin> vp_variant ` set rows" by (auto simp: GetVariantProgress_def find_None_iff rows)
    then show ?thesis using None by (auto simp: progress_map_def rows_def [symmetric] map_of_eq_None_iff)
  next
    case (Some r)
    then have "r \<in> set rows" "vp_variant r = i" by (auto simp: GetVariantProgress_def rows dest: find_SomeD)
    then have "(i, r) \<in> set (rev (map (\<lambda>r. (vp_variant r, r)) rows))" by auto
    then show ?thesis using Some dist by (simp add: progress_map_def rows_def [symmetric] map_of_is_SomeI)
  qed
qed

section \<open>The gate\<close>

definition ticket_open :: "bool \<Rightarrow> int \<Rightarrow> study_db \<Rightarrow> uuid \<Rightarrow> nat \<Rightarrow> bool" where
  "ticket_open bypass ceil d prof i \<longleftrightarrow> bypass \<or> int i + 1 \<le> ceil \<or> ticket_done d prof (tickets d ! (i - 1))"

lemma variant_gate_eq:
  assumes t: "ticket_table d" and q: "quiet e" and vip: "vip e c prof d = Inr active"
    and o: "variantUnlockOverrides e prof d = Inr (bypass, ceil)" and i: "i < length (variants d)"
  shows "variant_gate e c prof (tickets d ! i) d
     = (if i = 0 then Inr () else if \<not> active then Inl ErrRequiresVIP
        else if ticket_open bypass ceil d prof i then Inr () else Inl ErrVariantLocked)"
proof (cases "i = 0")
  case True
  then show ?thesis using ticket_number [OF t i] by (simp add: variant_gate_def)
next
  case False
  then have "GetVariantByNumber d (int i) = Some (tickets d ! (i - 1))"
    using GetVariantByNumber_ticket [OF t, of "i - 1"] i by simp
  then show ?thesis using False ticket_number [OF t i] q vip o
    by (simp add: variant_gate_def VariantPrevGateSatisfied_def ticket_open_def ticket_done_def one_row_def quiet_def stmt_def split: option.splits)
qed

section \<open>The grid\<close>

lemma variant_walk_length [simp]: "length (variant_walk a b c p pc vs) = length vs"
  by (induction vs arbitrary: pc) (auto simp: Let_def)

lemma variant_walk_nth:
  assumes "i < length vs"
  shows "let st = variant_walk active bypass ceil p pc vs ! i; v = fst (vs ! i);
             prev = (if i = 0 then pc else case p (bv_id (fst (vs ! (i - 1)))) of None \<Rightarrow> False | Some r \<Rightarrow> vp_completed r \<noteq> None);
             unlocked = IsVariantUnlocked (bv_number v) active (prev \<or> VariantPrevGateSatisfied (bv_number v) bypass ceil)
         in vs_number st = bv_number v \<and> vs_unlocked st = unlocked \<and> vs_reason st = VariantLockReason (bv_number v) active unlocked"
  using assms
proof (induction vs arbitrary: i pc)
  case Nil
  then show ?case by simp
next
  case (Cons x vs)
  obtain v n where x: "x = (v, n)" by (cases x)
  show ?case
  proof (cases i)
    case 0
    then show ?thesis by (simp add: x Let_def)
  next
    case (Suc j)
    then have j: "j < length vs" using Cons.prems by simp
    show ?thesis using Cons.IH [OF j, of "case p (bv_id v) of None \<Rightarrow> False | Some r \<Rightarrow> vp_completed r \<noteq> None"]
      by (cases j) (simp_all add: x Suc Let_def)
  qed
qed

definition gate_reason :: "billing_err + unit \<Rightarrow> string" where
  "gate_reason g = (case g of Inr _ \<Rightarrow> '''' | Inl err \<Rightarrow> if err = ErrRequiresVIP then LockReasonVIPRequired else LockReasonPrevRequired)"

lemma ListVariants_fst: "map fst (ListVariants d) = tickets d"
  by (simp add: ListVariants_def tickets_def comp_def)

text \<open>
  C29: The grid the learner sees is the gate the server enforces. When the tickets are numbered 1, 2, ...
  without gaps and progress rows are unique per ticket, \<open>ListVariantStatuses\<close> shows every ticket once, in order,
  as unlocked exactly when starting it passes the gate of \<open>StartSession\<close>, and the lock reason it shows (VIP needed,
  previous ticket needed, none) is the error that gate would give, for every mix of VIP status, bypass flag,
  unlock ceiling and progress.
\<close>

theorem ListVariantStatuses_matches_gate:
  assumes t: "ticket_table d" and q: "quiet e" and vip: "vip e c prof d = Inr active"
  shows "\<exists>sts. ListVariantStatuses e c prof d = Inr sts \<and> length sts = length (variants d) \<and> (\<forall>i < length sts.
     vs_number (sts ! i) = int i + 1
     \<and> (vs_unlocked (sts ! i) \<longleftrightarrow> variant_gate e c prof (tickets d ! i) d = Inr ())
     \<and> vs_reason (sts ! i) = gate_reason (variant_gate e c prof (tickets d ! i) d))"
proof -
  obtain bypass ceil where o: "variantUnlockOverrides e prof d = Inr (bypass, ceil)"
    using q by (cases "GetProfileByID d prof") (auto simp: variantUnlockOverrides_def quiet_def)
  let ?p = "progress_map (ListVariantProgressForProfile d prof)"
  define sts where "sts = variant_walk active bypass ceil ?p True (ListVariants d)"
  have sts: "ListVariantStatuses e c prof d = Inr sts"
    using q vip o by (simp add: ListVariantStatuses_def sts_def quiet_def stmt_def)
  have len: "length (ListVariants d) = length (variants d)" by (simp add: ListVariants_def)
  have "vs_number (sts ! i) = int i + 1 \<and> (vs_unlocked (sts ! i) \<longleftrightarrow> variant_gate e c prof (tickets d ! i) d = Inr ())
     \<and> vs_reason (sts ! i) = gate_reason (variant_gate e c prof (tickets d ! i) d)" if i: "i < length (variants d)" for i
  proof -
    have f: "fst (ListVariants d ! j) = tickets d ! j" if "j < length (variants d)" for j
      using that len by (metis ListVariants_fst nth_map)
    show ?thesis
      using variant_walk_nth [of i "ListVariants d" active bypass ceil ?p True] i
      by (auto simp: len sts_def [symmetric] f ticket_number [OF t] variant_gate_eq [OF t q vip o i] Let_def IsVariantUnlocked_def
          VariantPrevGateSatisfied_def ticket_open_def progress_map_eq [OF t] ticket_done_def VariantLockReason_def gate_reason_def)
  qed
  then show ?thesis using sts by (auto simp: sts_def len)
qed

section \<open>Resetting\<close>

definition ticket_run :: "study_db \<Rightarrow> uuid \<Rightarrow> nat" where
  "ticket_run d prof = length (takeWhile (ticket_done d prof) (tickets d))"

lemma chain_ceiling_run:
  assumes "map bv_number vs = map (\<lambda>i. int i + 1) [m ..< m + length vs]"
  shows "chain_ceiling P (int m) vs = int m + min (int (length (takeWhile (\<lambda>v. P (bv_id v)) vs)) + 1) (int (length vs))"
  using assms
proof (induction vs arbitrary: m)
  case Nil
  then show ?case by simp
next
  case (Cons v vs)
  have "[m ..< m + length (v # vs)] = m # [Suc m ..< Suc m + length vs]"
    using upt_conv_Cons [of m "m + length (v # vs)"] by simp
  then have v: "bv_number v = int m + 1" and vs: "map bv_number vs = map (\<lambda>i. int i + 1) [Suc m ..< Suc m + length vs]"
    using Cons.prems by simp_all
  show ?case using Cons.IH [OF vs] v by (auto simp: add.commute)
qed

lemma done_before_run:
  assumes "i < ticket_run d prof"
  shows "ticket_done d prof (tickets d ! i)"
proof -
  have "takeWhile (ticket_done d prof) (tickets d) ! i = tickets d ! i" using assms by (simp add: ticket_run_def takeWhile_nth)
  moreover have "takeWhile (ticket_done d prof) (tickets d) ! i \<in> set (takeWhile (ticket_done d prof) (tickets d))"
    using assms by (intro nth_mem) (simp add: ticket_run_def)
  ultimately show ?thesis by (metis set_takeWhileD)
qed

lemma completed_eq:
  assumes "ticket_table d"
  shows "list_ex (\<lambda>r. vp_variant r = bv_id v \<and> vp_completed r \<noteq> None) (ListVariantProgressForProfile d prof) = ticket_done d prof v"
proof -
  show ?thesis
  proof (cases "GetVariantProgress d prof (bv_id v)")
    case None
    then have "\<not> ticket_done d prof v" by (simp add: ticket_done_def)
    then show ?thesis using None by (auto simp: ListVariantProgressForProfile_def GetVariantProgress_def find_None_iff list_ex_iff)
  next
    case (Some r)
    then have r: "r \<in> set (variant_progress d)" "vp_profile r = prof" "vp_variant r = bv_id v"
      by (auto simp: GetVariantProgress_def dest: find_SomeD)
    then have "x = r" if "x \<in> set (variant_progress d)" "vp_profile x = prof" "vp_variant x = bv_id v" for x
      using assms that by (simp add: ticket_table_def distinct_map inj_on_def)
    then have "{x \<in> set (variant_progress d). vp_profile x = prof \<and> vp_variant x = bv_id v} = {r}" using r by blast
    moreover have "list_ex (\<lambda>r. vp_variant r = bv_id v \<and> vp_completed r \<noteq> None) (ListVariantProgressForProfile d prof)
        \<longleftrightarrow> (\<exists>x \<in> {x \<in> set (variant_progress d). vp_profile x = prof \<and> vp_variant x = bv_id v}. vp_completed x \<noteq> None)"
      by (auto simp: ListVariantProgressForProfile_def list_ex_iff)
    ultimately show ?thesis using Some by (simp add: ticket_done_def)
  qed
qed

lemma reset_outcome:
  assumes t: "ticket_table d" and q: "quiet e" and l: "GetProfileByID d prof = Some p"
    and n: "length (variants d) < 2 ^ 31"
  defines "ceil \<equiv> max (ln_ceiling p) (min (int (ticket_run d prof) + 1) (int (length (variants d))))"
  shows "ResetVariantProgress e prof d = (Inr (int (length (ListVariantProgressForProfile d prof)), ceil),
     d\<lparr>learners := upd_where (\<lambda>l. ln_id l = prof) (\<lambda>l. l\<lparr>ln_ceiling := max (ln_ceiling l) (min (int (ticket_run d prof) + 1) (int (length (variants d))))\<rparr>) (learners d),
       variant_progress := filter (\<lambda>r. vp_profile r \<noteq> prof) (variant_progress d)\<rparr>)"
proof -
  let ?c = "\<lambda>i. list_ex (\<lambda>r. vp_variant r = i \<and> vp_completed r \<noteq> None) (ListVariantProgressForProfile d prof)"
  let ?r = "min (int (ticket_run d prof) + 1) (int (length (variants d)))"
  have c: "(\<lambda>v. ?c (bv_id v)) = ticket_done d prof" using completed_eq [OF t] by blast
  have "chain_ceiling ?c (int 0) (tickets d) = ?r"
    by (subst chain_ceiling_run) (use t in \<open>simp_all only: ticket_table_def c ticket_run_def length_tickets add_0 of_nat_0\<close>)
  moreover have "wrap32 ?r = ?r" using n by (intro wrap32_id) auto
  moreover have "ln_id p = prof" using l by (auto simp: GetProfileByID_def dest: find_SomeD)
  ultimately show ?thesis using q l
    by (simp add: ResetVariantProgress_def ResetVariantProgress_tx_def run_tx_def quiet_def stmt_def ListVariants_fst Let_def
        RaiseVariantUnlockCeiling_def DeleteVariantProgressForProfile_def GetProfileByID_def find_upd_where
        ListVariantProgressForProfile_def ceil_def)
qed

lemma reset_keeps_table:
  assumes t: "ticket_table d"
  shows "ticket_table (d\<lparr>learners := ls, variant_progress := filter P (variant_progress d)\<rparr>)"
  using t by (auto simp: ticket_table_def tickets_def distinct_map inj_on_def)

lemma reset_gate:
  assumes t: "ticket_table d" and q: "quiet e" "quiet e'" and vip: "vip e' c prof d = Inr True"
    and l: "GetProfileByID d prof = Some p" "\<not> ln_bypass p" and n: "length (variants d) < 2 ^ 31" and i: "i < length (variants d)"
  shows "variant_gate e' c prof (tickets d ! i) (snd (ResetVariantProgress e prof d))
     = (if i = 0 \<or> int i + 1 \<le> max (ln_ceiling p) (int (ticket_run d prof) + 1) then Inr () else Inl ErrVariantLocked)"
proof -
  let ?r = "min (int (ticket_run d prof) + 1) (int (length (variants d)))"
  define d' where "d' = snd (ResetVariantProgress e prof d)"
  have d': "d' = d\<lparr>learners := upd_where (\<lambda>l. ln_id l = prof) (\<lambda>l. l\<lparr>ln_ceiling := max (ln_ceiling l) ?r\<rparr>) (learners d),
       variant_progress := filter (\<lambda>r. vp_profile r \<noteq> prof) (variant_progress d)\<rparr>"
    using reset_outcome [OF t q(1) l(1) n] by (simp add: d'_def)
  have t': "ticket_table d'" and tk: "tickets d' = tickets d" and v': "variants d' = variants d"
    using reset_keeps_table [OF t] by (simp_all add: d' tickets_def)
  have p: "ln_id p = prof" using l(1) by (auto simp: GetProfileByID_def dest: find_SomeD)
  have o: "variantUnlockOverrides e' prof d' = Inr (False, max (ln_ceiling p) ?r)"
    using l p q(2) by (simp add: variantUnlockOverrides_def quiet_def GetProfileByID_def d' find_upd_where)
  have vip': "vip e' c prof d' = Inr True" using vip by (simp add: vip_def d')
  have "\<not> ticket_done d' prof v" for v
    by (auto simp: ticket_done_def GetVariantProgress_def d' split: option.splits dest: find_SomeD)
  then show ?thesis using variant_gate_eq [OF t' q(2) vip' o, of i] i by (auto simp: d'_def [symmetric] ticket_open_def tk v')
qed

text \<open>
  C30: What resetting the tickets does to the locks. For a VIP learner without the bypass flag,
  \<open>ResetVariantProgress\<close> never opens a ticket that was locked, and it leaves the set of open tickets as it was
  exactly when every completed ticket's successor lies within the old unlock ceiling or just after the
  unbroken run of completed tickets that starts at ticket 1. So a first reset of gapless progress is harmless;
  but after one reset (which empties the run) a ticket completed at the ceiling opens its successor, and a
  second reset locks that successor again, although the code's comment promises that the set of open and
  locked tickets stays exactly as the learner left it.
\<close>

theorem ResetVariantProgress_grid_iff:
  assumes t: "ticket_table d" and q: "quiet e" "quiet e'" and vip: "vip e' c prof d = Inr True"
    and l: "GetProfileByID d prof = Some p" "\<not> ln_bypass p" and n: "length (variants d) < 2 ^ 31"
  defines "d' \<equiv> snd (ResetVariantProgress e prof d)"
  shows "(\<forall>v \<in> set (variants d). variant_gate e' c prof v d' = Inr () \<longrightarrow> variant_gate e' c prof v d = Inr ())
    \<and> ((\<forall>v \<in> set (variants d). variant_gate e' c prof v d' = variant_gate e' c prof v d)
       \<longleftrightarrow> (\<forall>i. Suc i < length (variants d) \<longrightarrow> ticket_done d prof (tickets d ! i)
              \<longrightarrow> int i + 2 \<le> max (ln_ceiling p) (int (ticket_run d prof) + 1)))"
proof -
  have o: "variantUnlockOverrides e' prof d = Inr (False, ln_ceiling p)"
    using l q(2) by (simp add: variantUnlockOverrides_def quiet_def)
  let ?m = "max (ln_ceiling p) (int (ticket_run d prof) + 1)"
  define before after where "before i = variant_gate e' c prof (tickets d ! i) d" and "after i = variant_gate e' c prof (tickets d ! i) d'" for i
  have b: "before i = (if i = 0 \<or> int i + 1 \<le> ln_ceiling p \<or> ticket_done d prof (tickets d ! (i - 1)) then Inr () else Inl ErrVariantLocked)"
    if "i < length (variants d)" for i
    using variant_gate_eq [OF t q(2) vip o that] by (simp add: before_def ticket_open_def)
  have a: "after i = (if i = 0 \<or> int i + 1 \<le> ?m then Inr () else Inl ErrVariantLocked)" if "i < length (variants d)" for i
    using reset_gate [OF t q vip l n that] by (simp add: after_def d'_def)
  have run: "ticket_done d prof (tickets d ! (i - 1))" if "i \<noteq> 0" "int i + 1 \<le> int (ticket_run d prof) + 1" for i
    using that by (intro done_before_run) simp
  have all: "(\<forall>v \<in> set (variants d). Q (variant_gate e' c prof v d') (variant_gate e' c prof v d))
      \<longleftrightarrow> (\<forall>i < length (variants d). Q (after i) (before i))" for Q
    using all_set_conv_all_nth [of "tickets d" "\<lambda>v. Q (variant_gate e' c prof v d') (variant_gate e' c prof v d)"]
    by (simp add: after_def before_def)
  have "after i = Inr () \<longrightarrow> before i = Inr ()" if "i < length (variants d)" for i
    using a [OF that] b [OF that] run [of i] by (auto simp: le_max_iff_disj split: if_splits)
  moreover have "(\<forall>i < length (variants d). after i = before i)
      \<longleftrightarrow> (\<forall>i. Suc i < length (variants d) \<longrightarrow> ticket_done d prof (tickets d ! i) \<longrightarrow> int i + 2 \<le> ?m)" (is "?L \<longleftrightarrow> ?R")
  proof
    assume ?L
    show ?R
    proof (intro allI impI)
      fix i assume i: "Suc i < length (variants d)" "ticket_done d prof (tickets d ! i)"
      then have "after (Suc i) = before (Suc i)" using \<open>?L\<close> by blast
      then show "int i + 2 \<le> ?m" using i a [OF i(1)] b [OF i(1)] by (auto split: if_splits)
    qed
  next
    assume r: ?R
    show ?L
    proof (intro allI impI)
      fix i assume i: "i < length (variants d)"
      have "int i + 1 \<le> ?m" if "i \<noteq> 0" "ticket_done d prof (tickets d ! (i - 1))"
        using r [rule_format, of "i - 1"] that i by (simp add: of_nat_diff)
      then show "after i = before i" using a [OF i] b [OF i] run [of i] by (auto simp: le_max_iff_disj)
    qed
  qed
  ultimately show ?thesis using all [of "\<lambda>x y. x = Inr () \<longrightarrow> y = Inr ()"] all [of "\<lambda>x y. x = y"] by auto
qed

section \<open>Concrete tickets\<close>

text \<open>
  A VIP learner on three tickets whose first reset left the ceiling at ticket 2, and who has since completed
  ticket 2: ticket 3 is open, and the second reset locks it.
\<close>

definition fx_vip_cfg :: session_cfg where
  "fx_vip_cfg = fx_cfg\<lparr>sc_station := Some (Inr (True, None))\<rparr>"

definition fx_tickets :: study_db where
  "fx_tickets = fx_study\<lparr>learners := [\<lparr>ln_id = 1, ln_bypass = False, ln_ceiling = 2\<rparr>],
     variant_progress := [\<lparr>vp_profile = 1, vp_variant = 202, vp_best = 1, vp_attempts = 1, vp_completed = Some 90\<rparr>]\<rparr>"

lemma fx_tickets_facts:
  "ticket_table fx_tickets" "vip fx_study_env fx_vip_cfg 1 fx_tickets = Inr True"
  "GetProfileByID fx_tickets 1 = Some \<lparr>ln_id = 1, ln_bypass = False, ln_ceiling = 2\<rparr>"
  "ticket_run fx_tickets 1 = 0" "ticket_done fx_tickets 1 (tickets fx_tickets ! 1)"
  by code_simp+

theorem ListVariantStatuses_matches_gate_witness:
  "map_sum id (map vs_unlocked) (ListVariantStatuses fx_study_env fx_vip_cfg 1 fx_tickets) = Inr [True, True, True]
   \<and> variant_gate fx_study_env fx_vip_cfg 1 (tickets fx_tickets ! 2) fx_tickets = Inr ()"
proof -
  obtain sts where s: "ListVariantStatuses fx_study_env fx_vip_cfg 1 fx_tickets = Inr sts" "length sts = length (variants fx_tickets)"
    and g: "\<forall>i < length sts. vs_number (sts ! i) = int i + 1
      \<and> (vs_unlocked (sts ! i) \<longleftrightarrow> variant_gate fx_study_env fx_vip_cfg 1 (tickets fx_tickets ! i) fx_tickets = Inr ())
      \<and> vs_reason (sts ! i) = gate_reason (variant_gate fx_study_env fx_vip_cfg 1 (tickets fx_tickets ! i) fx_tickets)"
    using ListVariantStatuses_matches_gate [OF fx_tickets_facts(1) fx_quiet fx_tickets_facts(2)] by blast
  have u: "map_sum id (map vs_unlocked) (ListVariantStatuses fx_study_env fx_vip_cfg 1 fx_tickets) = Inr [True, True, True]"
    by code_simp
  then have m: "map vs_unlocked sts = [True, True, True]" using s(1) by simp
  then have "length sts = 3" by (metis length_map length_Cons list.size(3) numeral_3_eq_3)
  moreover have "map vs_unlocked sts ! 2 = True" by (simp add: m)
  ultimately have "vs_unlocked (sts ! 2)" by simp
  then show ?thesis using u g \<open>length sts = 3\<close> by simp
qed

theorem ResetVariantProgress_grid_iff_witness:
  "\<not> (\<forall>v \<in> set (variants fx_tickets). variant_gate fx_study_env fx_vip_cfg 1 v (snd (ResetVariantProgress fx_study_env 1 fx_tickets))
       = variant_gate fx_study_env fx_vip_cfg 1 v fx_tickets)
   \<and> variant_gate fx_study_env fx_vip_cfg 1 (tickets fx_tickets ! 2) fx_tickets = Inr ()
   \<and> variant_gate fx_study_env fx_vip_cfg 1 (tickets fx_tickets ! 2) (snd (ResetVariantProgress fx_study_env 1 fx_tickets)) = Inl ErrVariantLocked"
proof -
  have "length (variants fx_tickets) = 3" by code_simp
  then have "\<not> (\<forall>v \<in> set (variants fx_tickets). variant_gate fx_study_env fx_vip_cfg 1 v (snd (ResetVariantProgress fx_study_env 1 fx_tickets))
       = variant_gate fx_study_env fx_vip_cfg 1 v fx_tickets)"
    using ResetVariantProgress_grid_iff [OF fx_tickets_facts(1) fx_quiet fx_quiet fx_tickets_facts(2,3)] fx_tickets_facts(4,5)
    by (auto intro!: exI [of _ 1])
  moreover have "variant_gate fx_study_env fx_vip_cfg 1 (tickets fx_tickets ! 2) fx_tickets = Inr ()" by code_simp
  moreover have "variant_gate fx_study_env fx_vip_cfg 1 (tickets fx_tickets ! 2) (snd (ResetVariantProgress fx_study_env 1 fx_tickets)) = Inl ErrVariantLocked"
    by code_simp
  ultimately show ?thesis by blast
qed

end
