(* ===== verification/Practice_Properties.thy ===== *)
theory Practice_Properties
  imports Session_Properties
begin

text \<open>
  Reading a session and practising: the answer key cannot be read off a running session, the bulk and the
  single-question view agree, the ordered-practice cursor follows the answered prefix, and a practice
  session stays within the day's allowance.
\<close>

section \<open>The sealed answer key\<close>

text \<open>The same content with other keys for the questions the session has not answered yet.\<close>

definition rekey :: "(uuid \<Rightarrow> uuid option) \<Rightarrow> (uuid \<Rightarrow> bool) \<Rightarrow> uuid \<Rightarrow> study_db \<Rightarrow> study_db" where
  "rekey f g sid d = d\<lparr>
     questions := map (\<lambda>q. if GetSessionAnswer d sid (q_id q) = None then q\<lparr>q_correct := f (q_id q)\<rparr> else q) (questions d),
     answers := map (\<lambda>a. if GetSessionAnswer d sid (an_question a) = None then a\<lparr>an_correct := g (an_id a)\<rparr> else a) (answers d)\<rparr>"

lemma find_map_key: "(\<And>x. P (h x) = P x) \<Longrightarrow> find P (map h xs) = map_option h (find P xs)"
  by (induction xs) auto

lemma filter_map_same: "(\<And>x. P (h x) = P x) \<Longrightarrow> (\<And>x. P x \<Longrightarrow> h x = x) \<Longrightarrow> filter P (map h xs) = filter P xs"
  by (induction xs) auto

definition reseal :: "(uuid \<Rightarrow> uuid option) \<Rightarrow> session_item \<Rightarrow> session_item" where
  "reseal f a = (if si_user_answer a = None then a\<lparr>si_key := f (si_question a)\<rparr> else a)"

lemma rekey_items: "ListSessionQuestionsWithAnswers (rekey f g sid d) sid = map (reseal f) (ListSessionQuestionsWithAnswers d sid)"
proof -
  let ?h = "\<lambda>q. if GetSessionAnswer d sid (q_id q) = None then q\<lparr>q_correct := f (q_id q)\<rparr> else q"
  have ans: "GetSessionAnswer (rekey f g sid d) sid q = GetSessionAnswer d sid q" for q by (simp add: GetSessionAnswer_def rekey_def)
  have "find (\<lambda>q. q_id q = i) (questions (rekey f g sid d)) = map_option ?h (find (\<lambda>q. q_id q = i) (questions d))" for i
    by (simp add: rekey_def find_map_key)
  then show ?thesis unfolding ListSessionQuestionsWithAnswers_def map_concat map_map ans
    by (intro arg_cong [where f = concat] map_cong)
      (auto simp: rekey_def reseal_def Let_def split: option.splits dest: find_SomeD)
qed

lemma rekey_unchanged:
  "GetExamSession (rekey f g sid d) i = GetExamSession d i" "GetSessionQuestion (rekey f g sid d) i q = GetSessionQuestion d i q"
  "GetSessionAnswer (rekey f g sid d) i q = GetSessionAnswer d i q" "GetVariantByID (rekey f g sid d) v = GetVariantByID d v"
  "GetGrandMockCertificateBySession (rekey f g sid d) i = GetGrandMockCertificateBySession d i"
  by (simp_all add: rekey_def GetExamSession_def GetSessionQuestion_def GetSessionAnswer_def GetVariantByID_def
      GetGrandMockCertificateBySession_def)

lemma rekey_key:
  assumes "GetSessionAnswer d sid q \<noteq> None"
  shows "GetCorrectAnswerID e (rekey f g sid d) q = GetCorrectAnswerID e d q"
proof -
  have "filter (\<lambda>a. an_question a = q \<and> an_correct a) (answers (rekey f g sid d)) = filter (\<lambda>a. an_question a = q \<and> an_correct a) (answers d)"
    using assms unfolding rekey_def by (simp, intro filter_map_same) auto
  then show ?thesis by (simp add: GetCorrectAnswerID_def)
qed

lemma access_item_reseal:
  "es_status row = InProgress \<Longrightarrow> access_item row (reseal f a) = access_item row a"
  "es_status row = InProgress \<Longrightarrow> answered_question row (reseal f a) = answered_question row a"
  by (simp_all add: access_item_def answered_question_def reseal_def Let_def)

lemma si_question_reseal [simp]: "si_question (reseal f a) = si_question a"
  by (simp add: reseal_def)

text \<open>
  C27: A running session does not leak its answer key. Replace the correct answers of all questions a running
  session has not answered yet by any others: \<open>GetSession\<close>, \<open>ListSessionQuestionAccesses\<close> and
  \<open>GetSessionQuestionAccess\<close> return exactly the same, for every caller and question. So nothing a learner can read
  of a running session depends on the key of a question still to be answered.
\<close>

theorem running_session_hides_key:
  assumes "GetExamSession d sid = Some row" and "es_status row = InProgress"
  shows "GetSession e prof sid (rekey f g sid d) = GetSession e prof sid d
     \<and> ListSessionQuestionAccesses e prof sid (rekey f g sid d) = ListSessionQuestionAccesses e prof sid d
     \<and> GetSessionQuestionAccess e prof sid q (rekey f g sid d) = GetSessionQuestionAccess e prof sid q d"
proof (intro conjI)
  show "GetSession e prof sid (rekey f g sid d) = GetSession e prof sid d"
    using assms by (cases "es_variant row") (simp_all add: GetSession_def stmt_def rekey_unchanged rekey_items access_item_reseal comp_def)
  show "ListSessionQuestionAccesses e prof sid (rekey f g sid d) = ListSessionQuestionAccesses e prof sid d"
    using assms by (simp add: ListSessionQuestionAccesses_def stmt_def rekey_unchanged rekey_items access_item_reseal comp_def)
  show "GetSessionQuestionAccess e prof sid q (rekey f g sid d) = GetSessionQuestionAccess e prof sid q d"
    using assms rekey_key [of d sid q e f g] by (cases "GetSessionQuestion d sid q"; cases "GetSessionAnswer d sid q")
      (simp_all add: GetSessionQuestionAccess_def rekey_unchanged Let_def)
qed

definition fx_half :: study_db where
  "fx_half = snd (SubmitAnswer fx_study_env fx_cfg 1 900 1 10 fx_opts fx_started)"

theorem running_session_hides_key_witness:
  "map_sum id (map (\<lambda>(q, a). (q, qa_key a))) (ListSessionQuestionAccesses fx_study_env 1 900 (rekey (\<lambda>_. Some 7) (\<lambda>_. True) 900 fx_half))
   = Inr [(1, Some 10), (2, None)]"
proof -
  have "(case GetExamSession fx_half 900 of None \<Rightarrow> False | Some row \<Rightarrow> es_status row = InProgress)" by code_simp
  then obtain row where "GetExamSession fx_half 900 = Some row" "es_status row = InProgress" by (auto split: option.splits)
  from running_session_hides_key [OF this]
  have "ListSessionQuestionAccesses fx_study_env 1 900 (rekey (\<lambda>_. Some 7) (\<lambda>_. True) 900 fx_half)
     = ListSessionQuestionAccesses fx_study_env 1 900 fx_half" by blast
  moreover have "map_sum id (map (\<lambda>(q, a). (q, qa_key a))) (ListSessionQuestionAccesses fx_study_env 1 900 fx_half) = Inr [(1, Some 10), (2, None)]"
    by code_simp
  ultimately show ?thesis by simp
qed

section \<open>One question or all of them\<close>

text \<open>
  The content is consistent when the denormalised key of a question is the id of its only correct answer.
\<close>

definition keyed_content :: "study_db \<Rightarrow> bool" where
  "keyed_content d \<longleftrightarrow> (\<forall>q \<in> set (questions d). \<exists>a. filter (\<lambda>x. an_question x = q_id q \<and> an_correct x) (answers d) = [a] \<and> q_correct q = Some (an_id a))"

lemma keyed_contentI:
  assumes "list_all (\<lambda>q. map an_id (filter (\<lambda>x. an_question x = q_id q \<and> an_correct x) (answers d)) = [the (q_correct q)] \<and> q_correct q \<noteq> None) (questions d)"
  shows "keyed_content d"
  unfolding keyed_content_def
proof
  fix q assume "q \<in> set (questions d)"
  then have q: "map an_id (filter (\<lambda>x. an_question x = q_id q \<and> an_correct x) (answers d)) = [the (q_correct q)]" "q_correct q \<noteq> None"
    using assms by (simp_all add: list_all_iff)
  show "\<exists>a. filter (\<lambda>x. an_question x = q_id q \<and> an_correct x) (answers d) = [a] \<and> q_correct q = Some (an_id a)"
    using q by (auto simp: map_eq_Cons_conv)
qed

lemma collect_results_ok: "collect_results rs = Inr xs \<Longrightarrow> rs = map Inr xs"
  by (induction rs arbitrary: xs) (auto simp: rbind_Inr_iff)

lemma collect_results_map: "collect_results (map f xs) = Inr ys \<Longrightarrow> y \<in> set ys \<Longrightarrow> \<exists>x \<in> set xs. f x = Inr y"
  by (drule collect_results_ok) (metis imageE image_eqI list.set_map)

lemma session_item_in:
  assumes "a \<in> set (ListSessionQuestionsWithAnswers d sid)"
  obtains r q where "r \<in> set (session_questions d)" and "sq_session r = sid" and "q \<in> set (questions d)" and "q_id q = sq_question r"
    and "a = \<lparr>si_question = sq_question r, si_position = sq_position r, si_user_answer = map_option sa_answer (GetSessionAnswer d sid (sq_question r)),
      si_is_correct = map_option sa_correct (GetSessionAnswer d sid (sq_question r)), si_key = q_correct q\<rparr>"
proof -
  obtain r where r: "r \<in> set (session_questions d)" "sq_session r = sid"
    and a: "a \<in> set (case find (\<lambda>q. q_id q = sq_question r) (questions d) of None \<Rightarrow> []
        | Some q \<Rightarrow> (let a = GetSessionAnswer d sid (sq_question r) in
            [\<lparr>si_question = sq_question r, si_position = sq_position r, si_user_answer = map_option sa_answer a,
              si_is_correct = map_option sa_correct a, si_key = q_correct q\<rparr>]))"
    using assms unfolding ListSessionQuestionsWithAnswers_def by (auto simp del: Let_def)
  then obtain q where q: "find (\<lambda>q. q_id q = sq_question r) (questions d) = Some q"
    by (cases "find (\<lambda>q. q_id q = sq_question r) (questions d)") auto
  show thesis by (rule that [OF r]) (use find_SomeD [OF q] a q in \<open>auto simp: Let_def\<close>)
qed

lemma GetSessionQuestion_unique:
  assumes "distinct (map (\<lambda>r. (sq_session r, sq_question r)) (session_questions d))" and "r \<in> set (session_questions d)"
  shows "GetSessionQuestion d (sq_session r) (sq_question r) = Some r"
proof -
  obtain x where x: "GetSessionQuestion d (sq_session r) (sq_question r) = Some x"
    using assms(2) by (cases "GetSessionQuestion d (sq_session r) (sq_question r)") (auto simp: GetSessionQuestion_def find_None_iff)
  then have "x \<in> set (session_questions d)" "sq_session x = sq_session r" "sq_question x = sq_question r"
    by (auto simp: GetSessionQuestion_def dest: find_SomeD)
  then show ?thesis using x assms by (simp add: distinct_map inj_on_def)
qed

text \<open>
  C27: The batch endpoint and the single-question endpoint agree. On consistent content, whenever
  \<open>ListSessionQuestionAccesses\<close> lists a question with its disclosure (position, own answer, correctness, key,
  explanation right), \<open>GetSessionQuestionAccess\<close> for that question returns the very same disclosure, although
  one reads the key from the question row and the other from the answers table.
\<close>

theorem session_access_views_agree:
  assumes q: "quiet e" and k: "keyed_content d" and dist: "distinct (map (\<lambda>r. (sq_session r, sq_question r)) (session_questions d))"
    and items: "ListSessionQuestionAccesses e prof sid d = Inr items" and i: "(q, access) \<in> set items"
  shows "GetSessionQuestionAccess e prof sid q d = Inr access"
proof -
  obtain row where row: "GetExamSession d sid = Some row" "es_profile row = prof"
    and c: "collect_results (map (access_item row) (ListSessionQuestionsWithAnswers d sid)) = Inr items"
    using items by (auto simp: ListSessionQuestionAccesses_def rbind_Inr_iff split: if_splits option.splits)
  from collect_results_map [OF c i] obtain a where a: "a \<in> set (ListSessionQuestionsWithAnswers d sid)" "access_item row a = Inr (q, access)" by blast
  from a(1) obtain r x where r: "r \<in> set (session_questions d)" "sq_session r = sid" and x: "x \<in> set (questions d)" "q_id x = sq_question r"
    and a': "a = \<lparr>si_question = sq_question r, si_position = sq_position r, si_user_answer = map_option sa_answer (GetSessionAnswer d sid (sq_question r)),
      si_is_correct = map_option sa_correct (GetSessionAnswer d sid (sq_question r)), si_key = q_correct x\<rparr>"
    by (rule session_item_in)
  have qr: "q = sq_question r" using a(2) by (auto simp: a' access_item_def Let_def split: if_splits option.splits)
  obtain w where w: "filter (\<lambda>y. an_question y = q \<and> an_correct y) (answers d) = [w]" "q_correct x = Some (an_id w)"
    using k x qr by (auto simp: keyed_content_def)
  have "GetSessionQuestion d sid q = Some r" using GetSessionQuestion_unique [OF dist r(1)] r(2) qr by simp
  moreover have "GetCorrectAnswerID e d q = Some (an_id w)" using w by (simp add: GetCorrectAnswerID_def select_one_def)
  ultimately show ?thesis using q row a(2) w(2)
    by (cases "GetSessionAnswer d sid q")
      (simp_all add: GetSessionQuestionAccess_def access_item_def a' qr [symmetric] quiet_def stmt_def one_row_def Let_def split: if_splits)
qed

theorem session_access_views_agree_witness:
  "GetSessionQuestionAccess fx_study_env 1 900 1 fx_half
   = Inr \<lparr>qa_position = 1, qa_answered = True, qa_user_answer = Some 10, qa_correct = Some True, qa_key = Some 10, qa_explanation = True\<rparr>"
proof (rule session_access_views_agree [OF fx_quiet])
  have "list_all (\<lambda>q. map an_id (filter (\<lambda>x. an_question x = q_id q \<and> an_correct x) (answers fx_half)) = [the (q_correct q)] \<and> q_correct q \<noteq> None) (questions fx_half)"
    by code_simp
  then show "keyed_content fx_half" by (rule keyed_contentI)
  show "distinct (map (\<lambda>r. (sq_session r, sq_question r)) (session_questions fx_half))" by code_simp
  show "ListSessionQuestionAccesses fx_study_env 1 900 fx_half
     = Inr [(1, \<lparr>qa_position = 1, qa_answered = True, qa_user_answer = Some 10, qa_correct = Some True, qa_key = Some 10, qa_explanation = True\<rparr>),
            (2, \<lparr>qa_position = 2, qa_answered = False, qa_user_answer = None, qa_correct = None, qa_key = None, qa_explanation = False\<rparr>)]"
    by code_simp
qed simp

section \<open>The ordered-practice cursor\<close>

lemma fold_max_Max: "fold max xs (m :: int) = Max (insert m (set xs))"
  using Max.set_eq_fold [of m xs] by simp

lemma sorted_gap:
  assumes "sorted ps" and "distinct ps" and "j \<le> i" and "i < length ps"
  shows "(ps :: int list) ! j + (int i - int j) \<le> ps ! i"
  using assms(3,4)
proof (induction rule: dec_induct)
  case base
  then show ?case by simp
next
  case (step k)
  then have "ps ! k < ps ! Suc k"
    using assms(1,2) by (metis Suc_lessD le_SucI le_refl less_le nth_eq_iff_index_eq n_not_Suc_n sorted_nth_mono)
  then show ?case using step by simp
qed

lemma prefix_of_positions:
  fixes ps :: "int list"
  assumes s: "sorted ps" and d: "distinct ps" and pos: "\<forall>p \<in> set ps. 1 \<le> p"
  defines "m \<equiv> fold max (map snd (filter (\<lambda>(i, p). p - (int i + 1) = 0) (enumerate 0 ps))) 0"
  shows "0 \<le> m \<and> {1..m} \<subseteq> set ps \<and> m + 1 \<notin> set ps"
proof -
  let ?R = "{ps ! i |i. i < length ps \<and> ps ! i = int i + 1}"
  have R: "set (map snd (filter (\<lambda>(i, p). p - (int i + 1) = 0) (enumerate 0 ps))) = ?R"
    by (auto simp: in_set_enumerate_eq image_iff) metis+
  have m: "m = Max (insert 0 ?R)" unfolding m_def fold_max_Max R ..
  have fin: "finite ?R" by simp
  have low: "int i + 1 \<le> ps ! i" if "i < length ps" for i
  proof -
    have "ps ! 0 \<in> set ps" using that by (cases ps) auto
    then have "1 \<le> ps ! 0" using pos by blast
    then show ?thesis using sorted_gap [OF s d, of 0 i] that by simp
  qed
  have below: "ps ! j = int j + 1" if "j \<le> i" "i < length ps" "ps ! i = int i + 1" for i j
    using sorted_gap [OF s d that(1,2)] low [of j] that by simp
  have "m \<in> insert 0 ?R" unfolding m using fin by (intro Max_in) simp_all
  then consider "m = 0" | i where "i < length ps" "ps ! i = int i + 1" "m = int i + 1" by auto
  then have in_run: "0 \<le> m \<and> (\<forall>k. 1 \<le> k \<longrightarrow> k \<le> m \<longrightarrow> nat (k - 1) < length ps \<and> ps ! nat (k - 1) = k)"
  proof cases
    case 1
    then show ?thesis by auto
  next
    case (2 i)
    then show ?thesis using below [of _ i] by (auto simp: nat_less_iff le_nat_iff)
  qed
  then have "k \<in> set ps" if "1 \<le> k" "k \<le> m" for k using that by (metis nth_mem)
  then have "{1..m} \<subseteq> set ps" by auto
  moreover have "m + 1 \<notin> set ps"
  proof
    assume "m + 1 \<in> set ps"
    then obtain k where k: "k < length ps" "ps ! k = m + 1" by (auto simp: in_set_conv_nth)
    have "k = nat m"
    proof (rule ccontr)
      assume "k \<noteq> nat m"
      then have "int k < m" using low [OF k(1)] k(2) by linarith
      then have "ps ! k = int k + 1" using in_run by (metis add_diff_cancel_right' nat_int zless_imp_add1_zle le_add_same_cancel2 of_nat_0_le_iff)
      then show False using k(2) \<open>int k < m\<close> by simp
    qed
    then have "m + 1 = ps ! k \<and> k < length ps \<and> ps ! k = int k + 1" using k in_run by simp
    then have "m + 1 \<in> ?R" by blast
    then have "m + 1 \<le> m" unfolding m using fin by (intro Max_ge) auto
    then show False by simp
  qed
  ultimately show ?thesis using in_run by simp
qed

definition session_positions :: "study_db \<Rightarrow> uuid \<Rightarrow> int list" where
  "session_positions d s = map sa_position (filter (\<lambda>r. sa_session r = s) (session_answers d))"

lemma answered_prefix_exact:
  assumes "distinct (session_positions d s)" and "\<forall>p \<in> set (session_positions d s). 1 \<le> p"
  shows "0 \<le> answered_prefix d s \<and> {1..answered_prefix d s} \<subseteq> set (session_positions d s) \<and> answered_prefix d s + 1 \<notin> set (session_positions d s)"
  using prefix_of_positions [of "sort (session_positions d s)"] assms
  by (simp add: answered_prefix_def session_positions_def Let_def)

lemma GetPracticeCursor_upsert:
  "GetPracticeCursor (d\<lparr>cursors := upsert (\<lambda>r. pk_profile r = p \<and> pk_category r = c) (\<lambda>r. r\<lparr>pk_next := max (pk_next r) t\<rparr>)
       \<lparr>pk_profile = p, pk_category = c, pk_next = t\<rparr> (cursors d)\<rparr>) p c
   = Some (case GetPracticeCursor d p c of None \<Rightarrow> t | Some n \<Rightarrow> max n t)"
proof (cases "find (\<lambda>r. pk_profile r = p \<and> pk_category r = c) (cursors d)")
  case None
  then have "\<not> list_ex (\<lambda>r. pk_profile r = p \<and> pk_category r = c) (cursors d)" by (auto simp: find_None_iff list_ex_iff)
  then show ?thesis using None by (simp add: GetPracticeCursor_def upsert_def find_append)
next
  case (Some r)
  then have "list_ex (\<lambda>r. pk_profile r = p \<and> pk_category r = c) (cursors d)" by (auto simp: list_ex_iff dest: find_SomeD)
  then show ?thesis using Some find_SomeD [OF Some] by (simp add: GetPracticeCursor_def upsert_def find_upd_where)
qed

text \<open>
  C28: The ordered-practice cursor never skips a question and never goes back. After an answer in an ordered
  session that starts at offset \<open>from\<close> (not beyond the stored cursor), the stored cursor is the larger of its
  old value and \<open>from\<close> plus the length of the answered prefix, where that length \<open>m\<close> is the exact one: positions
  \<open>1..m\<close> of the session are all answered and position \<open>m + 1\<close> is not. A session that starts beyond the stored
  cursor leaves it untouched.
\<close>

theorem practice_cursor_follows_prefix:
  fixes prof :: uuid
  assumes "quiet e" and "es_ordered_from row = Some from" and "es_category row = Some cat"
    and "0 \<le> from" and "distinct (session_positions d (es_id row))" and "\<forall>p \<in> set (session_positions d (es_id row)). 1 \<le> p"
  defines "old \<equiv> (case GetPracticeCursor d prof cat of None \<Rightarrow> 0 | Some n \<Rightarrow> n)"
  shows "\<exists>d' m. advanceOrderedCursor e prof row d = Inr d' \<and> 0 \<le> m
    \<and> {1..m} \<subseteq> set (session_positions d (es_id row)) \<and> m + 1 \<notin> set (session_positions d (es_id row))
    \<and> (if from \<le> old then GetPracticeCursor d' prof cat = Some (max old (from + m)) else d' = d)"
proof -
  let ?m = "answered_prefix d (es_id row)"
  note ex = answered_prefix_exact [OF assms(5,6)]
  have adv: "advanceOrderedCursor e prof row d = Inr (AdvancePracticeCursor prof cat (es_id row) from d)"
    using assms(1-3) by (simp add: advanceOrderedCursor_def quiet_def stmt_def)
  have "if from \<le> old then GetPracticeCursor (AdvancePracticeCursor prof cat (es_id row) from d) prof cat = Some (max old (from + ?m))
      else AdvancePracticeCursor prof cat (es_id row) from d = d"
    using ex assms(4) by (auto simp: AdvancePracticeCursor_def old_def Let_def GetPracticeCursor_upsert split: option.splits)
  then show ?thesis using adv ex by blast
qed

text \<open>Questions 1 and 3 of an ordered session are answered, question 2 is not: the cursor moves to 1.\<close>

definition fx_ordered_row :: session_row where
  "fx_ordered_row = \<lparr>es_id = 77, es_profile = 1, es_mode = ''practice'', es_variant = None, es_category = Some 31, es_sign = None,
     es_locale = ''uz-Latn'', es_time_limit = None, es_errors_allowed = None, es_started = 0, es_finished = None, es_status = InProgress,
     es_score = None, es_total = 3, es_stopped = None, es_readiness = None, es_ordered_from = Some 0\<rparr>"

definition fx_ordered :: study_db where
  "fx_ordered = fx_study\<lparr>sessions := [fx_ordered_row], session_questions := assigned 77 [1, 2, 3],
     session_answers := [new_answer fx_study_env 77 3 30 True 3, new_answer fx_study_env 77 1 11 False 1]\<rparr>"

theorem practice_cursor_follows_prefix_witness:
  "\<exists>d'. advanceOrderedCursor fx_study_env 1 fx_ordered_row fx_ordered = Inr d' \<and> GetPracticeCursor d' 1 31 = Some 1"
proof -
  have ps: "session_positions fx_ordered (es_id fx_ordered_row) = [3, 1]" and c: "GetPracticeCursor fx_ordered 1 31 = None" by code_simp+
  have row: "es_ordered_from fx_ordered_row = Some 0" "es_category fx_ordered_row = Some 31" by (simp_all add: fx_ordered_row_def)
  have "\<exists>d' m. advanceOrderedCursor fx_study_env 1 fx_ordered_row fx_ordered = Inr d' \<and> 0 \<le> m \<and> {1..m} \<subseteq> {3, 1} \<and> m + 1 \<notin> {3, 1}
      \<and> GetPracticeCursor d' 1 31 = Some (max 0 m)"
    using practice_cursor_follows_prefix [OF fx_quiet row, of fx_ordered 1] by (simp add: ps c del: One_nat_def)
  then obtain d' m where d': "advanceOrderedCursor fx_study_env 1 fx_ordered_row fx_ordered = Inr d'" "0 \<le> m" "{1..m} \<subseteq> {3, 1}" "m + 1 \<notin> {3, 1}"
    "GetPracticeCursor d' 1 31 = Some (max 0 m)" by blast
  have "2 \<notin> {1..m}" using subsetD [OF d'(3), of 2] by auto
  then have "\<not> 2 \<le> m" by simp
  then have "m = 1" using d'(2,4) by auto
  then show ?thesis using d' by auto
qed

section \<open>The day's allowance\<close>

lemma pivot_draw_length:
  assumes "0 \<le> n"
  shows "int (length (pivot_draw pivot (nat n) ids)) \<le> n"
proof -
  have "length (pivot_draw pivot (nat n) ids) \<le> nat n" by (simp add: pivot_draw_def Let_def)
  then show ?thesis using assms by linarith
qed

lemma limit_rows_length: "limit_rows n rows = Inr xs \<Longrightarrow> int (length xs) \<le> n"
  by (auto simp: limit_rows_def split: if_splits)

lemma draw_where_length: "draw_where e site n P d = Inr ids \<Longrightarrow> int (length ids) \<le> n"
  by (auto simp: draw_where_def pivot_draw_length split: if_splits)

lemma RandomQuestionIDsBySign_length: "RandomQuestionIDsBySign e sign n d = Inr ids \<Longrightarrow> int (length ids) \<le> n"
  by (auto simp: RandomQuestionIDsBySign_def pivot_draw_length split: if_splits)

lemma orderedCategoryDraw_length:
  assumes "orderedCategoryDraw e prof cat cnt d = (Inr (ids, from), d')"
  shows "int (length ids) \<le> wrap32 cnt"
  using assms by (auto simp: orderedCategoryDraw_def OrderedQuestionIDsByCategory_def Let_def rbind_Inr_iff
      split: if_splits dest: limit_rows_length)

lemma start_practice_size:
  assumes "start_practice e c prof r d = (Inr w, d')"
  obtains cnt where "clampToDailyAllowance e c prof (sr_count r) d = Inr cnt" and "int (length (dr_ids w)) \<le> wrap32 cnt"
proof -
  obtain cnt where c: "clampToDailyAllowance e c prof (sr_count r) d = Inr cnt"
    using assms by (auto simp: start_practice_def Let_def split: if_splits sum.splits)
  have "int (length (dr_ids w)) \<le> wrap32 cnt"
    using assms c by (auto simp: start_practice_def Let_def rbind_Inr_iff plain_draw_def RandomQuestionIDsByCategory_def
        RandomQuestionIDsByVariantRange_def RandomQuestionIDsByImagePresence_def
        split: if_splits prod.splits dest: draw_where_length orderedCategoryDraw_length RandomQuestionIDsBySign_length)
  then show thesis using that c by blast
qed

lemma clamp_within:
  assumes "clampToDailyAllowance e c prof req d = Inr cnt" and "practice_limit e c ''clampToDailyAllowance'' prof d = Inr limit" and "limit \<noteq> -1"
  obtains used where "practiceAnswersToday e prof d = Inr used" and "1 \<le> cnt" and "cnt \<le> limit - used"
  using assms by (auto simp: clampToDailyAllowance_def Let_def rbind_Inr_iff split: if_splits)

lemma practiceAnswersToday_nonneg: "practiceAnswersToday e prof d = Inr used \<Longrightarrow> 0 \<le> used"
  by (auto simp: practiceAnswersToday_def CountPracticeAnswersToday_def)

text \<open>
  C28: A practice session fits the day's allowance. When the limit that applies to the learner (free or VIP
  column of \<open>daily_practice_questions\<close>, an \<open>int32\<close>) is not unlimited, a practice session that starts has no more
  questions than the limit minus the practice answers the learner has already given since midnight UTC, so
  together they never exceed the limit, whatever number of questions was requested and whatever selector was used.
\<close>

theorem practice_session_fits_allowance:
  assumes s: "StartSession e c prof r d = (Inr view, d')" and m: "sr_mode r = ''practice''"
    and limit: "practice_limit e c ''clampToDailyAllowance'' prof d = Inr limit" "limit \<noteq> -1" "limit < 2 ^ 31"
  shows "\<exists>used. practiceAnswersToday e prof d = Inr used \<and> used + int (length (sv_questions view)) \<le> limit"
proof (cases rule: StartSession_cases [of e c prof r d])
  case (refused err)
  then show ?thesis using s by simp
next
  case (started w d1 loc row view' d2)
  have "start_practice e c prof r d = (Inr w, d1)" using started(1) m by (simp add: select_draw_def)
  then obtain cnt where cnt: "clampToDailyAllowance e c prof (sr_count r) d = Inr cnt" "int (length (dr_ids w)) \<le> wrap32 cnt"
    by (rule start_practice_size)
  obtain used where u: "practiceAnswersToday e prof d = Inr used" "1 \<le> cnt" "cnt \<le> limit - used" by (rule clamp_within [OF cnt(1) limit(1,2)])
  have "wrap32 cnt = cnt" using u limit(3) practiceAnswersToday_nonneg [OF u(1)] by (intro wrap32_id) auto
  then have "used + int (length (sv_questions view)) \<le> limit" using cnt(2) u(3) started(3,5) s by simp
  then show ?thesis using u(1) by blast
qed

definition fx_practice :: StartRequest where
  "fx_practice = fx_start\<lparr>sr_mode := ''practice'', sr_variant := 0, sr_category := 31, sr_count := 50\<rparr>"

theorem practice_session_fits_allowance_witness:
  "\<exists>view d'. StartSession fx_study_env fx_cfg 1 fx_practice fx_study = (Inr view, d') \<and> sv_questions view = [4, 5, 1, 2, 3]
     \<and> int (length (sv_questions view)) \<le> 20"
proof -
  have "map_sum id sv_questions (fst (StartSession fx_study_env fx_cfg 1 fx_practice fx_study)) = Inr [4, 5, 1, 2, 3]" by code_simp
  then obtain view d' where s: "StartSession fx_study_env fx_cfg 1 fx_practice fx_study = (Inr view, d')" "sv_questions view = [4, 5, 1, 2, 3]"
    by (cases "StartSession fx_study_env fx_cfg 1 fx_practice fx_study"; cases "fst (StartSession fx_study_env fx_cfg 1 fx_practice fx_study)") simp_all
  have "practice_limit fx_study_env fx_cfg ''clampToDailyAllowance'' 1 fx_study = Inr 20" "sr_mode fx_practice = ''practice''"
    "practiceAnswersToday fx_study_env 1 fx_study = Inr 0" by code_simp+
  with practice_session_fits_allowance [OF s(1)] have "int (length (sv_questions view)) \<le> 20" by auto
  then show ?thesis using s by blast
qed

end
