(* ===== verification/Arena_Rules.thy ===== *)
theory Arena_Rules
  imports Learning Complex_Main
begin

text \<open>
  The arena's pure rules (\<open>arena/rules.go\<close>): matchmaking buckets, points for an answer, ELO, medals, the practice
  bot and invite codes. Go's \<open>float64\<close> is exact here: rationals where the formula is rational, reals for the
  logistic ELO curve. \<open>go_round\<close> is \<open>math.Round\<close> (half away from zero).
\<close>

definition go_round :: "'a::floor_ceiling \<Rightarrow> int" where
  "go_round x = (if x < 0 then - \<lfloor>1 / 2 - x\<rfloor> else \<lfloor>x + 1 / 2\<rfloor>)"

section \<open>Matchmaking\<close>

definition Bucket :: "int \<Rightarrow> int" where
  "Bucket rating = go_div (if rating < 0 then 0 else rating) 100"

definition MaxSearchSteps :: int where "MaxSearchSteps = 8"

definition SearchBuckets :: "int \<Rightarrow> int \<Rightarrow> int list" where
  "SearchBuckets own waited =
     (let steps0 = go_div waited (5 * second);
          steps = (if (if steps0 < 0 then 0 else steps0) > 8 then 8 else if steps0 < 0 then 0 else steps0)
      in own # concat (map (\<lambda>i. [own - i, own + i]) [1..steps]))"

text \<open>\<open>queueSearchKeys\<close>: the key of bucket \<open>b\<close> is \<open>arena:q:b\<close>; here the buckets themselves.\<close>

definition queueSearchKeys :: "int \<Rightarrow> int list" where
  "queueSearchKeys b = filter (\<lambda>x. 0 \<le> x) (SearchBuckets b (MaxSearchSteps * 5 * second))"

section \<open>Points\<close>

definition AnswerPoints :: "bool \<Rightarrow> int \<Rightarrow> int \<Rightarrow> int" where
  "AnswerPoints correct responseMs windowMs =
     (if \<not> correct \<or> responseMs < 0 \<or> windowMs \<le> 0 then 0
      else if windowMs \<le> responseMs then 0
      else go_round (100 * (1 - rat_of_int responseMs / rat_of_int windowMs)))"

datatype duel_outcome = Won | Lost | Draw

definition OutcomeFromScores :: "int \<Rightarrow> int \<Rightarrow> duel_outcome \<times> duel_outcome" where
  "OutcomeFromScores a b = (if b < a then (Won, Lost) else if a < b then (Lost, Won) else (Draw, Draw))"

section \<open>ELO\<close>

definition ExpectedScore :: "int \<Rightarrow> int \<Rightarrow> real" where
  "ExpectedScore ratingA ratingB = 1 / (1 + 10 powr (real_of_int (ratingB - ratingA) / 400))"

definition EloDelta :: "int \<Rightarrow> int \<Rightarrow> real \<Rightarrow> real \<Rightarrow> int" where
  "EloDelta ratingA ratingB score k0 = (let k = (if k0 \<le> 0 then 32 else k0) in go_round (k * (score - ExpectedScore ratingA ratingB)))"

definition MedalForRating :: "int \<Rightarrow> string" where
  "MedalForRating rating =
     (if 2000 \<le> rating then ''brilliant'' else if 1800 \<le> rating then ''diamond'' else if 1600 \<le> rating then ''platinum''
      else if 1400 \<le> rating then ''gold'' else if 1200 \<le> rating then ''silver'' else ''bronze'')"

section \<open>The practice bot\<close>

definition BotAccuracy :: "int \<Rightarrow> rat" where
  "BotAccuracy rating = max (45 / 100) (min (85 / 100) (6 / 10 + rat_of_int (rating - 1000) / 1000 * (3 / 10)))"

definition BotDelay :: "rat \<Rightarrow> int \<Rightarrow> int" where
  "BotDelay r0 window =
     (let r1 = (if r0 < 0 then 0 else r0); r = (if 1 \<le> r1 then 999 / 1000 else r1)
      in \<lfloor>rat_of_int window * (2 / 10 + (7 / 10 - 2 / 10) * r)\<rfloor>)"

section \<open>Invite codes\<close>

definition inviteAlphabet :: string where "inviteAlphabet = ''ABCDEFGHJKMNPQRSTUVWXYZ23456789''"

definition InviteCodeLen :: nat where "InviteCodeLen = 6"

text \<open>The code made from the six random bytes.\<close>

definition NewInviteCode :: "nat list \<Rightarrow> string" where
  "NewInviteCode buf = map (\<lambda>b. inviteAlphabet ! (b mod length inviteAlphabet)) buf"

definition to_upper_char :: "char \<Rightarrow> char" where
  "to_upper_char c = (if of_char c \<ge> (97 :: nat) \<and> of_char c \<le> (122 :: nat) then char_of (of_char c - (32 :: nat)) else c)"

fun invite_chars :: "string \<Rightarrow> string option" where
  "invite_chars [] = Some []"
| "invite_chars (c # cs) =
     (if c = CHR '' '' \<or> c = CHR ''-'' \<or> c = CHR 0x09 then invite_chars cs
      else if c \<in> set inviteAlphabet then map_option ((#) c) (invite_chars cs) else None)"

definition NormalizeInviteCode :: "string \<Rightarrow> string" where
  "NormalizeInviteCode raw =
     (case invite_chars (map to_upper_char raw) of
        None \<Rightarrow> '''' | Some cs \<Rightarrow> if length cs \<noteq> InviteCodeLen then '''' else cs)"

end
