(* ===== verification/Arena_Match.thy ===== *)
theory Arena_Match
  imports Arena_Rules
begin

text \<open>
  One duel (\<open>arena/match.go\<close>) and what its end writes (\<open>EloStore\<close> and \<open>FinishPersist\<close> of \<open>arena/service.go\<close>,
  \<open>arena.sql.go\<close>). A match is a state machine with a single writer: its goroutine takes one event or timer tick
  at a time. Each handler is a function of the match; what it sends is appended to \<open>mt_sent\<close> (seat number and
  message, nothing to a bot), the forfeit checks it schedules to \<open>mt_checks\<close>. Question texts are left out of the
  messages, which name the question instead.

  \<open>arena_env\<close> holds the clock of each handler, the random numbers of the bot, and, for every attempt that \<open>finish\<close>
  may make to store the result, how long it takes (in nanoseconds) and its environment. The loop there repeats until an
  attempt succeeds, but all attempts share one context of ten seconds: every statement of an attempt that begins later fails.
\<close>

section \<open>Constants\<close>

definition QuestionCount :: nat where "QuestionCount = 10"
definition QuestionTimeSec :: int where "QuestionTimeSec = 15"
definition millisecond :: int where "millisecond = 1000000"
definition ReconnectGrace :: int where "ReconnectGrace = 20 * second"
definition AnswerGrace :: int where "AnswerGrace = 400 * millisecond"
definition RevealFor :: int where "RevealFor = 1200 * millisecond"
definition Countdown :: int where "Countdown = 3 * second"
definition qTime :: int where "qTime = QuestionTimeSec * second"

section \<open>State\<close>

datatype match_mode = ModeRanked | ModeFriend | ModeBot
datatype match_phase = PhPending | PhActive | PhFinished
datatype seat_state = SeatNone | SeatActive | SeatReveal | SeatDone
datatype end_reason = EndNone | EndCompleted | EndForfeit | EndBothDisconnected | EndShutdown
datatype round_mark = MarkCorrect | MarkWrong | MarkSkipped

record player_answer =
  pa_answered :: bool
  pa_answer :: uuid
  pa_correct :: bool
  pa_resp :: int
  pa_points :: int
  pa_at :: int

definition no_answer :: player_answer where
  "no_answer = \<lparr>pa_answered = False, pa_answer = 0, pa_correct = False, pa_resp = 0, pa_points = 0, pa_at = 0\<rparr>"

definition answer_mark :: "player_answer \<Rightarrow> round_mark" where
  "answer_mark p = (if \<not> pa_answered p then MarkSkipped else if pa_correct p then MarkCorrect else MarkWrong)"

record AnswerResultData =
  ad_index :: nat
  ad_answered :: bool
  ad_correct :: bool
  ad_answer :: "uuid option"
  ad_key :: uuid
  ad_points :: int
  ad_score :: int
  ad_resp :: int
  ad_last :: bool

record seat =
  st_id :: uuid
  st_locale :: string
  st_rating :: int
  st_bot :: bool
  st_accuracy :: rat
  st_index :: nat
  st_state :: seat_state
  st_deadline :: int
  st_next :: int
  st_bot_at :: int
  st_last :: "AnswerResultData option"
  st_answers :: "player_answer list"
  st_score :: int
  st_correct :: int
  st_resp :: int
  st_disc :: bool
  st_gen :: nat

record match_end =
  mx_outcome :: duel_outcome
  mx_end_reason :: end_reason
  mx_score_you :: int
  mx_score_opp :: int
  mx_correct_you :: int
  mx_correct_opp :: int
  mx_marks_you :: "round_mark list"
  mx_marks_opp :: "round_mark list"
  mx_total :: nat
  mx_rated :: bool
  mx_before :: int
  mx_after :: int
  mx_delta :: int
  mx_medal :: string

datatype snap_phase = SnapCountdown | SnapQuestion | SnapReveal | SnapWaiting

record match_snapshot =
  sn_phase :: snap_phase
  sn_index :: nat
  sn_total :: nat
  sn_starts :: int
  sn_deadline :: int
  sn_now :: int
  sn_question :: "uuid option"
  sn_last :: "AnswerResultData option"
  sn_marks :: "round_mark list"
  sn_score :: int
  sn_opp_answered :: nat
  sn_opp_finished :: bool
  sn_opp_connected :: bool

datatype arena_msg =
    MsgError string
  | MsgQuestion nat nat int int uuid
  | MsgResult AnswerResultData
  | MsgProgress nat nat bool
  | MsgStatus bool
  | MsgWaiting int int
  | MsgState match_snapshot
  | MsgEnd match_end

record match =
  mt_id :: uuid
  mt_mode :: match_mode
  mt_questions :: "uuid list"
  mt_correct :: "uuid \<Rightarrow> uuid option"
  mt_valid :: "uuid \<Rightarrow> uuid list option"
  mt_seat0 :: seat
  mt_seat1 :: seat
  mt_phase :: match_phase
  mt_start :: int
  mt_reason :: end_reason
  mt_quitter :: uuid
  mt_sent :: "(nat \<times> arena_msg) list"
  mt_checks :: "(uuid \<times> nat) list"
  mt_stored :: bool

text \<open>
  \<open>mt_stored\<close> is no field of the code: it says that the loop of \<open>finish\<close> was left, so that the goroutine has come to its end.
\<close>

definition seat_at :: "match \<Rightarrow> nat \<Rightarrow> seat" where
  "seat_at m i = (if i = 0 then mt_seat0 m else mt_seat1 m)"

definition set_seat :: "nat \<Rightarrow> seat \<Rightarrow> match \<Rightarrow> match" where
  "set_seat i s m = (if i = 0 then m\<lparr>mt_seat0 := s\<rparr> else m\<lparr>mt_seat1 := s\<rparr>)"

definition other_seat :: "nat \<Rightarrow> nat" where
  "other_seat i = (if i = 0 then 1 else 0)"

definition seatOf :: "match \<Rightarrow> uuid \<Rightarrow> nat option" where
  "seatOf m i = (if st_id (mt_seat0 m) = i then Some 0 else if st_id (mt_seat1 m) = i then Some 1 else None)"

definition send_msg :: "nat \<Rightarrow> arena_msg \<Rightarrow> match \<Rightarrow> match" where
  "send_msg i x m = (if st_bot (seat_at m i) then m else m\<lparr>mt_sent := mt_sent m @ [(i, x)]\<rparr>)"

definition n_questions :: "match \<Rightarrow> nat" where
  "n_questions m = length (mt_questions m)"

definition the_key :: "match \<Rightarrow> uuid \<Rightarrow> uuid" where
  "the_key m q = (case mt_correct m q of None \<Rightarrow> 0 | Some a \<Rightarrow> a)"

record arena_env =
  ae_env :: env
  ae_float :: "string \<Rightarrow> rat"
  ae_pick :: nat
  ae_attempts :: "nat \<Rightarrow> nat \<times> env"

abbreviation now_at :: "arena_env \<Rightarrow> string \<Rightarrow> int" where
  "now_at e site \<equiv> clk (ae_env e) site"

section \<open>Creating a match\<close>

record SeatSpec =
  ss_id :: uuid
  ss_locale :: string
  ss_rating :: int
  ss_bot :: bool

definition new_seat :: "SeatSpec \<Rightarrow> int \<Rightarrow> nat \<Rightarrow> seat" where
  "new_seat s opp_rating n = \<lparr>st_id = ss_id s, st_locale = ss_locale s, st_rating = ss_rating s, st_bot = ss_bot s,
     st_accuracy = (if ss_bot s then BotAccuracy opp_rating else 0), st_index = 0, st_state = SeatNone, st_deadline = 0, st_next = 0,
     st_bot_at = 0, st_last = None, st_answers = replicate n no_answer, st_score = 0, st_correct = 0, st_resp = 0,
     st_disc = False, st_gen = 0\<rparr>"

definition NewMatch ::
  "uuid \<Rightarrow> match_mode \<Rightarrow> SeatSpec \<Rightarrow> SeatSpec \<Rightarrow> uuid list \<Rightarrow> (uuid \<Rightarrow> uuid list option) \<Rightarrow> (uuid \<Rightarrow> uuid option) \<Rightarrow> match" where
  "NewMatch i mode a b qs valid key = \<lparr>mt_id = i, mt_mode = mode, mt_questions = qs, mt_correct = key, mt_valid = valid,
     mt_seat0 = new_seat a (ss_rating b) (length qs), mt_seat1 = new_seat b (ss_rating a) (length qs), mt_phase = PhPending,
     mt_start = 0, mt_reason = EndNone, mt_quitter = 0, mt_sent = [], mt_checks = [], mt_stored = False\<rparr>"

definition Start :: "arena_env \<Rightarrow> match \<Rightarrow> match" where
  "Start e m = m\<lparr>mt_start := now_at e ''Start'' + Countdown\<rparr>"

section \<open>Reading a match\<close>

definition resolvedCount :: "seat \<Rightarrow> nat" where
  "resolvedCount s = (case st_state s of SeatReveal \<Rightarrow> st_index s + 1 | SeatDone \<Rightarrow> length (st_answers s) | _ \<Rightarrow> st_index s)"

definition seat_marks :: "seat \<Rightarrow> nat \<Rightarrow> round_mark list" where
  "seat_marks s tot = map (\<lambda>i. answer_mark (st_answers s ! i)) [0 ..< min (resolvedCount s) tot]"

definition question_at :: "match \<Rightarrow> nat \<Rightarrow> uuid option" where
  "question_at m i = (if i < n_questions m then Some (mt_questions m ! i) else None)"

definition stateSnapshot :: "arena_env \<Rightarrow> nat \<Rightarrow> match \<Rightarrow> match_snapshot" where
  "stateSnapshot e i m =
     (let s = seat_at m i; opp = seat_at m (other_seat i);
          base = \<lparr>sn_phase = SnapCountdown, sn_index = st_index s, sn_total = n_questions m, sn_starts = unix_milli (mt_start m),
            sn_deadline = 0, sn_now = unix_milli (now_at e ''stateSnapshot''), sn_question = None, sn_last = None,
            sn_marks = seat_marks s (n_questions m), sn_score = st_score s, sn_opp_answered = resolvedCount opp,
            sn_opp_finished = (st_state opp = SeatDone), sn_opp_connected = (\<not> st_disc opp)\<rparr>
      in if mt_phase m = PhPending then base
         else case st_state s of
             SeatActive \<Rightarrow> base\<lparr>sn_phase := SnapQuestion, sn_deadline := unix_milli (st_deadline s), sn_question := question_at m (st_index s)\<rparr>
           | SeatReveal \<Rightarrow> base\<lparr>sn_phase := SnapReveal, sn_question := question_at m (st_index s), sn_last := st_last s\<rparr>
           | _ \<Rightarrow> base\<lparr>sn_phase := SnapWaiting\<rparr>)"

definition nextWake :: "match \<Rightarrow> int option" where
  "nextWake m =
     (case mt_phase m of
        PhPending \<Rightarrow> Some (mt_start m)
      | PhFinished \<Rightarrow> None
      | PhActive \<Rightarrow>
          (let wake = (\<lambda>s. case st_state s of
                 SeatActive \<Rightarrow> Some (if st_bot s then st_bot_at s else st_deadline s + AnswerGrace)
               | SeatReveal \<Rightarrow> Some (st_next s) | _ \<Rightarrow> None)
           in case (wake (mt_seat0 m), wake (mt_seat1 m)) of
               (None, w) \<Rightarrow> w
             | (Some t, None) \<Rightarrow> Some t
             | (Some t, Some u) \<Rightarrow> Some (if u < t then u else t)))"

definition outcomes :: "match \<Rightarrow> duel_outcome \<times> duel_outcome" where
  "outcomes m =
     (let a = mt_seat0 m; b = mt_seat1 m in
      if mt_reason m = EndBothDisconnected \<or> mt_reason m = EndShutdown then (Draw, Draw)
      else if mt_reason m = EndForfeit \<and> mt_quitter m = st_id a then (Lost, Won)
      else if mt_reason m = EndForfeit \<and> mt_quitter m = st_id b then (Won, Lost)
      else OutcomeFromScores (st_score a) (st_score b))"

definition rated :: "match \<Rightarrow> bool" where
  "rated m \<longleftrightarrow> mt_mode m = ModeRanked \<and> (mt_reason m = EndCompleted \<or> mt_reason m = EndForfeit)"

definition endFor :: "nat \<Rightarrow> duel_outcome \<Rightarrow> int \<Rightarrow> int \<Rightarrow> match \<Rightarrow> match_end" where
  "endFor i out after delta m =
     (let s = seat_at m i; opp = seat_at m (other_seat i) in
      \<lparr>mx_outcome = out, mx_end_reason = mt_reason m, mx_score_you = st_score s, mx_score_opp = st_score opp,
       mx_correct_you = st_correct s, mx_correct_opp = st_correct opp, mx_marks_you = seat_marks s (n_questions m),
       mx_marks_opp = seat_marks opp (n_questions m), mx_total = n_questions m, mx_rated = rated m,
       mx_before = after - delta, mx_after = after, mx_delta = delta, mx_medal = MedalForRating after\<rparr>)"

section \<open>What the end of a match writes\<close>

record arena_match_row =
  am_id :: uuid
  am_mode :: match_mode
  am_questions :: "uuid list"
  am_finished :: bool
  am_reason :: end_reason

record arena_player_row =
  ap_match :: uuid
  ap_profile :: uuid
  ap_slot :: int
  ap_locale :: string
  ap_score :: int
  ap_correct :: int
  ap_resp :: int
  ap_outcome :: duel_outcome
  ap_before :: int
  ap_after :: int
  ap_delta :: int

record arena_answer_row =
  aa_match :: uuid
  aa_profile :: uuid
  aa_question :: uuid
  aa_position :: int
  aa_answer :: "uuid option"
  aa_correct :: bool
  aa_resp :: "int option"
  aa_points :: int
  aa_at :: "int option"

text \<open>
  The ratings and the per-match results are Redis keys (\<open>arena:rating:...\<close>); \<open>adb_hub\<close> says which match a player
  is in.
\<close>

record arena_db =
  adb_study :: study_db
  adb_matches :: "arena_match_row list"
  adb_players :: "arena_player_row list"
  adb_answers :: "arena_answer_row list"
  adb_ratings :: "uuid \<Rightarrow> int option"
  adb_applied :: "uuid \<Rightarrow> (int \<times> int) option"
  adb_hub :: "uuid \<Rightarrow> uuid option"

definition Rating :: "arena_db \<Rightarrow> uuid \<Rightarrow> int" where
  "Rating d i = (case adb_ratings d i of None \<Rightarrow> 1000 | Some r \<Rightarrow> r)"

text \<open>
  \<open>EloStore.applyResult\<close>: the ratings and the match's result key change in one Redis transaction, or nothing does; the
  reply of a transaction that succeeded can still be lost (\<open>Reply\<close>). \<open>elo\<close> is \<open>EloDelta\<close> at the store's \<open>K\<close>.
\<close>

type_synonym elo = "int \<Rightarrow> int \<Rightarrow> real \<Rightarrow> int"

definition applyResult ::
  "elo \<Rightarrow> env \<Rightarrow> uuid \<Rightarrow> uuid \<Rightarrow> uuid \<Rightarrow> int \<Rightarrow> int \<Rightarrow> arena_db \<Rightarrow> (billing_err + (int \<times> int)) \<times> arena_db" where
  "applyResult elo e mid a b scoreA scoreB d =
     (if flt e ''applyResult'' ''Watch'' then (Inl (Sql DbFailure), d)
      else case adb_applied d mid of
          Some deltas \<Rightarrow> (Inr deltas, d)
        | None \<Rightarrow>
            let ra = Rating d a; rb = Rating d b;
                sa = (if scoreB < scoreA then 1 else if scoreA < scoreB then 0 else 1 / 2);
                sb = (if scoreB < scoreA then 0 else if scoreA < scoreB then 1 else 1 / 2);
                da = elo ra rb sa; db = elo rb ra sb;
                d' = d\<lparr>adb_ratings := (adb_ratings d)(a \<mapsto> ra + da, b \<mapsto> rb + db), adb_applied := (adb_applied d)(mid \<mapsto> (da, db))\<rparr>
            in if flt e ''applyResult'' ''Exec'' then (Inl (Sql DbFailure), d)
               else if flt e ''applyResult'' ''Reply'' then (Inl (Sql DbFailure), d')
               else (Inr (da, db), d'))"

definition FinishArenaMatch :: "uuid \<Rightarrow> end_reason \<Rightarrow> arena_db \<Rightarrow> arena_db" where
  "FinishArenaMatch i reason d = d\<lparr>adb_matches :=
     upd_where (\<lambda>r. am_id r = i \<and> \<not> am_finished r) (\<lambda>r. r\<lparr>am_finished := True, am_reason := reason\<rparr>) (adb_matches d)\<rparr>"

definition InsertArenaMatchPlayer :: "arena_player_row \<Rightarrow> arena_db \<Rightarrow> billing_err + arena_db" where
  "InsertArenaMatchPlayer r d =
     (if list_ex (\<lambda>x. ap_match x = ap_match r \<and> (ap_profile x = ap_profile r \<or> ap_slot x = ap_slot r)) (adb_players d)
      then Inl (Sql UniqueViolation) else Inr (d\<lparr>adb_players := adb_players d @ [r]\<rparr>))"

definition InsertArenaAnswer :: "arena_answer_row \<Rightarrow> arena_db \<Rightarrow> billing_err + arena_db" where
  "InsertArenaAnswer r d =
     (if list_ex (\<lambda>x. aa_match x = aa_match r \<and> aa_profile x = aa_profile r \<and> aa_question x = aa_question r) (adb_answers d)
      then Inl (Sql UniqueViolation)
      else if (aa_answer r = None) \<noteq> (aa_resp r = None) \<or> (aa_answer r = None \<and> aa_correct r) then Inl (Sql CheckViolation)
      else Inr (d\<lparr>adb_answers := adb_answers d @ [r]\<rparr>))"

definition answer_row_of :: "uuid \<Rightarrow> uuid \<Rightarrow> uuid \<Rightarrow> nat \<Rightarrow> player_answer \<Rightarrow> arena_answer_row" where
  "answer_row_of mid prof q i ans = \<lparr>aa_match = mid, aa_profile = prof, aa_question = q, aa_position = int i + 1,
     aa_answer = (if pa_answered ans then Some (pa_answer ans) else None), aa_correct = pa_correct ans,
     aa_resp = (if pa_answered ans then Some (pa_resp ans) else None), aa_points = pa_points ans,
     aa_at = (if pa_answered ans then Some (pa_at ans) else None)\<rparr>"

text \<open>The loop over the questions of one seat: the answer row, and a failed review for a wrong answer.\<close>

fun persist_answers ::
  "env \<Rightarrow> fsrs_kernel \<Rightarrow> uuid \<Rightarrow> uuid \<Rightarrow> (nat \<times> uuid \<times> player_answer) list \<Rightarrow> arena_db \<Rightarrow> billing_err + arena_db" where
  "persist_answers e fsrs mid prof [] d = Inr d"
| "persist_answers e fsrs mid prof ((i, q, ans) # rest) d =
     rbind (stmt e ''FinishPersist'' ''InsertArenaAnswer'' (InsertArenaAnswer (answer_row_of mid prof q i ans) d)) (\<lambda>d1.
     rbind (if pa_answered ans \<and> \<not> pa_correct ans
            then rbind (RecordReview e fsrs prof q Again (adb_study d1)) (\<lambda>(_, s). Inr (d1\<lparr>adb_study := s\<rparr>))
            else Inr d1) (\<lambda>d2.
     persist_answers e fsrs mid prof rest d2))"

record arena_cfg =
  ac_elo :: elo
  ac_fsrs :: fsrs_kernel
  ac_has_billing :: bool
  ac_station :: "(billing_err + (bool \<times> int option)) option"

definition persist_seat ::
  "env \<Rightarrow> arena_cfg \<Rightarrow> match \<Rightarrow> nat \<Rightarrow> duel_outcome \<Rightarrow> int \<Rightarrow> arena_db \<Rightarrow> billing_err + arena_db" where
  "persist_seat e c m i out delta d =
     (let s = seat_at m i in
      if st_bot s then Inr d
      else if flt e ''FinishPersist'' ''Rating'' then Inl (Sql DbFailure)
      else let after = Rating d (st_id s) in
      rbind (stmt e ''FinishPersist'' ''InsertArenaMatchPlayer'' (InsertArenaMatchPlayer
        \<lparr>ap_match = mt_id m, ap_profile = st_id s, ap_slot = int i + 1, ap_locale = st_locale s, ap_score = st_score s,
         ap_correct = st_correct s, ap_resp = st_resp s, ap_outcome = out, ap_before = after - delta, ap_after = after,
         ap_delta = delta\<rparr> d)) (\<lambda>d1.
      rbind (persist_answers e (ac_fsrs c) (mt_id m) (st_id s) (enumerate 0 (zip (mt_questions m) (st_answers s))) d1) (\<lambda>d2.
      rbind (RecordActivity e (ac_has_billing c) (ac_station c) (st_id s) (adb_study d2)) (\<lambda>s'.
      Inr (d2\<lparr>adb_study := s'\<rparr>)))))"

definition FinishPersist_tx :: "env \<Rightarrow> arena_cfg \<Rightarrow> match \<Rightarrow> int \<Rightarrow> int \<Rightarrow> arena_db \<Rightarrow> billing_err + (unit \<times> arena_db)" where
  "FinishPersist_tx e c m da db d =
     (if flt e ''FinishPersist'' ''SelectMatch'' then Inl (Sql DbFailure)
      else case find (\<lambda>r. am_id r = mt_id m) (adb_matches d) of
          None \<Rightarrow> Inl ErrNotFound
        | Some row \<Rightarrow>
            if am_finished row then Inr ((), d)
            else if flt e ''FinishPersist'' ''FinishArenaMatch'' then Inl (Sql DbFailure)
            else rbind (persist_seat e c m 0 (fst (outcomes m)) da (FinishArenaMatch (mt_id m) (mt_reason m) d)) (\<lambda>d1.
              rbind (persist_seat e c m 1 (snd (outcomes m)) db d1) (\<lambda>d2. Inr ((), d2))))"

definition cleanupFinishedMatch :: "env \<Rightarrow> match \<Rightarrow> arena_db \<Rightarrow> (billing_err + unit) \<times> arena_db" where
  "cleanupFinishedMatch e m d =
     (if flt e ''cleanupFinishedMatch'' ''Del'' then (Inl (Sql DbFailure), d)
      else (Inr (), d\<lparr>adb_hub := (\<lambda>i. if (i = st_id (mt_seat0 m) \<and> \<not> st_bot (mt_seat0 m)) \<or> (i = st_id (mt_seat1 m) \<and> \<not> st_bot (mt_seat1 m))
                                     then None else adb_hub d i)\<rparr>))"

definition FinishPersist :: "env \<Rightarrow> arena_cfg \<Rightarrow> match \<Rightarrow> int \<Rightarrow> int \<Rightarrow> arena_db \<Rightarrow> (billing_err + unit) \<times> arena_db" where
  "FinishPersist e c m da db d =
     (case run_tx e ''FinishPersist'' (FinishPersist_tx e c m da db) d of
        (Inl err, d') \<Rightarrow> (Inl err, d')
      | (Inr _, d') \<Rightarrow> cleanupFinishedMatch e m d')"

section \<open>Finishing\<close>

text \<open>One round of the loop in \<open>finish\<close>: deltas and ratings after it, or an error and another round.\<close>

definition finish_attempt ::
  "env \<Rightarrow> arena_cfg \<Rightarrow> match \<Rightarrow> arena_db \<Rightarrow> (billing_err + (int \<times> int \<times> int \<times> int)) \<times> arena_db" where
  "finish_attempt e c m d =
     (let a = mt_seat0 m; b = mt_seat1 m in
      if rated m then
        (let (sa, sb) = (if mt_reason m = EndForfeit \<and> mt_quitter m = st_id a then (0, 1)
                         else if mt_reason m = EndForfeit \<and> mt_quitter m = st_id b then (1, 0)
                         else (st_score a, st_score b)) in
         case applyResult (ac_elo c) e (mt_id m) (st_id a) (st_id b) sa sb d of
           (Inl err, d1) \<Rightarrow> (Inl err, d1)
         | (Inr (da, db), d1) \<Rightarrow>
             if flt e ''finish'' ''Rating'' then (Inl (Sql DbFailure), d1)
             else let ra = Rating d1 (st_id a); rb = Rating d1 (st_id b) in
               (case FinishPersist e c m da db d1 of
                  (Inl err, d2) \<Rightarrow> (Inl err, d2)
                | (Inr _, d2) \<Rightarrow> (Inr (da, db, ra, rb), d2)))
      else (case FinishPersist e c m 0 0 d of
              (Inl err, d2) \<Rightarrow> (Inl err, d2)
            | (Inr _, d2) \<Rightarrow> (Inr (0, 0, st_rating a, st_rating b), d2)))"

text \<open>The bound of the context each step of the goroutine runs under, and the pause after attempt \<open>n\<close>.\<close>

definition opTimeout :: int where "opTimeout = 10 * second"

primrec finish_backoff :: "nat \<Rightarrow> int" where
  "finish_backoff 0 = 100 * millisecond"
| "finish_backoff (Suc n) = (if finish_backoff n < 5 * second then finish_backoff n * 2 else finish_backoff n)"

lemma finish_backoff_pos: "0 < finish_backoff n"
  by (induction n) (simp_all add: millisecond_def)

text \<open>
  The loop before its attempt \<open>n\<close>, \<open>spent\<close> after the beginning of the step (the handlers before it only compute).
  \<open>None\<close>: the context is over, so that this and every later attempt fails without an effect and the loop never ends.
\<close>

function finish_loop ::
  "(nat \<Rightarrow> nat \<times> env) \<Rightarrow> arena_cfg \<Rightarrow> match \<Rightarrow> nat \<Rightarrow> int \<Rightarrow> arena_db \<Rightarrow> (int \<times> int \<times> int \<times> int) option \<times> arena_db" where
  "finish_loop att c m n spent d =
     (if opTimeout \<le> spent then (None, d)
      else case finish_attempt (snd (att n)) c m d of
        (Inl _, d1) \<Rightarrow> finish_loop att c m (Suc n) (spent + int (fst (att n)) + finish_backoff n) d1
      | (Inr res, d1) \<Rightarrow> (Some res, d1))"
  by pat_completeness auto

termination
proof (relation "measure (\<lambda>(att, c, m, n, spent, d). nat (opTimeout - spent))")
  show "((att, c, m, Suc n, spent + int (fst (att n)) + finish_backoff n, d1), (att, c, m, n, spent, d))
      \<in> measure (\<lambda>(att, c, m, n, spent, d). nat (opTimeout - spent))" if "\<not> opTimeout \<le> spent"
    for att :: "nat \<Rightarrow> nat \<times> env" and c :: arena_cfg and m :: match and n spent and d d1 :: arena_db
    using that finish_backoff_pos [of n] by simp
qed simp

declare finish_loop.simps [simp del]

type_synonym arena_state = "match \<times> arena_db"

text \<open>
  A match that is finished but not stored is one whose goroutine is in that loop for ever: it takes no input any more, sends
  nothing and is not taken down.
\<close>

definition finish :: "arena_env \<Rightarrow> arena_cfg \<Rightarrow> end_reason \<Rightarrow> arena_state \<Rightarrow> arena_state" where
  "finish e c reason s =
     (case s of (m, d) \<Rightarrow>
       if mt_phase m = PhFinished then (m, d)
       else let m1 = m\<lparr>mt_phase := PhFinished, mt_reason := reason\<rparr>; (outA, outB) = outcomes m1 in
         (case finish_loop (ae_attempts e) c m1 0 0 d of
            (None, d1) \<Rightarrow> (m1, d1)
          | (Some (da, db, ra, rb), d1) \<Rightarrow>
              (send_msg 1 (MsgEnd (endFor 1 outB rb db m1)) (send_msg 0 (MsgEnd (endFor 0 outA ra da m1)) (m1\<lparr>mt_stored := True\<rparr>)), d1)))"

section \<open>Questions and answers\<close>

definition startQuestion :: "arena_env \<Rightarrow> nat \<Rightarrow> nat \<Rightarrow> match \<Rightarrow> match" where
  "startQuestion e i index m =
     (let now = now_at e ''startQuestion'';
          s = (seat_at m i)\<lparr>st_index := index, st_state := SeatActive, st_last := None, st_deadline := now + qTime\<rparr>
      in if st_bot s then set_seat i (s\<lparr>st_bot_at := now + BotDelay (ae_float e ''BotDelay'') qTime\<rparr>) m
         else send_msg i (MsgQuestion index (n_questions m) (unix_milli (st_deadline s)) (unix_milli now) (mt_questions m ! index))
                (set_seat i s m))"

definition scoreAnswer :: "match \<Rightarrow> uuid \<Rightarrow> uuid \<Rightarrow> int \<Rightarrow> int \<Rightarrow> player_answer" where
  "scoreAnswer m q a resp0 t =
     (let window = go_div qTime millisecond;
          resp1 = (if resp0 < 0 then 0 else resp0);
          resp = (if window < resp1 then window else resp1);
          ok = (the_key m q = a)
      in \<lparr>pa_answered = True, pa_answer = a, pa_correct = ok, pa_resp = resp, pa_points = AnswerPoints ok resp window, pa_at = t\<rparr>)"

definition answer_result :: "match \<Rightarrow> nat \<Rightarrow> player_answer \<Rightarrow> int \<Rightarrow> AnswerResultData" where
  "answer_result m i ans score = \<lparr>ad_index = i, ad_answered = pa_answered ans, ad_correct = pa_correct ans,
     ad_answer = (if pa_answered ans then Some (pa_answer ans) else None), ad_key = the_key m (mt_questions m ! i),
     ad_points = pa_points ans, ad_score = score, ad_resp = pa_resp ans, ad_last = (int i = int (n_questions m) - 1)\<rparr>"

definition resolve :: "arena_env \<Rightarrow> nat \<Rightarrow> player_answer \<Rightarrow> match \<Rightarrow> match" where
  "resolve e i ans m =
     (let s = seat_at m i; k = st_index s; score = st_score s + pa_points ans; res = answer_result m k ans score;
          s' = s\<lparr>st_answers := (st_answers s)[k := ans], st_score := score,
                 st_correct := st_correct s + (if pa_correct ans then 1 else 0),
                 st_resp := st_resp s + (if pa_answered ans then pa_resp ans else 0),
                 st_state := SeatReveal, st_next := now_at e ''resolve'' + RevealFor, st_last := Some res\<rparr>
      in send_msg (other_seat i) (MsgProgress (k + 1) (n_questions m) False) (send_msg i (MsgResult res) (set_seat i s' m)))"

definition response_ms :: "seat \<Rightarrow> int \<Rightarrow> int" where
  "response_ms s now = go_div (now - (st_deadline s - qTime)) millisecond"

definition onAnswer :: "arena_env \<Rightarrow> nat \<Rightarrow> nat \<Rightarrow> uuid \<Rightarrow> match \<Rightarrow> match" where
  "onAnswer e i index a m =
     (let s = seat_at m i; now = now_at e ''onAnswer'' in
      if mt_phase m \<noteq> PhActive \<or> st_state s \<noteq> SeatActive then send_msg i (MsgError ''wrong_question'') m
      else if index \<noteq> st_index s then send_msg i (MsgError ''wrong_question'') m
      else if st_deadline s + AnswerGrace < now then send_msg i (MsgError ''too_late'') m
      else let q = mt_questions m ! st_index s in
      if (case mt_valid m q of None \<Rightarrow> False | Some options \<Rightarrow> a \<notin> set options) then send_msg i (MsgError ''invalid_answer'') m
      else resolve e i (scoreAnswer m q a (response_ms s now) now) m)"

definition botAnswer :: "arena_env \<Rightarrow> nat \<Rightarrow> match \<Rightarrow> match" where
  "botAnswer e i m =
     (let s = seat_at m i; q = mt_questions m ! st_index s; key = the_key m q;
          wrong = filter (\<lambda>a. a \<noteq> key) (case mt_valid m q of None \<Rightarrow> [] | Some xs \<Rightarrow> xs);
          choice = (if st_accuracy s \<le> ae_float e ''Float64'' \<and> wrong \<noteq> [] then wrong ! (ae_pick e mod length wrong) else key);
          now = now_at e ''botAnswer''
      in resolve e i (scoreAnswer m q choice (response_ms s now) now) m)"

definition advance :: "arena_env \<Rightarrow> arena_cfg \<Rightarrow> nat \<Rightarrow> arena_state \<Rightarrow> arena_state" where
  "advance e c i s =
     (case s of (m, d) \<Rightarrow>
       let k = st_index (seat_at m i) + 1; m1 = set_seat i ((seat_at m i)\<lparr>st_index := k\<rparr>) m in
       if k < n_questions m then (startQuestion e i k m1, d)
       else let m2 = set_seat i ((seat_at m1 i)\<lparr>st_state := SeatDone\<rparr>) m1;
                m3 = send_msg (other_seat i) (MsgProgress (n_questions m) (n_questions m) True) m2
            in if st_state (seat_at m3 (other_seat i)) = SeatDone then finish e c EndCompleted (m3, d)
               else (send_msg i (MsgWaiting (st_score (seat_at m3 i)) (st_correct (seat_at m3 i))) m3, d))"

section \<open>Events\<close>

definition timer_seat :: "arena_env \<Rightarrow> arena_cfg \<Rightarrow> nat \<Rightarrow> arena_state \<Rightarrow> arena_state" where
  "timer_seat e c i s =
     (case s of (m, d) \<Rightarrow>
       let st = seat_at m i; now = now_at e ''onTimer'' in
       if mt_phase m = PhFinished then s
       else case st_state st of
           SeatActive \<Rightarrow>
             if st_bot st \<and> st_bot_at st \<le> now then (botAnswer e i m, d)
             else if \<not> st_bot st \<and> st_deadline st + AnswerGrace \<le> now then (resolve e i no_answer m, d) else s
         | SeatReveal \<Rightarrow> if st_next st \<le> now then advance e c i s else s
         | _ \<Rightarrow> s)"

definition onTimer :: "arena_env \<Rightarrow> arena_cfg \<Rightarrow> arena_state \<Rightarrow> arena_state" where
  "onTimer e c s =
     (case s of (m, d) \<Rightarrow>
       (case mt_phase m of
          PhPending \<Rightarrow> if now_at e ''onTimer'' < mt_start m then s
                        else (startQuestion e 1 0 (startQuestion e 0 0 (m\<lparr>mt_phase := PhActive\<rparr>)), d)
        | PhActive \<Rightarrow> timer_seat e c 1 (timer_seat e c 0 s)
        | PhFinished \<Rightarrow> s))"

datatype match_event =
    EvAbort
  | EvAnswer uuid nat uuid
  | EvDisconnect uuid
  | EvForfeitCheck uuid nat
  | EvReconnect uuid
  | EvLeave uuid

definition on_disconnect :: "arena_env \<Rightarrow> arena_cfg \<Rightarrow> nat \<Rightarrow> arena_state \<Rightarrow> arena_state" where
  "on_disconnect e c i s =
     (case s of (m, d) \<Rightarrow>
       let st = seat_at m i; opp = seat_at m (other_seat i) in
       if st_disc st then s
       else let m1 = send_msg (other_seat i) (MsgStatus False) (set_seat i (st\<lparr>st_disc := True, st_gen := st_gen st + 1\<rparr>) m) in
       if st_disc opp \<and> \<not> st_bot opp then finish e c EndBothDisconnected (m1, d)
       else (m1\<lparr>mt_checks := mt_checks m1 @ [(st_id st, st_gen st + 1)]\<rparr>, d))"

definition human_seat :: "match \<Rightarrow> uuid \<Rightarrow> nat option" where
  "human_seat m p = (case seatOf m p of None \<Rightarrow> None | Some i \<Rightarrow> if st_bot (seat_at m i) then None else Some i)"

definition handle :: "arena_env \<Rightarrow> arena_cfg \<Rightarrow> match_event \<Rightarrow> arena_state \<Rightarrow> arena_state" where
  "handle e c ev s =
     (case s of (m, d) \<Rightarrow>
       (case ev of
          EvAbort \<Rightarrow> finish e c EndShutdown s
        | EvAnswer p index a \<Rightarrow> (case human_seat m p of None \<Rightarrow> s | Some i \<Rightarrow> (onAnswer e i index a m, d))
        | EvDisconnect p \<Rightarrow> (case human_seat m p of None \<Rightarrow> s | Some i \<Rightarrow> on_disconnect e c i s)
        | EvForfeitCheck p gen \<Rightarrow> (case human_seat m p of None \<Rightarrow> s | Some i \<Rightarrow>
            if st_disc (seat_at m i) \<and> st_gen (seat_at m i) = gen \<and> mt_phase m \<noteq> PhFinished
            then finish e c EndForfeit (m\<lparr>mt_quitter := st_id (seat_at m i)\<rparr>, d) else s)
        | EvReconnect p \<Rightarrow> (case human_seat m p of None \<Rightarrow> s | Some i \<Rightarrow>
            let m1 = (if st_disc (seat_at m i)
                      then send_msg (other_seat i) (MsgStatus True) (set_seat i ((seat_at m i)\<lparr>st_disc := False\<rparr>) m) else m)
            in (send_msg i (MsgState (stateSnapshot e i m1)) m1, d))
        | EvLeave p \<Rightarrow> (case human_seat m p of None \<Rightarrow> s | Some i \<Rightarrow>
            finish e c EndForfeit (m\<lparr>mt_quitter := st_id (seat_at m i)\<rparr>, d))))"

text \<open>\<open>Run\<close>: the loop takes one event or one timer tick at a time and stops when the match is finished.\<close>

datatype loop_input = InEvent match_event | InTimer

definition run_input :: "arena_env \<Rightarrow> arena_cfg \<Rightarrow> loop_input \<Rightarrow> arena_state \<Rightarrow> arena_state" where
  "run_input e c x s =
     (if mt_phase (fst s) = PhFinished then s
      else case x of InEvent ev \<Rightarrow> handle e c ev s | InTimer \<Rightarrow> onTimer e c s)"

fun Run :: "arena_cfg \<Rightarrow> (arena_env \<times> loop_input) list \<Rightarrow> arena_state \<Rightarrow> arena_state" where
  "Run c [] s = s"
| "Run c ((e, x) # xs) s = Run c xs (run_input e c x s)"

end
