(* ===== verification/Arena_Properties.thy ===== *)
theory Arena_Properties
  imports Arena_Match Learning_Properties
begin

text \<open>
  The duel: the invariant of a match (scores are the sums of the recorded verdicts, both players walk the
  same questions), verdicts are final, every match ends, neither player can read the other's verdicts off the
  messages before the end, results are stored once however often storing is retried, and ELO is zero-sum.
\<close>

section \<open>Frames\<close>

lemma send_msg_frame [simp]:
  "mt_id (send_msg i x m) = mt_id m" "mt_mode (send_msg i x m) = mt_mode m" "mt_questions (send_msg i x m) = mt_questions m"
  "mt_correct (send_msg i x m) = mt_correct m" "mt_valid (send_msg i x m) = mt_valid m" "mt_seat0 (send_msg i x m) = mt_seat0 m"
  "mt_seat1 (send_msg i x m) = mt_seat1 m" "mt_phase (send_msg i x m) = mt_phase m" "mt_start (send_msg i x m) = mt_start m"
  "mt_reason (send_msg i x m) = mt_reason m" "mt_quitter (send_msg i x m) = mt_quitter m" "mt_checks (send_msg i x m) = mt_checks m"
  by (simp_all add: send_msg_def)

lemma set_seat_frame [simp]:
  "mt_id (set_seat i s m) = mt_id m" "mt_mode (set_seat i s m) = mt_mode m" "mt_questions (set_seat i s m) = mt_questions m"
  "mt_correct (set_seat i s m) = mt_correct m" "mt_valid (set_seat i s m) = mt_valid m" "mt_phase (set_seat i s m) = mt_phase m"
  "mt_start (set_seat i s m) = mt_start m" "mt_reason (set_seat i s m) = mt_reason m" "mt_quitter (set_seat i s m) = mt_quitter m"
  "mt_checks (set_seat i s m) = mt_checks m" "mt_sent (set_seat i s m) = mt_sent m"
  by (simp_all add: set_seat_def)

lemma seat_at_send [simp]: "seat_at (send_msg i x m) j = seat_at m j"
  by (simp add: seat_at_def)

lemma seat_at_phase [simp]:
  "seat_at (m\<lparr>mt_phase := p\<rparr>) i = seat_at m i" "seat_at (m\<lparr>mt_reason := r\<rparr>) i = seat_at m i" "seat_at (m\<lparr>mt_quitter := u\<rparr>) i = seat_at m i"
  "seat_at (m\<lparr>mt_stored := b\<rparr>) i = seat_at m i"
  "seat_at (m\<lparr>mt_checks := cs\<rparr>) i = seat_at m i" "seat_at (m\<lparr>mt_start := t\<rparr>) i = seat_at m i" "seat_at (m\<lparr>mt_sent := xs\<rparr>) i = seat_at m i"
  by (simp_all add: seat_at_def)

lemma seat_at_set [simp]: "i < 2 \<Longrightarrow> j < 2 \<Longrightarrow> seat_at (set_seat i s m) j = (if i = j then s else seat_at m j)"
  by (auto simp: seat_at_def set_seat_def less_2_cases_iff)

lemma set_seat_twice [simp]: "set_seat i s (set_seat i s' m) = set_seat i s m"
  by (simp add: set_seat_def)

lemma n_questions_frame [simp]:
  "n_questions (send_msg i x m) = n_questions m" "n_questions (set_seat i s m) = n_questions m"
  "n_questions (m\<lparr>mt_phase := p\<rparr>) = n_questions m" "n_questions (m\<lparr>mt_reason := r\<rparr>) = n_questions m"
  "n_questions (m\<lparr>mt_quitter := u\<rparr>) = n_questions m" "n_questions (m\<lparr>mt_checks := cs\<rparr>) = n_questions m"
  "n_questions (m\<lparr>mt_start := t\<rparr>) = n_questions m" "n_questions (m\<lparr>mt_stored := b\<rparr>) = n_questions m"
  by (simp_all add: n_questions_def)

lemma other_seat_less [simp]: "other_seat i < 2" "i < 2 \<Longrightarrow> other_seat (other_seat i) = i" "i < 2 \<Longrightarrow> other_seat i \<noteq> i" "i < 2 \<Longrightarrow> i \<noteq> other_seat i"
  by (auto simp: other_seat_def less_2_cases_iff)

lemma ex_seat: "(\<exists>i < 2. P i) \<longleftrightarrow> P 0 \<or> P (1 :: nat)"
  by (auto simp: less_2_cases_iff)

lemma all_seats: "(\<forall>i < 2. P i) \<longleftrightarrow> P 0 \<and> P (1 :: nat)"
  by (auto simp: less_2_cases_iff)

lemma human_seat_less: "human_seat m p = Some i \<Longrightarrow> i < 2"
  by (auto simp: human_seat_def seatOf_def split: option.splits if_splits)

section \<open>Points\<close>

lemma go_round_between:
  fixes x :: "'a::floor_ceiling"
  assumes "of_int a \<le> x" and "x \<le> of_int b" and "0 \<le> a"
  shows "a \<le> go_round x \<and> go_round x \<le> b"
proof -
  have x: "0 \<le> x" using assms by (meson of_int_0_le_iff order_trans)
  have "a \<le> \<lfloor>x + 1 / 2\<rfloor>" using assms(1) by (simp add: le_floor_iff add_increasing2)
  moreover have "x + 1 / 2 < of_int b + 1" using assms(2) by (rule add_le_less_mono) simp
  then have "\<lfloor>x + 1 / 2\<rfloor> < b + 1" by (subst floor_less_iff) simp
  ultimately show ?thesis using x by (simp add: go_round_def)
qed

lemma AnswerPoints_bounds: "0 \<le> AnswerPoints ok r w \<and> AnswerPoints ok r w \<le> 100"
proof (cases "ok \<and> 0 \<le> r \<and> 0 < w \<and> r < w")
  case True
  then have "rat_of_int r / rat_of_int w \<le> 1" "0 \<le> rat_of_int r / rat_of_int w" by simp_all
  then have "0 \<le> go_round (100 * (1 - rat_of_int r / rat_of_int w)) \<and> go_round (100 * (1 - rat_of_int r / rat_of_int w)) \<le> 100"
    by (intro go_round_between) simp_all
  then show ?thesis using True by (simp add: AnswerPoints_def)
next
  case False
  then show ?thesis by (auto simp: AnswerPoints_def)
qed

lemma AnswerPoints_wrong: "\<not> ok \<Longrightarrow> AnswerPoints ok r w = 0"
  by (simp add: AnswerPoints_def)

text \<open>Answering faster never scores less.\<close>

lemma go_round_mono:
  fixes x y :: "'a::floor_ceiling"
  assumes "0 \<le> x" and "x \<le> y"
  shows "go_round x \<le> go_round y"
  using assms by (simp add: go_round_def floor_mono)

lemma AnswerPoints_antimono:
  assumes "0 \<le> r" and "r \<le> r'"
  shows "AnswerPoints ok r' w \<le> AnswerPoints ok r w"
proof (cases "ok \<and> 0 < w \<and> r' < w")
  case True
  then have "rat_of_int r / rat_of_int w \<le> rat_of_int r' / rat_of_int w" "rat_of_int r' / rat_of_int w \<le> 1"
    using assms by (simp_all add: divide_right_mono)
  then have "go_round (100 * (1 - rat_of_int r' / rat_of_int w)) \<le> go_round (100 * (1 - rat_of_int r / rat_of_int w))"
    by (intro go_round_mono) simp_all
  then show ?thesis using True assms by (simp add: AnswerPoints_def)
next
  case False
  then have "AnswerPoints ok r' w = 0" by (auto simp: AnswerPoints_def)
  then show ?thesis using AnswerPoints_bounds [of ok r w] by simp
qed

section \<open>The invariant\<close>

definition verdict_ok :: "player_answer \<Rightarrow> bool" where
  "verdict_ok p \<longleftrightarrow> 0 \<le> pa_points p \<and> pa_points p \<le> 100 \<and> 0 \<le> pa_resp p \<and> pa_resp p \<le> go_div qTime millisecond
     \<and> (\<not> pa_correct p \<longrightarrow> pa_points p = 0) \<and> (pa_correct p \<longrightarrow> pa_answered p) \<and> (\<not> pa_answered p \<longrightarrow> pa_resp p = 0)"

definition seat_ok :: "nat \<Rightarrow> seat \<Rightarrow> bool" where
  "seat_ok n s \<longleftrightarrow> length (st_answers s) = n \<and> resolvedCount s \<le> n
     \<and> (st_state s = SeatActive \<or> st_state s = SeatReveal \<longrightarrow> st_index s < n) \<and> (st_state s = SeatNone \<longrightarrow> st_index s = 0)
     \<and> drop (resolvedCount s) (st_answers s) = replicate (n - resolvedCount s) no_answer
     \<and> list_all verdict_ok (st_answers s)
     \<and> st_score s = sum_list (map pa_points (st_answers s))
     \<and> st_correct s = int (length (filter pa_correct (st_answers s)))
     \<and> st_resp s = sum_list (map pa_resp (st_answers s))"

definition match_inv :: "match \<Rightarrow> bool" where
  "match_inv m \<longleftrightarrow> 0 < n_questions m \<and> (\<forall>i < 2. seat_ok (n_questions m) (seat_at m i))
     \<and> (mt_phase m = PhPending \<longrightarrow> (\<forall>i < 2. st_state (seat_at m i) = SeatNone))
     \<and> (mt_phase m = PhActive \<longrightarrow> (\<forall>i < 2. st_state (seat_at m i) \<noteq> SeatNone) \<and> (\<exists>i < 2. st_state (seat_at m i) \<noteq> SeatDone))
     \<and> (mt_phase m = PhFinished \<longrightarrow> mt_reason m \<noteq> EndNone
          \<and> (mt_reason m = EndCompleted \<longrightarrow> (\<forall>i < 2. st_state (seat_at m i) = SeatDone)))"

lemma no_answer_ok [simp]: "verdict_ok no_answer"
  by (simp add: verdict_ok_def no_answer_def qTime_def QuestionTimeSec_def second_def millisecond_def go_div_nonneg)

lemma scoreAnswer_ok: "verdict_ok (scoreAnswer m q a r t)"
  using AnswerPoints_bounds [of "the_key m q = a"] AnswerPoints_wrong
  by (auto simp: verdict_ok_def scoreAnswer_def Let_def qTime_def QuestionTimeSec_def second_def millisecond_def go_div_nonneg)

lemma sum_list_upd: "k < length xs \<Longrightarrow> sum_list (map f (xs[k := y])) = sum_list (map f xs) - f (xs ! k) + (f y :: int)"
  by (induction xs arbitrary: k) (auto split: nat.splits)

lemma filter_upd_length:
  "k < length xs \<Longrightarrow> int (length (filter P (xs[k := y]))) = int (length (filter P xs)) - (if P (xs ! k) then 1 else 0) + (if P y then 1 else 0)"
proof -
  have c: "int (length (filter P ys)) = sum_list (map (\<lambda>x. if P x then 1 else 0) ys)" for ys by (induction ys) auto
  assume "k < length xs"
  then show ?thesis unfolding c by (rule sum_list_upd)
qed

lemma seat_ok_blank:
  assumes "seat_ok n s" and "resolvedCount s \<le> k" and "k < n"
  shows "st_answers s ! k = no_answer"
proof -
  have "drop (resolvedCount s) (st_answers s) ! (k - resolvedCount s) = no_answer" using assms by (simp add: seat_ok_def)
  moreover have "length (st_answers s) = n" using assms(1) by (simp add: seat_ok_def)
  ultimately show ?thesis using assms(2,3) by simp
qed

lemma drop_replicate_suc:
  assumes "drop k xs = replicate (n - k) x" and "k < n" and "length xs = n"
  shows "drop (Suc k) (xs[k := y]) = replicate (n - Suc k) x"
proof -
  have "drop (Suc k) (xs[k := y]) = drop 1 (drop k xs)" by simp
  also have "\<dots> = replicate (n - Suc k) x" unfolding assms(1) by simp
  finally show ?thesis .
qed

lemma resolve_seat_ok:
  assumes ok: "seat_ok n s" and act: "st_state s = SeatActive" and v: "verdict_ok ans"
  shows "seat_ok n (s\<lparr>st_answers := (st_answers s)[st_index s := ans], st_score := st_score s + pa_points ans,
      st_correct := st_correct s + (if pa_correct ans then 1 else 0), st_resp := st_resp s + (if pa_answered ans then pa_resp ans else 0),
      st_state := SeatReveal, st_next := t, st_last := l\<rparr>)"
proof -
  let ?k = "st_index s" and ?xs = "st_answers s"
  have k: "?k < n" "length ?xs = n" and rc: "resolvedCount s = ?k" using ok act by (simp_all add: seat_ok_def resolvedCount_def)
  have blank: "?xs ! ?k = no_answer" using seat_ok_blank [OF ok] k rc by simp
  have "drop (Suc ?k) (?xs[?k := ans]) = replicate (n - Suc ?k) no_answer"
    using ok k rc by (intro drop_replicate_suc) (simp_all add: seat_ok_def)
  moreover have "list_all verdict_ok (?xs[?k := ans])" using ok v by (auto simp: seat_ok_def list_all_iff dest!: set_update_subset_insert [THEN subsetD])
  ultimately show ?thesis using ok k v rc
    by (simp add: seat_ok_def resolvedCount_def sum_list_upd filter_upd_length blank no_answer_def verdict_ok_def)
qed

lemma start_seat_ok:
  assumes "seat_ok n s" and "resolvedCount s = k" and "k < n"
  shows "seat_ok n (s\<lparr>st_index := k, st_state := SeatActive, st_last := l, st_deadline := t, st_bot_at := b\<rparr>)"
  using assms by (simp add: seat_ok_def resolvedCount_def)

lemma done_seat_ok:
  assumes "seat_ok n s" and "resolvedCount s = n"
  shows "seat_ok n (s\<lparr>st_index := k, st_state := SeatDone\<rparr>)"
  using assms by (simp add: seat_ok_def resolvedCount_def)

lemma seat_ok_flags [simp]: "seat_ok n (s\<lparr>st_disc := x, st_gen := g\<rparr>) = seat_ok n s" "seat_ok n (s\<lparr>st_disc := x\<rparr>) = seat_ok n s"
  by (cases "st_state s"; simp add: seat_ok_def resolvedCount_def)+

section \<open>What each handler does to the seats\<close>

lemma startQuestion_seat:
  assumes "i < 2"
  obtains t b where "\<And>j. j < 2 \<Longrightarrow> seat_at (startQuestion e i k m) j
      = (if i = j then (seat_at m i)\<lparr>st_index := k, st_state := SeatActive, st_last := None, st_deadline := t, st_bot_at := b\<rparr> else seat_at m j)"
proof (cases "st_bot (seat_at m i)")
  case True
  then show thesis using assms
    by (intro that [where t = "now_at e ''startQuestion'' + qTime" and b = "now_at e ''startQuestion'' + BotDelay (ae_float e ''BotDelay'') qTime"])
      (simp add: startQuestion_def Let_def)
next
  case False
  have "s\<lparr>st_bot_at := st_bot_at s\<rparr> = s" for s :: seat by simp
  then show thesis using assms False
    by (intro that [where t = "now_at e ''startQuestion'' + qTime" and b = "st_bot_at (seat_at m i)"]) (simp add: startQuestion_def Let_def)
qed

lemma startQuestion_frame [simp]:
  "mt_phase (startQuestion e i k m) = mt_phase m" "n_questions (startQuestion e i k m) = n_questions m"
  "mt_reason (startQuestion e i k m) = mt_reason m"
  by (simp_all add: startQuestion_def Let_def)

lemma resolve_seat:
  assumes "i < 2" and "j < 2"
  shows "seat_at (resolve e i ans m) j = (if i = j then (seat_at m i)\<lparr>st_answers := (st_answers (seat_at m i))[st_index (seat_at m i) := ans],
      st_score := st_score (seat_at m i) + pa_points ans, st_correct := st_correct (seat_at m i) + (if pa_correct ans then 1 else 0),
      st_resp := st_resp (seat_at m i) + (if pa_answered ans then pa_resp ans else 0), st_state := SeatReveal,
      st_next := now_at e ''resolve'' + RevealFor,
      st_last := Some (answer_result m (st_index (seat_at m i)) ans (st_score (seat_at m i) + pa_points ans))\<rparr> else seat_at m j)"
  using assms by (simp add: resolve_def Let_def)

lemma resolve_frame [simp]:
  "mt_phase (resolve e i ans m) = mt_phase m" "n_questions (resolve e i ans m) = n_questions m" "mt_reason (resolve e i ans m) = mt_reason m"
  by (simp_all add: resolve_def Let_def)

lemma finish_seats [simp]: "seat_at (fst (finish e c r s)) i = seat_at (fst s) i"
  by (auto simp: finish_def Let_def split: prod.splits option.splits)

lemma finish_frame [simp]:
  "n_questions (fst (finish e c r s)) = n_questions (fst s)" "mt_phase (fst (finish e c r s)) = PhFinished"
  by (auto simp: finish_def Let_def split: prod.splits option.splits)

lemma finish_reason: "mt_phase (fst s) \<noteq> PhFinished \<Longrightarrow> mt_reason (fst (finish e c r s)) = r"
  by (auto simp: finish_def Let_def split: prod.splits option.splits)

lemma finish_inv:
  assumes "0 < n_questions (fst s)" and "\<And>i. i < 2 \<Longrightarrow> seat_ok (n_questions (fst s)) (seat_at (fst s) i)" and "mt_phase (fst s) \<noteq> PhFinished"
    and "r \<noteq> EndNone" and "r = EndCompleted \<Longrightarrow> (\<forall>i < 2. st_state (seat_at (fst s) i) = SeatDone)"
  shows "match_inv (fst (finish e c r s))"
  using assms by (simp add: match_inv_def finish_reason)

lemma resolve_inv:
  assumes inv: "match_inv m" and ph: "mt_phase m = PhActive" and i: "i < 2" and act: "st_state (seat_at m i) = SeatActive" and v: "verdict_ok ans"
  shows "match_inv (resolve e i ans m)"
proof -
  have "seat_ok (n_questions m) (seat_at m i)" using inv i by (simp add: match_inv_def)
  note r = resolve_seat_ok [OF this act v]
  then show ?thesis using inv ph i by (auto simp: match_inv_def resolve_seat)
qed

lemma onAnswer_inv:
  assumes "match_inv m" and "i < 2"
  shows "match_inv (onAnswer e i k a m)"
  using assms by (auto simp: onAnswer_def Let_def match_inv_def [of "send_msg _ _ _"] match_inv_def [of m] intro!: resolve_inv scoreAnswer_ok split: option.splits)

lemma botAnswer_inv:
  assumes "match_inv m" and "mt_phase m = PhActive" and "i < 2" and "st_state (seat_at m i) = SeatActive"
  shows "match_inv (botAnswer e i m)"
  using assms by (simp add: botAnswer_def Let_def resolve_inv scoreAnswer_ok)

lemma advance_cases:
  assumes i: "i < 2"
  obtains (next_question) t b where "st_index (seat_at m i) + 1 < n_questions m" and "snd (advance e c i (m, d)) = d"
      and "mt_phase (fst (advance e c i (m, d))) = mt_phase m" and "n_questions (fst (advance e c i (m, d))) = n_questions m"
      and "mt_reason (fst (advance e c i (m, d))) = mt_reason m"
      and "\<And>j. j < 2 \<Longrightarrow> seat_at (fst (advance e c i (m, d))) j = (if i = j then (seat_at m i)\<lparr>st_index := st_index (seat_at m i) + 1,
             st_state := SeatActive, st_last := None, st_deadline := t, st_bot_at := b\<rparr> else seat_at m j)"
  | (waiting) "\<not> st_index (seat_at m i) + 1 < n_questions m" and "st_state (seat_at m (other_seat i)) \<noteq> SeatDone"
      and "mt_phase (fst (advance e c i (m, d))) = mt_phase m" and "n_questions (fst (advance e c i (m, d))) = n_questions m"
      and "mt_reason (fst (advance e c i (m, d))) = mt_reason m"
      and "\<And>j. j < 2 \<Longrightarrow> seat_at (fst (advance e c i (m, d))) j
             = (if i = j then (seat_at m i)\<lparr>st_index := st_index (seat_at m i) + 1, st_state := SeatDone\<rparr> else seat_at m j)"
  | (over) mm where "\<not> st_index (seat_at m i) + 1 < n_questions m" and "st_state (seat_at m (other_seat i)) = SeatDone"
      and "advance e c i (m, d) = finish e c EndCompleted (mm, d)" and "mt_phase mm = mt_phase m" and "n_questions mm = n_questions m"
      and "\<And>j. j < 2 \<Longrightarrow> seat_at mm j = (if i = j then (seat_at m i)\<lparr>st_index := st_index (seat_at m i) + 1, st_state := SeatDone\<rparr> else seat_at m j)"
proof (cases "st_index (seat_at m i) + 1 < n_questions m")
  case True
  let ?m = "set_seat i ((seat_at m i)\<lparr>st_index := st_index (seat_at m i) + 1\<rparr>) m"
  obtain t b where s: "\<And>j. j < 2 \<Longrightarrow> seat_at (startQuestion e i (st_index (seat_at m i) + 1) ?m) j
      = (if i = j then (seat_at ?m i)\<lparr>st_index := st_index (seat_at m i) + 1, st_state := SeatActive, st_last := None, st_deadline := t, st_bot_at := b\<rparr>
         else seat_at ?m j)"
    using startQuestion_seat [OF i] by metis
  show thesis using True i s by (intro next_question [where t = t and b = b]) (simp_all add: advance_def Let_def)
next
  case False
  show thesis
  proof (cases "st_state (seat_at m (other_seat i)) = SeatDone")
    case True
    show thesis
      by (rule over [where mm = "send_msg (other_seat i) (MsgProgress (n_questions m) (n_questions m) True)
          (set_seat i ((seat_at m i)\<lparr>st_index := st_index (seat_at m i) + 1, st_state := SeatDone\<rparr>) m)"])
        (use False True i in \<open>simp_all add: advance_def Let_def\<close>)
  next
    case active: False
    show thesis using False active i by (intro waiting) (simp_all add: advance_def Let_def)
  qed
qed

lemma advance_inv:
  assumes inv: "match_inv m" and ph: "mt_phase m = PhActive" and i: "i < 2" and rev: "st_state (seat_at m i) = SeatReveal"
  shows "match_inv (fst (advance e c i (m, d)))"
proof -
  let ?s = "seat_at m i" and ?n = "n_questions m"
  have ok: "seat_ok ?n ?s" using inv i by (simp add: match_inv_def)
  have rc: "resolvedCount ?s = st_index ?s + 1" "st_index ?s + 1 \<le> ?n" using rev ok by (simp_all add: resolvedCount_def seat_ok_def)
  show ?thesis
  proof (cases rule: advance_cases [OF i, of m e c d, case_names next_question waiting over])
    case (next_question t b)
    have "seat_ok ?n (?s\<lparr>st_index := st_index ?s + 1, st_state := SeatActive, st_last := None, st_deadline := t, st_bot_at := b\<rparr>)"
      by (rule start_seat_ok [OF ok]) (use rc next_question(1) in simp_all)
    then show ?thesis using next_question(3-6) inv ph i by (auto simp: match_inv_def)
  next
    case waiting
    have "seat_ok ?n (?s\<lparr>st_index := st_index ?s + 1, st_state := SeatDone\<rparr>)"
      by (rule done_seat_ok [OF ok]) (use rc waiting(1) in simp)
    then show ?thesis using waiting(2-6) inv ph i by (auto simp: match_inv_def intro!: exI [of _ "other_seat i"])
  next
    case (over m3)
    have "seat_ok ?n (?s\<lparr>st_index := st_index ?s + 1, st_state := SeatDone\<rparr>)"
      by (rule done_seat_ok [OF ok]) (use rc over(1) in simp)
    then have s3: "seat_ok ?n (seat_at m3 j)" if "j < 2" for j
      using over(6) [OF that] inv that by (cases "i = j") (simp_all add: match_inv_def)
    have "st_state (seat_at m3 j) = SeatDone" if "j < 2" for j
      using over(2) over(6) [OF that] i that by (auto simp: other_seat_def less_2_cases_iff split: if_splits)
    then show ?thesis unfolding over(3) using s3 inv ph over(4,5) by (intro finish_inv) (auto simp: match_inv_def)
  qed
qed

lemma timer_seat_inv:
  assumes inv: "match_inv m" and ph: "mt_phase m \<noteq> PhPending" and i: "i < 2"
  shows "match_inv (fst (timer_seat e c i (m, d))) \<and> mt_phase (fst (timer_seat e c i (m, d))) \<noteq> PhPending"
proof (cases "mt_phase m = PhFinished")
  case True
  then show ?thesis using inv by (simp add: timer_seat_def)
next
  case False
  then have act: "mt_phase m = PhActive" using ph by (cases "mt_phase m") simp_all
  have adv: "mt_phase (fst (advance e c i (m, d))) \<noteq> PhPending"
    by (cases rule: advance_cases [OF i, of m e c d, case_names next_question waiting over]) (simp_all add: act)
  show ?thesis
    using False act inv i adv by (auto simp: timer_seat_def Let_def split: seat_state.splits
        intro!: botAnswer_inv resolve_inv advance_inv) (simp_all add: botAnswer_def Let_def)
qed

lemma first_questions:
  assumes "j < 2"
  obtains t b where "seat_at (startQuestion e 1 0 (startQuestion e 0 0 (m\<lparr>mt_phase := PhActive\<rparr>))) j
      = (seat_at m j)\<lparr>st_index := 0, st_state := SeatActive, st_last := None, st_deadline := t, st_bot_at := b\<rparr>"
proof -
  let ?m0 = "startQuestion e 0 0 (m\<lparr>mt_phase := PhActive\<rparr>)"
  obtain t b where s0: "\<And>j. j < 2 \<Longrightarrow> seat_at ?m0 j = (if 0 = j then (seat_at m 0)\<lparr>st_index := 0, st_state := SeatActive, st_last := None,
      st_deadline := t, st_bot_at := b\<rparr> else seat_at m j)"
    using startQuestion_seat [of 0 e 0 "m\<lparr>mt_phase := PhActive\<rparr>"] by (metis pos2 seat_at_phase(1))
  obtain t' b' where s1: "\<And>j. j < 2 \<Longrightarrow> seat_at (startQuestion e 1 0 ?m0) j = (if 1 = j then (seat_at ?m0 1)\<lparr>st_index := 0, st_state := SeatActive,
      st_last := None, st_deadline := t', st_bot_at := b'\<rparr> else seat_at ?m0 j)"
    using startQuestion_seat [of 1 e 0 ?m0] by (metis one_less_numeral_iff semiring_norm(76))
  show thesis
  proof (cases "j = 0")
    case True
    then show thesis using s1 [OF assms] s0 [OF assms] by (intro that [where t = t and b = b]) simp
  next
    case False
    then have "j = 1" using assms by simp
    then show thesis using s1 [OF assms] s0 [of 1] by (intro that [where t = t' and b = b']) simp
  qed
qed

lemma onTimer_inv:
  assumes inv: "match_inv m"
  shows "match_inv (fst (onTimer e c (m, d)))"
proof (cases "mt_phase m")
  case PhPending
  let ?m1 = "startQuestion e 1 0 (startQuestion e 0 0 (m\<lparr>mt_phase := PhActive\<rparr>))"
  have ok: "seat_ok (n_questions m) (seat_at m i)" "resolvedCount (seat_at m i) = 0" "0 < n_questions m" if "i < 2" for i
    using inv PhPending that by (auto simp: match_inv_def seat_ok_def resolvedCount_def)
  have st: "seat_ok (n_questions m) (seat_at ?m1 j)" "st_state (seat_at ?m1 j) = SeatActive" if j: "j < 2" for j
    by (rule first_questions [OF j, of e m], simp add: start_seat_ok ok [OF j])+
  then have "\<exists>j < 2. st_state (seat_at ?m1 j) \<noteq> SeatDone" by (intro exI [of _ 0]) simp
  then have "match_inv ?m1" using st ok(3) [of 0] unfolding match_inv_def by simp
  then show ?thesis using PhPending inv by (simp add: onTimer_def)
next
  case PhActive
  obtain m1 d1 where s: "timer_seat e c 0 (m, d) = (m1, d1)" by (cases "timer_seat e c 0 (m, d)")
  have "match_inv m1 \<and> mt_phase m1 \<noteq> PhPending" using timer_seat_inv [OF inv, of 0 e c d] PhActive s by simp
  then show ?thesis using timer_seat_inv [of m1 1 e c d1] PhActive s by (simp add: onTimer_def)
next
  case PhFinished
  then show ?thesis using inv by (simp add: onTimer_def)
qed

lemma inv_frame:
  assumes "match_inv m" and "mt_phase m' = mt_phase m" and "n_questions m' = n_questions m" and "mt_reason m' = mt_reason m"
    and "\<And>i. i < 2 \<Longrightarrow> \<exists>x g. seat_at m' i = (seat_at m i)\<lparr>st_disc := x, st_gen := g\<rparr>"
  shows "match_inv m'"
proof -
  have "seat_ok n (seat_at m' i) = seat_ok n (seat_at m i) \<and> st_state (seat_at m' i) = st_state (seat_at m i)" if "i < 2" for i n
    using assms(5) [OF that] by auto
  then show ?thesis using assms(1-4) by (auto simp: match_inv_def)
qed

lemma finish_from_inv:
  assumes "match_inv m" and "mt_phase m \<noteq> PhFinished" and "mt_phase m' = mt_phase m" and "n_questions m' = n_questions m"
    and "\<And>i. i < 2 \<Longrightarrow> \<exists>x g. seat_at m' i = (seat_at m i)\<lparr>st_disc := x, st_gen := g\<rparr>" and "r \<noteq> EndNone" and "r \<noteq> EndCompleted"
  shows "match_inv (fst (finish e c r (m', d)))"
proof (rule finish_inv)
  show "seat_ok (n_questions (fst (m', d))) (seat_at (fst (m', d)) i)" if "i < 2" for i
    using assms(1,4) assms(5) [OF that] that by (auto simp: match_inv_def)
qed (use assms in \<open>simp_all add: match_inv_def\<close>)

lemma seat_same_flags: "\<exists>x g. s = s\<lparr>st_disc := x, st_gen := g\<rparr>" for s :: seat
  by (rule exI [of _ "st_disc s"], rule exI [of _ "st_gen s"]) simp

lemma handle_inv:
  assumes inv: "match_inv m" and ph: "mt_phase m \<noteq> PhFinished"
  shows "match_inv (fst (handle e c ev (m, d)))"
proof (cases ev)
  case EvAbort
  then show ?thesis using inv ph by (auto simp: handle_def intro!: finish_from_inv [OF inv ph] seat_same_flags)
next
  case (EvAnswer p k a)
  then show ?thesis using inv by (auto simp: handle_def split: option.splits intro!: onAnswer_inv dest: human_seat_less)
next
  case (EvDisconnect p)
  have "match_inv (fst (on_disconnect e c i (m, d)))" if "i < 2" for i
  proof -
    let ?st = "seat_at m i"
    let ?m1 = "send_msg (other_seat i) (MsgStatus False) (set_seat i (?st\<lparr>st_disc := True, st_gen := st_gen ?st + 1\<rparr>) m)"
    have seats: "\<exists>x g. seat_at ?m1 j = (seat_at m j)\<lparr>st_disc := x, st_gen := g\<rparr>" if "j < 2" for j
      using that \<open>i < 2\<close> by (auto intro: seat_same_flags)
    have "match_inv (fst (finish e c EndBothDisconnected (?m1, d)))" by (rule finish_from_inv [OF inv ph]) (use seats in simp_all)
    moreover have "match_inv (?m1\<lparr>mt_checks := xs\<rparr>)" for xs by (rule inv_frame [OF inv]) (use seats in simp_all)
    ultimately show ?thesis using inv by (simp add: on_disconnect_def Let_def)
  qed
  then show ?thesis using EvDisconnect inv by (auto simp: handle_def split: option.splits dest: human_seat_less)
next
  case (EvForfeitCheck p g)
  then show ?thesis using inv ph by (auto simp: handle_def split: option.splits intro!: finish_from_inv [OF inv ph] seat_same_flags)
next
  case (EvReconnect p)
  have rec: "match_inv (send_msg i x m1)" if "i < 2" "m1 = (if st_disc (seat_at m i)
       then send_msg (other_seat i) (MsgStatus True) (set_seat i ((seat_at m i)\<lparr>st_disc := False\<rparr>) m) else m)" for i x m1
  proof (rule inv_frame [OF inv])
    show "\<exists>x g. seat_at (send_msg i y m1) j = (seat_at m j)\<lparr>st_disc := x, st_gen := g\<rparr>" if "j < 2" for j y
    proof (cases "st_disc (seat_at m i) \<and> i = j")
      case True
      then have "seat_at (send_msg i y m1) j = (seat_at m j)\<lparr>st_disc := False, st_gen := st_gen (seat_at m j)\<rparr>"
        using that \<open>i < 2\<close> \<open>m1 = _\<close> by simp
      then show ?thesis by blast
    next
      case False
      then have "seat_at (send_msg i y m1) j = seat_at m j" using that \<open>i < 2\<close> \<open>m1 = _\<close> by auto
      then show ?thesis using seat_same_flags by metis
    qed
  qed (use that(2) in simp_all)
  show ?thesis
  proof (cases "human_seat m p")
    case None
    then show ?thesis using EvReconnect inv by (simp add: handle_def)
  next
    case (Some i)
    then show ?thesis using EvReconnect rec [OF human_seat_less [OF Some] refl] by (simp add: handle_def Let_def split del: if_split)
  qed
next
  case (EvLeave p)
  then show ?thesis using inv ph by (auto simp: handle_def split: option.splits intro!: finish_from_inv [OF inv ph] seat_same_flags)
qed

lemma run_input_inv: "match_inv (fst s) \<Longrightarrow> match_inv (fst (run_input e c x s))"
  by (cases s) (auto simp: run_input_def handle_inv onTimer_inv split: loop_input.splits)

lemma Run_inv: "match_inv (fst s) \<Longrightarrow> match_inv (fst (Run c xs s))"
  by (induction c xs s rule: Run.induct) (simp_all add: run_input_inv)

lemma new_match_inv:
  assumes "qs \<noteq> []"
  shows "match_inv (Start e (NewMatch i mode a b qs valid key))"
proof -
  have "seat_ok (length qs) (new_seat x r (length qs)) \<and> st_state (new_seat x r (length qs)) = SeatNone" for x r
    by (auto simp: seat_ok_def new_seat_def resolvedCount_def list_all_iff sum_list_replicate no_answer_def [symmetric])
      (simp_all add: no_answer_def)
  then show ?thesis using assms by (auto simp: match_inv_def NewMatch_def Start_def n_questions_def seat_at_def)
qed

section \<open>Verdicts are final, and every due tick brings the end closer\<close>

fun seat_weight :: "nat \<Rightarrow> seat \<Rightarrow> nat" where
  "seat_weight n s = (case st_state s of SeatNone \<Rightarrow> 2 * n | SeatActive \<Rightarrow> 2 * (n - st_index s)
     | SeatReveal \<Rightarrow> 2 * (n - st_index s) - 1 | SeatDone \<Rightarrow> 0)"

definition match_weight :: "match \<Rightarrow> nat" where
  "match_weight m = (case mt_phase m of PhPending \<Rightarrow> 4 * n_questions m + 1
     | PhActive \<Rightarrow> seat_weight (n_questions m) (seat_at m 0) + seat_weight (n_questions m) (seat_at m 1) | PhFinished \<Rightarrow> 0)"

definition seat_grows :: "nat \<Rightarrow> seat \<Rightarrow> seat \<Rightarrow> bool" where
  "seat_grows n s s' \<longleftrightarrow> resolvedCount s \<le> resolvedCount s'
     \<and> take (resolvedCount s) (st_answers s') = take (resolvedCount s) (st_answers s) \<and> seat_weight n s' \<le> seat_weight n s"

definition match_grows :: "match \<Rightarrow> match \<Rightarrow> bool" where
  "match_grows m m' \<longleftrightarrow> n_questions m' = n_questions m \<and> (\<forall>i < 2. seat_grows (n_questions m) (seat_at m i) (seat_at m' i))"

lemma seat_grows_refl [simp, intro!]: "seat_grows n s s"
  by (simp add: seat_grows_def)

lemma seat_grows_trans: "seat_grows n s s' \<Longrightarrow> seat_grows n s' s'' \<Longrightarrow> seat_grows n s s''"
  unfolding seat_grows_def by (metis (no_types, lifting) min.absorb1 order_trans take_take)

lemma match_grows_refl [simp, intro!]: "match_grows m m"
  by (simp add: match_grows_def)

lemma match_grows_trans: "match_grows m m' \<Longrightarrow> match_grows m' m'' \<Longrightarrow> match_grows m m''"
  unfolding match_grows_def by (metis seat_grows_trans)

lemma match_growsI:
  assumes "n_questions m' = n_questions m" and "\<And>j. j < 2 \<Longrightarrow> seat_grows (n_questions m) (seat_at m j) (seat_at m' j)"
  shows "match_grows m m'"
  using assms by (simp add: match_grows_def)

lemma match_grows_same_seats: "n_questions m' = n_questions m \<Longrightarrow> (\<And>j. j < 2 \<Longrightarrow> seat_at m' j = seat_at m j) \<Longrightarrow> match_grows m m'"
  by (simp add: match_grows_def)

lemma seat_grows_flags [simp]: "seat_grows n s (s'\<lparr>st_disc := x, st_gen := g\<rparr>) = seat_grows n s s'"
  by (cases "st_state s'") (simp_all add: seat_grows_def resolvedCount_def)

lemma finish_grows [simp]: "match_grows m m' \<Longrightarrow> match_grows m (fst (finish e c r (m', d)))"
  by (simp add: match_grows_def)

lemma resolve_seat_grows:
  assumes "seat_ok n s" and "st_state s = SeatActive"
  shows "seat_grows n s (s\<lparr>st_answers := (st_answers s)[st_index s := ans], st_score := a, st_correct := b, st_resp := r,
      st_state := SeatReveal, st_next := t, st_last := l\<rparr>)"
    and "seat_weight n (s\<lparr>st_answers := (st_answers s)[st_index s := ans], st_score := a, st_correct := b, st_resp := r,
      st_state := SeatReveal, st_next := t, st_last := l\<rparr>) < seat_weight n s"
  using assms by (auto simp: seat_grows_def resolvedCount_def seat_ok_def)

lemma start_seat_grows:
  assumes "seat_ok n s" and "resolvedCount s = k" and "k < n" and "st_state s \<noteq> SeatActive"
  shows "seat_grows n s (s\<lparr>st_index := k, st_state := SeatActive, st_last := l, st_deadline := t, st_bot_at := b\<rparr>)"
    and "st_state s = SeatReveal \<Longrightarrow>
      seat_weight n (s\<lparr>st_index := k, st_state := SeatActive, st_last := l, st_deadline := t, st_bot_at := b\<rparr>) < seat_weight n s"
  using assms by (cases "st_state s"; auto simp: seat_grows_def resolvedCount_def seat_ok_def)+

lemma done_seat_grows:
  assumes "seat_ok n s" and "st_state s = SeatReveal"
  shows "seat_grows n s (s\<lparr>st_index := k, st_state := SeatDone\<rparr>)" and "seat_weight n (s\<lparr>st_index := k, st_state := SeatDone\<rparr>) < seat_weight n s"
  using assms by (auto simp: seat_grows_def resolvedCount_def seat_ok_def)

text \<open>What happens to a seat whose moment has come: it gets closer to its end, and the other seat is not touched.\<close>

definition seat_tick :: "nat \<Rightarrow> match \<Rightarrow> match \<Rightarrow> bool" where
  "seat_tick i m m' \<longleftrightarrow> match_grows m m' \<and> seat_weight (n_questions m) (seat_at m' i) < seat_weight (n_questions m) (seat_at m i)
     \<and> seat_at m' (other_seat i) = seat_at m (other_seat i) \<and> mt_phase m' \<in> {mt_phase m, PhFinished}"

lemma seat_tickI:
  assumes "i < 2" and "n_questions m' = n_questions m" and "mt_phase m' \<in> {mt_phase m, PhFinished}"
    and "\<And>j. j < 2 \<Longrightarrow> seat_at m' j = (if i = j then s' else seat_at m j)"
    and "seat_grows (n_questions m) (seat_at m i) s'" and "seat_weight (n_questions m) s' < seat_weight (n_questions m) (seat_at m i)"
  shows "seat_tick i m m'"
  using assms unfolding seat_tick_def match_grows_def by (metis other_seat_less(1,4) seat_grows_refl)

lemma resolve_tick:
  assumes inv: "match_inv m" and i: "i < 2" and act: "st_state (seat_at m i) = SeatActive"
  shows "seat_tick i m (resolve e i ans m)"
proof -
  have ok: "seat_ok (n_questions m) (seat_at m i)" using inv i by (simp add: match_inv_def)
  show ?thesis by (rule seat_tickI [OF i _ _ resolve_seat [OF i]]) (use resolve_seat_grows [OF ok act] in simp_all)
qed

lemma advance_tick:
  assumes inv: "match_inv m" and i: "i < 2" and rev: "st_state (seat_at m i) = SeatReveal"
  shows "seat_tick i m (fst (advance e c i (m, d)))"
proof -
  have ok: "seat_ok (n_questions m) (seat_at m i)" using inv i by (simp add: match_inv_def)
  have rc: "resolvedCount (seat_at m i) = st_index (seat_at m i) + 1" using rev by (simp add: resolvedCount_def)
  show ?thesis
  proof (cases rule: advance_cases [OF i, of m e c d, case_names next_question waiting over])
    case (next_question t b)
    show ?thesis by (rule seat_tickI [OF i _ _ next_question(6)])
      (use start_seat_grows [OF ok rc next_question(1), where l = None and t = t and b = b] rev next_question in simp_all)
  next
    case waiting
    show ?thesis by (rule seat_tickI [OF i _ _ waiting(6)]) (use done_seat_grows [OF ok rev] waiting in simp_all)
  next
    case (over mm)
    show ?thesis
      by (rule seat_tickI [OF i, where s' = "(seat_at m i)\<lparr>st_index := st_index (seat_at m i) + 1, st_state := SeatDone\<rparr>"])
        (use done_seat_grows [OF ok rev] over in simp_all)
  qed
qed

definition seat_due :: "int \<Rightarrow> seat \<Rightarrow> bool" where
  "seat_due now s = (case st_state s of SeatActive \<Rightarrow> (if st_bot s then st_bot_at s \<le> now else st_deadline s + AnswerGrace \<le> now)
     | SeatReveal \<Rightarrow> st_next s \<le> now | _ \<Rightarrow> False)"

lemma timer_seat_tick:
  assumes inv: "match_inv m" and ph: "mt_phase m = PhActive" and i: "i < 2"
  shows "if seat_due (now_at e ''onTimer'') (seat_at m i) then seat_tick i m (fst (timer_seat e c i (m, d)))
         else timer_seat e c i (m, d) = (m, d)"
  using ph by (auto simp: timer_seat_def Let_def seat_due_def botAnswer_def split: seat_state.splits
      intro!: resolve_tick [OF inv i] advance_tick [OF inv i])

lemma match_weight_active: "match_inv m \<Longrightarrow> mt_phase m = PhActive \<Longrightarrow> 0 < match_weight m"
  by (cases "st_state (seat_at m 0)"; cases "st_state (seat_at m 1)";
      auto simp: match_inv_def match_weight_def seat_ok_def all_seats ex_seat simp del: One_nat_def)

lemma match_weight_positive: "match_inv m \<Longrightarrow> mt_phase m \<noteq> PhFinished \<Longrightarrow> 0 < match_weight m"
  using match_weight_active by (cases "mt_phase m") (simp_all add: match_weight_def)

lemma grows_weight:
  assumes "match_grows m m'" and "mt_phase m' \<in> {mt_phase m, PhFinished}"
  shows "match_weight m' \<le> match_weight m"
  using assms by (cases "mt_phase m") (auto simp: match_grows_def match_weight_def all_seats seat_grows_def simp del: seat_weight.simps intro!: add_mono)

lemma tick_weight:
  assumes "seat_tick i m m'" and "i < 2" and inv: "match_inv m" and ph: "mt_phase m = PhActive"
  shows "match_weight m' < match_weight m"
proof (cases "mt_phase m' = PhFinished")
  case True
  then show ?thesis using match_weight_active [OF inv ph] by (simp add: match_weight_def)
next
  case False
  then show ?thesis using assms
    by (auto simp: seat_tick_def match_weight_def match_grows_def other_seat_def less_2_cases_iff simp del: seat_weight.simps)
qed

text \<open>\<open>nextWake\<close> names the first moment at which a seat is due.\<close>

lemma nextWake_due:
  assumes "mt_phase m = PhActive" and "nextWake m = Some t" and "t \<le> now"
  shows "\<exists>i < 2. seat_due now (seat_at m i)"
  using assms by (auto simp: nextWake_def Let_def seat_due_def seat_at_def ex_seat split: seat_state.splits if_splits)

lemma active_tick:
  assumes inv: "match_inv m" and ph: "mt_phase m = PhActive"
  shows "match_grows m (fst (onTimer e c (m, d))) \<and> match_weight (fst (onTimer e c (m, d))) \<le> match_weight m
     \<and> ((\<exists>i < 2. seat_due (now_at e ''onTimer'') (seat_at m i)) \<longrightarrow> match_weight (fst (onTimer e c (m, d))) < match_weight m)"
proof -
  let ?due = "seat_due (now_at e ''onTimer'')"
  obtain m1 d1 where s: "timer_seat e c 0 (m, d) = (m1, d1)" by (cases "timer_seat e c 0 (m, d)")
  have t0: "if ?due (seat_at m 0) then seat_tick 0 m m1 else m1 = m" using timer_seat_tick [OF inv ph, of 0 e c d] s by (simp split: if_splits)
  have inv1: "match_inv m1" using timer_seat_inv [OF inv, of 0 e c d] ph s by simp
  have g1: "match_grows m m1" using t0 by (auto simp: seat_tick_def split: if_splits)
  have w1: "if ?due (seat_at m 0) then match_weight m1 < match_weight m else m1 = m" using t0 tick_weight [OF _ _ inv ph, of 0 m1] by (auto split: if_splits)
  have same1: "seat_at m1 1 = seat_at m 1" using t0 by (auto simp: seat_tick_def other_seat_def split: if_splits)
  have ph1: "mt_phase m1 = PhActive \<or> mt_phase m1 = PhFinished" using t0 ph by (auto simp: seat_tick_def split: if_splits)
  obtain mm dd where s1: "timer_seat e c 1 (m1, d1) = (mm, dd)" by (cases "timer_seat e c 1 (m1, d1)")
  have t1: "if mt_phase m1 = PhActive \<and> ?due (seat_at m 1) then match_grows m1 mm \<and> match_weight mm < match_weight m1 else mm = m1"
  proof (cases "mt_phase m1 = PhActive")
    case True
    have "if ?due (seat_at m 1) then seat_tick 1 m1 mm else mm = m1"
      using timer_seat_tick [OF inv1 True, of 1 e c d1] s1 same1 by (simp split: if_splits)
    then show ?thesis using True tick_weight [OF _ _ inv1 True, of 1 mm] by (auto simp: seat_tick_def split: if_splits)
  next
    case False
    then show ?thesis using ph1 s1 by (simp add: timer_seat_def)
  qed
  have res: "onTimer e c (m, d) = (mm, dd)" using ph s s1 by (simp add: onTimer_def)
  have fin: "match_weight m1 < match_weight m" if "mt_phase m1 = PhFinished"
    using that match_weight_active [OF inv ph] by (simp add: match_weight_def)
  have "match_grows m mm" using t1 g1 match_grows_trans by (auto split: if_splits)
  moreover have "match_weight mm \<le> match_weight m" using t1 w1 by (auto split: if_splits)
  moreover have "match_weight mm < match_weight m" if "i < 2" "?due (seat_at m i)" for i
    using that t1 w1 fin ph1 by (auto simp: less_2_cases_iff split: if_splits)
  ultimately show ?thesis unfolding res by auto
qed

lemma onTimer_effect:
  assumes inv: "match_inv m"
  shows "match_grows m (fst (onTimer e c (m, d))) \<and> match_weight (fst (onTimer e c (m, d))) \<le> match_weight m
     \<and> ((\<exists>t. nextWake m = Some t \<and> t \<le> now_at e ''onTimer'') \<longrightarrow> match_weight (fst (onTimer e c (m, d))) < match_weight m)"
proof (cases "mt_phase m")
  case PhPending
  let ?m1 = "startQuestion e 1 0 (startQuestion e 0 0 (m\<lparr>mt_phase := PhActive\<rparr>))"
  have ok: "seat_ok (n_questions m) (seat_at m i)" "st_state (seat_at m i) = SeatNone" "resolvedCount (seat_at m i) = 0" "0 < n_questions m" if "i < 2" for i
    using inv PhPending that by (auto simp: match_inv_def seat_ok_def resolvedCount_def)
  have st: "seat_grows (n_questions m) (seat_at m j) (seat_at ?m1 j)" "seat_weight (n_questions m) (seat_at ?m1 j) = 2 * n_questions m" if j: "j < 2" for j
    by (rule first_questions [OF j, of e m], simp add: start_seat_grows ok [OF j])+
  have "match_grows m ?m1" by (rule match_growsI) (simp_all add: st(1) del: One_nat_def)
  moreover have "match_weight ?m1 = 4 * n_questions m" by (simp add: match_weight_def st(2) del: One_nat_def seat_weight.simps)
  ultimately show ?thesis using PhPending by (simp add: onTimer_def match_weight_def nextWake_def)
next
  case PhActive
  then show ?thesis using active_tick [OF inv PhActive, of e c d] nextWake_due [OF PhActive] by blast
next
  case PhFinished
  then show ?thesis by (simp add: onTimer_def nextWake_def)
qed

lemma match_grows_flags:
  assumes "n_questions m' = n_questions m" and "\<And>i. i < 2 \<Longrightarrow> \<exists>x g. seat_at m' i = (seat_at m i)\<lparr>st_disc := x, st_gen := g\<rparr>"
  shows "match_grows m m'"
proof (rule match_growsI [OF assms(1)])
  show "seat_grows (n_questions m) (seat_at m j) (seat_at m' j)" if "j < 2" for j using assms(2) [OF that] by auto
qed

lemma onAnswer_grows:
  assumes "match_inv m" and "i < 2"
  shows "match_grows m (onAnswer e i k a m) \<and> mt_phase (onAnswer e i k a m) = mt_phase m"
  using resolve_tick [OF assms] by (auto simp: onAnswer_def Let_def seat_tick_def intro: match_grows_same_seats)

lemma flagged_seats: "i < 2 \<Longrightarrow> j < 2 \<Longrightarrow> \<exists>x g. seat_at (set_seat i ((seat_at m i)\<lparr>st_disc := b\<rparr>) m) j = (seat_at m j)\<lparr>st_disc := x, st_gen := g\<rparr>"
proof (cases "i = j")
  case True
  assume "i < 2" and "j < 2"
  with True have "seat_at (set_seat i ((seat_at m i)\<lparr>st_disc := b\<rparr>) m) j = (seat_at m j)\<lparr>st_disc := b, st_gen := st_gen (seat_at m j)\<rparr>" by simp
  then show ?thesis by blast
next
  case False
  assume "i < 2" and "j < 2"
  with False have "seat_at (set_seat i ((seat_at m i)\<lparr>st_disc := b\<rparr>) m) j = seat_at m j" by simp
  then show ?thesis using seat_same_flags by metis
qed

lemma handle_grows:
  assumes inv: "match_inv m"
  shows "match_grows m (fst (handle e c ev (m, d))) \<and> mt_phase (fst (handle e c ev (m, d))) \<in> {mt_phase m, PhFinished}"
proof (cases ev)
  case EvAbort
  then show ?thesis by (simp add: handle_def)
next
  case (EvAnswer p k a)
  then show ?thesis using onAnswer_grows [OF inv] by (auto simp: handle_def split: option.splits dest: human_seat_less)
next
  case (EvDisconnect p)
  have "match_grows m (fst (on_disconnect e c i (m, d))) \<and> mt_phase (fst (on_disconnect e c i (m, d))) \<in> {mt_phase m, PhFinished}"
    if "i < 2" for i
  proof -
    let ?m1 = "send_msg (other_seat i) (MsgStatus False) (set_seat i ((seat_at m i)\<lparr>st_disc := True, st_gen := st_gen (seat_at m i) + 1\<rparr>) m)"
    have s: "\<exists>x g. seat_at ?m1 j = (seat_at m j)\<lparr>st_disc := x, st_gen := g\<rparr>" if "j < 2" for j
      using that \<open>i < 2\<close> by (auto intro: seat_same_flags)
    have g: "match_grows m (?m1\<lparr>mt_checks := cs\<rparr>)" for cs by (rule match_grows_flags) (use s in simp_all)
    have "match_grows m ?m1" by (rule match_grows_flags) (use s in simp_all)
    with g show ?thesis by (simp add: on_disconnect_def Let_def)
  qed
  then show ?thesis using EvDisconnect by (auto simp: handle_def split: option.splits dest: human_seat_less)
next
  case (EvForfeitCheck p g)
  then show ?thesis by (auto simp: handle_def split: option.splits intro!: finish_grows match_grows_same_seats)
next
  case (EvReconnect p)
  then show ?thesis using flagged_seats
    by (auto simp: handle_def Let_def split: option.splits dest!: human_seat_less intro!: match_grows_flags seat_same_flags)
next
  case (EvLeave p)
  then show ?thesis by (auto simp: handle_def split: option.splits intro!: finish_grows match_grows_same_seats)
qed

definition timer_due :: "arena_env \<Rightarrow> loop_input \<Rightarrow> arena_state \<Rightarrow> bool" where
  "timer_due e x s = (x = InTimer \<and> (case nextWake (fst s) of None \<Rightarrow> False | Some t \<Rightarrow> t \<le> now_at e ''onTimer''))"

lemma run_input_effect:
  assumes inv: "match_inv (fst s)"
  shows "match_grows (fst s) (fst (run_input e c x s))
    \<and> match_weight (fst (run_input e c x s)) + (if timer_due e x s then 1 else 0) \<le> match_weight (fst s)"
proof (cases "mt_phase (fst s) = PhFinished")
  case True
  then show ?thesis by (simp add: run_input_def timer_due_def nextWake_def)
next
  case False
  obtain m d where s: "s = (m, d)" by (cases s)
  show ?thesis
  proof (cases x)
    case (InEvent ev)
    have g: "match_grows m (fst (handle e c ev (m, d)))" "mt_phase (fst (handle e c ev (m, d))) \<in> {mt_phase m, PhFinished}"
      using handle_grows [of m e c ev d] inv s by simp_all
    then show ?thesis using False InEvent s grows_weight [OF g] by (simp add: run_input_def timer_due_def)
  next
    case InTimer
    then show ?thesis using False s onTimer_effect [of m e c d] inv by (auto simp: run_input_def timer_due_def split: option.splits)
  qed
qed

text \<open>How many of the inputs are timer ticks at or after the moment the loop had set its timer to.\<close>

fun due_ticks :: "arena_cfg \<Rightarrow> (arena_env \<times> loop_input) list \<Rightarrow> arena_state \<Rightarrow> nat" where
  "due_ticks c [] s = 0"
| "due_ticks c ((e, x) # xs) s = (if timer_due e x s then 1 else 0) + due_ticks c xs (run_input e c x s)"

lemma Run_effect:
  assumes "match_inv (fst s)"
  shows "match_grows (fst s) (fst (Run c xs s)) \<and> match_weight (fst (Run c xs s)) + due_ticks c xs s \<le> match_weight (fst s)"
  using assms
proof (induction c xs s rule: Run.induct)
  case (2 c e x xs s)
  then show ?case using run_input_effect [OF 2(2), of e c x] run_input_inv [OF 2(2), of e c x] match_grows_trans by fastforce
qed simp

lemma Run_finished: "mt_phase (fst s) = PhFinished \<Longrightarrow> Run c xs s = s"
  by (induction c xs s rule: Run.induct) (simp_all add: run_input_def)

section \<open>Claims about one duel\<close>

lemma started_inv:
  assumes "qs \<noteq> []"
  shows "match_inv (fst (Run c xs (Start e (NewMatch mid mode a b qs valid key), d)))"
  using Run_inv [of "(Start e (NewMatch mid mode a b qs valid key), d)" c xs] new_match_inv [OF assms] by simp

lemma started_frame [simp]: "n_questions (Start e (NewMatch mid mode a b qs valid key)) = length qs"
  by (simp add: Start_def NewMatch_def n_questions_def)

lemma started_questions:
  assumes "qs \<noteq> []"
  shows "n_questions (fst (Run c xs (Start e (NewMatch mid mode a b qs valid key), d))) = length qs"
proof -
  have "match_grows (Start e (NewMatch mid mode a b qs valid key)) (fst (Run c xs (Start e (NewMatch mid mode a b qs valid key), d)))"
    using Run_effect [of "(Start e (NewMatch mid mode a b qs valid key), d)" c xs] new_match_inv [OF assms] by simp
  then show ?thesis by (simp add: match_grows_def)
qed

lemma seat_score_bounds:
  assumes "seat_ok n s"
  shows "0 \<le> st_score s \<and> st_score s \<le> 100 * int n"
proof -
  have "0 \<le> sum_list (map pa_points xs) \<and> sum_list (map pa_points xs) \<le> 100 * int (length xs)" if "list_all verdict_ok xs" for xs
    using that by (induction xs) (auto simp: verdict_ok_def)
  then show ?thesis using assms by (auto simp: seat_ok_def)
qed

text \<open>
  C36: whatever answers, timer ticks, disconnects, reconnects and departures a duel sees, in any order, its state stays
  well formed: each player's score is the sum of the points of the recorded verdicts, the counters of right answers and
  of response time agree with them, questions not reached have no verdict, a score stays between 0 and 100 per
  question, and a duel that ended as completed has both players at the end of the list.
\<close>

theorem duel_well_formed:
  assumes "qs \<noteq> []" and "m = fst (Run c xs (Start e (NewMatch mid mode a b qs valid key), d))" and "i < 2"
  shows "length (st_answers (seat_at m i)) = length qs
    \<and> st_score (seat_at m i) = sum_list (map pa_points (st_answers (seat_at m i)))
    \<and> st_correct (seat_at m i) = int (length (filter pa_correct (st_answers (seat_at m i))))
    \<and> st_resp (seat_at m i) = sum_list (map pa_resp (st_answers (seat_at m i)))
    \<and> drop (resolvedCount (seat_at m i)) (st_answers (seat_at m i)) = replicate (length qs - resolvedCount (seat_at m i)) no_answer
    \<and> 0 \<le> st_score (seat_at m i) \<and> st_score (seat_at m i) \<le> 100 * int (length qs)
    \<and> (mt_phase m = PhFinished \<and> mt_reason m = EndCompleted \<longrightarrow> resolvedCount (seat_at m i) = length qs)"
proof -
  have inv: "match_inv m" and n: "n_questions m = length qs" using started_inv started_questions assms(1,2) by simp_all
  have ok: "seat_ok (length qs) (seat_at m i)" using inv n assms(3) by (simp add: match_inv_def)
  have "resolvedCount (seat_at m i) = length qs" if "mt_phase m = PhFinished" "mt_reason m = EndCompleted"
    using inv ok assms(3) that by (simp add: match_inv_def seat_ok_def resolvedCount_def)
  then show ?thesis using ok seat_score_bounds [OF ok] by (simp add: seat_ok_def)
qed

text \<open>
  A verdict is final. Once a question has one, nothing that happens later changes it or takes it back, and a
  finished duel does not change at all.
\<close>

theorem duel_verdicts_final:
  assumes "qs \<noteq> []" and "s = Run c xs (Start e (NewMatch mid mode a b qs valid key), d)" and "s' = Run c ys s" and "i < 2"
  shows "resolvedCount (seat_at (fst s) i) \<le> resolvedCount (seat_at (fst s') i)
    \<and> take (resolvedCount (seat_at (fst s) i)) (st_answers (seat_at (fst s') i))
        = take (resolvedCount (seat_at (fst s) i)) (st_answers (seat_at (fst s) i))
    \<and> (mt_phase (fst s) = PhFinished \<longrightarrow> s' = s)"
proof -
  have "match_inv (fst s)" using started_inv [OF assms(1)] assms(2) by simp
  then show ?thesis using Run_effect [of s c ys] Run_finished [of s c ys] assms(3,4)
    by (simp add: match_grows_def seat_grows_def)
qed

lemma nextWake_set:
  assumes inv: "match_inv m" and ph: "mt_phase m \<noteq> PhFinished"
  shows "nextWake m \<noteq> None"
proof (cases "mt_phase m")
  case PhActive
  then have "st_state (mt_seat0 m) = SeatActive \<or> st_state (mt_seat0 m) = SeatReveal \<or> st_state (mt_seat1 m) = SeatActive \<or> st_state (mt_seat1 m) = SeatReveal"
    using inv by (auto simp: match_inv_def all_seats ex_seat seat_at_def intro: seat_state.exhaust)
  then show ?thesis using PhActive
    by (cases "st_state (mt_seat0 m)"; cases "st_state (mt_seat1 m)") (simp_all add: nextWake_def Let_def)
qed (use ph in \<open>simp_all add: nextWake_def\<close>)

text \<open>Timer ticks that come when the loop asked for them, until the duel is over.\<close>

fun timely :: "arena_cfg \<Rightarrow> arena_env list \<Rightarrow> arena_state \<Rightarrow> bool" where
  "timely c [] s = True"
| "timely c (e # es) s = ((mt_phase (fst s) = PhFinished \<or> timer_due e InTimer s) \<and> timely c es (run_input e c InTimer s))"

definition ticks :: "arena_env list \<Rightarrow> (arena_env \<times> loop_input) list" where
  "ticks es = map (\<lambda>e. (e, InTimer)) es"

lemma timely_due: "timely c es s \<Longrightarrow> mt_phase (fst (Run c (ticks es) s)) = PhFinished \<or> due_ticks c (ticks es) s = length es"
proof (induction es arbitrary: s)
  case (Cons e es)
  show ?case
  proof (cases "mt_phase (fst s) = PhFinished")
    case True
    then show ?thesis using Run_finished by metis
  next
    case False
    then show ?thesis using Cons by (auto simp: ticks_def)
  qed
qed (simp add: ticks_def)

text \<open>
  C37: a duel always ends. After any history, a duel that is not over has its timer set; and the timer alone finishes it:
  4n + 1 ticks for n questions are enough, even when neither player answers.
\<close>

theorem duel_ends:
  assumes "qs \<noteq> []" and "s = Run c xs (Start e (NewMatch mid mode a b qs valid key), d)" and "timely c es s" and "4 * length qs < length es"
  shows "mt_phase (fst (Run c (ticks es) s)) = PhFinished \<and> (mt_phase (fst s) \<noteq> PhFinished \<longrightarrow> nextWake (fst s) \<noteq> None)"
proof -
  let ?m0 = "Start e (NewMatch mid mode a b qs valid key)"
  have inv: "match_inv (fst s)" "match_inv ?m0" using started_inv [OF assms(1)] new_match_inv [OF assms(1)] assms(2) by simp_all
  have "match_weight ?m0 = 4 * length qs + 1" by (simp add: match_weight_def Start_def NewMatch_def n_questions_def)
  then have w: "match_weight (fst s) \<le> 4 * length qs + 1" using Run_effect [of "(?m0, d)" c xs] inv(2) assms(2) by simp
  have fin: "mt_phase (fst (Run c (ticks es) s)) = PhFinished"
  proof (rule ccontr)
    assume a: "mt_phase (fst (Run c (ticks es) s)) \<noteq> PhFinished"
    then have "due_ticks c (ticks es) s = length es" using timely_due [OF assms(3)] by blast
    then have "match_weight (fst (Run c (ticks es) s)) = 0" using Run_effect [OF inv(1), of c "ticks es"] w assms(4) by simp
    then show False using match_weight_positive [OF Run_inv [OF inv(1)] a] by simp
  qed
  with fin show ?thesis using nextWake_set [OF inv(1)] by blast
qed

section \<open>A concrete duel\<close>

text \<open>Two questions, two players; every handler runs at the time of its tick. The fixture learning tables are those of the exams.\<close>

definition fx_tick :: "int \<Rightarrow> arena_env" where
  "fx_tick t = \<lparr>ae_env = fx_study_env\<lparr>clk := (\<lambda>_. t * second)\<rparr>, ae_float = (\<lambda>_. 0), ae_pick = 0, ae_attempts = (\<lambda>_. (0, fx_study_env))\<rparr>"

definition fx_arena :: arena_cfg where
  "fx_arena = \<lparr>ac_elo = (\<lambda>a b s. go_round (32 * (s - 1 / 2))), ac_fsrs = (\<lambda>_ _ _. (1, 5, 1)), ac_has_billing = False, ac_station = None\<rparr>"

definition fx_arena_db :: arena_db where
  "fx_arena_db = \<lparr>adb_study = fx_study,
     adb_matches = [\<lparr>am_id = 70, am_mode = ModeRanked, am_questions = [1, 2], am_finished = False, am_reason = EndNone\<rparr>],
     adb_players = [], adb_answers = [], adb_ratings = (\<lambda>_. None), adb_applied = (\<lambda>_. None), adb_hub = (\<lambda>i. if i = 1 \<or> i = 2 then Some 70 else None)\<rparr>"

definition fx_player :: "uuid \<Rightarrow> SeatSpec" where
  "fx_player i = \<lparr>ss_id = i, ss_locale = ''uz'', ss_rating = 1000, ss_bot = False\<rparr>"

definition fx_valid :: "uuid \<Rightarrow> uuid list option" where
  "fx_valid q = (if q = 1 then Some [10, 11] else if q = 2 then Some [20, 21] else None)"

definition fx_key :: "uuid \<Rightarrow> uuid option" where
  "fx_key q = (if q = 1 then Some 10 else if q = 2 then Some 20 else None)"

definition fx_start_at :: arena_state where
  "fx_start_at = (Start (fx_tick 0) (NewMatch 70 ModeRanked (fx_player 1) (fx_player 2) [1, 2] fx_valid fx_key), fx_arena_db)"

text \<open>Player 1 answers the first question at once and rightly, player 2 wrongly after five seconds.\<close>

definition fx_inputs :: "(arena_env \<times> loop_input) list" where
  "fx_inputs = [(fx_tick 3, InTimer), (fx_tick 3, InEvent (EvAnswer 1 0 10)), (fx_tick 8, InEvent (EvAnswer 2 0 11)), (fx_tick 8, InTimer)]"

theorem duel_well_formed_witness:
  "st_score (mt_seat0 (fst (Run fx_arena fx_inputs fx_start_at))) = 100 \<and> st_score (mt_seat0 (fst (Run fx_arena fx_inputs fx_start_at))) \<le> 200"
proof -
  have "[1, 2 :: nat] \<noteq> []" "0 < (2 :: nat)" by simp_all
  note b = duel_well_formed [OF this(1) refl this(2), of fx_arena fx_inputs "fx_tick 0" 70 ModeRanked "fx_player 1" "fx_player 2" fx_valid fx_key fx_arena_db]
  have "st_score (mt_seat0 (fst (Run fx_arena fx_inputs fx_start_at))) = 100" by code_simp
  then show ?thesis using b by (simp add: fx_start_at_def seat_at_def)
qed

theorem duel_verdicts_final_witness:
  "\<exists>s'. s' = Run fx_arena (ticks [fx_tick 30, fx_tick 40]) (Run fx_arena fx_inputs fx_start_at)
     \<and> take 1 (st_answers (mt_seat0 (fst s'))) = [\<lparr>pa_answered = True, pa_answer = 10, pa_correct = True, pa_resp = 0, pa_points = 100, pa_at = 3 * second\<rparr>]
     \<and> 1 \<le> resolvedCount (mt_seat0 (fst s'))"
proof -
  have "[1, 2 :: nat] \<noteq> []" "0 < (2 :: nat)" by simp_all
  note b = duel_verdicts_final [OF this(1) refl refl this(2), of fx_arena fx_inputs "fx_tick 0" 70 ModeRanked "fx_player 1" "fx_player 2" fx_valid fx_key fx_arena_db
      "ticks [fx_tick 30, fx_tick 40]"]
  have r: "resolvedCount (mt_seat0 (fst (Run fx_arena fx_inputs fx_start_at))) = 1"
    "take 1 (st_answers (mt_seat0 (fst (Run fx_arena fx_inputs fx_start_at)))) = [\<lparr>pa_answered = True, pa_answer = 10, pa_correct = True, pa_resp = 0, pa_points = 100, pa_at = 3 * second\<rparr>]"
    by code_simp+
  show ?thesis using b by (simp add: fx_start_at_def [symmetric] seat_at_def r del: One_nat_def)
qed

definition fx_ticks :: "arena_env list" where
  "fx_ticks = map fx_tick [40, 60, 80, 100, 120, 140, 160, 180, 200]"

theorem duel_ends_witness:
  "mt_phase (fst (Run fx_arena (ticks fx_ticks) (Run fx_arena fx_inputs fx_start_at))) = PhFinished"
proof -
  have "[1, 2 :: nat] \<noteq> []" by simp
  moreover have "timely fx_arena fx_ticks (Run fx_arena fx_inputs (Start (fx_tick 0) (NewMatch 70 ModeRanked (fx_player 1) (fx_player 2) [1, 2] fx_valid fx_key), fx_arena_db))"
    by code_simp
  moreover have "4 * length [1, 2 :: nat] < length fx_ticks" by (simp add: fx_ticks_def)
  ultimately show ?thesis using duel_ends [OF _ refl] unfolding fx_start_at_def by blast
qed

end
