(* ===== verification/Arena_Views.thy ===== *)
theory Arena_Views
  imports Arena_Properties
begin

text \<open>
  What a player can learn during a duel. Two runs of the same duel that differ only in which of the offered options
  the opponent picked send this player the same messages, except for \<open>match.end\<close>.
\<close>

section \<open>Runs that differ in the opponent's choices\<close>

text \<open>A player's messages, without the final one.\<close>

fun is_end :: "arena_msg \<Rightarrow> bool" where
  "is_end (MsgEnd _) = True"
| "is_end _ = False"

definition view :: "nat \<Rightarrow> match \<Rightarrow> (nat \<times> arena_msg) list" where
  "view i m = filter (\<lambda>(j, x). j = i \<and> \<not> is_end x) (mt_sent m)"

definition offered :: "match \<Rightarrow> nat \<Rightarrow> uuid \<Rightarrow> bool" where
  "offered m k a = (case mt_valid m (mt_questions m ! k) of None \<Rightarrow> True | Some options \<Rightarrow> a \<in> set options)"

fun same_but_choice :: "nat \<Rightarrow> match \<Rightarrow> loop_input \<Rightarrow> loop_input \<Rightarrow> bool" where
  "same_but_choice i m (InEvent (EvAnswer p k a)) (InEvent (EvAnswer p' k' a')) =
     (p' = p \<and> k' = k \<and> (a' = a \<or> (human_seat m p = Some (other_seat i) \<and> offered m k a \<and> offered m k a')))"
| "same_but_choice i m x x' = (x' = x)"

text \<open>Everything about the opponent's seat except its verdicts.\<close>

definition seat_alike :: "seat \<Rightarrow> seat \<Rightarrow> bool" where
  "seat_alike s s' \<longleftrightarrow> st_id s' = st_id s \<and> st_locale s' = st_locale s \<and> st_rating s' = st_rating s \<and> st_bot s' = st_bot s
     \<and> st_accuracy s' = st_accuracy s \<and> st_index s' = st_index s \<and> st_state s' = st_state s \<and> st_deadline s' = st_deadline s
     \<and> st_next s' = st_next s \<and> st_bot_at s' = st_bot_at s \<and> st_disc s' = st_disc s \<and> st_gen s' = st_gen s
     \<and> length (st_answers s') = length (st_answers s)"

definition same_rules :: "match \<Rightarrow> match \<Rightarrow> bool" where
  "same_rules m m' \<longleftrightarrow> mt_questions m' = mt_questions m \<and> mt_correct m' = mt_correct m \<and> mt_valid m' = mt_valid m
     \<and> (\<forall>i < 2. st_id (seat_at m' i) = st_id (seat_at m i) \<and> st_bot (seat_at m' i) = st_bot (seat_at m i))"

definition alike :: "nat \<Rightarrow> match \<Rightarrow> match \<Rightarrow> match \<Rightarrow> bool" where
  "alike i m0 m m' \<longleftrightarrow> same_rules m0 m \<and> mt_questions m' = mt_questions m \<and> mt_correct m' = mt_correct m \<and> mt_valid m' = mt_valid m
     \<and> mt_phase m' = mt_phase m \<and> mt_start m' = mt_start m \<and> view i m' = view i m
     \<and> seat_at m' i = seat_at m i \<and> seat_alike (seat_at m (other_seat i)) (seat_at m' (other_seat i))"

lemma alike_refl: "alike i m m m"
  by (simp add: alike_def same_rules_def seat_alike_def)

lemma two_seats: "i < 2 \<Longrightarrow> j < 2 \<Longrightarrow> j = i \<or> j = other_seat i"
  by (auto simp: other_seat_def less_2_cases_iff)

lemma alikeD:
  assumes "alike i m0 m m'"
  shows "mt_questions m' = mt_questions m" "mt_correct m' = mt_correct m" "mt_valid m' = mt_valid m" "mt_phase m' = mt_phase m"
    "mt_start m' = mt_start m" "seat_at m' i = seat_at m i" "seat_alike (seat_at m (other_seat i)) (seat_at m' (other_seat i))"
    "view i m' = view i m" "n_questions m' = n_questions m"
  using assms by (simp_all add: alike_def n_questions_def)

lemma alike_seats:
  assumes "alike i m0 m m'" and "i < 2" and "j < 2"
  shows "seat_alike (seat_at m j) (seat_at m' j)"
  using two_seats [OF assms(2,3)] alikeD(6,7) [OF assms(1)] by (auto simp: seat_alike_def)

lemma seat_alikeD:
  assumes "seat_alike s s'"
  shows "st_id s' = st_id s" "st_locale s' = st_locale s" "st_bot s' = st_bot s" "st_accuracy s' = st_accuracy s" "st_index s' = st_index s"
    "st_state s' = st_state s" "st_deadline s' = st_deadline s" "st_next s' = st_next s" "st_bot_at s' = st_bot_at s" "st_disc s' = st_disc s"
    "st_gen s' = st_gen s" "length (st_answers s') = length (st_answers s)" "resolvedCount s' = resolvedCount s"
  using assms by (simp_all add: seat_alike_def resolvedCount_def split: seat_state.split)

section \<open>Steps that keep two runs alike\<close>

lemma view_send: "view i (send_msg j x m) = view i m @ (if j = i \<and> \<not> is_end x \<and> \<not> st_bot (seat_at m j) then [(j, x)] else [])"
  by (simp add: view_def send_msg_def)

lemma view_frame [simp]: "view i (set_seat j s m) = view i m" "view i (m\<lparr>mt_phase := p\<rparr>) = view i m" "view i (m\<lparr>mt_reason := r\<rparr>) = view i m"
  "view i (m\<lparr>mt_quitter := q\<rparr>) = view i m" "view i (m\<lparr>mt_checks := cs\<rparr>) = view i m" "view i (m\<lparr>mt_stored := b\<rparr>) = view i m"
  by (simp_all add: view_def)

lemma same_rules_frame [simp]:
  "same_rules m0 (send_msg j x m) = same_rules m0 m" "same_rules m0 (m\<lparr>mt_phase := p\<rparr>) = same_rules m0 m"
  "same_rules m0 (m\<lparr>mt_reason := r\<rparr>) = same_rules m0 m" "same_rules m0 (m\<lparr>mt_quitter := q\<rparr>) = same_rules m0 m"
  "same_rules m0 (m\<lparr>mt_checks := cs\<rparr>) = same_rules m0 m" "same_rules m0 (m\<lparr>mt_stored := b\<rparr>) = same_rules m0 m"
  by (simp_all add: same_rules_def)

lemma alike_stored [simp]:
  "alike i m0 (m\<lparr>mt_stored := b\<rparr>) m' = alike i m0 m m'" "alike i m0 m (m'\<lparr>mt_stored := b\<rparr>) = alike i m0 m m'"
  by (simp_all add: alike_def)

lemma alike_send:
  assumes "alike i m0 m m'" and "i < 2" and "j < 2" and "j = i \<Longrightarrow> x' = x \<or> is_end x \<and> is_end x'"
  shows "alike i m0 (send_msg j x m) (send_msg j x' m')"
  using assms(1,4) seat_alikeD(3) [OF alike_seats [OF assms(1-3)]] by (auto simp: alike_def view_send)

lemma alike_set:
  assumes "alike i m0 m m'" and "i < 2" and "j < 2" and "seat_alike s s'" and "j = i \<Longrightarrow> s' = s"
    and "st_id s = st_id (seat_at m j)" and "st_bot s = st_bot (seat_at m j)"
  shows "alike i m0 (set_seat j s m) (set_seat j s' m')"
  using assms two_seats [OF assms(2,3)] by (auto simp: alike_def same_rules_def)

lemma alike_fields:
  assumes "alike i m0 m m'"
  shows "alike i m0 (m\<lparr>mt_phase := p\<rparr>) (m'\<lparr>mt_phase := p\<rparr>)" "alike i m0 (m\<lparr>mt_reason := r\<rparr>) (m'\<lparr>mt_reason := r\<rparr>)"
    "alike i m0 (m\<lparr>mt_quitter := q\<rparr>) (m'\<lparr>mt_quitter := q\<rparr>)" "alike i m0 (m\<lparr>mt_checks := cs\<rparr>) (m'\<lparr>mt_checks := cs'\<rparr>)"
  using assms by (simp_all add: alike_def)

lemma finish_alike:
  assumes "alike i m0 m m'" and "i < 2"
  shows "alike i m0 (fst (finish e c r (m, d))) (fst (finish e c r (m', d')))"
proof (cases "mt_phase m = PhFinished")
  case True
  then show ?thesis using assms alikeD(4) [OF assms(1)] by (simp add: finish_def)
next
  case False
  have base: "alike i m0 (m\<lparr>mt_phase := PhFinished, mt_reason := r\<rparr>) (m'\<lparr>mt_phase := PhFinished, mt_reason := r\<rparr>)"
    using assms(1) by (intro alike_fields)
  have one: "alike i m0 n (send_msg j (MsgEnd y) n')" if "alike i m0 n n'" "j < 2" for j y n n'
    using that by (simp add: alike_def view_send)
  have other: "alike i m0 (send_msg j (MsgEnd y) n) n'" if "alike i m0 n n'" "j < 2" for j y n n'
    using that by (simp add: alike_def view_send)
  show ?thesis using False alikeD(4) [OF assms(1)] base
    by (auto simp: finish_def Let_def split: prod.splits option.splits intro!: one other)
qed

lemma startQuestion_alike:
  assumes al: "alike i m0 m m'" and i: "i < 2" and j: "j < 2"
  shows "alike i m0 (startQuestion e j k m) (startQuestion e j k m')"
proof -
  note s = alike_seats [OF al i j] and q = alikeD [OF al]
  let ?t = "now_at e ''startQuestion'' + qTime"
  have robot: "alike i m0 (set_seat j ((seat_at m j)\<lparr>st_index := k, st_state := SeatActive, st_last := None, st_deadline := ?t, st_bot_at := b\<rparr>) m)
      (set_seat j ((seat_at m' j)\<lparr>st_index := k, st_state := SeatActive, st_last := None, st_deadline := ?t, st_bot_at := b\<rparr>) m')" for b
    by (rule alike_set [OF al i j]) (use s q in \<open>auto simp: seat_alike_def\<close>)
  have human: "alike i m0 (set_seat j ((seat_at m j)\<lparr>st_index := k, st_state := SeatActive, st_last := None, st_deadline := ?t\<rparr>) m)
      (set_seat j ((seat_at m' j)\<lparr>st_index := k, st_state := SeatActive, st_last := None, st_deadline := ?t\<rparr>) m')"
    by (rule alike_set [OF al i j]) (use s q in \<open>auto simp: seat_alike_def\<close>)
  show ?thesis using robot human by (simp add: startQuestion_def Let_def seat_alikeD [OF s] q alike_send i j)
qed

lemma resolve_alike:
  assumes al: "alike i m0 m m'" and i: "i < 2" and j: "j < 2" and same: "j = i \<Longrightarrow> ans' = ans"
  shows "alike i m0 (resolve e j ans m) (resolve e j ans' m')"
proof -
  note s = alike_seats [OF al i j] and q = alikeD [OF al]
  have r: "answer_result m' k a sc = answer_result m k a sc" for k a sc using q by (simp add: answer_result_def the_key_def)
  show ?thesis unfolding resolve_def Let_def
    by (intro alike_send alike_set al i j) (use s q r same in \<open>auto simp: seat_alike_def\<close>)
qed

lemma human_seat_alike:
  assumes "alike i m0 m m'" and "i < 2"
  shows "human_seat m' p = human_seat m p" and "human_seat m p = human_seat m0 p"
proof -
  have s: "st_id (seat_at m' j) = st_id (seat_at m j)" "st_bot (seat_at m' j) = st_bot (seat_at m j)" if "j < 2" for j
    using alike_seats [OF assms that] by (simp_all add: seat_alike_def)
  have r: "st_id (seat_at m j) = st_id (seat_at m0 j)" "st_bot (seat_at m j) = st_bot (seat_at m0 j)" if "j < 2" for j
    using assms(1) that by (simp_all add: alike_def same_rules_def)
  show "human_seat m' p = human_seat m p" using s [of 0] s [of 1] by (simp add: human_seat_def seatOf_def seat_at_def)
  show "human_seat m p = human_seat m0 p" using r [of 0] r [of 1] by (simp add: human_seat_def seatOf_def seat_at_def)
qed

lemma onAnswer_alike:
  assumes al: "alike i m0 m m'" and i: "i < 2" and j: "j < 2"
    and choice: "a' = a \<or> j = other_seat i \<and> offered m0 k a \<and> offered m0 k a'"
  shows "alike i m0 (onAnswer e j k a m) (onAnswer e j k a' m')"
proof -
  note s = seat_alikeD [OF alike_seats [OF al i j]] and q = alikeD [OF al]
  have err: "alike i m0 (send_msg j (MsgError x) m) (send_msg j (MsgError x) m')" for x by (rule alike_send [OF al i j]) simp
  have own: "j \<noteq> i" if "a' \<noteq> a" using choice that i by auto
  have off: "offered m k a' = offered m k a" using choice al by (auto simp: offered_def alike_def same_rules_def)
  have sc: "scoreAnswer m' r a' x y = scoreAnswer m r a' x y" for r x y using q by (simp add: scoreAnswer_def the_key_def)
  have res: "alike i m0 (resolve e j (scoreAnswer m r a x y) m) (resolve e j (scoreAnswer m r a' x y) m')" for r x y
    by (rule resolve_alike [OF al i j]) (use own in auto)
  have rm: "response_ms (seat_at m' j) t = response_ms (seat_at m j) t" for t using s by (simp add: response_ms_def)
  show ?thesis
  proof (cases "mt_phase m = PhActive \<and> st_state (seat_at m j) = SeatActive \<and> k = st_index (seat_at m j)
      \<and> now_at e ''onAnswer'' \<le> st_deadline (seat_at m j) + AnswerGrace")
    case True
    have "(case mt_valid m (mt_questions m ! k) of None \<Rightarrow> False | Some options \<Rightarrow> x \<notin> set options) = (\<not> offered m k x)" for x
      by (simp add: offered_def split: option.split)
    then show ?thesis using True off err res by (simp add: onAnswer_def Let_def s q sc rm)
  next
    case False
    then show ?thesis using err by (auto simp: onAnswer_def Let_def s q)
  qed
qed

lemma advance_alike:
  assumes al: "alike i m0 m m'" and i: "i < 2" and j: "j < 2"
  shows "alike i m0 (fst (advance e c j (m, d))) (fst (advance e c j (m', d')))"
proof -
  note s = alike_seats [OF al i j] and q = alikeD [OF al]
  note os = seat_alikeD [OF alike_seats [OF al i other_seat_less(1) [of j]]]
  let ?k = "st_index (seat_at m j) + 1"
  have a1: "alike i m0 (set_seat j ((seat_at m j)\<lparr>st_index := ?k\<rparr>) m) (set_seat j ((seat_at m' j)\<lparr>st_index := ?k\<rparr>) m')"
    by (rule alike_set [OF al i j]) (use s q in \<open>auto simp: seat_alike_def\<close>)
  have a2: "alike i m0 (set_seat j ((seat_at m j)\<lparr>st_index := ?k, st_state := SeatDone\<rparr>) m)
      (set_seat j ((seat_at m' j)\<lparr>st_index := ?k, st_state := SeatDone\<rparr>) m')"
    by (rule alike_set [OF al i j]) (use s q in \<open>auto simp: seat_alike_def\<close>)
  have a3: "alike i m0 (send_msg (other_seat j) x (set_seat j ((seat_at m j)\<lparr>st_index := ?k, st_state := SeatDone\<rparr>) m))
      (send_msg (other_seat j) x (set_seat j ((seat_at m' j)\<lparr>st_index := ?k, st_state := SeatDone\<rparr>) m'))" for x
    by (rule alike_send [OF a2 i]) simp_all
  have own: "st_score (seat_at m' j) = st_score (seat_at m j) \<and> st_correct (seat_at m' j) = st_correct (seat_at m j)" if "j = i"
    using q that by simp
  have wait: "alike i m0 (send_msg j (MsgWaiting (st_score (seat_at m j)) (st_correct (seat_at m j))) n)
      (send_msg j (MsgWaiting (st_score (seat_at m' j)) (st_correct (seat_at m' j))) n')" if "alike i m0 n n'" for n n'
    by (rule alike_send [OF that i j]) (use own in simp)
  show ?thesis using i j os(6) startQuestion_alike [OF a1 i j] finish_alike [OF a3 i] wait [OF a3]
    by (simp add: advance_def Let_def seat_alikeD [OF s] q)
qed

lemma timer_seat_alike:
  assumes al: "alike i m0 m m'" and i: "i < 2" and j: "j < 2"
  shows "alike i m0 (fst (timer_seat e c j (m, d))) (fst (timer_seat e c j (m', d')))"
proof -
  note s = seat_alikeD [OF alike_seats [OF al i j]] and q = alikeD [OF al]
  have sc: "scoreAnswer m' r a x y = scoreAnswer m r a x y" for r a x y using q by (simp add: scoreAnswer_def the_key_def)
  have rm: "response_ms (seat_at m' j) t = response_ms (seat_at m j) t" for t using s by (simp add: response_ms_def)
  have key: "the_key m' x = the_key m x" for x using q by (simp add: the_key_def)
  have bot: "alike i m0 (botAnswer e j m) (botAnswer e j m')"
    unfolding botAnswer_def Let_def by (simp add: s q sc rm key resolve_alike [OF al i j])
  show ?thesis using bot resolve_alike [OF al i j refl] advance_alike [OF al i j] al
    by (auto simp: timer_seat_def Let_def s q split: seat_state.split)
qed

lemma onTimer_alike:
  assumes al: "alike i m0 m m'" and i: "i < 2"
  shows "alike i m0 (fst (onTimer e c (m, d))) (fst (onTimer e c (m', d')))"
proof -
  note q = alikeD [OF al]
  obtain m1 d1 where s: "timer_seat e c 0 (m, d) = (m1, d1)" by (cases "timer_seat e c 0 (m, d)")
  obtain n1 e1 where s': "timer_seat e c 0 (m', d') = (n1, e1)" by (cases "timer_seat e c 0 (m', d')")
  have "alike i m0 m1 n1" using timer_seat_alike [OF al i, of 0 e c d d'] s s' by simp
  then have "alike i m0 (fst (timer_seat e c 1 (m1, d1))) (fst (timer_seat e c 1 (n1, e1)))" using i by (intro timer_seat_alike) simp_all
  then show ?thesis using s s' al i by (cases "mt_phase m") (auto simp: onTimer_def q intro!: startQuestion_alike alike_fields)
qed

lemma snapshot_alike:
  assumes "alike i m0 m m'" and "i < 2"
  shows "stateSnapshot e i m' = stateSnapshot e i m"
  using alikeD [OF assms(1)] seat_alikeD [OF alikeD(7) [OF assms(1)]] by (simp add: stateSnapshot_def Let_def question_at_def split: seat_state.split)

lemma on_disconnect_alike:
  assumes al: "alike i m0 m m'" and i: "i < 2" and j: "j < 2"
  shows "alike i m0 (fst (on_disconnect e c j (m, d))) (fst (on_disconnect e c j (m', d')))"
proof -
  note s = alike_seats [OF al i j]
  note os = seat_alikeD [OF alike_seats [OF al i other_seat_less(1) [of j]]]
  have a1: "alike i m0 (set_seat j ((seat_at m j)\<lparr>st_disc := True, st_gen := g\<rparr>) m) (set_seat j ((seat_at m' j)\<lparr>st_disc := True, st_gen := g\<rparr>) m')" for g
    by (rule alike_set [OF al i j]) (use s alikeD [OF al] in \<open>auto simp: seat_alike_def\<close>)
  have a2: "alike i m0 (send_msg (other_seat j) x (set_seat j ((seat_at m j)\<lparr>st_disc := True, st_gen := g\<rparr>) m))
      (send_msg (other_seat j) x (set_seat j ((seat_at m' j)\<lparr>st_disc := True, st_gen := g\<rparr>) m'))" for g x
    by (rule alike_send [OF a1 i]) simp_all
  show ?thesis using al os(3,10) finish_alike [OF a2 i] alike_fields(4) [OF a2]
    by (simp add: on_disconnect_def Let_def seat_alikeD [OF s])
qed

lemma reconnect_alike:
  assumes al: "alike i m0 m m'" and i: "i < 2" and j: "j < 2"
  shows "alike i m0 (fst (handle e c (EvReconnect p) (m, d))) (fst (handle e c (EvReconnect p) (m', d')))"
proof (cases "human_seat m p")
  case None
  then show ?thesis using al human_seat_alike [OF al i] by (simp add: handle_def)
next
  case (Some j)
  have j: "j < 2" using Some by (rule human_seat_less)
  note s = alike_seats [OF al i j]
  have a1: "alike i m0 (set_seat j ((seat_at m j)\<lparr>st_disc := False\<rparr>) m) (set_seat j ((seat_at m' j)\<lparr>st_disc := False\<rparr>) m')"
    by (rule alike_set [OF al i j]) (use s alikeD [OF al] in \<open>auto simp: seat_alike_def\<close>)
  have a2: "alike i m0 (send_msg (other_seat j) (MsgStatus True) (set_seat j ((seat_at m j)\<lparr>st_disc := False\<rparr>) m))
      (send_msg (other_seat j) (MsgStatus True) (set_seat j ((seat_at m' j)\<lparr>st_disc := False\<rparr>) m'))"
    by (rule alike_send [OF a1 i]) simp_all
  have snap: "alike i m0 (send_msg j (MsgState (stateSnapshot e j n)) n) (send_msg j (MsgState (stateSnapshot e j n')) n')"
    if "alike i m0 n n'" for n n'
    by (rule alike_send [OF that i j]) (use snapshot_alike [OF that i] in auto)
  show ?thesis using Some human_seat_alike [OF al i] snap [OF al] snap [OF a2]
    by (simp add: handle_def Let_def seat_alikeD [OF s])
qed

lemma handle_alike:
  assumes al: "alike i m0 m m'" and i: "i < 2"
  shows "alike i m0 (fst (handle e c ev (m, d))) (fst (handle e c ev (m', d')))"
proof -
  note h = human_seat_alike(1) [OF al i]
  show ?thesis
  proof (cases ev)
    case EvAbort
    then show ?thesis using finish_alike [OF al i] by (simp add: handle_def)
  next
    case (EvAnswer p k a)
    then show ?thesis using al h onAnswer_alike [OF al i human_seat_less] by (simp add: handle_def split: option.split)
  next
    case (EvDisconnect p)
    then show ?thesis using al h on_disconnect_alike [OF al i human_seat_less] by (simp add: handle_def split: option.split)
  next
    case (EvForfeitCheck p g)
    have "alike i m0 (fst (finish e c EndForfeit (m\<lparr>mt_quitter := q\<rparr>, d))) (fst (finish e c EndForfeit (m'\<lparr>mt_quitter := q\<rparr>, d')))" for q
      by (rule finish_alike [OF alike_fields(3) [OF al] i])
    then show ?thesis using EvForfeitCheck al h alikeD(4) [OF al] seat_alikeD [OF alike_seats [OF al i human_seat_less]]
      by (simp add: handle_def split: option.split)
  next
    case (EvReconnect p)
    then show ?thesis using reconnect_alike [OF al i i] by simp
  next
    case (EvLeave p)
    have "alike i m0 (fst (finish e c EndForfeit (m\<lparr>mt_quitter := q\<rparr>, d))) (fst (finish e c EndForfeit (m'\<lparr>mt_quitter := q\<rparr>, d')))" for q
      by (rule finish_alike [OF alike_fields(3) [OF al] i])
    then show ?thesis using EvLeave al h seat_alikeD [OF alike_seats [OF al i human_seat_less]]
      by (simp add: handle_def split: option.split)
  qed
qed

lemma same_but_choice_cases:
  assumes "same_but_choice i m x x'"
  obtains (same) "x' = x"
  | (choice) p k a a' where "x = InEvent (EvAnswer p k a)" and "x' = InEvent (EvAnswer p k a')" and "human_seat m p = Some (other_seat i)"
      and "offered m k a" and "offered m k a'"
  using assms by (cases "(i, m, x, x')" rule: same_but_choice.cases) auto

lemma run_input_alike:
  assumes al: "alike i m0 m m'" and i: "i < 2" and x: "same_but_choice i m0 x x'"
  shows "alike i m0 (fst (run_input e c x (m, d))) (fst (run_input e c x' (m', d')))"
  using x
proof (cases rule: same_but_choice_cases)
  case same
  then show ?thesis using al handle_alike [OF al i] onTimer_alike [OF al i] alikeD(4) [OF al]
    by (cases x) (simp_all add: run_input_def)
next
  case (choice p k a a')
  have "alike i m0 (onAnswer e (other_seat i) k a m) (onAnswer e (other_seat i) k a' m')"
    by (rule onAnswer_alike [OF al i]) (use choice in simp_all)
  then show ?thesis using al choice human_seat_alike [OF al i, of p] alikeD(4) [OF al] by (simp add: run_input_def handle_def)
qed

definition paired_inputs :: "nat \<Rightarrow> match \<Rightarrow> (arena_env \<times> loop_input) list \<Rightarrow> (arena_env \<times> loop_input) list \<Rightarrow> bool" where
  "paired_inputs i m xs xs' = list_all2 (\<lambda>x y. fst y = fst x \<and> same_but_choice i m (snd x) (snd y)) xs xs'"

lemma Run_alike:
  assumes "alike i m0 m m'" and i: "i < 2" and "paired_inputs i m0 xs xs'"
  shows "alike i m0 (fst (Run c xs (m, d))) (fst (Run c xs' (m', d')))"
  using assms(1,3)
proof (induction xs arbitrary: xs' m m' d d')
  case Nil
  then show ?case by (simp add: paired_inputs_def)
next
  case (Cons x xs)
  obtain e y where x: "x = (e, y)" by (cases x)
  obtain y' ys where xs': "xs' = (e, y') # ys" and y: "same_but_choice i m0 y y'" and ys: "paired_inputs i m0 xs ys"
    using Cons(3) x by (cases xs') (auto simp: paired_inputs_def)
  obtain m1 d1 where r: "run_input e c y (m, d) = (m1, d1)" by (cases "run_input e c y (m, d)")
  obtain n1 d2 where r': "run_input e c y' (m', d') = (n1, d2)" by (cases "run_input e c y' (m', d')")
  have "alike i m0 m1 n1" using run_input_alike [OF Cons(2) i y, of e c d d'] r r' by simp
  from Cons(1) [OF this ys] show ?case using x xs' r r' by simp
qed

section \<open>Claim\<close>

text \<open>
  C38: a player cannot read the opponent's answers, or whether they were right, off the messages of the duel. If two runs
  of a duel get the same events at the same times and differ only in which of the offered options the opponent picked,
  then, up to the final \<open>match.end\<close>, this player receives exactly the same messages, snapshots after a
  reconnect included.
\<close>

theorem opponent_verdicts_hidden:
  assumes "i < 2" and "paired_inputs i m xs xs'"
  shows "view i (fst (Run c xs (m, d))) = view i (fst (Run c xs' (m, d')))"
  using Run_alike [OF alike_refl assms, of c d d'] by (simp add: alikeD(8))

text \<open>In the other run player 2 picks the right option.\<close>

definition fx_inputs' :: "(arena_env \<times> loop_input) list" where
  "fx_inputs' = [(fx_tick 3, InTimer), (fx_tick 3, InEvent (EvAnswer 1 0 10)), (fx_tick 8, InEvent (EvAnswer 2 0 10)), (fx_tick 8, InTimer)]"

theorem opponent_verdicts_hidden_witness:
  "view 0 (fst (Run fx_arena fx_inputs fx_start_at)) = view 0 (fst (Run fx_arena fx_inputs' fx_start_at))
   \<and> st_score (mt_seat1 (fst (Run fx_arena fx_inputs fx_start_at))) = 0
   \<and> st_score (mt_seat1 (fst (Run fx_arena fx_inputs' fx_start_at))) = 67
   \<and> length (view 0 (fst (Run fx_arena fx_inputs fx_start_at))) = 4"
proof -
  have "paired_inputs 0 (fst fx_start_at) fx_inputs fx_inputs'"
    by (simp add: paired_inputs_def fx_inputs_def fx_inputs'_def fx_start_at_def Start_def NewMatch_def new_seat_def fx_player_def human_seat_def seatOf_def
      seat_at_def other_seat_def offered_def fx_valid_def del: One_nat_def)
  then have "view 0 (fst (Run fx_arena fx_inputs fx_start_at)) = view 0 (fst (Run fx_arena fx_inputs' fx_start_at))"
    using opponent_verdicts_hidden [of 0 "fst fx_start_at" fx_inputs fx_inputs' fx_arena fx_arena_db fx_arena_db] by (simp add: fx_start_at_def)
  moreover have "st_score (mt_seat1 (fst (Run fx_arena fx_inputs fx_start_at))) = 0"
    "st_score (mt_seat1 (fst (Run fx_arena fx_inputs' fx_start_at))) = 67" "length (view 0 (fst (Run fx_arena fx_inputs fx_start_at))) = 4"
    by code_simp+
  ultimately show ?thesis by simp
qed

end
