(* ===== verification/Arena_Results.thy ===== *)
theory Arena_Results
  imports Arena_Properties
begin

text \<open>
  What a duel leaves behind. However many attempts at storing a result fail, and wherever they fail, the ratings
  move once and one row per player is written; a rating exchange is zero-sum; and an invite code read back as a
  player types it is the code that was handed out.
\<close>

section \<open>One attempt\<close>

text \<open>The scores ELO sees: a player who left loses, whatever the scores.\<close>

definition elo_scores :: "match \<Rightarrow> int \<times> int" where
  "elo_scores m = (if mt_reason m = EndForfeit \<and> mt_quitter m = st_id (mt_seat0 m) then (0, 1)
     else if mt_reason m = EndForfeit \<and> mt_quitter m = st_id (mt_seat1 m) then (1, 0) else (st_score (mt_seat0 m), st_score (mt_seat1 m)))"

definition points_of :: "int \<Rightarrow> int \<Rightarrow> real" where
  "points_of mine theirs = (if theirs < mine then 1 else if mine < theirs then 0 else 1 / 2)"

definition elo_deltas :: "elo \<Rightarrow> match \<Rightarrow> arena_db \<Rightarrow> int \<times> int" where
  "elo_deltas elo m d =
     (let (sa, sb) = elo_scores m; ra = Rating d (st_id (mt_seat0 m)); rb = Rating d (st_id (mt_seat1 m)) in
      (elo ra rb (points_of sa sb), elo rb ra (points_of sb sa)))"

lemma persist_answers_frame:
  "persist_answers e f mid prof rows d = Inr d' \<Longrightarrow>
     adb_ratings d' = adb_ratings d \<and> adb_applied d' = adb_applied d \<and> adb_matches d' = adb_matches d \<and> adb_players d' = adb_players d"
proof (induction e f mid prof rows d rule: persist_answers.induct)
  case (2 e f mid prof i q ans rest d)
  from 2(2) obtain d1 d2 where s: "InsertArenaAnswer (answer_row_of mid prof q i ans) d = Inr d1"
      "(if pa_answered ans \<and> \<not> pa_correct ans
            then rbind (RecordReview e f prof q Again (adb_study d1)) (\<lambda>(_, s). Inr (d1\<lparr>adb_study := s\<rparr>)) else Inr d1) = Inr d2"
      "persist_answers e f mid prof rest d2 = Inr d'"
    by (auto simp: rbind_Inr_iff)
  note ih = 2(1) [OF s(3)]
  have "adb_ratings d2 = adb_ratings d \<and> adb_applied d2 = adb_applied d \<and> adb_matches d2 = adb_matches d \<and> adb_players d2 = adb_players d"
    using s(1,2) by (auto simp: InsertArenaAnswer_def rbind_Inr_iff split: if_splits)
  then show ?case using ih by simp
qed simp

definition player_row :: "match \<Rightarrow> nat \<Rightarrow> duel_outcome \<Rightarrow> int \<Rightarrow> int \<Rightarrow> arena_player_row" where
  "player_row m i out delta after = \<lparr>ap_match = mt_id m, ap_profile = st_id (seat_at m i), ap_slot = int i + 1, ap_locale = st_locale (seat_at m i),
     ap_score = st_score (seat_at m i), ap_correct = st_correct (seat_at m i), ap_resp = st_resp (seat_at m i), ap_outcome = out,
     ap_before = after - delta, ap_after = after, ap_delta = delta\<rparr>"

lemma persist_seat_frame:
  assumes "persist_seat e c m i out delta d = Inr d'" and "\<not> st_bot (seat_at m i)"
  shows "adb_ratings d' = adb_ratings d \<and> adb_applied d' = adb_applied d \<and> adb_matches d' = adb_matches d
    \<and> adb_players d' = adb_players d @ [player_row m i out delta (Rating d (st_id (seat_at m i)))]"
  using assms by (auto simp: persist_seat_def Let_def rbind_Inr_iff InsertArenaMatchPlayer_def player_row_def split: if_splits dest!: persist_answers_frame)

definition match_row :: "match \<Rightarrow> arena_db \<Rightarrow> arena_match_row option" where
  "match_row m d = find (\<lambda>r. am_id r = mt_id m) (adb_matches d)"

definition stored_finished :: "match \<Rightarrow> arena_db \<Rightarrow> bool" where
  "stored_finished m d = (case match_row m d of None \<Rightarrow> False | Some r \<Rightarrow> am_finished r)"

text \<open>The rows of both players, as they are written once the ratings have moved by \<open>da\<close> and \<open>db\<close>.\<close>

definition result_rows :: "match \<Rightarrow> int \<times> int \<Rightarrow> arena_db \<Rightarrow> arena_player_row list" where
  "result_rows m ds d = [player_row m 0 (fst (outcomes m)) (fst ds) (Rating d (st_id (mt_seat0 m))),
     player_row m 1 (snd (outcomes m)) (snd ds) (Rating d (st_id (mt_seat1 m)))]"

lemma Rating_cong: "adb_ratings d' = adb_ratings d \<Longrightarrow> Rating d' i = Rating d i"
  by (simp add: Rating_def)

lemma FinishPersist_tx_effect:
  assumes "FinishPersist_tx e c m da db d = Inr (u, d')" and "\<not> st_bot (mt_seat0 m)" and "\<not> st_bot (mt_seat1 m)"
  shows "stored_finished m d' \<and> adb_ratings d' = adb_ratings d \<and> adb_applied d' = adb_applied d
    \<and> (if stored_finished m d then d' = d else adb_players d' = adb_players d @ result_rows m (da, db) d)"
proof -
  obtain row where row: "match_row m d = Some row" using assms(1) by (auto simp: FinishPersist_tx_def match_row_def split: if_splits option.splits)
  show ?thesis
  proof (cases "am_finished row")
    case True
    then show ?thesis using assms row by (auto simp: FinishPersist_tx_def match_row_def stored_finished_def split: if_splits)
  next
    case False
    let ?d0 = "FinishArenaMatch (mt_id m) (mt_reason m) d"
    obtain d1 where p: "persist_seat e c m 0 (fst (outcomes m)) da ?d0 = Inr d1" "persist_seat e c m 1 (snd (outcomes m)) db d1 = Inr d'"
      using assms(1) row False by (auto simp: FinishPersist_tx_def match_row_def rbind_Inr_iff split: if_splits)
    have f: "adb_ratings ?d0 = adb_ratings d" "adb_applied ?d0 = adb_applied d" "adb_players ?d0 = adb_players d" "stored_finished m ?d0"
      using row by (auto simp: FinishArenaMatch_def stored_finished_def match_row_def find_upd_where dest: find_SomeD)
    note f0 = persist_seat_frame [OF p(1)] and f1 = persist_seat_frame [OF p(2)]
    have "match_row m d' = match_row m ?d0" using f0 f1 assms(2,3) by (simp add: match_row_def seat_at_def)
    moreover have "Rating d1 i = Rating d i" "Rating ?d0 i = Rating d i" for i using f0 f assms(2) by (simp_all add: Rating_def seat_at_def)
    ultimately show ?thesis using f0 f1 f row False assms(2,3) by (simp add: stored_finished_def result_rows_def seat_at_def)
  qed
qed

lemma FinishPersist_effect:
  assumes "FinishPersist e c m da db d = (res, d')" and "\<not> st_bot (mt_seat0 m)" and "\<not> st_bot (mt_seat1 m)"
  shows "adb_ratings d' = adb_ratings d \<and> adb_applied d' = adb_applied d \<and> (isl res \<or> stored_finished m d')
    \<and> (if stored_finished m d then stored_finished m d' \<and> adb_players d' = adb_players d
       else if stored_finished m d' then adb_players d' = adb_players d @ result_rows m (da, db) d
       else adb_players d' = adb_players d \<and> match_row m d' = match_row m d)"
proof (cases "run_tx e ''FinishPersist'' (FinishPersist_tx e c m da db) d")
  case (Pair r d1)
  show ?thesis
  proof (cases r)
    case (Inl err)
    then have "d1 = d" using Pair run_tx_failed by metis
    then show ?thesis using assms(1) Pair Inl by (auto simp: FinishPersist_def)
  next
    case (Inr u)
    then have "FinishPersist_tx e c m da db d = Inr (u, d1)" using Pair by (simp add: run_tx_ok)
    note t = FinishPersist_tx_effect [OF this assms(2,3)]
    have "adb_ratings d' = adb_ratings d1 \<and> adb_applied d' = adb_applied d1 \<and> adb_players d' = adb_players d1 \<and> adb_matches d' = adb_matches d1"
      using assms(1) Pair Inr by (auto simp: FinishPersist_def cleanupFinishedMatch_def split: if_splits)
    then show ?thesis using t by (auto simp: stored_finished_def match_row_def split: if_splits)
  qed
qed

section \<open>However many attempts\<close>

definition moved_ratings :: "match \<Rightarrow> int \<times> int \<Rightarrow> arena_db \<Rightarrow> uuid \<Rightarrow> int option" where
  "moved_ratings m ds d = (adb_ratings d)(st_id (mt_seat0 m) \<mapsto> Rating d (st_id (mt_seat0 m)) + fst ds,
     st_id (mt_seat1 m) \<mapsto> Rating d (st_id (mt_seat1 m)) + snd ds)"

text \<open>
  Between attempts at storing duel \<open>m\<close>, begun in \<open>d0\<close>: the ratings have moved or not, and then by the deltas computed
  from \<open>d0\<close>; the rows of the match are there or not, and then the ratings have moved.
\<close>

definition settling :: "elo \<Rightarrow> match \<Rightarrow> arena_db \<Rightarrow> arena_db \<Rightarrow> bool" where
  "settling elo m d0 d \<longleftrightarrow>
     (case adb_applied d (mt_id m) of
        None \<Rightarrow> adb_ratings d = adb_ratings d0 \<and> \<not> stored_finished m d
      | Some ds \<Rightarrow> ds = elo_deltas elo m d0 \<and> adb_ratings d = moved_ratings m ds d0)
     \<and> (if stored_finished m d then adb_players d = adb_players d0 @ result_rows m (elo_deltas elo m d0) d
        else adb_players d = adb_players d0)"

lemma result_rows_cong: "adb_ratings d' = adb_ratings d \<Longrightarrow> result_rows m ds d' = result_rows m ds d"
  by (simp add: result_rows_def Rating_def)

lemma applyResult_settling:
  assumes s: "settling elo m d0 d" and "elo_scores m = (sa, sb)"
    and a: "applyResult elo e (mt_id m) (st_id (mt_seat0 m)) (st_id (mt_seat1 m)) sa sb d = (res, d')"
  shows "settling elo m d0 d' \<and> (\<forall>ds. res = Inr ds \<longrightarrow> ds = elo_deltas elo m d0 \<and> adb_applied d' (mt_id m) = Some ds)"
proof -
  have delta: "elo_deltas elo m d = elo_deltas elo m d0" if "adb_ratings d = adb_ratings d0"
    using that by (simp add: elo_deltas_def Rating_def)
  show ?thesis
  proof (cases "adb_applied d (mt_id m)")
    case (Some ds)
    then show ?thesis using s a by (auto simp: applyResult_def settling_def split: if_splits)
  next
    case None
    let ?ds = "elo_deltas elo m d"
    let ?d' = "d\<lparr>adb_ratings := moved_ratings m ?ds d, adb_applied := (adb_applied d)(mt_id m \<mapsto> ?ds)\<rparr>"
    have r: "adb_ratings d = adb_ratings d0" and ns: "\<not> stored_finished m d" using s None by (simp_all add: settling_def)
    have moved: "moved_ratings m ?ds d = moved_ratings m (elo_deltas elo m d0) d0" using r delta by (simp add: moved_ratings_def Rating_def)
    have "settling elo m d0 ?d'" using s None ns delta [OF r] moved
      by (simp add: settling_def stored_finished_def match_row_def)
    moreover have "res = Inl (Sql DbFailure) \<and> d' = d \<or> res = Inl (Sql DbFailure) \<and> d' = ?d' \<or> res = Inr ?ds \<and> d' = ?d'"
      using a None assms(2) by (auto simp: applyResult_def elo_deltas_def moved_ratings_def points_of_def Let_def split: if_splits)
    ultimately show ?thesis using s delta [OF r] by auto
  qed
qed

lemma finish_attempt_settling:
  assumes s: "settling (ac_elo c) m d0 d" and r: "rated m" and humans: "\<not> st_bot (mt_seat0 m)" "\<not> st_bot (mt_seat1 m)"
    and f: "finish_attempt e c m d = (res, d')"
  shows "settling (ac_elo c) m d0 d'
    \<and> (\<forall>x. res = Inr x \<longrightarrow> stored_finished m d' \<and> x = (fst (elo_deltas (ac_elo c) m d0), snd (elo_deltas (ac_elo c) m d0),
          Rating d' (st_id (mt_seat0 m)), Rating d' (st_id (mt_seat1 m))))"
proof -
  let ?ds = "elo_deltas (ac_elo c) m d0"
  obtain sa sb where sc: "elo_scores m = (sa, sb)" by (cases "elo_scores m")
  obtain r1 d1 where a: "applyResult (ac_elo c) e (mt_id m) (st_id (mt_seat0 m)) (st_id (mt_seat1 m)) sa sb d = (r1, d1)"
    by (cases "applyResult (ac_elo c) e (mt_id m) (st_id (mt_seat0 m)) (st_id (mt_seat1 m)) sa sb d")
  note s1 = applyResult_settling [OF s sc a]
  have split: "(if mt_reason m = EndForfeit \<and> mt_quitter m = st_id (mt_seat0 m) then (0, 1)
      else if mt_reason m = EndForfeit \<and> mt_quitter m = st_id (mt_seat1 m) then (1, 0) else (st_score (mt_seat0 m), st_score (mt_seat1 m))) = (sa, sb)"
    using sc by (simp add: elo_scores_def)
  show ?thesis
  proof (cases "r1 = Inr ?ds \<and> \<not> flt e ''finish'' ''Rating''")
    case True
    obtain r2 d2 where p: "FinishPersist e c m (fst ?ds) (snd ?ds) d1 = (r2, d2)" by (cases "FinishPersist e c m (fst ?ds) (snd ?ds) d1")
    note e2 = FinishPersist_effect [OF p humans]
    have ap: "adb_applied d1 (mt_id m) = Some ?ds" using s1 True by blast
    have rows: "result_rows m ?ds d2 = result_rows m ?ds d1" using e2 by (intro result_rows_cong) simp
    have same: "adb_ratings d2 = adb_ratings d1" "adb_applied d2 = adb_applied d1" using e2 by simp_all
    have players: "if stored_finished m d2 then adb_players d2 = adb_players d0 @ result_rows m ?ds d1 else adb_players d2 = adb_players d0"
    proof (cases "stored_finished m d1")
      case True
      then have "stored_finished m d2 \<and> adb_players d2 = adb_players d1" using e2 by simp
      moreover have "adb_players d1 = adb_players d0 @ result_rows m ?ds d1" using s1 True by (simp add: settling_def)
      ultimately show ?thesis by simp
    next
      case False
      then have "adb_players d1 = adb_players d0" using s1 by (simp add: settling_def)
      then show ?thesis using e2 False by (simp split: if_splits)
    qed
    have "settling (ac_elo c) m d0 d2" using s1 same ap rows players by (simp add: settling_def)
    moreover have "d' = d2 \<and> (\<forall>x. res = Inr x \<longrightarrow> \<not> isl r2 \<and> x = (fst ?ds, snd ?ds, Rating d1 (st_id (mt_seat0 m)), Rating d1 (st_id (mt_seat1 m))))"
      using f r True a p unfolding finish_attempt_def Let_def split by (auto simp: case_prod_beta split: sum.splits)
    ultimately show ?thesis using e2 by (auto simp: Rating_def)
  next
    case False
    then have "d' = d1 \<and> isl res" using f r a s1 unfolding finish_attempt_def Let_def split by (auto split: sum.splits)
    then show ?thesis using s1 by (cases res) auto
  qed
qed

lemma finish_loop_settling:
  assumes "settling (ac_elo c) m d0 d" and "rated m" and "\<not> st_bot (mt_seat0 m)" and "\<not> st_bot (mt_seat1 m)"
    and "finish_loop att c m n spent d = (res, d')"
  shows "settling (ac_elo c) m d0 d'
    \<and> (\<forall>x. res = Some x \<longrightarrow> stored_finished m d' \<and> x = (fst (elo_deltas (ac_elo c) m d0), snd (elo_deltas (ac_elo c) m d0),
          Rating d' (st_id (mt_seat0 m)), Rating d' (st_id (mt_seat1 m))))"
  using assms
proof (induction att c m n spent d rule: finish_loop.induct)
  case (1 att c m n spent d)
  obtain r1 d1 where a: "finish_attempt (snd (att n)) c m d = (r1, d1)" by (cases "finish_attempt (snd (att n)) c m d")
  note s1 = finish_attempt_settling [OF 1(2-5) a] and run = 1(6) [unfolded finish_loop.simps [of att c m n spent d] a]
  show ?case
  proof (cases "opTimeout \<le> spent")
    case True
    then show ?thesis using run 1(2) by simp
  next
    case False
    show ?thesis
    proof (cases r1)
      case (Inl err)
      have "finish_loop att c m (Suc n) (spent + int (fst (att n)) + finish_backoff n) d1 = (res, d')"
        using run False Inl by simp
      then show ?thesis using 1(1) [OF False a [symmetric] Inl conjunct1 [OF s1] 1(3-5)] by simp
    next
      case (Inr x)
      then show ?thesis using run False s1 by auto
    qed
  qed
qed

text \<open>
  Before attempt \<open>n\<close> the pauses alone have taken \<open>100 * (2 ^ n - 1)\<close> milliseconds: the eighth attempt begins after the end
  of the context. When seven attempts fail the loop never ends.
\<close>

lemma finish_gives_up:
  assumes "\<And>i x. i < 7 \<Longrightarrow> isl (fst (finish_attempt (snd (att i)) c m x))"
    and "n + k = 7" and "100 * millisecond * (2 ^ n - 1) \<le> spent"
  shows "fst (finish_loop att c m n spent d) = None"
  using assms(2,3)
proof (induction k arbitrary: n spent d)
  case 0
  then have "opTimeout \<le> spent" by (simp add: opTimeout_def millisecond_def second_def)
  then show ?case by (simp add: finish_loop.simps)
next
  case (Suc k)
  then have n: "n < 7" by simp
  have pause: "finish_backoff i = 100 * millisecond * 2 ^ i" if "i < 7" for i
    using that by (induction i) (auto simp: millisecond_def second_def less_Suc_eq numeral_eq_Suc)
  have next_: "100 * millisecond * (2 ^ Suc n - 1) \<le> spent + int (fst (att n)) + finish_backoff n"
    using Suc.prems(2) pause [OF n] by (simp add: algebra_simps)
  obtain err d1 where "finish_attempt (snd (att n)) c m d = (Inl err, d1)"
    using assms(1) [OF n, of d] by (cases "finish_attempt (snd (att n)) c m d"; cases "fst (finish_attempt (snd (att n)) c m d)") auto
  then show ?case using Suc.IH [OF _ next_, of d1] Suc.prems(1) by (subst finish_loop.simps) simp
qed

lemma finish_not_stored:
  assumes "mt_phase m \<noteq> PhFinished" and "\<not> mt_stored m"
    and "\<And>i x. i < 7 \<Longrightarrow> isl (fst (finish_attempt (snd (ae_attempts e i)) c (m\<lparr>mt_phase := PhFinished, mt_reason := r\<rparr>) x))"
  shows "mt_phase (fst (finish e c r (m, d))) = PhFinished \<and> \<not> mt_stored (fst (finish e c r (m, d)))
    \<and> mt_sent (fst (finish e c r (m, d))) = mt_sent m"
proof -
  have "fst (finish_loop (ae_attempts e) c (m\<lparr>mt_phase := PhFinished, mt_reason := r\<rparr>) 0 0 d) = None"
    by (rule finish_gives_up [OF assms(3), where k = 7]) simp_all
  then show ?thesis using assms(1,2) by (auto simp: finish_def Let_def split: prod.splits option.splits)
qed

section \<open>Claims\<close>

text \<open>
  C39: a rated duel is settled at most once, whatever happens to the attempts at storing it: any of them may fail, at any
  statement and even after a Redis transaction whose reply was lost. If one succeeds before the ten seconds that
  they share are over, each player's rating has moved by exactly the ELO delta computed from the ratings before the duel (and a
  player who left is rated as the loser), the match row is closed, exactly one result row per player was added,
  and the values sent to the players are those stored. If none does, and none can once seven have failed, the loop
  never ends: the ratings have moved by exactly that delta or not at all, the rows are there, once, or not at
  all (and \<open>finish\<close> sends nothing). No other rating ever changes.
\<close>

theorem duel_settled_once:
  fixes m :: match and d :: arena_db
  defines "a \<equiv> st_id (mt_seat0 m)" and "b \<equiv> st_id (mt_seat1 m)"
  assumes "rated m" and "\<not> st_bot (mt_seat0 m)" and "\<not> st_bot (mt_seat1 m)" and "a \<noteq> b"
    and "adb_applied d (mt_id m) = None" and "\<not> stored_finished m d" and "finish_loop att c m 0 0 d = (res, d')"
  shows "(\<forall>i. i \<noteq> a \<and> i \<noteq> b \<longrightarrow> Rating d' i = Rating d i)
    \<and> (case res of
         Some (da, db, ra, rb) \<Rightarrow> (da, db) = elo_deltas (ac_elo c) m d \<and> ra = Rating d a + da \<and> rb = Rating d b + db
           \<and> Rating d' a = ra \<and> Rating d' b = rb \<and> stored_finished m d'
           \<and> adb_players d' = adb_players d @ [player_row m 0 (fst (outcomes m)) da ra, player_row m 1 (snd (outcomes m)) db rb]
       | None \<Rightarrow> (Rating d' a, Rating d' b) = (Rating d a, Rating d b) \<and> \<not> stored_finished m d' \<and> adb_players d' = adb_players d
           \<or> (Rating d' a, Rating d' b) = (Rating d a + fst (elo_deltas (ac_elo c) m d), Rating d b + snd (elo_deltas (ac_elo c) m d))
             \<and> adb_players d' = adb_players d @ (if stored_finished m d'
                 then [player_row m 0 (fst (outcomes m)) (fst (elo_deltas (ac_elo c) m d)) (Rating d' a),
                       player_row m 1 (snd (outcomes m)) (snd (elo_deltas (ac_elo c) m d)) (Rating d' b)] else []))
    \<and> ((\<forall>i < 7. \<forall>x. isl (fst (finish_attempt (snd (att i)) c m x))) \<longrightarrow> res = None)"
proof -
  let ?ds = "elo_deltas (ac_elo c) m d"
  have "settling (ac_elo c) m d d" using assms by (simp add: settling_def)
  from finish_loop_settling [OF this assms(3-5) assms(9)]
  have s: "settling (ac_elo c) m d d'"
    and x: "res = Some y \<Longrightarrow> stored_finished m d' \<and> y = (fst ?ds, snd ?ds, Rating d' a, Rating d' b)" for y
    by (simp_all add: a_def b_def)
  have moved: "Rating d' a = Rating d a + fst ?ds" "Rating d' b = Rating d b + snd ?ds" "i \<noteq> a \<Longrightarrow> i \<noteq> b \<Longrightarrow> Rating d' i = Rating d i"
    if "adb_applied d' (mt_id m) = Some ds" for i ds
    using s that assms(6) by (simp_all add: settling_def Rating_def moved_ratings_def a_def b_def)
  have same: "Rating d' i = Rating d i" "\<not> stored_finished m d'" if "adb_applied d' (mt_id m) = None" for i
    using s that by (simp_all add: settling_def Rating_def)
  have rows: "adb_players d' = adb_players d @ (if stored_finished m d' then result_rows m ?ds d' else [])"
    using s by (simp add: settling_def split: option.splits if_splits)
  have others: "\<forall>i. i \<noteq> a \<and> i \<noteq> b \<longrightarrow> Rating d' i = Rating d i"
    using moved(3) same(1) by (cases "adb_applied d' (mt_id m)") auto
  have stuck: "(\<forall>i < 7. \<forall>x. isl (fst (finish_attempt (snd (att i)) c m x))) \<longrightarrow> res = None"
    using finish_gives_up [of att c m 0 7 0 d] assms(9) by simp
  show ?thesis
  proof (cases "adb_applied d' (mt_id m)")
    case None
    have "res = None" using x same(2) [OF None] by (cases res) auto
    then show ?thesis using others stuck same [OF None] rows by simp
  next
    case (Some ds)
    have "result_rows m ?ds d' = [player_row m 0 (fst (outcomes m)) (fst ?ds) (Rating d' a), player_row m 1 (snd (outcomes m)) (snd ?ds) (Rating d' b)]"
      by (simp add: result_rows_def a_def b_def)
    then show ?thesis using others stuck moved(1,2) [OF Some] rows x by (cases res) auto
  qed
qed

lemma ExpectedScore_complement: "ExpectedScore b a = 1 - ExpectedScore a b"
proof -
  let ?x = "(10 :: real) powr (real_of_int (b - a) / 400)"
  have x: "0 < ?x" by simp
  have "(10 :: real) powr (real_of_int (a - b) / 400) = 1 / ?x"
    by (simp add: powr_minus_divide [symmetric] minus_divide_left)
  then have "ExpectedScore b a = 1 / (1 + 1 / ?x)" by (simp only: ExpectedScore_def)
  moreover have "1 / (1 + 1 / y) = 1 - 1 / (1 + y)" if "0 < y" for y :: real
    using that add_pos_pos [OF zero_less_one that] by (simp add: divide_simps)
  from this [OF x] have "1 / (1 + 1 / ?x) = 1 - 1 / (1 + ?x)" .
  ultimately show ?thesis by (simp only: ExpectedScore_def)
qed

lemma ExpectedScore_bounds: "0 < ExpectedScore a b" "ExpectedScore a b < 1"
  by (simp_all add: ExpectedScore_def add_pos_pos)

lemma go_round_minus: "go_round (- x) = - go_round (x :: real)"
  by (auto simp: go_round_def add.commute)

lemma go_round_abs:
  fixes x :: real
  assumes "\<bar>x\<bar> \<le> of_int n"
  shows "\<bar>go_round x\<bar> \<le> n"
proof (cases "0 \<le> x")
  case True
  then show ?thesis using go_round_between [of 0 x n] assms by simp
next
  case False
  then show ?thesis using go_round_between [of 0 "- x" n] go_round_minus [of x] assms by simp
qed

lemma go_round_sign: "0 \<le> x \<Longrightarrow> 0 \<le> go_round (x :: real)"
  by (simp add: go_round_def)

text \<open>
  Rating points are neither created nor lost. For any two ratings and any result, what one player gains the
  other loses; at the store's K of 32 nobody moves by more than 32 points; a winner never loses points, a
  loser never gains any, and a draw between equals moves nothing.
\<close>

theorem rating_exchange_zero_sum:
  "EloDelta ra rb (points_of x y) k + EloDelta rb ra (points_of y x) k = 0
   \<and> \<bar>EloDelta ra rb (points_of x y) 32\<bar> \<le> 32
   \<and> 0 \<le> EloDelta ra rb 1 k \<and> EloDelta ra rb 0 k \<le> 0 \<and> EloDelta ra ra (1 / 2) k = 0"
proof -
  define k' where "k' = (if k \<le> 0 then 32 else k)"
  have k: "0 < k'" by (simp add: k'_def)
  have d: "EloDelta u v s k = go_round (k' * (s - ExpectedScore u v))" for u v s by (simp add: EloDelta_def k'_def Let_def)
  have p: "points_of y x = 1 - points_of x y" "0 \<le> points_of x y" "points_of x y \<le> 1" by (auto simp: points_of_def)
  note b = ExpectedScore_bounds
  have "k' * (points_of y x - ExpectedScore rb ra) = - (k' * (points_of x y - ExpectedScore ra rb))"
    unfolding p(1) ExpectedScore_complement [of rb ra] by (simp add: algebra_simps)
  then have zero: "EloDelta ra rb (points_of x y) k + EloDelta rb ra (points_of y x) k = 0" by (simp add: d go_round_minus)
  have "\<bar>32 * (points_of x y - ExpectedScore ra rb)\<bar> \<le> of_int 32" using b [of ra rb] p by (simp add: abs_le_iff)
  then have bound: "\<bar>EloDelta ra rb (points_of x y) 32\<bar> \<le> 32" using go_round_abs by (simp add: EloDelta_def)
  have win: "0 \<le> EloDelta ra rb 1 k" using b [of ra rb] k by (simp add: d go_round_sign)
  have "EloDelta ra rb 0 k = - go_round (k' * ExpectedScore ra rb)" by (simp add: d go_round_minus [symmetric])
  then have lose: "EloDelta ra rb 0 k \<le> 0" using b(1) [of ra rb] k go_round_sign [of "k' * ExpectedScore ra rb"] by simp
  have "1 / 2 - ExpectedScore ra ra = 0" by (simp add: ExpectedScore_def)
  then have "EloDelta ra ra (1 / 2) k = 0" unfolding d by (simp only: mult_zero_right) (simp add: go_round_def)
  then show ?thesis using zero bound win lose by blast
qed

lemma invite_chars_filter:
  "set (filter (\<lambda>c. c \<noteq> CHR '' '' \<and> c \<noteq> CHR ''-'' \<and> c \<noteq> CHR 0x09) cs) \<subseteq> set inviteAlphabet
   \<Longrightarrow> invite_chars cs = Some (filter (\<lambda>c. c \<noteq> CHR '' '' \<and> c \<noteq> CHR ''-'' \<and> c \<noteq> CHR 0x09) cs)"
  by (induction cs) (auto split: if_splits)

lemma NewInviteCode_alphabet: "set (NewInviteCode buf) \<subseteq> set inviteAlphabet"
proof -
  have "0 < length inviteAlphabet" by (simp add: inviteAlphabet_def)
  then show ?thesis by (auto simp: NewInviteCode_def)
qed

text \<open>
  The invite code a player types is the code that was handed out: whatever six random bytes made it, and however
  the player spaces it, hyphenates it or mixes upper and lower case, normalising the input gives the code back.
\<close>

theorem invite_code_roundtrip:
  assumes "length buf = InviteCodeLen"
    and "filter (\<lambda>c. c \<noteq> CHR '' '' \<and> c \<noteq> CHR ''-'' \<and> c \<noteq> CHR 0x09) (map to_upper_char typed) = NewInviteCode buf"
  shows "NormalizeInviteCode typed = NewInviteCode buf"
  using invite_chars_filter [of "map to_upper_char typed"] assms NewInviteCode_alphabet [of buf]
  by (simp add: NormalizeInviteCode_def) (simp add: NewInviteCode_def)

theorem invite_code_roundtrip_witness: "NormalizeInviteCode ''a7h-q 9z'' = ''A7HQ9Z''"
proof -
  have code: "NewInviteCode [0, 28, 7, 13, 30, 22] = ''A7HQ9Z''" by code_simp
  have "NormalizeInviteCode ''a7h-q 9z'' = NewInviteCode [0, 28, 7, 13, 30, 22]"
    by (rule invite_code_roundtrip) code_simp+
  then show ?thesis unfolding code .
qed

text \<open>Storing fails four times: the reply is lost, the commit fails, a statement fails, the clean-up of the lobby fails.\<close>

definition fx_fail :: "string \<Rightarrow> string \<Rightarrow> env" where
  "fx_fail site s = fx_study_env\<lparr>flt := (\<lambda>x y. x = site \<and> y = s)\<rparr>"

definition fx_attempts :: "nat \<Rightarrow> nat \<times> env" where
  "fx_attempts n = (0, if n = 0 then fx_fail ''applyResult'' ''Reply'' else if n = 1 then fx_fail ''FinishPersist'' ''Commit''
     else if n = 2 then fx_fail ''FinishPersist'' ''InsertArenaAnswer'' else if n = 3 then fx_fail ''cleanupFinishedMatch'' ''Del'' else fx_study_env)"

definition fx_finished :: match where
  "fx_finished = (fst (Run fx_arena (take 3 fx_inputs) fx_start_at))\<lparr>mt_phase := PhFinished, mt_reason := EndForfeit, mt_quitter := 2\<rparr>"

theorem duel_settled_once_witness:
  "\<exists>ra rb d'. finish_loop fx_attempts fx_arena fx_finished 0 0 fx_arena_db = (Some (16, -16, ra, rb), d') \<and> Rating d' 1 = 1016 \<and> Rating d' 2 = 984"
proof -
  have "map_option (\<lambda>(da, db, _). (da, db)) (fst (finish_loop fx_attempts fx_arena fx_finished 0 0 fx_arena_db)) = Some (16, -16)" by code_simp
  then obtain ra rb d' where f: "finish_loop fx_attempts fx_arena fx_finished 0 0 fx_arena_db = (Some (16, -16, ra, rb), d')"
    by (cases "finish_loop fx_attempts fx_arena fx_finished 0 0 fx_arena_db") (auto split: prod.splits)
  have h: "rated fx_finished" "\<not> st_bot (mt_seat0 fx_finished)" "\<not> st_bot (mt_seat1 fx_finished)"
    "st_id (mt_seat0 fx_finished) = 1" "st_id (mt_seat1 fx_finished) = 2" "adb_applied fx_arena_db (mt_id fx_finished) = None"
    "\<not> stored_finished fx_finished fx_arena_db" "Rating fx_arena_db 1 = 1000" "Rating fx_arena_db 2 = 1000"
    by code_simp+
  have "st_id (mt_seat0 fx_finished) \<noteq> st_id (mt_seat1 fx_finished)" by (simp add: h)
  from duel_settled_once [OF h(1-3) this h(6,7) f] have "Rating d' 1 = 1016 \<and> Rating d' 2 = 984" by (simp add: h del: One_nat_def)
  then show ?thesis using f by blast
qed

end
