(* ===== verification/Rate_Limit.thy ===== *)
theory Rate_Limit
  imports Billing_Store
begin

text \<open>
  The fixed-window counters that guard logins, codes and queues (\<open>auth/ratelimit.go\<close>), over a Redis key space. A key
  holds its counter and the moment it expires, or no expiry at all (a key that lost it); times are milliseconds of the
  Redis clock. A failing Redis command is \<open>flt\<close> of the environment at the site of the call.
\<close>

type_synonym lim_store = "string \<Rightarrow> (int \<times> int option) option"

definition live_count :: "int \<Rightarrow> lim_store \<Rightarrow> string \<Rightarrow> (int \<times> int option) option" where
  "live_count now m k = (case m k of None \<Rightarrow> None
     | Some (n, None) \<Rightarrow> Some (n, None)
     | Some (n, Some t) \<Rightarrow> if t \<le> now then None else Some (n, Some t))"

text \<open>\<open>allowScript\<close>: INCR, and PEXPIRE for a new key or one without an expiry.\<close>

definition allowScript :: "int \<Rightarrow> string \<Rightarrow> int \<Rightarrow> lim_store \<Rightarrow> int \<times> lim_store" where
  "allowScript now k ms m =
     (case live_count now m k of
        None \<Rightarrow> (1, m(k \<mapsto> (1, Some (now + ms))))
      | Some (n, exp) \<Rightarrow> (n + 1, m(k \<mapsto> (n + 1, if n + 1 = 1 \<or> exp = None then Some (now + ms) else exp))))"

definition Hit :: "bool \<Rightarrow> int \<Rightarrow> string \<Rightarrow> int \<Rightarrow> lim_store \<Rightarrow> (billing_err + int) \<times> lim_store" where
  "Hit fails now k window m =
     (let ms = go_div window 1000000; ms = (if ms < 1 then 1 else ms) in
      if fails then (Inl (Sql DbFailure), m)
      else let (n, m') = allowScript now k ms m in (Inr n, m'))"

definition Allow :: "bool \<Rightarrow> int \<Rightarrow> string \<Rightarrow> int \<Rightarrow> int \<Rightarrow> lim_store \<Rightarrow> (billing_err + bool) \<times> lim_store" where
  "Allow fails now k limit window m =
     (case Hit fails now k window m of
        (Inl err, m') \<Rightarrow> (Inl err, m')
      | (Inr n, m') \<Rightarrow> (Inr (n \<le> limit), m'))"

text \<open>\<open>SetNX\<close> with a time to live.\<close>

definition Cooldown :: "bool \<Rightarrow> int \<Rightarrow> string \<Rightarrow> int \<Rightarrow> lim_store \<Rightarrow> (billing_err + bool) \<times> lim_store" where
  "Cooldown fails now k d m =
     (if fails then (Inl (Sql DbFailure), m)
      else case live_count now m k of
          Some _ \<Rightarrow> (Inr False, m)
        | None \<Rightarrow> (Inr True, m(k \<mapsto> (1, Some (now + go_div d 1000000)))))"

definition lim_Count :: "bool \<Rightarrow> int \<Rightarrow> string \<Rightarrow> lim_store \<Rightarrow> billing_err + int" where
  "lim_Count fails now k m =
     (if fails then Inl (Sql DbFailure) else Inr (case live_count now m k of None \<Rightarrow> 0 | Some (n, _) \<Rightarrow> n))"

definition Reset :: "bool \<Rightarrow> string \<Rightarrow> lim_store \<Rightarrow> (billing_err + unit) \<times> lim_store" where
  "Reset fails k m = (if fails then (Inl (Sql DbFailure), m) else (Inr (), m(k := None)))"

section \<open>What a counter guarantees\<close>

text \<open>The answers to a sequence of calls on one key at the given times.\<close>

fun allow_run :: "string \<Rightarrow> int \<Rightarrow> int \<Rightarrow> int list \<Rightarrow> lim_store \<Rightarrow> bool list" where
  "allow_run k limit window [] m = []"
| "allow_run k limit window (t # ts) m =
     (case Allow False t k limit window m of (r, m') \<Rightarrow> (r = Inr True) # allow_run k limit window ts m')"

definition window_ms :: "int \<Rightarrow> int" where
  "window_ms window = (if go_div window 1000000 < 1 then 1 else go_div window 1000000)"

lemma window_ms_pos: "0 < window_ms w"
  by (simp add: window_ms_def)

lemma Allow_unfold:
  "Allow False t k limit window m =
     (case live_count t m k of
        None \<Rightarrow> (Inr (1 \<le> limit), m(k \<mapsto> (1, Some (t + window_ms window))))
      | Some (n, exp) \<Rightarrow> (Inr (n + 1 \<le> limit), m(k \<mapsto> (n + 1, if n + 1 = 1 \<or> exp = None then Some (t + window_ms window) else exp))))"
  by (simp add: Allow_def Hit_def allowScript_def window_ms_def Let_def split: option.split prod.split)

text \<open>Counters are positive and expire within a window, once set by these operations.\<close>

definition counter_ok :: "int \<Rightarrow> int \<Rightarrow> string \<Rightarrow> lim_store \<Rightarrow> bool" where
  "counter_ok now w k m \<longleftrightarrow> (case m k of None \<Rightarrow> True | Some (n, e) \<Rightarrow> 1 \<le> n \<and> (case e of None \<Rightarrow> False | Some t \<Rightarrow> t \<le> now + w))"

lemma Allow_counter_ok:
  assumes "counter_ok t (window_ms w) k m"
  shows "counter_ok t (window_ms w) k (snd (Allow False t k limit w m))"
  using assms by (auto simp: Allow_unfold counter_ok_def live_count_def split: option.splits if_splits)

lemma counter_ok_later: "counter_ok t w k m \<Longrightarrow> t \<le> t' \<Longrightarrow> counter_ok t' w k m"
  by (auto simp: counter_ok_def split: option.splits)

fun granted :: "(int \<Rightarrow> bool) \<Rightarrow> int list \<Rightarrow> bool list \<Rightarrow> nat" where
  "granted P (t # ts) (r # rs) = (if r \<and> P t then 1 else 0) + granted P ts rs"
| "granted P _ _ = 0"

text \<open>Once a window is open until \<open>e\<close> with \<open>n\<close> calls counted, at most \<open>limit - n\<close> more are granted before \<open>e\<close>.\<close>

lemma granted_in_window:
  assumes "sorted ts" and "m k = Some (n, Some e)" and "1 \<le> n" and "\<forall>t \<in> set ts. t < e"
  shows "int (granted P ts (allow_run k limit w ts m)) \<le> max 0 (limit - n)"
  using assms
proof (induction ts arbitrary: m n)
  case (Cons t ts)
  have lc: "live_count t m k = Some (n, Some e)" using Cons(3,5) by (simp add: live_count_def)
  let ?m = "m(k \<mapsto> (n + 1, Some e))"
  have run: "allow_run k limit w (t # ts) m = (n + 1 \<le> limit) # allow_run k limit w ts ?m"
    using Cons(4) by (simp add: Allow_unfold lc)
  define g where "g = granted P ts (allow_run k limit w ts ?m)"
  have "int g \<le> max 0 (limit - (n + 1))" unfolding g_def by (rule Cons(1)) (use Cons(2,4,5) in simp_all)
  moreover have "granted P (t # ts) (allow_run k limit w (t # ts) m) = (if n + 1 \<le> limit \<and> P t then 1 else 0) + g"
    unfolding run g_def by simp
  ultimately show ?case by (auto split: if_splits)
qed simp

lemma granted_outside: "\<forall>t \<in> set ts. \<not> P t \<Longrightarrow> granted P ts rs = 0"
  by (induction P ts rs rule: granted.induct) auto

lemma granted_mono: "(\<And>t. t \<in> set ts \<Longrightarrow> P t \<Longrightarrow> Q t) \<Longrightarrow> granted P ts rs \<le> granted Q ts rs"
  by (induction P ts rs rule: granted.induct) (auto intro: add_mono)

lemma sorted_split:
  assumes "sorted (ts :: int list)"
  obtains us vs where "ts = us @ vs" and "\<forall>t \<in> set us. t < e" and "\<forall>t \<in> set vs. e \<le> t"
  using assms
proof (induction ts arbitrary: thesis)
  case (Cons t ts)
  show ?case
  proof (cases "t < e")
    case True
    obtain us vs where "ts = us @ vs" "\<forall>t \<in> set us. t < e" "\<forall>t \<in> set vs. e \<le> t" using Cons(1,3) by auto
    then show ?thesis using True by (intro Cons(2) [of "t # us" vs]) auto
  next
    case False
    then show ?thesis using Cons(3) by (intro Cons(2) [of "[]" "t # ts"]) auto
  qed
qed simp

fun allow_state :: "string \<Rightarrow> int \<Rightarrow> int \<Rightarrow> int list \<Rightarrow> lim_store \<Rightarrow> lim_store" where
  "allow_state k limit window [] m = m"
| "allow_state k limit window (t # ts) m = allow_state k limit window ts (snd (Allow False t k limit window m))"

lemma allow_run_append: "allow_run k limit w (us @ vs) m = allow_run k limit w us m @ allow_run k limit w vs (allow_state k limit w us m)"
  by (induction us arbitrary: m) (auto split: prod.splits)

lemma allow_state_counter_ok:
  assumes "counter_ok a0 (window_ms w) k m" and "sorted (a0 # ts)" and "\<forall>t \<in> set ts. t \<le> a" and "a0 \<le> a"
  shows "counter_ok a (window_ms w) k (allow_state k limit w ts m)"
  using assms
proof (induction ts arbitrary: a0 m)
  case (Cons t ts)
  have "counter_ok t (window_ms w) k (snd (Allow False t k limit w m))"
    by (rule Allow_counter_ok, rule counter_ok_later [OF Cons(2)]) (use Cons(3) in simp)
  from Cons(1) [OF this] show ?case using Cons(3-5) by simp
qed (auto intro: counter_ok_later)

lemma allow_state_in_window:
  assumes "m k = Some (n, Some e)" and "1 \<le> n" and "\<forall>t \<in> set ts. t < e"
  shows "\<exists>n'. allow_state k limit w ts m k = Some (n', Some e)"
  using assms
proof (induction ts arbitrary: m n)
  case (Cons t ts)
  have "snd (Allow False t k limit w m) k = Some (n + 1, Some e)" using Cons(2-4) by (auto simp: Allow_unfold live_count_def)
  then show ?case using Cons(1) [of "snd (Allow False t k limit w m)" "n + 1"] Cons(3,4) by simp
qed simp

lemma granted_append: "length us = length rs \<Longrightarrow> granted P (us @ vs) (rs @ ss) = granted P us rs + granted P vs ss"
  by (induction us rs rule: list_induct2) auto

lemma length_allow_run [simp]: "length (allow_run k limit w ts m) = length ts"
  by (induction ts arbitrary: m) (auto split: prod.splits)

text \<open>A fresh window starts at its first call and grants at most \<open>limit\<close>.\<close>

lemma granted_fresh:
  assumes "sorted (t # ts)" and "live_count t m k = None" and "0 \<le> limit" and "\<forall>x \<in> set ts. x < t + window_ms w"
  shows "int (granted P (t # ts) (allow_run k limit w (t # ts) m)) \<le> limit"
proof -
  let ?m = "m(k \<mapsto> (1, Some (t + window_ms w)))"
  define g where "g = granted P ts (allow_run k limit w ts ?m)"
  have "int g \<le> max 0 (limit - 1)" unfolding g_def by (rule granted_in_window) (use assms in auto)
  moreover have "granted P (t # ts) (allow_run k limit w (t # ts) m) = (if 1 \<le> limit \<and> P t then 1 else 0) + g"
    using assms(2) unfolding g_def by (simp add: Allow_unfold)
  ultimately show ?thesis using assms(3) by (auto split: if_splits)
qed

lemma granted_some_window:
  assumes "sorted ts" and "live_count (hd ts) m k = None" and "0 \<le> limit" and "\<forall>x \<in> set ts. a \<le> x \<and> x < a + window_ms w"
  shows "int (granted P ts (allow_run k limit w ts m)) \<le> limit"
proof (cases ts)
  case (Cons t us)
  have "int (granted P (t # us) (allow_run k limit w (t # us) m)) \<le> limit"
    by (rule granted_fresh) (use assms Cons in \<open>auto intro: less_le_trans\<close>)
  then show ?thesis using Cons by simp
qed (use assms(3) in simp)

text \<open>
  C40: A rate limit holds over every interval, not only over the windows of its counter: however calls are timed, in any
  stretch of time as long as the window at most twice the limit are granted.
\<close>

theorem Allow_interval_bound:
  assumes "sorted ts" and "m k = None" and "0 \<le> limit"
  shows "int (granted (\<lambda>t. a \<le> t \<and> t < a + window_ms w) ts (allow_run k limit w ts m)) \<le> 2 * limit"
proof -
  let ?P = "\<lambda>t. a \<le> t \<and> t < a + window_ms w" and ?g = "\<lambda>ts m. int (granted (\<lambda>t. a \<le> t \<and> t < a + window_ms w) ts (allow_run k limit w ts m))"
  obtain us rest where r: "ts = us @ rest" "\<forall>t \<in> set us. t < a" "\<forall>t \<in> set rest. a \<le> t" using sorted_split [OF assms(1)] .
  have "sorted rest" using assms(1) r(1) by (simp add: sorted_append)
  then obtain mid late where q: "rest = mid @ late" "\<forall>t \<in> set mid. t < a + window_ms w" "\<forall>t \<in> set late. a + window_ms w \<le> t"
    using sorted_split by blast
  define m1 where "m1 = allow_state k limit w us m"
  have mid: "\<forall>x \<in> set mid. a \<le> x \<and> x < a + window_ms w" "sorted mid" using r(3) q(1,2) \<open>sorted rest\<close> by (auto simp: sorted_append)
  have "counter_ok (hd (us @ [a])) (window_ms w) k m" using assms(2) by (simp add: counter_ok_def)
  then have ok: "counter_ok a (window_ms w) k m1" unfolding m1_def
    by (rule allow_state_counter_ok) (use assms(1) r in \<open>cases us; auto simp: sorted_append\<close>)+
  have "?g mid m1 \<le> 2 * limit"
  proof (cases "live_count (hd mid) m1 k")
    case None
    then show ?thesis using granted_some_window [OF mid(2) None assms(3) mid(1), of ?P] assms(3) by simp
  next
    case (Some c)
    then obtain n e where ne: "m1 k = Some (n, Some e)" "1 \<le> n" "e \<le> a + window_ms w"
      using ok by (auto simp: live_count_def counter_ok_def split: option.splits if_splits)
    obtain xs ys where s: "mid = xs @ ys" "\<forall>t \<in> set xs. t < e" "\<forall>t \<in> set ys. e \<le> t" using sorted_split [OF mid(2)] .
    define m2 where "m2 = allow_state k limit w xs m1"
    obtain n' where n': "m2 k = Some (n', Some e)"
      using allow_state_in_window [of m1 k n e xs limit w] ne(1,2) s(2) unfolding m2_def by blast
    have xs: "?g xs m1 \<le> limit" using granted_in_window [of xs m1 k n e ?P limit w] mid(2) s ne assms(3) by (simp add: sorted_append)
    have ys: "?g ys m2 \<le> limit"
    proof (cases "ys = []")
      case False
      then have "live_count (hd ys) m2 k = None" using n' s(3) by (simp add: live_count_def)
      then show ?thesis using granted_some_window [of ys m2 k limit a w ?P] mid s assms(3) by (simp add: sorted_append)
    qed (use assms(3) in simp)
    have "?g mid m1 = ?g xs m1 + ?g ys m2" unfolding s(1) allow_run_append m2_def by (simp add: granted_append)
    then show ?thesis using xs ys by simp
  qed
  moreover have "granted ?P us rs = 0" for rs by (rule granted_outside) (use r(2) in fastforce)
  moreover have "granted ?P late rs = 0" for rs by (rule granted_outside) (use q(3) in fastforce)
  ultimately have "?g mid m1 \<le> 2 * limit" "?g ts m = ?g mid m1"
    unfolding r(1) q(1) allow_run_append m1_def by (simp_all add: granted_append)
  then show ?thesis by simp
qed

theorem Allow_interval_bound_witness:
  "int (granted (\<lambda>t. 0 \<le> t \<and> t < 1000) [0, 0, 0, 999, 999, 1000, 1001, 1002] (allow_run ''k'' 2 1000000000 [0, 0, 0, 999, 999, 1000, 1001, 1002] (\<lambda>_. None))) \<le> 4
   \<and> allow_run ''k'' 2 1000000000 [0, 0, 0, 999, 999, 1000, 1001, 1002] (\<lambda>_. None) = [True, True, False, False, False, True, True, False]"
proof -
  have "window_ms 1000000000 = 1000" by code_simp
  moreover have "sorted [0, 0, 0, 999, 999, 1000, 1001, 1002 :: int]" by simp
  moreover have "allow_run ''k'' 2 1000000000 [0, 0, 0, 999, 999, 1000, 1001, 1002] (\<lambda>_. None) = [True, True, False, False, False, True, True, False]" by code_simp
  ultimately show ?thesis using Allow_interval_bound [of "[0, 0, 0, 999, 999, 1000, 1001, 1002]" "\<lambda>_. None" "''k''" 2 0 1000000000] by simp
qed

text \<open>
  Nobody is locked out for good. Whatever state a counter has been left in, short of an expiry later than a
  window from now, and even if it lost its expiry, the first call made a window after any other call is granted.
\<close>

theorem Allow_self_heals:
  assumes "case m k of Some (_, Some e) \<Rightarrow> e \<le> t + window_ms w | _ \<Rightarrow> True" and "case m k of Some (n, _) \<Rightarrow> 1 \<le> n | None \<Rightarrow> True"
    and "t + window_ms w \<le> t'" and "1 \<le> limit"
  shows "fst (Allow False t' k limit w (snd (Allow False t k limit w m))) = Inr True"
proof -
  let ?m = "snd (Allow False t k limit w m)"
  have "\<exists>n e. ?m k = Some (n, Some e) \<and> e \<le> t + window_ms w"
    using assms(1,2) window_ms_pos [of w] by (auto simp: Allow_unfold live_count_def split: option.splits if_splits)
  then have "live_count t' ?m k = None" using assms(3) by (auto simp: live_count_def)
  then show ?thesis using assms(4) by (simp add: Allow_unfold [of t'])
qed

theorem Allow_self_heals_witness:
  "fst (Allow False 2000 ''k'' 2 1000000000 (snd (Allow False 0 ''k'' 2 1000000000 (\<lambda>_. Some (99, None))))) = Inr True"
proof -
  have "window_ms 1000000000 = 1000" by code_simp
  then show ?thesis using Allow_self_heals [where m = "\<lambda>_. Some (99, None)" and k = "''k''" and t = 0 and w = 1000000000 and t' = 2000 and limit = 2] by simp
qed

end
