(* ===== verification/Auth_Store.thy ===== *)
theory Auth_Store
  imports Rate_Limit
begin

text \<open>
  The identity tables (\<open>profile\<close>, \<open>otp_challenge\<close>, \<open>refresh_token\<close>, \<open>telegram_account\<close>,
  \<open>telegram_login_request\<close>, \<open>password_reset_token\<close>) with the statements that sign-in issues, and the Redis keys beside
  them. An operation maps a state to an error or a result and the state after it; \<open>in_tx\<close> is a PostgreSQL
  transaction, which undoes the tables and not the Redis keys. A body ends a transaction with \<open>Keep\<close> (\<open>Commit\<close>) or
  with \<open>Drop\<close> (a return without one).
\<close>

section \<open>Rows\<close>

datatype auth_err =
    AuthSql billing_err | PhoneKeyViolation
  | ErrRateLimited | ErrInvalidPhone | ErrInvalidCode | ErrExpiredCode | ErrTooManyAttempts | ErrInvalidRefresh
  | ErrReusedRefresh | ErrAccountBlocked | ErrOTPDisabled | ErrWeakPassword | ErrInvalidCreds | ErrPhoneTaken
  | ErrPasswordNotSet | ErrNoReferralCode | ErrTelegramBotUnconfigured | ErrTelegramLoginDisabled
  | ErrInitDataInvalid | ErrInitDataExpired
  | ErrTelegramLoginInvalid | ErrTelegramLoginNotApproved | ErrResetInvalid | ErrResetNotVerified | ErrPhoneNotALearner

abbreviation AuthFailure :: auth_err where
  "AuthFailure \<equiv> AuthSql (Sql DbFailure)"

record account_row =
  pf_id :: uuid
  pf_phone :: string
  pf_name :: string
  pf_role :: string
  pf_status :: string
  pf_referral :: "string option"
  pf_password :: "string option"
  pf_must_change :: bool
  pf_kind :: string
  pf_created :: int

record otp_row =
  ot_id :: uuid
  ot_phone :: string
  ot_hash :: string
  ot_channel :: string
  ot_expires :: int
  ot_attempts :: int
  ot_consumed :: bool
  ot_created :: int

record refresh_row =
  rt_id :: uuid
  rt_profile :: uuid
  rt_hash :: string
  rt_expires :: int
  rt_revoked :: "int option"
  rt_created :: int

record tgaccount_row =
  ta_profile :: uuid
  ta_user :: int
  ta_username :: string
  ta_verified :: "int option"

record tglogin_row =
  tl_id :: uuid
  tl_token :: string
  tl_secret :: string
  tl_device :: string
  tl_status :: string
  tl_pending :: "int option"
  tl_nonce :: "string option"
  tl_profile :: "uuid option"
  tl_approver :: "int option"
  tl_opened :: "int option"
  tl_contact :: "string option"
  tl_expires :: int
  tl_created :: int

record reset_row =
  pw_id :: uuid
  pw_profile :: uuid
  pw_token :: string
  pw_expires :: int
  pw_used :: "int option"
  pw_verified :: "int option"
  pw_pending :: "int option"
  pw_nonce :: "string option"
  pw_verifier :: "int option"
  pw_created :: int

record identity_db =
  idb_billing :: billing_db
  idb_profiles :: "account_row list"
  idb_otps :: "otp_row list"
  idb_tokens :: "refresh_row list"
  idb_telegram :: "tgaccount_row list"
  idb_logins :: "tglogin_row list"
  idb_resets :: "reset_row list"
  idb_referrals :: "int \<Rightarrow> (string \<times> int) option"
  idb_login_flag :: "bool option"

text \<open>Redis: the counters, the sealed successor pairs, the rotation claims and the markers of issued resets.\<close>

record auth_redis =
  rd_limits :: lim_store
  rd_grace :: "string \<Rightarrow> (string \<times> int) option"
  rd_claims :: "string \<Rightarrow> int option"
  rd_issued :: "string \<Rightarrow> int option"

record auth_state =
  as_db :: identity_db
  as_redis :: auth_redis

section \<open>Operations\<close>

text \<open>The environment of a request: failures and clocks, what the random generator returns at each site, and what concurrent
  requests do to the state between two steps of this one.\<close>

record auth_env =
  av_env :: env
  av_rand :: "string \<Rightarrow> string"
  av_code :: nat
  av_bytes :: "nat list list"
  av_others :: "string \<Rightarrow> auth_state \<Rightarrow> auth_state"
  av_polls :: nat

type_synonym 'a op = "auth_state \<Rightarrow> (auth_err + 'a) \<times> auth_state"

definition ret :: "'a \<Rightarrow> 'a op" where "ret x s = (Inr x, s)"

definition throw :: "auth_err \<Rightarrow> 'a op" where "throw err s = (Inl err, s)"

definition abind :: "'a op \<Rightarrow> ('a \<Rightarrow> 'b op) \<Rightarrow> 'b op" where
  "abind m f s = (case m s of (Inl err, s') \<Rightarrow> (Inl err, s') | (Inr x, s') \<Rightarrow> f x s')"

definition fails :: "auth_env \<Rightarrow> string \<Rightarrow> string \<Rightarrow> bool" where
  "fails e site st = flt (av_env e) site st"

text \<open>A query that returns a row, or none, or a list; and a statement that changes the tables.\<close>

definition query :: "auth_env \<Rightarrow> string \<Rightarrow> string \<Rightarrow> (identity_db \<Rightarrow> 'a) \<Rightarrow> 'a op" where
  "query e site st f s = (if fails e site st then (Inl AuthFailure, s) else (Inr (f (as_db s)), s))"

definition exec :: "auth_env \<Rightarrow> string \<Rightarrow> string \<Rightarrow> (identity_db \<Rightarrow> auth_err + ('a \<times> identity_db)) \<Rightarrow> 'a op" where
  "exec e site st f s =
     (if fails e site st then (Inl AuthFailure, s)
      else case f (as_db s) of Inl err \<Rightarrow> (Inl err, s) | Inr (x, d) \<Rightarrow> (Inr x, s\<lparr>as_db := d\<rparr>))"

datatype 'a tx_end = Keep 'a | Drop 'a

definition in_tx :: "auth_env \<Rightarrow> string \<Rightarrow> 'a tx_end op \<Rightarrow> 'a op" where
  "in_tx e site body s =
     (if fails e site ''Begin'' then (Inl AuthFailure, s)
      else case body s of
          (Inl err, s') \<Rightarrow> (Inl err, s'\<lparr>as_db := as_db s\<rparr>)
        | (Inr (Drop x), s') \<Rightarrow> (Inr x, s'\<lparr>as_db := as_db s\<rparr>)
        | (Inr (Keep x), s') \<Rightarrow> if fails e site ''Commit'' then (Inl AuthFailure, s'\<lparr>as_db := as_db s\<rparr>) else (Inr x, s'))"

text \<open>Looking at the state; an error taken as a value; and the same for a savepoint, which also undoes the tables.\<close>

definition observe :: "(auth_state \<Rightarrow> 'a) \<Rightarrow> ('a \<Rightarrow> 'b op) \<Rightarrow> 'b op" where
  "observe g f s = f (g s) s"

definition trying :: "'a op \<Rightarrow> (auth_err + 'a) op" where
  "trying m s = (case m s of (r, s') \<Rightarrow> (Inr r, s'))"

definition savepoint :: "'a op \<Rightarrow> (auth_err + 'a) op" where
  "savepoint m s = (case m s of (Inl err, s') \<Rightarrow> (Inr (Inl err), s'\<lparr>as_db := as_db s\<rparr>) | (Inr x, s') \<Rightarrow> (Inr (Inr x), s'))"

lemma ret_simps [simp]: "ret x s = (Inr x, s)" "throw err s = (Inl err, s)"
  by (simp_all add: ret_def throw_def)

lemma abind_Inr_iff: "abind m f s = (Inr y, s'') \<longleftrightarrow> (\<exists>x s'. m s = (Inr x, s') \<and> f x s' = (Inr y, s''))"
  by (auto simp: abind_def split: prod.splits sum.splits)

lemma query_Inr_iff: "query e site st f s = (Inr x, s') \<longleftrightarrow> \<not> fails e site st \<and> x = f (as_db s) \<and> s' = s"
  by (auto simp: query_def)

lemma exec_Inr_iff: "exec e site st f s = (Inr x, s') \<longleftrightarrow> \<not> fails e site st \<and> (\<exists>d. f (as_db s) = Inr (x, d) \<and> s' = s\<lparr>as_db := d\<rparr>)"
  by (auto simp: exec_def split: sum.splits)

lemma in_tx_Inr_iff:
  "in_tx e site body s = (Inr x, s') \<longleftrightarrow> \<not> fails e site ''Begin''
     \<and> ((body s = (Inr (Keep x), s') \<and> \<not> fails e site ''Commit'') \<or> (\<exists>s1. body s = (Inr (Drop x), s1) \<and> s' = s1\<lparr>as_db := as_db s\<rparr>))"
  by (auto simp: in_tx_def split: prod.splits sum.splits tx_end.splits)

lemma in_tx_failed: "in_tx e site body s = (Inl err, s') \<Longrightarrow> as_db s' = as_db s"
  by (auto simp: in_tx_def split: prod.splits sum.splits tx_end.splits if_splits)

section \<open>Redis\<close>

definition redis_ms :: "auth_env \<Rightarrow> string \<Rightarrow> int" where
  "redis_ms e site = unix_milli (clk (av_env e) site)"

definition set_limits :: "lim_store \<Rightarrow> auth_state \<Rightarrow> auth_state" where
  "set_limits m s = s\<lparr>as_redis := (as_redis s)\<lparr>rd_limits := m\<rparr>\<rparr>"

definition lim_allow :: "auth_env \<Rightarrow> string \<Rightarrow> string \<Rightarrow> int \<Rightarrow> int \<Rightarrow> bool op" where
  "lim_allow e site k limit window s =
     (case Allow (fails e site ''Allow'') (redis_ms e site) k limit window (rd_limits (as_redis s)) of
        (Inl err, m) \<Rightarrow> (Inl (AuthSql err), set_limits m s)
      | (Inr ok, m) \<Rightarrow> (Inr ok, set_limits m s))"

definition lim_cooldown :: "auth_env \<Rightarrow> string \<Rightarrow> string \<Rightarrow> int \<Rightarrow> bool op" where
  "lim_cooldown e site k d s =
     (case Cooldown (fails e site ''Cooldown'') (redis_ms e site) k d (rd_limits (as_redis s)) of
        (Inl err, m) \<Rightarrow> (Inl (AuthSql err), set_limits m s)
      | (Inr ok, m) \<Rightarrow> (Inr ok, set_limits m s))"

text \<open>\<open>if ok, err := Allow(...); err != nil ... else if !ok \<close>: the limit is an error of its own.\<close>

definition allow_or :: "auth_env \<Rightarrow> string \<Rightarrow> string \<Rightarrow> int \<Rightarrow> int \<Rightarrow> unit op" where
  "allow_or e site k limit window = abind (lim_allow e site k limit window) (\<lambda>ok. if ok then ret () else throw ErrRateLimited)"

lemma set_limits_db [simp]: "as_db (set_limits m s) = as_db s" "rd_grace (as_redis (set_limits m s)) = rd_grace (as_redis s)"
    "rd_claims (as_redis (set_limits m s)) = rd_claims (as_redis s)"
  by (simp_all add: set_limits_def)

lemma lim_allow_frame:
  assumes "lim_allow e site k limit window s = (r, s')"
  shows "as_db s' = as_db s" "rd_grace (as_redis s') = rd_grace (as_redis s)" "rd_claims (as_redis s') = rd_claims (as_redis s)"
  using assms by (auto simp: lim_allow_def split: prod.splits sum.splits)

lemma lim_cooldown_frame:
  assumes "lim_cooldown e site k d s = (r, s')"
  shows "as_db s' = as_db s" "rd_grace (as_redis s') = rd_grace (as_redis s)" "rd_claims (as_redis s') = rd_claims (as_redis s)"
  using assms by (auto simp: lim_cooldown_def split: prod.splits sum.splits)

lemma allow_or_frame:
  assumes "allow_or e site k limit window s = (r, s')"
  shows "as_db s' = as_db s" "rd_grace (as_redis s') = rd_grace (as_redis s)" "rd_claims (as_redis s') = rd_claims (as_redis s)"
proof -
  obtain ok s1 where l: "lim_allow e site k limit window s = (ok, s1)" by (cases "lim_allow e site k limit window s")
  then have "s' = s1" using assms by (auto simp: allow_or_def abind_def split: sum.splits if_splits)
  then show "as_db s' = as_db s" "rd_grace (as_redis s') = rd_grace (as_redis s)" "rd_claims (as_redis s') = rd_claims (as_redis s)"
    using lim_allow_frame [OF l] by simp_all
qed

section \<open>Statements: profiles, codes and refresh tokens\<close>

definition GetProfileByID :: "uuid \<Rightarrow> identity_db \<Rightarrow> account_row option" where
  "GetProfileByID i d = find (\<lambda>p. pf_id p = i) (idb_profiles d)"

definition GetProfileByPhone :: "string \<Rightarrow> identity_db \<Rightarrow> account_row option" where
  "GetProfileByPhone phone d = find (\<lambda>p. pf_phone p = phone) (idb_profiles d)"

definition GetUserProfileByPhone :: "string \<Rightarrow> identity_db \<Rightarrow> account_row option" where
  "GetUserProfileByPhone phone d = find (\<lambda>p. pf_phone p = phone \<and> pf_kind p = ''user'') (idb_profiles d)"

text \<open>Unique: phone and referral code; the commission percentage has its column default.\<close>

definition CreateProfile ::
  "env \<Rightarrow> string \<Rightarrow> string \<Rightarrow> string option \<Rightarrow> string \<Rightarrow> identity_db \<Rightarrow> auth_err + (account_row \<times> identity_db)" where
  "CreateProfile e phone code pw name d =
     (if list_ex (\<lambda>p. pf_phone p = phone) (idb_profiles d) then Inl PhoneKeyViolation
      else if list_ex (\<lambda>p. pf_referral p = Some code) (idb_profiles d) then Inl (AuthSql (Sql UniqueViolation))
      else let row = \<lparr>pf_id = new_id e, pf_phone = phone, pf_name = name, pf_role = ''user'', pf_status = ''active'', pf_referral = Some code,
             pf_password = pw, pf_must_change = False, pf_kind = ''user'', pf_created = tx_now e\<rparr>
        in Inr (row, d\<lparr>idb_profiles := idb_profiles d @ [row], idb_billing := (idb_billing d)\<lparr>profiles := profiles (idb_billing d) @
             [\<lparr>pr_id = new_id e, pr_created_at = tx_now e, pr_commission_percent = 20\<rparr>]\<rparr>\<rparr>))"

definition SetProfilePassword :: "uuid \<Rightarrow> string \<Rightarrow> bool \<Rightarrow> identity_db \<Rightarrow> identity_db" where
  "SetProfilePassword i hash must d = d\<lparr>idb_profiles :=
     upd_where (\<lambda>p. pf_id p = i) (\<lambda>p. p\<lparr>pf_password := Some hash, pf_must_change := must\<rparr>) (idb_profiles d)\<rparr>"

text \<open>The column check admits the three live channels only.\<close>

definition CreateOTPChallenge :: "env \<Rightarrow> string \<Rightarrow> string \<Rightarrow> string \<Rightarrow> int \<Rightarrow> identity_db \<Rightarrow> auth_err + (uuid \<times> identity_db)" where
  "CreateOTPChallenge e phone hash channel expires d =
     (if channel \<notin> {''telegram'', ''sms'', ''sandbox''} then Inl (AuthSql (Sql CheckViolation))
      else Inr (new_id e, d\<lparr>idb_otps := idb_otps d @ [\<lparr>ot_id = new_id e, ot_phone = phone, ot_hash = hash, ot_channel = channel,
        ot_expires = expires, ot_attempts = 0, ot_consumed = False, ot_created = tx_now e\<rparr>]\<rparr>))"

definition LatestOTPChallenge :: "env \<Rightarrow> string \<Rightarrow> identity_db \<Rightarrow> otp_row option" where
  "LatestOTPChallenge e phone d =
     (let live = filter (\<lambda>r. ot_phone r = phone \<and> \<not> ot_consumed r) (idb_otps d) in
      select_one (pick e ''LatestOTPChallenge'') (filter (\<lambda>r. list_all (\<lambda>x. ot_created x \<le> ot_created r) live) live))"

definition IncrementOTPAttempts :: "uuid \<Rightarrow> identity_db \<Rightarrow> identity_db" where
  "IncrementOTPAttempts i d = d\<lparr>idb_otps := upd_where (\<lambda>r. ot_id r = i) (\<lambda>r. r\<lparr>ot_attempts := ot_attempts r + 1\<rparr>) (idb_otps d)\<rparr>"

definition ConsumeOTP :: "uuid \<Rightarrow> identity_db \<Rightarrow> identity_db" where
  "ConsumeOTP i d = d\<lparr>idb_otps := upd_where (\<lambda>r. ot_id r = i) (\<lambda>r. r\<lparr>ot_consumed := True\<rparr>) (idb_otps d)\<rparr>"

definition CreateRefreshToken :: "env \<Rightarrow> uuid \<Rightarrow> string \<Rightarrow> int \<Rightarrow> identity_db \<Rightarrow> auth_err + (unit \<times> identity_db)" where
  "CreateRefreshToken e prof hash expires d =
     (if list_ex (\<lambda>t. rt_hash t = hash) (idb_tokens d) then Inl (AuthSql (Sql UniqueViolation))
      else Inr ((), d\<lparr>idb_tokens := idb_tokens d @ [\<lparr>rt_id = new_id e, rt_profile = prof, rt_hash = hash, rt_expires = expires,
        rt_revoked = None, rt_created = tx_now e\<rparr>]\<rparr>))"

definition GetRefreshToken :: "string \<Rightarrow> identity_db \<Rightarrow> refresh_row option" where
  "GetRefreshToken hash d = find (\<lambda>t. rt_hash t = hash) (idb_tokens d)"

definition DeleteRefreshToken :: "uuid \<Rightarrow> identity_db \<Rightarrow> identity_db" where
  "DeleteRefreshToken i d = d\<lparr>idb_tokens := filter (\<lambda>t. rt_id t \<noteq> i) (idb_tokens d)\<rparr>"

definition RevokeAllRefreshTokens :: "env \<Rightarrow> uuid \<Rightarrow> identity_db \<Rightarrow> identity_db" where
  "RevokeAllRefreshTokens e prof d = d\<lparr>idb_tokens :=
     upd_where (\<lambda>t. rt_profile t = prof \<and> rt_revoked t = None) (\<lambda>t. t\<lparr>rt_revoked := Some (tx_now e)\<rparr>) (idb_tokens d)\<rparr>"

text \<open>The guarded update of \<open>Refresh\<close>; the number of rows it changed.\<close>

definition claims_row :: "env \<Rightarrow> uuid \<Rightarrow> string \<Rightarrow> refresh_row \<Rightarrow> bool" where
  "claims_row e i hash t \<longleftrightarrow> rt_id t = i \<and> rt_hash t = hash \<and> rt_revoked t = None \<and> tx_now e < rt_expires t"

definition RotateRefreshToken :: "env \<Rightarrow> uuid \<Rightarrow> string \<Rightarrow> identity_db \<Rightarrow> nat \<times> identity_db" where
  "RotateRefreshToken e i hash d = (length (filter (claims_row e i hash) (idb_tokens d)),
     d\<lparr>idb_tokens := upd_where (claims_row e i hash) (\<lambda>t. t\<lparr>rt_revoked := Some (tx_now e)\<rparr>) (idb_tokens d)\<rparr>)"

definition InsertTrial :: "entitlement_row \<Rightarrow> identity_db \<Rightarrow> auth_err + (unit \<times> identity_db)" where
  "InsertTrial r d = (case InsertEntitlement r (idb_billing d) of Inl err \<Rightarrow> Inl (AuthSql err) | Inr b \<Rightarrow> Inr ((), d\<lparr>idb_billing := b\<rparr>))"

section \<open>Statements: Telegram accounts\<close>

definition GetTelegramAccountByTgUserID :: "int \<Rightarrow> identity_db \<Rightarrow> tgaccount_row option" where
  "GetTelegramAccountByTgUserID u d = find (\<lambda>a. ta_user a = u) (idb_telegram d)"

definition GetTelegramAccountByProfileID :: "uuid \<Rightarrow> identity_db \<Rightarrow> tgaccount_row option" where
  "GetTelegramAccountByProfileID p d = find (\<lambda>a. ta_profile a = p) (idb_telegram d)"

definition DeleteTelegramAccountForOtherProfiles :: "int \<Rightarrow> uuid \<Rightarrow> identity_db \<Rightarrow> identity_db" where
  "DeleteTelegramAccountForOtherProfiles u p d = d\<lparr>idb_telegram := filter (\<lambda>a. \<not> (ta_user a = u \<and> ta_profile a \<noteq> p)) (idb_telegram d)\<rparr>"

text \<open>One row per profile (primary key) and per Telegram user (unique).\<close>

definition UpsertTelegramAccount :: "env \<Rightarrow> uuid \<Rightarrow> int \<Rightarrow> string \<Rightarrow> bool \<Rightarrow> identity_db \<Rightarrow> auth_err + (unit \<times> identity_db)" where
  "UpsertTelegramAccount e p u name verified d =
     (if list_ex (\<lambda>a. ta_user a = u \<and> ta_profile a \<noteq> p) (idb_telegram d) then Inl (AuthSql (Sql UniqueViolation))
      else if list_ex (\<lambda>a. ta_profile a = p) (idb_telegram d) then
        Inr ((), d\<lparr>idb_telegram := upd_where (\<lambda>a. ta_profile a = p) (\<lambda>a. a\<lparr>ta_user := u, ta_username := name,
          ta_verified := (if verified then Some (tx_now e) else if ta_user a = u then ta_verified a else None)\<rparr>) (idb_telegram d)\<rparr>)
      else Inr ((), d\<lparr>idb_telegram := idb_telegram d @ [\<lparr>ta_profile = p, ta_user = u, ta_username = name,
          ta_verified = (if verified then Some (tx_now e) else None)\<rparr>]\<rparr>))"

text \<open>The rows a reset drops: all but a phone-verified link of the confirming Telegram user.\<close>

definition DeleteUnattributedTelegramAccount :: "uuid \<Rightarrow> int option \<Rightarrow> identity_db \<Rightarrow> nat \<times> identity_db" where
  "DeleteUnattributedTelegramAccount p confirmer d =
     (let goes = (\<lambda>a. ta_profile a = p \<and> \<not> (ta_verified a \<noteq> None \<and> Some (ta_user a) = confirmer)) in
      (length (filter goes (idb_telegram d)), d\<lparr>idb_telegram := filter (\<lambda>a. \<not> goes a) (idb_telegram d)\<rparr>))"

section \<open>Statements: Telegram login requests\<close>

definition CreateTelegramLoginRequest :: "env \<Rightarrow> string \<Rightarrow> string \<Rightarrow> string \<Rightarrow> int \<Rightarrow> identity_db \<Rightarrow> auth_err + (unit \<times> identity_db)" where
  "CreateTelegramLoginRequest e token secret device expires d =
     (if list_ex (\<lambda>r. tl_token r = token) (idb_logins d) then Inl (AuthSql (Sql UniqueViolation))
      else Inr ((), d\<lparr>idb_logins := idb_logins d @ [\<lparr>tl_id = new_id e, tl_token = token, tl_secret = secret, tl_device = device, tl_status = ''pending'',
        tl_pending = None, tl_nonce = None, tl_profile = None, tl_approver = None, tl_opened = None, tl_contact = None,
        tl_expires = expires, tl_created = tx_now e\<rparr>]\<rparr>))"

text \<open>At most 500 stale rows go; which ones, when there are more, is up to the executor (here the first).\<close>

definition DeleteStaleTelegramLoginRequests :: "env \<Rightarrow> identity_db \<Rightarrow> identity_db" where
  "DeleteStaleTelegramLoginRequests e d =
     (let gone = take 500 (map tl_id (filter (\<lambda>r. tl_expires r < tx_now e - day_ns) (idb_logins d))) in
      d\<lparr>idb_logins := filter (\<lambda>r. tl_id r \<notin> set gone) (idb_logins d)\<rparr>)"

definition GetTelegramLoginRequestByTokenHash :: "string \<Rightarrow> identity_db \<Rightarrow> tglogin_row option" where
  "GetTelegramLoginRequestByTokenHash hash d = find (\<lambda>r. tl_token r = hash) (idb_logins d)"

definition GetLiveTelegramLoginByPendingTg :: "env \<Rightarrow> int \<Rightarrow> identity_db \<Rightarrow> tglogin_row option" where
  "GetLiveTelegramLoginByPendingTg e u d = find (\<lambda>r. tl_pending r = Some u \<and> tl_status r = ''pending'' \<and> tx_now e < tl_expires r) (idb_logins d)"

definition GetTelegramLoginByConfirmNonce :: "string \<Rightarrow> identity_db \<Rightarrow> tglogin_row option" where
  "GetTelegramLoginByConfirmNonce hash d = find (\<lambda>r. tl_nonce r = Some hash) (idb_logins d)"

definition disarm_login :: "tglogin_row \<Rightarrow> tglogin_row" where
  "disarm_login r = r\<lparr>tl_pending := None, tl_nonce := None, tl_contact := None\<rparr>"

definition ClearTelegramLoginPendingForTg :: "int \<Rightarrow> uuid \<Rightarrow> identity_db \<Rightarrow> identity_db" where
  "ClearTelegramLoginPendingForTg u i d = d\<lparr>idb_logins := upd_where (\<lambda>r. tl_pending r = Some u \<and> tl_id r \<noteq> i) disarm_login (idb_logins d)\<rparr>"

definition ClearAllTelegramLoginPendingForTg :: "int \<Rightarrow> identity_db \<Rightarrow> identity_db" where
  "ClearAllTelegramLoginPendingForTg u d = d\<lparr>idb_logins :=
     upd_where (\<lambda>r. tl_pending r = Some u \<and> tl_status r = ''pending'') disarm_login (idb_logins d)\<rparr>"

text \<open>Unique: the pending user among pending requests, and the nonce.\<close>

definition ArmTelegramLoginForTg :: "uuid \<Rightarrow> int \<Rightarrow> string option \<Rightarrow> identity_db \<Rightarrow> auth_err + (unit \<times> identity_db)" where
  "ArmTelegramLoginForTg i u nonce d =
     (if list_ex (\<lambda>r. tl_id r \<noteq> i \<and> ((tl_pending r = Some u \<and> tl_status r = ''pending'') \<or> (nonce \<noteq> None \<and> tl_nonce r = nonce))) (idb_logins d)
      then Inl (AuthSql (Sql UniqueViolation))
      else Inr ((), d\<lparr>idb_logins := upd_where (\<lambda>r. tl_id r = i) (\<lambda>r. r\<lparr>tl_pending := Some u, tl_nonce := nonce, tl_contact := None,
        tl_opened := (case tl_opened r of None \<Rightarrow> Some u | Some v \<Rightarrow> Some v)\<rparr>) (idb_logins d)\<rparr>))"

definition count_where :: "('r \<Rightarrow> bool) \<Rightarrow> 'r list \<Rightarrow> nat" where
  "count_where P rows = length (filter P rows)"

definition AskTelegramLoginConfirmAfterContact :: "uuid \<Rightarrow> string \<Rightarrow> string \<Rightarrow> identity_db \<Rightarrow> auth_err + (nat \<times> identity_db)" where
  "AskTelegramLoginConfirmAfterContact i nonce phone d =
     (let P = (\<lambda>r. tl_id r = i \<and> tl_status r = ''pending'') in
      if list_ex (\<lambda>r. tl_id r \<noteq> i \<and> tl_nonce r = Some nonce) (idb_logins d) then Inl (AuthSql (Sql UniqueViolation))
      else Inr (count_where P (idb_logins d), d\<lparr>idb_logins := upd_where P (\<lambda>r. r\<lparr>tl_nonce := Some nonce, tl_contact := Some phone\<rparr>) (idb_logins d)\<rparr>))"

definition ApproveTelegramLoginRequest :: "uuid \<Rightarrow> uuid \<Rightarrow> int \<Rightarrow> identity_db \<Rightarrow> nat \<times> identity_db" where
  "ApproveTelegramLoginRequest i prof u d =
     (let P = (\<lambda>r. tl_id r = i \<and> tl_status r = ''pending'') in
      (count_where P (idb_logins d), d\<lparr>idb_logins := upd_where P
         (\<lambda>r. (disarm_login r)\<lparr>tl_status := ''approved'', tl_profile := Some prof, tl_approver := Some u\<rparr>) (idb_logins d)\<rparr>))"

definition EndTelegramLoginRequest :: "uuid \<Rightarrow> string \<Rightarrow> identity_db \<Rightarrow> nat \<times> identity_db" where
  "EndTelegramLoginRequest i status d =
     (let P = (\<lambda>r. tl_id r = i \<and> tl_status r = ''pending'') in
      (count_where P (idb_logins d), d\<lparr>idb_logins := upd_where P (\<lambda>r. (disarm_login r)\<lparr>tl_status := status\<rparr>) (idb_logins d)\<rparr>))"

definition ConsumeTelegramLoginRequest :: "uuid \<Rightarrow> identity_db \<Rightarrow> nat \<times> identity_db" where
  "ConsumeTelegramLoginRequest i d =
     (let P = (\<lambda>r. tl_id r = i \<and> tl_status r = ''approved'') in
      (count_where P (idb_logins d), d\<lparr>idb_logins := upd_where P (\<lambda>r. r\<lparr>tl_status := ''consumed''\<rparr>) (idb_logins d)\<rparr>))"

definition GetTelegramBotUserPendingReferral :: "env \<Rightarrow> int \<Rightarrow> identity_db \<Rightarrow> string option" where
  "GetTelegramBotUserPendingReferral e u d =
     (case idb_referrals d u of None \<Rightarrow> None | Some (code, t) \<Rightarrow> if tx_now e - 30 * day_ns < t then Some code else None)"

definition ClearTelegramBotUserPendingReferral :: "int \<Rightarrow> identity_db \<Rightarrow> identity_db" where
  "ClearTelegramBotUserPendingReferral u d = d\<lparr>idb_referrals := (idb_referrals d)(u := None)\<rparr>"

section \<open>Statements: password resets\<close>

definition DeleteUnusedPasswordResetTokensForProfile :: "uuid \<Rightarrow> identity_db \<Rightarrow> identity_db" where
  "DeleteUnusedPasswordResetTokensForProfile p d = d\<lparr>idb_resets := filter (\<lambda>r. \<not> (pw_profile r = p \<and> pw_used r = None)) (idb_resets d)\<rparr>"

definition CreatePasswordResetToken :: "env \<Rightarrow> uuid \<Rightarrow> string \<Rightarrow> int \<Rightarrow> identity_db \<Rightarrow> auth_err + (unit \<times> identity_db)" where
  "CreatePasswordResetToken e p token expires d =
     (if list_ex (\<lambda>r. pw_token r = token) (idb_resets d) then Inl (AuthSql (Sql UniqueViolation))
      else Inr ((), d\<lparr>idb_resets := idb_resets d @ [\<lparr>pw_id = new_id e, pw_profile = p, pw_token = token, pw_expires = expires, pw_used = None,
        pw_verified = None, pw_pending = None, pw_nonce = None, pw_verifier = None, pw_created = tx_now e\<rparr>]\<rparr>))"

definition GetPasswordResetTokenByHash :: "string \<Rightarrow> identity_db \<Rightarrow> reset_row option" where
  "GetPasswordResetTokenByHash hash d = find (\<lambda>r. pw_token r = hash) (idb_resets d)"

text \<open>The newest; equal creation times leave the choice to the executor.\<close>

definition GetLivePasswordResetByPendingTg :: "env \<Rightarrow> int \<Rightarrow> identity_db \<Rightarrow> reset_row option" where
  "GetLivePasswordResetByPendingTg e u d =
     (let live = filter (\<lambda>r. pw_pending r = Some u \<and> pw_used r = None) (idb_resets d) in
      select_one (pick e ''GetLivePasswordResetByPendingTg'') (filter (\<lambda>r. list_all (\<lambda>x. pw_created x \<le> pw_created r) live) live))"

definition GetPasswordResetByConfirmNonce :: "string \<Rightarrow> identity_db \<Rightarrow> reset_row option" where
  "GetPasswordResetByConfirmNonce hash d = find (\<lambda>r. pw_nonce r = Some hash) (idb_resets d)"

definition disarm_reset :: "reset_row \<Rightarrow> reset_row" where
  "disarm_reset r = r\<lparr>pw_pending := None, pw_nonce := None\<rparr>"

definition ClearPasswordResetPendingForTg :: "int \<Rightarrow> uuid \<Rightarrow> identity_db \<Rightarrow> identity_db" where
  "ClearPasswordResetPendingForTg u i d = d\<lparr>idb_resets :=
     upd_where (\<lambda>r. pw_pending r = Some u \<and> pw_used r = None \<and> pw_id r \<noteq> i) disarm_reset (idb_resets d)\<rparr>"

definition ClearAllPasswordResetPendingForTg :: "int \<Rightarrow> identity_db \<Rightarrow> identity_db" where
  "ClearAllPasswordResetPendingForTg u d = d\<lparr>idb_resets := upd_where (\<lambda>r. pw_pending r = Some u \<and> pw_used r = None) disarm_reset (idb_resets d)\<rparr>"

definition SetPasswordResetPendingTg :: "uuid \<Rightarrow> int \<Rightarrow> identity_db \<Rightarrow> auth_err + (unit \<times> identity_db)" where
  "SetPasswordResetPendingTg i u d =
     (if list_ex (\<lambda>r. pw_id r \<noteq> i \<and> pw_pending r = Some u \<and> pw_used r = None) (idb_resets d) then Inl (AuthSql (Sql UniqueViolation))
      else Inr ((), d\<lparr>idb_resets := upd_where (\<lambda>r. pw_id r = i \<and> pw_used r = None) (\<lambda>r. r\<lparr>pw_pending := Some u, pw_nonce := None\<rparr>) (idb_resets d)\<rparr>))"

definition SetPasswordResetConfirmNonce :: "uuid \<Rightarrow> string \<Rightarrow> identity_db \<Rightarrow> auth_err + (unit \<times> identity_db)" where
  "SetPasswordResetConfirmNonce i nonce d =
     (if list_ex (\<lambda>r. pw_id r \<noteq> i \<and> pw_nonce r = Some nonce) (idb_resets d) then Inl (AuthSql (Sql UniqueViolation))
      else Inr ((), d\<lparr>idb_resets := upd_where (\<lambda>r. pw_id r = i \<and> pw_used r = None \<and> pw_verified r = None) (\<lambda>r. r\<lparr>pw_nonce := Some nonce\<rparr>) (idb_resets d)\<rparr>))"

definition CancelPasswordReset :: "env \<Rightarrow> uuid \<Rightarrow> identity_db \<Rightarrow> identity_db" where
  "CancelPasswordReset e i d = d\<lparr>idb_resets :=
     upd_where (\<lambda>r. pw_id r = i \<and> pw_used r = None) (\<lambda>r. (disarm_reset r)\<lparr>pw_used := Some (tx_now e)\<rparr>) (idb_resets d)\<rparr>"

definition MarkPasswordResetVerified :: "env \<Rightarrow> uuid \<Rightarrow> identity_db \<Rightarrow> identity_db" where
  "MarkPasswordResetVerified e i d = d\<lparr>idb_resets := upd_where (\<lambda>r. pw_id r = i \<and> pw_used r = None)
     (\<lambda>r. (disarm_reset r)\<lparr>pw_verified := Some (tx_now e), pw_verifier := pw_pending r\<rparr>) (idb_resets d)\<rparr>"

definition MarkPasswordResetUsed :: "env \<Rightarrow> uuid \<Rightarrow> identity_db \<Rightarrow> identity_db" where
  "MarkPasswordResetUsed e i d = d\<lparr>idb_resets := upd_where (\<lambda>r. pw_id r = i) (\<lambda>r. (disarm_reset r)\<lparr>pw_used := Some (tx_now e)\<rparr>) (idb_resets d)\<rparr>"

end
