(* ===== verification/Telegram_Payload.thy ===== *)
theory Telegram_Payload
  imports Checkout Auth_Store "HOL-Library.Char_ord" "HOL-Library.List_Lexorder"
begin

text \<open>
  Telegram's signed payloads (\<open>auth/telegram_webapp.go\<close>): the launch data of a Mini App and its answer to a phone
  request are query strings whose fields, sorted and joined by line feeds, carry an HMAC. \<open>url.ParseQuery\<close>,
  \<open>hex.DecodeString\<close> and \<open>strconv.ParseInt\<close> are written out; HMAC-SHA256 and the JSON decoder of the two objects are
  arguments.
\<close>

section \<open>Hexadecimal, integers and query strings\<close>

definition hex_digits :: string where "hex_digits = ''0123456789abcdef''"

definition hex_encode :: "string \<Rightarrow> string" where
  "hex_encode s = concat (map (\<lambda>c. [hex_digits ! (of_char c div 16), hex_digits ! (of_char c mod 16)]) s)"

definition hex_val :: "char \<Rightarrow> nat option" where
  "hex_val c = (if is_digit c then Some (digit_val c)
     else if 97 \<le> (of_char c :: nat) \<and> (of_char c :: nat) \<le> 102 then Some (of_char c - 87)
     else if 65 \<le> (of_char c :: nat) \<and> (of_char c :: nat) \<le> 70 then Some (of_char c - 55) else None)"

definition hex_byte :: "char \<Rightarrow> char \<Rightarrow> char option" where
  "hex_byte a b = (case (hex_val a, hex_val b) of (Some x, Some y) \<Rightarrow> Some (char_of (16 * x + y)) | _ \<Rightarrow> None)"

fun hex_decode :: "string \<Rightarrow> string option" where
  "hex_decode [] = Some []"
| "hex_decode [c] = None"
| "hex_decode (a # b # s) = (case (hex_byte a b, hex_decode s) of (Some x, Some r) \<Rightarrow> Some (x # r) | _ \<Rightarrow> None)"

definition ParseInt64 :: "string \<Rightarrow> int option" where
  "ParseInt64 s =
     (let (neg, ds) = (case s of [] \<Rightarrow> (False, []) | c # r \<Rightarrow> if c = CHR ''-'' then (True, r) else if c = CHR ''+'' then (False, r) else (False, s));
          v = (if neg then - int (read_nat ds) else int (read_nat ds)) in
      if ds = [] \<or> \<not> list_all is_digit ds \<or> v < - (2 ^ 63) \<or> 2 ^ 63 \<le> v then None else Some v)"

fun query_unescape :: "string \<Rightarrow> string option" where
  "query_unescape [] = Some []"
| "query_unescape (c # s) =
     (if c = CHR ''%'' then
        case s of a # b # r \<Rightarrow> (case (hex_byte a b, query_unescape r) of (Some x, Some q) \<Rightarrow> Some (x # q) | _ \<Rightarrow> None) | _ \<Rightarrow> None
      else map_option ((#) (if c = CHR ''+'' then CHR '' '' else c)) (query_unescape s))"

text \<open>The text up to the first occurrence of a byte, and what follows it.\<close>

definition cut_at :: "char \<Rightarrow> string \<Rightarrow> string \<times> string" where
  "cut_at c s = (takeWhile (\<lambda>x. x \<noteq> c) s, drop 1 (dropWhile (\<lambda>x. x \<noteq> c) s))"

function split_at :: "char \<Rightarrow> string \<Rightarrow> string list" where
  "split_at c s = (if s = [] then [] else fst (cut_at c s) # split_at c (snd (cut_at c s)))"
  by auto
termination
proof (relation "measure (\<lambda>(c, s). length s)")
  fix c :: char and s :: string
  assume "s \<noteq> []"
  moreover have "length (dropWhile (\<lambda>x. x \<noteq> c) s) \<le> length s" by (rule length_dropWhile_le)
  ultimately show "((c, snd (cut_at c s)), (c, s)) \<in> measure (\<lambda>(c, s). length s)" by (cases s) (auto simp: cut_at_def)
qed simp

declare split_at.simps [simp del]

definition parse_pair :: "string \<Rightarrow> (string \<times> string) option" where
  "parse_pair part =
     (if CHR '';'' \<in> set part then None
      else case (query_unescape (fst (cut_at (CHR ''='') part)), query_unescape (snd (cut_at (CHR ''='') part))) of
          (Some k, Some v) \<Rightarrow> Some (k, v) | _ \<Rightarrow> None)"

definition ParseQuery :: "string \<Rightarrow> (string \<times> string) list option" where
  "ParseQuery raw =
     (let kvs = map parse_pair (filter (\<lambda>p. p \<noteq> []) (split_at (CHR ''&'') raw)) in
      if list_all (\<lambda>r. r \<noteq> None) kvs then Some (map the kvs) else None)"

section \<open>The signature\<close>

definition InitDataMaxAge :: int where "InitDataMaxAge = 24 * hour"

definition InitDataLinkMaxAge :: int where "InitDataLinkMaxAge = hour"

definition InitDataMaxBytes :: nat where "InitDataMaxBytes = 4096"

definition initDataClockSkew :: int where "initDataClockSkew = 60 * second"

definition get_field :: "(string \<times> string) list \<Rightarrow> string \<Rightarrow> string" where
  "get_field kvs k = (case map_of kvs k of None \<Rightarrow> '''' | Some v \<Rightarrow> v)"

text \<open>The data-check string: the fields but the hash, sorted by key, one per line.\<close>

definition check_string :: "(string \<times> string) list \<Rightarrow> string" where
  "check_string kvs =
     (case map (\<lambda>k. k @ ''='' @ get_field kvs k) (sort (filter (\<lambda>k. k \<noteq> ''hash'') (map fst kvs))) of
        [] \<Rightarrow> [] | p # ps \<Rightarrow> p @ concat (map (\<lambda>q. CHR 0x0A # q) ps))"

definition webapp_mac :: "(string \<Rightarrow> string \<Rightarrow> string) \<Rightarrow> string \<Rightarrow> (string \<times> string) list \<Rightarrow> string" where
  "webapp_mac hmac token kvs = hmac (hmac ''WebAppData'' token) (check_string kvs)"

definition verifyWebAppSignature ::
  "(string \<Rightarrow> string \<Rightarrow> string) \<Rightarrow> string \<Rightarrow> string \<Rightarrow> int \<Rightarrow> int \<Rightarrow> auth_err + (string \<times> string) list" where
  "verifyWebAppSignature hmac token raw now maxAge =
     (if trim_space token = '''' then Inl ErrTelegramBotUnconfigured
      else if InitDataMaxBytes < length raw then Inl ErrInitDataInvalid
      else case ParseQuery raw of
          None \<Rightarrow> Inl ErrInitDataInvalid
        | Some kvs \<Rightarrow>
            if kvs = [] \<or> \<not> distinct (map fst kvs) then Inl ErrInitDataInvalid
            else if get_field kvs ''hash'' = '''' then Inl ErrInitDataInvalid
            else if hex_decode (get_field kvs ''hash'') \<noteq> Some (webapp_mac hmac token kvs) then Inl ErrInitDataInvalid
            else case ParseInt64 (get_field kvs ''auth_date'') of
                None \<Rightarrow> Inl ErrInitDataInvalid
              | Some unix \<Rightarrow>
                  if now + initDataClockSkew < unix * second \<or> maxAge < now - unix * second then Inl ErrInitDataExpired else Inr kvs)"

text \<open>A Mini App user: a name is the list of its code points.\<close>

record WebAppUser =
  wu_id :: int
  wu_username :: string
  wu_first :: "nat list"
  wu_last :: "nat list"
  wu_language :: string
  wu_start_param :: string
  wu_allows_write :: bool

text \<open>What the decoder reads from the \<open>user\<close> object (its start parameter is not part of it) and the \<open>contact\<close> object.\<close>

record payload_cfg =
  wc_token :: string
  wc_hmac :: "string \<Rightarrow> string \<Rightarrow> string"
  wc_user :: "string \<Rightarrow> WebAppUser option"
  wc_contact :: "string \<Rightarrow> (int \<times> string) option"

definition ValidateInitData :: "payload_cfg \<Rightarrow> string \<Rightarrow> int \<Rightarrow> int \<Rightarrow> auth_err + WebAppUser" where
  "ValidateInitData w raw now maxAge =
     (case verifyWebAppSignature (wc_hmac w) (wc_token w) raw now maxAge of
        Inl err \<Rightarrow> Inl err
      | Inr kvs \<Rightarrow>
          (case wc_user w (get_field kvs ''user'') of
             None \<Rightarrow> Inl ErrInitDataInvalid
           | Some u \<Rightarrow> if wu_id u \<le> 0 then Inl ErrInitDataInvalid else Inr (u\<lparr>wu_start_param := get_field kvs ''start_param''\<rparr>)))"

definition ValidateContact :: "payload_cfg \<Rightarrow> string \<Rightarrow> int \<Rightarrow> int \<Rightarrow> auth_err + (int \<times> string)" where
  "ValidateContact w raw now maxAge =
     (case verifyWebAppSignature (wc_hmac w) (wc_token w) raw now maxAge of
        Inl err \<Rightarrow> Inl err
      | Inr kvs \<Rightarrow>
          (case wc_contact w (get_field kvs ''contact'') of
             None \<Rightarrow> Inl ErrInitDataInvalid
           | Some (u, phone) \<Rightarrow> if u \<le> 0 \<or> phone = '''' then Inl ErrInitDataInvalid else Inr (u, phone)))"

end
