(* ===== verification/Auth.thy ===== *)
theory Auth
  imports Telegram_Payload
begin

text \<open>
  Sign-in (\<open>auth/service.go\<close>, \<open>phone.go\<close>, \<open>code.go\<close>, \<open>password.go\<close>): one-time codes, registration, password login, and
  the rotation of refresh tokens with its grace window. Cryptography is an argument (\<open>auth_cfg\<close>): SHA-256, bcrypt,
  the signer of access tokens, AES-GCM sealing, and the parsing of a client address. \<open>av_others\<close> is what concurrent requests do to the state while a request is between two of its own steps, at
  the places where the code holds no lock. PostgreSQL refuses every further statement of a transaction one of whose
  statements failed.
\<close>

section \<open>Phones, codes and passwords\<close>

definition NormalizePhone :: "string \<Rightarrow> string option" where
  "NormalizePhone raw =
     (let d = filter is_digit raw in
      if length d = 12 \<and> take 3 d = ''998'' then Some (CHR ''+'' # d)
      else if length d = 9 then Some (''+998'' @ d) else None)"

definition NormalizeTelegramContactPhone :: "string \<Rightarrow> string option" where
  "NormalizeTelegramContactPhone raw =
     (let d = filter is_digit raw in if length d \<noteq> 12 \<or> take 3 d \<noteq> ''998'' then None else Some (CHR ''+'' # d))"

definition GenerateCode :: "nat \<Rightarrow> string" where
  "GenerateCode n = replicate (6 - length (show_nat (n mod 1000000))) (CHR ''0'') @ show_nat (n mod 1000000)"

text \<open>\<open>sha\<close> is the hexadecimal SHA-256 of a byte string.\<close>

definition HashCode :: "(string \<Rightarrow> string) \<Rightarrow> string \<Rightarrow> string \<Rightarrow> string" where
  "HashCode sha salt code = hex_encode salt @ ''$'' @ sha (salt @ code)"

definition VerifyCode :: "(string \<Rightarrow> string) \<Rightarrow> string \<Rightarrow> string \<Rightarrow> bool" where
  "VerifyCode sha stored code =
     (case dropWhile (\<lambda>c. c \<noteq> CHR ''$'') stored of
        [] \<Rightarrow> False
      | _ # digest \<Rightarrow> (case hex_decode (takeWhile (\<lambda>c. c \<noteq> CHR ''$'') stored) of
          None \<Rightarrow> False | Some salt \<Rightarrow> sha (salt @ code) = digest))"

definition crockford :: string where "crockford = ''0123456789ABCDEFGHJKMNPQRSTVWXYZ''"

definition NewReferralCode :: "nat list \<Rightarrow> string" where
  "NewReferralCode b = map (\<lambda>v. crockford ! (v mod length crockford)) b"

record auth_cfg =
  ak_hash :: "string \<Rightarrow> string"
  ak_sha :: "string \<Rightarrow> string"
  ak_bcrypt :: "string \<Rightarrow> string option"
  ak_compare :: "string \<Rightarrow> string \<Rightarrow> bool"
  ak_access :: "uuid \<Rightarrow> string \<Rightarrow> int \<Rightarrow> string"
  ak_seal :: "string \<Rightarrow> (string \<times> string \<times> uuid) \<Rightarrow> string"
  ak_open :: "string \<Rightarrow> string \<Rightarrow> (string \<times> string \<times> uuid) option"
  ak_ip :: "string \<Rightarrow> string"
  ak_payload :: payload_cfg
  ak_webapp_url :: string
  ak_channel :: string
  ak_echo :: bool
  ak_redis :: bool
  ak_code_ttl :: int
  ak_refresh_ttl :: int

definition minPasswordLen :: nat where "minPasswordLen = 8"

text \<open>A password is the list of its runes.\<close>

definition HashPassword :: "auth_cfg \<Rightarrow> string \<Rightarrow> auth_err + string" where
  "HashPassword c pw = (if length pw < minPasswordLen then Inl ErrWeakPassword
     else case ak_bcrypt c pw of None \<Rightarrow> Inl AuthFailure | Some h \<Rightarrow> Inr h)"

definition CheckPassword :: "auth_cfg \<Rightarrow> string \<Rightarrow> string \<Rightarrow> bool" where
  "CheckPassword c hash pw = (if hash = '''' then False else ak_compare c hash pw)"

definition assertProfileActive :: "account_row \<Rightarrow> auth_err option" where
  "assertProfileActive p = (if pf_status p = ''banned'' then Some ErrAccountBlocked else None)"

definition active_or :: "account_row \<Rightarrow> unit op" where
  "active_or p = (case assertProfileActive p of Some err \<Rightarrow> throw err | None \<Rightarrow> ret ())"

definition others :: "auth_env \<Rightarrow> string \<Rightarrow> unit op" where
  "others e site s = (Inr (), av_others e site s)"

definition row_or :: "auth_err \<Rightarrow> 'a option \<Rightarrow> 'a op" where
  "row_or err r = (case r of None \<Rightarrow> throw err | Some x \<Rightarrow> ret x)"

definition now_of :: "auth_env \<Rightarrow> string \<Rightarrow> int" where
  "now_of e site = clk (av_env e) site"

section \<open>Sessions\<close>

record Tokens =
  tk_access :: string
  tk_refresh :: string

record VerifyResult =
  vr_tokens :: Tokens
  vr_profile :: account_row
  vr_created :: bool
  vr_linked :: bool

definition issueSession :: "auth_env \<Rightarrow> auth_cfg \<Rightarrow> account_row \<Rightarrow> Tokens op" where
  "issueSession e c p =
     abind (active_or p) (\<lambda>_.
     abind (exec e ''issueSession'' ''CreateRefreshToken''
        (CreateRefreshToken (av_env e) (pf_id p) (ak_hash c (av_rand e ''NewRefreshToken'')) (now_of e ''issueSession'' + ak_refresh_ttl c))) (\<lambda>_.
     ret \<lparr>tk_access = ak_access c (pf_id p) (pf_role p) (now_of e ''IssueAccess''), tk_refresh = av_rand e ''NewRefreshToken''\<rparr>))"

definition SignupTrialDuration :: int where "SignupTrialDuration = 24 * hour"

definition grantSignupTrial :: "auth_env \<Rightarrow> uuid \<Rightarrow> unit op" where
  "grantSignupTrial e prof =
     (let now = now_of e ''grantSignupTrial'' in
      exec e ''grantSignupTrial'' ''InsertEntitlement'' (InsertTrial
        \<lparr>en_profile = prof, en_source = ''trial'', en_starts = now, en_ends = now + SignupTrialDuration, en_note = ''signup welcome trial'',
         en_created_by = None, en_payment = None, en_created_at = tx_now (av_env e)\<rparr>))"

text \<open>
  The loop of \<open>createProfileWithReferral\<close> runs inside the caller's transaction: after a unique violation the next
  attempt's statement is refused, so a second attempt never gets further.
\<close>

primrec create_attempts :: "auth_env \<Rightarrow> string \<Rightarrow> string option \<Rightarrow> string \<Rightarrow> nat list list \<Rightarrow> bool \<Rightarrow> account_row op" where
  "create_attempts e phone pw name [] aborted = throw ErrNoReferralCode"
| "create_attempts e phone pw name (b # bs) aborted =
     (if aborted then throw AuthFailure
      else abind (trying (exec e ''createProfileWithReferral'' ''CreateProfile'' (CreateProfile (av_env e) phone (NewReferralCode b) pw name))) (\<lambda>r.
        case r of
          Inl err \<Rightarrow> if err = AuthSql (Sql UniqueViolation) then create_attempts e phone pw name bs True else throw err
        | Inr p \<Rightarrow> ret p))"

definition createProfileWithReferral :: "auth_env \<Rightarrow> string \<Rightarrow> string \<Rightarrow> string \<Rightarrow> account_row op" where
  "createProfileWithReferral e phone hash name =
     create_attempts e phone (if hash = '''' then None else Some hash) name (take 5 (av_bytes e)) False"

definition isUniqueViolation :: "auth_err \<Rightarrow> bool" where
  "isUniqueViolation err = (err = AuthSql (Sql UniqueViolation) \<or> err = PhoneKeyViolation)"

definition rateLimitAuth :: "auth_env \<Rightarrow> auth_cfg \<Rightarrow> string \<Rightarrow> string \<Rightarrow> string \<Rightarrow> unit op" where
  "rateLimitAuth e c action phone ip =
     abind (allow_or e ''rateLimitAuth.phone'' (action @ '':phone:'' @ phone) 10 hour) (\<lambda>_.
     if ip \<noteq> '''' then allow_or e ''rateLimitAuth.ip'' (action @ '':ip:'' @ ak_ip c ip) 30 hour else ret ())"

section \<open>Linking Telegram\<close>

record telegramLinkChange =
  lc_linked :: bool
  lc_profile :: uuid
  lc_moved_from :: uuid

definition no_link :: telegramLinkChange where
  "no_link = \<lparr>lc_linked = False, lc_profile = 0, lc_moved_from = 0\<rparr>"

text \<open>
  The one place that moves and replaces links, in a savepoint: on any failure the sign-in goes on unlinked. Two of its
  reads only feed log lines and \<open>movedFrom\<close>; a failing read aborts the savepoint like any other statement.
\<close>

definition link_body :: "auth_env \<Rightarrow> account_row \<Rightarrow> int \<Rightarrow> string \<Rightarrow> telegramLinkChange op" where
  "link_body e p u name =
     abind (query e ''linkVerifiedTelegram'' ''GetTelegramAccountByTgUserID'' (GetTelegramAccountByTgUserID u)) (\<lambda>prev.
     abind (query e ''linkVerifiedTelegram'' ''GetTelegramAccountByProfileID'' (GetTelegramAccountByProfileID (pf_id p))) (\<lambda>_.
     abind (exec e ''linkVerifiedTelegram'' ''DeleteTelegramAccountForOtherProfiles'' (\<lambda>d. Inr ((), DeleteTelegramAccountForOtherProfiles u (pf_id p) d))) (\<lambda>_.
     abind (exec e ''linkVerifiedTelegram'' ''UpsertTelegramAccount'' (UpsertTelegramAccount (av_env e) (pf_id p) u name True)) (\<lambda>_.
     abind (exec e ''linkVerifiedTelegram'' ''ClearAllPasswordResetPendingForTg'' (\<lambda>d. Inr ((), ClearAllPasswordResetPendingForTg u d))) (\<lambda>_.
     abind (exec e ''linkVerifiedTelegram'' ''ClearAllTelegramLoginPendingForTg'' (\<lambda>d. Inr ((), ClearAllTelegramLoginPendingForTg u d))) (\<lambda>_.
     abind (query e ''linkVerifiedTelegram'' ''Release'' (\<lambda>_. ())) (\<lambda>_.
     ret \<lparr>lc_linked = True, lc_profile = pf_id p,
          lc_moved_from = (case prev of None \<Rightarrow> 0 | Some a \<Rightarrow> if ta_profile a \<noteq> pf_id p then ta_profile a else 0)\<rparr>)))))))"

definition linkVerifiedTelegramInTx :: "auth_env \<Rightarrow> account_row \<Rightarrow> int \<Rightarrow> string \<Rightarrow> telegramLinkChange op" where
  "linkVerifiedTelegramInTx e p u name =
     (if fails e ''linkVerifiedTelegram'' ''Savepoint'' then ret no_link
      else abind (savepoint (link_body e p u name)) (\<lambda>r. ret (case r of Inl _ \<Rightarrow> no_link | Inr l \<Rightarrow> l)))"

text \<open>The Mini App's kill switch.\<close>

definition miniAppEnabled :: "auth_cfg \<Rightarrow> bool" where
  "miniAppEnabled c \<longleftrightarrow> trim_space (wc_token (ak_payload c)) \<noteq> '''' \<and> trim_space (ak_webapp_url c) \<noteq> ''''"

definition linkTelegramInTx :: "auth_env \<Rightarrow> auth_cfg \<Rightarrow> account_row \<Rightarrow> string \<Rightarrow> string \<Rightarrow> telegramLinkChange op" where
  "linkTelegramInTx e c p initData contact =
     (if initData = '''' \<or> \<not> miniAppEnabled c then ret no_link
      else case ValidateInitData (ak_payload c) initData (now_of e ''ValidateInitData'') InitDataLinkMaxAge of
          Inl _ \<Rightarrow> ret no_link
        | Inr u \<Rightarrow>
            if contact = '''' then ret no_link
            else case ValidateContact (ak_payload c) contact (now_of e ''ValidateContact'') InitDataLinkMaxAge of
                Inl _ \<Rightarrow> ret no_link
              | Inr (cid, cphone) \<Rightarrow>
                  if cid \<noteq> wu_id u then ret no_link
                  else if NormalizeTelegramContactPhone cphone \<noteq> Some (pf_phone p) then ret no_link
                  else linkVerifiedTelegramInTx e p (wu_id u) (wu_username u))"

section \<open>One-time codes\<close>

definition maxOTPAttempts :: int where "maxOTPAttempts = 5"

definition RequestOTP :: "auth_env \<Rightarrow> auth_cfg \<Rightarrow> string \<Rightarrow> string \<Rightarrow> (string \<times> string option) op" where
  "RequestOTP e c raw ip =
     (if ak_channel c = ''off'' then throw ErrOTPDisabled
      else case NormalizePhone raw of
          None \<Rightarrow> throw ErrInvalidPhone
        | Some phone \<Rightarrow>
            abind (lim_cooldown e ''RequestOTP'' (''otp:cooldown:'' @ phone) (60 * second)) (\<lambda>free.
            if \<not> free then throw ErrRateLimited
            else abind (allow_or e ''RequestOTP.phone'' (''otp:phone:'' @ phone) 5 hour) (\<lambda>_.
            abind (if ip \<noteq> '''' then allow_or e ''RequestOTP.ip'' (''otp:ip:'' @ ak_ip c ip) 20 hour else ret ()) (\<lambda>_.
            let code = GenerateCode (av_code e) in
            abind (exec e ''RequestOTP'' ''CreateOTPChallenge'' (CreateOTPChallenge (av_env e) phone (HashCode (ak_sha c) (av_rand e ''HashCode'') code)
                     (ak_channel c) (now_of e ''RequestOTP'' + ak_code_ttl c))) (\<lambda>_.
            if fails e ''RequestOTP'' ''Send'' then throw AuthFailure
            else ret (ak_channel c, if ak_echo c \<and> ak_channel c = ''sandbox'' then Some code else None))))))"

definition VerifyOTP_tx :: "auth_env \<Rightarrow> auth_cfg \<Rightarrow> string \<Rightarrow> VerifyResult tx_end op" where
  "VerifyOTP_tx e c phone =
     abind (query e ''VerifyOTP'' ''GetProfileByPhone'' (GetProfileByPhone phone)) (\<lambda>found.
     abind (case found of
         Some p \<Rightarrow> ret (p, False)
       | None \<Rightarrow> abind (createProfileWithReferral e phone '''' '''') (\<lambda>p. abind (grantSignupTrial e (pf_id p)) (\<lambda>_. ret (p, True)))) (\<lambda>(p, created).
     abind (issueSession e c p) (\<lambda>toks.
     ret (Keep \<lparr>vr_tokens = toks, vr_profile = p, vr_created = created, vr_linked = False\<rparr>))))"

definition VerifyOTP :: "auth_env \<Rightarrow> auth_cfg \<Rightarrow> string \<Rightarrow> string \<Rightarrow> VerifyResult op" where
  "VerifyOTP e c raw code =
     (if ak_channel c = ''off'' then throw ErrOTPDisabled
      else case NormalizePhone raw of
          None \<Rightarrow> throw ErrInvalidPhone
        | Some phone \<Rightarrow>
            abind (query e ''VerifyOTP'' ''LatestOTPChallenge'' (LatestOTPChallenge (av_env e) phone)) (\<lambda>found.
            abind (row_or ErrInvalidCode found) (\<lambda>ch.
            if maxOTPAttempts \<le> ot_attempts ch then throw ErrTooManyAttempts
            else if ot_expires ch < now_of e ''VerifyOTP'' then throw ErrExpiredCode
            else abind (others e ''VerifyOTP'') (\<lambda>_.
            if \<not> VerifyCode (ak_sha c) (ot_hash ch) code then
              abind (exec e ''VerifyOTP'' ''IncrementOTPAttempts'' (\<lambda>d. Inr ((), IncrementOTPAttempts (ot_id ch) d))) (\<lambda>_. throw ErrInvalidCode)
            else
              abind (exec e ''VerifyOTP'' ''ConsumeOTP'' (\<lambda>d. Inr ((), ConsumeOTP (ot_id ch) d))) (\<lambda>_.
              in_tx e ''VerifyOTP'' (VerifyOTP_tx e c phone))))))"

section \<open>Phone and password\<close>

record RegisterInput =
  ri_phone :: string
  ri_password :: string
  ri_name :: string
  ri_ip :: string
  ri_init_data :: string
  ri_contact :: string

definition Register_tx :: "auth_env \<Rightarrow> auth_cfg \<Rightarrow> RegisterInput \<Rightarrow> string \<Rightarrow> string \<Rightarrow> VerifyResult tx_end op" where
  "Register_tx e c i phone hash =
     abind (query e ''Register'' ''GetProfileByPhone'' (GetProfileByPhone phone)) (\<lambda>found.
     if found \<noteq> None then throw ErrPhoneTaken
     else abind (trying (createProfileWithReferral e phone hash (trim_space (ri_name i)))) (\<lambda>r. case r of
       Inl err \<Rightarrow> throw (if isUniqueViolation err then ErrPhoneTaken else err)
     | Inr p \<Rightarrow>
     abind (grantSignupTrial e (pf_id p)) (\<lambda>_.
     abind (issueSession e c p) (\<lambda>toks.
     abind (linkTelegramInTx e c p (ri_init_data i) (ri_contact i)) (\<lambda>link.
     ret (Keep \<lparr>vr_tokens = toks, vr_profile = p, vr_created = True, vr_linked = lc_linked link\<rparr>))))))"

definition Register :: "auth_env \<Rightarrow> auth_cfg \<Rightarrow> RegisterInput \<Rightarrow> VerifyResult op" where
  "Register e c i =
     (case NormalizePhone (ri_phone i) of
        None \<Rightarrow> throw ErrInvalidPhone
      | Some phone \<Rightarrow>
          abind (rateLimitAuth e c ''register'' phone (ri_ip i)) (\<lambda>_.
          case HashPassword c (ri_password i) of
            Inl err \<Rightarrow> throw err
          | Inr hash \<Rightarrow> in_tx e ''Register'' (Register_tx e c i phone hash)))"

record LoginInput =
  li_phone :: string
  li_password :: string
  li_ip :: string
  li_init_data :: string
  li_contact :: string

definition Login :: "auth_env \<Rightarrow> auth_cfg \<Rightarrow> LoginInput \<Rightarrow> VerifyResult op" where
  "Login e c i =
     (case NormalizePhone (li_phone i) of
        None \<Rightarrow> throw ErrInvalidPhone
      | Some phone \<Rightarrow>
          abind (rateLimitAuth e c ''login'' phone (li_ip i)) (\<lambda>_.
          abind (query e ''Login'' ''GetProfileByPhone'' (GetProfileByPhone phone)) (\<lambda>found.
          abind (row_or ErrInvalidCreds found) (\<lambda>p.
          case pf_password p of
            None \<Rightarrow> throw ErrPasswordNotSet
          | Some hash \<Rightarrow>
              if hash = '''' then throw ErrPasswordNotSet
              else if \<not> CheckPassword c hash (li_password i) then throw ErrInvalidCreds
              else abind (active_or p) (\<lambda>_. abind (others e ''Login'') (\<lambda>_.
                in_tx e ''Login''
                  (abind (issueSession e c p) (\<lambda>toks.
                   abind (linkTelegramInTx e c p (li_init_data i) (li_contact i)) (\<lambda>link.
                   ret (Keep \<lparr>vr_tokens = toks, vr_profile = p, vr_created = False, vr_linked = lc_linked link\<rparr>))))))))))"

section \<open>Rotating refresh tokens\<close>

definition refreshGraceTTL :: int where "refreshGraceTTL = 45 * second"

definition set_grace :: "(string \<Rightarrow> (string \<times> int) option) \<Rightarrow> auth_state \<Rightarrow> auth_state" where
  "set_grace g s = s\<lparr>as_redis := (as_redis s)\<lparr>rd_grace := g\<rparr>\<rparr>"

definition set_claims :: "(string \<Rightarrow> int option) \<Rightarrow> auth_state \<Rightarrow> auth_state" where
  "set_claims g s = s\<lparr>as_redis := (as_redis s)\<lparr>rd_claims := g\<rparr>\<rparr>"

text \<open>A sealed pair counts only when it opens with the presented token to a complete pair.\<close>

definition openRefreshGrace :: "auth_cfg \<Rightarrow> string \<Rightarrow> string \<Rightarrow> (Tokens \<times> uuid) option" where
  "openRefreshGrace c raw sealed =
     (case ak_open c raw sealed of
        None \<Rightarrow> None
      | Some (a, r, p) \<Rightarrow> if a = '''' \<or> r = '''' \<or> p = 0 then None else Some (\<lparr>tk_access = a, tk_refresh = r\<rparr>, p))"

definition readRefreshGrace :: "auth_env \<Rightarrow> auth_cfg \<Rightarrow> string \<Rightarrow> string \<Rightarrow> auth_state \<Rightarrow> (Tokens \<times> uuid) option" where
  "readRefreshGrace e c site raw s =
     (if \<not> ak_redis c \<or> fails e site ''Grace'' then None
      else case rd_grace (as_redis s) (ak_hash c raw) of
          None \<Rightarrow> None
        | Some (sealed, exp) \<Rightarrow> if exp \<le> redis_ms e site then None else openRefreshGrace c raw sealed)"

definition gracePair :: "auth_env \<Rightarrow> auth_cfg \<Rightarrow> string \<Rightarrow> string \<Rightarrow> Tokens option op" where
  "gracePair e c site raw = observe (readRefreshGrace e c site raw) (\<lambda>r. case r of
       None \<Rightarrow> ret None
     | Some (toks, prof) \<Rightarrow>
         abind (query e site ''GetProfileByID'' (GetProfileByID prof)) (\<lambda>found.
         abind (row_or ErrInvalidRefresh found) (\<lambda>p.
         abind (active_or p) (\<lambda>_. ret (Some toks)))))"

text \<open>Best effort: a failing write is ignored.\<close>

definition writeRefreshGrace :: "auth_env \<Rightarrow> auth_cfg \<Rightarrow> string \<Rightarrow> uuid \<Rightarrow> Tokens \<Rightarrow> unit op" where
  "writeRefreshGrace e c old prof toks s =
     (if \<not> ak_redis c \<or> fails e ''writeRefreshGrace'' ''Set'' then (Inr (), s)
      else (Inr (), set_grace ((rd_grace (as_redis s))(ak_hash c old \<mapsto>
             (ak_seal c old (tk_access toks, tk_refresh toks, prof), redis_ms e ''writeRefreshGrace'' + go_div refreshGraceTTL 1000000))) s))"

definition claim_live :: "auth_env \<Rightarrow> string \<Rightarrow> string \<Rightarrow> auth_state \<Rightarrow> bool" where
  "claim_live e site hash s = (case rd_claims (as_redis s) hash of None \<Rightarrow> False | Some exp \<Rightarrow> redis_ms e site < exp)"

text \<open>Fails open: with Redis gone everybody holds the claim.\<close>

definition claimRefreshRotation :: "auth_env \<Rightarrow> auth_cfg \<Rightarrow> string \<Rightarrow> bool op" where
  "claimRefreshRotation e c raw s =
     (if \<not> ak_redis c \<or> fails e ''claimRefreshRotation'' ''SetNX'' then (Inr True, s)
      else if claim_live e ''claimRefreshRotation'' (ak_hash c raw) s then (Inr False, s)
      else (Inr True, set_claims ((rd_claims (as_redis s))(ak_hash c raw \<mapsto> redis_ms e ''claimRefreshRotation'' + 15000)) s))"

definition refreshClaimHeld :: "auth_env \<Rightarrow> auth_cfg \<Rightarrow> string \<Rightarrow> auth_state \<Rightarrow> bool" where
  "refreshClaimHeld e c raw s = (ak_redis c \<and> \<not> fails e ''refreshClaimHeld'' ''Exists'' \<and> claim_live e ''refreshClaimHeld'' (ak_hash c raw) s)"

text \<open>
  Polling every 25 milliseconds for two seconds, \<open>av_polls\<close> times after the first: each poll sees what others have done
  since the one before.
\<close>

primrec poll_grace :: "nat \<Rightarrow> auth_env \<Rightarrow> auth_cfg \<Rightarrow> string \<Rightarrow> string \<Rightarrow> Tokens option op" where
  "poll_grace 0 e c site raw = gracePair e c site raw"
| "poll_grace (Suc n) e c site raw =
     abind (gracePair e c site raw) (\<lambda>r. case r of
         Some toks \<Rightarrow> ret (Some toks)
       | None \<Rightarrow> abind (others e site) (\<lambda>_. poll_grace n e c (site @ ''+'') raw))"

definition waitRefreshGrace :: "auth_env \<Rightarrow> auth_cfg \<Rightarrow> string \<Rightarrow> string \<Rightarrow> Tokens option op" where
  "waitRefreshGrace e c site raw = poll_grace (av_polls e) e c site raw"

definition cached_or :: "Tokens option \<Rightarrow> Tokens op \<Rightarrow> Tokens op" where
  "cached_or r m = (case r of Some toks \<Rightarrow> ret toks | None \<Rightarrow> m)"

definition reused_token :: "auth_env \<Rightarrow> auth_cfg \<Rightarrow> string \<Rightarrow> refresh_row \<Rightarrow> Tokens op" where
  "reused_token e c raw rt =
     abind (gracePair e c ''Refresh.revoked'' raw) (\<lambda>r. cached_or r
       (abind (observe (refreshClaimHeld e c raw) (\<lambda>held. if held then waitRefreshGrace e c ''Refresh.held'' raw else ret None)) (\<lambda>r. cached_or r
         (abind (exec e ''Refresh'' ''RevokeAllRefreshTokens'' (\<lambda>d. Inr ((), RevokeAllRefreshTokens (av_env e) (rt_profile rt) d))) (\<lambda>_.
          throw ErrReusedRefresh)))))"

text \<open>The transaction; \<open>None\<close> when the guarded update did not change exactly one row.\<close>

definition Refresh_tx :: "auth_env \<Rightarrow> auth_cfg \<Rightarrow> string \<Rightarrow> refresh_row \<Rightarrow> uuid \<Rightarrow> bool tx_end op" where
  "Refresh_tx e c raw rt prof =
     abind (exec e ''Refresh'' ''Rotate'' (\<lambda>d. Inr (RotateRefreshToken (av_env e) (rt_id rt) (ak_hash c raw) d))) (\<lambda>n.
     if n \<noteq> 1 then ret (Drop False)
     else abind (exec e ''Refresh'' ''CreateRefreshToken''
            (CreateRefreshToken (av_env e) prof (ak_hash c (av_rand e ''NewRefreshToken'')) (now_of e ''Refresh.new'' + ak_refresh_ttl c))) (\<lambda>_.
          ret (Keep True)))"

definition rotate_token :: "auth_env \<Rightarrow> auth_cfg \<Rightarrow> string \<Rightarrow> refresh_row \<Rightarrow> Tokens op" where
  "rotate_token e c raw rt =
     abind (query e ''Refresh'' ''GetProfileByID'' (GetProfileByID (rt_profile rt))) (\<lambda>found.
     abind (row_or (AuthSql (Sql ErrNoRows)) found) (\<lambda>p.
     abind (active_or p) (\<lambda>_.
     abind (others e ''Refresh.rotate'') (\<lambda>_.
     abind (in_tx e ''Refresh'' (Refresh_tx e c raw rt (pf_id p))) (\<lambda>rotated.
     if \<not> rotated then abind (waitRefreshGrace e c ''Refresh.lost'' raw) (\<lambda>r. cached_or r (throw ErrInvalidRefresh))
     else let toks = \<lparr>tk_access = ak_access c (pf_id p) (pf_role p) (now_of e ''IssueAccess''), tk_refresh = av_rand e ''NewRefreshToken''\<rparr> in
       abind (others e ''Refresh.committed'') (\<lambda>_. abind (writeRefreshGrace e c raw (pf_id p) toks) (\<lambda>_. ret toks)))))))"

definition Refresh :: "auth_env \<Rightarrow> auth_cfg \<Rightarrow> string \<Rightarrow> Tokens op" where
  "Refresh e c raw =
     abind (gracePair e c ''Refresh'' raw) (\<lambda>r. cached_or r
       (abind (query e ''Refresh'' ''GetRefreshToken'' (GetRefreshToken (ak_hash c raw))) (\<lambda>found.
        abind (row_or ErrInvalidRefresh found) (\<lambda>rt.
        if rt_revoked rt \<noteq> None then reused_token e c raw rt
        else if rt_expires rt < now_of e ''Refresh'' then throw ErrInvalidRefresh
        else abind (others e ''Refresh.read'') (\<lambda>_. abind (claimRefreshRotation e c raw) (\<lambda>won.
          if \<not> won then abind (waitRefreshGrace e c ''Refresh.claimed'' raw) (\<lambda>r. cached_or r (throw ErrInvalidRefresh))
          else abind (others e ''Refresh.won'') (\<lambda>_. rotate_token e c raw rt)))))))"

definition Logout :: "auth_env \<Rightarrow> auth_cfg \<Rightarrow> string \<Rightarrow> unit op" where
  "Logout e c raw =
     abind (query e ''Logout'' ''GetRefreshToken'' (GetRefreshToken (ak_hash c raw))) (\<lambda>found.
     case found of
       None \<Rightarrow> ret ()
     | Some rt \<Rightarrow> exec e ''Logout'' ''DeleteRefreshToken'' (\<lambda>d. Inr ((), DeleteRefreshToken (rt_id rt) d)))"

end
