(* ===== verification/Telegram_Login.thy ===== *)
theory Telegram_Login
  imports Auth
begin

text \<open>
  Signing in through the bot (\<open>auth/telegram_login.go\<close>, \<open>telegram_webapp_login.go\<close>, \<open>device.go\<close>): a browser starts a
  request and keeps its secret, the first Telegram user who opens the link owns it, a tap on the current question
  approves it, and the browser trades the approved request for one session. Beside it the Mini App's sign-ins, which
  rest on Telegram's signed payloads. Avatars and the reminder's audience are not modelled. A bot step answers with an
  outcome; \<open>Drop\<close> is an outcome returned without a commit.
\<close>

section \<open>Names, devices and payloads\<close>

text \<open>UTF-8 of a list of code points.\<close>

definition utf8_rune :: "nat \<Rightarrow> string" where
  "utf8_rune n = map char_of (if n < 128 then [n]
     else if n < 2048 then [192 + n div 64, 128 + n mod 64]
     else if n < 65536 then [224 + n div 4096, 128 + n div 64 mod 64, 128 + n mod 64]
     else [240 + n div 262144, 128 + n div 4096 mod 64, 128 + n div 64 mod 64, 128 + n mod 64])"

definition utf8 :: "nat list \<Rightarrow> string" where
  "utf8 = concat \<circ> map utf8_rune"

definition rune_is_space :: "nat \<Rightarrow> bool" where
  "rune_is_space r \<longleftrightarrow> r \<in> {9, 10, 11, 12, 13, 32, 0x85, 0xA0, 0x1680, 0x2028, 0x2029, 0x202F, 0x205F, 0x3000} \<or> (0x2000 \<le> r \<and> r \<le> 0x200A)"

definition trim_runes :: "nat list \<Rightarrow> nat list" where
  "trim_runes s = rev (dropWhile rune_is_space (rev (dropWhile rune_is_space s)))"

definition hidden_rune :: "nat \<Rightarrow> bool" where
  "hidden_rune r \<longleftrightarrow> r < 32 \<or> (127 \<le> r \<and> r \<le> 159) \<or> (0x200B \<le> r \<and> r \<le> 0x200F) \<or> (0x202A \<le> r \<and> r \<le> 0x202E)
     \<or> (0x2066 \<le> r \<and> r \<le> 0x2069) \<or> r = 0xFEFF"

record TelegramLoginUser =
  tu_id :: int
  tu_username :: string
  tu_first :: "nat list"
  tu_last :: "nat list"
  tu_language :: string

definition telegramNameMaxRunes :: nat where "telegramNameMaxRunes = 64"

definition clean_name :: "nat list \<Rightarrow> nat list" where
  "clean_name part = trim_runes (filter (\<lambda>r. \<not> hidden_rune r) part)"

definition telegramProfileName :: "TelegramLoginUser \<Rightarrow> nat list" where
  "telegramProfileName who =
     (let full = trim_runes (clean_name (tu_first who) @ [32] @ clean_name (tu_last who)) in
      if telegramNameMaxRunes < length full then trim_runes (take telegramNameMaxRunes full) else full)"

definition browserTokens :: "(string \<times> string) list" where
  "browserTokens = [(''Edg/'', ''Edge''), (''EdgA/'', ''Edge''), (''EdgiOS/'', ''Edge''), (''OPR/'', ''Opera''), (''YaBrowser/'', ''Yandex''),
     (''SamsungBrowser/'', ''Samsung Internet''), (''Firefox/'', ''Firefox''), (''FxiOS/'', ''Firefox''), (''CriOS/'', ''Chrome''),
     (''Chrome/'', ''Chrome''), (''Safari/'', ''Safari'')]"

definition browserFamily :: "string \<Rightarrow> string" where
  "browserFamily ua = (case find (\<lambda>b. sublist (fst b) ua) browserTokens of
       None \<Rightarrow> '''' | Some (t, n) \<Rightarrow> if n = ''Safari'' \<and> \<not> sublist ''Version/'' ua then '''' else n)"

definition osFamily :: "string \<Rightarrow> string" where
  "osFamily ua =
     (if sublist ''iPhone'' ua then ''iPhone'' else if sublist ''iPad'' ua then ''iPad'' else if sublist ''Android'' ua then ''Android''
      else if sublist ''Windows'' ua then ''Windows'' else if sublist ''CrOS'' ua then ''ChromeOS''
      else if sublist ''Macintosh'' ua \<or> sublist ''Mac OS X'' ua then ''macOS'' else if sublist ''Linux'' ua then ''Linux'' else '''')"

definition DescribeDevice :: "string \<Rightarrow> string" where
  "DescribeDevice ua =
     (let b = browserFamily ua; os = osFamily ua in
      if b \<noteq> '''' \<and> os \<noteq> '''' then b @ utf8 [32, 0xB7, 32] @ os else if b \<noteq> '''' then b else os)"

definition MaskResetPhone :: "string \<Rightarrow> string" where
  "MaskResetPhone phone =
     (let d = (case phone of c # r \<Rightarrow> if c = CHR ''+'' then r else phone | [] \<Rightarrow> []); dots = utf8 [0x2022, 0x2022] in
      if length d \<noteq> 12 \<or> take 3 d \<noteq> ''998'' then utf8 [0x2022, 0x2022, 0x2022]
      else ''+998 '' @ take 2 (drop 3 d) @ '' '' @ utf8 [0x2022] @ dots @ '' '' @ dots @ '' '' @ drop 10 d)"

definition word_char :: "char \<Rightarrow> bool" where
  "word_char c \<longleftrightarrow> is_digit c \<or> (65 \<le> (of_char c :: nat) \<and> (of_char c :: nat) \<le> 90) \<or> (97 \<le> (of_char c :: nat) \<and> (of_char c :: nat) \<le> 122) \<or> c = CHR ''_''"

text \<open>\<open>botUsernameRE\<close> and \<open>referralCodeRE\<close>.\<close>

definition bot_username_ok :: "string \<Rightarrow> bool" where
  "bot_username_ok b \<longleftrightarrow> list_all word_char b \<and> 5 \<le> length b \<and> length b \<le> 32"

definition referral_code_ok :: "string \<Rightarrow> bool" where
  "referral_code_ok code \<longleftrightarrow> list_all (\<lambda>c. word_char c \<or> c = CHR ''-'') code \<and> 1 \<le> length code \<and> length code \<le> 64"

definition ParseReferralStartParam :: "string \<Rightarrow> string option" where
  "ParseReferralStartParam param =
     (if 64 < length param then None
      else if take 4 param = ''ref_'' \<and> referral_code_ok (drop 4 param) then Some (drop 4 param) else None)"

definition ParseTelegramLoginStartPayload :: "string \<Rightarrow> string option" where
  "ParseTelegramLoginStartPayload arg =
     (if take 6 arg = ''login_'' \<and> drop 6 arg \<noteq> [] then Some (drop 6 arg) else None)"

definition telegramLoginDeepLink :: "string \<Rightarrow> string \<Rightarrow> string" where
  "telegramLoginDeepLink bot_name token = ''https://t.me/'' @ bot_name @ ''?start=login_'' @ token"

definition TrimPrefix :: "string \<Rightarrow> string \<Rightarrow> string" where
  "TrimPrefix s pre = (if take (length pre) s = pre then drop (length pre) s else s)"

section \<open>The browser's side\<close>

definition minute_ns :: int where "minute_ns = 60 * second"

definition TelegramLoginTTL :: int where "TelegramLoginTTL = 5 * minute_ns"

definition telegramLoginCompleteGrace :: int where "telegramLoginCompleteGrace = 2 * minute_ns"

text \<open>The switch is on unless the table says otherwise; a failed read means on.\<close>

definition telegramLoginEnabled :: "auth_env \<Rightarrow> auth_state \<Rightarrow> bool" where
  "telegramLoginEnabled e s \<longleftrightarrow> fails e ''telegramLoginEnabled'' ''flag'' \<or> idb_login_flag (as_db s) \<noteq> Some False"

definition login_enabled_or :: "auth_env \<Rightarrow> auth_err \<Rightarrow> unit op" where
  "login_enabled_or e err = observe (telegramLoginEnabled e) (\<lambda>on. if on then ret () else throw err)"

definition ip_allow :: "auth_env \<Rightarrow> auth_cfg \<Rightarrow> string \<Rightarrow> string \<Rightarrow> int \<Rightarrow> string \<Rightarrow> unit op" where
  "ip_allow e c site k limit ip = (if ip \<noteq> '''' then allow_or e site (k @ ak_ip c ip) limit hour else ret ())"

record TelegramLoginStart =
  ls_bot_url :: string
  ls_token :: string
  ls_secret :: string
  ls_expires :: int

text \<open>Counting the start never refuses it.\<close>

definition noteTelegramLoginStart :: "auth_env \<Rightarrow> unit op" where
  "noteTelegramLoginStart e s =
     (case Hit (fails e ''noteTelegramLoginStart'' ''Hit'') (redis_ms e ''noteTelegramLoginStart'') ''tglogin:start:all'' hour (rd_limits (as_redis s)) of
        (_, m) \<Rightarrow> (Inr (), set_limits m s))"

definition StartTelegramLogin :: "auth_env \<Rightarrow> auth_cfg \<Rightarrow> string \<Rightarrow> string \<Rightarrow> string \<Rightarrow> TelegramLoginStart op" where
  "StartTelegramLogin e c ip ua botUsername =
     (let name = TrimPrefix (trim_space botUsername) ''@'' in
      if \<not> bot_username_ok name then throw ErrTelegramBotUnconfigured
      else abind (login_enabled_or e ErrTelegramLoginDisabled) (\<lambda>_.
        abind (ip_allow e c ''StartTelegramLogin'' ''tglogin:start:ip:'' 120 ip) (\<lambda>_.
        abind (noteTelegramLoginStart e) (\<lambda>_.
        let token = av_rand e ''login.token''; secret = av_rand e ''login.secret'' in
        abind (savepoint (exec e ''StartTelegramLogin'' ''DeleteStaleTelegramLoginRequests'' (\<lambda>d. Inr ((), DeleteStaleTelegramLoginRequests (av_env e) d)))) (\<lambda>_.
        abind (exec e ''StartTelegramLogin'' ''CreateTelegramLoginRequest'' (CreateTelegramLoginRequest (av_env e) (ak_hash c token) (ak_hash c secret)
                 (DescribeDevice ua) (now_of e ''StartTelegramLogin'' + TelegramLoginTTL))) (\<lambda>_.
        ret \<lparr>ls_bot_url = telegramLoginDeepLink name token, ls_token = token, ls_secret = secret, ls_expires = go_div TelegramLoginTTL second\<rparr>))))))"

definition browserOwns :: "auth_cfg \<Rightarrow> tglogin_row \<Rightarrow> string \<Rightarrow> bool" where
  "browserOwns c row secret = (if secret = '''' then False else ak_hash c secret = tl_secret row)"

definition telegramLoginLive :: "tglogin_row \<Rightarrow> int \<Rightarrow> bool" where
  "telegramLoginLive row now \<longleftrightarrow> now < tl_expires row"

definition telegramLoginCompletable :: "tglogin_row \<Rightarrow> int \<Rightarrow> bool" where
  "telegramLoginCompletable row now \<longleftrightarrow> tl_status row = ''approved'' \<and> now < tl_expires row + telegramLoginCompleteGrace"

definition status_of :: "tglogin_row \<Rightarrow> int \<Rightarrow> string" where
  "status_of row now =
     (if tl_status row = ''pending'' then if telegramLoginLive row now then ''pending'' else ''invalid''
      else if tl_status row = ''approved'' then if telegramLoginCompletable row now then ''approved'' else ''invalid''
      else if tl_status row = ''cancelled'' \<or> tl_status row = ''blocked'' then tl_status row else ''invalid'')"

definition TelegramLoginStatus :: "auth_env \<Rightarrow> auth_cfg \<Rightarrow> string \<Rightarrow> string \<Rightarrow> string \<Rightarrow> string op" where
  "TelegramLoginStatus e c token secret ip =
     (if trim_space token = '''' then ret ''invalid''
      else abind (ip_allow e c ''TelegramLoginStatus.ip'' ''tglogin:status:ip:'' 6000 ip) (\<lambda>_.
        abind (query e ''TelegramLoginStatus'' ''GetTelegramLoginRequestByTokenHash'' (GetTelegramLoginRequestByTokenHash (ak_hash c token))) (\<lambda>found.
        case found of
          None \<Rightarrow> ret ''invalid''
        | Some row \<Rightarrow>
            if \<not> browserOwns c row secret then ret ''invalid''
            else abind (allow_or e ''TelegramLoginStatus.token'' (''tglogin:status:'' @ ak_hash c token) 300 (10 * minute_ns)) (\<lambda>_.
              ret (status_of row (now_of e ''TelegramLoginStatus''))))))"

definition Complete_tx :: "auth_env \<Rightarrow> auth_cfg \<Rightarrow> string \<Rightarrow> string \<Rightarrow> VerifyResult tx_end op" where
  "Complete_tx e c token secret =
     (let now = now_of e ''CompleteTelegramLogin'' in
      abind (query e ''CompleteTelegramLogin'' ''ForUpdate'' (GetTelegramLoginRequestByTokenHash (ak_hash c token))) (\<lambda>found.
      abind (row_or ErrTelegramLoginInvalid found) (\<lambda>row.
      if \<not> browserOwns c row secret then throw ErrTelegramLoginInvalid
      else if tl_status row = ''pending'' \<and> telegramLoginLive row now then throw ErrTelegramLoginNotApproved
      else case tl_profile row of
          None \<Rightarrow> throw ErrTelegramLoginInvalid
        | Some prof \<Rightarrow>
            if \<not> telegramLoginCompletable row now then throw ErrTelegramLoginInvalid
            else abind (query e ''CompleteTelegramLogin'' ''GetProfileByID'' (GetProfileByID prof)) (\<lambda>fp.
              abind (row_or (AuthSql (Sql ErrNoRows)) fp) (\<lambda>p.
              if pf_kind p \<noteq> ''user'' then throw ErrTelegramLoginInvalid
              else abind (issueSession e c p) (\<lambda>toks.
                abind (exec e ''CompleteTelegramLogin'' ''ConsumeTelegramLoginRequest'' (\<lambda>d. Inr (ConsumeTelegramLoginRequest (tl_id row) d))) (\<lambda>n.
                if n \<noteq> 1 then throw ErrTelegramLoginInvalid
                else ret (Keep \<lparr>vr_tokens = toks, vr_profile = p, vr_created = (tl_created row \<le> pf_created p), vr_linked = False\<rparr>))))))))"

definition CompleteTelegramLogin :: "auth_env \<Rightarrow> auth_cfg \<Rightarrow> string \<Rightarrow> string \<Rightarrow> string \<Rightarrow> VerifyResult op" where
  "CompleteTelegramLogin e c token secret ip =
     (if trim_space token = '''' then throw ErrTelegramLoginInvalid
      else abind (login_enabled_or e ErrTelegramLoginDisabled) (\<lambda>_.
        abind (query e ''CompleteTelegramLogin'' ''GetTelegramLoginRequestByTokenHash'' (GetTelegramLoginRequestByTokenHash (ak_hash c token))) (\<lambda>peek.
        if (case peek of None \<Rightarrow> True | Some row \<Rightarrow> \<not> browserOwns c row secret) then
          abind (ip_allow e c ''CompleteTelegramLogin.miss'' ''tglogin:complete:miss:ip:'' 600 ip) (\<lambda>_. throw ErrTelegramLoginInvalid)
        else abind (allow_or e ''CompleteTelegramLogin.token'' (''tglogin:complete:'' @ ak_hash c token) 10 (10 * minute_ns)) (\<lambda>_.
          abind (others e ''CompleteTelegramLogin'') (\<lambda>_.
          in_tx e ''CompleteTelegramLogin'' (Complete_tx e c token secret))))))"

section \<open>The bot's side\<close>

record TelegramLoginBegin =
  lb_outcome :: string
  lb_device :: string
  lb_nonce :: string
  lb_masked :: string
  lb_created :: bool
  lb_contact :: bool

definition outcome :: "string \<Rightarrow> TelegramLoginBegin" where
  "outcome what = \<lparr>lb_outcome = what, lb_device = '''', lb_nonce = '''', lb_masked = '''', lb_created = False, lb_contact = False\<rparr>"

definition telegramLoginBotKey :: "int \<Rightarrow> string" where
  "telegramLoginBotKey u = ''tglogin:tg:'' @ show_int u"

text \<open>A bot step's budget: running out of it is an outcome, not an error.\<close>

definition bot_allow :: "auth_env \<Rightarrow> string \<Rightarrow> int \<Rightarrow> bool op" where
  "bot_allow e site u =
     abind (trying (allow_or e site (telegramLoginBotKey u) 30 hour)) (\<lambda>r. case r of
       Inl err \<Rightarrow> if err = ErrRateLimited then ret False else throw err
     | Inr _ \<Rightarrow> ret True)"

text \<open>The learner a Telegram user is phone-verified-linked to.\<close>

definition verifiedLinkedProfile :: "auth_env \<Rightarrow> string \<Rightarrow> int \<Rightarrow> account_row option op" where
  "verifiedLinkedProfile e site u =
     abind (query e site ''GetTelegramAccountByTgUserID'' (GetTelegramAccountByTgUserID u)) (\<lambda>found.
     case found of
       None \<Rightarrow> ret None
     | Some a \<Rightarrow>
         if ta_verified a = None then ret None
         else abind (query e site ''GetProfileByID'' (GetProfileByID (ta_profile a))) (\<lambda>fp.
           abind (row_or (AuthSql (Sql ErrNoRows)) fp) (\<lambda>p. ret (if pf_kind p = ''user'' then Some p else None))))"

definition endTelegramLogin :: "auth_env \<Rightarrow> string \<Rightarrow> tglogin_row \<Rightarrow> string \<Rightarrow> string \<Rightarrow> TelegramLoginBegin tx_end op" where
  "endTelegramLogin e site row status out =
     abind (exec e site ''EndTelegramLoginRequest'' (\<lambda>d. Inr (EndTelegramLoginRequest (tl_id row) status d))) (\<lambda>_.
     ret (Keep ((outcome out)\<lparr>lb_device := tl_device row\<rparr>)))"

text \<open>The two outcomes of arming: a question with a fresh nonce, or a request for the user's own number.\<close>

definition arm_login :: "auth_env \<Rightarrow> auth_cfg \<Rightarrow> string \<Rightarrow> tglogin_row \<Rightarrow> int \<Rightarrow> TelegramLoginBegin tx_end op" where
  "arm_login e c site row u =
     abind (verifiedLinkedProfile e site u) (\<lambda>linked. case linked of
       None \<Rightarrow>
         abind (exec e site ''ArmTelegramLoginForTg'' (ArmTelegramLoginForTg (tl_id row) u None)) (\<lambda>_.
         ret (Keep ((outcome ''need_contact'')\<lparr>lb_device := tl_device row\<rparr>)))
     | Some p \<Rightarrow>
         if assertProfileActive p \<noteq> None then endTelegramLogin e site row ''blocked'' ''blocked''
         else abind (exec e site ''ArmTelegramLoginForTg'' (ArmTelegramLoginForTg (tl_id row) u (Some (ak_hash c (av_rand e site))))) (\<lambda>_.
           ret (Keep \<lparr>lb_outcome = ''need_confirm'', lb_device = tl_device row, lb_nonce = av_rand e site, lb_masked = MaskResetPhone (pf_phone p),
                      lb_created = False, lb_contact = False\<rparr>)))"

definition beginTelegramLogin_tx :: "auth_env \<Rightarrow> auth_cfg \<Rightarrow> string \<Rightarrow> string \<Rightarrow> TelegramLoginUser \<Rightarrow> TelegramLoginBegin tx_end op" where
  "beginTelegramLogin_tx e c site token who =
     abind (query e site ''GetTelegramLoginRequestByTokenHash'' (GetTelegramLoginRequestByTokenHash (ak_hash c token))) (\<lambda>found.
     case found of
       None \<Rightarrow> ret (Drop (outcome ''invalid''))
     | Some row \<Rightarrow>
         if tl_status row \<noteq> ''approved'' \<and> (tl_status row \<noteq> ''pending'' \<or> \<not> telegramLoginLive row (now_of e site)) then ret (Drop (outcome ''invalid''))
         else if tl_status row = ''approved'' then
           ret (Drop (if tl_approver row \<noteq> Some (tu_id who) then outcome ''invalid'' else (outcome ''approved'')\<lparr>lb_device := tl_device row\<rparr>))
         else if tl_opened row \<noteq> None \<and> tl_opened row \<noteq> Some (tu_id who) then ret (Drop (outcome ''taken''))
         else
           abind (exec e site ''ClearTelegramLoginPendingForTg'' (\<lambda>d. Inr ((), ClearTelegramLoginPendingForTg (tu_id who) (tl_id row) d))) (\<lambda>_.
           abind (exec e site ''ClearAllPasswordResetPendingForTg'' (\<lambda>d. Inr ((), ClearAllPasswordResetPendingForTg (tu_id who) d))) (\<lambda>_.
           arm_login e c site row (tu_id who))))"

definition BeginTelegramLogin :: "auth_env \<Rightarrow> auth_cfg \<Rightarrow> string \<Rightarrow> TelegramLoginUser \<Rightarrow> TelegramLoginBegin op" where
  "BeginTelegramLogin e c token who =
     (if trim_space token = '''' \<or> tu_id who \<le> 0 then ret (outcome ''invalid'')
      else observe (telegramLoginEnabled e) (\<lambda>on. if \<not> on then ret (outcome ''disabled'')
      else abind (bot_allow e ''BeginTelegramLogin'' (tu_id who)) (\<lambda>ok.
        if \<not> ok then ret (outcome ''rate_limited'')
        else abind (trying (in_tx e ''beginTelegramLogin'' (beginTelegramLogin_tx e c ''beginTelegramLogin'' token who))) (\<lambda>r. case r of
            Inl err \<Rightarrow>
              if isUniqueViolation err
              then abind (others e ''BeginTelegramLogin.retry'') (\<lambda>_. in_tx e ''beginTelegramLogin.retry''
                     (beginTelegramLogin_tx e c ''beginTelegramLogin.retry'' token who))
              else throw err
          | Inr b \<Rightarrow> ret b))))"

text \<open>A shared number never approves: it earns the question.\<close>

definition ask_after_contact :: "auth_env \<Rightarrow> auth_cfg \<Rightarrow> tglogin_row \<Rightarrow> string \<Rightarrow> TelegramLoginBegin tx_end op" where
  "ask_after_contact e c row phone =
     (let nonce = av_rand e ''ConfirmTelegramLoginContact'' in
      abind (exec e ''ConfirmTelegramLoginContact'' ''AskTelegramLoginConfirmAfterContact''
               (AskTelegramLoginConfirmAfterContact (tl_id row) (ak_hash c nonce) phone)) (\<lambda>n.
      if n \<noteq> 1 then ret (Drop (outcome ''stale''))
      else ret (Keep \<lparr>lb_outcome = ''need_confirm'', lb_device = tl_device row, lb_nonce = nonce, lb_masked = MaskResetPhone phone,
                      lb_created = False, lb_contact = True\<rparr>)))"

definition via_contact :: "bool \<Rightarrow> TelegramLoginBegin tx_end \<Rightarrow> TelegramLoginBegin tx_end" where
  "via_contact v r = (case r of Keep b \<Rightarrow> Keep (b\<lparr>lb_contact := v\<rparr>) | Drop b \<Rightarrow> Drop (b\<lparr>lb_contact := v\<rparr>))"

definition LoginContact_tx :: "auth_env \<Rightarrow> auth_cfg \<Rightarrow> TelegramLoginUser \<Rightarrow> int \<Rightarrow> string \<Rightarrow> TelegramLoginBegin tx_end op" where
  "LoginContact_tx e c who contactUser contactPhone =
     (let site = ''ConfirmTelegramLoginContact'' in
      abind (query e site ''GetLiveTelegramLoginByPendingTg'' (GetLiveTelegramLoginByPendingTg (av_env e) (tu_id who))) (\<lambda>found.
      case found of
        None \<Rightarrow> ret (Drop (outcome ''none''))
      | Some row \<Rightarrow>
          if tl_nonce row \<noteq> None then ret (Drop (outcome ''none''))
          else if contactUser \<noteq> tu_id who then ret (Drop ((outcome ''not_own'')\<lparr>lb_device := tl_device row\<rparr>))
          else case NormalizeTelegramContactPhone contactPhone of
              None \<Rightarrow> ret (Drop ((outcome ''foreign_phone'')\<lparr>lb_device := tl_device row\<rparr>))
            | Some phone \<Rightarrow>
                abind (bot_allow e site (tu_id who)) (\<lambda>ok.
                if \<not> ok then ret (Drop (outcome ''rate_limited''))
                else abind (query e site ''GetProfileByPhone'' (GetProfileByPhone phone)) (\<lambda>holder.
                  case holder of
                    None \<Rightarrow> ask_after_contact e c row phone
                  | Some p \<Rightarrow>
                      if pf_kind p \<noteq> ''user'' then ret (Drop ((outcome ''failed'')\<lparr>lb_contact := True\<rparr>))
                      else if assertProfileActive p \<noteq> None then
                        abind (endTelegramLogin e site row ''blocked'' ''blocked'') (\<lambda>r. ret (via_contact True r))
                      else ask_after_contact e c row phone))))"

definition ConfirmTelegramLoginContact :: "auth_env \<Rightarrow> auth_cfg \<Rightarrow> TelegramLoginUser \<Rightarrow> int \<Rightarrow> string \<Rightarrow> TelegramLoginBegin op" where
  "ConfirmTelegramLoginContact e c who contactUser contactPhone = observe (telegramLoginEnabled e) (\<lambda>on.
     if tu_id who \<le> 0 \<or> \<not> on then ret (outcome ''none'')
     else in_tx e ''ConfirmTelegramLoginContact'' (LoginContact_tx e c who contactUser contactPhone))"

section \<open>Finding or creating the learner\<close>

definition pendingBotReferral :: "auth_env \<Rightarrow> int \<Rightarrow> auth_state \<Rightarrow> string" where
  "pendingBotReferral e u s =
     (if fails e ''pendingBotReferral'' ''GetTelegramBotUserPendingReferral'' then ''''
      else case GetTelegramBotUserPendingReferral (av_env e) u (as_db s) of None \<Rightarrow> '''' | Some code \<Rightarrow> code)"

definition in_billing :: "(billing_db \<Rightarrow> billing_err + billing_db) \<Rightarrow> identity_db \<Rightarrow> auth_err + (unit \<times> identity_db)" where
  "in_billing f d = (case f (idb_billing d) of Inl err \<Rightarrow> Inl (AuthSql err) | Inr b \<Rightarrow> Inr ((), d\<lparr>idb_billing := b\<rparr>))"

definition referral_body :: "auth_env \<Rightarrow> uuid \<Rightarrow> string \<Rightarrow> unit op" where
  "referral_body e referee code =
     abind (query e ''applySignupReferral'' ''GetReferralCodeOwner'' (\<lambda>d. GetReferralCodeOwner (av_env e) (idb_billing d) code)) (\<lambda>found.
     case found of
       None \<Rightarrow> ret ()
     | Some owner \<Rightarrow>
         if rc_user owner = referee then ret ()
         else abind (exec e ''applySignupReferral'' ''CreateReferral'' (in_billing (CreateReferral (rc_user owner) referee (rc_code owner)))) (\<lambda>_.
              query e ''applySignupReferral'' ''Release'' (\<lambda>_. ())))"

text \<open>Every failure only skips the referral.\<close>

definition applySignupReferral :: "auth_env \<Rightarrow> uuid \<Rightarrow> string \<Rightarrow> unit op" where
  "applySignupReferral e referee referralCode =
     (let code = trim_space referralCode in
      if \<not> referral_code_ok code \<or> fails e ''applySignupReferral'' ''Savepoint'' then ret ()
      else abind (savepoint (referral_body e referee code)) (\<lambda>_. ret ()))"

definition existing_learner :: "auth_env \<Rightarrow> string \<Rightarrow> string \<Rightarrow> account_row option op" where
  "existing_learner e site phone =
     abind (query e site ''GetUserProfileByPhone'' (GetUserProfileByPhone phone)) (\<lambda>found.
     case found of
       None \<Rightarrow> ret None
     | Some p \<Rightarrow> abind (active_or p) (\<lambda>_. ret (Some p)))"

definition create_learner :: "auth_env \<Rightarrow> string \<Rightarrow> string \<Rightarrow> account_row op" where
  "create_learner e phone name =
     abind (createProfileWithReferral e phone '''' name) (\<lambda>p.
     abind (grantSignupTrial e (pf_id p)) (\<lambda>_.
     abind (query e ''findOrCreate'' ''Release'' (\<lambda>_. ())) (\<lambda>_. ret p)))"

text \<open>Losing the race for the phone rolls back to the savepoint and reads what is there now.\<close>

definition findOrCreateTelegramProfile :: "auth_env \<Rightarrow> string \<Rightarrow> TelegramLoginUser \<Rightarrow> string \<Rightarrow> (account_row \<times> bool) op" where
  "findOrCreateTelegramProfile e phone who referralCode =
     abind (existing_learner e ''findOrCreate'' phone) (\<lambda>found.
     case found of
       Some p \<Rightarrow> ret (p, False)
     | None \<Rightarrow>
         if fails e ''findOrCreate'' ''Savepoint'' then throw AuthFailure
         else abind (savepoint (create_learner e phone (utf8 (telegramProfileName who)))) (\<lambda>r. case r of
             Inl err \<Rightarrow>
               if err = PhoneKeyViolation
               then abind (existing_learner e ''findOrCreate.again'' phone) (\<lambda>again. abind (row_or ErrPhoneNotALearner again) (\<lambda>p. ret (p, False)))
               else throw err
           | Inr p \<Rightarrow>
               abind (applySignupReferral e (pf_id p) referralCode) (\<lambda>_.
               abind (if 0 < tu_id who then exec e ''findOrCreate'' ''ClearTelegramBotUserPendingReferral''
                        (\<lambda>d. Inr ((), ClearTelegramBotUserPendingReferral (tu_id who) d)) else ret ()) (\<lambda>_.
               ret (p, True)))))"

section \<open>The tap\<close>

text \<open>Only the tap approves; a request that is no longer pending leaves everything as it was.\<close>

definition approve_login :: "auth_env \<Rightarrow> tglogin_row \<Rightarrow> int \<Rightarrow> account_row \<Rightarrow> bool \<Rightarrow> bool \<Rightarrow> TelegramLoginBegin tx_end op" where
  "approve_login e row u p created viaContact =
     abind (exec e ''AnswerTelegramLoginConfirm'' ''ApproveTelegramLoginRequest'' (\<lambda>d. Inr (ApproveTelegramLoginRequest (tl_id row) (pf_id p) u d))) (\<lambda>n.
     if n \<noteq> 1 then ret (Drop (outcome ''stale''))
     else ret (Keep \<lparr>lb_outcome = ''approved'', lb_device = tl_device row, lb_nonce = '''', lb_masked = '''', lb_created = created, lb_contact = viaContact\<rparr>))"

definition answer_contact :: "auth_env \<Rightarrow> tglogin_row \<Rightarrow> TelegramLoginUser \<Rightarrow> string \<Rightarrow> TelegramLoginBegin tx_end op" where
  "answer_contact e row who phone = observe (pendingBotReferral e (tu_id who)) (\<lambda>referral.
     abind (trying (findOrCreateTelegramProfile e phone who referral)) (\<lambda>r. case r of
       Inl err \<Rightarrow>
         if err = ErrAccountBlocked then abind (endTelegramLogin e ''AnswerTelegramLoginConfirm'' row ''blocked'' ''blocked'') (\<lambda>r. ret (via_contact True r))
         else if err = ErrPhoneNotALearner then ret (Drop ((outcome ''failed'')\<lparr>lb_contact := True\<rparr>))
         else throw err
     | Inr (p, created) \<Rightarrow>
         abind (linkVerifiedTelegramInTx e p (tu_id who) (tu_username who)) (\<lambda>_. approve_login e row (tu_id who) p created True)))"

definition answer_linked :: "auth_env \<Rightarrow> tglogin_row \<Rightarrow> TelegramLoginUser \<Rightarrow> TelegramLoginBegin tx_end op" where
  "answer_linked e row who =
     abind (verifiedLinkedProfile e ''AnswerTelegramLoginConfirm'' (tu_id who)) (\<lambda>linked. case linked of
       None \<Rightarrow> ret (Drop (outcome ''stale''))
     | Some p \<Rightarrow>
         if assertProfileActive p \<noteq> None then endTelegramLogin e ''AnswerTelegramLoginConfirm'' row ''blocked'' ''blocked''
         else approve_login e row (tu_id who) p False False)"

definition AnswerLogin_tx :: "auth_env \<Rightarrow> auth_cfg \<Rightarrow> TelegramLoginUser \<Rightarrow> string \<Rightarrow> bool \<Rightarrow> TelegramLoginBegin tx_end op" where
  "AnswerLogin_tx e c who nonce accept =
     abind (query e ''AnswerTelegramLoginConfirm'' ''GetTelegramLoginByConfirmNonce'' (GetTelegramLoginByConfirmNonce (ak_hash c nonce))) (\<lambda>found.
     case found of
       None \<Rightarrow> ret (Drop (outcome ''stale''))
     | Some row \<Rightarrow>
         if tl_status row \<noteq> ''pending'' \<or> \<not> telegramLoginLive row (now_of e ''AnswerTelegramLoginConfirm'') \<or> tl_pending row \<noteq> Some (tu_id who)
         then ret (Drop (outcome ''stale''))
         else if \<not> accept then
           abind (endTelegramLogin e ''AnswerTelegramLoginConfirm'' row ''cancelled'' ''cancelled'') (\<lambda>r. ret (via_contact (tl_contact row \<noteq> None) r))
         else abind (bot_allow e ''AnswerTelegramLoginConfirm'' (tu_id who)) (\<lambda>ok.
           if \<not> ok then ret (Drop ((outcome ''rate_limited'')\<lparr>lb_contact := (tl_contact row \<noteq> None)\<rparr>))
           else case tl_contact row of
               Some phone \<Rightarrow> answer_contact e row who phone
             | None \<Rightarrow> answer_linked e row who))"

definition AnswerTelegramLoginConfirm :: "auth_env \<Rightarrow> auth_cfg \<Rightarrow> TelegramLoginUser \<Rightarrow> string \<Rightarrow> bool \<Rightarrow> TelegramLoginBegin op" where
  "AnswerTelegramLoginConfirm e c who nonce accept = observe (telegramLoginEnabled e) (\<lambda>on.
     if tu_id who \<le> 0 \<or> trim_space nonce = '''' then ret (outcome ''stale'')
     else if accept \<and> \<not> on then ret (outcome ''disabled'')
     else in_tx e ''AnswerTelegramLoginConfirm'' (AnswerLogin_tx e c who nonce accept))"

section \<open>The Mini App's sign-ins\<close>

definition telegramIPFailureLimit :: int where "telegramIPFailureLimit = 300"

definition telegramIPFailureKey :: "auth_cfg \<Rightarrow> string \<Rightarrow> string" where
  "telegramIPFailureKey c ip = ''tgwebapp:ip:'' @ ak_ip c ip"

text \<open>The failure budget is read without spending it, and spent by failures only.\<close>

definition checkTelegramIPFailures :: "auth_env \<Rightarrow> auth_cfg \<Rightarrow> string \<Rightarrow> unit op" where
  "checkTelegramIPFailures e c ip s =
     (if ip = '''' then (Inr (), s)
      else case lim_Count (fails e ''checkTelegramIPFailures'' ''Count'') (redis_ms e ''checkTelegramIPFailures'') (telegramIPFailureKey c ip)
               (rd_limits (as_redis s)) of
          Inl err \<Rightarrow> (Inl (AuthSql err), s)
        | Inr n \<Rightarrow> if telegramIPFailureLimit \<le> n then (Inl ErrRateLimited, s) else (Inr (), s))"

definition noteTelegramIPFailure :: "auth_env \<Rightarrow> auth_cfg \<Rightarrow> string \<Rightarrow> unit op" where
  "noteTelegramIPFailure e c ip =
     (if ip = '''' then ret ()
      else abind (lim_allow e ''noteTelegramIPFailure'' (telegramIPFailureKey c ip) telegramIPFailureLimit hour) (\<lambda>_. ret ()))"

definition rateLimitTelegramUser :: "auth_env \<Rightarrow> int \<Rightarrow> unit op" where
  "rateLimitTelegramUser e u = allow_or e ''rateLimitTelegramUser'' (''tgwebapp:tg:'' @ show_int u) 30 hour"

record WebAppLoginResult =
  wl_session :: "(Tokens \<times> account_row) option"
  wl_first :: "nat list"

text \<open>\<open>wl_session\<close> is empty when the learner still has to give a phone (\<open>NeedPhone\<close>).\<close>

definition TelegramWebAppLogin :: "auth_env \<Rightarrow> auth_cfg \<Rightarrow> string \<Rightarrow> string \<Rightarrow> WebAppLoginResult op" where
  "TelegramWebAppLogin e c initData ip =
     abind (checkTelegramIPFailures e c ip) (\<lambda>_.
     if \<not> miniAppEnabled c then throw ErrTelegramBotUnconfigured
     else case ValidateInitData (ak_payload c) initData (now_of e ''ValidateInitData'') InitDataMaxAge of
         Inl err \<Rightarrow> abind (noteTelegramIPFailure e c ip) (\<lambda>_. throw err)
       | Inr u \<Rightarrow>
           abind (rateLimitTelegramUser e (wu_id u)) (\<lambda>_.
           abind (query e ''TelegramWebAppLogin'' ''GetTelegramAccountByTgUserID'' (GetTelegramAccountByTgUserID (wu_id u))) (\<lambda>found.
           case found of
             None \<Rightarrow> ret \<lparr>wl_session = None, wl_first = wu_first u\<rparr>
           | Some a \<Rightarrow>
               if ta_verified a = None then ret \<lparr>wl_session = None, wl_first = wu_first u\<rparr>
               else abind (query e ''TelegramWebAppLogin'' ''GetProfileByID'' (GetProfileByID (ta_profile a))) (\<lambda>fp.
                 abind (row_or (AuthSql (Sql ErrNoRows)) fp) (\<lambda>p.
                 abind (active_or p) (\<lambda>_.
                 in_tx e ''TelegramWebAppLogin'' (abind (issueSession e c p) (\<lambda>toks.
                   ret (Keep \<lparr>wl_session = Some (toks, p), wl_first = wu_first u\<rparr>)))))))))"

definition LinkTelegramWebApp :: "auth_env \<Rightarrow> auth_cfg \<Rightarrow> uuid \<Rightarrow> string \<Rightarrow> string \<Rightarrow> string \<Rightarrow> bool op" where
  "LinkTelegramWebApp e c prof prof_text initData contact =
     (if \<not> miniAppEnabled c then throw ErrTelegramBotUnconfigured
      else abind (allow_or e ''LinkTelegramWebApp'' (''tglink:profile:'' @ prof_text) 20 hour) (\<lambda>_.
        abind (case ValidateInitData (ak_payload c) initData (now_of e ''LinkTelegramWebApp'') InitDataLinkMaxAge of
            Inr u \<Rightarrow> rateLimitTelegramUser e (wu_id u) | Inl _ \<Rightarrow> ret ()) (\<lambda>_.
        abind (query e ''LinkTelegramWebApp'' ''GetProfileByID'' (GetProfileByID prof)) (\<lambda>fp.
        abind (row_or (AuthSql (Sql ErrNoRows)) fp) (\<lambda>p.
        abind (active_or p) (\<lambda>_.
        in_tx e ''LinkTelegramWebApp'' (abind (linkTelegramInTx e c p initData contact) (\<lambda>link. ret (Keep (lc_linked link))))))))))"

definition WebAppPhone_tx :: "auth_env \<Rightarrow> auth_cfg \<Rightarrow> WebAppUser \<Rightarrow> string \<Rightarrow> string \<Rightarrow> VerifyResult tx_end op" where
  "WebAppPhone_tx e c u phone referral =
     (let who = \<lparr>tu_id = wu_id u, tu_username = wu_username u, tu_first = wu_first u, tu_last = wu_last u, tu_language = wu_language u\<rparr> in
      abind (trying (findOrCreateTelegramProfile e phone who referral)) (\<lambda>r. case r of
        Inl err \<Rightarrow> throw (if err = ErrPhoneNotALearner then ErrInvalidPhone else err)
      | Inr (p, created) \<Rightarrow>
          abind (linkVerifiedTelegramInTx e p (wu_id u) (wu_username u)) (\<lambda>link.
          abind (issueSession e c p) (\<lambda>toks.
          ret (Keep \<lparr>vr_tokens = toks, vr_profile = p, vr_created = created, vr_linked = lc_linked link\<rparr>)))))"

definition TelegramWebAppPhoneSignIn :: "auth_env \<Rightarrow> auth_cfg \<Rightarrow> string \<Rightarrow> string \<Rightarrow> string \<Rightarrow> VerifyResult op" where
  "TelegramWebAppPhoneSignIn e c initData contact ip =
     abind (checkTelegramIPFailures e c ip) (\<lambda>_.
     if \<not> miniAppEnabled c then throw ErrTelegramBotUnconfigured
     else abind (login_enabled_or e ErrTelegramLoginDisabled) (\<lambda>_.
       case ValidateInitData (ak_payload c) initData (now_of e ''ValidateInitData'') InitDataLinkMaxAge of
         Inl err \<Rightarrow> abind (noteTelegramIPFailure e c ip) (\<lambda>_. throw err)
       | Inr u \<Rightarrow>
           abind (rateLimitTelegramUser e (wu_id u)) (\<lambda>_.
           case ValidateContact (ak_payload c) contact (now_of e ''ValidateContact'') InitDataLinkMaxAge of
             Inl err \<Rightarrow> abind (noteTelegramIPFailure e c ip) (\<lambda>_. throw err)
           | Inr (cid, cphone) \<Rightarrow>
               if cid \<noteq> wu_id u then throw ErrInitDataInvalid
               else case NormalizeTelegramContactPhone cphone of
                   None \<Rightarrow> throw ErrInvalidPhone
                 | Some phone \<Rightarrow>
                     observe (\<lambda>s. case ParseReferralStartParam (wu_start_param u) of Some code \<Rightarrow> code | None \<Rightarrow> pendingBotReferral e (wu_id u) s) (\<lambda>referral.
                     in_tx e ''TelegramWebAppPhoneSignIn'' (WebAppPhone_tx e c u phone referral)))))"

end
