(* ===== verification/Password_Reset.thy ===== *)
theory Password_Reset
  imports Telegram_Login
begin

text \<open>
  Resetting a password through the bot (\<open>auth/password_reset.go\<close>): a start that answers the same for every phone, the
  bot's proof of the phone, the tap that verifies, and the completion that sets the password, signs every device out and
  drops a link the confirming Telegram user did not own.
\<close>

definition PasswordResetTTL :: int where "PasswordResetTTL = 15 * minute_ns"

record PasswordResetStart =
  ps_bot_url :: string
  ps_expires :: int

definition FormatPasswordResetStartPayload :: "string \<Rightarrow> string" where
  "FormatPasswordResetStartPayload raw = ''pwr_'' @ raw"

definition ParsePasswordResetStartPayload :: "string \<Rightarrow> string option" where
  "ParsePasswordResetStartPayload arg = (if take 4 arg = ''pwr_'' \<and> drop 4 arg \<noteq> [] then Some (drop 4 arg) else None)"

definition passwordResetDeepLink :: "string \<Rightarrow> string \<Rightarrow> string" where
  "passwordResetDeepLink botUsername raw =
     ''https://t.me/'' @ TrimPrefix (trim_space botUsername) ''@'' @ ''?start='' @ FormatPasswordResetStartPayload raw"

definition set_issued :: "(string \<Rightarrow> int option) \<Rightarrow> auth_state \<Rightarrow> auth_state" where
  "set_issued g s = s\<lparr>as_redis := (as_redis s)\<lparr>rd_issued := g\<rparr>\<rparr>"

definition markResetTokenIssued :: "auth_env \<Rightarrow> auth_cfg \<Rightarrow> string \<Rightarrow> unit op" where
  "markResetTokenIssued e c raw s =
     (if \<not> ak_redis c \<or> fails e ''markResetTokenIssued'' ''Set'' then (Inl AuthFailure, s)
      else (Inr (), set_issued ((rd_issued (as_redis s))(ak_hash c raw \<mapsto> redis_ms e ''markResetTokenIssued'' + go_div PasswordResetTTL 1000000)) s))"

text \<open>A Redis that cannot answer counts as issued.\<close>

definition resetTokenWasIssued :: "auth_env \<Rightarrow> auth_cfg \<Rightarrow> string \<Rightarrow> auth_state \<Rightarrow> bool" where
  "resetTokenWasIssued e c raw s =
     (if \<not> ak_redis c \<or> trim_space raw = '''' then False
      else if fails e ''resetTokenWasIssued'' ''Exists'' then True
      else case rd_issued (as_redis s) (ak_hash c raw) of None \<Rightarrow> False | Some exp \<Rightarrow> redis_ms e ''resetTokenWasIssued'' < exp)"

definition resetTokenLive :: "reset_row \<Rightarrow> int \<Rightarrow> bool" where
  "resetTokenLive row now \<longleftrightarrow> pw_used row = None \<and> \<not> pw_expires row < now"

definition StartReset_tx :: "auth_env \<Rightarrow> auth_cfg \<Rightarrow> uuid \<Rightarrow> string \<Rightarrow> PasswordResetStart \<Rightarrow> PasswordResetStart tx_end op" where
  "StartReset_tx e c prof raw out =
     abind (exec e ''StartPasswordReset'' ''DeleteUnused'' (\<lambda>d. Inr ((), DeleteUnusedPasswordResetTokensForProfile prof d))) (\<lambda>_.
     abind (exec e ''StartPasswordReset'' ''CreatePasswordResetToken''
              (CreatePasswordResetToken (av_env e) prof (ak_hash c raw) (now_of e ''StartPasswordReset'' + PasswordResetTTL))) (\<lambda>_.
     ret (Keep out)))"

definition StartPasswordReset :: "auth_env \<Rightarrow> auth_cfg \<Rightarrow> string \<Rightarrow> string \<Rightarrow> string \<Rightarrow> PasswordResetStart op" where
  "StartPasswordReset e c rawPhone ip botUsername =
     (if trim_space botUsername = '''' then throw ErrTelegramBotUnconfigured
      else case NormalizePhone rawPhone of
          None \<Rightarrow> throw ErrInvalidPhone
        | Some phone \<Rightarrow>
            abind (rateLimitAuth e c ''reset'' phone ip) (\<lambda>_.
            abind (lim_cooldown e ''StartPasswordReset'' (''reset:cooldown:'' @ phone) (45 * second)) (\<lambda>free.
            if \<not> free then throw ErrRateLimited
            else let raw = av_rand e ''StartPasswordReset'';
                     out = \<lparr>ps_bot_url = passwordResetDeepLink botUsername raw, ps_expires = go_div PasswordResetTTL second\<rparr> in
              abind (markResetTokenIssued e c raw) (\<lambda>_.
              abind (query e ''StartPasswordReset'' ''GetProfileByPhone'' (GetProfileByPhone phone)) (\<lambda>found.
              case found of
                None \<Rightarrow> ret out
              | Some p \<Rightarrow> if assertProfileActive p \<noteq> None then ret out else in_tx e ''StartPasswordReset'' (StartReset_tx e c (pf_id p) raw out))))))"

text \<open>A database that cannot answer looks like a pending reset.\<close>

definition PasswordResetStatus :: "auth_env \<Rightarrow> auth_cfg \<Rightarrow> string \<Rightarrow> auth_state \<Rightarrow> string" where
  "PasswordResetStatus e c rawToken s =
     (if trim_space rawToken = '''' then ''invalid''
      else if fails e ''PasswordResetStatus'' ''GetPasswordResetTokenByHash'' then ''pending''
      else case GetPasswordResetTokenByHash (ak_hash c rawToken) (as_db s) of
          Some row \<Rightarrow> if \<not> resetTokenLive row (now_of e ''PasswordResetStatus'') then ''invalid'' else if pw_verified row \<noteq> None then ''verified'' else ''pending''
        | None \<Rightarrow> if resetTokenWasIssued e c rawToken s then ''pending'' else ''invalid'')"

section \<open>The bot's side\<close>

record TelegramResetBegin =
  rb_outcome :: string
  rb_nonce :: string
  rb_masked :: string

definition reset_outcome :: "string \<Rightarrow> TelegramResetBegin" where
  "reset_outcome what = \<lparr>rb_outcome = what, rb_nonce = '''', rb_masked = ''''\<rparr>"

definition askTelegramResetConfirm :: "auth_env \<Rightarrow> auth_cfg \<Rightarrow> string \<Rightarrow> uuid \<Rightarrow> string \<Rightarrow> TelegramResetBegin tx_end op" where
  "askTelegramResetConfirm e c site i phone =
     abind (exec e site ''SetPasswordResetConfirmNonce'' (SetPasswordResetConfirmNonce i (ak_hash c (av_rand e site)))) (\<lambda>_.
     ret (Keep \<lparr>rb_outcome = ''need_confirm'', rb_nonce = av_rand e site, rb_masked = MaskResetPhone phone\<rparr>))"

text \<open>Only a phone-verified link to this very profile is identity.\<close>

definition beginTelegramPasswordReset_tx :: "auth_env \<Rightarrow> auth_cfg \<Rightarrow> string \<Rightarrow> string \<Rightarrow> int \<Rightarrow> TelegramResetBegin tx_end op" where
  "beginTelegramPasswordReset_tx e c site rawToken u =
     abind (query e site ''GetPasswordResetTokenByHash'' (GetPasswordResetTokenByHash (ak_hash c rawToken))) (\<lambda>found.
     case found of
       None \<Rightarrow> ret (Drop (reset_outcome ''invalid''))
     | Some row \<Rightarrow>
         if \<not> resetTokenLive row (now_of e site) then ret (Drop (reset_outcome ''invalid''))
         else abind (query e site ''GetProfileByID'' (GetProfileByID (pw_profile row))) (\<lambda>fp.
           abind (row_or (AuthSql (Sql ErrNoRows)) fp) (\<lambda>p.
           if assertProfileActive p \<noteq> None then ret (Drop (reset_outcome ''invalid''))
           else if pw_verified row \<noteq> None then ret (Keep (reset_outcome ''verified''))
           else abind (query e site ''GetTelegramAccountByTgUserID'' (GetTelegramAccountByTgUserID u)) (\<lambda>acc.
             let linked = (case acc of None \<Rightarrow> False | Some a \<Rightarrow> ta_profile a = pw_profile row \<and> ta_verified a \<noteq> None) in
             abind (exec e site ''ClearPasswordResetPendingForTg'' (\<lambda>d. Inr ((), ClearPasswordResetPendingForTg u (pw_id row) d))) (\<lambda>_.
             abind (exec e site ''ClearAllTelegramLoginPendingForTg'' (\<lambda>d. Inr ((), ClearAllTelegramLoginPendingForTg u d))) (\<lambda>_.
             abind (exec e site ''SetPasswordResetPendingTg'' (SetPasswordResetPendingTg (pw_id row) u)) (\<lambda>_.
             if \<not> linked then ret (Keep (reset_outcome ''need_contact''))
             else askTelegramResetConfirm e c site (pw_id row) (pf_phone p))))))))"

definition BeginTelegramPasswordReset :: "auth_env \<Rightarrow> auth_cfg \<Rightarrow> string \<Rightarrow> int \<Rightarrow> TelegramResetBegin op" where
  "BeginTelegramPasswordReset e c rawToken u =
     (if trim_space rawToken = '''' \<or> u = 0 then ret (reset_outcome ''invalid'')
      else abind (trying (in_tx e ''beginTelegramPasswordReset'' (beginTelegramPasswordReset_tx e c ''beginTelegramPasswordReset'' rawToken u))) (\<lambda>r.
        case r of
          Inl err \<Rightarrow>
            if isUniqueViolation err
            then abind (others e ''BeginTelegramPasswordReset.retry'') (\<lambda>_. in_tx e ''beginTelegramPasswordReset.retry''
                   (beginTelegramPasswordReset_tx e c ''beginTelegramPasswordReset.retry'' rawToken u))
            else throw err
        | Inr b \<Rightarrow> ret b))"

definition ResetContact_tx :: "auth_env \<Rightarrow> auth_cfg \<Rightarrow> int \<Rightarrow> string \<Rightarrow> TelegramResetBegin tx_end op" where
  "ResetContact_tx e c u contactPhone =
     (let site = ''ConfirmTelegramPasswordResetContact'' in
      abind (query e site ''GetLivePasswordResetByPendingTg'' (GetLivePasswordResetByPendingTg (av_env e) u)) (\<lambda>found.
      case found of
        None \<Rightarrow> ret (Drop (reset_outcome ''none''))
      | Some row \<Rightarrow>
          if \<not> resetTokenLive row (now_of e site) then ret (Drop (reset_outcome ''none''))
          else case NormalizeTelegramContactPhone contactPhone of
              None \<Rightarrow> ret (Drop (reset_outcome ''invalid''))
            | Some phone \<Rightarrow>
                abind (query e site ''GetProfileByID'' (GetProfileByID (pw_profile row))) (\<lambda>fp.
                abind (row_or (AuthSql (Sql ErrNoRows)) fp) (\<lambda>p.
                if assertProfileActive p \<noteq> None \<or> pf_phone p \<noteq> phone then ret (Drop (reset_outcome ''invalid''))
                else askTelegramResetConfirm e c site (pw_id row) (pf_phone p)))))"

definition ConfirmTelegramPasswordResetContact :: "auth_env \<Rightarrow> auth_cfg \<Rightarrow> int \<Rightarrow> int \<Rightarrow> string \<Rightarrow> TelegramResetBegin op" where
  "ConfirmTelegramPasswordResetContact e c u contactUser contactPhone =
     (if u = 0 \<or> contactUser \<noteq> u then ret (reset_outcome ''invalid'')
      else in_tx e ''ConfirmTelegramPasswordResetContact'' (ResetContact_tx e c u contactPhone))"

text \<open>
  What the yes does to the link: kept when it is this profile's already (and phone-verified from now on), moved or made
  otherwise. \<open>False\<close> is the unique violation that turns the tap stale.
\<close>

definition reset_link :: "auth_env \<Rightarrow> reset_row \<Rightarrow> int \<Rightarrow> bool op" where
  "reset_link e row u =
     (let site = ''AnswerTelegramPasswordResetConfirm''; prof = pw_profile row in
      abind (query e site ''GetTelegramAccountByTgUserID'' (GetTelegramAccountByTgUserID u)) (\<lambda>acc.
      if (case acc of None \<Rightarrow> False | Some a \<Rightarrow> ta_profile a = prof) then
        (case acc of
           None \<Rightarrow> ret True
         | Some a \<Rightarrow>
             if ta_verified a \<noteq> None then ret True
             else abind (exec e site ''UpsertTelegramAccount'' (UpsertTelegramAccount (av_env e) prof u (ta_username a) True)) (\<lambda>_. ret True))
      else
        abind (case acc of
            None \<Rightarrow> ret ()
          | Some a \<Rightarrow> exec e site ''DeleteTelegramAccountForOtherProfiles'' (\<lambda>d. Inr ((), DeleteTelegramAccountForOtherProfiles u prof d))) (\<lambda>_.
        abind (query e site ''GetTelegramAccountByProfileID'' (GetTelegramAccountByProfileID prof)) (\<lambda>_.
        abind (trying (exec e site ''UpsertTelegramAccount''
                 (UpsertTelegramAccount (av_env e) prof u (case acc of None \<Rightarrow> '''' | Some a \<Rightarrow> ta_username a) True))) (\<lambda>r. case r of
          Inl err \<Rightarrow> if isUniqueViolation err then ret False else throw err
        | Inr _ \<Rightarrow> ret True)))))"

definition AnswerReset_tx :: "auth_env \<Rightarrow> auth_cfg \<Rightarrow> int \<Rightarrow> string \<Rightarrow> bool \<Rightarrow> TelegramResetBegin tx_end op" where
  "AnswerReset_tx e c u nonce accept =
     (let site = ''AnswerTelegramPasswordResetConfirm''; stale = reset_outcome ''stale'' in
      abind (query e site ''GetPasswordResetByConfirmNonce'' (GetPasswordResetByConfirmNonce (ak_hash c nonce))) (\<lambda>found.
      case found of
        None \<Rightarrow> ret (Drop stale)
      | Some row \<Rightarrow>
          if \<not> resetTokenLive row (now_of e site) \<or> pw_verified row \<noteq> None \<or> pw_pending row \<noteq> Some u then ret (Drop stale)
          else abind (query e site ''GetProfileByID'' (GetProfileByID (pw_profile row))) (\<lambda>fp.
            abind (row_or (AuthSql (Sql ErrNoRows)) fp) (\<lambda>p.
            if assertProfileActive p \<noteq> None then ret (Drop stale)
            else if \<not> accept then
              abind (exec e site ''CancelPasswordReset'' (\<lambda>d. Inr ((), CancelPasswordReset (av_env e) (pw_id row) d))) (\<lambda>_.
              ret (Keep (reset_outcome ''cancelled'')))
            else abind (reset_link e row u) (\<lambda>ok.
              if \<not> ok then ret (Drop stale)
              else abind (exec e site ''MarkPasswordResetVerified'' (\<lambda>d. Inr ((), MarkPasswordResetVerified (av_env e) (pw_id row) d))) (\<lambda>_.
                ret (Keep (reset_outcome ''verified''))))))))"

definition AnswerTelegramPasswordResetConfirm :: "auth_env \<Rightarrow> auth_cfg \<Rightarrow> int \<Rightarrow> string \<Rightarrow> bool \<Rightarrow> TelegramResetBegin op" where
  "AnswerTelegramPasswordResetConfirm e c u nonce accept =
     (if u = 0 \<or> trim_space nonce = '''' then ret (reset_outcome ''stale'')
      else in_tx e ''AnswerTelegramPasswordResetConfirm'' (AnswerReset_tx e c u nonce accept))"

section \<open>Completing\<close>

definition CompleteReset_tx :: "auth_env \<Rightarrow> auth_cfg \<Rightarrow> string \<Rightarrow> string \<Rightarrow> unit tx_end op" where
  "CompleteReset_tx e c rawToken newPassword =
     (let site = ''CompletePasswordReset'' in
      abind (query e site ''GetPasswordResetTokenByHash'' (GetPasswordResetTokenByHash (ak_hash c rawToken))) (\<lambda>found.
      abind (row_or ErrResetInvalid found) (\<lambda>row.
      if \<not> resetTokenLive row (now_of e site) then throw ErrResetInvalid
      else if pw_verified row = None then throw ErrResetNotVerified
      else abind (query e site ''GetProfileByID'' (GetProfileByID (pw_profile row))) (\<lambda>fp.
        abind (row_or (AuthSql (Sql ErrNoRows)) fp) (\<lambda>p.
        abind (active_or p) (\<lambda>_.
        case HashPassword c newPassword of
          Inl err \<Rightarrow> throw err
        | Inr hash \<Rightarrow>
            abind (exec e site ''SetProfilePassword'' (\<lambda>d. Inr ((), SetProfilePassword (pw_profile row) hash False d))) (\<lambda>_.
            abind (exec e site ''MarkPasswordResetUsed'' (\<lambda>d. Inr ((), MarkPasswordResetUsed (av_env e) (pw_id row) d))) (\<lambda>_.
            abind (exec e site ''DeleteUnattributedTelegramAccount'' (\<lambda>d. Inr (DeleteUnattributedTelegramAccount (pw_profile row) (pw_verifier row) d))) (\<lambda>_.
            abind (exec e site ''RevokeAllRefreshTokens'' (\<lambda>d. Inr ((), RevokeAllRefreshTokens (av_env e) (pw_profile row) d))) (\<lambda>_.
            ret (Keep ())))))))))))"

definition CompletePasswordReset :: "auth_env \<Rightarrow> auth_cfg \<Rightarrow> string \<Rightarrow> string \<Rightarrow> string \<Rightarrow> unit op" where
  "CompletePasswordReset e c rawToken newPassword ip =
     (if length newPassword < minPasswordLen then throw ErrWeakPassword
      else abind (rateLimitAuth e c ''reset_complete'' (ak_hash c rawToken) ip) (\<lambda>_.
        in_tx e ''CompletePasswordReset'' (CompleteReset_tx e c rawToken newPassword)))"

end
