(* ===== verification/Auth_Logic.thy ===== *)
theory Auth_Logic
  imports Password_Reset
begin

text \<open>
  Reasoning about identity operations. \<open>keeps P m K\<close> says that \<open>m\<close> preserves the invariant \<open>P\<close> of the state, whether it
  succeeds or fails, and that its result satisfies \<open>K\<close>; \<open>calm m\<close> that \<open>m\<close> leaves the sealed successor pairs alone, so that
  undoing its tables undoes it. The requests a client can send are a datatype, \<open>serve\<close> runs one, and \<open>auth_run\<close> is any
  sequence of them in which every request may be interrupted by further such sequences at the points where the code lets
  others in. The locale \<open>session_invariant\<close> states once what an invariant of profiles, refresh tokens and successor pairs
  has to do with the statements, and proves that every run keeps it.
\<close>

section \<open>Operations that keep an invariant\<close>

definition keeps :: "(auth_state \<Rightarrow> bool) \<Rightarrow> 'a op \<Rightarrow> ('a \<Rightarrow> bool) \<Rightarrow> bool" where
  "keeps P m K \<longleftrightarrow> (\<forall>s r s'. P s \<longrightarrow> m s = (r, s') \<longrightarrow> P s' \<and> (\<forall>x. r = Inr x \<longrightarrow> K x))"

definition calm :: "'a op \<Rightarrow> bool" where
  "calm m \<longleftrightarrow> (\<forall>s r s'. m s = (r, s') \<longrightarrow> rd_grace (as_redis s') = rd_grace (as_redis s))"

named_theorems calm_intros

lemma calm_ret [calm_intros]: "calm (ret x)" "calm (throw err)"
  by (simp_all add: calm_def)

lemma calm_abind [calm_intros]:
  assumes m: "calm m" and f: "\<And>x. calm (f x)"
  shows "calm (abind m f)"
proof -
  have "rd_grace (as_redis s') = rd_grace (as_redis s)" if run: "abind m f s = (r, s')" for s r s'
  proof -
    obtain q s1 where q: "m s = (q, s1)" by (cases "m s")
    then have one: "rd_grace (as_redis s1) = rd_grace (as_redis s)" using m by (auto simp: calm_def)
    show ?thesis
    proof (cases q)
      case (Inr x)
      then have "f x s1 = (r, s')" using run q by (simp add: abind_def)
      then show ?thesis using f one by (auto simp: calm_def)
    qed (use run q one in \<open>auto simp: abind_def\<close>)
  qed
  then show ?thesis by (auto simp: calm_def)
qed

lemma calm_query [calm_intros]: "calm (query e site st f)"
  by (auto simp: calm_def query_def split: if_splits)

lemma calm_exec [calm_intros]: "calm (exec e site st f)"
  by (auto simp: calm_def exec_def split: if_splits sum.splits prod.splits)

lemma calm_in_tx [calm_intros]: "calm body \<Longrightarrow> calm (in_tx e site body)"
  unfolding calm_def in_tx_def by (auto split: if_splits sum.splits prod.splits tx_end.splits; metis)

lemma calm_savepoint [calm_intros]: "calm body \<Longrightarrow> calm (savepoint body)"
  unfolding calm_def savepoint_def by (auto split: sum.splits prod.splits; metis)

lemma calm_trying [calm_intros]: "calm m \<Longrightarrow> calm (trying m)"
  unfolding calm_def trying_def by (auto split: prod.splits)

lemma calm_observe [calm_intros]: "(\<And>x. calm (f x)) \<Longrightarrow> calm (observe g f)"
  unfolding calm_def observe_def by blast

lemma calm_limits [calm_intros]: "calm (lim_allow e site k l w)" "calm (lim_cooldown e site k w)" "calm (allow_or e site k l w)"
  using lim_allow_frame(2) lim_cooldown_frame(2) allow_or_frame(2) by (auto simp: calm_def)

lemma calm_if [calm_intros]: "(b \<Longrightarrow> calm m) \<Longrightarrow> (\<not> b \<Longrightarrow> calm n) \<Longrightarrow> calm (if b then m else n)"
  by simp

lemma calm_option [calm_intros]: "calm m \<Longrightarrow> (\<And>x. calm (f x)) \<Longrightarrow> calm (case r of None \<Rightarrow> m | Some x \<Rightarrow> f x)"
  by (cases r) auto

lemma calm_sum [calm_intros]: "(\<And>x. calm (f x)) \<Longrightarrow> (\<And>x. calm (g x)) \<Longrightarrow> calm (case r of Inl x \<Rightarrow> f x | Inr x \<Rightarrow> g x)"
  by (cases r) auto

lemma calm_pair [calm_intros]: "(\<And>x y. calm (f x y)) \<Longrightarrow> calm (case r of (x, y) \<Rightarrow> f x y)"
  by (cases r) auto

lemma calm_row_or [calm_intros]: "calm (row_or err r)" "calm (active_or p)"
  unfolding row_or_def active_or_def by (auto intro!: calm_intros)

lemma calm_Let [calm_intros]: "calm (f x) \<Longrightarrow> calm (let y = x in f y)"
  by simp

lemma keepsI: "(\<And>s r s'. P s \<Longrightarrow> m s = (r, s') \<Longrightarrow> P s' \<and> (\<forall>x. r = Inr x \<longrightarrow> K x)) \<Longrightarrow> keeps P m K"
  by (auto simp: keeps_def)

lemma keepsD: "keeps P m K \<Longrightarrow> P s \<Longrightarrow> m s = (r, s') \<Longrightarrow> P s'"
  by (auto simp: keeps_def)

lemma keeps_result: "keeps P m K \<Longrightarrow> P s \<Longrightarrow> m s = (Inr x, s') \<Longrightarrow> K x"
  by (auto simp: keeps_def)

lemma keeps_weaken: "keeps P m K \<Longrightarrow> (\<And>x. K x \<Longrightarrow> L x) \<Longrightarrow> keeps P m L"
  by (auto simp: keeps_def)

lemma keeps_ret: "K x \<Longrightarrow> keeps P (ret x) K"
  by (simp add: keeps_def)

lemma keeps_throw: "keeps P (throw err) K"
  by (simp add: keeps_def)

lemma keeps_abind:
  assumes m: "keeps P m K" and f: "\<And>x. K x \<Longrightarrow> keeps P (f x) L"
  shows "keeps P (abind m f) L"
proof (rule keepsI)
  fix s r s' assume P: "P s" and run: "abind m f s = (r, s')"
  obtain q s1 where q: "m s = (q, s1)" by (cases "m s")
  have P1: "P s1" by (rule keepsD [OF m P q])
  show "P s' \<and> (\<forall>x. r = Inr x \<longrightarrow> L x)"
  proof (cases q)
    case (Inr x)
    then have "K x" using keeps_result [OF m P] q by simp
    from f [OF this] P1 show ?thesis using run q Inr by (auto simp: abind_def keeps_def)
  qed (use run q P1 in \<open>auto simp: abind_def\<close>)
qed

lemma keeps_query: "(\<And>s. P s \<Longrightarrow> K (f (as_db s))) \<Longrightarrow> keeps P (query e site st f) K"
  by (auto simp: keeps_def query_def split: if_splits)

lemma keeps_exec:
  assumes "\<And>s x d. P s \<Longrightarrow> f (as_db s) = Inr (x, d) \<Longrightarrow> P (s\<lparr>as_db := d\<rparr>) \<and> K x"
  shows "keeps P (exec e site st f) K"
  using assms by (auto simp: keeps_def exec_def split: if_splits sum.splits prod.splits)

lemma keeps_if: "(b \<Longrightarrow> keeps P m K) \<Longrightarrow> (\<not> b \<Longrightarrow> keeps P n K) \<Longrightarrow> keeps P (if b then m else n) K"
  by simp

definition end_value :: "'a tx_end \<Rightarrow> 'a" where
  "end_value r = (case r of Keep x \<Rightarrow> x | Drop x \<Rightarrow> x)"

lemma end_value_simps [simp]: "end_value (Keep x) = x" "end_value (Drop x) = x"
  by (simp_all add: end_value_def)

section \<open>Requests and runs\<close>

datatype request =
    RequestCode string string | VerifyCodeFor string string | SignUp RegisterInput | SignIn LoginInput | Rotate string | SignOut string
  | StartBotLogin string string string | PollBotLogin string string string | FinishBotLogin string string string
  | OpenBotLogin string TelegramLoginUser | ShareForLogin TelegramLoginUser int string | AnswerLogin TelegramLoginUser string bool
  | MiniAppLogin string string | MiniAppLink uuid string string string | MiniAppPhone string string string
  | StartReset string string string | OpenReset string int | ShareForReset int int string | AnswerReset int string bool | FinishReset string string string

definition serve :: "auth_env \<Rightarrow> auth_cfg \<Rightarrow> request \<Rightarrow> auth_state \<Rightarrow> auth_state" where
  "serve e c req s = (case req of
       RequestCode phone ip \<Rightarrow> snd (RequestOTP e c phone ip s)
     | VerifyCodeFor phone code \<Rightarrow> snd (VerifyOTP e c phone code s)
     | SignUp i \<Rightarrow> snd (Register e c i s)
     | SignIn i \<Rightarrow> snd (Login e c i s)
     | Rotate raw \<Rightarrow> snd (Refresh e c raw s)
     | SignOut raw \<Rightarrow> snd (Logout e c raw s)
     | StartBotLogin ip ua name \<Rightarrow> snd (StartTelegramLogin e c ip ua name s)
     | PollBotLogin token secret ip \<Rightarrow> snd (TelegramLoginStatus e c token secret ip s)
     | FinishBotLogin token secret ip \<Rightarrow> snd (CompleteTelegramLogin e c token secret ip s)
     | OpenBotLogin token who \<Rightarrow> snd (BeginTelegramLogin e c token who s)
     | ShareForLogin who u phone \<Rightarrow> snd (ConfirmTelegramLoginContact e c who u phone s)
     | AnswerLogin who nonce yes \<Rightarrow> snd (AnswerTelegramLoginConfirm e c who nonce yes s)
     | MiniAppLogin initData ip \<Rightarrow> snd (TelegramWebAppLogin e c initData ip s)
     | MiniAppLink prof prof_text initData contact \<Rightarrow> snd (LinkTelegramWebApp e c prof prof_text initData contact s)
     | MiniAppPhone initData contact ip \<Rightarrow> snd (TelegramWebAppPhoneSignIn e c initData contact ip s)
     | StartReset phone ip name \<Rightarrow> snd (StartPasswordReset e c phone ip name s)
     | OpenReset token u \<Rightarrow> snd (BeginTelegramPasswordReset e c token u s)
     | ShareForReset u v phone \<Rightarrow> snd (ConfirmTelegramPasswordResetContact e c u v phone s)
     | AnswerReset u nonce yes \<Rightarrow> snd (AnswerTelegramPasswordResetConfirm e c u nonce yes s)
     | FinishReset token pw ip \<Rightarrow> snd (CompletePasswordReset e c token pw ip s))"

text \<open>
  \<open>N\<close> is what is known of every request's environment; the interruptions \<open>av_others\<close> of a request are runs themselves.
\<close>

inductive auth_run :: "auth_cfg \<Rightarrow> (auth_env \<Rightarrow> bool) \<Rightarrow> auth_state \<Rightarrow> auth_state \<Rightarrow> bool" for c N where
  run_stop: "auth_run c N s s"
| run_step: "auth_run c N s s1 \<Longrightarrow> N e \<Longrightarrow> (\<And>site t. auth_run c N t (av_others e site t)) \<Longrightarrow> auth_run c N s (serve e c req s1)"

inductive_cases auth_run_elim: "auth_run c N s s'"

lemma auth_run_trans: "auth_run c N s1 s2 \<Longrightarrow> auth_run c N s0 s1 \<Longrightarrow> auth_run c N s0 s2"
  by (induction rule: auth_run.induct) (auto intro: auth_run.intros)

lemma auth_run_single: "N e \<Longrightarrow> (\<And>site t. auth_run c N t (av_others e site t)) \<Longrightarrow> auth_run c N s (serve e c req s)"
  by (rule run_step [OF run_stop])

section \<open>What an invariant owes to the statements\<close>

lemma query_mem:
  "GetProfileByID i d = Some p \<Longrightarrow> p \<in> set (idb_profiles d)" "GetProfileByPhone ph d = Some p \<Longrightarrow> p \<in> set (idb_profiles d)"
  "GetUserProfileByPhone ph d = Some p \<Longrightarrow> p \<in> set (idb_profiles d)"
  by (auto simp: GetProfileByID_def GetProfileByPhone_def GetUserProfileByPhone_def find_Some_iff)

definition same_sessions :: "identity_db \<Rightarrow> identity_db \<Rightarrow> bool" where
  "same_sessions d d' \<longleftrightarrow> idb_profiles d' = idb_profiles d \<and> idb_tokens d' = idb_tokens d"

named_theorems session_frame

lemma session_frame_telegram [session_frame]:
  "same_sessions d (DeleteTelegramAccountForOtherProfiles u i d)"
  "UpsertTelegramAccount v i u nm b d = Inr (x, d') \<Longrightarrow> same_sessions d d'"
  "same_sessions d (snd (DeleteUnattributedTelegramAccount i w d))"
  "CreateTelegramLoginRequest v tok sec dev exp d = Inr (x, d') \<Longrightarrow> same_sessions d d'"
  "same_sessions d (DeleteStaleTelegramLoginRequests v d)"
  "same_sessions d (ClearTelegramLoginPendingForTg u i d)"
  "same_sessions d (ClearAllTelegramLoginPendingForTg u d)"
  "ArmTelegramLoginForTg i u nn d = Inr (x, d') \<Longrightarrow> same_sessions d d'"
  "AskTelegramLoginConfirmAfterContact i non ph d = Inr (y, d') \<Longrightarrow> same_sessions d d'"
  "same_sessions d (snd (ApproveTelegramLoginRequest i pr u d))"
  "same_sessions d (snd (EndTelegramLoginRequest i st d))"
  "same_sessions d (snd (ConsumeTelegramLoginRequest i d))"
  "same_sessions d (ClearTelegramBotUserPendingReferral u d)"
  by (auto simp: same_sessions_def DeleteTelegramAccountForOtherProfiles_def UpsertTelegramAccount_def DeleteUnattributedTelegramAccount_def
      CreateTelegramLoginRequest_def DeleteStaleTelegramLoginRequests_def ClearTelegramLoginPendingForTg_def
      ClearAllTelegramLoginPendingForTg_def ArmTelegramLoginForTg_def AskTelegramLoginConfirmAfterContact_def Let_def
      ApproveTelegramLoginRequest_def EndTelegramLoginRequest_def ConsumeTelegramLoginRequest_def
      ClearTelegramBotUserPendingReferral_def split: if_splits)

lemma session_frame_codes [session_frame]:
  "CreateOTPChallenge v ph h ch exp d = Inr (x, d') \<Longrightarrow> same_sessions d d'"
  "same_sessions d (IncrementOTPAttempts i d)"
  "same_sessions d (ConsumeOTP i d)"
  "InsertTrial r d = Inr (y, d') \<Longrightarrow> same_sessions d d'"
  "in_billing f d = Inr (y, d') \<Longrightarrow> same_sessions d d'"
  by (auto simp: same_sessions_def CreateOTPChallenge_def IncrementOTPAttempts_def ConsumeOTP_def InsertTrial_def in_billing_def
      split: if_splits sum.splits)

lemma session_frame_resets [session_frame]:
  "same_sessions d (DeleteUnusedPasswordResetTokensForProfile i d)"
  "CreatePasswordResetToken v i tok exp d = Inr (x, d') \<Longrightarrow> same_sessions d d'"
  "same_sessions d (ClearPasswordResetPendingForTg u i d)"
  "same_sessions d (ClearAllPasswordResetPendingForTg u d)"
  "SetPasswordResetPendingTg i u d = Inr (x, d') \<Longrightarrow> same_sessions d d'"
  "SetPasswordResetConfirmNonce i non d = Inr (x, d') \<Longrightarrow> same_sessions d d'"
  "same_sessions d (CancelPasswordReset v i d)"
  "same_sessions d (MarkPasswordResetVerified v i d)"
  "same_sessions d (MarkPasswordResetUsed v i d)"
  by (auto simp: same_sessions_def DeleteUnusedPasswordResetTokensForProfile_def CreatePasswordResetToken_def ClearPasswordResetPendingForTg_def
      ClearAllPasswordResetPendingForTg_def SetPasswordResetPendingTg_def SetPasswordResetConfirmNonce_def CancelPasswordReset_def
      MarkPasswordResetVerified_def MarkPasswordResetUsed_def split: if_splits)

lemma keeps_any: "keeps P m (\<lambda>_. True) \<Longrightarrow> (\<And>x. keeps P (f x) L) \<Longrightarrow> keeps P (abind m f) L"
  by (rule keeps_abind) auto

lemma keeps_observe: "(\<And>x. keeps P (f x) K) \<Longrightarrow> keeps P (observe g f) K"
  by (auto simp: keeps_def observe_def)

lemma keeps_trying: "keeps P m K \<Longrightarrow> keeps P (trying m) (\<lambda>r. \<forall>x. r = Inr x \<longrightarrow> K x)"
  by (auto simp: keeps_def trying_def split: prod.splits)

lemma keeps_bind_trying:
  assumes "keeps P m K" and "\<And>err. keeps P (f (Inl err)) L" and "\<And>x. K x \<Longrightarrow> keeps P (f (Inr x)) L"
  shows "keeps P (abind (trying m) f) L"
  by (rule keeps_abind [OF keeps_trying [OF assms(1)]]) (case_tac x, simp_all add: assms)

lemma keeps_bind_row_or: "(\<And>x. r = Some x \<Longrightarrow> keeps P (f x) L) \<Longrightarrow> keeps P (abind (row_or err r) f) L"
  by (cases r) (auto simp: row_or_def abind_def keeps_def)

lemma keeps_bind_active: "(pf_status p \<noteq> ''banned'' \<Longrightarrow> keeps P (f ()) L) \<Longrightarrow> keeps P (abind (active_or p) f) L"
  by (auto simp: active_or_def assertProfileActive_def abind_def keeps_def)

lemma keeps_option: "(r = None \<Longrightarrow> keeps P m K) \<Longrightarrow> (\<And>x. r = Some x \<Longrightarrow> keeps P (f x) K) \<Longrightarrow> keeps P (case r of None \<Rightarrow> m | Some x \<Rightarrow> f x) K"
  by (cases r) auto

lemma keeps_sum: "(\<And>x. r = Inl x \<Longrightarrow> keeps P (f x) K) \<Longrightarrow> (\<And>x. r = Inr x \<Longrightarrow> keeps P (g x) K) \<Longrightarrow> keeps P (case r of Inl x \<Rightarrow> f x | Inr x \<Rightarrow> g x) K"
  by (cases r) auto

lemma keeps_pair: "(\<And>x y. r = (x, y) \<Longrightarrow> keeps P (f x y) K) \<Longrightarrow> keeps P (case r of (x, y) \<Rightarrow> f x y) K"
  by (cases r) auto

lemma calm_create [calm_intros]: "calm (createProfileWithReferral e phone hash name)"
proof -
  have "calm (create_attempts e phone pw name bs aborted)" for pw bs aborted
    by (induction bs arbitrary: aborted) (auto intro!: calm_intros)
  then show ?thesis unfolding createProfileWithReferral_def .
qed

lemma calm_parts [calm_intros]:
  "calm (issueSession e c' p)" "calm (grantSignupTrial e i)" "calm (link_body e p u name)" "calm (linkVerifiedTelegramInTx e p u name)"
  "calm (linkTelegramInTx e c' p initData contact)"
proof -
  show a: "calm (issueSession e c' p)" for p unfolding issueSession_def by (auto intro!: calm_intros)
  show b: "calm (grantSignupTrial e i)" unfolding grantSignupTrial_def by (auto intro!: calm_intros)
  have b: "calm (link_body e p u name)" for u name unfolding link_body_def by (auto intro!: calm_intros)
  then show "calm (link_body e p u name)" .
  have l: "calm (linkVerifiedTelegramInTx e p u name)" for u name unfolding linkVerifiedTelegramInTx_def by (auto intro!: calm_intros b)
  then show "calm (linkVerifiedTelegramInTx e p u name)" .
  show "calm (linkTelegramInTx e c' p initData contact)" unfolding linkTelegramInTx_def by (auto intro!: calm_intros l)
qed

text \<open>A transaction undoes its tables; successor pairs are not written inside one.\<close>

lemma keeps_in_tx_of:
  assumes frame: "\<And>s s'. P s \<Longrightarrow> same_sessions (as_db s) (as_db s') \<Longrightarrow> rd_grace (as_redis s') = rd_grace (as_redis s) \<Longrightarrow> P s'"
    and body: "keeps P body (\<lambda>r. L (end_value r))" and calm: "calm body"
  shows "keeps P (in_tx e site body) L"
proof (rule keepsI)
  fix s r s' assume P: "P s" and run: "in_tx e site body s = (r, s')"
  obtain q s1 where q: "body s = (q, s1)" by (cases "body s")
  have P1: "P s1" by (rule keepsD [OF body P q])
  have g: "rd_grace (as_redis s1) = rd_grace (as_redis s)" using calm q by (auto simp: calm_def)
  have undone: "P (s1\<lparr>as_db := as_db s\<rparr>)" by (rule frame [OF P]) (simp_all add: same_sessions_def g)
  have L: "L (end_value y)" if "q = Inr y" for y using keeps_result [OF body P] q that by simp
  show "P s' \<and> (\<forall>x. r = Inr x \<longrightarrow> L x)"
    using run q P P1 undone L by (auto simp: in_tx_def split: if_splits sum.splits tx_end.splits)
qed

locale session_invariant =
  fixes c :: auth_cfg and N :: "auth_env \<Rightarrow> bool" and P :: "auth_state \<Rightarrow> bool" and K :: "account_row \<Rightarrow> bool"
  assumes frame: "P s \<Longrightarrow> same_sessions (as_db s) (as_db s') \<Longrightarrow> rd_grace (as_redis s') = rd_grace (as_redis s) \<Longrightarrow> P s'"
    and known: "P s \<Longrightarrow> p \<in> set (idb_profiles (as_db s)) \<Longrightarrow> K p"
    and signed_up: "N e \<Longrightarrow> P s \<Longrightarrow> CreateProfile (av_env e) phone code pw name (as_db s) = Inr (p, d) \<Longrightarrow> P (s\<lparr>as_db := d\<rparr>) \<and> K p"
    and repassword: "P s \<Longrightarrow> P (s\<lparr>as_db := SetProfilePassword i h b (as_db s)\<rparr>)"
    and issued: "N e \<Longrightarrow> P s \<Longrightarrow> K p \<Longrightarrow> pf_status p \<noteq> ''banned'' \<Longrightarrow>
      CreateRefreshToken (av_env e) (pf_id p) (ak_hash c (av_rand e ''NewRefreshToken'')) exp (as_db s) = Inr (u, d) \<Longrightarrow> P (s\<lparr>as_db := d\<rparr>)"
    and revoked: "P s \<Longrightarrow> P (s\<lparr>as_db := RevokeAllRefreshTokens v i (as_db s)\<rparr>)"
    and removed: "P s \<Longrightarrow> P (s\<lparr>as_db := DeleteRefreshToken i (as_db s)\<rparr>)"
    and rotated: "N e \<Longrightarrow> (\<And>site t. auth_run c N t (av_others e site t)) \<Longrightarrow> (\<And>site t. P t \<Longrightarrow> P (av_others e site t)) \<Longrightarrow> keeps P (Refresh e c raw) (\<lambda>_. True)"
begin

lemma limits_keep: "P s \<Longrightarrow> P (set_limits m s)"
  by (erule frame) (simp_all add: same_sessions_def)

lemma quiet_exec:
  assumes "\<And>d x d'. f d = Inr (x, d') \<Longrightarrow> same_sessions d d'"
  shows "keeps P (exec e site st f) (\<lambda>_. True)"
proof (rule keeps_exec)
  fix s x d assume "P s" and "f (as_db s) = Inr (x, d)"
  then show "P (s\<lparr>as_db := d\<rparr>) \<and> True" using assms [of "as_db s" x d] frame [of s "s\<lparr>as_db := d\<rparr>"] by simp
qed

lemma quiet_query: "keeps P (query e site st f) (\<lambda>_. True)"
  by (rule keeps_query) simp

lemma keeps_limits:
  "keeps P (lim_allow e site k l w) (\<lambda>_. True)" "keeps P (lim_cooldown e site k w) (\<lambda>_. True)" "keeps P (allow_or e site k l w) (\<lambda>_. True)"
proof -
  show a: "keeps P (lim_allow e site k l w) (\<lambda>_. True)"
    by (auto simp: keeps_def lim_allow_def limits_keep split: prod.splits sum.splits)
  show "keeps P (lim_cooldown e site k w) (\<lambda>_. True)"
    by (auto simp: keeps_def lim_cooldown_def limits_keep split: prod.splits sum.splits)
  show "keeps P (allow_or e site k l w) (\<lambda>_. True)"
    unfolding allow_or_def by (rule keeps_any [OF a]) (simp add: keeps_ret keeps_throw)
qed

lemma bind_find:
  assumes "\<And>r. (\<forall>p. r = Some p \<longrightarrow> K p) \<Longrightarrow> keeps P (f r) L"
  shows "keeps P (abind (query e site st (GetProfileByID i)) f) L" "keeps P (abind (query e site st (GetProfileByPhone ph)) f) L"
    "keeps P (abind (query e site st (GetUserProfileByPhone ph)) f) L"
  by (rule keeps_abind [OF keeps_query [where K = "\<lambda>r. \<forall>p. r = Some p \<longrightarrow> K p"] assms], use known query_mem in blast, simp)+

lemmas keeps_in_tx = keeps_in_tx_of [OF frame]

lemma keeps_bind_savepoint:
  assumes body: "keeps P m M" and calm: "calm m" and f: "\<And>err. keeps P (f (Inl err)) L" "\<And>x. M x \<Longrightarrow> keeps P (f (Inr x)) L"
  shows "keeps P (abind (savepoint m) f) L"
proof (rule keeps_abind)
  show "keeps P (savepoint m) (\<lambda>r. \<forall>x. r = Inr x \<longrightarrow> M x)"
  proof (rule keepsI)
    fix s r s' assume P: "P s" and run: "savepoint m s = (r, s')"
    obtain q s1 where q: "m s = (q, s1)" by (cases "m s")
    have P1: "P s1" by (rule keepsD [OF body P q])
    have g: "rd_grace (as_redis s1) = rd_grace (as_redis s)" using calm q by (auto simp: calm_def)
    have undone: "P (s1\<lparr>as_db := as_db s\<rparr>)" by (rule frame [OF P]) (simp_all add: same_sessions_def g)
    show "P s' \<and> (\<forall>y. r = Inr y \<longrightarrow> (\<forall>x. y = Inr x \<longrightarrow> M x))"
      using run q P1 undone keeps_result [OF body P] by (auto simp: savepoint_def split: sum.splits)
  qed
  show "keeps P (f r) L" if "\<forall>x. r = Inr x \<longrightarrow> M x" for r using that f by (cases r) auto
qed

end

section \<open>Every request keeps a session invariant\<close>

context session_invariant
begin

lemma quiet_plain: "(\<And>d. same_sessions d (f d)) \<Longrightarrow> keeps P (exec e site st (\<lambda>d. Inr ((), f d))) (\<lambda>_. True)"
  by (rule quiet_exec) auto

lemma quiet_pair: "(\<And>d. same_sessions d (snd (f d))) \<Longrightarrow> keeps P (exec e site st (\<lambda>d. Inr (f d))) (\<lambda>_. True)"
  by (rule quiet_exec) (metis snd_conv sum.inject(2))

lemmas steps = bind_find keeps_bind_row_or keeps_bind_active keeps_any keeps_observe keeps_ret keeps_throw keeps_if keeps_option keeps_sum
  keeps_pair keeps_limits quiet_query quiet_plain quiet_pair session_frame_telegram(1,3,5,6,7,10,11,12,13) session_frame_codes(2,3)
  session_frame_resets(1,3,4,7,8,9) TrueI

lemmas quiet_results = session_frame_telegram(2,4,8,9) session_frame_codes(1,4,5) session_frame_resets(2,5,6)

lemma issue_keeps: "N e \<Longrightarrow> K p \<Longrightarrow> keeps P (issueSession e c p) (\<lambda>_. True)"
  unfolding issueSession_def
  by (intro keeps_bind_active keeps_any [OF keeps_exec] keeps_ret) (auto intro: issued)

lemma trial_keeps: "keeps P (grantSignupTrial e i) (\<lambda>_. True)"
  unfolding grantSignupTrial_def Let_def by (rule quiet_exec) (rule session_frame_codes)

lemma create_keeps: "N e \<Longrightarrow> keeps P (createProfileWithReferral e phone hash name) K"
proof -
  assume N: "N e"
  have "keeps P (create_attempts e phone pw name bs aborted) K" for pw bs aborted
  proof (induction bs arbitrary: aborted)
    case (Cons b bs)
    have one: "keeps P (exec e site st (CreateProfile (av_env e) phone code pw name)) K" for site st code
      by (rule keeps_exec) (use signed_up N in blast)
    show ?case
      by (simp, intro keeps_if keeps_throw impI conjI keeps_bind_trying [OF one]) (simp_all add: Cons keeps_throw keeps_ret)
  qed (simp add: keeps_throw)
  then show ?thesis unfolding createProfileWithReferral_def .
qed

lemma link_keeps:
  "keeps P (linkVerifiedTelegramInTx e p u name) (\<lambda>_. True)" "keeps P (linkTelegramInTx e c' p initData contact) (\<lambda>_. True)"
proof -
  have body: "keeps P (link_body e p u name) (\<lambda>_. True)" for u name
    unfolding link_body_def
    by (intro keeps_any [OF quiet_exec] steps) (rule quiet_results)
  show v: "keeps P (linkVerifiedTelegramInTx e p u name) (\<lambda>_. True)" for u name
    unfolding linkVerifiedTelegramInTx_def
    by (intro keeps_if keeps_ret TrueI keeps_bind_savepoint [OF body]) (auto intro!: calm_intros keeps_ret)
  show "keeps P (linkTelegramInTx e c' p initData contact) (\<lambda>_. True)"
    unfolding linkTelegramInTx_def by (intro steps v)
qed

end

context session_invariant
begin

text \<open>\<open>N\<close> holds of the request's environment, and what others do meanwhile keeps the invariant.\<close>

lemma others_keep: "(\<And>site t. P t \<Longrightarrow> P (av_others e site t)) \<Longrightarrow> keeps P (others e site) (\<lambda>_. True)"
  by (simp add: keeps_def others_def)

lemma rate_keeps: "keeps P (rateLimitAuth e c' action phone ip) (\<lambda>_. True)"
  unfolding rateLimitAuth_def by (intro steps)

lemma code_keeps:
  assumes N: "N e" and others: "\<And>site t. P t \<Longrightarrow> P (av_others e site t)"
  shows "keeps P (RequestOTP e c phone ip) (\<lambda>_. True)" "keeps P (VerifyOTP e c phone code) (\<lambda>_. True)"
proof -
  show "keeps P (RequestOTP e c phone ip) (\<lambda>_. True)"
    unfolding RequestOTP_def Let_def
    by (intro keeps_any [OF quiet_exec] steps) (rule quiet_results)
  have new: "keeps P (abind (createProfileWithReferral e ph pw nm) (\<lambda>p. abind (grantSignupTrial e (pf_id p)) (\<lambda>_. ret (p, True)))) (\<lambda>r. K (fst r))" for ph pw nm
    by (rule keeps_abind [OF create_keeps [OF N]], rule keeps_any [OF trial_keeps]) (simp add: keeps_ret)
  have tx: "keeps P (VerifyOTP_tx e c ph) (\<lambda>_. True)" for ph
    unfolding VerifyOTP_tx_def
    apply (rule bind_find, rule keeps_abind [where K = "\<lambda>r. K (fst r)"])
     apply (auto split: option.split intro!: keeps_ret new)[1]
    apply (intro keeps_pair keeps_any [OF issue_keeps [OF N]] keeps_ret TrueI, simp)
    done
  have calm: "calm (VerifyOTP_tx e c ph)" for ph unfolding VerifyOTP_tx_def by (auto intro!: calm_intros)
  show "keeps P (VerifyOTP e c phone code) (\<lambda>_. True)"
    unfolding VerifyOTP_def by (intro keeps_any [OF others_keep] steps others keeps_in_tx tx calm)
qed

lemma password_keeps:
  assumes N: "N e" and others: "\<And>site t. P t \<Longrightarrow> P (av_others e site t)"
  shows "keeps P (Register e c i) (\<lambda>_. True)" "keeps P (Login e c li) (\<lambda>_. True)"
proof -
  have tx: "keeps P (Register_tx e c i phone hash) (\<lambda>_. True)" for phone hash
    unfolding Register_tx_def
    by (intro bind_find keeps_if keeps_throw keeps_bind_trying [OF create_keeps [OF N]])
      (simp_all add: keeps_throw, intro keeps_any [OF trial_keeps] keeps_any [OF issue_keeps [OF N]] keeps_any [OF link_keeps(2)] keeps_ret, simp_all)
  have calm: "calm (Register_tx e c i phone hash)" for phone hash unfolding Register_tx_def by (auto intro!: calm_intros)
  show "keeps P (Register e c i) (\<lambda>_. True)"
    unfolding Register_def by (intro keeps_any [OF rate_keeps] steps keeps_in_tx tx calm)
  show "keeps P (Login e c li) (\<lambda>_. True)"
    unfolding Login_def
    by (intro keeps_any [OF rate_keeps] keeps_any [OF issue_keeps [OF N]] keeps_any [OF link_keeps(2)] keeps_any [OF others_keep] others
        keeps_in_tx calm_intros steps) auto
qed

lemma logout_keeps: "keeps P (Logout e c raw) (\<lambda>_. True)"
  unfolding Logout_def by (intro keeps_any [OF quiet_query] steps keeps_exec) (auto intro: removed)

end

lemma calm_bot [calm_intros]:
  "calm (bot_allow e site u)" "calm (verifiedLinkedProfile e site u)" "calm (endTelegramLogin e site row st out)" "calm (arm_login e c site row u)"
  "calm (ask_after_contact e c row ph)" "calm (approve_login e row u p b v)" "calm (findOrCreateTelegramProfile e ph who code)"
  "calm (askTelegramResetConfirm e c site i ph)" "calm (reset_link e rr u)"
proof -
  show b: "calm (bot_allow e site u)" for site u unfolding bot_allow_def by (auto intro!: calm_intros)
  show v: "calm (verifiedLinkedProfile e site u)" unfolding verifiedLinkedProfile_def by (auto intro!: calm_intros)
  show t: "calm (endTelegramLogin e site row st out)" for st out unfolding endTelegramLogin_def by (auto intro!: calm_intros)
  show "calm (arm_login e c site row u)" unfolding arm_login_def by (auto intro!: calm_intros v t)
  show "calm (ask_after_contact e c row ph)" unfolding ask_after_contact_def Let_def by (auto intro!: calm_intros)
  show "calm (approve_login e row u p b v)" unfolding approve_login_def by (auto intro!: calm_intros)
  show "calm (askTelegramResetConfirm e c site i ph)" unfolding askTelegramResetConfirm_def by (auto intro!: calm_intros)
  show "calm (reset_link e rr u)" unfolding reset_link_def Let_def by (auto intro!: calm_intros)
  have r: "calm (applySignupReferral e i code)" for i unfolding applySignupReferral_def referral_body_def Let_def by (auto intro!: calm_intros)
  have x: "calm (existing_learner e site ph)" for site unfolding existing_learner_def by (auto intro!: calm_intros)
  have n: "calm (create_learner e ph name)" for name unfolding create_learner_def by (auto intro!: calm_intros)
  show "calm (findOrCreateTelegramProfile e ph who code)" unfolding findOrCreateTelegramProfile_def by (auto intro!: calm_intros r x n)
qed

lemma calm_transactions [calm_intros]:
  "calm (Complete_tx e c token secret)" "calm (beginTelegramLogin_tx e c site token who)" "calm (LoginContact_tx e c who u phone)"
  "calm (AnswerLogin_tx e c who nonce yes)" "calm (WebAppPhone_tx e c u' phone code)" "calm (StartReset_tx e c i raw out)"
  "calm (beginTelegramPasswordReset_tx e c site token u)" "calm (ResetContact_tx e c u phone)" "calm (AnswerReset_tx e c u nonce yes)"
  "calm (CompleteReset_tx e c token pw)"
  unfolding Complete_tx_def beginTelegramLogin_tx_def LoginContact_tx_def AnswerLogin_tx_def WebAppPhone_tx_def StartReset_tx_def
    beginTelegramPasswordReset_tx_def ResetContact_tx_def AnswerReset_tx_def CompleteReset_tx_def answer_contact_def answer_linked_def Let_def
  by (intro calm_intros)+

context session_invariant
begin

lemma bot_parts_keep:
  "keeps P (bot_allow e site u) (\<lambda>_. True)" "keeps P (endTelegramLogin e site row st out) (\<lambda>_. True)"
  "keeps P (verifiedLinkedProfile e site u) (\<lambda>r. \<forall>p. r = Some p \<longrightarrow> K p)" "keeps P (approve_login e row u p b v) (\<lambda>_. True)"
  "keeps P (ask_after_contact e c row ph) (\<lambda>_. True)" "keeps P (askTelegramResetConfirm e c site i ph) (\<lambda>_. True)"
proof -
  show "keeps P (bot_allow e site u) (\<lambda>_. True)"
    unfolding bot_allow_def by (intro keeps_bind_trying [OF keeps_limits(3)]) (simp_all add: keeps_ret keeps_throw)
  show "keeps P (endTelegramLogin e site row st out) (\<lambda>_. True)" unfolding endTelegramLogin_def by (intro steps)
  show "keeps P (verifiedLinkedProfile e site u) (\<lambda>r. \<forall>p. r = Some p \<longrightarrow> K p)"
    unfolding verifiedLinkedProfile_def by (intro steps) simp_all
  show "keeps P (approve_login e row u p b v) (\<lambda>_. True)" unfolding approve_login_def by (intro steps)
  show "keeps P (ask_after_contact e c row ph) (\<lambda>_. True)"
    unfolding ask_after_contact_def Let_def by (intro keeps_any [OF quiet_exec] steps) (rule quiet_results)
  show "keeps P (askTelegramResetConfirm e c site i ph) (\<lambda>_. True)"
    unfolding askTelegramResetConfirm_def by (intro keeps_any [OF quiet_exec] steps) (rule quiet_results)
qed

lemma learner_keeps:
  assumes N: "N e"
  shows "keeps P (findOrCreateTelegramProfile e ph who code) (\<lambda>r. K (fst r))"
proof -
  have x: "keeps P (existing_learner e site ph) (\<lambda>r. \<forall>p. r = Some p \<longrightarrow> K p)" for site
    unfolding existing_learner_def by (intro steps) simp_all
  have body: "keeps P (referral_body e i code) (\<lambda>_. True)" for i code
    unfolding referral_body_def by (intro keeps_any [OF quiet_exec] steps) (rule quiet_results)
  have calm_body: "calm (referral_body e i code)" for i code unfolding referral_body_def by (auto intro!: calm_intros)
  have r: "keeps P (applySignupReferral e i code) (\<lambda>_. True)" for i
    unfolding applySignupReferral_def Let_def by (intro keeps_if keeps_ret TrueI keeps_bind_savepoint [OF body calm_body])
  have n: "keeps P (create_learner e ph name) K" for name
    unfolding create_learner_def
    by (intro keeps_abind [OF create_keeps [OF N]] keeps_any [OF trial_keeps] keeps_any [OF quiet_query] keeps_ret)
  have cn: "calm (create_learner e ph name)" for name unfolding create_learner_def by (auto intro!: calm_intros)
  show ?thesis
    unfolding findOrCreateTelegramProfile_def
    apply (rule keeps_abind [OF x], rule keeps_option)
     apply (rule keeps_if, rule keeps_throw)
     apply (rule keeps_bind_savepoint [OF n cn])
      apply (simp add: keeps_throw, intro impI keeps_abind [OF x] keeps_bind_row_or keeps_ret, simp)
     apply (simp only: sum.case, rule keeps_any [OF r])
     apply (rule keeps_any, intro steps, intro keeps_ret, simp)
    apply (simp add: keeps_ret)
    done
qed

lemma bot_login_keeps:
  assumes N: "N e" and others: "\<And>site t. P t \<Longrightarrow> P (av_others e site t)"
  shows "keeps P (StartTelegramLogin e c ip ua name) (\<lambda>_. True)" "keeps P (TelegramLoginStatus e c token secret ip) (\<lambda>_. True)"
    "keeps P (CompleteTelegramLogin e c token secret ip) (\<lambda>_. True)" "keeps P (BeginTelegramLogin e c token who) (\<lambda>_. True)"
    "keeps P (ConfirmTelegramLoginContact e c who u phone) (\<lambda>_. True)" "keeps P (AnswerTelegramLoginConfirm e c who nonce yes) (\<lambda>_. True)"
proof -
  have hit: "keeps P (noteTelegramLoginStart e) (\<lambda>_. True)"
    by (auto simp: keeps_def noteTelegramLoginStart_def limits_keep split: prod.splits)
  show "keeps P (StartTelegramLogin e c ip ua name) (\<lambda>_. True)"
    unfolding StartTelegramLogin_def login_enabled_or_def ip_allow_def Let_def
    by (intro keeps_bind_savepoint [OF quiet_plain] keeps_any [OF quiet_exec] hit calm_intros steps) (rule quiet_results, assumption)+
  show "keeps P (TelegramLoginStatus e c token secret ip) (\<lambda>_. True)"
    unfolding TelegramLoginStatus_def ip_allow_def by (intro steps)
  have complete: "keeps P (Complete_tx e c token secret) (\<lambda>_. True)"
    unfolding Complete_tx_def Let_def
    by (intro keeps_any [OF quiet_query] bind_find keeps_any [OF issue_keeps [OF N]] steps) simp_all
  show "keeps P (CompleteTelegramLogin e c token secret ip) (\<lambda>_. True)"
    unfolding CompleteTelegramLogin_def login_enabled_or_def ip_allow_def
    by (intro keeps_any [OF others_keep] keeps_in_tx complete calm_intros others steps)
  have arm: "keeps P (arm_login e c site row v) (\<lambda>_. True)" for site row v
    unfolding arm_login_def
    by (intro keeps_abind [OF bot_parts_keep(3)] keeps_any [OF quiet_exec] bot_parts_keep(2) steps) (rule quiet_results, assumption)+
  have begin_tx: "keeps P (beginTelegramLogin_tx e c site token who) (\<lambda>_. True)" for site
    unfolding beginTelegramLogin_tx_def by (intro arm steps)
  show "keeps P (BeginTelegramLogin e c token who) (\<lambda>_. True)"
    unfolding BeginTelegramLogin_def
    by (intro keeps_bind_trying [OF keeps_in_tx [where L = "\<lambda>_. True"]] keeps_any [OF others_keep] keeps_any [OF bot_parts_keep(1)] keeps_in_tx
        begin_tx calm_intros others steps)
      simp_all
  have contact: "keeps P (LoginContact_tx e c who u phone) (\<lambda>_. True)"
    unfolding LoginContact_tx_def Let_def
    by (intro keeps_any [OF bot_parts_keep(1)] keeps_any [OF bot_parts_keep(2)] bot_parts_keep(5) steps)
  show "keeps P (ConfirmTelegramLoginContact e c who u phone) (\<lambda>_. True)"
    unfolding ConfirmTelegramLoginContact_def by (intro keeps_in_tx contact calm_intros steps)
  have via: "keeps P (answer_contact e row who ph) (\<lambda>_. True)" for row ph
    unfolding answer_contact_def
    by (intro keeps_observe keeps_bind_trying [OF learner_keeps [OF N]]; simp only: sum.case;
        intro keeps_any [OF bot_parts_keep(2)] keeps_any [OF link_keeps(1)] bot_parts_keep(4) steps)
  have linked: "keeps P (answer_linked e row who) (\<lambda>_. True)" for row
    unfolding answer_linked_def by (intro keeps_abind [OF bot_parts_keep(3)] bot_parts_keep(2,4) steps)
  have answer: "keeps P (AnswerLogin_tx e c who nonce yes) (\<lambda>_. True)"
    unfolding AnswerLogin_tx_def by (intro keeps_any [OF bot_parts_keep(1)] keeps_any [OF bot_parts_keep(2)] via linked steps)
  show "keeps P (AnswerTelegramLoginConfirm e c who nonce yes) (\<lambda>_. True)"
    unfolding AnswerTelegramLoginConfirm_def by (intro keeps_in_tx answer calm_intros steps)
qed

end

context session_invariant
begin

lemma mini_app_keeps:
  assumes N: "N e"
  shows "keeps P (TelegramWebAppLogin e c initData ip) (\<lambda>_. True)" "keeps P (LinkTelegramWebApp e c i ptext initData contact) (\<lambda>_. True)"
    "keeps P (TelegramWebAppPhoneSignIn e c initData contact ip) (\<lambda>_. True)"
proof -
  have check: "keeps P (checkTelegramIPFailures e c ip) (\<lambda>_. True)"
    by (auto simp: keeps_def checkTelegramIPFailures_def split: if_splits sum.splits)
  have miss: "keeps P (noteTelegramIPFailure e c ip) (\<lambda>_. True)"
    unfolding noteTelegramIPFailure_def by (intro steps)
  have user: "keeps P (rateLimitTelegramUser e u) (\<lambda>_. True)" for u unfolding rateLimitTelegramUser_def by (intro steps)
  show "keeps P (TelegramWebAppLogin e c initData ip) (\<lambda>_. True)"
    unfolding TelegramWebAppLogin_def
    by (intro keeps_any [OF check] keeps_any [OF miss] keeps_any [OF user] keeps_any [OF issue_keeps [OF N]] keeps_in_tx calm_intros steps) simp_all
  show "keeps P (LinkTelegramWebApp e c i ptext initData contact) (\<lambda>_. True)"
    unfolding LinkTelegramWebApp_def by (intro user keeps_any [OF link_keeps(2)] keeps_in_tx calm_intros steps)
  have tx: "keeps P (WebAppPhone_tx e c u phone referral) (\<lambda>_. True)" for u phone referral
    unfolding WebAppPhone_tx_def Let_def
    by (intro keeps_bind_trying [OF learner_keeps [OF N]]; simp only: sum.case;
        intro keeps_any [OF link_keeps(1)] keeps_any [OF issue_keeps [OF N]] steps; simp)
  show "keeps P (TelegramWebAppPhoneSignIn e c initData contact ip) (\<lambda>_. True)"
    unfolding TelegramWebAppPhoneSignIn_def login_enabled_or_def
    by (intro keeps_any [OF check] keeps_any [OF miss] keeps_any [OF user] keeps_in_tx tx calm_intros steps)
qed

lemma reset_keeps:
  assumes others: "\<And>site t. P t \<Longrightarrow> P (av_others e site t)"
  shows "keeps P (StartPasswordReset e c phone ip name) (\<lambda>_. True)" "keeps P (BeginTelegramPasswordReset e c token u) (\<lambda>_. True)"
    "keeps P (ConfirmTelegramPasswordResetContact e c u v phone) (\<lambda>_. True)"
    "keeps P (AnswerTelegramPasswordResetConfirm e c u nonce yes) (\<lambda>_. True)" "keeps P (CompletePasswordReset e c token pw ip) (\<lambda>_. True)"
proof -
  have mark: "keeps P (markResetTokenIssued e c raw) (\<lambda>_. True)" for raw
    by (auto simp: keeps_def markResetTokenIssued_def set_issued_def same_sessions_def intro: frame)
  have start: "keeps P (StartReset_tx e c i raw out) (\<lambda>_. True)" for i raw out
    unfolding StartReset_tx_def by (intro keeps_any [OF quiet_plain] keeps_any [OF quiet_exec] steps) (rule quiet_results)
  show "keeps P (StartPasswordReset e c phone ip name) (\<lambda>_. True)"
    unfolding StartPasswordReset_def Let_def by (intro keeps_any [OF rate_keeps] keeps_any [OF mark] keeps_in_tx start calm_intros steps)
  have begin_tx: "keeps P (beginTelegramPasswordReset_tx e c site token u) (\<lambda>_. True)" for site
    unfolding beginTelegramPasswordReset_tx_def Let_def
    by (intro keeps_any [OF quiet_plain] keeps_any [OF quiet_exec] bot_parts_keep(6) steps) (rule quiet_results, assumption)+
  show "keeps P (BeginTelegramPasswordReset e c token u) (\<lambda>_. True)"
    unfolding BeginTelegramPasswordReset_def
    by (intro keeps_bind_trying [OF keeps_in_tx [where L = "\<lambda>_. True"]] keeps_any [OF others_keep] keeps_in_tx begin_tx calm_intros others steps) simp_all
  have contact: "keeps P (ResetContact_tx e c u phone) (\<lambda>_. True)"
    unfolding ResetContact_tx_def Let_def by (intro bot_parts_keep(6) steps)
  show "keeps P (ConfirmTelegramPasswordResetContact e c u v phone) (\<lambda>_. True)"
    unfolding ConfirmTelegramPasswordResetContact_def by (intro keeps_in_tx contact calm_intros steps)
  have link: "keeps P (reset_link e row u) (\<lambda>_. True)" for row
    unfolding reset_link_def Let_def
    by (intro keeps_bind_trying [OF quiet_exec] keeps_any [OF quiet_plain] keeps_any [OF quiet_exec] steps) (rule quiet_results, assumption)+
  have answer: "keeps P (AnswerReset_tx e c u nonce yes) (\<lambda>_. True)"
    unfolding AnswerReset_tx_def Let_def by (intro keeps_any [OF link] steps)
  show "keeps P (AnswerTelegramPasswordResetConfirm e c u nonce yes) (\<lambda>_. True)"
    unfolding AnswerTelegramPasswordResetConfirm_def by (intro keeps_in_tx answer calm_intros steps)
  have complete: "keeps P (CompleteReset_tx e c token pw) (\<lambda>_. True)"
    unfolding CompleteReset_tx_def Let_def
    by (intro keeps_any [OF keeps_exec] steps) (auto intro: repassword revoked)
  show "keeps P (CompletePasswordReset e c token pw ip) (\<lambda>_. True)"
    unfolding CompletePasswordReset_def by (intro keeps_any [OF rate_keeps] keeps_in_tx complete calm_intros steps)
qed

end

lemma keeps_snd: "keeps P m K \<Longrightarrow> P s \<Longrightarrow> P (snd (m s))"
  by (cases "m s") (auto dest: keepsD)

context session_invariant
begin

lemma serve_keeps:
  assumes N: "N e" and runs: "\<And>site t. auth_run c N t (av_others e site t)" and others: "\<And>site t. P t \<Longrightarrow> P (av_others e site t)" and P: "P s"
  shows "P (serve e c req s)"
  using keeps_snd [OF code_keeps(1) [OF N others] P] keeps_snd [OF code_keeps(2) [OF N others] P] keeps_snd [OF password_keeps(1) [OF N others] P]
    keeps_snd [OF password_keeps(2) [OF N others] P] keeps_snd [OF rotated [OF N runs others] P] keeps_snd [OF logout_keeps P]
    keeps_snd [OF bot_login_keeps(1) [OF N others] P] keeps_snd [OF bot_login_keeps(2) [OF N others] P]
    keeps_snd [OF bot_login_keeps(3) [OF N others] P] keeps_snd [OF bot_login_keeps(4) [OF N others] P]
    keeps_snd [OF bot_login_keeps(5) [OF N others] P] keeps_snd [OF bot_login_keeps(6) [OF N others] P]
    keeps_snd [OF mini_app_keeps(1) [OF N] P] keeps_snd [OF mini_app_keeps(2) [OF N] P] keeps_snd [OF mini_app_keeps(3) [OF N] P]
    keeps_snd [OF reset_keeps(1) [OF others] P] keeps_snd [OF reset_keeps(2) [OF others] P] keeps_snd [OF reset_keeps(3) [OF others] P]
    keeps_snd [OF reset_keeps(4) [OF others] P] keeps_snd [OF reset_keeps(5) [OF others] P]
  by (cases req) (simp_all only: serve_def request.case)

theorem run_keeps: "auth_run c N s s' \<Longrightarrow> P s \<Longrightarrow> P s'"
proof (induction rule: auth_run.induct)
  case (run_step s s1 e req)
  then show ?case by (blast intro: serve_keeps)
qed simp

end

end
