(* ===== verification/Auth_Fixtures.thy ===== *)
theory Auth_Fixtures
  imports Auth_Logic Fixtures "HOL-Library.Countable"
begin

text \<open>Concrete inputs for the sign-in properties: an account, one refresh token, and cryptography that a kernel can evaluate.\<close>

definition au_seal :: "string \<Rightarrow> (string \<times> string \<times> uuid) \<Rightarrow> string" where
  "au_seal raw x = replicate (to_nat x) (CHR ''x'')"

definition au_open :: "string \<Rightarrow> string \<Rightarrow> (string \<times> string \<times> uuid) option" where
  "au_open raw sealed = Some (from_nat (length sealed))"

lemma au_open_seal [simp]: "au_open raw (au_seal raw' x) = Some x"
  by (simp add: au_open_def au_seal_def)

definition au_cfg :: auth_cfg where
  "au_cfg = \<lparr>ak_hash = (\<lambda>s. s), ak_sha = (\<lambda>s. s), ak_bcrypt = Some, ak_compare = (=), ak_access = (\<lambda>i role t. ''access''), ak_seal = au_seal,
     ak_open = au_open, ak_ip = (\<lambda>s. s), ak_payload = \<lparr>wc_token = ''t'', wc_hmac = (\<lambda>k m. k @ m), wc_user = (\<lambda>_. None), wc_contact = (\<lambda>_. None)\<rparr>,
     ak_webapp_url = ''https://t.me/app'', ak_channel = ''sms'', ak_echo = False, ak_redis = True, ak_code_ttl = 300 * second, ak_refresh_ttl = 30 * day_ns\<rparr>"

definition au_profile :: account_row where
  "au_profile = \<lparr>pf_id = 1, pf_phone = ''+998901234567'', pf_name = ''Ali'', pf_role = ''user'', pf_status = ''active'', pf_referral = Some ''REF1'',
     pf_password = Some ''password1'', pf_must_change = False, pf_kind = ''user'', pf_created = fx_t0 - day_ns\<rparr>"

definition au_token :: refresh_row where
  "au_token = \<lparr>rt_id = 50, rt_profile = 1, rt_hash = ''old'', rt_expires = fx_t0 + day_ns, rt_revoked = None, rt_created = fx_t0 - day_ns\<rparr>"

definition au_db :: identity_db where
  "au_db = \<lparr>idb_billing = empty_db, idb_profiles = [au_profile], idb_otps = [], idb_tokens = [au_token], idb_telegram = [], idb_logins = [],
     idb_resets = [], idb_referrals = (\<lambda>_. None), idb_login_flag = None\<rparr>"

definition au_state :: auth_state where
  "au_state = \<lparr>as_db = au_db, as_redis = \<lparr>rd_limits = (\<lambda>_. None), rd_grace = (\<lambda>_. None), rd_claims = (\<lambda>_. None), rd_issued = (\<lambda>_. None)\<rparr>\<rparr>"

text \<open>A request that nobody interrupts, \<open>t\<close> nanoseconds later, drawing the random text \<open>r\<close>.\<close>

definition au_env :: "string \<Rightarrow> int \<Rightarrow> auth_env" where
  "au_env r t = \<lparr>av_env = fx_env\<lparr>clk := (\<lambda>_. fx_t0 + t), tx_now := fx_t0 + t\<rparr>, av_rand = (\<lambda>site. r), av_code = 123456, av_bytes = [[1, 2, 3]],
     av_others = (\<lambda>_ s. s), av_polls = 3\<rparr>"

lemmas au_defs = au_cfg_def au_profile_def au_token_def au_db_def au_state_def au_env_def fx_env_def

lemmas op_defs = abind_def query_def exec_def fails_def row_or_def active_or_def assertProfileActive_def others_def observe_def trying_def
  in_tx_def savepoint_def redis_ms_def now_of_def upd_where_def

lemma au_others [simp]: "av_others (au_env r t) site s = s"
  by (simp add: au_env_def)

lemma au_uninterrupted: "auth_run c N s (av_others (au_env r t) site s)"
  by (simp add: run_stop)

end
