(* ===== verification/Code_Properties.thy ===== *)
theory Code_Properties
  imports Auth_Fixtures
begin

text \<open>
  One-time codes. Used one request at a time, a code can be guessed five times and is then dead, whatever is sent; used by
  two requests at once it opens two sessions, because consuming it does not look whether it was consumed meanwhile.
\<close>

section \<open>Five guesses\<close>

definition newest :: "string \<Rightarrow> identity_db \<Rightarrow> otp_row list" where
  "newest phone d = (let live = filter (\<lambda>r. ot_phone r = phone \<and> \<not> ot_consumed r) (idb_otps d) in
     filter (\<lambda>r. list_all (\<lambda>x. ot_created x \<le> ot_created r) live) live)"

lemma latest_of_newest: "newest phone d = [ch] \<Longrightarrow> LatestOTPChallenge v phone d = Some ch"
  by (simp add: newest_def LatestOTPChallenge_def select_one_def Let_def)

definition counted :: "otp_row \<Rightarrow> otp_row" where
  "counted r = r\<lparr>ot_attempts := ot_attempts r + 1\<rparr>"

lemma newest_counted:
  assumes "newest phone d = [ch]"
  shows "newest phone (IncrementOTPAttempts (ot_id ch) d) = [counted ch]"
proof -
  let ?g = "\<lambda>r. if ot_id r = ot_id ch then counted r else r" and ?P = "\<lambda>r. ot_phone r = phone \<and> \<not> ot_consumed r"
  have rows: "idb_otps (IncrementOTPAttempts (ot_id ch) d) = map ?g (idb_otps d)"
    by (simp add: IncrementOTPAttempts_def upd_where_def counted_def)
  have live: "filter ?P (map ?g (idb_otps d)) = map ?g (filter ?P (idb_otps d))"
    by (simp add: filter_map o_def) (rule arg_cong [where f = "map ?g"], rule filter_cong, simp_all add: counted_def)
  have "newest phone (IncrementOTPAttempts (ot_id ch) d) = map ?g (newest phone d)"
    unfolding newest_def rows live Let_def
    by (simp add: filter_map o_def list.pred_map) (rule arg_cong [where f = "map ?g"], rule filter_cong, simp_all add: counted_def if_distrib cong: if_cong)
  then show ?thesis using assms by simp
qed

text \<open>A request that meets no fault and nobody else, while the code has not expired.\<close>

definition plain_guess :: "int \<Rightarrow> auth_env \<Rightarrow> bool" where
  "plain_guess expires e \<longleftrightarrow> (\<forall>site st. \<not> fails e site st) \<and> (\<forall>site s. av_others e site s = s) \<and> now_of e ''VerifyOTP'' \<le> expires"

fun guess :: "auth_cfg \<Rightarrow> string \<Rightarrow> (auth_env \<times> string) list \<Rightarrow> auth_state \<Rightarrow> (auth_err + VerifyResult) list" where
  "guess c raw [] s = []"
| "guess c raw ((e, code) # gs) s = (case VerifyOTP e c raw code s of (r, s') \<Rightarrow> r # guess c raw gs s')"

lemma VerifyOTP_wrong:
  assumes "ak_channel c \<noteq> ''off''" and "NormalizePhone raw = Some phone" and "newest phone (as_db s) = [ch]" and "plain_guess (ot_expires ch) e"
    and "ot_attempts ch < maxOTPAttempts" and "\<not> VerifyCode (ak_sha c) (ot_hash ch) code"
  shows "VerifyOTP e c raw code s = (Inl ErrInvalidCode, s\<lparr>as_db := IncrementOTPAttempts (ot_id ch) (as_db s)\<rparr>)"
  using assms(4-6)
  by (simp add: VerifyOTP_def assms(1,2) abind_def query_def row_or_def latest_of_newest [OF assms(3)] plain_guess_def others_def exec_def)

lemma VerifyOTP_counted_out:
  assumes "ak_channel c \<noteq> ''off''" and "NormalizePhone raw = Some phone" and "newest phone (as_db s) = [ch]" and "plain_guess (ot_expires ch) e"
    and "maxOTPAttempts \<le> ot_attempts ch"
  shows "VerifyOTP e c raw code s = (Inl ErrTooManyAttempts, s)"
  using assms(4,5)
  by (simp add: VerifyOTP_def assms(1,2) abind_def query_def row_or_def latest_of_newest [OF assms(3)] plain_guess_def)

text \<open>
  C18: A one-time code survives five wrong guesses: sent one at a time, the first five are answered "invalid code", and from
  then on every request is refused, also one with the right code.
\<close>

theorem five_guesses:
  assumes "ak_channel c \<noteq> ''off''" and "NormalizePhone raw = Some phone" and "newest phone (as_db s) = [ch]"
    and "list_all (\<lambda>(e, code). plain_guess (ot_expires ch) e) gs" and "0 \<le> ot_attempts ch"
    and "list_all (\<lambda>(e, code). \<not> VerifyCode (ak_sha c) (ot_hash ch) code) (take (nat (5 - ot_attempts ch)) gs)"
  shows "guess c raw gs s = replicate (min (length gs) (nat (5 - ot_attempts ch))) (Inl ErrInvalidCode)
    @ replicate (length gs - nat (5 - ot_attempts ch)) (Inl ErrTooManyAttempts)"
  using assms(3-6)
proof (induction gs arbitrary: s ch)
  case (Cons g gs)
  obtain e code where g: "g = (e, code)" by (cases g)
  show ?case
  proof (cases "ot_attempts ch < 5")
    case True
    then have left: "nat (5 - ot_attempts ch) = Suc (nat (5 - ot_attempts (counted ch)))" by (simp add: counted_def)
    have "VerifyOTP e c raw code s = (Inl ErrInvalidCode, s\<lparr>as_db := IncrementOTPAttempts (ot_id ch) (as_db s)\<rparr>)"
      using VerifyOTP_wrong [OF assms(1,2) Cons(2)] Cons(3,5) True left by (simp add: g maxOTPAttempts_def)
    moreover have "guess c raw gs (s\<lparr>as_db := IncrementOTPAttempts (ot_id ch) (as_db s)\<rparr>)
        = replicate (min (length gs) (nat (5 - ot_attempts (counted ch)))) (Inl ErrInvalidCode)
          @ replicate (length gs - nat (5 - ot_attempts (counted ch))) (Inl ErrTooManyAttempts)"
      using Cons(3-5) newest_counted [OF Cons(2)] left by (intro Cons(1)) (simp_all add: counted_def)
    ultimately show ?thesis by (simp add: g left)
  next
    case False
    then have "VerifyOTP e c raw code s = (Inl ErrTooManyAttempts, s)"
      using VerifyOTP_counted_out [OF assms(1,2) Cons(2)] Cons(3) by (simp add: g maxOTPAttempts_def)
    then show ?thesis using Cons(1) [OF Cons(2)] Cons(3,4) False by (simp add: g)
  qed
qed simp

definition au_code :: otp_row where
  "au_code = \<lparr>ot_id = 60, ot_phone = ''+998901234567'', ot_hash = ''00$'' @ (CHR 0x00 # ''123456''), ot_channel = ''sms'', ot_expires = fx_t0 + 300 * second,
     ot_attempts = 0, ot_consumed = False, ot_created = fx_t0\<rparr>"

definition au_asked :: auth_state where
  "au_asked = au_state\<lparr>as_db := au_db\<lparr>idb_otps := [au_code]\<rparr>\<rparr>"

definition au_guesses :: "(auth_env \<times> string) list" where
  "au_guesses = map (Pair (au_env ''new'' 0)) [''000001'', ''000002'', ''000003'', ''000004'', ''000005'', ''123456'']"

lemma au_plain: "t \<le> 300 * second \<Longrightarrow> plain_guess (fx_t0 + 300 * second) (au_env r t)"
  by (simp add: plain_guess_def fails_def now_of_def au_defs)

theorem five_guesses_witness:
  "guess au_cfg ''901234567'' au_guesses au_asked = replicate 5 (Inl ErrInvalidCode) @ [Inl ErrTooManyAttempts]"
proof -
  have new: "newest ''+998901234567'' (as_db au_asked) = [au_code]"
    by (simp add: newest_def au_asked_def au_code_def Let_def)
  have plain: "list_all (\<lambda>(e, code). plain_guess (ot_expires au_code) e) au_guesses"
    using au_plain [of 0] by (simp add: au_guesses_def au_code_def second_def)
  have wrong: "list_all (\<lambda>(e, code). \<not> VerifyCode (ak_sha au_cfg) (ot_hash au_code) code) (take (nat (5 - ot_attempts au_code)) au_guesses)"
    by (simp add: au_guesses_def au_code_def VerifyCode_def au_cfg_def) code_simp
  have phone: "NormalizePhone ''901234567'' = Some ''+998901234567''" by code_simp
  show ?thesis
    using five_guesses [OF _ phone new plain _ wrong] by (simp add: au_cfg_def au_code_def au_guesses_def eval_nat_numeral)
qed

section \<open>One code, two sessions\<close>

lemma create_row:
  assumes "createProfileWithReferral e phone hash name s = (Inr p, s')"
  shows "\<exists>code. CreateProfile (av_env e) phone code (if hash = '''' then None else Some hash) name (as_db s) = Inr (p, as_db s')"
proof -
  have dead: "fst (create_attempts e phone pw name bs True s) \<noteq> Inr p" for pw bs
    by (cases bs) simp_all
  have "\<exists>code. CreateProfile (av_env e) phone code pw name (as_db s) = Inr (p, as_db s')" if "create_attempts e phone pw name bs False s = (Inr p, s')" for pw bs
  proof (cases bs)
    case (Cons b bs')
    then show ?thesis
      using that dead
      by (auto simp: abind_def trying_def exec_def split: if_splits sum.splits prod.splits) (metis fst_conv)+
  qed (use that in simp)
  then show ?thesis using assms unfolding createProfileWithReferral_def by blast
qed

lemma created_is_found:
  assumes "CreateProfile v phone code pw name d = Inr (p, d')"
  shows "GetProfileByPhone phone d' = Some p \<and> pf_status p = ''active'' \<and> idb_tokens d' = idb_tokens d"
proof -
  have none: "find (\<lambda>p. pf_phone p = phone) ps = None" if "\<not> list_ex (\<lambda>p. pf_phone p = phone) ps" for ps
    using that by (simp add: find_None_iff list_ex_iff)
  have snoc: "find P (ps @ [q]) = (case find P ps of None \<Rightarrow> if P q then Some q else None | Some y \<Rightarrow> Some y)" for P and ps :: "account_row list" and q
    by (induction ps) simp_all
  show ?thesis using assms by (auto simp: CreateProfile_def GetProfileByPhone_def snoc none Let_def split: if_splits)
qed

lemma issue_effect:
  "issueSession e c p s = (Inr toks, s') \<longleftrightarrow> pf_status p \<noteq> ''banned'' \<and> \<not> fails e ''issueSession'' ''CreateRefreshToken''
     \<and> (\<exists>d. CreateRefreshToken (av_env e) (pf_id p) (ak_hash c (av_rand e ''NewRefreshToken'')) (now_of e ''issueSession'' + ak_refresh_ttl c) (as_db s)
          = Inr ((), d) \<and> s' = s\<lparr>as_db := d\<rparr>)
     \<and> toks = \<lparr>tk_access = ak_access c (pf_id p) (pf_role p) (now_of e ''IssueAccess''), tk_refresh = av_rand e ''NewRefreshToken''\<rparr>"
  by (auto simp: issueSession_def active_or_def assertProfileActive_def abind_def exec_def split: if_splits sum.splits prod.splits)

lemma trial_frame:
  assumes "grantSignupTrial e i s = (Inr u, s')"
  shows "idb_profiles (as_db s') = idb_profiles (as_db s) \<and> idb_tokens (as_db s') = idb_tokens (as_db s)"
  using assms by (auto simp: grantSignupTrial_def Let_def exec_def InsertTrial_def split: if_splits sum.splits prod.splits)

text \<open>After a successful sign-in by code the phone's account is there and active.\<close>

lemma VerifyOTP_tx_account:
  assumes "VerifyOTP_tx e c phone s = (Inr r, s')"
  shows "\<exists>v. r = Keep v \<and> GetProfileByPhone phone (as_db s') = Some (vr_profile v) \<and> pf_status (vr_profile v) \<noteq> ''banned''"
proof -
  obtain p cr s1 toks where one: "(case GetProfileByPhone phone (as_db s) of
         Some p \<Rightarrow> ret (p, False)
       | None \<Rightarrow> abind (createProfileWithReferral e phone '''' '''') (\<lambda>p. abind (grantSignupTrial e (pf_id p)) (\<lambda>_. ret (p, True)))) s = (Inr (p, cr), s1)"
    and two: "issueSession e c p s1 = (Inr toks, s')"
    and r: "r = Keep \<lparr>vr_tokens = toks, vr_profile = p, vr_created = cr, vr_linked = False\<rparr>"
    using assms unfolding VerifyOTP_tx_def by (fastforce simp: abind_Inr_iff query_Inr_iff split: prod.splits)
  have found: "GetProfileByPhone phone (as_db s1) = Some p"
  proof (cases "GetProfileByPhone phone (as_db s)")
    case None
    then obtain s0 where "createProfileWithReferral e phone '''' '''' s = (Inr p, s0)" and t: "grantSignupTrial e (pf_id p) s0 = (Inr (), s1)"
      using one by (auto simp: abind_Inr_iff)
    from created_is_found create_row [OF this(1)] have "GetProfileByPhone phone (as_db s0) = Some p" by blast
    then show ?thesis using trial_frame [OF t] by (simp add: GetProfileByPhone_def)
  qed (use one in simp)
  show ?thesis using found two r unfolding issue_effect
    by (auto simp: CreateRefreshToken_def GetProfileByPhone_def split: if_splits)
qed

text \<open>
  C19: A code is not single-use under concurrency: if one request with the right code completes between another request's look
  at the code and its transaction, the other request signs in with the consumed code as well and adds a second session
  of the same account.
\<close>

theorem one_code_two_sessions:
  assumes "VerifyOTP e1 c raw code s = (Inr v1, s1)"
    and "LatestOTPChallenge (av_env e2) phone (as_db s) = LatestOTPChallenge (av_env e1) phone (as_db s)" and "NormalizePhone raw = Some phone"
    and "now_of e2 ''VerifyOTP'' \<le> now_of e1 ''VerifyOTP''" and "\<And>site st. \<not> fails e2 site st" and "av_others e2 ''VerifyOTP'' s = s1"
    and "\<not> list_ex (\<lambda>t. rt_hash t = ak_hash c (av_rand e2 ''NewRefreshToken'')) (idb_tokens (as_db s1))"
  shows "\<exists>v2 s2 row. VerifyOTP e2 c raw code s = (Inr v2, s2) \<and> vr_profile v2 = vr_profile v1
    \<and> idb_tokens (as_db s2) = idb_tokens (as_db s1) @ [row] \<and> rt_profile row = pf_id (vr_profile v1)"
proof -
  have on: "ak_channel c \<noteq> ''off''" using assms(1) by (auto simp: VerifyOTP_def)
  obtain ch where ch: "LatestOTPChallenge (av_env e1) phone (as_db s) = Some ch" "ot_attempts ch < maxOTPAttempts" "now_of e1 ''VerifyOTP'' \<le> ot_expires ch"
      "VerifyCode (ak_sha c) (ot_hash ch) code"
    and tx: "\<exists>s0. in_tx e1 ''VerifyOTP'' (VerifyOTP_tx e1 c phone) s0 = (Inr v1, s1)"
    using assms(1) on
    by (auto simp: VerifyOTP_def assms(3) abind_Inr_iff query_Inr_iff exec_Inr_iff row_or_def not_le not_less split: option.splits if_splits)
  from tx obtain s0 r where "VerifyOTP_tx e1 c phone s0 = (Inr r, s1)" "r = Keep v1"
    by (auto simp: in_tx_Inr_iff) (metis VerifyOTP_tx_account tx_end.distinct(1))
  from VerifyOTP_tx_account [OF this(1)] this(2)
  have p: "GetProfileByPhone phone (as_db s1) = Some (vr_profile v1)" "pf_status (vr_profile v1) \<noteq> ''banned''" by auto
  define s' where "s' = s1\<lparr>as_db := ConsumeOTP (ot_id ch) (as_db s1)\<rparr>"
  have q: "GetProfileByPhone phone (as_db s') = Some (vr_profile v1)" "idb_tokens (as_db s') = idb_tokens (as_db s1)"
    using p(1) by (simp_all add: s'_def ConsumeOTP_def GetProfileByPhone_def)
  define row where "row = \<lparr>rt_id = new_id (av_env e2), rt_profile = pf_id (vr_profile v1), rt_hash = ak_hash c (av_rand e2 ''NewRefreshToken''),
      rt_expires = now_of e2 ''issueSession'' + ak_refresh_ttl c, rt_revoked = None, rt_created = tx_now (av_env e2)\<rparr>"
  define s2 where "s2 = s'\<lparr>as_db := (as_db s')\<lparr>idb_tokens := idb_tokens (as_db s1) @ [row]\<rparr>\<rparr>"
  have "\<exists>toks. issueSession e2 c (vr_profile v1) s' = (Inr toks, s2)"
    unfolding issue_effect using p(2) assms(5,7) q(2) by (simp add: CreateRefreshToken_def s2_def row_def)
  then obtain toks where "issueSession e2 c (vr_profile v1) s' = (Inr toks, s2)" ..
  then have "in_tx e2 ''VerifyOTP'' (VerifyOTP_tx e2 c phone) s' = (Inr \<lparr>vr_tokens = toks, vr_profile = vr_profile v1, vr_created = False, vr_linked = False\<rparr>, s2)"
    by (simp add: in_tx_def assms(5) VerifyOTP_tx_def abind_def query_def q(1))
  then have "VerifyOTP e2 c raw code s = (Inr \<lparr>vr_tokens = toks, vr_profile = vr_profile v1, vr_created = False, vr_linked = False\<rparr>, s2)"
    using on ch assms(2,4) by (simp add: VerifyOTP_def assms(3,5,6) abind_def query_def exec_def row_or_def others_def s'_def)
  moreover have "idb_tokens (as_db s2) = idb_tokens (as_db s1) @ [row]" by (simp add: s2_def)
  moreover have "rt_profile row = pf_id (vr_profile v1)" by (simp add: row_def)
  ultimately show ?thesis by (metis VerifyResult.select_convs(2))
qed

definition au_signed_in :: auth_state where
  "au_signed_in = snd (VerifyOTP (au_env ''new'' 0) au_cfg ''901234567'' ''123456'' au_asked)"

definition au_racer :: auth_env where
  "au_racer = (au_env ''newer'' 0)\<lparr>av_others := (\<lambda>site s. if site = ''VerifyOTP'' then au_signed_in else s)\<rparr>"

theorem one_code_two_sessions_witness:
  "\<exists>v2 s2 row. VerifyOTP au_racer au_cfg ''901234567'' ''123456'' au_asked = (Inr v2, s2)
    \<and> idb_tokens (as_db s2) = idb_tokens (as_db au_signed_in) @ [row] \<and> rt_profile row = 1"
proof -
  have code: "VerifyCode (ak_sha au_cfg) (ot_hash au_code) ''123456''" by (simp add: au_cfg_def au_code_def) code_simp
  have phone: "NormalizePhone ''901234567'' = Some ''+998901234567''" by code_simp
  have new: "LatestOTPChallenge v ''+998901234567'' (as_db au_asked) = Some au_code" for v
    by (rule latest_of_newest) (simp add: newest_def au_asked_def au_code_def Let_def)
  obtain v1 where first: "VerifyOTP (au_env ''new'' 0) au_cfg ''901234567'' ''123456'' au_asked = (Inr v1, au_signed_in)"
    and who: "pf_id (vr_profile v1) = 1" and toks: "map rt_hash (idb_tokens (as_db au_signed_in)) = [''old'', ''new'']"
  proof -
    have "VerifyOTP (au_env ''new'' 0) au_cfg ''901234567'' ''123456'' au_asked
      = in_tx (au_env ''new'' 0) ''VerifyOTP'' (VerifyOTP_tx (au_env ''new'' 0) au_cfg ''+998901234567'') (au_asked\<lparr>as_db := ConsumeOTP 60 (as_db au_asked)\<rparr>)"
    proof -
      have "ak_channel au_cfg = ''sms''" "now_of (au_env ''new'' 0) ''VerifyOTP'' \<le> ot_expires au_code" "ot_id au_code = 60" "ot_attempts au_code < maxOTPAttempts"
        and "fails (au_env ''new'' 0) site st = False" for site st
        by (simp_all add: au_code_def maxOTPAttempts_def fails_def now_of_def second_def, simp_all add: au_defs)
      then show ?thesis unfolding VerifyOTP_def phone using new code
        by (simp add: abind_def query_def exec_def others_def row_or_def)
    qed
    moreover have "\<exists>v1 s1. in_tx (au_env ''new'' 0) ''VerifyOTP'' (VerifyOTP_tx (au_env ''new'' 0) au_cfg ''+998901234567'') (au_asked\<lparr>as_db := ConsumeOTP 60 (as_db au_asked)\<rparr>)
        = (Inr v1, s1) \<and> pf_id (vr_profile v1) = 1 \<and> map rt_hash (idb_tokens (as_db s1)) = [''old'', ''new'']"
      by (simp add: op_defs VerifyOTP_tx_def GetProfileByPhone_def ConsumeOTP_def issueSession_def CreateRefreshToken_def au_asked_def au_defs)
    ultimately show ?thesis using that unfolding au_signed_in_def by fastforce
  qed
  have fresh: "\<not> list_ex (\<lambda>t. rt_hash t = ak_hash au_cfg (av_rand au_racer ''NewRefreshToken'')) (idb_tokens (as_db au_signed_in))"
  proof -
    have "''newer'' \<notin> set (map rt_hash (idb_tokens (as_db au_signed_in)))" unfolding toks by simp
    then have "\<forall>t \<in> set (idb_tokens (as_db au_signed_in)). rt_hash t \<noteq> ''newer''" by (metis imageI set_map)
    then show ?thesis by (simp add: list_ex_iff au_racer_def au_cfg_def au_env_def)
  qed
  have calm: "\<not> fails au_racer site st" for site st by (simp add: fails_def au_racer_def au_defs)
  have "\<exists>v2 s2 row. VerifyOTP au_racer au_cfg ''901234567'' ''123456'' au_asked = (Inr v2, s2) \<and> vr_profile v2 = vr_profile v1
    \<and> idb_tokens (as_db s2) = idb_tokens (as_db au_signed_in) @ [row] \<and> rt_profile row = pf_id (vr_profile v1)"
    by (rule one_code_two_sessions [OF first _ phone _ calm _ fresh])
      (simp_all add: new, simp_all add: now_of_def au_racer_def au_env_def)
  then show ?thesis unfolding who by blast
qed

end
