(* ===== verification/Login_Logic.thy ===== *)
theory Login_Logic
  imports Auth_Fixtures
begin

text \<open>
  Invariants of the bot's login requests. \<open>login_invariant\<close> states what an invariant of the table
  \<open>telegram_login_request\<close> owes to the few places that write it and proves that every run keeps it; where each single
  statement keeps it, \<open>login_statements\<close> gives those places for free.
\<close>

section \<open>Statements that leave the login requests alone\<close>

named_theorems login_frame

lemma login_frame_sessions [login_frame]:
  "CreateProfile v phone code pw name d = Inr (p, d') \<Longrightarrow> idb_logins d' = idb_logins d"
  "idb_logins (SetProfilePassword i h b d) = idb_logins d"
  "CreateOTPChallenge v phone h ch exp d = Inr (u, d') \<Longrightarrow> idb_logins d' = idb_logins d"
  "idb_logins (IncrementOTPAttempts i d) = idb_logins d" "idb_logins (ConsumeOTP i d) = idb_logins d"
  "CreateRefreshToken v i g exp d = Inr (y, d') \<Longrightarrow> idb_logins d' = idb_logins d"
  "idb_logins (DeleteRefreshToken i d) = idb_logins d" "idb_logins (RevokeAllRefreshTokens v i d) = idb_logins d"
  "idb_logins (snd (RotateRefreshToken v i g d)) = idb_logins d"
  "InsertTrial r d = Inr (y, d') \<Longrightarrow> idb_logins d' = idb_logins d"
  "in_billing f d = Inr (y, d') \<Longrightarrow> idb_logins d' = idb_logins d"
  by (auto simp: CreateProfile_def SetProfilePassword_def CreateOTPChallenge_def IncrementOTPAttempts_def ConsumeOTP_def CreateRefreshToken_def
      DeleteRefreshToken_def RevokeAllRefreshTokens_def RotateRefreshToken_def InsertTrial_def in_billing_def Let_def split: if_splits sum.splits)

lemma login_frame_telegram [login_frame]:
  "idb_logins (DeleteTelegramAccountForOtherProfiles u i d) = idb_logins d"
  "UpsertTelegramAccount v i u nm b d = Inr (y, d') \<Longrightarrow> idb_logins d' = idb_logins d"
  "idb_logins (snd (DeleteUnattributedTelegramAccount i w d)) = idb_logins d"
  "idb_logins (ClearTelegramBotUserPendingReferral u d) = idb_logins d"
  "idb_logins (DeleteUnusedPasswordResetTokensForProfile i d) = idb_logins d"
  "CreatePasswordResetToken v i tok exp d = Inr (y, d') \<Longrightarrow> idb_logins d' = idb_logins d"
  "idb_logins (ClearPasswordResetPendingForTg u i d) = idb_logins d"
  "idb_logins (ClearAllPasswordResetPendingForTg u d) = idb_logins d"
  "SetPasswordResetPendingTg i u d = Inr (y, d') \<Longrightarrow> idb_logins d' = idb_logins d"
  "SetPasswordResetConfirmNonce i non d = Inr (y, d') \<Longrightarrow> idb_logins d' = idb_logins d"
  "idb_logins (CancelPasswordReset v i d) = idb_logins d"
  "idb_logins (MarkPasswordResetVerified v i d) = idb_logins d"
  "idb_logins (MarkPasswordResetUsed v i d) = idb_logins d"
  by (auto simp: DeleteTelegramAccountForOtherProfiles_def UpsertTelegramAccount_def DeleteUnattributedTelegramAccount_def
      ClearTelegramBotUserPendingReferral_def DeleteUnusedPasswordResetTokensForProfile_def CreatePasswordResetToken_def
      ClearPasswordResetPendingForTg_def ClearAllPasswordResetPendingForTg_def SetPasswordResetPendingTg_def
      SetPasswordResetConfirmNonce_def CancelPasswordReset_def MarkPasswordResetVerified_def MarkPasswordResetUsed_def Let_def split: if_splits)

section \<open>Rules for any invariant of the login requests\<close>

locale login_table =
  fixes P :: "auth_state \<Rightarrow> bool"
  assumes frame: "P s \<Longrightarrow> idb_logins (as_db s') = idb_logins (as_db s) \<Longrightarrow> P s'"
begin

lemma keeps_in_tx: "keeps P body (\<lambda>_. True) \<Longrightarrow> keeps P (in_tx e site body) (\<lambda>_. True)"
  by (rule keepsI) (auto simp: in_tx_def split: if_splits prod.splits sum.splits tx_end.splits dest: keepsD intro: frame)

lemma keeps_savepoint: "keeps P m (\<lambda>_. True) \<Longrightarrow> keeps P (savepoint m) (\<lambda>_. True)"
  by (rule keepsI) (auto simp: savepoint_def split: prod.splits sum.splits dest: keepsD intro: frame)

lemma keeps_try: "keeps P m (\<lambda>_. True) \<Longrightarrow> keeps P (trying m) (\<lambda>_. True)"
  by (rule keepsI) (auto simp: trying_def split: prod.splits dest: keepsD)

lemma quiet_exec:
  assumes "\<And>d x d'. f d = Inr (x, d') \<Longrightarrow> idb_logins d' = idb_logins d"
  shows "keeps P (exec e site st f) (\<lambda>_. True)"
proof (rule keeps_exec)
  fix s x d assume "P s" and "f (as_db s) = Inr (x, d)"
  then show "P (s\<lparr>as_db := d\<rparr>) \<and> True" using assms [of "as_db s" x d] frame [of s "s\<lparr>as_db := d\<rparr>"] by simp
qed

lemma quiet_plain: "(\<And>d. idb_logins (f d) = idb_logins d) \<Longrightarrow> keeps P (exec e site st (\<lambda>d. Inr ((), f d))) (\<lambda>_. True)"
  by (rule quiet_exec) auto

lemma quiet_pair: "(\<And>d. idb_logins (snd (f d)) = idb_logins d) \<Longrightarrow> keeps P (exec e site st (\<lambda>d. Inr (f d))) (\<lambda>_. True)"
  by (rule quiet_exec) (metis snd_conv sum.inject(2))

lemma quiet_query: "keeps P (query e site st f) (\<lambda>_. True)"
  by (rule keeps_query) simp

lemma limits_keep: "P s \<Longrightarrow> P (set_limits m s)"
  by (erule frame) simp

lemma keeps_limits:
  "keeps P (lim_allow e site k l w) (\<lambda>_. True)" "keeps P (lim_cooldown e site k w) (\<lambda>_. True)"
  by (auto simp: keeps_def lim_allow_def lim_cooldown_def limits_keep split: prod.splits sum.splits)

lemma keeps_row_or: "keeps P (row_or err r) (\<lambda>_. True)" "keeps P (active_or p) (\<lambda>_. True)"
  by (auto simp: keeps_def row_or_def active_or_def split: option.splits)

lemmas steps = keeps_any keeps_observe keeps_ret keeps_throw keeps_if keeps_option keeps_sum keeps_pair keeps_limits keeps_row_or
  keeps_in_tx keeps_savepoint keeps_try quiet_query quiet_plain quiet_pair login_frame_sessions(2,4,5,7,8,9) login_frame_telegram(1,3,4,5,7,8,11,12,13) TrueI

lemma allow_keeps: "keeps P (allow_or e site k l w) (\<lambda>_. True)"
  unfolding allow_or_def by (intro steps)

lemma session_parts_keep:
  "keeps P (issueSession e c p) (\<lambda>_. True)" "keeps P (grantSignupTrial e i) (\<lambda>_. True)" "keeps P (rateLimitAuth e c action phone ip) (\<lambda>_. True)"
  "keeps P (createProfileWithReferral e phone hash name) (\<lambda>_. True)"
proof -
  show "keeps P (issueSession e c p) (\<lambda>_. True)"
    unfolding issueSession_def by (intro steps quiet_exec) (rule login_frame_sessions, assumption)
  show "keeps P (grantSignupTrial e i) (\<lambda>_. True)"
    unfolding grantSignupTrial_def Let_def by (rule quiet_exec) (rule login_frame_sessions)
  show "keeps P (rateLimitAuth e c action phone ip) (\<lambda>_. True)"
    unfolding rateLimitAuth_def by (intro allow_keeps steps)
  have "keeps P (create_attempts e phone pw name bs aborted) (\<lambda>_. True)" for pw bs aborted
  proof (induction bs arbitrary: aborted)
    case (Cons b bs)
    have one: "keeps P (exec e site st (CreateProfile (av_env e) phone code pw name)) (\<lambda>_. True)" for site st code
      by (rule quiet_exec) (rule login_frame_sessions)
    show ?case unfolding create_attempts.simps by (intro steps one Cons)
  qed (simp add: keeps_throw)
  then show "keeps P (createProfileWithReferral e phone hash name) (\<lambda>_. True)" unfolding createProfileWithReferral_def .
qed

lemma others_keep: "(\<And>site t. P t \<Longrightarrow> P (av_others e site t)) \<Longrightarrow> keeps P (others e site) (\<lambda>_. True)"
  by (simp add: keeps_def others_def)

end

locale login_cleared = login_table +
  assumes cleared: "P s \<Longrightarrow> P (s\<lparr>as_db := ClearAllTelegramLoginPendingForTg u (as_db s)\<rparr>)"
begin

lemma clear_keeps: "keeps P (exec e site st (\<lambda>d. Inr ((), ClearAllTelegramLoginPendingForTg u d))) (\<lambda>_. True)"
  by (rule keeps_exec) (auto intro: cleared)

lemma link_keeps:
  "keeps P (linkVerifiedTelegramInTx e p u name) (\<lambda>_. True)" "keeps P (linkTelegramInTx e c p initData contact) (\<lambda>_. True)"
proof -
  have body: "keeps P (link_body e p u name) (\<lambda>_. True)" for u name
    unfolding link_body_def
    by (intro keeps_any [OF clear_keeps] keeps_any [OF quiet_exec] steps) (rule login_frame_telegram, assumption)
  show v: "keeps P (linkVerifiedTelegramInTx e p u name) (\<lambda>_. True)" for u name
    unfolding linkVerifiedTelegramInTx_def by (intro steps body)
  show "keeps P (linkTelegramInTx e c p initData contact) (\<lambda>_. True)"
    unfolding linkTelegramInTx_def by (intro steps v)
qed

lemma bot_parts_keep:
  "keeps P (bot_allow e site u) (\<lambda>_. True)" "keeps P (verifiedLinkedProfile e site u) (\<lambda>_. True)"
  "keeps P (findOrCreateTelegramProfile e ph who code) (\<lambda>_. True)"
proof -
  show "keeps P (bot_allow e site u) (\<lambda>_. True)" unfolding bot_allow_def by (intro allow_keeps steps)
  show "keeps P (verifiedLinkedProfile e site u) (\<lambda>_. True)" unfolding verifiedLinkedProfile_def by (intro steps)
  have x: "keeps P (existing_learner e site ph) (\<lambda>_. True)" for site unfolding existing_learner_def by (intro steps)
  have body: "keeps P (referral_body e i code) (\<lambda>_. True)" for i code
    unfolding referral_body_def by (intro keeps_any [OF quiet_exec] steps) (rule login_frame_sessions, assumption)
  have r: "keeps P (applySignupReferral e i code) (\<lambda>_. True)" for i
    unfolding applySignupReferral_def Let_def by (intro steps body)
  have n: "keeps P (create_learner e ph name) (\<lambda>_. True)" for name
    unfolding create_learner_def by (intro steps session_parts_keep)
  show "keeps P (findOrCreateTelegramProfile e ph who code) (\<lambda>_. True)"
    unfolding findOrCreateTelegramProfile_def by (intro steps x r n)
qed

lemma webapp_phone_keeps: "keeps P (WebAppPhone_tx e c u phone referral) (\<lambda>_. True)"
  unfolding WebAppPhone_tx_def Let_def by (intro steps bot_parts_keep link_keeps session_parts_keep)

end

section \<open>Every request keeps it\<close>

locale login_invariant = login_cleared +
  fixes c :: auth_cfg and N :: "auth_env \<Rightarrow> bool"
  assumes stale: "P s \<Longrightarrow> P (s\<lparr>as_db := DeleteStaleTelegramLoginRequests v (as_db s)\<rparr>)"
    and created: "N e \<Longrightarrow> P s \<Longrightarrow> CreateTelegramLoginRequest (av_env e) (ak_hash c (av_rand e ''login.token'')) secret dev exp (as_db s) = Inr (x, d)
      \<Longrightarrow> P (s\<lparr>as_db := d\<rparr>)"
    and completed: "N e \<Longrightarrow> keeps P (Complete_tx e c token secret) (\<lambda>_. True)"
    and begun: "N e \<Longrightarrow> keeps P (beginTelegramLogin_tx e c site token who) (\<lambda>_. True)"
    and contacted: "N e \<Longrightarrow> keeps P (LoginContact_tx e c who u phone) (\<lambda>_. True)"
    and answered: "N e \<Longrightarrow> keeps P (AnswerLogin_tx e c who nonce yes) (\<lambda>_. True)"
begin

lemma codes_and_passwords:
  assumes others: "\<And>site t. P t \<Longrightarrow> P (av_others e site t)"
  shows "keeps P (RequestOTP e c phone ip) (\<lambda>_. True)" "keeps P (VerifyOTP e c phone code) (\<lambda>_. True)" "keeps P (Register e c i) (\<lambda>_. True)"
    "keeps P (Login e c li) (\<lambda>_. True)" "keeps P (Logout e c raw) (\<lambda>_. True)"
proof -
  show "keeps P (RequestOTP e c phone ip) (\<lambda>_. True)"
    unfolding RequestOTP_def Let_def
    by (intro keeps_any [OF quiet_exec] allow_keeps steps) (rule login_frame_sessions, assumption)
  have tx: "keeps P (VerifyOTP_tx e c ph) (\<lambda>_. True)" for ph
    unfolding VerifyOTP_tx_def by (intro steps session_parts_keep)
  show "keeps P (VerifyOTP e c phone code) (\<lambda>_. True)"
    unfolding VerifyOTP_def by (intro others_keep others tx steps)
  have tx2: "keeps P (Register_tx e c i phone hash) (\<lambda>_. True)" for phone hash
    unfolding Register_tx_def by (intro steps session_parts_keep link_keeps)
  show "keeps P (Register e c i) (\<lambda>_. True)"
    unfolding Register_def by (intro session_parts_keep tx2 steps)
  show "keeps P (Login e c li) (\<lambda>_. True)"
    unfolding Login_def by (intro others_keep others session_parts_keep link_keeps steps)
  show "keeps P (Logout e c raw) (\<lambda>_. True)"
    unfolding Logout_def by (intro steps)
qed

lemma refresh_keeps:
  assumes others: "\<And>site t. P t \<Longrightarrow> P (av_others e site t)"
  shows "keeps P (Refresh e c raw) (\<lambda>_. True)"
proof -
  have look: "keeps P (gracePair e c site raw) (\<lambda>_. True)" for site
    unfolding gracePair_def by (intro steps)
  have wait: "keeps P (waitRefreshGrace e c site raw) (\<lambda>_. True)" for site
  proof -
    have "keeps P (poll_grace n e c site raw) (\<lambda>_. True)" for n site
      by (induction n arbitrary: site) (simp_all only: poll_grace.simps, (intro look others_keep others steps | assumption)+)
    then show ?thesis by (simp add: waitRefreshGrace_def)
  qed
  have claim: "keeps P (claimRefreshRotation e c raw) (\<lambda>_. True)"
    by (auto simp: keeps_def claimRefreshRotation_def set_claims_def intro: frame)
  have put: "keeps P (writeRefreshGrace e c raw i toks) (\<lambda>_. True)" for i toks
    by (auto simp: keeps_def writeRefreshGrace_def set_grace_def intro: frame)
  have tx: "keeps P (Refresh_tx e c raw rt i) (\<lambda>_. True)" for rt i
    unfolding Refresh_tx_def by (intro keeps_any [OF quiet_pair] keeps_any [OF quiet_exec] steps) (rule login_frame_sessions, assumption?)+
  have rotate: "keeps P (rotate_token e c raw rt) (\<lambda>_. True)" for rt
    unfolding rotate_token_def cached_or_def Let_def by (intro wait put tx others_keep others steps)
  show ?thesis
    unfolding Refresh_def reused_token_def cached_or_def by (intro look wait claim rotate others_keep others steps)
qed

end

context login_invariant
begin

lemma bot_login_keeps:
  assumes N: "N e" and others: "\<And>site t. P t \<Longrightarrow> P (av_others e site t)"
  shows "keeps P (StartTelegramLogin e c ip ua name) (\<lambda>_. True)" "keeps P (TelegramLoginStatus e c token secret ip) (\<lambda>_. True)"
    "keeps P (CompleteTelegramLogin e c token secret ip) (\<lambda>_. True)" "keeps P (BeginTelegramLogin e c token who) (\<lambda>_. True)"
    "keeps P (ConfirmTelegramLoginContact e c who u phone) (\<lambda>_. True)" "keeps P (AnswerTelegramLoginConfirm e c who nonce yes) (\<lambda>_. True)"
proof -
  have hit: "keeps P (noteTelegramLoginStart e) (\<lambda>_. True)"
    by (auto simp: keeps_def noteTelegramLoginStart_def limits_keep split: prod.splits)
  have old: "keeps P (exec e site st (\<lambda>d. Inr ((), DeleteStaleTelegramLoginRequests v d))) (\<lambda>_. True)" for site st v
    by (rule keeps_exec) (auto intro: stale)
  have new: "keeps P (exec e site st (CreateTelegramLoginRequest (av_env e) (ak_hash c (av_rand e ''login.token'')) secret dev exp)) (\<lambda>_. True)"
    for site st secret dev exp
    by (rule keeps_exec) (use created N in blast)
  show "keeps P (StartTelegramLogin e c ip ua name) (\<lambda>_. True)"
    unfolding StartTelegramLogin_def login_enabled_or_def ip_allow_def Let_def
    by (intro keeps_any [OF keeps_savepoint [OF old]] keeps_any [OF new] hit allow_keeps steps)
  show "keeps P (TelegramLoginStatus e c token secret ip) (\<lambda>_. True)"
    unfolding TelegramLoginStatus_def ip_allow_def by (intro allow_keeps steps)
  show "keeps P (CompleteTelegramLogin e c token secret ip) (\<lambda>_. True)"
    unfolding CompleteTelegramLogin_def login_enabled_or_def ip_allow_def
    by (intro others_keep others allow_keeps completed N steps)
  show "keeps P (BeginTelegramLogin e c token who) (\<lambda>_. True)"
    unfolding BeginTelegramLogin_def by (intro others_keep others bot_parts_keep begun N steps)
  show "keeps P (ConfirmTelegramLoginContact e c who u phone) (\<lambda>_. True)"
    unfolding ConfirmTelegramLoginContact_def by (intro contacted N steps)
  show "keeps P (AnswerTelegramLoginConfirm e c who nonce yes) (\<lambda>_. True)"
    unfolding AnswerTelegramLoginConfirm_def by (intro answered N steps)
qed

lemma mini_app_keeps:
  "keeps P (TelegramWebAppLogin e c initData ip) (\<lambda>_. True)" "keeps P (LinkTelegramWebApp e c i ptext initData contact) (\<lambda>_. True)"
  "keeps P (TelegramWebAppPhoneSignIn e c initData contact ip) (\<lambda>_. True)"
proof -
  have check: "keeps P (checkTelegramIPFailures e c ip) (\<lambda>_. True)"
    by (auto simp: keeps_def checkTelegramIPFailures_def split: if_splits sum.splits)
  have miss: "keeps P (noteTelegramIPFailure e c ip) (\<lambda>_. True)"
    unfolding noteTelegramIPFailure_def by (intro steps)
  have user: "keeps P (rateLimitTelegramUser e u) (\<lambda>_. True)" for u unfolding rateLimitTelegramUser_def by (rule allow_keeps)
  show "keeps P (TelegramWebAppLogin e c initData ip) (\<lambda>_. True)"
    unfolding TelegramWebAppLogin_def by (intro check miss user session_parts_keep steps)
  show "keeps P (LinkTelegramWebApp e c i ptext initData contact) (\<lambda>_. True)"
    unfolding LinkTelegramWebApp_def by (intro user allow_keeps link_keeps steps)
  show "keeps P (TelegramWebAppPhoneSignIn e c initData contact ip) (\<lambda>_. True)"
    unfolding TelegramWebAppPhoneSignIn_def login_enabled_or_def by (intro check miss user webapp_phone_keeps steps)
qed

lemma reset_keeps:
  assumes others: "\<And>site t. P t \<Longrightarrow> P (av_others e site t)"
  shows "keeps P (StartPasswordReset e c phone ip name) (\<lambda>_. True)" "keeps P (BeginTelegramPasswordReset e c token u) (\<lambda>_. True)"
    "keeps P (ConfirmTelegramPasswordResetContact e c u v phone) (\<lambda>_. True)"
    "keeps P (AnswerTelegramPasswordResetConfirm e c u nonce yes) (\<lambda>_. True)" "keeps P (CompletePasswordReset e c token pw ip) (\<lambda>_. True)"
proof -
  have mark: "keeps P (markResetTokenIssued e c raw) (\<lambda>_. True)" for raw
    by (auto simp: keeps_def markResetTokenIssued_def set_issued_def intro: frame)
  have start: "keeps P (StartReset_tx e c i raw out) (\<lambda>_. True)" for i raw out
    unfolding StartReset_tx_def by (intro keeps_any [OF quiet_plain] keeps_any [OF quiet_exec] steps) (rule login_frame_telegram, assumption)
  show "keeps P (StartPasswordReset e c phone ip name) (\<lambda>_. True)"
    unfolding StartPasswordReset_def Let_def by (intro session_parts_keep mark start steps)
  have ask: "keeps P (askTelegramResetConfirm e c site i ph) (\<lambda>_. True)" for site i ph
    unfolding askTelegramResetConfirm_def by (intro keeps_any [OF quiet_exec] steps) (rule login_frame_telegram, assumption)
  have begin_tx: "keeps P (beginTelegramPasswordReset_tx e c site token u) (\<lambda>_. True)" for site
    unfolding beginTelegramPasswordReset_tx_def Let_def
    by (intro keeps_any [OF clear_keeps] keeps_any [OF quiet_plain] keeps_any [OF quiet_exec] ask steps) (rule login_frame_telegram, assumption)+
  show "keeps P (BeginTelegramPasswordReset e c token u) (\<lambda>_. True)"
    unfolding BeginTelegramPasswordReset_def by (intro begin_tx others_keep others steps)
  have contact: "keeps P (ResetContact_tx e c u phone) (\<lambda>_. True)"
    unfolding ResetContact_tx_def Let_def by (intro ask steps)
  show "keeps P (ConfirmTelegramPasswordResetContact e c u v phone) (\<lambda>_. True)"
    unfolding ConfirmTelegramPasswordResetContact_def by (intro contact steps)
  have upsert: "keeps P (exec e site st (UpsertTelegramAccount v i u' nm b)) (\<lambda>_. True)" for site st v i u' nm b
    by (rule quiet_exec) (rule login_frame_telegram)
  have link: "keeps P (reset_link e row u) (\<lambda>_. True)" for row
    unfolding reset_link_def Let_def by (intro upsert steps)
  have answer: "keeps P (AnswerReset_tx e c u nonce yes) (\<lambda>_. True)"
    unfolding AnswerReset_tx_def Let_def by (intro link steps)
  show "keeps P (AnswerTelegramPasswordResetConfirm e c u nonce yes) (\<lambda>_. True)"
    unfolding AnswerTelegramPasswordResetConfirm_def by (intro answer steps)
  have complete: "keeps P (CompleteReset_tx e c token pw) (\<lambda>_. True)"
    unfolding CompleteReset_tx_def Let_def by (intro steps)
  show "keeps P (CompletePasswordReset e c token pw ip) (\<lambda>_. True)"
    unfolding CompletePasswordReset_def by (intro session_parts_keep complete steps)
qed

lemma serve_keeps:
  assumes N: "N e" and others: "\<And>site t. P t \<Longrightarrow> P (av_others e site t)" and P: "P s"
  shows "P (serve e c req s)"
  using keeps_snd [OF codes_and_passwords(1) [OF others] P] keeps_snd [OF codes_and_passwords(2) [OF others] P]
    keeps_snd [OF codes_and_passwords(3) [OF others] P] keeps_snd [OF codes_and_passwords(4) [OF others] P]
    keeps_snd [OF codes_and_passwords(5) [OF others] P] keeps_snd [OF refresh_keeps [OF others] P]
    keeps_snd [OF bot_login_keeps(1) [OF N others] P] keeps_snd [OF bot_login_keeps(2) [OF N others] P]
    keeps_snd [OF bot_login_keeps(3) [OF N others] P] keeps_snd [OF bot_login_keeps(4) [OF N others] P]
    keeps_snd [OF bot_login_keeps(5) [OF N others] P] keeps_snd [OF bot_login_keeps(6) [OF N others] P]
    keeps_snd [OF mini_app_keeps(1) P] keeps_snd [OF mini_app_keeps(2) P] keeps_snd [OF mini_app_keeps(3) P]
    keeps_snd [OF reset_keeps(1) [OF others] P] keeps_snd [OF reset_keeps(2) [OF others] P] keeps_snd [OF reset_keeps(3) [OF others] P]
    keeps_snd [OF reset_keeps(4) [OF others] P] keeps_snd [OF reset_keeps(5) [OF others] P]
  by (cases req) (simp_all only: serve_def request.case)

theorem run_keeps: "auth_run c N s s' \<Longrightarrow> P s \<Longrightarrow> P s'"
proof (induction rule: auth_run.induct)
  case (run_step s s1 e req)
  then show ?case by (blast intro: serve_keeps)
qed simp

end

section \<open>Invariants that every single statement keeps\<close>

locale login_statements = login_cleared +
  fixes c :: auth_cfg and N :: "auth_env \<Rightarrow> bool"
  assumes gone: "P s \<Longrightarrow> P (s\<lparr>as_db := DeleteStaleTelegramLoginRequests v (as_db s)\<rparr>)"
    and opened: "N e \<Longrightarrow> P s \<Longrightarrow> CreateTelegramLoginRequest (av_env e) (ak_hash c (av_rand e ''login.token'')) secret dev exp (as_db s) = Inr (x, d)
      \<Longrightarrow> P (s\<lparr>as_db := d\<rparr>)"
    and consumed: "P s \<Longrightarrow> P (s\<lparr>as_db := snd (ConsumeTelegramLoginRequest i (as_db s))\<rparr>)"
    and cleared_for: "P s \<Longrightarrow> P (s\<lparr>as_db := ClearTelegramLoginPendingForTg u i (as_db s)\<rparr>)"
    and armed: "P s \<Longrightarrow> ArmTelegramLoginForTg i u nn (as_db s) = Inr (x, d) \<Longrightarrow> P (s\<lparr>as_db := d\<rparr>)"
    and asked: "P s \<Longrightarrow> AskTelegramLoginConfirmAfterContact i non ph (as_db s) = Inr (y, d) \<Longrightarrow> P (s\<lparr>as_db := d\<rparr>)"
    and approved: "P s \<Longrightarrow> P (s\<lparr>as_db := snd (ApproveTelegramLoginRequest i prof u (as_db s))\<rparr>)"
    and ended: "P s \<Longrightarrow> P (s\<lparr>as_db := snd (EndTelegramLoginRequest i st (as_db s))\<rparr>)"
begin

lemma statement_keeps:
  "keeps P (exec e site st (\<lambda>d. Inr (ConsumeTelegramLoginRequest i d))) (\<lambda>_. True)"
  "keeps P (exec e site st (\<lambda>d. Inr ((), ClearTelegramLoginPendingForTg u i d))) (\<lambda>_. True)"
  "keeps P (exec e site st (ArmTelegramLoginForTg i u nn)) (\<lambda>_. True)"
  "keeps P (exec e site st (AskTelegramLoginConfirmAfterContact i non ph)) (\<lambda>_. True)"
  "keeps P (exec e site st (\<lambda>d. Inr (ApproveTelegramLoginRequest i prof u d))) (\<lambda>_. True)"
  "keeps P (exec e site st (\<lambda>d. Inr (EndTelegramLoginRequest i what d))) (\<lambda>_. True)"
proof -
  have pair: "keeps P (exec e site st (\<lambda>d. Inr (f d))) (\<lambda>_. True)" if "\<And>s. P s \<Longrightarrow> P (s\<lparr>as_db := snd (f (as_db s))\<rparr>)" for f :: "identity_db \<Rightarrow> nat \<times> identity_db"
    by (rule keeps_exec) (use that in \<open>metis Inr_inject snd_conv\<close>)
  show "keeps P (exec e site st (\<lambda>d. Inr (ConsumeTelegramLoginRequest i d))) (\<lambda>_. True)" by (rule pair) (rule consumed)
  show "keeps P (exec e site st (\<lambda>d. Inr (ApproveTelegramLoginRequest i prof u d))) (\<lambda>_. True)" by (rule pair) (rule approved)
  show "keeps P (exec e site st (\<lambda>d. Inr (EndTelegramLoginRequest i what d))) (\<lambda>_. True)" by (rule pair) (rule ended)
qed (rule keeps_exec; use cleared_for armed asked in blast)+

lemma parts_keep:
  "keeps P (endTelegramLogin e site row st out) (\<lambda>_. True)" "keeps P (approve_login e row u p b v) (\<lambda>_. True)"
  "keeps P (ask_after_contact e c' row ph) (\<lambda>_. True)" "keeps P (arm_login e c' site row u) (\<lambda>_. True)"
proof -
  show t: "keeps P (endTelegramLogin e site row st out) (\<lambda>_. True)" for st out
    unfolding endTelegramLogin_def by (intro statement_keeps steps)
  show "keeps P (approve_login e row u p b v) (\<lambda>_. True)"
    unfolding approve_login_def by (intro keeps_any [OF statement_keeps(5)] steps)
  show "keeps P (ask_after_contact e c' row ph) (\<lambda>_. True)"
    unfolding ask_after_contact_def Let_def by (intro statement_keeps(4) steps)
  show "keeps P (arm_login e c' site row u) (\<lambda>_. True)"
    unfolding arm_login_def by (intro statement_keeps(3) t bot_parts_keep steps)
qed

lemma contact_answer_keeps: "keeps P (answer_contact e row who ph) (\<lambda>_. True)" "keeps P (answer_linked e row who) (\<lambda>_. True)"
  unfolding answer_contact_def answer_linked_def by (intro parts_keep bot_parts_keep link_keeps steps)+

sublocale login_invariant P c N
proof unfold_locales
  show "keeps P (Complete_tx e c token secret) (\<lambda>_. True)" for e token secret
    unfolding Complete_tx_def Let_def by (intro keeps_any [OF statement_keeps(1)] session_parts_keep steps)
  show "keeps P (beginTelegramLogin_tx e c site token who) (\<lambda>_. True)" for e site token who
    unfolding beginTelegramLogin_tx_def by (intro keeps_any [OF statement_keeps(2)] parts_keep steps)
  show "keeps P (LoginContact_tx e c who u phone) (\<lambda>_. True)" for e who u phone
    unfolding LoginContact_tx_def Let_def by (intro parts_keep bot_parts_keep steps)
  show "keeps P (AnswerLogin_tx e c who nonce yes) (\<lambda>_. True)" for e who nonce yes
    unfolding AnswerLogin_tx_def by (intro parts_keep contact_answer_keeps bot_parts_keep steps)
qed (use gone opened in blast)+

end

end
