(* ===== verification/Refresh_Properties.thy ===== *)
theory Refresh_Properties
  imports Auth_Fixtures
begin

text \<open>
  Refresh tokens are single-use and reuse is noticed: however requests interleave, everybody who presents one token gets
  the same successor pair, and a token presented after that, outside the grace window, signs every device out.
\<close>

section \<open>Operations with a different state afterwards\<close>

text \<open>From \<open>P\<close>, success ends in \<open>Q\<close> of the result and failure in \<open>E\<close>.\<close>

definition ends_in :: "(auth_state \<Rightarrow> bool) \<Rightarrow> 'a op \<Rightarrow> ('a \<Rightarrow> auth_state \<Rightarrow> bool) \<Rightarrow> (auth_state \<Rightarrow> bool) \<Rightarrow> bool" where
  "ends_in P m Q E \<longleftrightarrow> (\<forall>s r s'. P s \<longrightarrow> m s = (r, s') \<longrightarrow> (case r of Inl _ \<Rightarrow> E s' | Inr x \<Rightarrow> Q x s'))"

lemma ends_in_success: "ends_in P m Q E \<Longrightarrow> P s \<Longrightarrow> m s = (Inr x, s') \<Longrightarrow> Q x s'"
  unfolding ends_in_def by (metis sum.case(2))

lemma ends_in_ret: "(\<And>s. P s \<Longrightarrow> Q x s) \<Longrightarrow> ends_in P (ret x) Q E"
  by (auto simp: ends_in_def)

lemma ends_in_throw: "(\<And>s. P s \<Longrightarrow> E s) \<Longrightarrow> ends_in P (throw err) Q E"
  by (auto simp: ends_in_def)

lemma ends_in_abind:
  assumes m: "ends_in P m R E" and f: "\<And>x. ends_in (R x) (f x) Q E"
  shows "ends_in P (abind m f) Q E"
  unfolding ends_in_def
proof (intro allI impI)
  fix s r s' assume P: "P s" and run: "abind m f s = (r, s')"
  obtain q s1 where q: "m s = (q, s1)" by (cases "m s")
  show "case r of Inl _ \<Rightarrow> E s' | Inr x \<Rightarrow> Q x s'"
  proof (cases q)
    case (Inl err)
    then have "E s1" using m P q unfolding ends_in_def by force
    then show ?thesis using run q Inl by (auto simp: abind_def)
  next
    case (Inr x)
    then have "R x s1" using m P q unfolding ends_in_def by force
    then show ?thesis using f [of x] run q Inr unfolding ends_in_def by (auto simp: abind_def)
  qed
qed

lemma ends_in_keeps: "keeps P m K \<Longrightarrow> ends_in P m (\<lambda>x s. P s \<and> K x) P"
  by (auto simp: ends_in_def keeps_def split: sum.split)

lemma keeps_ends_in: "ends_in P m (\<lambda>_. P) P \<Longrightarrow> keeps P m (\<lambda>_. True)"
  by (auto simp: ends_in_def keeps_def split: sum.splits; metis sum.exhaust sum.simps(5,6))

lemma ends_in_weaken: "ends_in P m Q E \<Longrightarrow> (\<And>s. P' s \<Longrightarrow> P s) \<Longrightarrow> (\<And>x s. Q x s \<Longrightarrow> Q' x s) \<Longrightarrow> ends_in P' m Q' E"
  unfolding ends_in_def by (metis (no_types, lifting) sum.case_eq_if)

lemma ends_in_if: "(b \<Longrightarrow> ends_in P m Q E) \<Longrightarrow> (\<not> b \<Longrightarrow> ends_in P n Q E) \<Longrightarrow> ends_in P (if b then m else n) Q E"
  by simp

lemma ends_in_query: "ends_in P (query e site st f) (\<lambda>_. P) P"
  by (auto simp: ends_in_def query_def)

lemma ends_in_row_or: "ends_in P (row_or err r) (\<lambda>_. P) P"
  by (cases r) (auto simp: ends_in_def row_or_def)

lemma ends_in_active: "ends_in P (active_or p) (\<lambda>_. P) P"
  by (auto simp: ends_in_def active_or_def split: option.split)

text \<open>What others do keeps \<open>P\<close>; and a pair found in Redis while \<open>P\<close> holds gives \<open>S\<close>.\<close>

definition stable :: "auth_env \<Rightarrow> (auth_state \<Rightarrow> bool) \<Rightarrow> bool" where
  "stable e P \<longleftrightarrow> (\<forall>site t. P t \<longrightarrow> P (av_others e site t))"

definition sees :: "auth_env \<Rightarrow> auth_cfg \<Rightarrow> string \<Rightarrow> (auth_state \<Rightarrow> bool) \<Rightarrow> (Tokens \<Rightarrow> auth_state \<Rightarrow> bool) \<Rightarrow> bool" where
  "sees e c raw P S \<longleftrightarrow> (\<forall>site s toks prof. P s \<longrightarrow> readRefreshGrace e c site raw s = Some (toks, prof) \<longrightarrow> S toks s)"

lemma ends_in_others: "stable e P \<Longrightarrow> ends_in P (others e site) (\<lambda>_. P) P"
  by (auto simp: ends_in_def others_def stable_def)

text \<open>What a client that gets a pair (\<open>S\<close>) or none (\<open>P\<close>) leaves behind.\<close>

definition found_or :: "(auth_state \<Rightarrow> bool) \<Rightarrow> (Tokens \<Rightarrow> auth_state \<Rightarrow> bool) \<Rightarrow> Tokens option \<Rightarrow> auth_state \<Rightarrow> bool" where
  "found_or P S r s = (case r of None \<Rightarrow> P s | Some T \<Rightarrow> S T s)"

lemma ends_in_cached: "ends_in P m S E \<Longrightarrow> ends_in (found_or P S r) (cached_or r m) S E"
  by (cases r) (auto simp: ends_in_def found_or_def cached_or_def)

section \<open>One refresh, whatever it meets\<close>

lemma gracePair_ends_in:
  assumes "sees e c raw P S"
  shows "ends_in P (gracePair e c site raw) (found_or P S) P"
  using assms unfolding sees_def ends_in_def gracePair_def observe_def
  by (auto simp: found_or_def abind_def query_def row_or_def active_or_def split: option.splits if_splits sum.splits prod.splits)

lemma wait_ends_in:
  assumes look: "sees e c raw P S" and others: "stable e P"
  shows "ends_in P (waitRefreshGrace e c site raw) (found_or P S) P"
proof -
  have "ends_in P (poll_grace n e c site raw) (found_or P S) P" for n site
  proof (induction n arbitrary: site)
    case 0
    show ?case using gracePair_ends_in [OF look] by simp
  next
    case (Suc n)
    show ?case unfolding poll_grace.simps
    proof (rule ends_in_abind [OF gracePair_ends_in [OF look]])
      fix r show "ends_in (found_or P S r) (case r of None \<Rightarrow> abind (others e site) (\<lambda>_. poll_grace n e c (site @ ''+'') raw) | Some toks \<Rightarrow> ret (Some toks)) (found_or P S) P"
      proof (cases r)
        case None
        have none: "found_or P S None = P" by (simp add: found_or_def fun_eq_iff)
        show ?thesis unfolding None option.case none by (rule ends_in_abind [OF ends_in_others [OF others] Suc])
      qed (auto simp: ends_in_def found_or_def)
    qed
  qed
  then show ?thesis by (simp add: waitRefreshGrace_def)
qed

lemma refresh_ends_in:
  assumes look: "sees e c raw P S" and others: "stable e P"
    and claims: "\<And>s g. P s \<Longrightarrow> P (set_claims g s)"
    and revoke: "\<And>s i. P s \<Longrightarrow> P (s\<lparr>as_db := RevokeAllRefreshTokens (av_env e) i (as_db s)\<rparr>)"
    and rotate: "\<And>rt. ends_in P (rotate_token e c raw rt) S P"
  shows "ends_in P (Refresh e c raw) S P"
proof -
  note wait = wait_ends_in [OF look others] and grace = gracePair_ends_in [OF look]
  have lost: "ends_in P (abind (waitRefreshGrace e c site raw) (\<lambda>r. cached_or r (throw ErrInvalidRefresh))) S P" for site
    by (rule ends_in_abind [OF wait], rule ends_in_cached, rule ends_in_throw)
  have claim: "ends_in P (claimRefreshRotation e c raw) (\<lambda>_. P) P"
    by (auto simp: ends_in_def claimRefreshRotation_def claims)
  have revoke_all: "ends_in P (exec e site st (\<lambda>d. Inr ((), RevokeAllRefreshTokens (av_env e) i d))) (\<lambda>_. P) P" for site st i
    by (auto simp: ends_in_def exec_def revoke)
  have held: "ends_in P (observe (refreshClaimHeld e c raw) (\<lambda>held. if held then waitRefreshGrace e c site raw else ret None)) (found_or P S) P" for site
    using wait [of site] unfolding ends_in_def observe_def by (auto simp: found_or_def split: sum.splits)
  have reused: "ends_in P (reused_token e c raw rt) S P" for rt
    unfolding reused_token_def
    by (rule ends_in_abind [OF grace], rule ends_in_cached, rule ends_in_abind [OF held], rule ends_in_cached,
        rule ends_in_abind [OF revoke_all], rule ends_in_throw)
  show ?thesis unfolding Refresh_def
    by (intro ends_in_abind [OF grace] ends_in_cached ends_in_abind [OF ends_in_query] ends_in_abind [OF ends_in_row_or] ends_in_if
        reused ends_in_throw ends_in_abind [OF claim] ends_in_abind [OF ends_in_others [OF others]] lost rotate)
qed

section \<open>A token that was rotated\<close>

definition revoked_hash :: "string \<Rightarrow> identity_db \<Rightarrow> bool" where
  "revoked_hash h d \<longleftrightarrow> (\<forall>t \<in> set (idb_tokens d). rt_hash t = h \<longrightarrow> rt_revoked t \<noteq> None)"

text \<open>The token has one row at most, and a successor pair in Redis only once that row is revoked.\<close>

definition token_ok :: "auth_cfg \<Rightarrow> string \<Rightarrow> auth_state \<Rightarrow> bool" where
  "token_ok c raw s \<longleftrightarrow> count_where (\<lambda>t. rt_hash t = ak_hash c raw) (idb_tokens (as_db s)) \<le> 1
     \<and> (rd_grace (as_redis s) (ak_hash c raw) \<noteq> None \<longrightarrow> revoked_hash (ak_hash c raw) (as_db s))"

text \<open>The token is spent, and nothing but \<open>T\<close> can come out of its grace entry.\<close>

definition settled :: "auth_cfg \<Rightarrow> string \<Rightarrow> Tokens \<Rightarrow> auth_state \<Rightarrow> bool" where
  "settled c raw T s \<longleftrightarrow> revoked_hash (ak_hash c raw) (as_db s)
     \<and> (\<forall>sealed exp T' p. rd_grace (as_redis s) (ak_hash c raw) = Some (sealed, exp) \<longrightarrow> openRefreshGrace c raw sealed = Some (T', p) \<longrightarrow> T' = T)"

text \<open>What cryptography owes: distinct tokens have distinct hashes, and a sealed pair opens to itself or not at all.\<close>

definition sound_crypto :: "auth_cfg \<Rightarrow> bool" where
  "sound_crypto c \<longleftrightarrow> inj (ak_hash c) \<and> (\<forall>raw x y. ak_open c raw (ak_seal c raw x) = Some y \<longrightarrow> y = x)"

text \<open>What is known of a request beside the life of one token: it does not issue that token again.\<close>

definition not_reissued :: "auth_cfg \<Rightarrow> string \<Rightarrow> auth_env \<Rightarrow> bool" where
  "not_reissued c raw e \<longleftrightarrow> sound_crypto c \<and> av_rand e ''NewRefreshToken'' \<noteq> raw"

lemma revoked_hash_steps:
  "revoked_hash h d \<Longrightarrow> revoked_hash h (RevokeAllRefreshTokens v i d)" "revoked_hash h d \<Longrightarrow> revoked_hash h (DeleteRefreshToken i d)"
  "revoked_hash h d \<Longrightarrow> revoked_hash h (snd (RotateRefreshToken v i g d))" "same_sessions d d' \<Longrightarrow> revoked_hash h d' = revoked_hash h d"
  "CreateRefreshToken v p g exp d = Inr (u, d') \<Longrightarrow> g \<noteq> h \<Longrightarrow> revoked_hash h d' = revoked_hash h d"
  "CreateProfile v phone code pw name d = Inr (r, d') \<Longrightarrow> revoked_hash h d' = revoked_hash h d"
  "revoked_hash h (SetProfilePassword i w b d) = revoked_hash h d"
proof -
  assume "revoked_hash h d"
  then show "revoked_hash h (RevokeAllRefreshTokens v i d)" "revoked_hash h (DeleteRefreshToken i d)" "revoked_hash h (snd (RotateRefreshToken v i g d))"
    by (auto simp: revoked_hash_def RevokeAllRefreshTokens_def DeleteRefreshToken_def RotateRefreshToken_def upd_where_def)
next
  assume "same_sessions d d'"
  then show "revoked_hash h d' = revoked_hash h d" by (simp add: revoked_hash_def same_sessions_def)
next
  assume "CreateRefreshToken v p g exp d = Inr (u, d')" and "g \<noteq> h"
  then show "revoked_hash h d' = revoked_hash h d" by (auto simp: revoked_hash_def CreateRefreshToken_def split: if_splits)
next
  assume "CreateProfile v phone code pw name d = Inr (r, d')"
  then show "revoked_hash h d' = revoked_hash h d" by (auto simp: revoked_hash_def CreateProfile_def Let_def split: if_splits)
qed (simp add: revoked_hash_def SetProfilePassword_def)

lemma count_filter: "count_where P (filter Q ts) \<le> count_where P ts"
  by (induction ts) (auto simp: count_where_def)

lemma count_map:
  assumes "\<And>t. Q (f t) = Q t"
  shows "count_where Q (upd_where b f ts) = count_where Q ts"
  by (induction ts) (auto simp: count_where_def upd_where_def assms)

lemma token_count_steps:
  "count_where (\<lambda>t. rt_hash t = h) (idb_tokens (RevokeAllRefreshTokens v i d)) = count_where (\<lambda>t. rt_hash t = h) (idb_tokens d)"
  "count_where (\<lambda>t. rt_hash t = h) (idb_tokens (snd (RotateRefreshToken v i g d))) = count_where (\<lambda>t. rt_hash t = h) (idb_tokens d)"
  "count_where (\<lambda>t. rt_hash t = h) (idb_tokens (DeleteRefreshToken i d)) \<le> count_where (\<lambda>t. rt_hash t = h) (idb_tokens d)"
  "CreateRefreshToken v p g exp d = Inr (u, d') \<Longrightarrow> g \<noteq> h \<Longrightarrow>
     count_where (\<lambda>t. rt_hash t = h) (idb_tokens d') = count_where (\<lambda>t. rt_hash t = h) (idb_tokens d)"
proof -
  show "count_where (\<lambda>t. rt_hash t = h) (idb_tokens (DeleteRefreshToken i d)) \<le> count_where (\<lambda>t. rt_hash t = h) (idb_tokens d)"
    by (simp add: DeleteRefreshToken_def count_filter)
  assume "CreateRefreshToken v p g exp d = Inr (u, d')" and "g \<noteq> h"
  then show "count_where (\<lambda>t. rt_hash t = h) (idb_tokens d') = count_where (\<lambda>t. rt_hash t = h) (idb_tokens d)"
    by (auto simp: CreateRefreshToken_def count_where_def split: if_splits)
qed (simp_all add: RevokeAllRefreshTokens_def RotateRefreshToken_def count_map)

lemma profile_tokens: "CreateProfile v phone code pw name d = Inr (r, d') \<Longrightarrow> idb_tokens d' = idb_tokens d" "idb_tokens (SetProfilePassword i w b d) = idb_tokens d"
  by (auto simp: CreateProfile_def SetProfilePassword_def Let_def split: if_splits)

text \<open>Facts about the state before and after the statement, one for each predicate.\<close>

lemma token_ok_by:
  assumes "token_ok c raw s"
    and "count_where (\<lambda>t. rt_hash t = ak_hash c raw) (idb_tokens (as_db s')) \<le> count_where (\<lambda>t. rt_hash t = ak_hash c raw) (idb_tokens (as_db s))"
    and "revoked_hash (ak_hash c raw) (as_db s) \<Longrightarrow> revoked_hash (ak_hash c raw) (as_db s')" and "rd_grace (as_redis s') = rd_grace (as_redis s)"
  shows "token_ok c raw s'"
  unfolding token_ok_def
proof (intro conjI impI)
  show "count_where (\<lambda>t. rt_hash t = ak_hash c raw) (idb_tokens (as_db s')) \<le> 1"
    using assms(1,2) unfolding token_ok_def by (meson le_trans)
  assume "rd_grace (as_redis s') (ak_hash c raw) \<noteq> None"
  then have "rd_grace (as_redis s) (ak_hash c raw) \<noteq> None" unfolding assms(4) .
  then show "revoked_hash (ak_hash c raw) (as_db s')" by (rule assms(3) [OF mp [OF conjunct2 [OF assms(1) [unfolded token_ok_def]]]])
qed

lemma token_ok_steps:
  assumes "token_ok c raw s"
  shows "same_sessions (as_db s) (as_db s') \<Longrightarrow> rd_grace (as_redis s') = rd_grace (as_redis s) \<Longrightarrow> token_ok c raw s'"
    and "token_ok c raw (s\<lparr>as_db := RevokeAllRefreshTokens v i (as_db s)\<rparr>)" and "token_ok c raw (s\<lparr>as_db := DeleteRefreshToken i (as_db s)\<rparr>)"
    and "CreateRefreshToken v p g exp (as_db s) = Inr (u, d) \<Longrightarrow> g \<noteq> ak_hash c raw \<Longrightarrow> token_ok c raw (s\<lparr>as_db := d\<rparr>)"
    and "CreateProfile v phone code pw name (as_db s) = Inr (r, d) \<Longrightarrow> token_ok c raw (s\<lparr>as_db := d\<rparr>)"
    and "token_ok c raw (s\<lparr>as_db := SetProfilePassword i w b (as_db s)\<rparr>)" and "token_ok c raw (set_claims m s)"
    and "token_ok c raw (s\<lparr>as_db := snd (RotateRefreshToken v i g (as_db s))\<rparr>)"
proof -
  note by_s = token_ok_by [OF assms]
  show "same_sessions (as_db s) (as_db s') \<Longrightarrow> rd_grace (as_redis s') = rd_grace (as_redis s) \<Longrightarrow> token_ok c raw s'"
    by (rule by_s) (simp_all add: revoked_hash_steps(4) [of "as_db s"], simp add: same_sessions_def)
  show "CreateRefreshToken v p g exp (as_db s) = Inr (u, d) \<Longrightarrow> g \<noteq> ak_hash c raw \<Longrightarrow> token_ok c raw (s\<lparr>as_db := d\<rparr>)"
    by (rule by_s) (simp_all add: token_count_steps(4) [where d = "as_db s"] revoked_hash_steps(5) [where d = "as_db s"])
  show "CreateProfile v phone code pw name (as_db s) = Inr (r, d) \<Longrightarrow> token_ok c raw (s\<lparr>as_db := d\<rparr>)"
    by (rule by_s) (simp_all add: profile_tokens(1) [where d = "as_db s"] revoked_hash_steps(6) [where d = "as_db s"])
qed (rule token_ok_by [OF assms]; simp add: token_count_steps(1-3) revoked_hash_steps(1-3,7) profile_tokens(2) set_claims_def)+

lemma settled_by:
  assumes "settled c raw T s" and "revoked_hash (ak_hash c raw) (as_db s) \<Longrightarrow> revoked_hash (ak_hash c raw) (as_db s')"
    and "rd_grace (as_redis s') = rd_grace (as_redis s)"
  shows "settled c raw T s'"
  using assms(1,2) unfolding settled_def assms(3) by blast

lemma settled_steps:
  assumes "settled c raw T s"
  shows "same_sessions (as_db s) (as_db s') \<Longrightarrow> rd_grace (as_redis s') = rd_grace (as_redis s) \<Longrightarrow> settled c raw T s'"
    and "settled c raw T (s\<lparr>as_db := RevokeAllRefreshTokens v i (as_db s)\<rparr>)" and "settled c raw T (s\<lparr>as_db := DeleteRefreshToken i (as_db s)\<rparr>)"
    and "CreateRefreshToken v p g exp (as_db s) = Inr (u, d) \<Longrightarrow> g \<noteq> ak_hash c raw \<Longrightarrow> settled c raw T (s\<lparr>as_db := d\<rparr>)"
    and "CreateProfile v phone code pw name (as_db s) = Inr (r, d) \<Longrightarrow> settled c raw T (s\<lparr>as_db := d\<rparr>)"
    and "settled c raw T (s\<lparr>as_db := SetProfilePassword i w b (as_db s)\<rparr>)" and "settled c raw T (set_claims m s)"
    and "settled c raw T (s\<lparr>as_db := snd (RotateRefreshToken v i g (as_db s))\<rparr>)"
proof -
  show "same_sessions (as_db s) (as_db s') \<Longrightarrow> rd_grace (as_redis s') = rd_grace (as_redis s) \<Longrightarrow> settled c raw T s'"
    by (rule settled_by [OF assms]) (simp_all add: revoked_hash_steps(4) [of "as_db s"])
  show "CreateRefreshToken v p g exp (as_db s) = Inr (u, d) \<Longrightarrow> g \<noteq> ak_hash c raw \<Longrightarrow> settled c raw T (s\<lparr>as_db := d\<rparr>)"
    by (rule settled_by [OF assms]) (simp_all add: revoked_hash_steps(5) [where d = "as_db s"])
  show "CreateProfile v phone code pw name (as_db s) = Inr (r, d) \<Longrightarrow> settled c raw T (s\<lparr>as_db := d\<rparr>)"
    by (rule settled_by [OF assms]) (simp_all add: revoked_hash_steps(6) [where d = "as_db s"])
qed (rule settled_by [OF assms]; simp add: revoked_hash_steps(1-3,7) set_claims_def)+

section \<open>Rotating another token, this one, and this one again\<close>

locale token_invariant =
  fixes c :: auth_cfg and raw :: string and P :: "auth_state \<Rightarrow> bool"
  assumes frame: "P s \<Longrightarrow> same_sessions (as_db s) (as_db s') \<Longrightarrow> rd_grace (as_redis s') = rd_grace (as_redis s) \<Longrightarrow> P s'"
    and revoke: "P s \<Longrightarrow> P (s\<lparr>as_db := RevokeAllRefreshTokens v i (as_db s)\<rparr>)"
    and remove: "P s \<Longrightarrow> P (s\<lparr>as_db := DeleteRefreshToken i (as_db s)\<rparr>)"
    and claim: "P s \<Longrightarrow> P (set_claims m s)"
    and rotate: "P s \<Longrightarrow> P (s\<lparr>as_db := snd (RotateRefreshToken v i g (as_db s))\<rparr>)"
    and create: "P s \<Longrightarrow> CreateRefreshToken v j g exp (as_db s) = Inr (u, d) \<Longrightarrow> g \<noteq> ak_hash c raw \<Longrightarrow> P (s\<lparr>as_db := d\<rparr>)"
    and overwrite: "P s \<Longrightarrow> g \<noteq> ak_hash c raw \<Longrightarrow> P (set_grace ((rd_grace (as_redis s))(g \<mapsto> w)) s)"
    and signed_up: "P s \<Longrightarrow> CreateProfile v phone code pw name (as_db s) = Inr (q, d) \<Longrightarrow> P (s\<lparr>as_db := d\<rparr>)"
    and repassword: "P s \<Longrightarrow> P (s\<lparr>as_db := SetProfilePassword i h b (as_db s)\<rparr>)"
begin

lemma new_hash: "not_reissued c raw e \<Longrightarrow> ak_hash c (av_rand e ''NewRefreshToken'') \<noteq> ak_hash c raw"
  by (auto simp: not_reissued_def sound_crypto_def inj_eq)

lemma calm_refresh_tx: "calm (Refresh_tx e c raw' rt i)"
  unfolding Refresh_tx_def by (auto intro!: calm_intros)

lemma refresh_tx_keeps: "not_reissued c raw e \<Longrightarrow> keeps P (Refresh_tx e c raw' rt i) (\<lambda>_. True)"
  unfolding Refresh_tx_def
  apply (rule keeps_any [OF keeps_exec])
   apply (metis Inr_inject rotate snd_conv)
  apply (intro keeps_if keeps_ret keeps_any [OF keeps_exec] TrueI)
  apply (simp add: create new_hash)
  done

lemma refresh_keeps:
  assumes N: "not_reissued c raw e" and others: "stable e P" and own: "raw' = raw \<Longrightarrow> keeps P (Refresh e c raw) (\<lambda>_. True)"
  shows "keeps P (Refresh e c raw') (\<lambda>_. True)"
proof (cases "raw' = raw")
  case False
  then have key: "ak_hash c raw' \<noteq> ak_hash c raw" using N by (simp add: not_reissued_def sound_crypto_def inj_eq)
  have sees: "sees e c raw' P (\<lambda>_. P)" by (simp add: sees_def)
  have grace: "keeps P (writeRefreshGrace e c raw' i toks) (\<lambda>_. True)" for i toks
    by (auto simp: keeps_def writeRefreshGrace_def overwrite [OF _ key])
  have oth: "keeps P (others e site) (\<lambda>_. True)" for site using others by (auto simp: keeps_def others_def stable_def)
  have look: "keeps P (gracePair e c site raw') (\<lambda>_. True)" for site
    by (rule keeps_ends_in, rule ends_in_weaken [OF gracePair_ends_in [OF sees]]) (auto simp: found_or_def split: option.splits)
  have wait: "keeps P (waitRefreshGrace e c site raw') (\<lambda>_. True)" for site
    by (rule keeps_ends_in, rule ends_in_weaken [OF wait_ends_in [OF sees others]]) (auto simp: found_or_def split: option.splits)
  have q: "keeps P (query e site st f) (\<lambda>_. True)" for site st and f :: "identity_db \<Rightarrow> 'z" by (rule keeps_query) simp
  have rot: "keeps P (rotate_token e c raw' rt) (\<lambda>_. True)" for rt
    unfolding rotate_token_def cached_or_def Let_def
    by (intro keeps_any [OF q] keeps_bind_row_or keeps_bind_active keeps_any [OF oth] keeps_any [OF keeps_in_tx_of [OF frame]] refresh_tx_keeps [OF N] calm_refresh_tx
        keeps_if keeps_any [OF wait] keeps_option keeps_any [OF grace] keeps_ret keeps_throw TrueI)
  have "ends_in P (Refresh e c raw') (\<lambda>_. P) P"
    by (rule refresh_ends_in [OF sees others]) (auto simp: claim revoke intro!: ends_in_weaken [OF ends_in_keeps [OF rot]])
  then show ?thesis by (rule keeps_ends_in)
qed (simp add: own)

text \<open>An invariant of one token is a session invariant, once its own rotation is understood.\<close>

lemma session_invariant_from_token:
  assumes own: "\<And>e. not_reissued c raw e \<Longrightarrow> (\<And>site t. auth_run c (not_reissued c raw) t (av_others e site t)) \<Longrightarrow> stable e P
      \<Longrightarrow> keeps P (Refresh e c raw) (\<lambda>_. True)"
  shows "session_invariant c (not_reissued c raw) P (\<lambda>_. True)"
proof unfold_locales
  show "keeps P (Refresh e c raw') (\<lambda>_. True)" if "not_reissued c raw e" and "\<And>site t. auth_run c (not_reissued c raw) t (av_others e site t)"
    and "\<And>site t. P t \<Longrightarrow> P (av_others e site t)" for e raw'
  proof -
    have st: "stable e P" using that(3) by (simp add: stable_def)
    show ?thesis by (rule refresh_keeps [OF that(1) st own [OF that(1,2) st]])
  qed
qed (auto intro: frame revoke remove signed_up repassword, metis create new_hash)

end

text \<open>A fresh hash, revoked everywhere: the guarded update changes no row.\<close>

lemma rotate_revoked: "revoked_hash h d \<Longrightarrow> fst (RotateRefreshToken v i h d) = 0"
  by (auto simp: revoked_hash_def RotateRefreshToken_def claims_row_def filter_empty_conv)

text \<open>When it changes one, that row was the token's only one.\<close>

lemma rotate_one:
  assumes "count_where (\<lambda>t. rt_hash t = h) (idb_tokens d) \<le> 1" and "fst (RotateRefreshToken v i h d) = 1"
  shows "revoked_hash h (snd (RotateRefreshToken v i h d))" and "\<not> revoked_hash h d"
proof -
  let ?live = "filter (claims_row v i h) (idb_tokens d)"
  have "length ?live = 1" using assms(2) by (simp add: RotateRefreshToken_def)
  then obtain t where t: "?live = [t]" by (metis One_nat_def length_Suc_conv length_0_conv)
  then have "t \<in> set ?live" by simp
  then have mem: "t \<in> set (idb_tokens d)" "claims_row v i h t" by simp_all
  then show "\<not> revoked_hash h d" by (auto simp: revoked_hash_def claims_row_def)
  have only: "x = t" if "x \<in> set (idb_tokens d)" "rt_hash x = h" for x
  proof (rule ccontr)
    let ?rows = "filter (\<lambda>t. rt_hash t = h) (idb_tokens d)"
    assume "x \<noteq> t"
    then have two: "card {x, t} = 2" by simp
    have "{x, t} \<subseteq> set ?rows" using that mem by (auto simp: claims_row_def)
    then have "card {x, t} \<le> card (set ?rows)" by (intro card_mono finite_set)
    also have "card (set ?rows) \<le> length ?rows" by (rule card_length)
    finally show False using two assms(1) by (simp add: count_where_def)
  qed
  show "revoked_hash h (snd (RotateRefreshToken v i h d))"
    unfolding revoked_hash_def RotateRefreshToken_def
  proof (intro ballI impI, simp)
    fix y assume y: "y \<in> set (upd_where (claims_row v i h) (rt_revoked_update (\<lambda>_. Some (tx_now v))) (idb_tokens d))" and h: "rt_hash y = h"
    then obtain x where x: "x \<in> set (idb_tokens d)" and yx: "y = (if claims_row v i h x then x\<lparr>rt_revoked := Some (tx_now v)\<rparr> else x)"
      by (auto simp: upd_where_def)
    then have "rt_hash x = h" using h by (simp split: if_splits)
    then have "claims_row v i h x" using only [OF x] mem(2) by simp
    then show "\<exists>w. rt_revoked y = Some w" using yx by simp
  qed
qed

interpretation tok: token_invariant c raw "token_ok c raw" for c raw
proof unfold_locales
  show "token_ok c raw (set_grace ((rd_grace (as_redis s))(g \<mapsto> w)) s)" if "token_ok c raw s" "g \<noteq> ak_hash c raw" for s g w
    using that by (simp add: token_ok_def set_grace_def)
qed (rule token_ok_steps(2-8) token_ok_steps(1); assumption)+

interpretation spent: token_invariant c raw "settled c raw T" for c raw T
proof unfold_locales
  show "settled c raw T (set_grace ((rd_grace (as_redis s))(g \<mapsto> w)) s)" if "settled c raw T s" "g \<noteq> ak_hash c raw" for s g w
    using that by (simp add: settled_def set_grace_def)
qed (rule settled_steps(2-8) settled_steps(1); assumption)+

lemma ends_in_tx:
  assumes body: "ends_in P body (\<lambda>r s. case r of Keep x \<Rightarrow> Q x s | Drop x \<Rightarrow> D x) (\<lambda>_. True)" and calm: "calm body"
    and frame: "\<And>s s'. P s \<Longrightarrow> same_sessions (as_db s) (as_db s') \<Longrightarrow> rd_grace (as_redis s') = rd_grace (as_redis s) \<Longrightarrow> P s'"
    and drop: "\<And>x s. P s \<Longrightarrow> D x \<Longrightarrow> Q x s"
  shows "ends_in P (in_tx e site body) Q P"
  unfolding ends_in_def
proof (intro allI impI)
  fix s r s' assume P: "P s" and run: "in_tx e site body s = (r, s')"
  obtain q s1 where q: "body s = (q, s1)" by (cases "body s")
  have "rd_grace (as_redis s1) = rd_grace (as_redis s)" using calm q by (auto simp: calm_def)
  then have undone: "P (s1\<lparr>as_db := as_db s\<rparr>)" by (intro frame [OF P]) (simp_all add: same_sessions_def)
  have post: "case q of Inl _ \<Rightarrow> True | Inr (Keep x) \<Rightarrow> Q x s1 | Inr (Drop x) \<Rightarrow> D x"
    using body P q unfolding ends_in_def by (metis (mono_tags, lifting) sum.case_eq_if)
  show "case r of Inl _ \<Rightarrow> P s' | Inr x \<Rightarrow> Q x s'"
    using run q P undone drop [OF undone] post by (auto simp: in_tx_def split: if_splits sum.splits tx_end.splits)
qed

lemma rotate_ends_in:
  assumes look: "sees e c raw P S" and others: "stable e P" and later: "stable e D"
    and tx: "\<And>rt i. ends_in P (in_tx e ''Refresh'' (Refresh_tx e c raw rt i)) (\<lambda>b s. if b then D s else P s) P"
    and done_with: "\<And>i a s. D s \<Longrightarrow> S \<lparr>tk_access = a, tk_refresh = av_rand e ''NewRefreshToken''\<rparr>
        (snd (writeRefreshGrace e c raw i \<lparr>tk_access = a, tk_refresh = av_rand e ''NewRefreshToken''\<rparr> s))"
  shows "ends_in P (rotate_token e c raw rt) S P"
proof -
  have win: "ends_in D (abind (others e site) (\<lambda>_. abind (writeRefreshGrace e c raw i \<lparr>tk_access = a, tk_refresh = av_rand e ''NewRefreshToken''\<rparr>)
      (\<lambda>_. ret \<lparr>tk_access = a, tk_refresh = av_rand e ''NewRefreshToken''\<rparr>))) S P" for i a site
  proof -
    have wr: "fst (writeRefreshGrace e c raw i toks s) = Inr ()" for toks s by (simp add: writeRefreshGrace_def)
    show ?thesis
      unfolding ends_in_def
    proof (intro allI impI)
      fix s r s' let ?t = "\<lparr>tk_access = a, tk_refresh = av_rand e ''NewRefreshToken''\<rparr>"
      assume D: "D s" and run: "abind (others e site) (\<lambda>_. abind (writeRefreshGrace e c raw i ?t) (\<lambda>_. ret ?t)) s = (r, s')"
      have "D (av_others e site s)" using later D by (simp add: stable_def)
      from done_with [OF this, of a i] wr [of ?t "av_others e site s"] run show "case r of Inl _ \<Rightarrow> P s' | Inr x \<Rightarrow> S x s'"
        by (cases "writeRefreshGrace e c raw i ?t (av_others e site s)") (auto simp: abind_def others_def)
    qed
  qed
  have lost: "ends_in P (abind (waitRefreshGrace e c site raw) (\<lambda>r. cached_or r (throw ErrInvalidRefresh))) S P" for site
    by (rule ends_in_abind [OF wait_ends_in [OF look others]], rule ends_in_cached, rule ends_in_throw)
  show ?thesis
    unfolding rotate_token_def Let_def
    apply (rule ends_in_abind [OF ends_in_query], rule ends_in_abind [OF ends_in_row_or], rule ends_in_abind [OF ends_in_active],
        rule ends_in_abind [OF ends_in_others [OF others]], rule ends_in_abind [OF tx])
    subgoal for found p u v rotated using win lost by (cases rotated) simp_all
    done
qed

lemma refresh_tx_settled: "ends_in (settled c raw T) (in_tx e site (Refresh_tx e c raw rt i)) (\<lambda>b s. if b then False else settled c raw T s) (settled c raw T)"
proof (rule ends_in_tx [where D = "\<lambda>b. \<not> b"])
  show "ends_in (settled c raw T) (Refresh_tx e c raw rt i)
      (\<lambda>r s. case r of Keep b \<Rightarrow> if b then False else settled c raw T s | Drop b \<Rightarrow> \<not> b) (\<lambda>_. True)"
    unfolding ends_in_def Refresh_tx_def
  proof (intro allI impI)
    fix s r s' assume "settled c raw T s"
      and run: "abind (exec e ''Refresh'' ''Rotate'' (\<lambda>d. Inr (RotateRefreshToken (av_env e) (rt_id rt) (ak_hash c raw) d))) (\<lambda>n.
          if n \<noteq> 1 then ret (Drop False) else abind (exec e ''Refresh'' ''CreateRefreshToken''
            (CreateRefreshToken (av_env e) i (ak_hash c (av_rand e ''NewRefreshToken'')) (now_of e ''Refresh.new'' + ak_refresh_ttl c))) (\<lambda>_. ret (Keep True))) s = (r, s')"
    then have "fst (RotateRefreshToken (av_env e) (rt_id rt) (ak_hash c raw) (as_db s)) = 0" by (simp add: settled_def rotate_revoked)
    then show "case r of Inl _ \<Rightarrow> True | Inr x \<Rightarrow> case x of Keep b \<Rightarrow> if b then False else settled c raw T s' | Drop b \<Rightarrow> \<not> b"
      using run by (auto simp: abind_def exec_def split: if_splits prod.splits)
  qed
qed (auto intro: tok.calm_refresh_tx settled_steps(1))

lemma refresh_settled:
  assumes N: "not_reissued c raw e" and others: "stable e (settled c raw T)"
  shows "ends_in (settled c raw T) (Refresh e c raw) (\<lambda>T' s. T' = T \<and> settled c raw T s) (settled c raw T)"
proof -
  have look: "sees e c raw (settled c raw T) (\<lambda>T' s. T' = T \<and> settled c raw T s)"
    unfolding sees_def
  proof (intro allI impI)
    fix site s toks prof assume "settled c raw T s" and "readRefreshGrace e c site raw s = Some (toks, prof)"
    then show "toks = T \<and> settled c raw T s"
      by (auto simp: settled_def readRefreshGrace_def split: if_splits option.splits)
  qed
  have rotate: "ends_in (settled c raw T) (rotate_token e c raw rt) (\<lambda>T' s. T' = T \<and> settled c raw T s) (settled c raw T)" for rt
    by (rule rotate_ends_in [where D = "\<lambda>_. False", OF look others _ refresh_tx_settled]) (simp_all add: stable_def)
  show ?thesis by (rule refresh_ends_in [OF look others settled_steps(7) settled_steps(2) rotate])
qed

definition spent_token :: "auth_cfg \<Rightarrow> string \<Rightarrow> auth_state \<Rightarrow> bool" where
  "spent_token c raw s \<longleftrightarrow> (\<forall>T. settled c raw T s) \<and> token_ok c raw s"

text \<open>Whoever wins the rotation leaves a spent token without a grace entry behind: settled for whatever is written next.\<close>

lemma refresh_tx_rotates:
  assumes N: "not_reissued c raw e"
  shows "ends_in (token_ok c raw) (in_tx e site (Refresh_tx e c raw rt i)) (\<lambda>b s. if b then spent_token c raw s else token_ok c raw s) (token_ok c raw)"
proof (rule ends_in_tx [where D = "\<lambda>b. \<not> b"])
  let ?h = "ak_hash c raw" and ?new = "CreateRefreshToken (av_env e) i (ak_hash c (av_rand e ''NewRefreshToken'')) (now_of e ''Refresh.new'' + ak_refresh_ttl c)"
  show "ends_in (token_ok c raw) (Refresh_tx e c raw rt i)
      (\<lambda>r s. case r of Keep b \<Rightarrow> if b then spent_token c raw s else token_ok c raw s | Drop b \<Rightarrow> \<not> b) (\<lambda>_. True)"
    unfolding ends_in_def
  proof (intro allI impI)
    fix s r s' assume ok: "token_ok c raw s" and run: "Refresh_tx e c raw rt i s = (r, s')"
    let ?d = "snd (RotateRefreshToken (av_env e) (rt_id rt) ?h (as_db s))"
    show "case r of Inl _ \<Rightarrow> True | Inr x \<Rightarrow> case x of Keep b \<Rightarrow> if b then spent_token c raw s' else token_ok c raw s' | Drop b \<Rightarrow> \<not> b"
    proof (cases "fst (RotateRefreshToken (av_env e) (rt_id rt) ?h (as_db s)) = 1 \<and> (\<exists>u d. ?new ?d = Inr (u, d))")
      case True
      then obtain u d where one: "fst (RotateRefreshToken (av_env e) (rt_id rt) ?h (as_db s)) = 1" and new: "?new ?d = Inr (u, d)" by blast
      have few: "count_where (\<lambda>t. rt_hash t = ?h) (idb_tokens (as_db s)) \<le> 1" using ok by (simp add: token_ok_def)
      have none: "rd_grace (as_redis s) ?h = None" using ok rotate_one(2) [OF few one] unfolding token_ok_def by blast
      have "revoked_hash ?h d" using rotate_one(1) [OF few one] revoked_hash_steps(5) [OF new tok.new_hash [OF N]] by simp
      then have "settled c raw T (s\<lparr>as_db := d\<rparr>)" for T using none by (simp add: settled_def)
      moreover have "token_ok c raw (s\<lparr>as_db := d\<rparr>)"
        using token_ok_steps(4) [OF token_ok_steps(8) [OF ok] _ tok.new_hash [OF N]] new by simp
      ultimately have "spent_token c raw (s\<lparr>as_db := d\<rparr>)" by (simp add: spent_token_def)
      then show ?thesis using run one new by (auto simp: Refresh_tx_def abind_def exec_def split: if_splits prod.splits)
    qed (use run in \<open>auto simp: Refresh_tx_def abind_def exec_def split: if_splits prod.splits sum.splits\<close>)
  qed
qed (auto intro: tok.calm_refresh_tx token_ok_steps(1))

lemma write_settles:
  assumes N: "not_reissued c raw e" and dead: "spent_token c raw s"
  shows "settled c raw T (snd (writeRefreshGrace e c raw i T s)) \<and> token_ok c raw (snd (writeRefreshGrace e c raw i T s))"
proof -
  have rev: "revoked_hash (ak_hash c raw) (as_db s)" using dead by (simp add: settled_def spent_token_def)
  have "T' = T" if "openRefreshGrace c raw (ak_seal c raw (tk_access T, tk_refresh T, i)) = Some (T', p)" for T' p
  proof (cases "ak_open c raw (ak_seal c raw (tk_access T, tk_refresh T, i))")
    case (Some y)
    then have "y = (tk_access T, tk_refresh T, i)" using N by (cases y) (auto simp: not_reissued_def sound_crypto_def)
    then show ?thesis using that Some by (auto simp: openRefreshGrace_def split: if_splits)
  qed (use that in \<open>simp add: openRefreshGrace_def\<close>)
  then show ?thesis using dead rev by (auto simp: writeRefreshGrace_def settled_def set_grace_def spent_token_def token_ok_def)
qed

lemma refresh_settles:
  assumes N: "not_reissued c raw e" and others: "stable e (token_ok c raw)" and later: "\<And>T. stable e (settled c raw T)"
  shows "ends_in (token_ok c raw) (Refresh e c raw) (\<lambda>T s. settled c raw T s \<and> token_ok c raw s) (token_ok c raw)"
proof -
  have look: "sees e c raw (token_ok c raw) (\<lambda>T s. settled c raw T s \<and> token_ok c raw s)"
    unfolding sees_def
  proof (intro allI impI)
    fix site s toks prof assume "token_ok c raw s" and "readRefreshGrace e c site raw s = Some (toks, prof)"
    then show "settled c raw toks s \<and> token_ok c raw s"
      by (auto simp: token_ok_def settled_def readRefreshGrace_def split: if_splits option.splits)
  qed
  have "stable e (spent_token c raw)" using later others by (auto simp: stable_def spent_token_def)
  then have rotate: "ends_in (token_ok c raw) (rotate_token e c raw rt) (\<lambda>T s. settled c raw T s \<and> token_ok c raw s) (token_ok c raw)" for rt
    by (rule rotate_ends_in [OF look others _ refresh_tx_rotates [OF N]]) (rule write_settles [OF N])
  show ?thesis by (rule refresh_ends_in [OF look others token_ok_steps(7) token_ok_steps(2) rotate])
qed

section \<open>Every run keeps both\<close>

interpretation spent_run: session_invariant c "not_reissued c raw" "settled c raw T" "\<lambda>_. True" for c raw T
proof (rule spent.session_invariant_from_token)
  fix e assume N: "not_reissued c raw e" and st: "stable e (settled c raw T)"
  show "keeps (settled c raw T) (Refresh e c raw) (\<lambda>_. True)"
    by (rule keeps_ends_in, rule ends_in_weaken [OF refresh_settled [OF N st]]) simp_all
qed

lemma runs_stable:
  assumes "\<And>site t. auth_run c (not_reissued c raw) t (av_others e site t)"
  shows "stable e (settled c raw T)"
  unfolding stable_def using spent_run.run_keeps [OF assms] by blast

interpretation token_run: session_invariant c "not_reissued c raw" "token_ok c raw" "\<lambda>_. True" for c raw
proof (rule tok.session_invariant_from_token)
  fix e assume N: "not_reissued c raw e" and st: "stable e (token_ok c raw)"
    and runs: "\<And>site t. auth_run c (not_reissued c raw) t (av_others e site t)"
  show "keeps (token_ok c raw) (Refresh e c raw) (\<lambda>_. True)"
    by (rule keeps_ends_in, rule ends_in_weaken [OF refresh_settles [OF N st runs_stable [OF runs]]]) simp_all
qed

text \<open>
  C12: However requests interleave, everybody who is given a successor for one refresh token is given the same one: if a
  refresh succeeds, any run of further requests follows, and the token is refreshed again, successfully, then the second
  answer is the first.
\<close>

theorem refresh_one_successor:
  assumes "token_ok c raw s" and "not_reissued c raw e" and "\<And>site t. auth_run c (not_reissued c raw) t (av_others e site t)"
    and "Refresh e c raw s = (Inr toks, s1)" and "auth_run c (not_reissued c raw) s1 s2"
    and "not_reissued c raw e2" and "\<And>site t. auth_run c (not_reissued c raw) t (av_others e2 site t)"
    and "Refresh e2 c raw s2 = (Inr toks2, s3)"
  shows "toks2 = toks"
proof -
  have "stable e (token_ok c raw)" unfolding stable_def using token_run.run_keeps [OF assms(3)] by blast
  from ends_in_success [OF refresh_settles [OF assms(2) this runs_stable [OF assms(3)]] assms(1,4)]
  have "settled c raw toks s1" by simp
  then have "settled c raw toks s2" by (rule spent_run.run_keeps [OF assms(5)])
  from ends_in_success [OF refresh_settled [OF assms(6) runs_stable [OF assms(7)]] this assms(8)]
  show "toks2 = toks" by simp
qed

definition au_pair :: Tokens where
  "au_pair = \<lparr>tk_access = ''access'', tk_refresh = ''new''\<rparr>"

definition au_after :: auth_state where
  "au_after = snd (Refresh (au_env ''new'' 0) au_cfg ''old'' au_state)"

lemmas refresh_defs = Refresh_def gracePair_def readRefreshGrace_def cached_or_def GetRefreshToken_def claimRefreshRotation_def claim_live_def
  rotate_token_def Auth_Store.GetProfileByID_def Refresh_tx_def RotateRefreshToken_def claims_row_def CreateRefreshToken_def writeRefreshGrace_def Let_def
  set_claims_def set_grace_def day_ns_def hour_def second_def

lemma au_first: "Refresh (au_env ''new'' 0) au_cfg ''old'' au_state = (Inr au_pair, au_after)"
  and au_after_facts: "rd_grace (as_redis au_after) ''old'' = Some (au_seal ''old'' (''access'', ''new'', 1), unix_milli fx_t0 + 45000)"
    "idb_profiles (as_db au_after) = [au_profile]" "find (\<lambda>t. rt_hash t = ''none'') (idb_tokens (as_db au_after)) = None"
  unfolding au_after_def au_pair_def
  by (simp_all add: refresh_defs op_defs au_defs refreshGraceTTL_def go_div_def)

lemma au_crypto: "sound_crypto au_cfg"
  by (simp add: sound_crypto_def au_cfg_def inj_on_def)

lemma au_fresh: "r \<noteq> ''old'' \<Longrightarrow> not_reissued au_cfg ''old'' (au_env r t)"
  using au_crypto by (simp add: not_reissued_def) (simp add: au_env_def)

theorem refresh_one_successor_witness:
  "fst (Refresh (au_env ''other'' (10 * second)) au_cfg ''old'' (serve (au_env ''x'' second) au_cfg (SignOut ''none'') au_after)) = Inr au_pair"
proof -
  let ?mid = "serve (au_env ''x'' second) au_cfg (SignOut ''none'') au_after" and ?e = "au_env ''other'' (10 * second)"
  have mid: "?mid = au_after"
    using au_after_facts by (simp add: serve_def Logout_def GetRefreshToken_def op_defs au_defs)
  have "\<exists>T. Refresh ?e au_cfg ''old'' ?mid = (Inr T, ?mid)"
    unfolding mid using au_after_facts
    by (simp add: Refresh_def gracePair_def readRefreshGrace_def openRefreshGrace_def cached_or_def Auth_Store.GetProfileByID_def op_defs au_defs
        unix_milli_def fx_t0_def second_def)
  then obtain T where again: "Refresh ?e au_cfg ''old'' ?mid = (Inr T, ?mid)" ..
  have ok: "token_ok au_cfg ''old'' au_state" by (simp add: token_ok_def au_defs count_where_def)
  have run: "auth_run au_cfg (not_reissued au_cfg ''old'') au_after ?mid"
    by (rule auth_run_single) (simp_all add: au_fresh run_stop)
  have "T = au_pair"
    by (rule refresh_one_successor [OF ok _ _ au_first run _ _ again]) (simp_all add: au_fresh run_stop)
  then show ?thesis using again by simp
qed

end
