(* ===== verification/Session_Security.thy ===== *)
theory Session_Security
  imports Refresh_Properties
begin

text \<open>
  What the other half of the session rules promises: an account that is banned gets no session any more, whatever way of
  signing in is tried, and a refresh token that comes back after its grace window signs every device of its owner out.
\<close>

section \<open>Banned accounts\<close>

definition session_hashes :: "uuid \<Rightarrow> auth_state \<Rightarrow> string set" where
  "session_hashes i s = rt_hash ` {t \<in> set (idb_tokens (as_db s)). rt_profile t = i}"

definition banned :: "uuid \<Rightarrow> auth_state \<Rightarrow> bool" where
  "banned i s \<longleftrightarrow> (\<forall>p \<in> set (idb_profiles (as_db s)). pf_id p = i \<longrightarrow> pf_status p = ''banned'')"

definition locked_out :: "uuid \<Rightarrow> string set \<Rightarrow> auth_state \<Rightarrow> bool" where
  "locked_out i H s \<longleftrightarrow> banned i s \<and> session_hashes i s \<subseteq> H"

text \<open>Ids of new rows are fresh.\<close>

definition not_its_id :: "uuid \<Rightarrow> auth_env \<Rightarrow> bool" where
  "not_its_id i e \<longleftrightarrow> new_id (av_env e) \<noteq> i"

lemma locked_out_steps:
  assumes "locked_out i H s"
  shows "same_sessions (as_db s) (as_db s') \<Longrightarrow> locked_out i H s'"
    and "locked_out i H (s\<lparr>as_db := RevokeAllRefreshTokens v j (as_db s)\<rparr>)" and "locked_out i H (s\<lparr>as_db := DeleteRefreshToken k (as_db s)\<rparr>)"
    and "CreateRefreshToken v j g exp (as_db s) = Inr (u, d) \<Longrightarrow> j \<noteq> i \<Longrightarrow> locked_out i H (s\<lparr>as_db := d\<rparr>)"
    and "CreateProfile v phone code pw name (as_db s) = Inr (r, d) \<Longrightarrow> new_id v \<noteq> i \<Longrightarrow> locked_out i H (s\<lparr>as_db := d\<rparr>) \<and> pf_id r \<noteq> i"
    and "locked_out i H (s\<lparr>as_db := SetProfilePassword j w b (as_db s)\<rparr>)" and "locked_out i H (set_claims m s)" and "locked_out i H (set_grace g' s)"
    and "locked_out i H (s\<lparr>as_db := snd (RotateRefreshToken v k g (as_db s))\<rparr>)"
  using assms
  by (auto simp: locked_out_def banned_def session_hashes_def same_sessions_def RevokeAllRefreshTokens_def DeleteRefreshToken_def CreateRefreshToken_def
      CreateProfile_def SetProfilePassword_def set_claims_def set_grace_def RotateRefreshToken_def upd_where_def Let_def image_subset_iff split: if_splits)

lemma locked_out_rotation:
  assumes others: "stable e (locked_out i H)"
  shows "ends_in (locked_out i H) (rotate_token e c raw rt) (\<lambda>_. locked_out i H) (locked_out i H)"
proof -
  let ?P = "locked_out i H"
  have sees: "sees e c raw ?P (\<lambda>_. ?P)" by (simp add: sees_def)
  have oth: "keeps ?P (others e site) (\<lambda>_. True)" for site using others by (auto simp: keeps_def others_def stable_def)
  have wait: "keeps ?P (waitRefreshGrace e c site raw) (\<lambda>_. True)" for site
    by (rule keeps_ends_in, rule ends_in_weaken [OF wait_ends_in [OF sees others]]) (auto simp: found_or_def split: option.splits)
  have grace: "keeps ?P (writeRefreshGrace e c raw j toks) (\<lambda>_. True)" for j toks
    by (auto simp: keeps_def writeRefreshGrace_def locked_out_steps(8))
  have owner: "keeps ?P (query e site st (GetProfileByID j)) (\<lambda>r. \<forall>p. r = Some p \<longrightarrow> pf_id p = i \<longrightarrow> pf_status p = ''banned'')" for site st j
    by (rule keeps_query) (use query_mem(1) in \<open>fastforce simp: locked_out_def banned_def\<close>)
  have tx: "keeps ?P (Refresh_tx e c raw rt j) (\<lambda>_. True)" if "j \<noteq> i" for j
    unfolding Refresh_tx_def
    apply (rule keeps_any [OF keeps_exec])
     apply (metis Inr_inject locked_out_steps(9) snd_conv)
    apply (intro keeps_if keeps_ret keeps_any [OF keeps_exec] TrueI)
    apply (simp add: locked_out_steps(4) [OF _ _ that])
    done
  have calm: "calm (Refresh_tx e c raw rt j)" for j
    unfolding Refresh_tx_def by (auto intro!: calm_intros)
  have "keeps ?P (rotate_token e c raw rt) (\<lambda>_. True)"
    unfolding rotate_token_def cached_or_def Let_def
    apply (rule keeps_abind [OF owner], rule keeps_bind_row_or, rule keeps_bind_active, rule keeps_any [OF oth], rule keeps_any [OF keeps_in_tx_of])
       apply (erule (1) locked_out_steps(1))
      apply (rule tx, simp)
     apply (rule calm)
    apply (intro keeps_if keeps_any [OF wait] keeps_option keeps_any [OF oth] keeps_any [OF grace] keeps_ret keeps_throw TrueI)
    done
  then show ?thesis by (rule ends_in_weaken [OF ends_in_keeps]) auto
qed

lemma stable_by: "(\<And>site t. P t \<Longrightarrow> P (av_others e site t)) \<Longrightarrow> stable e P"
  by (simp add: stable_def)

interpretation lock: session_invariant c "not_its_id i" "locked_out i H" "\<lambda>p. pf_id p = i \<longrightarrow> pf_status p = ''banned''" for c i H
proof unfold_locales
  show "locked_out i H s \<Longrightarrow> p \<in> set (idb_profiles (as_db s)) \<Longrightarrow> pf_id p = i \<longrightarrow> pf_status p = ''banned''" for s p
    by (simp add: locked_out_def banned_def)
  show "not_its_id i e \<Longrightarrow> locked_out i H s \<Longrightarrow> CreateProfile (av_env e) phone code pw name (as_db s) = Inr (p, d)
      \<Longrightarrow> locked_out i H (s\<lparr>as_db := d\<rparr>) \<and> (pf_id p = i \<longrightarrow> pf_status p = ''banned'')" for e s phone code pw name p d
    using locked_out_steps(5) [of i H s "av_env e" phone code pw name p d] by (simp add: not_its_id_def)
  show "keeps (locked_out i H) (Refresh e c raw) (\<lambda>_. True)"
    if "not_its_id i e" "\<And>site t. auth_run c (not_its_id i) t (av_others e site t)" and o: "\<And>site t. locked_out i H t \<Longrightarrow> locked_out i H (av_others e site t)" for e raw
  proof (rule keeps_ends_in, rule refresh_ends_in)
    show "sees e c raw (locked_out i H) (\<lambda>_. locked_out i H)" by (simp add: sees_def)
    show "stable e (locked_out i H)" using o by (rule stable_by)
    then show "ends_in (locked_out i H) (rotate_token e c raw rt) (\<lambda>_. locked_out i H) (locked_out i H)" for rt
      by (rule locked_out_rotation)
  qed (simp_all add: locked_out_steps)
qed (auto simp: locked_out_steps intro: locked_out_steps)

text \<open>
  C13: A ban closes every way in: no request that begins after the account was banned adds a refresh token for it, whatever
  way of signing in it uses and however such requests interleave, and none of them lifts the ban. (A request that was already
  past its own check of the account when the ban came can still add one, see \<open>login_outruns_ban\<close>.)
\<close>

theorem banned_account_locked_out:
  assumes "banned i s" and "auth_run c (not_its_id i) s s'"
  shows "session_hashes i s' \<subseteq> session_hashes i s \<and> banned i s'"
proof -
  have "locked_out i (session_hashes i s) s" using assms(1) by (simp add: locked_out_def)
  then have "locked_out i (session_hashes i s) s'" by (rule lock.run_keeps [OF assms(2)])
  then show ?thesis by (simp add: locked_out_def)
qed

definition au_banned :: auth_state where
  "au_banned = au_state\<lparr>as_db := au_db\<lparr>idb_profiles := [au_profile\<lparr>pf_status := ''banned''\<rparr>]\<rparr>\<rparr>"

definition au_login :: LoginInput where
  "au_login = \<lparr>li_phone = ''901234567'', li_password = ''password1'', li_ip = '''', li_init_data = '''', li_contact = ''''\<rparr>"

theorem banned_account_locked_out_witness:
  "session_hashes 1 (serve (au_env ''new'' 0) au_cfg (SignIn au_login) au_banned) \<subseteq> {''old''}"
proof -
  let ?e = "au_env ''new'' 0"
  have run: "auth_run au_cfg (not_its_id 1) au_banned (serve ?e au_cfg (SignIn au_login) au_banned)"
    by (rule auth_run_single) (simp_all add: run_stop, simp add: not_its_id_def au_defs)
  have ban: "banned 1 au_banned" by (simp add: banned_def au_banned_def au_defs)
  have "session_hashes 1 au_banned \<subseteq> {''old''}"
    unfolding session_hashes_def au_banned_def au_state_def au_db_def au_token_def by auto
  with banned_account_locked_out [OF ban run] show ?thesis by auto
qed

text \<open>
  Login reads the account before its transaction begins and does not look at it again: a ban that comes in between
  is not seen, and the session that the request opens stays usable (\<open>Refresh\<close> likewise between its check and its rotation).
\<close>

definition au_outrun :: auth_env where
  "au_outrun = (au_env ''new'' 0)\<lparr>av_others := (\<lambda>site s. if site = ''Login'' then au_banned else s)\<rparr>"

lemma login_outruns_ban:
  "\<exists>v s'. Login au_outrun au_cfg au_login au_state = (Inr v, s') \<and> banned 1 s' \<and> session_hashes 1 s' = {''old'', ''new''}"
proof -
  have phone: "NormalizePhone ''901234567'' = Some ''+998901234567''" by code_simp
  have ok: "fails au_outrun site st = False" "av_others au_outrun ''Login'' u = au_banned" "CheckPassword au_cfg ''password1'' ''password1''"
    "pf_password au_profile = Some ''password1''" "pf_status au_profile = ''active''" for site st u
    by (simp_all add: fails_def CheckPassword_def, simp_all add: au_outrun_def au_defs)
  have "fst (rateLimitAuth au_outrun au_cfg ''login'' ''+998901234567'' '''' au_state) = Inr ()"
    by (simp add: rateLimitAuth_def allow_or_def lim_allow_def Allow_def Hit_def allowScript_def live_count_def abind_def ok Let_def)
      (simp add: au_state_def)
  then obtain t where rate: "rateLimitAuth au_outrun au_cfg ''login'' ''+998901234567'' '''' au_state = (Inr (), t)"
    by (metis prod.collapse)
  have "as_db t = au_db" using rate
    by (auto simp: rateLimitAuth_def allow_or_def abind_def au_state_def dest: lim_allow_frame split: prod.splits sum.splits if_splits)
  then have who: "GetProfileByPhone ''+998901234567'' (as_db t) = Some au_profile"
    by (simp add: GetProfileByPhone_def au_db_def au_profile_def)
  have "Login au_outrun au_cfg au_login au_state = in_tx au_outrun ''Login''
      (abind (issueSession au_outrun au_cfg au_profile) (\<lambda>toks. abind (linkTelegramInTx au_outrun au_cfg au_profile '''' '''')
        (\<lambda>link. ret (Keep \<lparr>vr_tokens = toks, vr_profile = au_profile, vr_created = False, vr_linked = lc_linked link\<rparr>)))) au_banned"
    by (simp add: Login_def au_login_def phone abind_def [of "rateLimitAuth a b x y z" for a b x y z] rate)
      (simp add: abind_def query_def row_or_def active_or_def assertProfileActive_def others_def who ok)
  moreover have "\<exists>v s'. in_tx au_outrun ''Login''
      (abind (issueSession au_outrun au_cfg au_profile) (\<lambda>toks. abind (linkTelegramInTx au_outrun au_cfg au_profile '''' '''')
        (\<lambda>link. ret (Keep \<lparr>vr_tokens = toks, vr_profile = au_profile, vr_created = False, vr_linked = lc_linked link\<rparr>)))) au_banned = (Inr v, s')
      \<and> map (\<lambda>p. (pf_id p, pf_status p)) (idb_profiles (as_db s')) = [(1, ''banned'')]
      \<and> map (\<lambda>t. (rt_profile t, rt_hash t)) (idb_tokens (as_db s')) = [(1, ''old''), (1, ''new'')]"
    by (simp add: op_defs issueSession_def CreateRefreshToken_def linkTelegramInTx_def au_outrun_def au_banned_def au_defs)
  ultimately have "\<exists>v s'. Login au_outrun au_cfg au_login au_state = (Inr v, s')
      \<and> map (\<lambda>p. (pf_id p, pf_status p)) (idb_profiles (as_db s')) = [(1, ''banned'')]
      \<and> map (\<lambda>t. (rt_profile t, rt_hash t)) (idb_tokens (as_db s')) = [(1, ''old''), (1, ''new'')]" by metis
  then obtain v s' where run: "Login au_outrun au_cfg au_login au_state = (Inr v, s')"
    and ps: "map (\<lambda>p. (pf_id p, pf_status p)) (idb_profiles (as_db s')) = [(1, ''banned'')]"
    and ts: "map (\<lambda>t. (rt_profile t, rt_hash t)) (idb_tokens (as_db s')) = [(1, ''old''), (1, ''new'')]" by (elim exE conjE) (rule that)
  from ps have "banned 1 s'" by (auto simp: banned_def map_eq_Cons_conv)
  moreover from ts have "session_hashes 1 s' = {''old'', ''new''}" by (auto simp: session_hashes_def map_eq_Cons_conv image_iff; metis)
  ultimately show ?thesis using run by blast
qed

section \<open>Reuse of a refresh token\<close>

text \<open>Neither a sealed pair nor a claim for the token is alive at any clock reading of the request.\<close>

definition lapsed :: "auth_cfg \<Rightarrow> string \<Rightarrow> auth_env \<Rightarrow> auth_state \<Rightarrow> bool" where
  "lapsed c raw e s \<longleftrightarrow> (\<forall>site. \<not> claim_live e site (ak_hash c raw) s
     \<and> (\<forall>sealed exp. rd_grace (as_redis s) (ak_hash c raw) = Some (sealed, exp) \<longrightarrow> exp \<le> redis_ms e site))"

definition all_revoked :: "uuid \<Rightarrow> auth_state \<Rightarrow> bool" where
  "all_revoked i s \<longleftrightarrow> (\<forall>t \<in> set (idb_tokens (as_db s)). rt_profile t = i \<longrightarrow> rt_revoked t \<noteq> None)"

lemma lapsed_grace: "lapsed c raw e s \<Longrightarrow> gracePair e c site raw s = (Inr None, s)"
  by (auto simp: gracePair_def observe_def readRefreshGrace_def lapsed_def split: option.split)

lemma all_revoked_after: "all_revoked i (s\<lparr>as_db := RevokeAllRefreshTokens v i (as_db s)\<rparr>)"
  by (simp add: all_revoked_def RevokeAllRefreshTokens_def upd_where_def ball_Un)

lemma reuse_refused:
  assumes "GetRefreshToken (ak_hash c raw) (as_db s) = Some rt" and "rt_revoked rt \<noteq> None" and "lapsed c raw e s" and "\<And>site st. \<not> fails e site st"
  shows "Refresh e c raw s = (Inl ErrReusedRefresh, s\<lparr>as_db := RevokeAllRefreshTokens (av_env e) (rt_profile rt) (as_db s)\<rparr>)"
proof -
  have "\<not> refreshClaimHeld e c raw s" using assms(3) by (simp add: refreshClaimHeld_def lapsed_def)
  then have "reused_token e c raw rt s = (Inl ErrReusedRefresh, s\<lparr>as_db := RevokeAllRefreshTokens (av_env e) (rt_profile rt) (as_db s)\<rparr>)"
    by (simp add: reused_token_def cached_or_def abind_def lapsed_grace [OF assms(3)] observe_def exec_def assms(4))
  then show ?thesis
    by (simp add: Refresh_def abind_def lapsed_grace [OF assms(3)] cached_or_def query_def row_or_def assms(1,2,4))
qed

text \<open>
  C14: A stolen refresh token is noticed: once a refresh of it has succeeded, and after any run of further requests, whoever
  presents the token when its grace entry and its claim have lapsed gets the reuse error, and every session of the owner is
  revoked (with no database fault during that request, and the token's row still there).
\<close>

theorem replay_signs_everybody_out:
  assumes "token_ok c raw s" and "not_reissued c raw e" and "\<And>site t. auth_run c (not_reissued c raw) t (av_others e site t)"
    and "Refresh e c raw s = (Inr toks, s1)" and "auth_run c (not_reissued c raw) s1 s2"
    and "GetRefreshToken (ak_hash c raw) (as_db s2) = Some rt" and "lapsed c raw e2 s2" and "\<And>site st. \<not> fails e2 site st"
  shows "\<exists>s3. Refresh e2 c raw s2 = (Inl ErrReusedRefresh, s3) \<and> all_revoked (rt_profile rt) s3"
proof -
  have "stable e (token_ok c raw)" unfolding stable_def using token_run.run_keeps [OF assms(3)] by blast
  from ends_in_success [OF refresh_settles [OF assms(2) this runs_stable [OF assms(3)]] assms(1,4)]
  have "settled c raw toks s1" by simp
  then have "settled c raw toks s2" by (rule spent_run.run_keeps [OF assms(5)])
  then have "rt_revoked rt \<noteq> None"
    using assms(6) by (auto simp: settled_def revoked_hash_def GetRefreshToken_def find_Some_iff)
  from reuse_refused [OF assms(6) this assms(7,8)] show ?thesis using all_revoked_after by blast
qed

theorem replay_signs_everybody_out_witness:
  "\<exists>s3. Refresh (au_env ''z'' hour) au_cfg ''old'' au_after = (Inl ErrReusedRefresh, s3) \<and> all_revoked 1 s3"
proof -
  have ok: "token_ok au_cfg ''old'' au_state" by (simp add: token_ok_def au_defs count_where_def)
  have row: "GetRefreshToken (ak_hash au_cfg ''old'') (as_db au_after) = Some (au_token\<lparr>rt_revoked := Some fx_t0\<rparr>)"
    unfolding au_after_def by (simp add: refresh_defs op_defs au_defs refreshGraceTTL_def go_div_def)
  have claim: "rd_claims (as_redis au_after) ''old'' = Some (unix_milli fx_t0 + 15000)"
    unfolding au_after_def by (simp add: refresh_defs op_defs au_defs refreshGraceTTL_def go_div_def)
  have lapsed: "lapsed au_cfg ''old'' (au_env ''z'' hour) au_after"
    using au_after_facts(1) claim
    by (simp add: lapsed_def claim_live_def redis_ms_def au_cfg_def, simp add: au_env_def unix_milli_def fx_t0_def hour_def second_def)
  have calm: "\<not> fails (au_env ''z'' hour) site st" for site st by (simp add: fails_def au_defs)
  have fresh: "not_reissued au_cfg ''old'' (au_env ''new'' 0)" by (simp add: au_fresh)
  have "\<exists>s3. Refresh (au_env ''z'' hour) au_cfg ''old'' au_after = (Inl ErrReusedRefresh, s3)
      \<and> all_revoked (rt_profile (au_token\<lparr>rt_revoked := Some fx_t0\<rparr>)) s3"
    by (rule replay_signs_everybody_out [OF ok fresh _ au_first run_stop row lapsed calm]) (simp add: run_stop)
  then show ?thesis by (simp add: au_token_def)
qed

end
