(* ===== verification/Login_Properties.thy ===== *)
theory Login_Properties
  imports Login_Logic Session_Security
begin

text \<open>
  Signing in through the bot: a login request is worth one session, and it belongs to the Telegram user who opened it first.
\<close>

lemma all_upd_where: "(\<forall>r \<in> set (upd_where b f rows). Q r) \<longleftrightarrow> (\<forall>r \<in> set rows. Q (if b r then f r else r))"
  by (auto simp: upd_where_def)

lemma upd_keeps: "\<forall>r \<in> set rows. Q r \<Longrightarrow> (\<And>r. b r \<Longrightarrow> Q r \<Longrightarrow> Q (f r)) \<Longrightarrow> \<forall>r \<in> set (upd_where b f rows). Q r"
  by (auto simp: upd_where_def)

lemmas login_statement_defs = ClearAllTelegramLoginPendingForTg_def DeleteStaleTelegramLoginRequests_def CreateTelegramLoginRequest_def
  ConsumeTelegramLoginRequest_def ClearTelegramLoginPendingForTg_def ArmTelegramLoginForTg_def AskTelegramLoginConfirmAfterContact_def
  ApproveTelegramLoginRequest_def EndTelegramLoginRequest_def disarm_login_def

section \<open>One session per request\<close>

text \<open>The token is unique, and the request has ended.\<close>

definition one_request :: "string \<Rightarrow> auth_state \<Rightarrow> bool" where
  "one_request h s \<longleftrightarrow> count_where (\<lambda>r. tl_token r = h) (idb_logins (as_db s)) \<le> 1"

definition request_over :: "string \<Rightarrow> auth_state \<Rightarrow> bool" where
  "request_over h s \<longleftrightarrow> (\<forall>r \<in> set (idb_logins (as_db s)). tl_token r = h \<longrightarrow> tl_status r \<noteq> ''pending'' \<and> tl_status r \<noteq> ''approved'')"

text \<open>The random token of a new request is none that was handed out before.\<close>

definition new_login_token :: "auth_cfg \<Rightarrow> string \<Rightarrow> auth_env \<Rightarrow> bool" where
  "new_login_token c token e \<longleftrightarrow> ak_hash c (av_rand e ''login.token'') \<noteq> ak_hash c token"

lemma count_upd: "(\<And>r. tl_token (f r) = tl_token r) \<Longrightarrow> count_where (\<lambda>r. tl_token r = h) (upd_where b f rows) = count_where (\<lambda>r. tl_token r = h) rows"
  by (rule count_map) simp

lemma one_request_filter: "count_where Q rows \<le> (1 :: nat) \<Longrightarrow> count_where Q (filter b rows) \<le> 1"
  by (rule le_trans [OF count_filter])

interpretation one: login_statements "one_request (ak_hash c token)" c "new_login_token c token" for c token
proof unfold_locales
  show "one_request (ak_hash c token) (s\<lparr>as_db := d\<rparr>)"
    if "new_login_token c token e" and "one_request (ak_hash c token) s"
      and "CreateTelegramLoginRequest (av_env e) (ak_hash c (av_rand e ''login.token'')) secret dev exp (as_db s) = Inr (x, d)" for e s secret dev exp x d
    using that by (auto simp: one_request_def new_login_token_def count_where_def CreateTelegramLoginRequest_def split: if_splits)
qed (auto simp: one_request_def login_statement_defs Let_def count_upd one_request_filter simp del: One_nat_def split: if_splits)

interpretation over: login_statements "request_over (ak_hash c token)" c "new_login_token c token" for c token
proof unfold_locales
  show "request_over (ak_hash c token) (s\<lparr>as_db := d\<rparr>)"
    if "new_login_token c token e" and "request_over (ak_hash c token) s"
      and "CreateTelegramLoginRequest (av_env e) (ak_hash c (av_rand e ''login.token'')) secret dev exp (as_db s) = Inr (x, d)" for e s secret dev exp x d
    using that by (auto simp: request_over_def new_login_token_def CreateTelegramLoginRequest_def split: if_splits)
  show "request_over (ak_hash c token) (s\<lparr>as_db := snd (EndTelegramLoginRequest i st (as_db s))\<rparr>)" if "request_over (ak_hash c token) s" for s i st
    using that by (simp add: request_over_def EndTelegramLoginRequest_def disarm_login_def all_upd_where Let_def) blast
  show "request_over (ak_hash c token) (s\<lparr>as_db := d\<rparr>)"
    if "request_over (ak_hash c token) s" and "ArmTelegramLoginForTg i u nn (as_db s) = Inr (x, d)" for s i u nn x d
    using that by (auto simp: request_over_def ArmTelegramLoginForTg_def upd_where_def split: if_splits)
qed (auto simp: request_over_def login_statement_defs Let_def all_upd_where split: if_splits)

lemma same_row:
  assumes "count_where Q rows \<le> (1 :: nat)" and "x \<in> set rows" "Q x" "y \<in> set rows" "Q y"
  shows "x = y"
proof -
  have "x \<in> set (filter Q rows)" "y \<in> set (filter Q rows)" using assms by simp_all
  moreover have "length (filter Q rows) \<le> 1" using assms(1) by (simp add: count_where_def)
  ultimately show ?thesis by (cases "filter Q rows") (auto simp: le_Suc_eq)
qed

text \<open>What a successful completion met, at the moment of its transaction.\<close>

lemma complete_success:
  assumes "CompleteTelegramLogin e c token secret ip s = (Inr v, s1)"
  obtains t t0 where "as_db t = as_db s" and "t0 = av_others e ''CompleteTelegramLogin'' t" and "Complete_tx e c token secret t0 = (Inr (Keep v), s1)"
proof -
  have never: "Complete_tx e c token secret x \<noteq> (Inr (Drop v), y)" for x y
    by (auto simp: Complete_tx_def Let_def abind_Inr_iff query_Inr_iff split: if_splits option.splits)
  obtain t where t: "allow_or e ''CompleteTelegramLogin.token'' (''tglogin:complete:'' @ ak_hash c token) 10 (10 * minute_ns) s = (Inr (), t)"
    and tx: "in_tx e ''CompleteTelegramLogin'' (Complete_tx e c token secret) (av_others e ''CompleteTelegramLogin'' t) = (Inr v, s1)"
    using assms
    by (auto simp: CompleteTelegramLogin_def login_enabled_or_def observe_def abind_Inr_iff query_Inr_iff others_def split: if_splits option.splits)
  from tx have "Complete_tx e c token secret (av_others e ''CompleteTelegramLogin'' t) = (Inr (Keep v), s1)"
    using never by (auto simp: in_tx_Inr_iff)
  with allow_or_frame(1) [OF t] that show ?thesis by blast
qed

lemma complete_tx_success:
  assumes "Complete_tx e c token secret t = (Inr (Keep v), s1)"
  obtains row t1 where "row \<in> set (idb_logins (as_db t))" and "tl_token row = ak_hash c token" and "browserOwns c row secret" and "tl_status row = ''approved''"
    and "idb_logins (as_db t1) = idb_logins (as_db t)" and "s1 = t1\<lparr>as_db := snd (ConsumeTelegramLoginRequest (tl_id row) (as_db t1))\<rparr>"
proof -
  obtain row prof p toks t1 d where "GetTelegramLoginRequestByTokenHash (ak_hash c token) (as_db t) = Some row" "browserOwns c row secret"
      "telegramLoginCompletable row (now_of e ''CompleteTelegramLogin'')" "tl_profile row = Some prof"
    and issue: "issueSession e c p t = (Inr toks, t1)" and d: "ConsumeTelegramLoginRequest (tl_id row) (as_db t1) = (1, d)" "s1 = t1\<lparr>as_db := d\<rparr>"
    using assms
    by (auto simp: Complete_tx_def Let_def abind_Inr_iff query_Inr_iff exec_Inr_iff row_or_def split: if_splits option.splits)
  moreover have "idb_logins (as_db t1) = idb_logins (as_db t)"
    using issue by (auto simp: issueSession_def active_or_def abind_Inr_iff exec_Inr_iff CreateRefreshToken_def split: if_splits option.splits)
  ultimately show ?thesis
    using that [of row t1] by (auto simp: GetTelegramLoginRequestByTokenHash_def find_Some_iff telegramLoginCompletable_def)
qed

text \<open>
  C15: A login through the bot is worth one session: once a browser has completed a login request, whatever requests follow
  and however they interleave, completing it again fails, with the right secret too.
\<close>

theorem telegram_login_completes_once:
  assumes "one_request (ak_hash c token) s" and "\<And>site t. auth_run c (new_login_token c token) t (av_others e site t)"
    and "CompleteTelegramLogin e c token secret ip s = (Inr v, s1)" and "auth_run c (new_login_token c token) s1 s2"
    and "\<And>site t. auth_run c (new_login_token c token) t (av_others e2 site t)"
    and "CompleteTelegramLogin e2 c token secret2 ip2 s2 = (r, s3)"
  shows "\<exists>err. r = Inl err"
proof (rule ccontr)
  assume "\<not> ?thesis"
  then obtain v2 where r: "r = Inr v2" by (cases r) auto
  obtain t t0 where t: "as_db t = as_db s" "t0 = av_others e ''CompleteTelegramLogin'' t" "Complete_tx e c token secret t0 = (Inr (Keep v), s1)"
    using complete_success [OF assms(3)] .
  have "one_request (ak_hash c token) t" using assms(1) by (simp add: one_request_def t(1))
  then have unique: "one_request (ak_hash c token) t0" unfolding t(2) by (rule one.run_keeps [OF assms(2)])
  obtain row t1 where row: "row \<in> set (idb_logins (as_db t0))" "tl_token row = ak_hash c token" "tl_status row = ''approved''"
      "idb_logins (as_db t1) = idb_logins (as_db t0)" "s1 = t1\<lparr>as_db := snd (ConsumeTelegramLoginRequest (tl_id row) (as_db t1))\<rparr>"
    using complete_tx_success [OF t(3)] by metis
  have only: "r = row" if "r \<in> set (idb_logins (as_db t0))" "tl_token r = ak_hash c token" for r
    by (rule same_row [OF unique [unfolded one_request_def] that row(1,2)])
  have "request_over (ak_hash c token) s1"
    unfolding request_over_def row(5)
    by (simp add: ConsumeTelegramLoginRequest_def row(4) Let_def all_upd_where) (use only row(3) in blast)
  then have over2: "request_over (ak_hash c token) s2" by (rule over.run_keeps [OF assms(4)])
  obtain q q0 where q: "as_db q = as_db s2" "q0 = av_others e2 ''CompleteTelegramLogin'' q" "Complete_tx e2 c token secret2 q0 = (Inr (Keep v2), s3)"
    using complete_success [OF assms(6) [unfolded r]] .
  have "request_over (ak_hash c token) q" using over2 by (simp add: request_over_def q(1))
  then have "request_over (ak_hash c token) q0" unfolding q(2) by (rule over.run_keeps [OF assms(5)])
  then show False using complete_tx_success [OF q(3)] by (metis request_over_def)
qed

definition au_request :: tglogin_row where
  "au_request = \<lparr>tl_id = 70, tl_token = ''tok'', tl_secret = ''sec'', tl_device = '''', tl_status = ''approved'', tl_pending = None, tl_nonce = None,
     tl_profile = Some 1, tl_approver = Some 777, tl_opened = Some 777, tl_contact = None, tl_expires = fx_t0 + 300 * second, tl_created = fx_t0\<rparr>"

definition au_approved :: auth_state where
  "au_approved = au_state\<lparr>as_db := au_db\<lparr>idb_logins := [au_request]\<rparr>\<rparr>"

definition au_completed :: auth_state where
  "au_completed = snd (CompleteTelegramLogin (au_env ''new'' 0) au_cfg ''tok'' ''sec'' '''' au_approved)"

lemmas complete_defs = CompleteTelegramLogin_def Complete_tx_def Let_def login_enabled_or_def telegramLoginEnabled_def browserOwns_def telegramLoginCompletable_def
  telegramLoginLive_def telegramLoginCompleteGrace_def minute_ns_def GetTelegramLoginRequestByTokenHash_def Auth_Store.GetProfileByID_def issueSession_def
  CreateRefreshToken_def ConsumeTelegramLoginRequest_def count_where_def allow_or_def lim_allow_def ip_allow_def Allow_def Hit_def allowScript_def live_count_def set_limits_def

lemma au_completes: "\<exists>v. CompleteTelegramLogin (au_env ''new'' 0) au_cfg ''tok'' ''sec'' '''' au_approved = (Inr v, au_completed)"
proof -
  have "trim_space ''tok'' = ''tok''" by code_simp
  then have "\<exists>v s1. CompleteTelegramLogin (au_env ''new'' 0) au_cfg ''tok'' ''sec'' '''' au_approved = (Inr v, s1)"
    by (simp add: complete_defs op_defs au_approved_def au_request_def au_defs second_def go_div_def)
  then show ?thesis unfolding au_completed_def by (metis snd_conv)
qed

theorem telegram_login_completes_once_witness:
  "\<exists>err. fst (CompleteTelegramLogin (au_env ''newer'' second) au_cfg ''tok'' ''sec'' '''' au_completed) = Inl err"
proof -
  obtain v where first: "CompleteTelegramLogin (au_env ''new'' 0) au_cfg ''tok'' ''sec'' '''' au_approved = (Inr v, au_completed)"
    using au_completes by blast
  obtain r s3 where again: "CompleteTelegramLogin (au_env ''newer'' second) au_cfg ''tok'' ''sec'' '''' au_completed = (r, s3)"
    by (cases "CompleteTelegramLogin (au_env ''newer'' second) au_cfg ''tok'' ''sec'' '''' au_completed")
  have "one_request (ak_hash au_cfg ''tok'') au_approved" by (simp add: one_request_def count_where_def au_approved_def)
  from telegram_login_completes_once [OF this _ first run_stop _ again] show ?thesis unfolding again by (simp add: run_stop)
qed

section \<open>Whose request it is\<close>

text \<open>Every row with the id \<open>i\<close> belongs to the Telegram user \<open>u\<close>.\<close>

definition belongs_to :: "int \<Rightarrow> tglogin_row \<Rightarrow> bool" where
  "belongs_to u r \<longleftrightarrow> tl_opened r = Some u \<and> tl_pending r \<in> {None, Some u}
     \<and> (tl_status r \<in> {''approved'', ''consumed''} \<longrightarrow> tl_approver r = Some u \<and> tl_profile r \<noteq> None)"

definition owned :: "uuid \<Rightarrow> int \<Rightarrow> auth_state \<Rightarrow> bool" where
  "owned i u s \<longleftrightarrow> (\<forall>r \<in> set (idb_logins (as_db s)). tl_id r = i \<longrightarrow> belongs_to u r)"

lemma owned_upd:
  assumes "owned i u s" and "\<And>r. b r \<Longrightarrow> tl_id r = i \<Longrightarrow> belongs_to u r \<Longrightarrow> belongs_to u (f r)" and "\<And>r. tl_id (f r) = tl_id r"
  shows "owned i u (s\<lparr>as_db := d\<lparr>idb_logins := upd_where b f (idb_logins (as_db s))\<rparr>\<rparr>)"
  using assms by (auto simp: owned_def upd_where_def)

interpretation own_table: login_cleared "owned i u" for i u
proof unfold_locales
  show "owned i u (s\<lparr>as_db := ClearAllTelegramLoginPendingForTg v (as_db s)\<rparr>)" if "owned i u s" for s v
    unfolding ClearAllTelegramLoginPendingForTg_def by (rule owned_upd [OF that]) (auto simp: belongs_to_def disarm_login_def)
qed (simp add: owned_def)

lemma owned_steps:
  assumes "owned i u s"
  shows "owned i u (s\<lparr>as_db := snd (ConsumeTelegramLoginRequest j (as_db s))\<rparr>)"
    and "owned i u (s\<lparr>as_db := ClearTelegramLoginPendingForTg v j (as_db s)\<rparr>)"
    and "owned i u (s\<lparr>as_db := snd (EndTelegramLoginRequest j ''cancelled'' (as_db s))\<rparr>)"
    and "owned i u (s\<lparr>as_db := snd (EndTelegramLoginRequest j ''blocked'' (as_db s))\<rparr>)"
    and "AskTelegramLoginConfirmAfterContact j non ph (as_db s) = Inr (y, d) \<Longrightarrow> owned i u (s\<lparr>as_db := d\<rparr>)"
    and "ArmTelegramLoginForTg j v nn (as_db s) = Inr (x, d) \<Longrightarrow> (j = i \<Longrightarrow> v = u) \<Longrightarrow> owned i u (s\<lparr>as_db := d\<rparr>)"
    and "(j = i \<Longrightarrow> v = u) \<Longrightarrow> owned i u (s\<lparr>as_db := snd (ApproveTelegramLoginRequest j prof v (as_db s))\<rparr>)"
proof -
  note upd = owned_upd [OF assms]
  show "owned i u (s\<lparr>as_db := snd (ConsumeTelegramLoginRequest j (as_db s))\<rparr>)"
    unfolding ConsumeTelegramLoginRequest_def Let_def snd_conv by (rule upd) (auto simp: belongs_to_def)
  show "owned i u (s\<lparr>as_db := ClearTelegramLoginPendingForTg v j (as_db s)\<rparr>)"
    unfolding ClearTelegramLoginPendingForTg_def by (rule upd) (auto simp: belongs_to_def disarm_login_def)
  show "owned i u (s\<lparr>as_db := snd (EndTelegramLoginRequest j ''cancelled'' (as_db s))\<rparr>)" "owned i u (s\<lparr>as_db := snd (EndTelegramLoginRequest j ''blocked'' (as_db s))\<rparr>)"
    unfolding EndTelegramLoginRequest_def Let_def snd_conv by (rule upd; auto simp: belongs_to_def disarm_login_def)+
  show "AskTelegramLoginConfirmAfterContact j non ph (as_db s) = Inr (y, d) \<Longrightarrow> owned i u (s\<lparr>as_db := d\<rparr>)"
    by (auto simp: AskTelegramLoginConfirmAfterContact_def Let_def belongs_to_def split: if_splits intro!: upd)
  show "ArmTelegramLoginForTg j v nn (as_db s) = Inr (x, d) \<Longrightarrow> (j = i \<Longrightarrow> v = u) \<Longrightarrow> owned i u (s\<lparr>as_db := d\<rparr>)"
    by (auto simp: ArmTelegramLoginForTg_def belongs_to_def split: if_splits intro!: upd)
  show "(j = i \<Longrightarrow> v = u) \<Longrightarrow> owned i u (s\<lparr>as_db := snd (ApproveTelegramLoginRequest j prof v (as_db s))\<rparr>)"
    unfolding ApproveTelegramLoginRequest_def Let_def snd_conv by (rule upd) (auto simp: belongs_to_def disarm_login_def)
qed

lemma pair_exec: "(\<And>s. P s \<Longrightarrow> P (s\<lparr>as_db := snd (f (as_db s))\<rparr>)) \<Longrightarrow> keeps P (exec e site st (\<lambda>d. Inr (f d))) (\<lambda>_. True)"
  by (rule keeps_exec) (metis Inr_inject snd_conv)

lemma owned_exec:
  "keeps (owned i u) (exec e site st (\<lambda>d. Inr (ConsumeTelegramLoginRequest j d))) (\<lambda>_. True)"
  "keeps (owned i u) (exec e site st (\<lambda>d. Inr ((), ClearTelegramLoginPendingForTg v j d))) (\<lambda>_. True)"
  "keeps (owned i u) (exec e site st (AskTelegramLoginConfirmAfterContact j non ph)) (\<lambda>_. True)"
  "(j = i \<Longrightarrow> v = u) \<Longrightarrow> keeps (owned i u) (exec e site st (ArmTelegramLoginForTg j v nn)) (\<lambda>_. True)"
  "(j = i \<Longrightarrow> v = u) \<Longrightarrow> keeps (owned i u) (exec e site st (\<lambda>d. Inr (ApproveTelegramLoginRequest j prof v d))) (\<lambda>_. True)"
proof -
  show "keeps (owned i u) (exec e site st (\<lambda>d. Inr ((), ClearTelegramLoginPendingForTg v j d))) (\<lambda>_. True)"
    by (rule pair_exec) (simp add: owned_steps(2))
  show "keeps (owned i u) (exec e site st (AskTelegramLoginConfirmAfterContact j non ph)) (\<lambda>_. True)"
    by (rule keeps_exec) (use owned_steps(5) in blast)
  show "(j = i \<Longrightarrow> v = u) \<Longrightarrow> keeps (owned i u) (exec e site st (ArmTelegramLoginForTg j v nn)) (\<lambda>_. True)"
    by (rule keeps_exec) (use owned_steps(6) in blast)
qed (rule pair_exec; simp add: owned_steps)+

lemma owned_end:
  "keeps (owned i u) (endTelegramLogin e site row ''cancelled'' out) (\<lambda>_. True)" "keeps (owned i u) (endTelegramLogin e site row ''blocked'' out) (\<lambda>_. True)"
  unfolding endTelegramLogin_def
  by (intro keeps_any [OF pair_exec] own_table.steps; simp add: owned_steps)+

text \<open>A row read from the table: if it has the id \<open>i\<close>, it belongs to \<open>u\<close>.\<close>

definition its_owner :: "uuid \<Rightarrow> int \<Rightarrow> tglogin_row option \<Rightarrow> bool" where
  "its_owner i u found \<longleftrightarrow> (\<forall>r. found = Some r \<longrightarrow> tl_id r = i \<longrightarrow> belongs_to u r)"

lemma owned_query:
  "keeps (owned i u) (query e site st (GetTelegramLoginRequestByTokenHash h)) (its_owner i u)"
  "keeps (owned i u) (query e site st (GetLiveTelegramLoginByPendingTg v w)) (its_owner i u)"
  "keeps (owned i u) (query e site st (GetTelegramLoginByConfirmNonce h)) (its_owner i u)"
  by (rule keeps_query,
      auto simp: its_owner_def owned_def GetTelegramLoginRequestByTokenHash_def GetLiveTelegramLoginByPendingTg_def
        GetTelegramLoginByConfirmNonce_def find_Some_iff)+

lemma owner_taps: "its_owner i u (Some row) \<Longrightarrow> tl_id row = i \<Longrightarrow> tl_pending row = Some v \<Longrightarrow> v = u"
  by (auto simp: its_owner_def belongs_to_def)

lemma owner_opens: "its_owner i u (Some row) \<Longrightarrow> tl_id row = i \<Longrightarrow> tl_opened row = None \<or> tl_opened row = Some v \<Longrightarrow> v = u"
  by (auto simp: its_owner_def belongs_to_def)

lemma owned_begin: "keeps (owned i u) (beginTelegramLogin_tx e c site token who) (\<lambda>_. True)"
proof -
  have arm: "keeps (owned i u) (arm_login e c site row v) (\<lambda>_. True)" if "tl_id row = i \<Longrightarrow> v = u" for row v
    unfolding arm_login_def by (intro owned_exec(4) owned_end own_table.bot_parts_keep own_table.steps) (use that in blast)+
  show ?thesis unfolding beginTelegramLogin_tx_def
  proof (rule keeps_abind [OF owned_query(1)])
    fix found assume o: "its_owner i u found"
    show "keeps (owned i u) (case found of None \<Rightarrow> ret (Drop (outcome ''invalid'')) | Some row \<Rightarrow>
         if tl_status row \<noteq> ''approved'' \<and> (tl_status row \<noteq> ''pending'' \<or> \<not> telegramLoginLive row (now_of e site)) then ret (Drop (outcome ''invalid''))
         else if tl_status row = ''approved'' then
           ret (Drop (if tl_approver row \<noteq> Some (tu_id who) then outcome ''invalid'' else (outcome ''approved'')\<lparr>lb_device := tl_device row\<rparr>))
         else if tl_opened row \<noteq> None \<and> tl_opened row \<noteq> Some (tu_id who) then ret (Drop (outcome ''taken''))
         else
           abind (exec e site ''ClearTelegramLoginPendingForTg'' (\<lambda>d. Inr ((), ClearTelegramLoginPendingForTg (tu_id who) (tl_id row) d))) (\<lambda>_.
           abind (exec e site ''ClearAllPasswordResetPendingForTg'' (\<lambda>d. Inr ((), ClearAllPasswordResetPendingForTg (tu_id who) d))) (\<lambda>_.
           arm_login e c site row (tu_id who)))) (\<lambda>_. True)"
      by (intro keeps_any [OF owned_exec(2)] arm own_table.steps) (metis o owner_opens)
  qed
qed

lemma owned_contact: "keeps (owned i u) (LoginContact_tx e c who v phone) (\<lambda>_. True)"
proof -
  have ask: "keeps (owned i u) (ask_after_contact e c row ph) (\<lambda>_. True)" for row ph
    unfolding ask_after_contact_def Let_def by (intro owned_exec(3) own_table.steps)
  show ?thesis unfolding LoginContact_tx_def Let_def
    by (intro ask owned_end own_table.bot_parts_keep own_table.steps)
qed

lemma owned_answer: "keeps (owned i u) (AnswerLogin_tx e c who nonce yes) (\<lambda>_. True)"
proof -
  have approve: "keeps (owned i u) (approve_login e row v p b w) (\<lambda>_. True)" if "tl_id row = i \<Longrightarrow> v = u" for row v p b w
    unfolding approve_login_def by (intro keeps_any [OF owned_exec(5)] own_table.steps) (use that in blast)
  have answer: "keeps (owned i u) (answer_contact e row who ph) (\<lambda>_. True)" "keeps (owned i u) (answer_linked e row who) (\<lambda>_. True)"
    if "tl_id row = i \<Longrightarrow> tu_id who = u" for row ph
    unfolding answer_contact_def answer_linked_def
    by (intro approve owned_end own_table.bot_parts_keep own_table.link_keeps own_table.steps; use that in blast)+
  show ?thesis unfolding AnswerLogin_tx_def
    apply (rule keeps_abind [OF owned_query(3)], rule keeps_option, rule keeps_ret, simp)
    apply (intro keeps_if owned_end own_table.bot_parts_keep answer own_table.steps)
     apply (use owner_taps in blast)+
    done
qed

interpretation own: login_invariant "owned i u" c "not_its_id i" for i u c
proof unfold_locales
  show "owned i u (s\<lparr>as_db := DeleteStaleTelegramLoginRequests v (as_db s)\<rparr>)" if "owned i u s" for s v
    using that by (simp add: owned_def DeleteStaleTelegramLoginRequests_def Let_def)
  show "owned i u (s\<lparr>as_db := d\<rparr>)" if "not_its_id i e" "owned i u s"
      "CreateTelegramLoginRequest (av_env e) (ak_hash c (av_rand e ''login.token'')) secret dev exp (as_db s) = Inr (x, d)" for e s secret dev exp x d
    using that by (auto simp: owned_def not_its_id_def CreateTelegramLoginRequest_def split: if_splits)
  show "keeps (owned i u) (Complete_tx e c token secret) (\<lambda>_. True)" for e token secret
    unfolding Complete_tx_def Let_def by (intro keeps_any [OF owned_exec(1)] own_table.session_parts_keep own_table.steps)
qed (rule owned_begin owned_contact owned_answer)+

text \<open>
  C16: A login request belongs to whoever opened it first in Telegram: in every state that any requests, interleaved in any
  way, lead to, it still has that opener, nobody else is being asked to confirm it, and if it was approved, the opener
  approved it.
\<close>

theorem first_opener_owns_login:
  assumes "owned i u s" and "auth_run c (not_its_id i) s s'" and "r \<in> set (idb_logins (as_db s'))" and "tl_id r = i"
  shows "tl_opened r = Some u \<and> tl_pending r \<in> {None, Some u} \<and> (tl_status r \<in> {''approved'', ''consumed''} \<longrightarrow> tl_approver r = Some u)"
proof -
  have "owned i u s'" by (rule own.run_keeps [OF assms(2,1)])
  then show ?thesis using assms(3,4) by (simp add: owned_def belongs_to_def)
qed

definition au_opened :: tglogin_row where
  "au_opened = au_request\<lparr>tl_status := ''pending'', tl_pending := Some 777, tl_profile := None, tl_approver := None\<rparr>"

definition au_waiting :: auth_state where
  "au_waiting = au_state\<lparr>as_db := au_db\<lparr>idb_logins := [au_opened]\<rparr>\<rparr>"

definition au_stranger :: TelegramLoginUser where
  "au_stranger = \<lparr>tu_id = 888, tu_username = '''', tu_first = [], tu_last = [], tu_language = ''''\<rparr>"

theorem first_opener_owns_login_witness:
  "\<exists>r. idb_logins (as_db (serve (au_env ''new'' 0) au_cfg (OpenBotLogin ''tok'' au_stranger) au_waiting)) = [r] \<and> tl_opened r = Some 777 \<and> tl_pending r \<in> {None, Some 777}"
proof -
  let ?s = "serve (au_env ''new'' 0) au_cfg (OpenBotLogin ''tok'' au_stranger) au_waiting"
  have own: "owned 70 777 au_waiting"
    by (simp add: owned_def au_waiting_def belongs_to_def au_opened_def au_request_def)
  have run: "auth_run au_cfg (not_its_id 70) au_waiting ?s"
    by (rule auth_run_single) (simp_all add: run_stop, simp add: not_its_id_def au_defs)
  have "trim_space ''tok'' = ''tok''" by code_simp
  then have rows: "idb_logins (as_db ?s) = [au_opened]"
    by (simp add: serve_def BeginTelegramLogin_def beginTelegramLogin_tx_def bot_allow_def complete_defs op_defs au_waiting_def au_opened_def au_request_def
        au_stranger_def au_defs second_def go_div_def isUniqueViolation_def)
  have "tl_opened au_opened = Some 777 \<and> tl_pending au_opened \<in> {None, Some 777} \<and> (tl_status au_opened \<in> {''approved'', ''consumed''} \<longrightarrow> tl_approver au_opened = Some 777)"
    by (rule first_opener_owns_login [OF own run]) (simp add: rows, simp add: au_opened_def au_request_def)
  then show ?thesis using rows by blast
qed

end
