(* ===== verification/Reset_Properties.thy ===== *)
theory Reset_Properties
  imports Session_Security
begin

text \<open>Completing a password reset: what has to be true for it, what it changes, and that it works once.\<close>

lemma HashPassword_Inr: "HashPassword c pw = Inr h \<longleftrightarrow> minPasswordLen \<le> length pw \<and> ak_bcrypt c pw = Some h"
  by (auto simp: HashPassword_def split: option.splits)

definition reset_effect :: "auth_env \<Rightarrow> reset_row \<Rightarrow> string \<Rightarrow> identity_db \<Rightarrow> identity_db" where
  "reset_effect e row h d = RevokeAllRefreshTokens (av_env e) (pw_profile row)
     (snd (DeleteUnattributedTelegramAccount (pw_profile row) (pw_verifier row)
       (MarkPasswordResetUsed (av_env e) (pw_id row) (SetProfilePassword (pw_profile row) h False d))))"

lemma complete_reset_success:
  assumes "CompletePasswordReset e c raw pw ip s = (Inr u, s')"
  obtains row p h where "GetPasswordResetTokenByHash (ak_hash c raw) (as_db s) = Some row"
    and "resetTokenLive row (now_of e ''CompletePasswordReset'')" and "pw_verified row \<noteq> None"
    and "GetProfileByID (pw_profile row) (as_db s) = Some p" and "pf_status p \<noteq> ''banned''" and "HashPassword c pw = Inr h"
    and "as_db s' = reset_effect e row h (as_db s)"
proof -
  have never: "CompleteReset_tx e c raw pw x \<noteq> (Inr (Drop v), y)" for x y v
    by (auto simp: CompleteReset_tx_def Let_def abind_Inr_iff query_Inr_iff split: if_splits option.splits sum.splits)
  obtain t where rate: "rateLimitAuth e c ''reset_complete'' (ak_hash c raw) ip s = (Inr (), t)"
    and "in_tx e ''CompletePasswordReset'' (CompleteReset_tx e c raw pw) t = (Inr u, s')"
    using assms by (auto simp: CompletePasswordReset_def abind_Inr_iff split: if_splits)
  then have tx: "CompleteReset_tx e c raw pw t = (Inr (Keep u), s')" using never by (auto simp: in_tx_Inr_iff)
  have db: "as_db t = as_db s"
    using rate by (auto simp: rateLimitAuth_def abind_Inr_iff dest!: allow_or_frame(1) split: if_splits)
  from tx show ?thesis
    by (auto simp: CompleteReset_tx_def Let_def abind_Inr_iff query_Inr_iff exec_Inr_iff row_or_def active_or_def assertProfileActive_def db reset_effect_def
        split: if_splits option.splits sum.splits intro!: that)
qed

lemma reset_used:
  assumes "GetPasswordResetTokenByHash g d = Some row"
  shows "\<exists>row'. GetPasswordResetTokenByHash g (reset_effect e row h d) = Some row' \<and> pw_used row' \<noteq> None"
proof -
  have "find (\<lambda>r. pw_token r = g) (upd_where (\<lambda>r. pw_id r = pw_id row) (\<lambda>r. (disarm_reset r)\<lparr>pw_used := Some t\<rparr>) rs)
      = map_option (\<lambda>r. if pw_id r = pw_id row then (disarm_reset r)\<lparr>pw_used := Some t\<rparr> else r) (find (\<lambda>r. pw_token r = g) rs)" for t rs
    by (induction rs) (auto simp: upd_where_def disarm_reset_def)
  then show ?thesis
    using assms by (simp add: GetPasswordResetTokenByHash_def reset_effect_def RevokeAllRefreshTokens_def DeleteUnattributedTelegramAccount_def
        MarkPasswordResetUsed_def SetProfilePassword_def Let_def)
qed

text \<open>
  C17: A password reset that completes was verified in Telegram before, had neither expired nor been used, and belongs to an
  account that is not banned; it sets that account's password to the hash of the new one and changes no other account,
  revokes every session of the account, and cannot be completed a second time.
\<close>

theorem password_reset_completes:
  assumes "CompletePasswordReset e c raw pw ip s = (Inr u, s')"
  shows "\<exists>row h. row \<in> set (idb_resets (as_db s)) \<and> pw_token row = ak_hash c raw \<and> pw_verified row \<noteq> None \<and> pw_used row = None
      \<and> now_of e ''CompletePasswordReset'' \<le> pw_expires row
      \<and> (\<exists>p. GetProfileByID (pw_profile row) (as_db s) = Some p \<and> pf_status p \<noteq> ''banned'')
      \<and> ak_bcrypt c pw = Some h \<and> 8 \<le> length pw
      \<and> idb_profiles (as_db s') = map (\<lambda>p. if pf_id p = pw_profile row then p\<lparr>pf_password := Some h, pf_must_change := False\<rparr> else p) (idb_profiles (as_db s))
      \<and> all_revoked (pw_profile row) s'
      \<and> (\<forall>e2 pw2 ip2. \<exists>err. fst (CompletePasswordReset e2 c raw pw2 ip2 s') = Inl err)"
proof -
  obtain row p h where r: "GetPasswordResetTokenByHash (ak_hash c raw) (as_db s) = Some row"
      "resetTokenLive row (now_of e ''CompletePasswordReset'')" "pw_verified row \<noteq> None" "HashPassword c pw = Inr h"
      "as_db s' = reset_effect e row h (as_db s)" "GetProfileByID (pw_profile row) (as_db s) = Some p" "pf_status p \<noteq> ''banned''"
    using complete_reset_success [OF assms] by metis
  have again: "\<exists>err. fst (CompletePasswordReset e2 c raw pw2 ip2 s') = Inl err" for e2 pw2 ip2
  proof (rule ccontr)
    assume "\<not> ?thesis"
    then obtain v s2 where "CompletePasswordReset e2 c raw pw2 ip2 s' = (Inr v, s2)"
      by (metis prod.collapse sum.exhaust)
    from complete_reset_success [OF this] obtain row' where "GetPasswordResetTokenByHash (ak_hash c raw) (as_db s') = Some row'" "pw_used row' = None"
      by (metis resetTokenLive_def)
    then show False using reset_used [OF r(1)] unfolding r(5) by (metis option.inject)
  qed
  have "idb_profiles (as_db s') = map (\<lambda>p. if pf_id p = pw_profile row then p\<lparr>pf_password := Some h, pf_must_change := False\<rparr> else p) (idb_profiles (as_db s))"
    unfolding r(5) by (simp add: reset_effect_def RevokeAllRefreshTokens_def DeleteUnattributedTelegramAccount_def MarkPasswordResetUsed_def
        SetProfilePassword_def Let_def upd_where_def)
  moreover have "all_revoked (pw_profile row) s'"
    unfolding all_revoked_def r(5) by (simp add: reset_effect_def RevokeAllRefreshTokens_def upd_where_def ball_Un)
  moreover have "row \<in> set (idb_resets (as_db s))" "pw_token row = ak_hash c raw"
    using r(1) by (auto simp: GetPasswordResetTokenByHash_def find_Some_iff)
  ultimately show ?thesis
    using r(2-4,6,7) again by (intro exI [of _ row] exI [of _ h]) (simp add: resetTokenLive_def HashPassword_Inr minPasswordLen_def)
qed

definition au_reset :: reset_row where
  "au_reset = \<lparr>pw_id = 80, pw_profile = 1, pw_token = ''rst'', pw_expires = fx_t0 + hour, pw_used = None, pw_verified = Some fx_t0, pw_pending = None,
     pw_nonce = None, pw_verifier = Some 777, pw_created = fx_t0\<rparr>"

definition au_resetting :: auth_state where
  "au_resetting = au_state\<lparr>as_db := au_db\<lparr>idb_resets := [au_reset]\<rparr>\<rparr>"

theorem password_reset_completes_witness:
  "\<exists>s'. fst (CompletePasswordReset (au_env ''x'' second) au_cfg ''rst'' ''new password'' '''' au_resetting) = Inr ()
     \<and> s' = snd (CompletePasswordReset (au_env ''x'' second) au_cfg ''rst'' ''new password'' '''' au_resetting)
     \<and> map pf_password (idb_profiles (as_db s')) = [Some ''new password''] \<and> all_revoked 1 s'"
proof -
  have "\<exists>s1. CompletePasswordReset (au_env ''x'' second) au_cfg ''rst'' ''new password'' '''' au_resetting = (Inr (), s1)"
    by (simp add: CompletePasswordReset_def CompleteReset_tx_def DeleteUnattributedTelegramAccount_def rateLimitAuth_def minPasswordLen_def HashPassword_def resetTokenLive_def
        GetPasswordResetTokenByHash_def Auth_Store.GetProfileByID_def Let_def
        allow_or_def lim_allow_def Allow_def Hit_def allowScript_def live_count_def set_limits_def
        op_defs au_resetting_def au_reset_def au_defs second_def hour_def go_div_def)
  then obtain s1 where run: "CompletePasswordReset (au_env ''x'' second) au_cfg ''rst'' ''new password'' '''' au_resetting = (Inr (), s1)" ..
  from password_reset_completes [OF run]
  have "map pf_password (idb_profiles (as_db s1)) = [Some ''new password''] \<and> all_revoked 1 s1"
    by (auto simp: au_resetting_def au_state_def au_db_def au_reset_def au_profile_def au_cfg_def)
  then show ?thesis unfolding run by simp
qed

end
