(* ===== verification/Arena_Lobby.thy ===== *)
theory Arena_Lobby
  imports Arena_Match Rate_Limit
begin

text \<open>
  The way into a duel (\<open>arena/service.go\<close>, \<open>hub.go\<close>, \<open>arena_join.lua\<close>): tickets, the matchmaking queue, invitations,
  the practice bot, the start of a match and what is taken down at its end. Unlike the rest of the program these
  operations share memory (the hub, the map of live matches) and Redis keys without a transaction around them, so an
  operation is a \<open>thread\<close>: a tree of atomic steps, each one Redis command, one statement, or one section under a mutex, between
  which any other thread may run. A goroutine that a request starts and does not wait for is the tail of its thread.
  Redis keys that name a profile are functions of the profile's id.
\<close>

section \<open>Threads\<close>

datatype ('s, 'a) thread = Ret 'a | Step "'s \<Rightarrow> 's" "'s \<Rightarrow> ('s, 'a) thread"

primrec tbind :: "('s, 'a) thread \<Rightarrow> ('a \<Rightarrow> ('s, 'b) thread) \<Rightarrow> ('s, 'b) thread" where
  "tbind (Ret x) g = g x"
| "tbind (Step f k) g = Step f (\<lambda>s. tbind (k s) g)"

definition atomic :: "('s \<Rightarrow> 'a \<times> 's) \<Rightarrow> ('s, 'a) thread" where
  "atomic f = Step (\<lambda>s. snd (f s)) (\<lambda>s. Ret (fst (f s)))"

text \<open>Running one thread to its end, and running a pool of threads by a schedule of whose turn it is.\<close>

primrec solo :: "('s, 'a) thread \<Rightarrow> 's \<Rightarrow> 'a \<times> 's" where
  "solo (Ret x) = (\<lambda>s. (x, s))"
| "solo (Step f k) = (\<lambda>s. solo (k s) (f s))"

definition turn :: "nat \<Rightarrow> 's \<times> ('s, 'a) thread list \<Rightarrow> 's \<times> ('s, 'a) thread list" where
  "turn i p = (if i < length (snd p) then (case snd p ! i of Ret _ \<Rightarrow> p | Step f k \<Rightarrow> (f (fst p), (snd p)[i := k (fst p)])) else p)"

fun interleave :: "nat list \<Rightarrow> 's \<times> ('s, 'a) thread list \<Rightarrow> 's \<times> ('s, 'a) thread list" where
  "interleave [] p = p"
| "interleave (i # is) p = interleave is (turn i p)"

lemma solo_tbind: "solo (tbind m g) s = (case solo m s of (x, s') \<Rightarrow> solo (g x) s')"
  by (induction m arbitrary: s) simp_all

lemma solo_atomic [simp]: "solo (atomic f) s = f s"
  by (simp add: atomic_def)

section \<open>State\<close>

definition TicketTTL :: int where "TicketTTL = 30 * second"
definition QueueTimeout :: int where "QueueTimeout = 45 * second"
definition queueMarkerTTL :: int where "queueMarkerTTL = 120 * second"
definition inviteTTL :: int where "inviteTTL = 600 * second"

datatype lobby_msg =
    LError string | LQueueJoined int nat | LQueueTimeout nat | LQueueLeft | LInviteCreated string | LInviteCancelled
  | LMatchFound uuid match_mode int int bool nat

datatype lobby_err =
    LFailure | LFeatureDisabled | LRateLimited | LTicketInvalid | LRequiresVIP | LAlreadyInMatch | LAlreadyQueued | LInviteInvalid
  | LInviteCollision | LNotEnoughQuestions | LJoinExhausted

text \<open>
  Redis values carry the millisecond they expire at. A bucket of the queue is its sorted set: members with their score,
  by score and then member. \<open>lb_fresh\<close> is the next id \<open>uuid.New\<close> or a column default gives out, never given twice.
\<close>

record lobby =
  lb_conns :: "uuid \<Rightarrow> nat option"
  lb_hub :: "uuid \<Rightarrow> uuid option"
  lb_matches :: "uuid \<Rightarrow> match option"
  lb_fresh :: uuid
  lb_locale :: "uuid \<Rightarrow> string option"
  lb_tickets :: "string \<Rightarrow> (uuid \<times> int) option"
  lb_queue :: "int \<Rightarrow> (uuid \<times> int) list"
  lb_marker :: "uuid \<Rightarrow> ((int \<times> int) \<times> int) option"
  lb_invite :: "string \<Rightarrow> (uuid \<times> int) option"
  lb_host :: "uuid \<Rightarrow> (string \<times> int) option"
  lb_pointer :: "uuid \<Rightarrow> (uuid \<times> int) option"
  lb_limits :: lim_store
  lb_rows :: "(uuid \<times> match_mode \<times> uuid list) list"
  lb_online :: nat
  lb_sent :: "(uuid \<times> lobby_msg) list"

text \<open>
  What a request meets outside the lobby: faults and clocks by site and attempt, the VIP check, ratings, the random question
  ids with their keys and payloads (the option ids of each question in a language), random bytes, and what the duel's own
  goroutine receives.
\<close>

record lobby_env =
  le_fails :: "string \<Rightarrow> nat \<Rightarrow> bool"
  le_clk :: "string \<Rightarrow> nat \<Rightarrow> int"
  le_enabled :: "lobby_err + bool"
  le_vip :: "uuid \<Rightarrow> lobby_err + bool"
  le_rating :: "uuid \<Rightarrow> lobby_err + int"
  le_ids :: "lobby_err + uuid list"
  le_keys :: "lobby_err + (uuid \<Rightarrow> uuid option)"
  le_details :: "string \<Rightarrow> lobby_err + (uuid \<Rightarrow> uuid list option)"
  le_bytes :: "nat \<Rightarrow> nat list"
  le_token :: string
  le_start :: arena_env
  le_inputs :: "(arena_env \<times> loop_input) list"
  le_duel :: arena_cfg
  le_db :: arena_db

type_synonym 'a act = "(lobby, lobby_err + 'a) thread"

definition lret :: "'a \<Rightarrow> 'a act" where "lret x = Ret (Inr x)"

definition lfail :: "lobby_err \<Rightarrow> 'a act" where "lfail err = Ret (Inl err)"

definition athen :: "'a act \<Rightarrow> ('a \<Rightarrow> 'b act) \<Rightarrow> 'b act" where
  "athen m f = tbind m (\<lambda>r. case r of Inl err \<Rightarrow> Ret (Inl err) | Inr x \<Rightarrow> f x)"

definition always :: "(lobby \<Rightarrow> 'a \<times> lobby) \<Rightarrow> 'a act" where
  "always f = atomic (\<lambda>s. case f s of (x, s') \<Rightarrow> (Inr x, s'))"

text \<open>A Redis command or statement that may fail; and one whose failure the code ignores.\<close>

definition redis :: "lobby_env \<Rightarrow> string \<Rightarrow> nat \<Rightarrow> (lobby \<Rightarrow> 'a \<times> lobby) \<Rightarrow> 'a act" where
  "redis e site n f = (if le_fails e site n then lfail LFailure else always f)"

definition best_effort :: "lobby_env \<Rightarrow> string \<Rightarrow> nat \<Rightarrow> (lobby \<Rightarrow> lobby) \<Rightarrow> unit act" where
  "best_effort e site n f = (if le_fails e site n then lret () else always (\<lambda>s. ((), f s)))"

definition look :: "(lobby \<Rightarrow> 'a) \<Rightarrow> 'a act" where
  "look f = always (\<lambda>s. (f s, s))"

definition given :: "lobby_err + 'a \<Rightarrow> 'a act" where
  "given r = (case r of Inl err \<Rightarrow> lfail err | Inr x \<Rightarrow> lret x)"

definition lms :: "lobby_env \<Rightarrow> string \<Rightarrow> nat \<Rightarrow> int" where
  "lms e site n = unix_milli (le_clk e site n)"

definition live :: "int \<Rightarrow> ('v \<times> int) option \<Rightarrow> 'v option" where
  "live now r = (case r of None \<Rightarrow> None | Some (v, till) \<Rightarrow> if till \<le> now then None else Some v)"

definition ttl_ms :: "int \<Rightarrow> int" where "ttl_ms d = go_div d 1000000"

section \<open>Hub and sockets\<close>

definition Alive :: "lobby \<Rightarrow> uuid \<Rightarrow> bool" where
  "Alive s p = (lb_conns s p \<noteq> None)"

definition InMatch :: "lobby \<Rightarrow> uuid \<Rightarrow> bool" where
  "InMatch s p = (lb_hub s p \<noteq> None)"

text \<open>\<open>Hub.Send\<close>: nothing when the player has no socket. \<open>lb_online\<close> is the number of sockets.\<close>

definition hub_send :: "uuid \<Rightarrow> lobby_msg \<Rightarrow> lobby \<Rightarrow> lobby" where
  "hub_send p m s = (if lb_conns s p = None then s else s\<lparr>lb_sent := lb_sent s @ [(p, m)]\<rparr>)"

definition sendJSON :: "uuid \<Rightarrow> lobby_msg \<Rightarrow> unit act" where
  "sendJSON p m = always (\<lambda>s. ((), hub_send p m s))"

definition errorTo :: "uuid \<Rightarrow> string \<Rightarrow> unit act" where
  "errorTo p code = sendJSON p (LError code)"

definition Register :: "uuid \<Rightarrow> nat \<Rightarrow> unit act" where
  "Register p c = always (\<lambda>s. ((), s\<lparr>lb_conns := (lb_conns s)(p \<mapsto> c),
     lb_online := lb_online s + (if lb_conns s p = None then 1 else 0)\<rparr>))"

definition Unregister :: "uuid \<Rightarrow> nat \<Rightarrow> unit act" where
  "Unregister p c = always (\<lambda>s. ((), if lb_conns s p = Some c then s\<lparr>lb_conns := (lb_conns s)(p := None), lb_online := lb_online s - 1\<rparr> else s))"

section \<open>Tickets\<close>

definition lobby_allow :: "lobby_env \<Rightarrow> string \<Rightarrow> string \<Rightarrow> int \<Rightarrow> int \<Rightarrow> bool act" where
  "lobby_allow e site k limit window =
     (if le_fails e site 0 then lfail LFailure
      else always (\<lambda>s. case Allow False (lms e site 0) k limit window (lb_limits s) of
             (Inl _, m) \<Rightarrow> (False, s\<lparr>lb_limits := m\<rparr>) | (Inr ok, m) \<Rightarrow> (ok, s\<lparr>lb_limits := m\<rparr>)))"

definition MintTicket :: "lobby_env \<Rightarrow> uuid \<Rightarrow> string \<Rightarrow> (string \<times> int) act" where
  "MintTicket e p p_text =
     athen (given (le_enabled e)) (\<lambda>on.
     if \<not> on then lfail LFeatureDisabled
     else athen (lobby_allow e ''MintTicket'' (''arena:rl:ticket:'' @ p_text) 30 (60 * second)) (\<lambda>ok.
     if \<not> ok then lfail LRateLimited
     else athen (redis e ''MintTicket.Set'' 0 (\<lambda>s. ((), s\<lparr>lb_tickets := (lb_tickets s)(le_token e \<mapsto> (p, lms e ''MintTicket.Set'' 0 + ttl_ms TicketTTL))\<rparr>))) (\<lambda>_.
       lret (le_token e, go_div TicketTTL second))))"

definition RedeemTicket :: "lobby_env \<Rightarrow> string \<Rightarrow> uuid act" where
  "RedeemTicket e tok =
     athen (redis e ''RedeemTicket'' 0 (\<lambda>s. (live (lms e ''RedeemTicket'' 0) (lb_tickets s tok), s\<lparr>lb_tickets := (lb_tickets s)(tok := None)\<rparr>))) (\<lambda>v.
     case v of None \<Rightarrow> lfail LTicketInvalid | Some p \<Rightarrow> lret p)"

section \<open>Admission\<close>

definition requireVIP :: "lobby_env \<Rightarrow> uuid \<Rightarrow> unit act" where
  "requireVIP e p = athen (given (le_vip e p)) (\<lambda>active. if active then lret () else lfail LRequiresVIP)"

text \<open>A pointer to a match that is not live is dropped.\<close>

definition inMatch :: "lobby_env \<Rightarrow> string \<Rightarrow> nat \<Rightarrow> uuid \<Rightarrow> bool act" where
  "inMatch e site n p =
     athen (look (\<lambda>s. InMatch s p)) (\<lambda>hub.
     if hub then lret True
     else athen (if le_fails e (site @ ''.Get'') n then lret None else look (\<lambda>s. live (lms e site n) (lb_pointer s p))) (\<lambda>mid.
     case mid of
       None \<Rightarrow> lret False
     | Some m \<Rightarrow>
         athen (look (\<lambda>s. lb_matches s m \<noteq> None)) (\<lambda>running.
         if running then lret True
         else athen (best_effort e (site @ ''.Del'') n (\<lambda>s. s\<lparr>lb_pointer := (lb_pointer s)(p := None)\<rparr>)) (\<lambda>_. lret False))))"

definition arenaGate :: "lobby_env \<Rightarrow> uuid \<Rightarrow> string \<Rightarrow> unit act" where
  "arenaGate e p p_text =
     tbind (requireVIP e p) (\<lambda>r. case r of
       Inl err \<Rightarrow> if err = LRequiresVIP then athen (errorTo p ''vip_required'') (\<lambda>_. lfail err) else lfail err
     | Inr _ \<Rightarrow>
         athen (lobby_allow e ''arenaGate'' (''arena:rl:join:'' @ p_text) 30 (300 * second)) (\<lambda>ok.
         if \<not> ok then athen (errorTo p ''rate_limited'') (\<lambda>_. lfail LRateLimited)
         else athen (inMatch e ''arenaGate.inMatch'' 0 p) (\<lambda>busy.
           if busy then athen (errorTo p ''already_in_match'') (\<lambda>_. lfail LAlreadyInMatch) else lret ())))"

definition normalizeLocale :: "string \<Rightarrow> string" where
  "normalizeLocale loc = (if loc \<in> {''uz-Latn'', ''uz-Cyrl'', ''ru'', ''kaa''} then loc else ''uz-Latn'')"

definition setLocale :: "uuid \<Rightarrow> string \<Rightarrow> unit act" where
  "setLocale p loc = always (\<lambda>s. ((), s\<lparr>lb_locale := (lb_locale s)(p \<mapsto> loc)\<rparr>))"

definition localeOf :: "uuid \<Rightarrow> string act" where
  "localeOf p = look (\<lambda>s. case lb_locale s p of None \<Rightarrow> ''uz-Latn'' | Some loc \<Rightarrow> loc)"

section \<open>Invitations and the queue\<close>

text \<open>\<open>cancelInvite\<close>: GETDEL, then the code only if it still points at this host.\<close>

definition cancelInvite :: "lobby_env \<Rightarrow> uuid \<Rightarrow> unit act" where
  "cancelInvite e host =
     athen (if le_fails e ''cancelInvite.GetDel'' 0 then lret None
            else always (\<lambda>s. (live (lms e ''cancelInvite'' 0) (lb_host s host), s\<lparr>lb_host := (lb_host s)(host := None)\<rparr>))) (\<lambda>code.
     case code of
       None \<Rightarrow> lret ()
     | Some k \<Rightarrow>
         if k = '''' then lret ()
         else athen (if le_fails e ''cancelInvite.Get'' 0 then lret None else look (\<lambda>s. live (lms e ''cancelInvite'' 0) (lb_invite s k))) (\<lambda>v.
           if v = Some host then best_effort e ''cancelInvite.Del'' 0 (\<lambda>s. s\<lparr>lb_invite := (lb_invite s)(k := None)\<rparr>) else lret ()))"

text \<open>ZREM, and ZADD by score and then member.\<close>

definition zrem :: "uuid \<Rightarrow> (uuid \<times> int) list \<Rightarrow> (uuid \<times> int) list" where
  "zrem p rows = filter (\<lambda>r. fst r \<noteq> p) rows"

fun zinsert :: "uuid \<Rightarrow> int \<Rightarrow> (uuid \<times> int) list \<Rightarrow> (uuid \<times> int) list" where
  "zinsert p t [] = [(p, t)]"
| "zinsert p t ((q, u) # rows) = (if t < u \<or> (t = u \<and> p < q) then (p, t) # (q, u) # rows else (q, u) # zinsert p t rows)"

definition zadd :: "uuid \<Rightarrow> int \<Rightarrow> (uuid \<times> int) list \<Rightarrow> (uuid \<times> int) list" where
  "zadd p t rows = zinsert p t (zrem p rows)"

text \<open>
  \<open>arena_join.lua\<close>. In one bucket: the first of its fifty oldest members that still has a marker, and the members the
  search removes, that one and the ghosts before it.
\<close>

fun scan_bucket :: "uuid \<Rightarrow> (uuid \<Rightarrow> bool) \<Rightarrow> uuid list \<Rightarrow> uuid option \<times> uuid list" where
  "scan_bucket self marked [] = (None, [])"
| "scan_bucket self marked (p # ps) =
     (if p = self then scan_bucket self marked ps
      else if marked p then (Some p, [p])
      else case scan_bucket self marked ps of (found, gone) \<Rightarrow> (found, p # gone))"

fun scan_buckets :: "uuid \<Rightarrow> (uuid \<Rightarrow> bool) \<Rightarrow> int list \<Rightarrow> (int \<Rightarrow> (uuid \<times> int) list) \<Rightarrow> uuid option \<times> (int \<Rightarrow> (uuid \<times> int) list)" where
  "scan_buckets self marked [] q = (None, q)"
| "scan_buckets self marked (b # bs) q =
     (case scan_bucket self marked (map fst (take 50 (q b))) of (found, gone) \<Rightarrow>
        let q' = q(b := filter (\<lambda>r. fst r \<notin> set gone) (q b)) in
        case found of Some p \<Rightarrow> (Some p, q') | None \<Rightarrow> scan_buckets self marked bs q')"

datatype join_result = Queued "int \<times> int" | Paired uuid

definition join_script :: "uuid \<Rightarrow> int \<Rightarrow> int \<Rightarrow> int list \<Rightarrow> int \<Rightarrow> lobby \<Rightarrow> join_result \<times> lobby" where
  "join_script self now clock bs own s =
     (case scan_buckets self (\<lambda>p. live clock (lb_marker s p) \<noteq> None) bs (lb_queue s) of
        (Some opp, q) \<Rightarrow> (Paired opp, s\<lparr>lb_queue := q, lb_marker := (lb_marker s)(opp := None)\<rparr>)
      | (None, q) \<Rightarrow> (Queued (own, now), s\<lparr>lb_queue := q(own := zadd self now (q own)),
            lb_marker := (lb_marker s)(self \<mapsto> ((own, now), clock + ttl_ms queueMarkerTTL))\<rparr>))"

definition dequeue :: "lobby_env \<Rightarrow> string \<Rightarrow> uuid \<Rightarrow> bool act" where
  "dequeue e site p =
     athen (redis e (site @ ''.Get'') 0 (\<lambda>s. (live (lms e site 0) (lb_marker s p), s))) (\<lambda>marker.
     case marker of
       None \<Rightarrow> lret False
     | Some (b, _) \<Rightarrow>
         athen (redis e (site @ ''.ZRem'') 0 (\<lambda>s. ((), s\<lparr>lb_queue := (lb_queue s)(b := zrem p (lb_queue s b))\<rparr>))) (\<lambda>_.
         athen (redis e (site @ ''.Del'') 0 (\<lambda>s. ((), s\<lparr>lb_marker := (lb_marker s)(p := None)\<rparr>))) (\<lambda>_.
         lret True)))"

definition LeaveQueue :: "lobby_env \<Rightarrow> uuid \<Rightarrow> unit act" where
  "LeaveQueue e p = athen (dequeue e ''LeaveQueue'' p) (\<lambda>_. lret ())"

text \<open>The goroutine that ends a search; a later entry of the same player has another marker.\<close>

definition watchQueueTimeout :: "lobby_env \<Rightarrow> uuid \<Rightarrow> int \<Rightarrow> int \<times> int \<Rightarrow> unit act" where
  "watchQueueTimeout e p own marker =
     athen (if le_fails e ''watchQueueTimeout.Get'' 0 then lret None else look (\<lambda>s. live (lms e ''watchQueueTimeout'' 0) (lb_marker s p))) (\<lambda>still.
     if still \<noteq> Some marker then lret ()
     else athen (best_effort e ''watchQueueTimeout.ZRem'' 0 (\<lambda>s. s\<lparr>lb_queue := (lb_queue s)(own := zrem p (lb_queue s own))\<rparr>)) (\<lambda>_.
       athen (best_effort e ''watchQueueTimeout.Del'' 0 (\<lambda>s. s\<lparr>lb_marker := (lb_marker s)(p := None)\<rparr>)) (\<lambda>_.
       athen (look lb_online) (\<lambda>n. sendJSON p (LQueueTimeout n)))))"

section \<open>Questions of a duel\<close>

text \<open>In draw order, the first \<open>n\<close> questions with a key and, in every language, a payload of at least two options.\<close>

definition usable :: "(uuid \<Rightarrow> uuid option) \<Rightarrow> (string \<times> (uuid \<Rightarrow> uuid list option)) list \<Rightarrow> uuid \<Rightarrow> bool" where
  "usable key tables q = (key q \<noteq> None \<and> list_all (\<lambda>(loc, d). case d q of None \<Rightarrow> False | Some opts \<Rightarrow> 2 \<le> length opts) tables)"

fun assembleDuel :: "(uuid \<Rightarrow> uuid option) \<Rightarrow> (string \<times> (uuid \<Rightarrow> uuid list option)) list \<Rightarrow> uuid list \<Rightarrow> nat
    \<Rightarrow> uuid list \<times> (string \<Rightarrow> (uuid \<times> uuid list) list)" where
  "assembleDuel key tables [] n = ([], \<lambda>_. [])"
| "assembleDuel key tables (q # qs) n =
     (if n = 0 then ([], \<lambda>_. [])
      else if \<not> usable key tables q then assembleDuel key tables qs n
      else case assembleDuel key tables qs (n - 1) of (picked, payloads) \<Rightarrow>
        (q # picked, \<lambda>loc. case map_of tables loc of None \<Rightarrow> payloads loc
           | Some d \<Rightarrow> (case d q of None \<Rightarrow> payloads loc | Some opts \<Rightarrow> (q, opts) # payloads loc)))"

fun load_locales :: "lobby_env \<Rightarrow> string list \<Rightarrow> (string \<times> (uuid \<Rightarrow> uuid list option)) list \<Rightarrow> lobby_err + (string \<times> (uuid \<Rightarrow> uuid list option)) list" where
  "load_locales e [] sofar = Inr sofar"
| "load_locales e (loc # locs) sofar =
     (if map_of sofar loc \<noteq> None then load_locales e locs sofar
      else case le_details e loc of Inl err \<Rightarrow> Inl err | Inr d \<Rightarrow> load_locales e locs (sofar @ [(loc, d)]))"

text \<open>The questions, the options a player may pick from (of the first language; the code takes any), and the key.\<close>

definition pickQuestions :: "lobby_env \<Rightarrow> string list \<Rightarrow> lobby_err + (uuid list \<times> (uuid \<Rightarrow> uuid list option) \<times> (uuid \<Rightarrow> uuid option))" where
  "pickQuestions e locs =
     (case le_ids e of Inl err \<Rightarrow> Inl err | Inr ids \<Rightarrow>
      case le_keys e of Inl err \<Rightarrow> Inl err | Inr key \<Rightarrow>
      case load_locales e locs [] of Inl err \<Rightarrow> Inl err | Inr tables \<Rightarrow>
      case assembleDuel key tables ids QuestionCount of (picked, payloads) \<Rightarrow>
        if length picked < QuestionCount then Inl LNotEnoughQuestions
        else Inr (picked, (\<lambda>q. case tables of [] \<Rightarrow> None | (loc, _) # _ \<Rightarrow> map_of (payloads loc) q), key))"

section \<open>Starting a match\<close>

text \<open>Both are sections under the service's mutex: all humans of a new match are claimed, or none.\<close>

definition claim :: "uuid list \<Rightarrow> lobby \<Rightarrow> uuid option \<times> lobby" where
  "claim ids s =
     (let ph = lb_fresh s; s' = s\<lparr>lb_fresh := ph + 1\<rparr> in
      if list_ex (InMatch s) ids then (None, s')
      else (Some ph, s'\<lparr>lb_hub := (\<lambda>p. if p \<in> set ids then Some ph else lb_hub s p)\<rparr>))"

definition release :: "uuid \<Rightarrow> uuid list \<Rightarrow> lobby \<Rightarrow> lobby" where
  "release ph ids s = s\<lparr>lb_hub := (\<lambda>p. if p \<in> set ids \<and> lb_hub s p = Some ph then None else lb_hub s p)\<rparr>"

definition InsertArenaMatch :: "match_mode \<Rightarrow> uuid list \<Rightarrow> lobby \<Rightarrow> uuid \<times> lobby" where
  "InsertArenaMatch mode qs s = (lb_fresh s, s\<lparr>lb_fresh := lb_fresh s + 1, lb_rows := lb_rows s @ [(lb_fresh s, mode, qs)]\<rparr>)"

definition match_ttl :: int where
  "match_ttl = Countdown + int QuestionCount * (QuestionTimeSec * second + AnswerGrace + RevealFor) + 2 * ReconnectGrace + 60 * second"

definition set_pointer :: "lobby_env \<Rightarrow> string \<Rightarrow> nat \<Rightarrow> uuid \<Rightarrow> uuid \<Rightarrow> unit act" where
  "set_pointer e site n p mid = best_effort e site n (\<lambda>s. s\<lparr>lb_pointer := (lb_pointer s)(p \<mapsto> (mid, lms e site n + ttl_ms match_ttl))\<rparr>)"

definition seat_humans :: "match \<Rightarrow> uuid list" where
  "seat_humans m = map st_id (filter (\<lambda>x. \<not> st_bot x) [mt_seat0 m, mt_seat1 m])"

text \<open>
  The match's own goroutine: it plays (\<open>Run\<close> on the events and timer ticks it receives) and, once the result is stored, takes
  the match down: the pointers, the hub entries one by one, and last the match. A try whose pointers cannot be deleted is a failed
  attempt of \<open>finish_loop\<close> and leaves the lobby as it is; when no attempt succeeds within its context, the match is never taken down.
\<close>

primrec clear_hub :: "uuid list \<Rightarrow> unit act" where
  "clear_hub [] = lret ()"
| "clear_hub (p # ps) = athen (always (\<lambda>s. ((), s\<lparr>lb_hub := (lb_hub s)(p := None)\<rparr>))) (\<lambda>_. clear_hub ps)"

definition take_down :: "match \<Rightarrow> unit act" where
  "take_down m =
     athen (always (\<lambda>s. ((), s\<lparr>lb_pointer := (lb_pointer s)(st_id (mt_seat0 m) := None, st_id (mt_seat1 m) := None)\<rparr>))) (\<lambda>_.
     athen (clear_hub (seat_humans m)) (\<lambda>_.
     always (\<lambda>s. ((), s\<lparr>lb_matches := (lb_matches s)(mt_id m := None)\<rparr>))))"

definition match_goroutine :: "lobby_env \<Rightarrow> match \<Rightarrow> unit act" where
  "match_goroutine e m =
     (let m' = fst (Run (le_duel e) (le_inputs e) (m, le_db e)) in
      athen (always (\<lambda>s. ((), s\<lparr>lb_matches := (lb_matches s)(mt_id m \<mapsto> m')\<rparr>))) (\<lambda>_.
      if mt_phase m' = PhFinished \<and> mt_stored m' then take_down m' else lret ()))"

primrec tell_all :: "uuid list \<Rightarrow> string \<Rightarrow> unit act" where
  "tell_all [] code = lret ()"
| "tell_all (p # ps) code = athen (errorTo p code) (\<lambda>_. tell_all ps code)"

definition abandon :: "uuid \<Rightarrow> uuid list \<Rightarrow> string \<Rightarrow> lobby_err \<Rightarrow> unit act" where
  "abandon ph humans code err =
     athen (tell_all humans code) (\<lambda>_. athen (always (\<lambda>s. ((), release ph humans s))) (\<lambda>_. lfail err))"

definition launch :: "lobby_env \<Rightarrow> nat \<Rightarrow> match_mode \<Rightarrow> SeatSpec \<Rightarrow> SeatSpec \<Rightarrow> uuid list \<Rightarrow> uuid
    \<Rightarrow> uuid list \<Rightarrow> (uuid \<Rightarrow> uuid list option) \<Rightarrow> (uuid \<Rightarrow> uuid option) \<Rightarrow> unit act" where
  "launch e n mode a b humans ph qs opts key =
     (if le_fails e ''InsertArenaMatch'' n then abandon ph humans ''server_busy'' LFailure
      else athen (always (InsertArenaMatch mode qs)) (\<lambda>mid.
        let m = Start (le_start e) (NewMatch mid mode a b qs opts key) in
        athen (set_pointer e ''pointer.a'' n (ss_id a) mid) (\<lambda>_.
        athen (if mode = ModeBot then lret () else set_pointer e ''pointer.b'' n (ss_id b) mid) (\<lambda>_.
        athen (always (\<lambda>s. ((), s\<lparr>lb_matches := (lb_matches s)(mid \<mapsto> m), lb_hub := (\<lambda>p. if p \<in> set humans then Some mid else lb_hub s p)\<rparr>))) (\<lambda>_.
        athen (sendJSON (ss_id a) (LMatchFound mid mode (ss_rating a) (ss_rating b) (ss_bot b) (length qs))) (\<lambda>_.
        athen (if mode = ModeBot then lret ()
               else sendJSON (ss_id b) (LMatchFound mid mode (ss_rating b) (ss_rating a) (ss_bot a) (length qs))) (\<lambda>_.
        match_goroutine e m)))))))"

definition startMatch :: "lobby_env \<Rightarrow> nat \<Rightarrow> match_mode \<Rightarrow> uuid \<Rightarrow> uuid \<Rightarrow> unit act" where
  "startMatch e n mode a b =
     (let humans = (if mode = ModeBot then [a] else [a, b]) in
      athen (always (claim humans)) (\<lambda>got. case got of
        None \<Rightarrow> lfail LAlreadyInMatch
      | Some ph \<Rightarrow>
          (case le_rating e a of
             Inl err \<Rightarrow> abandon ph humans ''server_busy'' err
           | Inr ra \<Rightarrow>
               athen (localeOf a) (\<lambda>la.
               case (if mode = ModeBot then Inr ra else le_rating e b) of
                 Inl err \<Rightarrow> abandon ph humans ''server_busy'' err
               | Inr rb \<Rightarrow>
                   athen (if mode = ModeBot then lret la else localeOf b) (\<lambda>lb.
                   case pickQuestions e [la, lb] of
                     Inl err \<Rightarrow> abandon ph humans (if err = LNotEnoughQuestions then ''not_enough_questions'' else ''server_busy'') err
                   | Inr (qs, opts, key) \<Rightarrow>
                       launch e n mode \<lparr>ss_id = a, ss_locale = la, ss_rating = ra, ss_bot = False\<rparr>
                         \<lparr>ss_id = b, ss_locale = lb, ss_rating = rb, ss_bot = (mode = ModeBot)\<rparr> humans ph qs opts key)))))"

section \<open>What a player can ask for\<close>

text \<open>Eight tries: a candidate who is gone, or a match that cannot be claimed, sends the search on.\<close>

primrec join_attempts :: "nat \<Rightarrow> lobby_env \<Rightarrow> uuid \<Rightarrow> int list \<Rightarrow> int \<Rightarrow> unit act" where
  "join_attempts 0 e p bs own = athen (errorTo p ''server_busy'') (\<lambda>_. lfail LJoinExhausted)"
| "join_attempts (Suc n) e p bs own =
     (let now = lms e ''JoinQueue.now'' n in
      athen (redis e ''JoinQueue.Eval'' n (join_script p now (lms e ''JoinQueue.Eval'' n) bs own)) (\<lambda>r. case r of
        Queued marker \<Rightarrow>
          athen (look lb_online) (\<lambda>online. athen (sendJSON p (LQueueJoined now online)) (\<lambda>_. watchQueueTimeout e p own marker))
      | Paired opp \<Rightarrow>
          athen (look (\<lambda>s. Alive s opp)) (\<lambda>alive.
          if \<not> alive then join_attempts n e p bs own
          else athen (inMatch e ''JoinQueue.inMatch'' n opp) (\<lambda>busy.
            if busy then join_attempts n e p bs own
            else tbind (startMatch e n ModeRanked p opp) (\<lambda>res.
              if res = Inl LAlreadyInMatch then join_attempts n e p bs own else Ret res)))))"

definition JoinQueue :: "lobby_env \<Rightarrow> uuid \<Rightarrow> string \<Rightarrow> string \<Rightarrow> unit act" where
  "JoinQueue e p p_text locale_in =
     athen (arenaGate e p p_text) (\<lambda>_.
     athen (if le_fails e ''JoinQueue.Exists'' 0 then lret False else look (\<lambda>s. live (lms e ''JoinQueue'' 0) (lb_marker s p) \<noteq> None)) (\<lambda>queued.
     if queued then athen (errorTo p ''already_queued'') (\<lambda>_. lfail LAlreadyQueued)
     else athen (cancelInvite e p) (\<lambda>_.
       athen (setLocale p (normalizeLocale locale_in)) (\<lambda>_.
       athen (given (le_rating e p)) (\<lambda>r.
       join_attempts 8 e p (queueSearchKeys (Bucket r)) (Bucket r))))))"

primrec invite_attempts :: "nat \<Rightarrow> lobby_env \<Rightarrow> uuid \<Rightarrow> unit act" where
  "invite_attempts 0 e p = lfail LInviteCollision"
| "invite_attempts (Suc n) e p =
     (let code = NewInviteCode (le_bytes e n) in
      athen (redis e ''CreateInvite.SetNX'' n (\<lambda>s.
         if live (lms e ''CreateInvite'' n) (lb_invite s code) \<noteq> None then (False, s)
         else (True, s\<lparr>lb_invite := (lb_invite s)(code \<mapsto> (p, lms e ''CreateInvite'' n + ttl_ms inviteTTL))\<rparr>))) (\<lambda>ok.
      if \<not> ok then invite_attempts n e p
      else athen (redis e ''CreateInvite.Set'' n (\<lambda>s. ((), s\<lparr>lb_host := (lb_host s)(p \<mapsto> (code, lms e ''CreateInvite'' n + ttl_ms inviteTTL))\<rparr>))) (\<lambda>_.
        sendJSON p (LInviteCreated code))))"

definition CreateInvite :: "lobby_env \<Rightarrow> uuid \<Rightarrow> string \<Rightarrow> string \<Rightarrow> unit act" where
  "CreateInvite e p p_text locale_in =
     athen (arenaGate e p p_text) (\<lambda>_.
     athen (dequeue e ''CreateInvite.dequeue'' p) (\<lambda>_.
     athen (cancelInvite e p) (\<lambda>_.
     athen (setLocale p (normalizeLocale locale_in)) (\<lambda>_.
     invite_attempts 5 e p))))"

definition OpenInvite :: "lobby_env \<Rightarrow> uuid \<Rightarrow> (string \<times> int) option act" where
  "OpenInvite e host =
     athen (if le_fails e ''OpenInvite.Get'' 0 then lret None else look (\<lambda>s. live (lms e ''OpenInvite'' 0) (lb_host s host))) (\<lambda>code.
     case code of
       None \<Rightarrow> lret None
     | Some k \<Rightarrow>
         if k = '''' \<or> le_fails e ''OpenInvite.TTL'' 0 then lret None
         else look (\<lambda>s. case lb_invite s k of None \<Rightarrow> None
           | Some (_, till) \<Rightarrow> if till \<le> lms e ''OpenInvite'' 0 then None else Some (k, go_div (till - lms e ''OpenInvite'' 0) 1000)))"

definition CancelInvite :: "lobby_env \<Rightarrow> uuid \<Rightarrow> unit act" where
  "CancelInvite e p = athen (cancelInvite e p) (\<lambda>_. sendJSON p LInviteCancelled)"

definition refuse :: "uuid \<Rightarrow> string \<Rightarrow> lobby_err \<Rightarrow> unit act" where
  "refuse p code err = athen (errorTo p code) (\<lambda>_. lfail err)"

text \<open>The guest's side; deleting the code claims it.\<close>

definition JoinInvite :: "lobby_env \<Rightarrow> uuid \<Rightarrow> string \<Rightarrow> string \<Rightarrow> string \<Rightarrow> unit act" where
  "JoinInvite e p p_text rawCode locale_in =
     (let code = NormalizeInviteCode rawCode in
      if code = '''' then refuse p ''invite_invalid'' LInviteInvalid
      else athen (arenaGate e p p_text) (\<lambda>_.
        athen (redis e ''JoinInvite.Get'' 0 (\<lambda>s. (live (lms e ''JoinInvite'' 0) (lb_invite s code), s))) (\<lambda>v.
        case v of
          None \<Rightarrow> refuse p ''invite_invalid'' LInviteInvalid
        | Some host \<Rightarrow>
            if host = p then refuse p ''invite_self'' LInviteInvalid
            else athen (look (\<lambda>s. Alive s host)) (\<lambda>alive.
              if \<not> alive then refuse p ''invite_host_away'' LInviteInvalid
              else athen (inMatch e ''JoinInvite.inMatch'' 0 host) (\<lambda>busy.
                if busy then refuse p ''invite_host_away'' LInviteInvalid
                else tbind (requireVIP e host) (\<lambda>vip. case vip of
                    Inl err \<Rightarrow> refuse p ''invite_host_away'' err
                  | Inr _ \<Rightarrow>
                      athen (if le_fails e ''JoinInvite.Del'' 0 then lret False
                             else always (\<lambda>s. (live (lms e ''JoinInvite'' 0) (lb_invite s code) \<noteq> None, s\<lparr>lb_invite := (lb_invite s)(code := None)\<rparr>))) (\<lambda>claimed.
                      if \<not> claimed then refuse p ''invite_invalid'' LInviteInvalid
                      else athen (best_effort e ''JoinInvite.DelHost'' 0 (\<lambda>s. s\<lparr>lb_host := (lb_host s)(host := None)\<rparr>)) (\<lambda>_.
                        athen (dequeue e ''JoinInvite.dequeue'' p) (\<lambda>_.
                        athen (dequeue e ''JoinInvite.dequeueHost'' host) (\<lambda>_.
                        athen (setLocale p (normalizeLocale locale_in)) (\<lambda>_.
                        tbind (startMatch e 0 ModeFriend host p) (\<lambda>res.
                          if res = Inl LAlreadyInMatch then refuse p ''invite_host_away'' LAlreadyInMatch else Ret res))))))))))))"

definition StartBot :: "lobby_env \<Rightarrow> uuid \<Rightarrow> string \<Rightarrow> string \<Rightarrow> unit act" where
  "StartBot e p p_text locale_in =
     athen (arenaGate e p p_text) (\<lambda>_.
     athen (dequeue e ''StartBot.dequeue'' p) (\<lambda>_.
     athen (cancelInvite e p) (\<lambda>_.
     athen (setLocale p (normalizeLocale locale_in)) (\<lambda>_.
     athen (always (\<lambda>s. (lb_fresh s, s\<lparr>lb_fresh := lb_fresh s + 1\<rparr>))) (\<lambda>bot_id.
     tbind (startMatch e 0 ModeBot p bot_id) (\<lambda>res.
       if res = Inl LAlreadyInMatch then refuse p ''already_in_match'' LAlreadyInMatch else Ret res))))))"

text \<open>A socket that was replaced does not take its player out of anything.\<close>

definition OnDisconnect :: "lobby_env \<Rightarrow> uuid \<Rightarrow> nat \<Rightarrow> unit act" where
  "OnDisconnect e p c =
     athen (look (\<lambda>s. lb_conns s p)) (\<lambda>cur.
     if cur \<noteq> None \<and> cur \<noteq> Some c then lret () else tbind (LeaveQueue e p) (\<lambda>_. lret ()))"

datatype lobby_request =
    JoinTheQueue string | LeaveTheQueue | Invite string | WithdrawInvite | AcceptInvite string string | PlayBot string | Connect nat | Disconnect nat

text \<open>\<open>HandleClient\<close> (answers, rejoining and leaving go to the match's inbox), and the two ends of a socket.\<close>

definition lobby_thread :: "lobby_env \<Rightarrow> uuid \<Rightarrow> string \<Rightarrow> lobby_request \<Rightarrow> unit act" where
  "lobby_thread e p p_text req = (case req of
       JoinTheQueue loc \<Rightarrow> JoinQueue e p p_text loc
     | LeaveTheQueue \<Rightarrow> tbind (LeaveQueue e p) (\<lambda>_. sendJSON p LQueueLeft)
     | Invite loc \<Rightarrow> CreateInvite e p p_text loc
     | WithdrawInvite \<Rightarrow> CancelInvite e p
     | AcceptInvite code loc \<Rightarrow> if code = '''' then refuse p ''invite_invalid'' LInviteInvalid else JoinInvite e p p_text code loc
     | PlayBot loc \<Rightarrow> StartBot e p p_text loc
     | Connect c \<Rightarrow> Register p c
     | Disconnect c \<Rightarrow> tbind (OnDisconnect e p c) (\<lambda>_. Unregister p c))"

end
