(* ===== verification/Lobby_Logic.thy ===== *)
theory Lobby_Logic
  imports Arena_Lobby Arena_Properties
begin

text \<open>
  Reasoning about threads. Every thread owns some entries of the hub and some ids of matches, no two threads own the same,
  and together they own all there are; \<open>sound t Q w\<close> says that the thread \<open>t\<close>, owning \<open>w\<close>, changes nothing but what it
  owns, takes only what nobody has, keeps the players of its running match in the hub, and ends with a result and a
  property as \<open>Q\<close> says. A pool of sound threads stays one under any schedule.
\<close>

section \<open>A duel keeps its players\<close>

definition same_players :: "match \<Rightarrow> match \<Rightarrow> bool" where
  "same_players m m' \<longleftrightarrow> mt_id m' = mt_id m \<and> (\<forall>i. st_id (seat_at m' i) = st_id (seat_at m i) \<and> st_bot (seat_at m' i) = st_bot (seat_at m i))"

lemma same_players_refl [simp]: "same_players m m"
  by (simp add: same_players_def)

lemma same_players_trans: "same_players m m' \<Longrightarrow> same_players m' m'' \<Longrightarrow> same_players m m''"
  by (simp add: same_players_def)

lemma same_players_set: "st_id s = st_id (seat_at m i) \<Longrightarrow> st_bot s = st_bot (seat_at m i) \<Longrightarrow> same_players m (set_seat i s m)"
  by (auto simp: same_players_def set_seat_def seat_at_def)

lemma same_players_send [simp]: "same_players m (send_msg i x m') = same_players m m'"
  by (simp add: same_players_def)

lemma same_players_fields [simp]:
  "same_players m (m'\<lparr>mt_phase := ph\<rparr>) = same_players m m'" "same_players m (m'\<lparr>mt_reason := r\<rparr>) = same_players m m'"
  "same_players m (m'\<lparr>mt_quitter := u\<rparr>) = same_players m m'" "same_players m (m'\<lparr>mt_checks := cs\<rparr>) = same_players m m'"
  "same_players m (m'\<lparr>mt_stored := b\<rparr>) = same_players m m'"
  by (simp_all add: same_players_def seat_at_def)

lemma same_players_question: "same_players m (startQuestion e i k m)"
  by (auto simp: startQuestion_def Let_def intro: same_players_set)

lemma same_players_resolve: "same_players m (resolve e i ans m)"
  by (auto simp: resolve_def Let_def intro!: same_players_set)

lemma same_players_bot: "same_players m (botAnswer e i m)"
  unfolding botAnswer_def Let_def by (rule same_players_resolve)

lemma same_players_answer: "same_players m (onAnswer e i k a m)"
  by (simp add: onAnswer_def Let_def same_players_resolve)

lemma same_players_finish: "same_players m (fst (finish e c r (m, d)))"
  by (simp add: finish_def Let_def split: prod.split option.split)

lemma same_players_advance: "same_players m (fst (advance e c i (m, d)))"
proof -
  let ?m1 = "set_seat i ((seat_at m i)\<lparr>st_index := st_index (seat_at m i) + 1\<rparr>) m"
  have one: "same_players m ?m1" by (rule same_players_set) simp_all
  have two: "same_players ?m1 (set_seat i ((seat_at ?m1 i)\<lparr>st_state := SeatDone\<rparr>) ?m1)" by (rule same_players_set) simp_all
  show ?thesis
    using same_players_trans [OF one same_players_question] same_players_trans [OF one two]
      same_players_trans [OF same_players_trans [OF one two] same_players_finish]
      same_players_trans [OF _ same_players_finish]
    by (simp add: advance_def Let_def)
qed

lemma same_players_timer: "same_players m (fst (timer_seat e c i (m, d)))"
  by (simp add: timer_seat_def Let_def same_players_bot same_players_resolve same_players_advance split: seat_state.split)

lemma same_players_onTimer: "same_players m (fst (onTimer e c (m, d)))"
proof -
  have start: "same_players m (startQuestion e 1 0 (startQuestion e 0 0 (m\<lparr>mt_phase := PhActive\<rparr>)))"
    by (rule same_players_trans [OF _ same_players_question], rule same_players_trans [OF _ same_players_question]) simp
  obtain m1 d1 where t: "timer_seat e c 0 (m, d) = (m1, d1)" by (cases "timer_seat e c 0 (m, d)")
  have "same_players m (fst (timer_seat e c 1 (m1, d1)))"
    by (rule same_players_trans [OF _ same_players_timer]) (use same_players_timer [of m e c 0 d] t in simp)
  then show ?thesis using start t by (simp add: onTimer_def split: match_phase.split)
qed

lemma same_players_disconnect: "same_players m (fst (on_disconnect e c i (m, d)))"
proof -
  have one: "same_players m (set_seat i ((seat_at m i)\<lparr>st_disc := True, st_gen := g\<rparr>) m)" for g by (rule same_players_set) simp_all
  show ?thesis using one same_players_trans [OF _ same_players_finish, of m] by (simp add: on_disconnect_def Let_def)
qed

lemma same_players_handle: "same_players m (fst (handle e c ev (m, d)))"
proof -
  have re: "same_players m (set_seat i ((seat_at m i)\<lparr>st_disc := False\<rparr>) m)" for i by (rule same_players_set) simp_all
  show ?thesis
    using same_players_trans [OF _ same_players_finish, of m]
    by (cases ev) (simp_all add: handle_def Let_def re same_players_finish same_players_answer same_players_disconnect split: option.split)
qed

lemma Run_same_players: "same_players m (fst (Run c xs (m, d)))"
proof (induction xs arbitrary: m d)
  case (Cons ex xs)
  obtain e x where ex: "ex = (e, x)" by (cases ex)
  obtain m1 d1 where r: "run_input e c x (m, d) = (m1, d1)" by (cases "run_input e c x (m, d)")
  have "same_players m (fst (run_input e c x (m, d)))"
    by (simp add: run_input_def same_players_handle same_players_onTimer split: loop_input.split)
  then have "same_players m m1" using r by simp
  then show ?case using same_players_trans [OF _ Cons] by (simp add: ex r)
qed simp

lemma same_players_humans: "same_players m m' \<Longrightarrow> seat_humans m' = seat_humans m"
proof -
  assume s: "same_players m m'"
  from s have "st_id (seat_at m' 0) = st_id (seat_at m 0) \<and> st_bot (seat_at m' 0) = st_bot (seat_at m 0)"
    and "st_id (seat_at m' 1) = st_id (seat_at m 1) \<and> st_bot (seat_at m' 1) = st_bot (seat_at m 1)"
    unfolding same_players_def by blast+
  then show ?thesis by (simp add: seat_humans_def seat_at_def)
qed

section \<open>Ownership\<close>

text \<open>The entries of the hub, and the ids of matches: given out and not yet in the map, or with the match.\<close>

type_synonym own = "(uuid \<rightharpoonup> uuid) \<times> (uuid \<rightharpoonup> match option)"

definition none :: own where "none = (Map.empty, Map.empty)"

definition unfinished :: "match \<Rightarrow> bool" where "unfinished m \<longleftrightarrow> mt_phase m \<noteq> PhFinished"

text \<open>A duel whose players have not been let go: it runs, or the loop that stores its result was never left.\<close>

definition held :: "match \<Rightarrow> bool" where "held m \<longleftrightarrow> unfinished m \<or> \<not> mt_stored m"

definition own_ok :: "own \<Rightarrow> bool" where
  "own_ok w \<longleftrightarrow> (\<forall>i m. snd w i = Some (Some m) \<longrightarrow> held m \<longrightarrow> (\<forall>p \<in> set (seat_humans m). fst w p = Some i))"

definition fits :: "own \<Rightarrow> lobby \<Rightarrow> bool" where
  "fits w s \<longleftrightarrow> (\<forall>p x. fst w p = Some x \<longrightarrow> lb_hub s p = Some x) \<and> (\<forall>i y. snd w i = Some y \<longrightarrow> lb_matches s i = y \<and> i < lb_fresh s)
     \<and> (\<forall>i \<ge> lb_fresh s. lb_matches s i = None)"

definition moves :: "own \<Rightarrow> own \<Rightarrow> lobby \<Rightarrow> lobby \<Rightarrow> bool" where
  "moves w w' s s' \<longleftrightarrow> fits w' s' \<and> lb_fresh s \<le> lb_fresh s'
     \<and> (\<forall>p. fst w p = None \<longrightarrow> fst w' p = None \<longrightarrow> lb_hub s' p = lb_hub s p)
     \<and> (\<forall>p. fst w p = None \<longrightarrow> fst w' p \<noteq> None \<longrightarrow> lb_hub s p = None)
     \<and> (\<forall>p. fst w p \<noteq> None \<longrightarrow> fst w' p = None \<longrightarrow> lb_hub s' p = None)
     \<and> (\<forall>i. snd w i = None \<longrightarrow> snd w' i = None \<longrightarrow> lb_matches s' i = lb_matches s i)
     \<and> (\<forall>i. snd w i = None \<longrightarrow> snd w' i \<noteq> None \<longrightarrow> lb_fresh s \<le> i)
     \<and> (\<forall>i. snd w i \<noteq> None \<longrightarrow> snd w' i = None \<longrightarrow> lb_matches s' i = None)"

primrec sound :: "(lobby, 'a) thread \<Rightarrow> ('a \<Rightarrow> own \<Rightarrow> bool) \<Rightarrow> own \<Rightarrow> bool" where
  "sound (Ret x) = (\<lambda>Q w. Q x w)"
| "sound (Step f k) = (\<lambda>Q w. \<forall>s. fits w s \<longrightarrow> (\<exists>w'. moves w w' s (f s) \<and> own_ok w' \<and> sound (k s) Q w'))"

text \<open>What a thread that is done may still own: the players of a duel that holds them.\<close>

definition at_rest :: "own \<Rightarrow> bool" where
  "at_rest w \<longleftrightarrow> (\<forall>p x. fst w p = Some x \<longrightarrow> (\<exists>m. snd w x = Some (Some m) \<and> p \<in> set (seat_humans m)))
     \<and> (\<forall>i m. snd w i = Some (Some m) \<longrightarrow> held m)"

lemma sound_weaken: "sound t Q w \<Longrightarrow> (\<And>x w. Q x w \<Longrightarrow> R x w) \<Longrightarrow> sound t R w"
  by (induction t arbitrary: w) (fastforce simp: image_iff)+

lemma sound_bind:
  assumes "sound m Q w" and "\<And>x w. Q x w \<Longrightarrow> sound (g x) R w"
  shows "sound (tbind m g) R w"
  using assms(1)
proof (induction m arbitrary: w)
  case (Step f k)
  show ?case unfolding tbind.simps sound.simps
  proof (intro allI impI)
    fix s assume "fits w s"
    then obtain w' where "moves w w' s (f s)" "own_ok w'" "sound (k s) Q w'" using Step.prems by auto
    moreover have "sound (tbind (k s) g) R w'" by (rule Step.IH) (simp_all add: calculation(3))
    ultimately show "\<exists>w'. moves w w' s (f s) \<and> own_ok w' \<and> sound (tbind (k s) g) R w'" by blast
  qed
qed (simp add: assms(2))

section \<open>A pool of sound threads\<close>

definition pool_ok :: "lobby \<times> (lobby, 'a) thread list \<Rightarrow> bool" where
  "pool_ok p \<longleftrightarrow> (\<exists>ws. length ws = length (snd p)
     \<and> (\<forall>i < length ws. own_ok (ws ! i) \<and> fits (ws ! i) (fst p) \<and> sound (snd p ! i) (\<lambda>_. at_rest) (ws ! i))
     \<and> (\<forall>i < length ws. \<forall>j < length ws. i \<noteq> j \<longrightarrow> dom (fst (ws ! i)) \<inter> dom (fst (ws ! j)) = {} \<and> dom (snd (ws ! i)) \<inter> dom (snd (ws ! j)) = {})
     \<and> (\<forall>q x. lb_hub (fst p) q = Some x \<longrightarrow> (\<exists>i < length ws. fst (ws ! i) q = Some x))
     \<and> (\<forall>n m. lb_matches (fst p) n = Some m \<longrightarrow> (\<exists>i < length ws. snd (ws ! i) n = Some (Some m))))"

lemma pool_start:
  assumes "lb_hub s = Map.empty" and "lb_matches s = Map.empty" and "\<And>t. t \<in> set ts \<Longrightarrow> sound t (\<lambda>_. at_rest) none"
  shows "pool_ok (s, ts)"
  unfolding pool_ok_def
  by (rule exI [of _ "replicate (length ts) none"]) (use assms in \<open>auto simp: own_ok_def fits_def none_def\<close>)

lemma apartI: "(\<And>x. x \<in> B \<Longrightarrow> x \<notin> A) \<Longrightarrow> A \<inter> B = {}"
  by blast

text \<open>A turn leaves what the other threads own as it was.\<close>

lemma other_fits:
  assumes "moves w w' s s'" and "fits w s" and "fits v s" and "dom (fst w) \<inter> dom (fst v) = {}" and "dom (snd w) \<inter> dom (snd v) = {}"
  shows "fits v s' \<and> dom (fst w') \<inter> dom (fst v) = {} \<and> dom (snd w') \<inter> dom (snd v) = {}"
proof -
  have hub: "fst w' p = None" if "fst v p \<noteq> None" for p
  proof (rule ccontr)
    assume "fst w' p \<noteq> None"
    moreover have "fst w p = None" using assms(4) that by auto
    ultimately have "lb_hub s p = None" using assms(1) by (simp add: moves_def)
    then show False using assms(3) that by (auto simp: fits_def)
  qed
  have ids: "snd w' i = None" if "snd v i \<noteq> None" for i
  proof (rule ccontr)
    assume "snd w' i \<noteq> None"
    moreover have "snd w i = None" using assms(5) that by auto
    ultimately have "lb_fresh s \<le> i" using assms(1) by (simp add: moves_def)
    moreover have "i < lb_fresh s" using assms(3) that by (auto simp: fits_def)
    ultimately show False by simp
  qed
  have keep_hub: "lb_hub s' p = lb_hub s p" if "fst v p \<noteq> None" for p
  proof -
    have "fst w p = None" using assms(4) that by auto
    then show ?thesis using assms(1) hub [OF that] by (simp add: moves_def)
  qed
  have keep_ids: "lb_matches s' i = lb_matches s i" if "snd v i \<noteq> None" for i
  proof -
    have "snd w i = None" using assms(5) that by auto
    then show ?thesis using assms(1) ids [OF that] by (simp add: moves_def)
  qed
  have fresh: "lb_fresh s \<le> lb_fresh s'" using assms(1) by (simp add: moves_def)
  have "fits v s'"
    unfolding fits_def
  proof (intro conjI allI impI)
    fix p x assume "fst v p = Some x"
    then show "lb_hub s' p = Some x" using keep_hub [of p] assms(3) by (simp add: fits_def)
  next
    fix i y assume y: "snd v i = Some y"
    then show "lb_matches s' i = y" using keep_ids [of i] assms(3) by (simp add: fits_def)
    have "i < lb_fresh s" using y assms(3) by (auto simp: fits_def)
    then show "i < lb_fresh s'" using fresh by simp
  next
    fix i assume "lb_fresh s' \<le> i"
    then show "lb_matches s' i = None" using assms(1) by (simp add: moves_def fits_def)
  qed
  moreover have "dom (fst w') \<inter> dom (fst v) = {}" by (rule apartI, unfold domIff, drule hub, simp)
  moreover have "dom (snd w') \<inter> dom (snd v) = {}" by (rule apartI, unfold domIff, drule ids, simp)
  ultimately show ?thesis by blast
qed

lemma turn_ok:
  assumes "pool_ok p"
  shows "pool_ok (turn i p)"
proof (cases "\<exists>f k. i < length (snd p) \<and> snd p ! i = Step f k")
  case False
  then have "turn i p = p" by (auto simp: turn_def split: thread.split)
  then show ?thesis using assms by simp
next
  case True
  then obtain f k where i: "i < length (snd p)" "snd p ! i = Step f k" by blast
  obtain s ts where p: "p = (s, ts)" by (cases p)
  obtain ws where ws: "length ws = length ts"
    and each: "\<And>j. j < length ws \<Longrightarrow> own_ok (ws ! j) \<and> fits (ws ! j) s \<and> sound (ts ! j) (\<lambda>_. at_rest) (ws ! j)"
    and apart: "\<And>a b. a < length ws \<Longrightarrow> b < length ws \<Longrightarrow> a \<noteq> b \<Longrightarrow> dom (fst (ws ! a)) \<inter> dom (fst (ws ! b)) = {} \<and> dom (snd (ws ! a)) \<inter> dom (snd (ws ! b)) = {}"
    and all_hub: "\<And>q x. lb_hub s q = Some x \<Longrightarrow> \<exists>j < length ws. fst (ws ! j) q = Some x"
    and all_ids: "\<And>n m. lb_matches s n = Some m \<Longrightarrow> \<exists>j < length ws. snd (ws ! j) n = Some (Some m)"
    using assms unfolding pool_ok_def p by auto
  have iw: "i < length ws" using i(1) by (simp add: ws p)
  obtain w' where w': "moves (ws ! i) w' s (f s)" "own_ok w'" "sound (k s) (\<lambda>_. at_rest) w'"
    using each [OF iw] i(2) by (auto simp: p)
  have turn: "turn i p = (f s, ts[i := k s])" using i by (simp add: turn_def p)
  have others: "fits (ws ! j) (f s) \<and> dom (fst w') \<inter> dom (fst (ws ! j)) = {} \<and> dom (snd w') \<inter> dom (snd (ws ! j)) = {}"
    if "j < length ws" "j \<noteq> i" for j
    by (rule other_fits [OF w'(1)]) (use each [OF iw] each [OF that(1)] apart [OF iw that(1)] that(2) in auto)
  show ?thesis unfolding turn pool_ok_def fst_conv snd_conv
  proof (intro exI [of _ "ws[i := w']"] conjI allI impI)
    show "length (ws[i := w']) = length (ts[i := k s])" by (simp add: ws)
  next
    fix j assume j: "j < length (ws[i := w'])"
    show "own_ok (ws[i := w'] ! j)" "fits (ws[i := w'] ! j) (f s)" "sound (ts[i := k s] ! j) (\<lambda>_. at_rest) (ws[i := w'] ! j)"
      using j each [of j] others [of j] w' ws by (cases "j = i"; simp add: moves_def)+
  next
    fix a b assume a: "a < length (ws[i := w'])" and b: "b < length (ws[i := w'])" and ab: "a \<noteq> b"
    show "dom (fst (ws[i := w'] ! a)) \<inter> dom (fst (ws[i := w'] ! b)) = {}" "dom (snd (ws[i := w'] ! a)) \<inter> dom (snd (ws[i := w'] ! b)) = {}"
      using a b ab apart [of a b] others [of a] others [of b] by (cases "a = i"; cases "b = i"; simp add: Int_commute)+
  next
    fix q x assume q: "lb_hub (f s) q = Some x"
    show "\<exists>j < length (ws[i := w']). fst (ws[i := w'] ! j) q = Some x"
    proof (cases "fst w' q = None")
      case False
      then have "fst w' q = Some x" using w'(1) q by (auto simp: moves_def fits_def)
      then show ?thesis using iw by (intro exI [of _ i]) simp
    next
      case True
      have "fst (ws ! i) q = None" using w'(1) True q by (auto simp: moves_def)
      moreover from this have "lb_hub s q = Some x" using w'(1) True q by (auto simp: moves_def)
      then obtain j where "j < length ws" "fst (ws ! j) q = Some x" using all_hub by blast
      ultimately show ?thesis by (intro exI [of _ j]) (cases "j = i"; simp)
    qed
  next
    fix n m assume n: "lb_matches (f s) n = Some m"
    show "\<exists>j < length (ws[i := w']). snd (ws[i := w'] ! j) n = Some (Some m)"
    proof (cases "snd w' n = None")
      case False
      then have "snd w' n = Some (Some m)" using w'(1) n by (auto simp: moves_def fits_def)
      then show ?thesis using iw by (intro exI [of _ i]) simp
    next
      case True
      have "snd (ws ! i) n = None" using w'(1) True n by (auto simp: moves_def)
      moreover from this have "lb_matches s n = Some m" using w'(1) True n by (auto simp: moves_def)
      then obtain j where "j < length ws" "snd (ws ! j) n = Some (Some m)" using all_ids by blast
      ultimately show ?thesis by (intro exI [of _ j]) (cases "j = i"; simp)
    qed
  qed
qed

lemma interleave_ok: "pool_ok p \<Longrightarrow> pool_ok (interleave is p)"
  by (induction "is" arbitrary: p) (simp_all add: turn_ok)

end
