(* ===== verification/Lobby_Properties.thy ===== *)
theory Lobby_Properties
  imports Lobby_Logic
begin

text \<open>
  Every request a player can send is a sound thread, so under any interleaving nobody plays two duels at once, and nobody
  stays marked as playing when the duel is gone.
\<close>

section \<open>Steps that touch neither the hub nor the matches\<close>

primrec quiet :: "(lobby, 'a) thread \<Rightarrow> bool" where
  "quiet (Ret x) = True"
| "quiet (Step f k) = (\<forall>s. lb_hub (f s) = lb_hub s \<and> lb_matches (f s) = lb_matches s \<and> lb_fresh s \<le> lb_fresh (f s) \<and> quiet (k s))"

named_theorems quiet_intros

lemma quiet_tbind [quiet_intros]: "quiet m \<Longrightarrow> (\<And>x. quiet (g x)) \<Longrightarrow> quiet (tbind m g)"
  by (induction m) simp_all

lemma quiet_ret [quiet_intros]: "quiet (lret x)" "quiet (lfail err)" "quiet (Ret y)"
  by (simp_all add: lret_def lfail_def)

lemma quiet_given [quiet_intros]: "quiet (given r)"
  by (cases r) (simp_all add: given_def quiet_ret)

lemma quiet_athen [quiet_intros]: "quiet m \<Longrightarrow> (\<And>x. quiet (f x)) \<Longrightarrow> quiet (athen m f)"
  unfolding athen_def by (rule quiet_tbind) (auto split: sum.split)

lemma quiet_always [quiet_intros]:
  "(\<And>s. lb_hub (snd (f s)) = lb_hub s \<and> lb_matches (snd (f s)) = lb_matches s \<and> lb_fresh s \<le> lb_fresh (snd (f s))) \<Longrightarrow> quiet (always f)"
  by (simp add: always_def atomic_def split_beta)

lemma quiet_redis [quiet_intros]:
  "(\<And>s. lb_hub (snd (f s)) = lb_hub s \<and> lb_matches (snd (f s)) = lb_matches s \<and> lb_fresh s \<le> lb_fresh (snd (f s))) \<Longrightarrow> quiet (redis e site n f)"
  by (simp add: redis_def quiet_intros)

lemma quiet_best [quiet_intros]:
  "(\<And>s. lb_hub (f s) = lb_hub s \<and> lb_matches (f s) = lb_matches s \<and> lb_fresh s \<le> lb_fresh (f s)) \<Longrightarrow> quiet (best_effort e site n f)"
  by (simp add: best_effort_def quiet_intros)

lemma quiet_look [quiet_intros]: "quiet (look f)"
  unfolding look_def by (rule quiet_always) simp

lemma quiet_send [quiet_intros]: "quiet (sendJSON p m)" "quiet (errorTo p code)"
  unfolding errorTo_def sendJSON_def by (rule quiet_always; simp add: hub_send_def)+

lemma quiet_if [quiet_intros]: "(b \<Longrightarrow> quiet m) \<Longrightarrow> (\<not> b \<Longrightarrow> quiet n) \<Longrightarrow> quiet (if b then m else n)"
  by simp

lemma quiet_option [quiet_intros]: "quiet m \<Longrightarrow> (\<And>x. quiet (f x)) \<Longrightarrow> quiet (case r of None \<Rightarrow> m | Some x \<Rightarrow> f x)"
  by (cases r) auto

lemma quiet_sum [quiet_intros]: "(\<And>x. quiet (f x)) \<Longrightarrow> (\<And>x. quiet (g x)) \<Longrightarrow> quiet (case r of Inl x \<Rightarrow> f x | Inr x \<Rightarrow> g x)"
  by (cases r) auto

lemma quiet_prod [quiet_intros]: "(\<And>x y. quiet (f x y)) \<Longrightarrow> quiet (case r of (x, y) \<Rightarrow> f x y)"
  by (cases r) auto

lemma quiet_parts [quiet_intros]:
  "quiet (lobby_allow e site k l w)" "quiet (requireVIP e p)" "quiet (inMatch e site n p)" "quiet (setLocale p loc)" "quiet (localeOf p)"
  "quiet (cancelInvite e p)" "quiet (dequeue e site p)" "quiet (refuse p code err)" "quiet (set_pointer e site n p mid)"
proof -
  show "quiet (lobby_allow e site k l w)"
    unfolding lobby_allow_def by (intro quiet_intros) (simp split: prod.split sum.split)
  show "quiet (requireVIP e p)" "quiet (refuse p code err)" unfolding requireVIP_def refuse_def by (intro quiet_intros)+
  show "quiet (inMatch e site n p)" unfolding inMatch_def by (intro quiet_intros) simp
  show "quiet (setLocale p loc)" "quiet (localeOf p)" unfolding setLocale_def localeOf_def by (intro quiet_intros; simp)+
  show "quiet (cancelInvite e p)" unfolding cancelInvite_def by (intro quiet_intros) simp_all
  show "quiet (dequeue e site p)" unfolding dequeue_def by (intro quiet_intros) simp_all
  show "quiet (set_pointer e site n p mid)" unfolding set_pointer_def by (intro quiet_intros) simp
qed

lemma quiet_gate [quiet_intros]: "quiet (arenaGate e p t)"
  unfolding arenaGate_def by (intro quiet_intros)

lemma quiet_tell [quiet_intros]: "quiet (tell_all ps code)"
  by (induction ps) (simp_all add: quiet_intros)

lemma quiet_watch [quiet_intros]: "quiet (watchQueueTimeout e p own marker)"
  unfolding watchQueueTimeout_def by (intro quiet_intros) simp_all

lemma quiet_moves: "fits w s \<Longrightarrow> lb_hub s' = lb_hub s \<Longrightarrow> lb_matches s' = lb_matches s \<Longrightarrow> lb_fresh s \<le> lb_fresh s' \<Longrightarrow> moves w w s s'"
  by (fastforce simp: moves_def fits_def)

lemma quiet_sound: "quiet t \<Longrightarrow> own_ok w \<Longrightarrow> sound t (\<lambda>_ v. v = w) w"
proof (induction t)
  case (Step f k)
  show ?case unfolding sound.simps
  proof (intro allI impI)
    fix s assume "fits w s"
    then have "moves w w s (f s)" using Step.prems by (auto intro: quiet_moves)
    moreover have "sound (k s) (\<lambda>_ v. v = w) w" using Step.IH [of "k s"] Step.prems by auto
    ultimately show "\<exists>w'. moves w w' s (f s) \<and> own_ok w' \<and> sound (k s) (\<lambda>_ v. v = w) w'" using Step.prems(2) by blast
  qed
qed simp

lemma sound_quiet: "quiet t \<Longrightarrow> own_ok w \<Longrightarrow> (\<And>x. Q x w) \<Longrightarrow> sound t Q w"
  by (rule sound_weaken [OF quiet_sound]) auto

lemma sound_after: "quiet m \<Longrightarrow> own_ok w \<Longrightarrow> (\<And>x. sound (g x) Q w) \<Longrightarrow> sound (tbind m g) Q w"
  by (rule sound_bind [OF quiet_sound]) auto

lemma sound_athen:
  assumes "sound m R w" and "\<And>err v. R (Inl err) v \<Longrightarrow> Q (Inl err) v" and "\<And>x v. R (Inr x) v \<Longrightarrow> sound (f x) Q v"
  shows "sound (athen m f) Q w"
  unfolding athen_def by (rule sound_bind [OF assms(1)]) (use assms(2,3) in \<open>auto split: sum.split\<close>)

lemma sound_athen_quiet: "quiet m \<Longrightarrow> own_ok w \<Longrightarrow> (\<And>err. Q (Inl err) w) \<Longrightarrow> (\<And>x. sound (f x) Q w) \<Longrightarrow> sound (athen m f) Q w"
  by (rule sound_athen [OF quiet_sound]) auto

lemma sound_always:
  assumes "\<And>s. fits w s \<Longrightarrow> \<exists>w'. moves w w' s (snd (f s)) \<and> own_ok w' \<and> Q (Inr (fst (f s))) w'"
  shows "sound (always f) Q w"
  using assms by (simp add: always_def atomic_def split_beta)

lemma sound_athen_always:
  assumes "\<And>s. fits w s \<Longrightarrow> \<exists>w'. moves w w' s (snd (f s)) \<and> own_ok w' \<and> sound (g (fst (f s))) Q w'"
  shows "sound (athen (always f) g) Q w"
  using assms by (simp add: athen_def always_def atomic_def split_beta)

lemma own_ok_none [simp]: "own_ok none" and at_rest_none [simp]: "at_rest none"
  by (simp_all add: own_ok_def none_def at_rest_def)

text \<open>Quiet steps that cannot fail.\<close>

definition smooth :: "'a act \<Rightarrow> bool" where
  "smooth t \<longleftrightarrow> (\<forall>w. own_ok w \<longrightarrow> sound t (\<lambda>r v. (\<exists>x. r = Inr x) \<and> v = w) w)"

lemma smooth_always:
  assumes "\<And>s. lb_hub (snd (f s)) = lb_hub s \<and> lb_matches (snd (f s)) = lb_matches s \<and> lb_fresh s \<le> lb_fresh (snd (f s))"
  shows "smooth (always f)"
  unfolding smooth_def
proof (intro allI impI)
  fix w assume "own_ok w"
  then show "sound (always f) (\<lambda>r v. (\<exists>x. r = Inr x) \<and> v = w) w"
    by (intro sound_always exI [of _ w] conjI quiet_moves) (simp_all add: assms)
qed

lemma smooth_parts: "smooth (lret x)" "smooth (sendJSON p m)" "smooth (set_pointer e site n p mid)" "smooth (errorTo p code)"
proof -
  show ret: "smooth (lret x)" for x :: 'z by (simp add: smooth_def lret_def)
  show send: "smooth (sendJSON p m)" for m unfolding sendJSON_def by (rule smooth_always) (simp add: hub_send_def)
  show "smooth (errorTo p code)" unfolding errorTo_def by (rule send)
  show "smooth (set_pointer e site n p mid)"
    unfolding set_pointer_def best_effort_def by (simp add: ret, intro impI smooth_always, simp)
qed

lemma smooth_if: "smooth m \<Longrightarrow> smooth n \<Longrightarrow> smooth (if b then m else n)"
  by simp

lemma sound_smooth:
  assumes "smooth m" and "own_ok w" and "\<And>x. sound (f x) Q w"
  shows "sound (athen m f) Q w"
proof (rule sound_athen)
  show "sound m (\<lambda>r v. (\<exists>x. r = Inr x) \<and> v = w) w" using assms(1,2) unfolding smooth_def by blast
qed (use assms(3) in auto)

lemma smooth_athen: "smooth m \<Longrightarrow> (\<And>x. smooth (f x)) \<Longrightarrow> smooth (athen m f)"
  unfolding smooth_def [of "athen m f"] by (intro allI impI sound_smooth) (auto simp: smooth_def)

lemma smooth_tell: "smooth (tell_all ps code)"
  by (induction ps) (simp_all add: smooth_parts smooth_athen)

section \<open>A match from its claim to its end\<close>

text \<open>The humans \<open>ps\<close> are in the hub under \<open>x\<close>.\<close>

definition claims :: "uuid list \<Rightarrow> uuid \<Rightarrow> uuid \<rightharpoonup> uuid" where
  "claims ps x = (\<lambda>p. if p \<in> set ps then Some x else None)"

lemma claims_apply: "claims ps x p = (if p \<in> set ps then Some x else None)"
  by (simp add: claims_def)

lemma claims_Nil [simp]: "claims [] x = Map.empty"
  by (simp add: claims_def fun_eq_iff)

lemma own_ok_claims [simp]: "own_ok (c, Map.empty)" "own_ok (c, [i \<mapsto> None])"
  by (auto simp: own_ok_def split: if_splits)

lemma own_ok_match: "(held m \<Longrightarrow> set (seat_humans m) \<subseteq> set ps) \<Longrightarrow> own_ok (claims ps i, [i \<mapsto> Some m])"
  by (auto simp: own_ok_def claims_apply split: if_splits)

lemma claim_moves:
  assumes "fits none s"
  shows "\<exists>w'. moves none w' s (snd (claim ps s)) \<and> own_ok w' \<and> (case fst (claim ps s) of None \<Rightarrow> w' = none | Some ph \<Rightarrow> w' = (claims ps ph, Map.empty))"
proof (cases "list_ex (InMatch s) ps")
  case True
  then show ?thesis
    using quiet_moves [OF assms, of "s\<lparr>lb_fresh := lb_fresh s + 1\<rparr>"] by (intro exI [of _ none]) (simp add: claim_def Let_def)
next
  case False
  then have free: "\<forall>p \<in> set ps. lb_hub s p = None" by (auto simp: list_ex_iff InMatch_def)
  then show ?thesis
    using False assms by (intro exI [of _ "(claims ps (lb_fresh s), Map.empty)"]) (auto simp: claim_def Let_def moves_def fits_def none_def claims_apply)
qed

lemma release_moves:
  assumes "fits (claims ps ph, Map.empty) s"
  shows "moves (claims ps ph, Map.empty) none s (release ph ps s)"
  using assms by (auto simp: release_def moves_def fits_def none_def claims_apply split: if_splits)

lemma abandon_sound: "sound (abandon ph ps code err) (\<lambda>r w. w = none \<and> r = Inl err) (claims ps ph, Map.empty)"
proof -
  have freed: "sound (athen (always (\<lambda>s. ((), release ph ps s))) (\<lambda>_. lfail err)) (\<lambda>r w. w = none \<and> r = Inl err) (claims ps ph, Map.empty)"
    by (rule sound_athen_always, rule exI [of _ none]) (simp add: release_moves lfail_def)
  show ?thesis unfolding abandon_def by (rule sound_smooth [OF smooth_tell]) (simp_all add: freed)
qed

lemma inserted_moves:
  assumes "fits (claims ps ph, Map.empty) s"
  shows "moves (claims ps ph, Map.empty) (claims ps ph, [lb_fresh s \<mapsto> None]) s (snd (InsertArenaMatch mode qs s))"
  using assms by (auto simp: InsertArenaMatch_def moves_def fits_def claims_apply)

lemma commit_moves:
  assumes "fits (claims ps ph, [mid \<mapsto> None]) s"
  shows "moves (claims ps ph, [mid \<mapsto> None]) (claims ps mid, [mid \<mapsto> Some m]) s
    (s\<lparr>lb_matches := (lb_matches s)(mid \<mapsto> m), lb_hub := (\<lambda>p. if p \<in> set ps then Some mid else lb_hub s p)\<rparr>)"
  using assms by (auto simp: moves_def fits_def claims_apply split: if_splits)

lemma played_moves:
  assumes "fits (claims ps mid, [mid \<mapsto> Some m]) s"
  shows "moves (claims ps mid, [mid \<mapsto> Some m]) (claims ps mid, [mid \<mapsto> Some m']) s (s\<lparr>lb_matches := (lb_matches s)(mid \<mapsto> m')\<rparr>)"
  using assms by (auto simp: moves_def fits_def claims_apply split: if_splits)

lemma clear_moves:
  assumes "fits (claims (p # ps) mid, \<mu>) s" and "p \<notin> set ps"
  shows "moves (claims (p # ps) mid, \<mu>) (claims ps mid, \<mu>) s (s\<lparr>lb_hub := (lb_hub s)(p := None)\<rparr>)"
  using assms by (auto simp: moves_def fits_def claims_apply split: if_splits)

lemma removed_moves:
  assumes "fits (Map.empty, [mid \<mapsto> y]) s"
  shows "moves (Map.empty, [mid \<mapsto> y]) none s (s\<lparr>lb_matches := (lb_matches s)(mid := None)\<rparr>)"
  using assms by (auto simp: moves_def fits_def none_def)

lemma clear_sound:
  assumes "\<not> held m" and "distinct ps"
  shows "sound (clear_hub ps) (\<lambda>r w. r = Inr () \<and> w = (Map.empty, [mid \<mapsto> Some m])) (claims ps mid, [mid \<mapsto> Some m])"
  using assms(2)
proof (induction ps)
  case (Cons p ps)
  have ok: "own_ok (claims ps mid, [mid \<mapsto> Some m])" using assms(1) by (intro own_ok_match) simp
  show ?case unfolding clear_hub.simps
  proof (rule sound_athen_always, intro exI [of _ "(claims ps mid, [mid \<mapsto> Some m])"] conjI ok)
    fix s assume "fits (claims (p # ps) mid, [mid \<mapsto> Some m]) s"
    then show "moves (claims (p # ps) mid, [mid \<mapsto> Some m]) (claims ps mid, [mid \<mapsto> Some m]) s (snd ((), s\<lparr>lb_hub := (lb_hub s)(p := None)\<rparr>))"
      unfolding snd_conv by (rule clear_moves) (use Cons.prems in simp)
    show "sound (clear_hub ps) (\<lambda>r w. r = Inr () \<and> w = (Map.empty, [mid \<mapsto> Some m])) (claims ps mid, [mid \<mapsto> Some m])"
      by (rule Cons.IH) (use Cons.prems in simp)
  qed
qed (simp add: lret_def)

text \<open>The seats of a match whose humans are exactly \<open>ps\<close>.\<close>

lemma take_down_sound:
  assumes "\<not> held m" and "distinct (seat_humans m)" and "mt_id m = mid"
  shows "sound (take_down m) (\<lambda>r w. r = Inr () \<and> w = none) (claims (seat_humans m) mid, [mid \<mapsto> Some m])"
proof -
  have ok: "own_ok (claims (seat_humans m) mid, [mid \<mapsto> Some m])" by (intro own_ok_match) simp
  have last: "sound (always (\<lambda>s. ((), s\<lparr>lb_matches := (lb_matches s)(mt_id m := None)\<rparr>))) (\<lambda>r w. r = Inr () \<and> w = none) (Map.empty, [mid \<mapsto> Some m])"
    by (rule sound_always, rule exI [of _ none]) (simp add: assms(3) removed_moves)
  show ?thesis
    unfolding take_down_def
    apply (rule sound_athen_always, rule exI [of _ "(claims (seat_humans m) mid, [mid \<mapsto> Some m])"])
    apply (intro conjI ok, rule quiet_moves, assumption, simp_all)
    apply (rule sound_athen [OF clear_sound [OF assms(1,2)]])
     apply (use last in auto)
    done
qed

lemma goroutine_sound:
  assumes "distinct (seat_humans m)" and "mt_id m = mid"
  shows "sound (match_goroutine e m) (\<lambda>r w. r = Inr () \<and> at_rest w) (claims (seat_humans m) mid, [mid \<mapsto> Some m])"
proof -
  define m' where "m' = fst (Run (le_duel e) (le_inputs e) (m, le_db e))"
  have same: "seat_humans m' = seat_humans m" "mt_id m' = mid"
    using Run_same_players [of m "le_duel e" "le_inputs e" "le_db e"] same_players_humans assms(2)
    unfolding m'_def by (auto simp: same_players_def)
  have ok: "own_ok (claims (seat_humans m) mid, [mid \<mapsto> Some m'])" by (intro own_ok_match) (simp add: same)
  have rest: "at_rest (claims (seat_humans m) mid, [mid \<mapsto> Some m'])" if "held m'"
    using that by (auto simp: at_rest_def same claims_apply split: if_splits)
  have over: "mt_phase m' = PhFinished \<and> mt_stored m' \<longleftrightarrow> \<not> held m'" by (auto simp: held_def unfinished_def)
  have finish: "sound (if mt_phase m' = PhFinished \<and> mt_stored m' then take_down m' else lret ()) (\<lambda>r w. r = Inr () \<and> at_rest w) (claims (seat_humans m) mid, [mid \<mapsto> Some m'])"
    unfolding over
  proof (cases "held m'")
    case False
    have "sound (take_down m') (\<lambda>r w. r = Inr () \<and> w = none) (claims (seat_humans m) mid, [mid \<mapsto> Some m'])"
      using take_down_sound [OF False _ same(2)] assms(1) by (simp add: same)
    then have "sound (take_down m') (\<lambda>r w. r = Inr () \<and> at_rest w) (claims (seat_humans m) mid, [mid \<mapsto> Some m'])"
      by (rule sound_weaken) auto
    then show "sound (if \<not> held m' then take_down m' else lret ()) (\<lambda>r w. r = Inr () \<and> at_rest w) (claims (seat_humans m) mid, [mid \<mapsto> Some m'])"
      using False by simp
  qed (simp add: lret_def rest)
  show ?thesis
    unfolding match_goroutine_def Let_def m'_def [symmetric]
    by (rule sound_athen_always, rule exI [of _ "(claims (seat_humans m) mid, [mid \<mapsto> Some m'])"])
      (use ok finish played_moves assms(2) in simp)
qed

text \<open>What starting a match leaves: nothing when the players could not be claimed.\<close>

definition settled_start :: "lobby_err + unit \<Rightarrow> own \<Rightarrow> bool" where
  "settled_start r w \<longleftrightarrow> at_rest w \<and> (r = Inl LAlreadyInMatch \<longrightarrow> w = none)"

lemma settled_start_none [simp]: "settled_start r none"
  by (simp add: settled_start_def)

lemma launch_sound:
  assumes "ps = map ss_id (filter (\<lambda>x. \<not> ss_bot x) [a, b])" and "distinct ps"
  shows "sound (launch e n mode a b ps ph qs opts key) settled_start (claims ps ph, Map.empty)"
proof (cases "le_fails e ''InsertArenaMatch'' n")
  case True
  then show ?thesis by (simp add: launch_def) (rule sound_weaken [OF abandon_sound], simp)
next
  case False
  define mk where "mk mid = Start (le_start e) (NewMatch mid mode a b qs opts key)" for mid
  have mk: "seat_humans (mk mid) = ps" "mt_id (mk mid) = mid" for mid
    by (simp_all add: mk_def assms(1) seat_humans_def Start_def NewMatch_def new_seat_def)
  have run: "sound (match_goroutine e (mk mid)) settled_start (claims ps mid, [mid \<mapsto> Some (mk mid)])" for mid
  proof -
    have "sound (match_goroutine e (mk mid)) (\<lambda>r w. r = Inr () \<and> at_rest w) (claims ps mid, [mid \<mapsto> Some (mk mid)])"
      using goroutine_sound [of "mk mid" mid e] assms(2) by (simp add: mk)
    then show ?thesis by (rule sound_weaken) (simp add: settled_start_def)
  qed
  have okm: "own_ok (claims ps mid, [mid \<mapsto> Some (mk mid)])" for mid by (intro own_ok_match) (simp add: mk)
  show ?thesis
    unfolding launch_def Let_def mk_def [symmetric] if_not_P [OF False]
    apply (rule sound_athen_always, rule exI, intro conjI, erule inserted_moves, simp)
    apply (rule sound_smooth [OF smooth_parts(3)], simp)
    apply (rule sound_smooth [OF smooth_if [OF smooth_parts(1) smooth_parts(3)]], simp)
    apply (rule sound_athen_always, rule exI, intro conjI)
      apply (unfold InsertArenaMatch_def fst_conv snd_conv, erule commit_moves)
     apply (rule okm)
    apply (intro sound_smooth smooth_if smooth_parts okm run)
    done
qed


lemma smooth_look: "smooth (look f)"
  unfolding look_def by (rule smooth_always) simp

lemma startMatch_sound:
  assumes "mode = ModeBot \<or> a \<noteq> b"
  shows "sound (startMatch e n mode a b) settled_start none"
proof -
  define hs where "hs = (if mode = ModeBot then [a] else [a, b])"
  have give_up: "sound (abandon ph hs code err) settled_start (claims hs ph, Map.empty)" for ph code err
    by (rule sound_weaken [OF abandon_sound]) simp
  have go: "sound (launch e n mode \<lparr>ss_id = a, ss_locale = la, ss_rating = ra, ss_bot = False\<rparr>
      \<lparr>ss_id = b, ss_locale = lb, ss_rating = rb, ss_bot = (mode = ModeBot)\<rparr> hs ph qs opts key) settled_start (claims hs ph, Map.empty)"
    for la lb ra rb ph qs opts key
    by (rule launch_sound) (use assms in \<open>auto simp: hs_def\<close>)
  have questions: "sound (case pickQuestions e locs of
        Inl err \<Rightarrow> abandon ph hs (if err = LNotEnoughQuestions then ''not_enough_questions'' else ''server_busy'') err
      | Inr (qs, opts, key) \<Rightarrow> launch e n mode \<lparr>ss_id = a, ss_locale = la, ss_rating = ra, ss_bot = False\<rparr>
          \<lparr>ss_id = b, ss_locale = lb, ss_rating = rb, ss_bot = (mode = ModeBot)\<rparr> hs ph qs opts key) settled_start (claims hs ph, Map.empty)"
    for locs la lb ra rb ph
    by (auto simp: give_up go split: sum.split)
  have local: "smooth (localeOf p)" for p unfolding localeOf_def by (rule smooth_look)
  have claimed: "sound (case le_rating e a of
             Inl err \<Rightarrow> abandon ph hs ''server_busy'' err
           | Inr ra \<Rightarrow>
               athen (localeOf a) (\<lambda>la.
               case (if mode = ModeBot then Inr ra else le_rating e b) of
                 Inl err \<Rightarrow> abandon ph hs ''server_busy'' err
               | Inr rb \<Rightarrow>
                   athen (if mode = ModeBot then lret la else localeOf b) (\<lambda>lb.
                   case pickQuestions e [la, lb] of
                     Inl err \<Rightarrow> abandon ph hs (if err = LNotEnoughQuestions then ''not_enough_questions'' else ''server_busy'') err
                   | Inr (qs, opts, key) \<Rightarrow>
                       launch e n mode \<lparr>ss_id = a, ss_locale = la, ss_rating = ra, ss_bot = False\<rparr>
                         \<lparr>ss_id = b, ss_locale = lb, ss_rating = rb, ss_bot = (mode = ModeBot)\<rparr> hs ph qs opts key)))
      settled_start (claims hs ph, Map.empty)" for ph
  proof (cases "le_rating e a")
    case (Inr ra)
    show ?thesis unfolding Inr sum.case
    proof (rule sound_smooth [OF local own_ok_claims(1)])
      fix la
      show "sound (case (if mode = ModeBot then Inr ra else le_rating e b) of
                 Inl err \<Rightarrow> abandon ph hs ''server_busy'' err
               | Inr rb \<Rightarrow>
                   athen (if mode = ModeBot then lret la else localeOf b) (\<lambda>lb.
                   case pickQuestions e [la, lb] of
                     Inl err \<Rightarrow> abandon ph hs (if err = LNotEnoughQuestions then ''not_enough_questions'' else ''server_busy'') err
                   | Inr (qs, opts, key) \<Rightarrow>
                       launch e n mode \<lparr>ss_id = a, ss_locale = la, ss_rating = ra, ss_bot = False\<rparr>
                         \<lparr>ss_id = b, ss_locale = lb, ss_rating = rb, ss_bot = (mode = ModeBot)\<rparr> hs ph qs opts key))
          settled_start (claims hs ph, Map.empty)"
        by (cases "if mode = ModeBot then Inr ra else le_rating e b")
          (simp_all only: sum.case give_up, intro sound_smooth [OF smooth_if [OF smooth_parts(1) local] own_ok_claims(1)] questions)
    qed
  qed (simp add: give_up)
  show ?thesis
    unfolding startMatch_def Let_def hs_def [symmetric]
  proof (rule sound_athen_always)
    fix s assume "fits none s"
    from claim_moves [OF this, of hs] obtain w' where w': "moves none w' s (snd (claim hs s))" "own_ok w'"
        "case fst (claim hs s) of None \<Rightarrow> w' = none | Some ph \<Rightarrow> w' = (claims hs ph, Map.empty)" by blast
    show "\<exists>w'. moves none w' s (snd (claim hs s)) \<and> own_ok w' \<and> sound (case fst (claim hs s) of
        None \<Rightarrow> lfail LAlreadyInMatch
      | Some ph \<Rightarrow>
          (case le_rating e a of
             Inl err \<Rightarrow> abandon ph hs ''server_busy'' err
           | Inr ra \<Rightarrow>
               athen (localeOf a) (\<lambda>la.
               case (if mode = ModeBot then Inr ra else le_rating e b) of
                 Inl err \<Rightarrow> abandon ph hs ''server_busy'' err
               | Inr rb \<Rightarrow>
                   athen (if mode = ModeBot then lret la else localeOf b) (\<lambda>lb.
                   case pickQuestions e [la, lb] of
                     Inl err \<Rightarrow> abandon ph hs (if err = LNotEnoughQuestions then ''not_enough_questions'' else ''server_busy'') err
                   | Inr (qs, opts, key) \<Rightarrow>
                       launch e n mode \<lparr>ss_id = a, ss_locale = la, ss_rating = ra, ss_bot = False\<rparr>
                         \<lparr>ss_id = b, ss_locale = lb, ss_rating = rb, ss_bot = (mode = ModeBot)\<rparr> hs ph qs opts key)))) settled_start w'"
      using w' claimed by (intro exI [of _ w']) (cases "fst (claim hs s)"; simp add: lfail_def)
  qed
qed

section \<open>Every request is sound\<close>

lemma scan_bucket_other: "fst (scan_bucket self marked ps) = Some p \<Longrightarrow> p \<noteq> self"
  by (induction ps) (auto split: if_splits prod.splits)

lemma scan_buckets_other: "fst (scan_buckets self marked bs q) = Some p \<Longrightarrow> p \<noteq> self"
proof (induction bs arbitrary: q)
  case (Cons b bs)
  obtain found gone where one: "scan_bucket self marked (map fst (take 50 (q b))) = (found, gone)"
    by (cases "scan_bucket self marked (map fst (take 50 (q b)))")
  have "x \<noteq> self" if "found = Some x" for x
    by (rule scan_bucket_other [of self marked "map fst (take 50 (q b))"]) (use one that in simp)
  then show ?case using Cons one by (cases found) (auto simp: Let_def)
qed simp

lemma join_script_frame:
  "lb_hub (snd (join_script p now t bs own s)) = lb_hub s" "lb_matches (snd (join_script p now t bs own s)) = lb_matches s"
  "lb_fresh (snd (join_script p now t bs own s)) = lb_fresh s" "fst (join_script p now t bs own s) = Paired opp \<Longrightarrow> opp \<noteq> p"
  using scan_buckets_other [of p _ bs "lb_queue s"]
  by (auto simp: join_script_def split: prod.splits option.splits) (metis fst_conv)

lemma join_sound: "sound (join_attempts n e p bs own) (\<lambda>_. at_rest) none"
proof (induction n)
  case 0
  show ?case unfolding join_attempts.simps by (intro sound_quiet quiet_intros) simp_all
next
  case (Suc n)
  have pair: "sound (athen (look (\<lambda>s. Alive s opp)) (\<lambda>alive.
          if \<not> alive then join_attempts n e p bs own
          else athen (inMatch e ''JoinQueue.inMatch'' n opp) (\<lambda>busy.
            if busy then join_attempts n e p bs own
            else tbind (startMatch e n ModeRanked p opp) (\<lambda>res.
              if res = Inl LAlreadyInMatch then join_attempts n e p bs own else Ret res)))) (\<lambda>_. at_rest) none" if "opp \<noteq> p" for opp
  proof -
    have start: "sound (tbind (startMatch e n ModeRanked p opp) (\<lambda>res. if res = Inl LAlreadyInMatch then join_attempts n e p bs own else Ret res)) (\<lambda>_. at_rest) none"
      by (rule sound_bind [OF startMatch_sound]) (use that Suc in \<open>auto simp: settled_start_def\<close>)
    show ?thesis
      by (rule sound_athen_quiet, rule quiet_look, simp, simp, rename_tac alive, case_tac alive, simp_all add: Suc)
        (rule sound_athen_quiet, rule quiet_parts, simp, simp, simp add: Suc start)
  qed
  have wait: "sound (athen (look lb_online) (\<lambda>online. athen (sendJSON p (LQueueJoined now online)) (\<lambda>_. watchQueueTimeout e p own marker))) (\<lambda>_. at_rest) none" for now marker
    by (intro sound_quiet quiet_intros) simp_all
  show ?case
  proof (cases "le_fails e ''JoinQueue.Eval'' n")
    case True
    then show ?thesis by (simp add: redis_def athen_def lfail_def Let_def)
  next
    case False
    show ?thesis unfolding join_attempts.simps Let_def redis_def if_not_P [OF False]
    proof (rule sound_athen_always)
      fix s assume fits: "fits none s"
      let ?r = "join_script p (lms e ''JoinQueue.now'' n) (lms e ''JoinQueue.Eval'' n) bs own s"
      have "moves none none s (snd ?r)" by (rule quiet_moves [OF fits]) (simp_all add: join_script_frame)
      moreover have "sound (case fst ?r of
          Queued marker \<Rightarrow>
            athen (look lb_online) (\<lambda>online. athen (sendJSON p (LQueueJoined (lms e ''JoinQueue.now'' n) online)) (\<lambda>_. watchQueueTimeout e p own marker))
        | Paired opp \<Rightarrow> athen (look (\<lambda>s. Alive s opp)) (\<lambda>alive.
          if \<not> alive then join_attempts n e p bs own
          else athen (inMatch e ''JoinQueue.inMatch'' n opp) (\<lambda>busy.
            if busy then join_attempts n e p bs own
            else tbind (startMatch e n ModeRanked p opp) (\<lambda>res.
              if res = Inl LAlreadyInMatch then join_attempts n e p bs own else Ret res)))) (\<lambda>_. at_rest) none"
      proof (cases "fst ?r")
        case (Paired opp)
        show ?thesis unfolding Paired join_result.case by (rule pair) (rule join_script_frame(4) [OF Paired])
      qed (simp add: wait)
      ultimately show "\<exists>w'. moves none w' s (snd ?r) \<and> own_ok w' \<and> sound (case fst ?r of
          Queued marker \<Rightarrow>
            athen (look lb_online) (\<lambda>online. athen (sendJSON p (LQueueJoined (lms e ''JoinQueue.now'' n) online)) (\<lambda>_. watchQueueTimeout e p own marker))
        | Paired opp \<Rightarrow> athen (look (\<lambda>s. Alive s opp)) (\<lambda>alive.
          if \<not> alive then join_attempts n e p bs own
          else athen (inMatch e ''JoinQueue.inMatch'' n opp) (\<lambda>busy.
            if busy then join_attempts n e p bs own
            else tbind (startMatch e n ModeRanked p opp) (\<lambda>res.
              if res = Inl LAlreadyInMatch then join_attempts n e p bs own else Ret res)))) (\<lambda>_. at_rest) w'"
        by (intro exI [of _ none]) simp
    qed
  qed
qed


text \<open>A quiet request, and one that starts a match and may then answer the player.\<close>

lemma rest_quiet: "quiet t \<Longrightarrow> sound t (\<lambda>_. at_rest) none"
  by (intro sound_quiet) simp_all

lemma rest_athen: "quiet m \<Longrightarrow> (\<And>x. sound (f x) (\<lambda>_. at_rest) none) \<Longrightarrow> sound (athen m f) (\<lambda>_. at_rest) none"
  by (intro sound_athen_quiet) simp_all

lemma rest_tbind: "quiet m \<Longrightarrow> (\<And>x. sound (f x) (\<lambda>_. at_rest) none) \<Longrightarrow> sound (tbind m f) (\<lambda>_. at_rest) none"
  by (intro sound_after) simp_all

lemma rest_start:
  assumes "mode = ModeBot \<or> a \<noteq> b"
  shows "sound (tbind (startMatch e n mode a b) (\<lambda>res. if res = Inl LAlreadyInMatch then refuse p code LAlreadyInMatch else Ret res)) (\<lambda>_. at_rest) none"
  by (rule sound_bind [OF startMatch_sound [OF assms]]) (auto simp: settled_start_def intro: rest_quiet quiet_parts)

lemma rest_if: "(b \<Longrightarrow> sound t Q w) \<Longrightarrow> (\<not> b \<Longrightarrow> sound u Q w) \<Longrightarrow> sound (if b then t else u) Q w"
  by simp

lemma rest_option: "(r = None \<Longrightarrow> sound t Q w) \<Longrightarrow> (\<And>x. r = Some x \<Longrightarrow> sound (f x) Q w) \<Longrightarrow> sound (case r of None \<Rightarrow> t | Some x \<Rightarrow> f x) Q w"
  by (cases r) auto

lemma rest_sum: "(\<And>x. sound (f x) Q w) \<Longrightarrow> (\<And>x. sound (g x) Q w) \<Longrightarrow> sound (case r of Inl x \<Rightarrow> f x | Inr x \<Rightarrow> g x) Q w"
  by (cases r) auto

lemma quiet_invites: "quiet (invite_attempts n e p)"
proof (induction n)
  case (Suc n)
  have "quiet (redis e ''CreateInvite.SetNX'' n (\<lambda>s.
         if live (lms e ''CreateInvite'' n) (lb_invite s code) \<noteq> None then (False, s)
         else (True, s\<lparr>lb_invite := (lb_invite s)(code \<mapsto> (p, lms e ''CreateInvite'' n + ttl_ms inviteTTL))\<rparr>)))" for code
    by (rule quiet_redis) simp
  then show ?case unfolding invite_attempts.simps Let_def by (intro quiet_intros Suc) simp_all
qed (simp add: quiet_intros)

lemma request_sound: "sound (lobby_thread e p t req) (\<lambda>_. at_rest) none"
proof (cases req)
  case (JoinTheQueue loc)
  show ?thesis unfolding lobby_thread_def JoinTheQueue lobby_request.case JoinQueue_def
    by (intro rest_athen rest_if join_sound rest_quiet quiet_intros)
next
  case LeaveTheQueue
  show ?thesis unfolding lobby_thread_def LeaveTheQueue lobby_request.case LeaveQueue_def by (intro rest_quiet quiet_intros)
next
  case (Invite loc)
  show ?thesis unfolding lobby_thread_def Invite lobby_request.case CreateInvite_def by (intro rest_quiet quiet_intros quiet_invites)
next
  case WithdrawInvite
  show ?thesis unfolding lobby_thread_def WithdrawInvite lobby_request.case CancelInvite_def by (intro rest_quiet quiet_intros)
next
  case (AcceptInvite code loc)
  have del: "quiet (always (\<lambda>s. (live now (lb_invite s k) \<noteq> None, s\<lparr>lb_invite := (lb_invite s)(k := None)\<rparr>)))" for now k
    by (rule quiet_always) simp
  show ?thesis unfolding lobby_thread_def AcceptInvite lobby_request.case JoinInvite_def Let_def
    by (intro rest_athen rest_tbind rest_if rest_option rest_sum rest_start del rest_quiet quiet_intros) auto
next
  case (PlayBot loc)
  have "quiet (always (\<lambda>s. (lb_fresh s, s\<lparr>lb_fresh := lb_fresh s + 1\<rparr>)))" by (rule quiet_always) simp
  then show ?thesis unfolding lobby_thread_def PlayBot lobby_request.case StartBot_def
    by (intro rest_athen rest_start quiet_intros) simp_all
next
  case (Connect c)
  show ?thesis unfolding lobby_thread_def Connect lobby_request.case Register_def by (intro rest_quiet quiet_intros) simp
next
  case (Disconnect c)
  show ?thesis unfolding lobby_thread_def Disconnect lobby_request.case OnDisconnect_def Unregister_def LeaveQueue_def
    by (intro rest_quiet quiet_intros) simp
qed

section \<open>Nobody plays twice, nobody is locked out\<close>

record lobby_arrival =
  la_env :: lobby_env
  la_player :: uuid
  la_text :: string
  la_request :: lobby_request

definition arrivals :: "lobby_arrival list \<Rightarrow> (lobby, lobby_err + unit) thread list" where
  "arrivals xs = map (\<lambda>x. lobby_thread (la_env x) (la_player x) (la_text x) (la_request x)) xs"

lemma arrivals_ok: "lb_hub s = Map.empty \<Longrightarrow> lb_matches s = Map.empty \<Longrightarrow> pool_ok (interleave sched (s, arrivals xs))"
  by (intro interleave_ok pool_start) (auto simp: arrivals_def request_sound)

lemma pool_players:
  assumes "pool_ok p" and "lb_matches (fst p) i = Some m" and "held m" and "q \<in> set (seat_humans m)"
  shows "lb_hub (fst p) q = Some i"
proof -
  obtain w where "own_ok w" "fits w (fst p)" "snd w i = Some (Some m)"
    using assms(1,2) unfolding pool_ok_def by metis
  then have "fst w q = Some i" using assms(3,4) by (auto simp: own_ok_def)
  then show ?thesis using \<open>fits w (fst p)\<close> by (simp add: fits_def)
qed

text \<open>
  C33: Nobody plays two duels at once: whatever requests arrive (joining the queue, inviting, accepting, the bot, leaving, connecting
  and disconnecting) and however their steps interleave, a player who sits in two duels that have not ended sits in one
  duel.
\<close>

theorem one_duel_per_player:
  assumes "lb_hub s0 = Map.empty" and "lb_matches s0 = Map.empty" and "interleave sched (s0, arrivals xs) = (s, ts)"
    and "lb_matches s i = Some m" and "unfinished m" and "lb_matches s j = Some m'" and "unfinished m'"
    and "q \<in> set (seat_humans m)" and "q \<in> set (seat_humans m')"
  shows "i = j"
proof -
  have ok: "pool_ok (s, ts)" using arrivals_ok [OF assms(1,2), of sched xs] unfolding assms(3) .
  have "lb_hub s q = Some i" using pool_players [OF ok] assms(4,5,8) by (simp add: held_def)
  moreover have "lb_hub s q = Some j" using pool_players [OF ok] assms(6,7,9) by (simp add: held_def)
  ultimately show ?thesis by simp
qed

definition done_thread :: "(lobby, 'a) thread \<Rightarrow> bool" where
  "done_thread t \<longleftrightarrow> (case t of Ret _ \<Rightarrow> True | Step _ _ \<Rightarrow> False)"

text \<open>
  C34: When all requests and duels that arrived have come to rest, whoever is still marked as being in a match sits in a
  live duel that holds its players: one that has not ended, or one that has ended but whose result could not be stored (and
  the lobby cleaned up) by any attempt within the ten seconds that all attempts share. The latter players stay marked, see
  \<open>unstored_duel_keeps_players\<close>; nobody else is locked out of the arena.
\<close>

theorem nobody_stays_in_match:
  assumes "lb_hub s0 = Map.empty" and "lb_matches s0 = Map.empty" and "interleave sched (s0, arrivals xs) = (s, ts)"
    and "list_all done_thread ts" and "InMatch s q"
  shows "\<exists>i m. lb_hub s q = Some i \<and> lb_matches s i = Some m \<and> q \<in> set (seat_humans m) \<and> (unfinished m \<or> \<not> mt_stored m)"
proof -
  have ok: "pool_ok (s, ts)" using arrivals_ok [OF assms(1,2), of sched xs] unfolding assms(3) .
  obtain i where i: "lb_hub s q = Some i" using assms(5) by (auto simp: InMatch_def)
  obtain ws k where k: "length ws = length ts" "k < length ws" "fst (ws ! k) q = Some i"
    and each: "\<And>j. j < length ws \<Longrightarrow> own_ok (ws ! j) \<and> fits (ws ! j) s \<and> sound (ts ! j) (\<lambda>_. at_rest) (ws ! j)"
    using ok i unfolding pool_ok_def by (metis fst_conv snd_conv)
  have "done_thread (ts ! k)" using assms(4) k(1,2) by (simp add: list_all_length)
  then have "at_rest (ws ! k)" using each [OF k(2)] by (auto simp: done_thread_def split: thread.splits)
  then obtain m where m: "snd (ws ! k) i = Some (Some m)" "q \<in> set (seat_humans m)" "held m"
    using k(3) unfolding at_rest_def by blast
  moreover have "lb_matches s i = Some m" using each [OF k(2)] m(1) by (auto simp: fits_def)
  ultimately show ?thesis using i by (auto simp: held_def)
qed

section \<open>Running requests one after the other\<close>

lemma solo_athen: "solo (athen m f) s = (case solo m s of (Inl err, s') \<Rightarrow> (Inl err, s') | (Inr x, s') \<Rightarrow> solo (f x) s')"
  by (simp add: athen_def solo_tbind split: prod.split sum.split)

lemma solo_simps [simp]:
  "solo (lret x) s = (Inr x, s)" "solo (lfail err) s = (Inl err, s)" "solo (always f) s = (Inr (fst (f s)), snd (f s))"
  "solo (look g) s = (Inr (g s), s)" "solo (given r) s = (r, s)"
  by (simp_all add: lret_def lfail_def always_def look_def given_def split_beta split: sum.split)

lemma solo_redis: "solo (redis e site n f) s = (if le_fails e site n then (Inl LFailure, s) else (Inr (fst (f s)), snd (f s)))"
  by (simp add: redis_def)

lemma solo_best: "solo (best_effort e site n f) s = (Inr (), if le_fails e site n then s else f s)"
  by (simp add: best_effort_def)

lemmas solo_eval = solo_athen solo_tbind solo_redis solo_best

text \<open>A duel that ended without being stored (\<open>finish_not_stored\<close>) leaves its players in the hub, and nothing takes them out again.\<close>

lemma unstored_duel_keeps_players:
  assumes "m' = fst (Run (le_duel e) (le_inputs e) (m, le_db e))" and "\<not> mt_stored m'"
  shows "solo (match_goroutine e m) s = (Inr (), s\<lparr>lb_matches := (lb_matches s)(mt_id m \<mapsto> m')\<rparr>)"
  using assms by (simp add: match_goroutine_def solo_athen)

lemma interleave_append: "interleave (xs @ ys) p = interleave ys (interleave xs p)"
  by (induction xs arbitrary: p) simp_all

lemma run_alone:
  assumes "i < length ts" and "ts ! i = t"
  shows "\<exists>n. interleave (replicate n i) (s, ts) = (snd (solo t s), ts[i := Ret (fst (solo t s))])"
  using assms
proof (induction t arbitrary: s ts)
  case (Ret x)
  then have "ts[i := Ret x] = ts" by (metis list_update_id)
  then show ?case by (intro exI [of _ 0]) simp
next
  case (Step f k)
  obtain n where n: "interleave (replicate n i) (f s, ts[i := k s]) = (snd (solo (k s) (f s)), ts[i := Ret (fst (solo (k s) (f s)))])"
    using Step.IH [of "k s" "ts[i := k s]" "f s"] Step.prems by auto
  have "turn i (s, ts) = (f s, ts[i := k s])" using Step.prems by (simp add: turn_def)
  then show ?case using n by (intro exI [of _ "Suc n"]) simp
qed

section \<open>Witnesses\<close>

text \<open>A lobby where players 4 and 7 are connected, and an environment without faults with ten questions.\<close>

definition fx_lobby :: lobby where
  "fx_lobby = \<lparr>lb_conns = [4 \<mapsto> 5, 7 \<mapsto> 8], lb_hub = Map.empty, lb_matches = Map.empty, lb_fresh = 100, lb_locale = Map.empty, lb_tickets = Map.empty,
     lb_queue = (\<lambda>_. []), lb_marker = Map.empty, lb_invite = Map.empty, lb_host = Map.empty, lb_pointer = Map.empty, lb_limits = Map.empty,
     lb_rows = [], lb_online = 2, lb_sent = []\<rparr>"

definition fx_lobby_env :: lobby_env where
  "fx_lobby_env = \<lparr>le_fails = (\<lambda>_ _. False), le_clk = (\<lambda>_ _. 0), le_enabled = Inr True, le_vip = (\<lambda>_. Inr True), le_rating = (\<lambda>_. Inr 1000),
     le_ids = Inr [1, 2, 3, 4, 5, 6, 7, 8, 9, 10], le_keys = Inr (\<lambda>q. Some (10 * q)), le_details = (\<lambda>_. Inr (\<lambda>q. Some [10 * q, 10 * q + 1])),
     le_bytes = (\<lambda>_. []), le_token = ''t'', le_start = fx_tick 0, le_inputs = [], le_duel = fx_arena, le_db = fx_arena_db\<rparr>"

text \<open>Two tabs of player 4 ask for the bot.\<close>

definition fx_tabs :: "lobby_arrival list" where
  "fx_tabs = replicate 2 \<lparr>la_env = fx_lobby_env, la_player = 4, la_text = ''p'', la_request = PlayBot ''ru''\<rparr>"


lemma fx_lobby_fields [simp]:
  "lb_conns fx_lobby = [4 \<mapsto> 5, 7 \<mapsto> 8]" "lb_hub fx_lobby = Map.empty" "lb_matches fx_lobby = Map.empty" "lb_fresh fx_lobby = 100" "lb_locale fx_lobby = Map.empty"
  "lb_marker fx_lobby = Map.empty" "lb_host fx_lobby = Map.empty" "lb_pointer fx_lobby = Map.empty" "lb_limits fx_lobby = Map.empty"
  by (simp_all add: fx_lobby_def)

lemma fx_lobby_env_fields [simp]:
  "le_fails fx_lobby_env site n = False" "lms fx_lobby_env site n = 0" "le_vip fx_lobby_env p = Inr True" "le_rating fx_lobby_env p = Inr 1000"
  "le_inputs fx_lobby_env = []" "le_start fx_lobby_env = fx_tick 0"
  by (simp_all add: fx_lobby_env_def lms_def unix_milli_def go_div_def)

lemma fx_gate: "solo (arenaGate fx_lobby_env 4 ''p'') fx_lobby = (Inr (), fx_lobby\<lparr>lb_limits := [''arena:rl:join:p'' \<mapsto> (1, Some 300000)]\<rparr>)"
  by (simp add: arenaGate_def solo_eval requireVIP_def lobby_allow_def inMatch_def InMatch_def Allow_def Hit_def allowScript_def live_count_def live_def second_def go_div_def)

lemma fx_questions: "\<exists>opts key. pickQuestions fx_lobby_env [loc, loc] = Inr ([1, 2, 3, 4, 5, 6, 7, 8, 9, 10], opts, key)"
  by (simp add: pickQuestions_def fx_lobby_env_def usable_def QuestionCount_def)

lemma started:
  "seat_humans (Start e (NewMatch i mode a b qs opts key)) = map ss_id (filter (\<lambda>x. \<not> ss_bot x) [a, b])"
  "mt_phase (Start e (NewMatch i mode a b qs opts key)) = PhPending" "mt_id (Start e (NewMatch i mode a b qs opts key)) = i"
  by (simp_all add: seat_humans_def Start_def NewMatch_def new_seat_def)

lemma fx_bot:
  "\<exists>m. fst (solo (StartBot fx_lobby_env 4 ''p'' ''ru'') fx_lobby) = Inr () \<and> lb_hub (snd (solo (StartBot fx_lobby_env 4 ''p'' ''ru'') fx_lobby)) 4 = Some 102
     \<and> lb_matches (snd (solo (StartBot fx_lobby_env 4 ''p'' ''ru'') fx_lobby)) = [102 \<mapsto> m] \<and> seat_humans m = [4] \<and> unfinished m"
proof -
  obtain opts key where q: "pickQuestions fx_lobby_env [''ru'', ''ru''] = Inr ([1, 2, 3, 4, 5, 6, 7, 8, 9, 10], opts, key)" using fx_questions by blast
  let ?m = "Start (fx_tick 0) (NewMatch 102 ModeBot \<lparr>ss_id = 4, ss_locale = ''ru'', ss_rating = 1000, ss_bot = False\<rparr>
      \<lparr>ss_id = 100, ss_locale = ''ru'', ss_rating = 1000, ss_bot = True\<rparr> [1, 2, 3, 4, 5, 6, 7, 8, 9, 10] opts key)"
  show ?thesis
    by (rule exI [of _ ?m]) (simp add: StartBot_def solo_eval fx_gate [unfolded fx_lobby_def] dequeue_def cancelInvite_def live_def setLocale_def normalizeLocale_def startMatch_def claim_def Let_def InMatch_def
        localeOf_def q launch_def InsertArenaMatch_def set_pointer_def sendJSON_def hub_send_def match_goroutine_def unfinished_def started fx_lobby_def
        cong: if_cong)
qed

lemma fx_refused:
  assumes "lb_hub s 4 \<noteq> None"
  shows "lb_hub (snd (solo (StartBot fx_lobby_env 4 ''p'' ''ru'') s)) = lb_hub s \<and> lb_matches (snd (solo (StartBot fx_lobby_env 4 ''p'' ''ru'') s)) = lb_matches s"
  using assms
  by (auto simp: StartBot_def arenaGate_def solo_eval requireVIP_def lobby_allow_def inMatch_def InMatch_def errorTo_def sendJSON_def hub_send_def
      split: prod.split sum.split)

lemma fx_tabs_run:
  "\<exists>sched s ts m. interleave sched (fx_lobby, arrivals fx_tabs) = (s, ts) \<and> list_all done_thread ts
     \<and> lb_hub s 4 = Some 102 \<and> lb_matches s = [102 \<mapsto> m] \<and> seat_humans m = [4] \<and> unfinished m"
proof -
  let ?t = "StartBot fx_lobby_env 4 ''p'' ''ru''"
  have ts: "arrivals fx_tabs = [?t, ?t]" by (simp add: arrivals_def fx_tabs_def lobby_thread_def numeral_2_eq_2)
  obtain m where m: "lb_hub (snd (solo ?t fx_lobby)) 4 = Some 102" "lb_matches (snd (solo ?t fx_lobby)) = [102 \<mapsto> m]" "seat_humans m = [4]" "unfinished m"
    using fx_bot by blast
  obtain n where n: "interleave (replicate n 0) (fx_lobby, [?t, ?t]) = (snd (solo ?t fx_lobby), [Ret (fst (solo ?t fx_lobby)), ?t])"
    using run_alone [of 0 "[?t, ?t]" ?t fx_lobby] by auto
  define s1 r1 where "s1 = snd (solo ?t fx_lobby)" and "r1 = fst (solo ?t fx_lobby)"
  obtain k where k: "interleave (replicate k 1) (s1, [Ret r1, ?t]) = (snd (solo ?t s1), [Ret r1, Ret (fst (solo ?t s1))])"
    using run_alone [of 1 "[Ret r1, ?t]" ?t s1] by auto
  have "interleave (replicate n 0 @ replicate k 1) (fx_lobby, arrivals fx_tabs) = (snd (solo ?t s1), [Ret r1, Ret (fst (solo ?t s1))])"
    using n k by (simp add: interleave_append ts s1_def r1_def)
  moreover have "lb_hub (snd (solo ?t s1)) 4 = Some 102" "lb_matches (snd (solo ?t s1)) = [102 \<mapsto> m]"
    using fx_refused [of s1] m(1,2) by (simp_all add: s1_def)
  moreover have "list_all done_thread [Ret r1, Ret (fst (solo ?t s1))]" by (simp add: done_thread_def)
  ultimately show ?thesis using m(3,4) by blast
qed

theorem one_duel_per_player_witness:
  "\<exists>sched s ts m. interleave sched (fx_lobby, arrivals fx_tabs) = (s, ts) \<and> lb_matches s 102 = Some m \<and> 4 \<in> set (seat_humans m) \<and> unfinished m
     \<and> {i. case lb_matches s i of Some m' \<Rightarrow> unfinished m' \<and> 4 \<in> set (seat_humans m') | None \<Rightarrow> False} = {102}"
proof -
  obtain sched s ts m where w: "interleave sched (fx_lobby, arrivals fx_tabs) = (s, ts)" "lb_matches s = [102 \<mapsto> m]" "seat_humans m = [4]" "unfinished m"
    using fx_tabs_run by blast
  have only: "i = 102" if "lb_matches s i = Some m'" "unfinished m'" "4 \<in> set (seat_humans m')" for i m'
    by (rule one_duel_per_player [OF _ _ w(1) that(1,2) _ w(4) that(3), of 102]) (simp_all add: w)
  have "(case lb_matches s i of Some m' \<Rightarrow> unfinished m' \<and> 4 \<in> set (seat_humans m') | None \<Rightarrow> False) \<longleftrightarrow> i = 102" for i
  proof
    show "i = 102" if "case lb_matches s i of Some m' \<Rightarrow> unfinished m' \<and> 4 \<in> set (seat_humans m') | None \<Rightarrow> False"
    proof (cases "lb_matches s i")
      case (Some m')
      with that have "unfinished m'" "4 \<in> set (seat_humans m')" by simp_all
      with Some show ?thesis by (rule only)
    qed (use that in simp)
  qed (simp add: w(2-4))
  then show ?thesis using w by (intro exI [of _ sched] exI [of _ s] exI [of _ ts] exI [of _ m]) simp
qed

theorem nobody_stays_in_match_witness:
  "\<exists>sched s ts m. interleave sched (fx_lobby, arrivals fx_tabs) = (s, ts) \<and> list_all done_thread ts \<and> InMatch s 4
     \<and> lb_hub s 4 = Some 102 \<and> lb_matches s 102 = Some m \<and> (unfinished m \<or> \<not> mt_stored m)"
proof -
  obtain sched s ts m where w: "interleave sched (fx_lobby, arrivals fx_tabs) = (s, ts)" "list_all done_thread ts" "lb_hub s 4 = Some 102"
    using fx_tabs_run by blast
  have "InMatch s 4" using w(3) by (simp add: InMatch_def)
  with nobody_stays_in_match [OF _ _ w(1,2) this] w show ?thesis by auto
qed

end
