(* ===== verification/Lobby_Queue.thy ===== *)
theory Lobby_Queue
  imports Lobby_Properties
begin

text \<open>
  Matchmaking: whom \<open>arena_join.lua\<close> pairs a joining player with, and what the search does
  to the others who wait when the joining player has been taken into a duel meanwhile.
\<close>

section \<open>Who is paired\<close>

lemma scan_bucket_find: "fst (scan_bucket self marked ps) = find (\<lambda>p. p \<noteq> self \<and> marked p) ps"
  by (induction ps) (auto split: prod.split)

lemma find_concat: "find P (xs @ ys) = (case find P xs of None \<Rightarrow> find P ys | Some x \<Rightarrow> Some x)"
  by (induction xs) simp_all

text \<open>The closest bucket decides, and in it the longest wait.\<close>

lemma scan_buckets_find:
  "distinct bs \<Longrightarrow> fst (scan_buckets self marked bs q) = find (\<lambda>p. p \<noteq> self \<and> marked p) (concat (map (\<lambda>b. map fst (take 50 (q b))) bs))"
proof (induction bs arbitrary: q)
  case (Cons b bs)
  obtain found gone where one: "scan_bucket self marked (map fst (take 50 (q b))) = (found, gone)"
    by (cases "scan_bucket self marked (map fst (take 50 (q b)))")
  have found: "find (\<lambda>p. p \<noteq> self \<and> marked p) (map fst (take 50 (q b))) = found"
    using scan_bucket_find [of self marked "map fst (take 50 (q b))"] one by simp
  have rest: "map (\<lambda>c. map fst (take 50 ((q(b := r)) c))) bs = map (\<lambda>c. map fst (take 50 (q c))) bs" for r
    using Cons.prems by auto
  show ?case using Cons.IH Cons.prems by (cases found) (simp_all add: one found find_concat Let_def rest del: fun_upd_apply)
qed simp

text \<open>The members of a bucket stay in the order they began to wait in.\<close>

definition by_wait :: "(uuid \<times> int) list \<Rightarrow> bool" where
  "by_wait rows \<longleftrightarrow> sorted (map snd rows) \<and> distinct (map fst rows)"

lemma zrem_by_wait: "by_wait rows \<Longrightarrow> by_wait (zrem p rows)"
  by (simp add: by_wait_def zrem_def sorted_filter distinct_map_filter)

lemma zinsert_set: "set (zinsert p t rows) = insert (p, t) (set rows)"
  by (induction p t rows rule: zinsert.induct) auto

lemma zinsert_sorted: "sorted (map snd rows) \<Longrightarrow> sorted (map snd (zinsert p t rows))"
  by (induction p t rows rule: zinsert.induct) (auto simp: zinsert_set)

lemma zinsert_distinct: "distinct (map fst rows) \<Longrightarrow> p \<notin> fst ` set rows \<Longrightarrow> distinct (map fst (zinsert p t rows))"
  by (induction p t rows rule: zinsert.induct) (auto simp: zinsert_set)

lemma zadd_by_wait: "by_wait rows \<Longrightarrow> by_wait (zadd p t rows)"
proof -
  assume "by_wait rows"
  then have "by_wait (zrem p rows)" by (rule zrem_by_wait)
  moreover have "p \<notin> fst ` set (zrem p rows)" by (auto simp: zrem_def)
  ultimately show ?thesis by (simp add: by_wait_def zadd_def zinsert_sorted zinsert_distinct)
qed

lemma queueSearchKeys_distinct: "distinct (queueSearchKeys b)"
  by (simp add: queueSearchKeys_def SearchBuckets_def MaxSearchSteps_def Let_def second_def go_div_def upto_rec1)

theorem join_pairs_longest_wait:
  "fst (join_script p now clock (queueSearchKeys b) own s)
     = (case find (\<lambda>x. x \<noteq> p \<and> live clock (lb_marker s x) \<noteq> None) (concat (map (\<lambda>k. map fst (take 50 (lb_queue s k))) (queueSearchKeys b))) of
          None \<Rightarrow> Queued (own, now) | Some opp \<Rightarrow> Paired opp)"
proof -
  let ?keys = "queueSearchKeys b" and ?marked = "\<lambda>x. live clock (lb_marker s x) \<noteq> None"
  obtain r q where run: "scan_buckets p ?marked ?keys (lb_queue s) = (r, q)" by (cases "scan_buckets p ?marked ?keys (lb_queue s)")
  have "find (\<lambda>x. x \<noteq> p \<and> ?marked x) (concat (map (\<lambda>k. map fst (take 50 (lb_queue s k))) ?keys)) = r"
    using scan_buckets_find [OF queueSearchKeys_distinct [of b], of p ?marked "lb_queue s"] unfolding run fst_conv ..
  then show ?thesis unfolding join_script_def run by (cases r) (simp_all only: prod.case option.case fst_conv)
qed

lemma join_script_by_wait:
  assumes "\<And>k. by_wait (lb_queue s k)"
  shows "by_wait (lb_queue (snd (join_script p now clock bs own s)) k)"
proof -
  have filtered: "by_wait (filter P rows)" if "by_wait rows" for P :: "uuid \<times> int \<Rightarrow> bool" and rows
    using that by (simp add: by_wait_def sorted_filter distinct_map_filter)
  have scan: "by_wait (snd (scan_buckets p marked bs q) k)" if "\<And>k. by_wait (q k)" for marked q k
    using that
  proof (induction bs arbitrary: q)
    case (Cons b bs)
    then show ?case
      by (cases "scan_bucket p marked (map fst (take 50 (q b)))"; cases "fst (scan_bucket p marked (map fst (take 50 (q b))))")
        (simp_all add: Let_def filtered)
  qed simp
  obtain r q where run: "scan_buckets p (\<lambda>x. live clock (lb_marker s x) \<noteq> None) bs (lb_queue s) = (r, q)"
    by (cases "scan_buckets p (\<lambda>x. live clock (lb_marker s x) \<noteq> None) bs (lb_queue s)")
  have "by_wait (q k)" for k using scan [of "lb_queue s" "\<lambda>x. live clock (lb_marker s x) \<noteq> None" k] assms unfolding run by simp
  then show ?thesis unfolding join_script_def run by (cases r) (simp_all add: zadd_by_wait)
qed

section \<open>A search whose player was taken into a duel meanwhile\<close>

text \<open>The search leaves the hub alone, makes nobody else wait again, and tells nobody but the player.\<close>

definition only_to :: "uuid \<Rightarrow> lobby \<Rightarrow> lobby \<Rightarrow> bool" where
  "only_to p s s' \<longleftrightarrow> lb_hub s' = lb_hub s \<and> (\<forall>q. q \<noteq> p \<longrightarrow> lb_marker s q = None \<longrightarrow> lb_marker s' q = None)
     \<and> (\<exists>msgs. lb_sent s' = lb_sent s @ msgs \<and> fst ` set msgs \<subseteq> {p})"

lemma only_to_refl [simp]: "only_to p s s"
  by (simp add: only_to_def)

lemma only_to_trans: "only_to p s s' \<Longrightarrow> only_to p s' s'' \<Longrightarrow> only_to p s s''"
  unfolding only_to_def by (elim conjE exE, intro conjI; (auto)?)

lemma only_to_send [simp]: "only_to p s (hub_send p m s)"
  by (simp add: only_to_def hub_send_def)

lemma only_to_inMatch: "only_to p s (snd (solo (inMatch e site n q) s))"
  by (simp add: inMatch_def solo_eval only_to_def split: option.split)

lemma only_to_watch: "only_to p s (snd (solo (watchQueueTimeout e p own marker) s))"
  by (simp add: watchQueueTimeout_def solo_eval sendJSON_def only_to_def hub_send_def)

lemma only_to_join: "only_to p s (snd (join_script p now clock bs own s))"
  by (simp add: join_script_def only_to_def split: prod.split option.split)

lemma taken_cannot_start:
  "InMatch s p \<Longrightarrow> solo (startMatch e n ModeRanked p opp) s = (Inl LAlreadyInMatch, s\<lparr>lb_fresh := lb_fresh s + 1\<rparr>)"
  by (simp add: startMatch_def solo_eval claim_def Let_def)

text \<open>One attempt of such a search: it ends, or it drops the opponent it picked and goes on.\<close>

lemma inMatch_answers: "\<exists>busy. fst (solo (inMatch e site n q) s) = Inr busy"
  by (simp add: inMatch_def solo_eval ex_bool_eq split: option.split)

lemma taken_attempt:
  assumes "InMatch s p" and "\<not> le_fails e ''JoinQueue.Eval'' n"
    and "join_script p (lms e ''JoinQueue.now'' n) (lms e ''JoinQueue.Eval'' n) bs own s = (Paired opp, s1)"
  obtains s2 where "only_to p s1 s2" "InMatch s2 p" "solo (join_attempts (Suc n) e p bs own) s = solo (join_attempts n e p bs own) s2"
proof -
  obtain busy s2 where look: "solo (inMatch e ''JoinQueue.inMatch'' n opp) s1 = (Inr busy, s2)"
    using inMatch_answers [of e "''JoinQueue.inMatch''" n opp s1] by (cases "solo (inMatch e ''JoinQueue.inMatch'' n opp) s1") auto
  have one: "InMatch s1 p" using assms(1) join_script_frame(1) [of p _ _ bs own s] assms(3) by (metis InMatch_def snd_conv)
  have two: "only_to p s1 s2" using only_to_inMatch [of p s1 e "''JoinQueue.inMatch''" n opp] look by simp
  then have taken: "InMatch s2 p" using one by (simp add: only_to_def InMatch_def)
  have step: "solo (join_attempts (Suc n) e p bs own) s = solo (join_attempts n e p bs own)
      (if \<not> Alive s1 opp then s1 else if busy then s2 else s2\<lparr>lb_fresh := lb_fresh s2 + 1\<rparr>)"
    using assms(2,3) by (simp add: solo_eval Let_def look taken_cannot_start [OF taken])
  show ?thesis
    by (rule that [OF _ _ step]) (use one two taken in \<open>auto simp: only_to_def InMatch_def\<close>)
qed

lemma taken_search: "InMatch s p \<Longrightarrow> only_to p s (snd (solo (join_attempts n e p bs own) s))"
proof (induction n arbitrary: s)
  case 0
  then show ?case by (simp add: solo_eval errorTo_def sendJSON_def)
next
  case (Suc n)
  show ?case
  proof (cases "le_fails e ''JoinQueue.Eval'' n")
    case ok: False
    obtain r s1 where run: "join_script p (lms e ''JoinQueue.now'' n) (lms e ''JoinQueue.Eval'' n) bs own s = (r, s1)"
      by (cases "join_script p (lms e ''JoinQueue.now'' n) (lms e ''JoinQueue.Eval'' n) bs own s")
    then have one: "only_to p s s1" using only_to_join [of p s "lms e ''JoinQueue.now'' n" "lms e ''JoinQueue.Eval'' n" bs own] by simp
    show ?thesis
    proof (cases r)
      case (Queued marker)
      then have "snd (solo (join_attempts (Suc n) e p bs own) s)
          = snd (solo (watchQueueTimeout e p own marker) (hub_send p (LQueueJoined (lms e ''JoinQueue.now'' n) (lb_online s1)) s1))"
        using ok run by (simp add: solo_eval Let_def sendJSON_def)
      then show ?thesis using only_to_trans [OF only_to_trans [OF one only_to_send] only_to_watch] by simp
    next
      case (Paired opp)
      obtain s2 where s2: "only_to p s1 s2" "InMatch s2 p" "solo (join_attempts (Suc n) e p bs own) s = solo (join_attempts n e p bs own) s2"
        using taken_attempt [OF Suc.prems ok run [unfolded Paired]] .
      show ?thesis unfolding s2(3) by (rule only_to_trans [OF only_to_trans [OF one s2(1)] Suc.IH [OF s2(2)]])
    qed
  qed (simp add: solo_eval Let_def)
qed

text \<open>
  C35: A player who joins the queue in one tab while another tab takes them into a duel: the waiting opponent their search
  picks loses its place and its marker, no duel starts, and it is told nothing, so it waits for a search that is over.
\<close>

theorem join_strands_waiter:
  assumes "InMatch s p" and "fst (join_script p (lms e ''JoinQueue.now'' n) (lms e ''JoinQueue.Eval'' n) bs own s) = Paired opp"
    and "\<not> le_fails e ''JoinQueue.Eval'' n" and "solo (join_attempts (Suc n) e p bs own) s = (r, s')"
  shows "lb_marker s' opp = None \<and> lb_hub s' = lb_hub s \<and> (\<exists>msgs. lb_sent s' = lb_sent s @ msgs \<and> opp \<notin> fst ` set msgs)"
proof -
  obtain s1 where run: "join_script p (lms e ''JoinQueue.now'' n) (lms e ''JoinQueue.Eval'' n) bs own s = (Paired opp, s1)"
    using assms(2) by (cases "join_script p (lms e ''JoinQueue.now'' n) (lms e ''JoinQueue.Eval'' n) bs own s") simp
  have other: "opp \<noteq> p" by (rule join_script_frame(4) [OF assms(2)])
  have all: "only_to p s s'" using taken_search [OF assms(1), of "Suc n" e bs own] unfolding assms(4) by simp
  then obtain msgs where silent: "lb_hub s' = lb_hub s" "lb_sent s' = lb_sent s @ msgs" "opp \<notin> fst ` set msgs"
    using other unfolding only_to_def by blast
  obtain s2 where s2: "only_to p s1 s2" "InMatch s2 p" "solo (join_attempts (Suc n) e p bs own) s = solo (join_attempts n e p bs own) s2"
    using taken_attempt [OF assms(1,3) run] .
  have "only_to p s1 s'" using only_to_trans [OF s2(1) taken_search [OF s2(2), of n e bs own]] assms(4) unfolding s2(3) by simp
  moreover have "lb_marker s1 opp = None" using run by (auto simp: join_script_def split: prod.splits option.splits)
  ultimately have "lb_marker s' opp = None" using other by (simp add: only_to_def)
  then show ?thesis using silent by blast
qed

text \<open>Player 7 waits in bucket 10, player 4 has just been taken into duel 9.\<close>

definition fx_waiting :: lobby where
  "fx_waiting = fx_lobby\<lparr>lb_hub := [4 \<mapsto> 9], lb_queue := (\<lambda>b. if b = 10 then [(7, 0)] else []), lb_marker := [7 \<mapsto> ((10, 0), 120000)]\<rparr>"

definition fx_stranded :: lobby where
  "fx_stranded = snd (solo (join_attempts 8 fx_lobby_env 4 (queueSearchKeys 10) 10) fx_waiting)"

theorem join_strands_waiter_witness:
  "Alive fx_waiting 7 \<and> lb_marker fx_waiting 7 = Some ((10, 0), 120000) \<and> lb_marker fx_stranded 7 = None \<and> lb_hub fx_stranded 7 = None
     \<and> (\<exists>msgs. lb_sent fx_stranded = msgs \<and> 7 \<notin> fst ` set msgs)"
proof -
  have paired: "fst (join_script 4 (lms fx_lobby_env ''JoinQueue.now'' 7) (lms fx_lobby_env ''JoinQueue.Eval'' 7) (queueSearchKeys 10) 10 fx_waiting) = Paired 7"
    unfolding join_pairs_longest_wait
    by (simp add: fx_waiting_def live_def queueSearchKeys_def SearchBuckets_def MaxSearchSteps_def Let_def second_def go_div_def upto_rec1)
  have "InMatch fx_waiting 4" "lb_sent fx_waiting = []" "lb_hub fx_waiting 7 = None" "Alive fx_waiting 7" "lb_marker fx_waiting 7 = Some ((10, 0), 120000)"
    by (simp_all add: fx_waiting_def InMatch_def Alive_def fx_lobby_def)
  then show ?thesis
    using join_strands_waiter [OF _ paired, of "fst (solo (join_attempts 8 fx_lobby_env 4 (queueSearchKeys 10) 10) fx_waiting)" fx_stranded]
    by (simp add: fx_stranded_def)
qed

end
