(* ===== verification/Spec2Isabelle.thy ===== *)
theory Spec2Isabelle
  imports Payme_Properties Click_Properties Promo_Properties Wallet_Properties Grant_Properties
    Checkout_Properties Manual_Properties Learning_Properties Session_Properties Variant_Properties Practice_Properties
    Arena_Views Arena_Results Code_Properties Login_Properties Reset_Properties Lobby_Queue
begin

text \<open>
  Verification of the avtotest.uz backend (\<open>src/backend/internal\<close>), a Go service for driving-test
  preparation: learners sign in by phone, password or Telegram, take tickets, exams and spaced-repetition reviews, duel
  each other, and pay for VIP access through Payme, Click or a card transfer.

  \<^bold>\<open>The program.\<close> Every operation is a Go method that reads and writes PostgreSQL through sqlc statements,
  mostly inside one transaction. Four groups of components are modelled. The billing side: the Payme and Click
  webhooks (\<open>billing/payme\<close>, \<open>billing/click\<close>), checkout, promo codes, manual card transfers, entitlements,
  referral rewards and the referral wallet (\<open>billing/*.go\<close>, parts of \<open>admin/\<close>). The learning side: the exam engine
  (\<open>session/\<close>), spaced repetition (\<open>learning/\<close>) and streaks (\<open>progress/\<close>). The learning side reads the billing
  side in one place, \<open>billing.Service.Status\<close>, which decides what a VIP may start. The arena (\<open>arena/\<close>): live duels
  between two players, each match a state machine with one writer, whose end updates ratings in Redis and writes
  answers, reviews and streaks through the learning side; the lobby in front of it pairs players through a queue in Redis,
  invitations and a practice bot. The identity side (\<open>auth/\<close>): one-time codes, passwords, refresh tokens that rotate, the login and
  the password reset through the Telegram bot, the Mini App sign-in. It credits referrals through the billing side.

  \<^bold>\<open>How the code is modelled.\<close> A table is the list of its rows in insertion order and the database a record of
  tables (\<open>billing_db\<close>, \<open>manual_db\<close> and \<open>study_db\<close>, the latter two containing the former). Each sqlc statement is one
  definition with the statement's name; unique indexes and checks make it return \<open>Inl (Sql UniqueViolation)\<close> or
  \<open>Inl (Sql CheckViolation)\<close>. An operation takes an environment \<open>env\<close> (which statement fails, what the clocks say,
  which row an unordered \<open>LIMIT 1\<close> picks, the fresh id) and returns an error or a result, with the database after
  it. \<open>run_tx\<close> is \<open>Begin\<close>, body, \<open>Commit\<close>: an error anywhere gives the old database back. PostgreSQL refuses
  every statement after a failed one in a transaction; where the code ignores such a failure and goes on (a duplicate
  referral at checkout, \<open>in_aborted\<close>; a duplicate commission or clawback) the definitions let what follows fail. Early returns are the
  branches of the definition, in the code's order. Numbers are unbounded \<open>int\<close> where the code cannot
  overflow on values the tables admit, and \<open>wrap64\<close> or \<open>wrap32\<close> where a conversion or a product can.
  Errors of the code are constructors of \<open>billing_err\<close>, or the provider's own codes. The identity side has a
  sequencing of its own (\<open>abind\<close>, \<open>exec\<close>) that also threads the Redis keys, and the lobby is made of threads
  (\<open>Arena_Lobby\<close>): see Concurrency below.

  \<^bold>\<open>Theories.\<close>
  \<^item> \<open>Prelude\<close>: tables (\<open>upd_where\<close>, \<open>select_one\<close>), strings and decimal numerals, result sequencing, Go arithmetic.
  \<^item> \<open>Billing_Store\<close>: the billing rows and the statements of \<open>billing.sql.go\<close>, \<open>referral*.sql.go\<close>, \<open>auth.sql.go\<close>.
  \<^item> \<open>Promo\<close>, \<open>Wallet\<close>, \<open>Entitlement\<close>: \<open>promo.go\<close>, \<open>wallet.go\<close> and the admin payout handlers, \<open>entitlement.go\<close>
    and \<open>referral.go\<close>. Their properties are in \<open>Promo_Properties\<close> (limits of codes, pro-rating, the round trip of
    the proration note), \<open>Wallet_Properties\<close> (the ledger balances), \<open>Grant_Properties\<close> (stacking of grants, one
    reward per referral, what a refund can miss).
  \<^item> \<open>Settlement\<close>: a locale for an operation that settles an order under a row lock and grants it, with the
    exactly-once theorem proved once; interpreted by Payme's \<open>performTransaction\<close>, Click's \<open>confirmAndGrant\<close> and
    the manual \<open>ConfirmManualPayment\<close>.
  \<^item> \<open>Payme\<close>, \<open>Payme_Correct\<close>, \<open>Payme_Properties\<close>: the six JSON-RPC methods and the transport; the reachable
    states' invariant next to whatever else grants orders (\<open>payme_reach\<close>), effect, atomicity, replays, refunds, the life cycle as a refinement of a four-state machine.
  \<^item> \<open>Click\<close>, \<open>Click_Correct\<close>, \<open>Click_Properties\<close>: Prepare and Complete with the signature; between their statements
    others may run (\<open>interference\<close>), \<open>click_run\<close> is every such history and \<open>click_ok\<close> what each statement keeps.
  \<^item> \<open>Checkout\<close>, \<open>Checkout_Properties\<close>: \<open>checkout.go\<close>, \<open>provider_status.go\<close>: what an order contains.
  \<^item> \<open>Manual_Pay\<close>, \<open>Manual_Properties\<close>: \<open>manual_pay.go\<close> and voiding: exactly-once confirmation, unambiguous matching
    of bank pushes, paid is final.
  \<^item> \<open>Study_Store\<close>: rows and statements of the learning side (\<open>session.sql.go\<close>, \<open>learning.sql.go\<close>, ...).
  \<^item> \<open>Learning\<close>, \<open>Learning_Properties\<close>: \<open>learning/service.go\<close>, \<open>progress/\<close>: the due queue terminates with the right
    questions, streaks count runs of days.
  \<^item> \<open>Session\<close>, \<open>Session_Run\<close>: \<open>rules.go\<close>, \<open>service.go\<close>, \<open>ordered_practice.go\<close>, \<open>expire.go\<close>, \<open>memorize.go\<close>.
    \<open>Session_Properties\<close>: \<open>session_step\<close> is any operation on the session tables; its invariant (scores, verdicts, error
    budget), finality of finished sessions, deadlines, idempotent finishing. \<open>Variant_Properties\<close>: the ticket grid
    against the gate, and the reset. \<open>Practice_Properties\<close>: non-interference of the answer key, agreement of the
    two disclosure endpoints, the daily allowance and the practice cursor.
  \<^item> \<open>Arena_Rules\<close>, \<open>Arena_Match\<close>: \<open>rules.go\<close>, \<open>match.go\<close>, and \<open>EloStore\<close> and \<open>FinishPersist\<close> of \<open>arena/service.go\<close>. A
    match is a record; a handler a function of it, what it sends is appended to \<open>mt_sent\<close>; \<open>Run\<close> folds the handlers over
    the inputs (events and timer ticks) the loop receives. \<open>Arena_Properties\<close>: the invariant, finality of verdicts, a
    weight that every due tick lowers, hence 4n + 1 ticks suffice. \<open>Arena_Views\<close>: a two-run simulation, the opponent's
    verdicts cannot be read off the messages. \<open>Arena_Results\<close>: the retry loop settles a duel at most once, and
    never ends when seven attempts fail; ELO is zero-sum, invite codes survive typing.
  \<^item> \<open>Arena_Lobby\<close>: \<open>service.go\<close>, \<open>hub.go\<close>, \<open>arena_join.lua\<close>: tickets, the gate, the queue, invitations, the bot, the start of a
    match and what is taken down at its end. \<open>Lobby_Logic\<close>: a thread owns hub entries and matches; a step may change only what its
    thread owns, and what is owned is disjoint, so an invariant of each thread is one of the pool. \<open>Lobby_Properties\<close>: every request is
    such a thread, hence nobody is in two duels, and only the players of a duel that could not be stored stay marked as playing. \<open>Lobby_Queue\<close>: the Lua script pairs
    the longest wait in the closest bucket, buckets stay ordered by waiting time, and a search that strands those it picks.
  \<^item> \<open>Rate_Limit\<close>: \<open>auth/ratelimit.go\<close>; at most twice the limit in any window.
  \<^item> \<open>Auth_Store\<close>, \<open>Auth\<close>: the rows and statements of \<open>auth.sql.go\<close>, \<open>telegram*.sql.go\<close>, \<open>password_reset.sql.go\<close>, and
    \<open>auth/service.go\<close>, \<open>code.go\<close>, \<open>phone.go\<close>, \<open>password.go\<close>. \<open>Telegram_Payload\<close>, \<open>Telegram_Login\<close>, \<open>Password_Reset\<close>:
    \<open>telegram_webapp.go\<close> and \<open>telegram_webapp_login.go\<close>, \<open>telegram_login.go\<close>, \<open>password_reset.go\<close>.
  \<^item> \<open>Auth_Logic\<close>: rules for what every request keeps between any two of its steps. \<open>Refresh_Properties\<close>: a refresh token has
    one successor. \<open>Session_Security\<close>: a ban stops new tokens for every request that begins after it, a replay revokes all. \<open>Code_Properties\<close>: five guesses, and the race on a
    code. \<open>Login_Logic\<close>, \<open>Login_Properties\<close>: locales for facts about the table of login requests; a login completes once and belongs to
    its first opener. \<open>Reset_Properties\<close>: what a completed reset was and does. \<open>Auth_Fixtures\<close>: their concrete states.
  \<^item> \<open>Fixtures\<close> and the \<open>fx_\<close> definitions: concrete databases on which the theorems' hypotheses hold.

  \<^bold>\<open>Termination.\<close> Every definition is total. Two loops are no recursion over a list: the round-robin
  of \<open>NextDue\<close> (\<open>due_loop\<close>), a \<open>function\<close> whose measure is the number of questions not yet handed out, and the loop that
  stores a duel (\<open>finish_loop\<close>), whose measure is the time left of its context; it is \<open>None\<close> exactly when that time is over before an
  attempt succeeded, where the loop of the code goes on for ever without an effect. The search for a
  free manual amount is bounded by \<open>manualAmountSlots\<close> as in the code. There is no fuel.

  \<^bold>\<open>Arguments that stand for code outside the model.\<close> JSON and form decoding, uuid and float parsing, MD5,
  SHA-256, HMAC, bcrypt, AES-GCM, the signer of access tokens, random bytes, the bank-message parser, the FSRS formulas and the readiness percentage (\<open>float64\<close>), the
  B2B licence answer, the random share code, the questions drawn for a duel. Nothing is assumed of them except where a theorem says so.

  \<^bold>\<open>Concurrency.\<close> On the billing and learning sides transactions are atomic steps in any order. This is what
  the row locks (\<open>SELECT ... FOR UPDATE\<close>) of the settling operations provide. A Click request is several statements and
  transactions; its definitions take what others do between them as an argument. Where the code takes no lock
  (\<open>rejectTransaction\<close> of Click) the manifest records the race as a finding. On the identity side a request is several
  steps (a transaction, a statement or a Redis command each) and other requests run whole between two of them
  (\<open>av_others\<close>), as many and as deep as one likes. In the lobby a request is a tree of atomic steps, \<open>interleave\<close> runs a pool of them by
  any schedule, and the theorems hold for every pool and schedule; there is no fuel there either, a schedule is a list.

  \<^bold>\<open>Not modelled.\<close> HTTP routing and JSON of all endpoints, JWT and its middleware, the grouping of IPv6 clients in rate limits, avatars
  and account reads, the conversation of the Telegram bot around the modelled login and reset, daily reminders, broadcasts and push, the
  sockets of the arena and its shutdown, the Redis leaderboard, B2B administration, content import, support chat, and the admin
  reports: I/O around external services, or CRUD without rules of its own. The statistics of readiness and the FSRS formulas are
  floating point, the option shuffle and the parser of bank messages rest on library regular expressions. Context cancellation and statement
  timeouts (other than the ten seconds of a duel's step) and the background tickers that only call modelled operations are left out.

  \<^bold>\<open>What could follow.\<close> Readiness statistics and the FSRS formulas over the reals, the demo migration, the parser of bank
  messages, and B2B licence counting.
\<close>

end
